(* ===== verification/Prelude.thy ===== *)
theory Prelude
  imports Complex_Main "HOL-Library.AList" "HOL-Library.Char_ord" "HOL-Library.List_Lexorder"
    "HOL-Library.Product_Lexorder" "HOL-Library.Multiset"
begin

text \<open>
  What every component shares: identifiers and times, Python dictionaries (association lists
  in insertion order), operations that read and write a state and may raise (a state with
  exceptions), the rules that carry invariants through them, and the interfaces:
  a dictionary-backed store (\<open>keyed_store\<close>), a state machine with terminal states
  (\<open>state_machine\<close>) and one whose runs are bounded (\<open>ranked_machine\<close>).

  A UUID is represented by its canonical text, so \<open>str(u)\<close> is the identity. A datetime is
  an integer number of microseconds (the resolution of Python's \<open>datetime\<close>); a clock reading
  is an argument of the operation that makes it. Python floats are exact rationals here.
\<close>

type_synonym uuid = string
type_synonym datetime = int

definition elapsed_ms :: "datetime \<Rightarrow> datetime \<Rightarrow> rat" where
  "elapsed_ms now t = of_int (now - t) / 1000"

lemma elapsed_ms_mono: "now \<le> now' \<Longrightarrow> elapsed_ms now t \<le> elapsed_ms now' t"
  by (simp add: elapsed_ms_def divide_right_mono)

lemma elapsed_ms_antimono: "t \<le> t' \<Longrightarrow> elapsed_ms now t' \<le> elapsed_ms now t"
  by (simp add: elapsed_ms_def divide_right_mono)

lemma elapsed_ms_self [simp]: "elapsed_ms t t = 0"
  by (simp add: elapsed_ms_def)

section \<open>Dictionaries\<close>

text \<open>
  A Python \<open>dict\<close> keeps its insertion order, and storing under a key it already has keeps the
  key's place: \<open>AList.update\<close> does both.
\<close>

type_synonym ('k, 'v) dict = "('k \<times> 'v) list"

abbreviation dict_get :: "('k, 'v) dict \<Rightarrow> 'k \<Rightarrow> 'v option" where
  "dict_get \<equiv> map_of"

abbreviation dict_set :: "'k \<Rightarrow> 'v \<Rightarrow> ('k, 'v) dict \<Rightarrow> ('k, 'v) dict" where
  "dict_set \<equiv> AList.update"

abbreviation dict_del :: "'k \<Rightarrow> ('k, 'v) dict \<Rightarrow> ('k, 'v) dict" where
  "dict_del \<equiv> AList.delete"

abbreviation dict_keys :: "('k, 'v) dict \<Rightarrow> 'k list" where
  "dict_keys \<equiv> map fst"

abbreviation dict_values :: "('k, 'v) dict \<Rightarrow> 'v list" where
  "dict_values \<equiv> map snd"

definition wf_dict :: "('k, 'v) dict \<Rightarrow> bool" where
  "wf_dict d \<longleftrightarrow> distinct (dict_keys d)"

lemma wf_dict_Nil [simp]: "wf_dict []"
  by (simp add: wf_dict_def)

lemma wf_dict_set [simp]: "wf_dict d \<Longrightarrow> wf_dict (dict_set k v d)"
  by (simp add: wf_dict_def distinct_update)

lemma wf_dict_del [simp]: "wf_dict d \<Longrightarrow> wf_dict (dict_del k d)"
  by (simp add: wf_dict_def distinct_delete)

lemma dict_get_set [simp]: "dict_get (dict_set k v d) = (dict_get d)(k \<mapsto> v)"
  by (rule update_conv')

lemma dict_get_del [simp]: "dict_get (dict_del k d) = (dict_get d)(k := None)"
  by (rule delete_conv')

lemma dict_set_fresh: "dict_get d k = None \<Longrightarrow> dict_set k v d = d @ [(k, v)]"
  by (induction d) (auto split: if_splits)

lemma dict_value_iff:
  "wf_dict d \<Longrightarrow> v \<in> set (dict_values d) \<longleftrightarrow> (\<exists>k. dict_get d k = Some v)"
  by (force simp: wf_dict_def)

lemma dict_item_iff: "wf_dict d \<Longrightarrow> (k, v) \<in> set d \<longleftrightarrow> dict_get d k = Some v"
  by (simp add: wf_dict_def)

text \<open>
  A sum over the values of a dictionary changes, when one value is stored, by the difference
  of the two values: the accounting lemma behind every counter over a store.
\<close>

lemma sum_list_dict_set:
  fixes f :: "'v \<Rightarrow> nat"
  assumes "wf_dict d" and "dict_get d k = Some v"
  shows "sum_list (map f (dict_values (dict_set k w d))) + f v = sum_list (map f (dict_values d)) + f w"
  using assms
proof (induction d)
  case Nil
  then show ?case by simp
next
  case (Cons p d)
  then show ?case
    by (cases "fst p = k") (auto simp: wf_dict_def)
qed

lemma sum_list_dict_set_fresh:
  fixes f :: "'v \<Rightarrow> nat"
  assumes "dict_get d k = None"
  shows "sum_list (map f (dict_values (dict_set k w d))) = sum_list (map f (dict_values d)) + f w"
  using assms by (simp add: dict_set_fresh)

lemma length_filter_sum: "length (filter P xs) = sum_list (map (\<lambda>x. if P x then 1 else 0) xs)"
  by (induction xs) auto

lemma sum_list_le_member:
  fixes f :: "'a \<Rightarrow> nat"
  shows "x \<in> set xs \<Longrightarrow> f x \<le> sum_list (map f xs)"
  by (induction xs) auto

section \<open>Lists\<close>

lemma filter_idem [simp]: "filter P (filter P xs) = filter P xs"
  by (induction xs) auto

lemma distinct_map_filterI: "distinct (map f xs) \<Longrightarrow> distinct (map f (filter P xs))"
  by (rule distinct_map_filter)

lemma sort_key_Cons_hd:
  assumes "xs \<noteq> []"
  shows "hd (sort_key f xs) \<in> set xs" and "\<forall>x \<in> set xs. f (hd (sort_key f xs)) \<le> f x"
proof -
  from assms have "sort_key f xs \<noteq> []"
    by (metis length_0_conv length_sort)
  then obtain y ys where y: "sort_key f xs = y # ys"
    by (cases "sort_key f xs") auto
  then have mem: "set xs = insert y (set ys)"
    by (metis list.simps(15) set_sort)
  with y show "hd (sort_key f xs) \<in> set xs" by simp
  have "sorted (map f (y # ys))"
    using sorted_sort_key [of f xs] by (simp add: y)
  with mem y show "\<forall>x \<in> set xs. f (hd (sort_key f xs)) \<le> f x" by auto
qed

lemma sort_key_sorted: "sorted (map f xs) \<Longrightarrow> sort_key f xs = xs"
  by (simp add: sort_key_id_if_sorted)

section \<open>Texts\<close>

text \<open>\<open>str\<close> of an integer, \<open>str.isspace\<close> and \<open>str.strip\<close>.\<close>

fun show_nat :: "nat \<Rightarrow> string" where
  "show_nat n = (if n < 10 then [char_of (48 + n)] else show_nat (n div 10) @ [char_of (48 + n mod 10)])"

declare show_nat.simps [simp del]

definition show_int :: "int \<Rightarrow> string" where
  "show_int i = (if i < 0 then CHR ''-'' # show_nat (nat (- i)) else show_nat (nat i))"

definition is_space :: "char \<Rightarrow> bool" where
  "is_space c \<longleftrightarrow> c \<in> {CHR '' '', CHR 9, CHR 10, CHR 11, CHR 12, CHR 13, CHR 28, CHR 29,
     CHR 30, CHR 31, CHR 133, CHR 160}"

definition strip :: "string \<Rightarrow> string" where
  "strip s = rev (dropWhile is_space (rev (dropWhile is_space s)))"

section \<open>Operations with a state and exceptions\<close>

text \<open>
  A method that reads and writes the object's state and may raise. The state survives a raise:
  what the method wrote before raising stays written, as in Python.
\<close>

type_synonym ('s, 'e, 'a) op = "'s \<Rightarrow> ('e + 'a) \<times> 's"

definition return_op :: "'a \<Rightarrow> ('s, 'e, 'a) op" where
  "return_op a s = (Inr a, s)"

definition raise_op :: "'e \<Rightarrow> ('s, 'e, 'a) op" where
  "raise_op e s = (Inl e, s)"

definition bind_op :: "('s, 'e, 'a) op \<Rightarrow> ('a \<Rightarrow> ('s, 'e, 'b) op) \<Rightarrow> ('s, 'e, 'b) op" where
  "bind_op m f s = (case m s of (Inl e, t) \<Rightarrow> (Inl e, t) | (Inr a, t) \<Rightarrow> f a t)"

definition then_op :: "('s, 'e, unit) op \<Rightarrow> ('s, 'e, 'b) op \<Rightarrow> ('s, 'e, 'b) op" where
  "then_op m n = bind_op m (\<lambda>_. n)"

definition gets_op :: "('s \<Rightarrow> 'a) \<Rightarrow> ('s, 'e, 'a) op" where
  "gets_op f s = (Inr (f s), s)"

definition modify_op :: "('s \<Rightarrow> 's) \<Rightarrow> ('s, 'e, unit) op" where
  "modify_op f s = (Inr (), f s)"

definition catch_op :: "('s, 'e, 'a) op \<Rightarrow> ('e \<Rightarrow> ('s, 'e, 'a) op) \<Rightarrow> ('s, 'e, 'a) op" where
  "catch_op m h s = (case m s of (Inl e, t) \<Rightarrow> h e t | (Inr a, t) \<Rightarrow> (Inr a, t))"

definition zoom_op :: "('s \<Rightarrow> 't) \<Rightarrow> ('t \<Rightarrow> 's \<Rightarrow> 's) \<Rightarrow> ('t, 'e, 'a) op \<Rightarrow> ('s, 'e, 'a) op" where
  "zoom_op get put m s = (case m (get s) of (r, t) \<Rightarrow> (r, put t s))"

primrec iter_op :: "('x \<Rightarrow> ('s, 'e, unit) op) \<Rightarrow> 'x list \<Rightarrow> ('s, 'e, unit) op" where
  "iter_op f [] = return_op ()"
| "iter_op f (x # xs) = then_op (f x) (iter_op f xs)"

primrec map_op :: "('x \<Rightarrow> ('s, 'e, 'a) op) \<Rightarrow> 'x list \<Rightarrow> ('s, 'e, 'a list) op" where
  "map_op f [] = return_op []"
| "map_op f (x # xs) = bind_op (f x) (\<lambda>a. bind_op (map_op f xs) (\<lambda>as. return_op (a # as)))"

named_theorems op_defs \<open>the definitions that evaluate an operation on a state\<close>

lemmas op_basic [op_defs] =
  return_op_def raise_op_def bind_op_def then_op_def gets_op_def modify_op_def catch_op_def
  zoom_op_def

lemma bind_return [simp]: "bind_op (return_op a) f = f a"
  by (rule ext) (simp add: op_defs)

lemma bind_assoc: "bind_op (bind_op m f) g = bind_op m (\<lambda>a. bind_op (f a) g)"
  by (rule ext) (simp add: op_defs split: prod.splits sum.splits)

lemma then_assoc: "then_op (then_op m n) p = then_op m (then_op n p)"
  by (simp add: then_op_def bind_assoc)

lemma bind_raise [simp]: "bind_op (raise_op e) f = raise_op e"
  by (rule ext) (simp add: op_defs)

subsection \<open>Invariants of operations\<close>

text \<open>
  \<open>preserves I m\<close>: from a state with \<open>I\<close>, the operation ends in a state with \<open>I\<close>, whether it
  returns or raises. The collection \<open>preserves_intros\<close> has one rule per combinator.
\<close>

definition preserves :: "('s \<Rightarrow> bool) \<Rightarrow> ('s, 'e, 'a) op \<Rightarrow> bool" where
  "preserves I m \<longleftrightarrow> (\<forall>s. I s \<longrightarrow> I (snd (m s)))"

named_theorems preserves_intros \<open>invariant rules, one per operation combinator\<close>

lemma preservesI: "(\<And>s. I s \<Longrightarrow> I (snd (m s))) \<Longrightarrow> preserves I m"
  by (simp add: preserves_def)

lemma preservesD: "preserves I m \<Longrightarrow> I s \<Longrightarrow> I (snd (m s))"
  by (simp add: preserves_def)

lemma preserves_return [preserves_intros]: "preserves I (return_op a)"
  by (simp add: preserves_def op_defs)

lemma preserves_raise [preserves_intros]: "preserves I (raise_op e)"
  by (simp add: preserves_def op_defs)

lemma preserves_gets [preserves_intros]: "preserves I (gets_op f)"
  by (simp add: preserves_def op_defs)

lemma preserves_bind [preserves_intros]:
  "preserves I m \<Longrightarrow> (\<And>a. preserves I (f a)) \<Longrightarrow> preserves I (bind_op m f)"
proof (rule preservesI)
  fix s assume "preserves I m" and f: "\<And>a. preserves I (f a)" and "I s"
  then have "I (snd (m s))" by (simp add: preserves_def)
  with f show "I (snd (bind_op m f s))"
    by (cases "m s") (auto simp: bind_op_def preserves_def split: sum.split)
qed

lemma preserves_then [preserves_intros]:
  "preserves I m \<Longrightarrow> preserves I n \<Longrightarrow> preserves I (then_op m n)"
  by (simp add: then_op_def preserves_bind)

lemma preserves_catch [preserves_intros]:
  "preserves I m \<Longrightarrow> (\<And>e. preserves I (h e)) \<Longrightarrow> preserves I (catch_op m h)"
proof (rule preservesI)
  fix s assume "preserves I m" and h: "\<And>e. preserves I (h e)" and "I s"
  then have "I (snd (m s))" by (simp add: preserves_def)
  with h show "I (snd (catch_op m h s))"
    by (cases "m s") (auto simp: catch_op_def preserves_def split: sum.split)
qed

lemma preserves_modify: "(\<And>s. I s \<Longrightarrow> I (f s)) \<Longrightarrow> preserves I (modify_op f)"
  by (simp add: preserves_def op_defs)

lemma preserves_if [preserves_intros]:
  "(b \<Longrightarrow> preserves I m) \<Longrightarrow> (\<not> b \<Longrightarrow> preserves I n) \<Longrightarrow> preserves I (if b then m else n)"
  by simp

lemma preserves_case_option [preserves_intros]:
  "(x = None \<Longrightarrow> preserves I m) \<Longrightarrow> (\<And>a. x = Some a \<Longrightarrow> preserves I (f a)) \<Longrightarrow>
   preserves I (case x of None \<Rightarrow> m | Some a \<Rightarrow> f a)"
  by (cases x) auto

lemma preserves_iter [preserves_intros]:
  "(\<And>x. preserves I (f x)) \<Longrightarrow> preserves I (iter_op f xs)"
  by (induction xs) (auto intro: preserves_intros)

lemma preserves_map [preserves_intros]:
  "(\<And>x. preserves I (f x)) \<Longrightarrow> preserves I (map_op f xs)"
  by (induction xs) (auto intro: preserves_intros)

lemma preserves_conj:
  "preserves I m \<Longrightarrow> preserves J m \<Longrightarrow> preserves (\<lambda>s. I s \<and> J s) m"
  by (simp add: preserves_def)

definition within_rel :: "('s \<Rightarrow> 's \<Rightarrow> bool) \<Rightarrow> ('s, 'e, 'a) op \<Rightarrow> bool" where
  "within_rel R m \<longleftrightarrow> (\<forall>s. R s (snd (m s)))"

lemma within_relI: "(\<And>s. R s (snd (m s))) \<Longrightarrow> within_rel R m"
  by (simp add: within_rel_def)

lemma within_relD: "within_rel R m \<Longrightarrow> R s (snd (m s))"
  by (simp add: within_rel_def)

section \<open>Interfaces\<close>

subsection \<open>How a state may change\<close>

text \<open>
  A reflexive and transitive relation between the states before and after. An operation built
  from steps within the relation is within it, whether it returns or raises.
\<close>

locale step_relation =
  fixes R :: "'s \<Rightarrow> 's \<Rightarrow> bool"
  assumes R_refl: "R s s"
    and R_trans: "R s t \<Longrightarrow> R t u \<Longrightarrow> R s u"
begin

lemma within_return: "within_rel R (return_op a)"
  by (simp add: within_rel_def op_defs R_refl)

lemma within_raise: "within_rel R (raise_op e)"
  by (simp add: within_rel_def op_defs R_refl)

lemma within_gets: "within_rel R (gets_op f)"
  by (simp add: within_rel_def op_defs R_refl)

lemma within_bind:
  assumes "within_rel R m" and "\<And>a. within_rel R (f a)"
  shows "within_rel R (bind_op m f)"
proof (rule within_relI)
  fix s
  have "R s (snd (m s))" using assms(1) by (rule within_relD)
  moreover have "R (snd (m s)) (snd (f a (snd (m s))))" for a
    using assms(2) by (rule within_relD)
  ultimately show "R s (snd (bind_op m f s))"
    by (cases "m s") (auto simp: bind_op_def intro: R_trans split: sum.split)
qed

lemma within_then: "within_rel R m \<Longrightarrow> within_rel R n \<Longrightarrow> within_rel R (then_op m n)"
  by (simp add: then_op_def within_bind)

lemma within_catch:
  assumes "within_rel R m" and "\<And>e. within_rel R (h e)"
  shows "within_rel R (catch_op m h)"
proof (rule within_relI)
  fix s
  have "R s (snd (m s))" using assms(1) by (rule within_relD)
  moreover have "R (snd (m s)) (snd (h e (snd (m s))))" for e
    using assms(2) by (rule within_relD)
  ultimately show "R s (snd (catch_op m h s))"
    by (cases "m s") (auto simp: catch_op_def intro: R_trans split: sum.split)
qed

lemma within_if:
  "(b \<Longrightarrow> within_rel R m) \<Longrightarrow> (\<not> b \<Longrightarrow> within_rel R n) \<Longrightarrow> within_rel R (if b then m else n)"
  by simp

lemma within_option:
  "within_rel R m \<Longrightarrow> (\<And>a. within_rel R (f a)) \<Longrightarrow>
   within_rel R (case x of None \<Rightarrow> m | Some a \<Rightarrow> f a)"
  by (cases x) auto

lemma within_sum:
  "(\<And>a. within_rel R (f a)) \<Longrightarrow> (\<And>b. within_rel R (g b)) \<Longrightarrow>
   within_rel R (case x of Inl a \<Rightarrow> f a | Inr b \<Rightarrow> g b)"
  by (cases x) auto

lemma within_prod: "(\<And>a b. within_rel R (f a b)) \<Longrightarrow> within_rel R (case p of (a, b) \<Rightarrow> f a b)"
  by (cases p) simp

lemmas within_basic =
  within_return within_raise within_gets within_bind within_then within_catch within_if
  within_option within_sum within_prod

lemma within_map: "(\<And>x. within_rel R (f x)) \<Longrightarrow> within_rel R (map_op f xs)"
  by (induction xs) (auto intro: within_basic)

lemma within_iter: "(\<And>x. within_rel R (f x)) \<Longrightarrow> within_rel R (iter_op f xs)"
  by (induction xs) (auto intro: within_basic)

lemmas within_intros = within_basic within_map within_iter

lemma within_run:
  assumes "(\<lambda>s t. \<exists>m \<in> M. t = snd (m s))\<^sup>*\<^sup>* s t" and "\<And>m. m \<in> M \<Longrightarrow> within_rel R m"
  shows "R s t"
  using assms(1)
  by (induction rule: rtranclp.induct)
    (auto intro: R_refl R_trans within_relD [OF assms(2)])

end

subsection \<open>Dictionary-backed stores\<close>

text \<open>
  The registries of the platform (requests, models, backends, batch members) are each a
  dictionary behind a get, a put and a remove. A client relies on the four laws.
\<close>

locale keyed_store =
  fixes lookup :: "'st \<Rightarrow> 'k \<Rightarrow> 'v option"
    and put :: "'k \<Rightarrow> 'v \<Rightarrow> 'st \<Rightarrow> 'st"
    and remove :: "'k \<Rightarrow> 'st \<Rightarrow> 'st"
    and keys :: "'st \<Rightarrow> 'k list"
    and ok :: "'st \<Rightarrow> bool"
  assumes lookup_put: "lookup (put k v s) = (lookup s)(k \<mapsto> v)"
    and lookup_remove: "lookup (remove k s) = (lookup s)(k := None)"
    and keys_lookup: "k \<in> set (keys s) \<longleftrightarrow> lookup s k \<noteq> None"
    and ok_distinct: "ok s \<Longrightarrow> distinct (keys s)"
    and ok_put: "ok s \<Longrightarrow> ok (put k v s)"
    and ok_remove: "ok s \<Longrightarrow> ok (remove k s)"
begin

lemma put_same: "lookup (put k v s) k = Some v"
  by (simp add: lookup_put)

lemma put_other: "k' \<noteq> k \<Longrightarrow> lookup (put k v s) k' = lookup s k'"
  by (simp add: lookup_put)

lemma remove_then_none: "lookup (remove k s) k = None"
  by (simp add: lookup_remove)

lemma remove_put: "lookup s k = None \<Longrightarrow> lookup (remove k (put k v s)) = lookup s"
  by (auto simp: lookup_put lookup_remove)

lemma keys_put: "set (keys (put k v s)) = insert k (set (keys s))"
  by (auto simp: keys_lookup lookup_put split: if_splits)

lemma keys_remove: "set (keys (remove k s)) = set (keys s) - {k}"
  by (auto simp: keys_lookup lookup_remove split: if_splits)

lemma count_put:
  assumes "ok s"
  shows "length (keys (put k v s)) = length (keys s) + (if lookup s k = None then 1 else 0)"
proof -
  have "length (keys (put k v s)) = card (insert k (set (keys s)))"
    using ok_distinct [OF ok_put [OF assms]] by (metis distinct_card keys_put)
  moreover have "length (keys s) = card (set (keys s))"
    using ok_distinct [OF assms] by (simp add: distinct_card)
  ultimately show ?thesis
    by (simp add: card_insert_if keys_lookup)
qed

lemma count_remove:
  assumes "ok s"
  shows "length (keys (remove k s)) = length (keys s) - (if lookup s k = None then 0 else 1)"
proof -
  have "length (keys (remove k s)) = card (set (keys s) - {k})"
    using ok_distinct [OF ok_remove [OF assms]] by (metis distinct_card keys_remove)
  moreover have "length (keys s) = card (set (keys s))"
    using ok_distinct [OF assms] by (simp add: distinct_card)
  ultimately show ?thesis
    by (simp add: card_Diff_singleton_if keys_lookup)
qed

end

subsection \<open>State machines with terminal states\<close>

text \<open>
  Requests, batches and backends each have a transition table and a set of terminal states
  that the table never leaves.
\<close>

locale state_machine =
  fixes allowed :: "'st \<Rightarrow> 'st \<Rightarrow> bool"
    and terminal :: "'st \<Rightarrow> bool"
  assumes terminal_stuck: "terminal a \<Longrightarrow> allowed a b \<Longrightarrow> b = a"
begin

lemma terminal_absorbing: "allowed\<^sup>*\<^sup>* a b \<Longrightarrow> terminal a \<Longrightarrow> b = a"
  by (induction rule: rtranclp.induct) (auto dest: terminal_stuck)

lemma leaves_only_open: "allowed a b \<Longrightarrow> b \<noteq> a \<Longrightarrow> \<not> terminal a"
  using terminal_stuck by blast

end

text \<open>
  Where moreover every step goes up in a rank that is bounded, a run is finite and no state
  is visited twice.
\<close>

locale ranked_machine = state_machine +
  fixes rank :: "'st \<Rightarrow> nat" and bound :: nat
  assumes rank_up: "allowed a b \<Longrightarrow> rank a < rank b"
    and rank_bound: "rank a \<le> bound"
begin

lemma run_rank: "(allowed ^^ n) a b \<Longrightarrow> rank a + n \<le> rank b"
  by (induction n arbitrary: b) (auto dest!: rank_up, fastforce)

lemma run_length: "(allowed ^^ n) a b \<Longrightarrow> n \<le> bound"
  using run_rank rank_bound by (metis add.commute le_add1 order_trans add_leD1)

lemma no_cycle: "\<not> allowed\<^sup>+\<^sup>+ a a"
proof
  assume "allowed\<^sup>+\<^sup>+ a a"
  then obtain n where "0 < n" and "(allowed ^^ n) a a"
    by (auto simp: tranclp_power)
  then show False using run_rank by fastforce
qed

end

end
