(* ===== verification/Schemas.thy ===== *)
theory Schemas
  imports Prelude
begin

text \<open>
  The shared schema package (\<open>packages/common-schemas/src/common_schemas\<close>): the enumerations
  with their wire values, the terminal and failure state sets, the request, queue, batch,
  routing and completion records with the constraints pydantic checks when one is built.
  Request states are ordered by declaration, which every allowed lifecycle step respects.
\<close>

section \<open>States and reasons (states.py)\<close>

datatype request_state =
    RECEIVED | VALIDATED | ADMITTED | QUEUED | SCHEDULED | BATCHED | SUBMITTED | PREFILLING
  | DECODING | STREAMING | COMPLETED | FAILED | TIMED_OUT | REJECTED | CANCELLED

fun request_state_value :: "request_state \<Rightarrow> string" where
  "request_state_value RECEIVED = ''received''"
| "request_state_value VALIDATED = ''validated''"
| "request_state_value ADMITTED = ''admitted''"
| "request_state_value QUEUED = ''queued''"
| "request_state_value SCHEDULED = ''scheduled''"
| "request_state_value BATCHED = ''batched''"
| "request_state_value SUBMITTED = ''submitted''"
| "request_state_value PREFILLING = ''prefilling''"
| "request_state_value DECODING = ''decoding''"
| "request_state_value STREAMING = ''streaming''"
| "request_state_value COMPLETED = ''completed''"
| "request_state_value FAILED = ''failed''"
| "request_state_value TIMED_OUT = ''timed_out''"
| "request_state_value REJECTED = ''rejected''"
| "request_state_value CANCELLED = ''cancelled''"

fun request_state_index :: "request_state \<Rightarrow> nat" where
  "request_state_index RECEIVED = 0"
| "request_state_index VALIDATED = 1"
| "request_state_index ADMITTED = 2"
| "request_state_index QUEUED = 3"
| "request_state_index SCHEDULED = 4"
| "request_state_index BATCHED = 5"
| "request_state_index SUBMITTED = 6"
| "request_state_index PREFILLING = 7"
| "request_state_index DECODING = 8"
| "request_state_index STREAMING = 9"
| "request_state_index COMPLETED = 10"
| "request_state_index FAILED = 11"
| "request_state_index TIMED_OUT = 12"
| "request_state_index REJECTED = 13"
| "request_state_index CANCELLED = 14"

lemma request_state_index_inject: "request_state_index a = request_state_index b \<longleftrightarrow> a = b"
  by (cases a) (cases b; simp)+

lemma request_state_index_le: "request_state_index a \<le> 14"
  by (cases a) simp_all

instantiation request_state :: linorder
begin

definition less_eq_request_state :: "request_state \<Rightarrow> request_state \<Rightarrow> bool" where
  "less_eq_request_state a b \<longleftrightarrow> request_state_index a \<le> request_state_index b"

definition less_request_state :: "request_state \<Rightarrow> request_state \<Rightarrow> bool" where
  "less_request_state a b \<longleftrightarrow> request_state_index a < request_state_index b"

instance
  by standard
    (auto simp: less_eq_request_state_def less_request_state_def request_state_index_inject)

end

definition is_terminal_request_state :: "request_state \<Rightarrow> bool" where
  "is_terminal_request_state s \<longleftrightarrow> s \<in> {COMPLETED, FAILED, TIMED_OUT, REJECTED, CANCELLED}"

definition is_failure_request_state :: "request_state \<Rightarrow> bool" where
  "is_failure_request_state s \<longleftrightarrow> s \<in> {FAILED, TIMED_OUT, REJECTED}"

datatype dispatch_batch_state =
    DB_FORMING | DB_DISPATCHED | DB_PREFILLING | DB_DECODING | DB_COMPLETED | DB_FAILED
  | DB_CANCELLED

datatype scheduler_mode =
    SM_STARTING | SM_ACCEPTING | SM_SATURATED | SM_DRAINING | SM_UNAVAILABLE

datatype failure_reason =
    VALIDATION_ERROR | UNKNOWN_MODEL | QUEUE_FULL | NO_CAPACITY | QUEUE_TIMEOUT
  | PREFILL_TIMEOUT | DECODE_TIMEOUT | E2E_TIMEOUT | WORKER_ERROR | ADAPTER_ERROR
  | INTERNAL_ERROR | CLIENT_CANCEL | AUTHENTICATION_ERROR | UNSUPPORTED_FIELD

fun failure_reason_value :: "failure_reason \<Rightarrow> string" where
  "failure_reason_value VALIDATION_ERROR = ''validation_error''"
| "failure_reason_value UNKNOWN_MODEL = ''unknown_model''"
| "failure_reason_value QUEUE_FULL = ''queue_full''"
| "failure_reason_value NO_CAPACITY = ''no_capacity''"
| "failure_reason_value QUEUE_TIMEOUT = ''queue_timeout''"
| "failure_reason_value PREFILL_TIMEOUT = ''prefill_timeout''"
| "failure_reason_value DECODE_TIMEOUT = ''decode_timeout''"
| "failure_reason_value E2E_TIMEOUT = ''e2e_timeout''"
| "failure_reason_value WORKER_ERROR = ''worker_error''"
| "failure_reason_value ADAPTER_ERROR = ''adapter_error''"
| "failure_reason_value INTERNAL_ERROR = ''internal_error''"
| "failure_reason_value CLIENT_CANCEL = ''client_cancel''"
| "failure_reason_value AUTHENTICATION_ERROR = ''authentication_error''"
| "failure_reason_value UNSUPPORTED_FIELD = ''unsupported_field''"

datatype priority_class = PC_DEFAULT | PC_ELEVATED | PC_BACKGROUND

fun priority_class_value :: "priority_class \<Rightarrow> string" where
  "priority_class_value PC_DEFAULT = ''default''"
| "priority_class_value PC_ELEVATED = ''elevated''"
| "priority_class_value PC_BACKGROUND = ''background''"

datatype message_role = ROLE_SYSTEM | ROLE_USER | ROLE_ASSISTANT

fun message_role_value :: "message_role \<Rightarrow> string" where
  "message_role_value ROLE_SYSTEM = ''system''"
| "message_role_value ROLE_USER = ''user''"
| "message_role_value ROLE_ASSISTANT = ''assistant''"

datatype component = GATEWAY | CONTROL_PLANE | SCHEDULER | ADAPTER | WORKER

section \<open>Requests (inference_request.py)\<close>

record message =
  m_role :: message_role
  m_content :: string

record inference_request =
  ir_request_id :: uuid
  ir_model :: string
  ir_messages :: "message list"
  ir_stream :: bool
  ir_max_tokens :: int
  ir_temperature :: "rat option"
  ir_top_p :: "rat option"
  ir_priority_class :: "priority_class option"
  ir_api_key_id :: "string option"
  ir_client_request_id :: "string option"

definition in_range :: "rat \<Rightarrow> rat \<Rightarrow> rat option \<Rightarrow> bool" where
  "in_range lo hi x = (case x of None \<Rightarrow> True | Some v \<Rightarrow> lo \<le> v \<and> v \<le> hi)"

definition valid_inference_request :: "inference_request \<Rightarrow> bool" where
  "valid_inference_request r \<longleftrightarrow>
     ir_model r \<noteq> [] \<and>
     1 \<le> length (ir_messages r) \<and> length (ir_messages r) \<le> 128 \<and>
     1 \<le> ir_max_tokens r \<and> ir_max_tokens r \<le> 32768 \<and>
     in_range 0 2 (ir_temperature r) \<and> in_range 0 1 (ir_top_p r)"

record request_context =
  rc_request_id :: uuid
  rc_trace_id :: string
  rc_span_id :: string
  rc_arrival_time :: datetime
  rc_model :: string
  rc_stream :: bool
  rc_gateway_instance_id :: string

record submit_request =
  sr_inference_request :: inference_request
  sr_request_context :: request_context

section \<open>Routing (routing.py) and models\<close>

datatype latency_tier = LT_FAST | LT_STANDARD | LT_SLOW

fun latency_tier_value :: "latency_tier \<Rightarrow> string" where
  "latency_tier_value LT_FAST = ''fast''"
| "latency_tier_value LT_STANDARD = ''standard''"
| "latency_tier_value LT_SLOW = ''slow''"

datatype quality_tier = QT_HIGH | QT_STANDARD | QT_ECONOMY

fun quality_tier_value :: "quality_tier \<Rightarrow> string" where
  "quality_tier_value QT_HIGH = ''high''"
| "quality_tier_value QT_STANDARD = ''standard''"
| "quality_tier_value QT_ECONOMY = ''economy''"

datatype routing_policy_name = RP_EXPLICIT | RP_LATENCY_TIER | RP_QUALITY_TIER | RP_FALLBACK

fun routing_policy_name_value :: "routing_policy_name \<Rightarrow> string" where
  "routing_policy_name_value RP_EXPLICIT = ''explicit''"
| "routing_policy_name_value RP_LATENCY_TIER = ''latency_tier''"
| "routing_policy_name_value RP_QUALITY_TIER = ''quality_tier''"
| "routing_policy_name_value RP_FALLBACK = ''fallback''"

record model_capabilities =
  cap_latency_tier :: latency_tier
  cap_quality_tier :: quality_tier
  cap_supports_streaming :: bool

definition default_capabilities :: model_capabilities where
  "default_capabilities =
     \<lparr>cap_latency_tier = LT_STANDARD, cap_quality_tier = QT_STANDARD,
      cap_supports_streaming = True\<rparr>"

record model_record =
  mr_model_id :: string
  mr_backend :: string
  mr_pool_id :: string
  mr_max_output_tokens :: int
  mr_max_prompt_tokens :: int
  mr_default_temperature :: "rat option"
  mr_capabilities :: model_capabilities
  mr_routing_policy :: routing_policy_name
  mr_fallback_backend :: "string option"
  mr_metadata :: "(string, string) dict"

record routing_candidate =
  cand_backend_id :: string
  cand_model_id :: string
  cand_score :: rat
  cand_latency_tier :: "latency_tier option"
  cand_quality_tier :: "quality_tier option"
  cand_healthy :: bool
  cand_supports_model :: bool
  cand_available_capacity :: "int option"

record routing_decision =
  rd_route_id :: uuid
  rd_request_id :: uuid
  rd_model_id :: string
  rd_backend_id :: string
  rd_policy_name :: string
  rd_fallback_used :: bool
  rd_primary_backend_id :: "string option"
  rd_reason :: string

record routing_result =
  rr_success :: bool
  rr_decision :: "routing_decision option"
  rr_error :: "string option"
  rr_candidates :: "routing_candidate list"

record routable_backend_snapshot =
  bs_backend_id :: string
  bs_state :: string
  bs_healthy :: bool
  bs_supported_models :: "string list"
  bs_latency_tier :: latency_tier
  bs_quality_tier :: quality_tier
  bs_max_batch_size :: int

section \<open>Queue items, dispatch batches, completions, failures\<close>

record queue_item =
  qi_request_id :: uuid
  qi_inference_request :: inference_request
  qi_request_context :: request_context
  qi_enqueued_at :: datetime
  qi_priority_class :: priority_class
  qi_queue_name :: string

record batch_assignment =
  ba_request_id :: uuid
  ba_slot_index :: nat
  ba_inference_request :: inference_request

record dispatch_batch =
  db_batch_id :: uuid
  db_model :: string
  db_worker_id :: string
  db_assignments :: "batch_assignment list"
  db_created_at :: datetime
  db_max_batch_tokens :: "int option"
  db_state :: dispatch_batch_state

record inference_completion_record =
  ic_request_id :: uuid
  ic_backend_id :: string
  ic_generated_text :: string
  ic_prompt_tokens :: int
  ic_completion_tokens :: int
  ic_total_tokens :: int
  ic_finish_reason :: "string option"
  ic_completed_at :: datetime
  ic_execution_duration_ms :: "rat option"

record streaming_metrics_record =
  sm_stream_id :: uuid
  sm_request_id :: uuid
  sm_ttft_ms :: "rat option"
  sm_itl_ms_p50 :: "rat option"
  sm_itl_ms_p99 :: "rat option"
  sm_token_count :: int
  sm_generated_text :: string
  sm_completed_at :: "datetime option"
  sm_stream_state :: string

record failure_record =
  fr_request_id :: uuid
  fr_status :: string
  fr_failure_reason :: failure_reason
  fr_failed_at :: datetime
  fr_component :: component
  fr_message :: "string option"
  fr_last_state :: "request_state option"

section \<open>Basic facts\<close>

lemma terminal_iff_index: "is_terminal_request_state s \<longleftrightarrow> 10 \<le> request_state_index s"
  by (cases s) (simp_all add: is_terminal_request_state_def)

lemma failure_is_terminal: "is_failure_request_state s \<Longrightarrow> is_terminal_request_state s"
  by (auto simp: is_failure_request_state_def is_terminal_request_state_def)

lemma is_terminal_simps [simp]:
  "is_terminal_request_state COMPLETED" "is_terminal_request_state FAILED"
  "is_terminal_request_state TIMED_OUT" "is_terminal_request_state REJECTED"
  "is_terminal_request_state CANCELLED" "\<not> is_terminal_request_state RECEIVED"
  "\<not> is_terminal_request_state VALIDATED" "\<not> is_terminal_request_state ADMITTED"
  "\<not> is_terminal_request_state QUEUED" "\<not> is_terminal_request_state SCHEDULED"
  "\<not> is_terminal_request_state BATCHED" "\<not> is_terminal_request_state SUBMITTED"
  "\<not> is_terminal_request_state PREFILLING" "\<not> is_terminal_request_state DECODING"
  "\<not> is_terminal_request_state STREAMING"
  by (simp_all add: is_terminal_request_state_def)

end
