(* ===== verification/Failures.thy ===== *)
theory Failures
  imports Schemas
begin

text \<open>
  Failures as values. The deterministic failure injector
  (\<open>packages/observability/.../failure_injection\<close>), the classified failures of the control
  plane (\<open>control_plane/failures\<close>) and the exceptions its methods raise
  (\<open>control_plane/errors.py\<close>, \<open>queue/waiting_queue.py\<close> and the built-in ones).
\<close>

section \<open>Failure injection\<close>

datatype failure_point =
    FP_DISABLED
  | FP_QUEUE_FULL | FP_QUEUE_TIMEOUT | FP_QUEUE_CORRUPTION | FP_QUEUE_INVALID_REMOVAL
  | FP_SCHEDULER_CRASH | FP_SCHEDULER_TIMEOUT | FP_SCHEDULER_INVALID_DECISION
  | FP_SCHEDULER_INVALID_BATCH_ASSIGNMENT
  | FP_BATCH_CREATION_FAILURE | FP_BATCH_ADMISSION_FAILURE | FP_BATCH_CANCELLATION
  | FP_BATCH_CORRUPTION
  | FP_BACKEND_UNAVAILABLE | FP_BACKEND_TIMEOUT | FP_BACKEND_REJECTION
  | FP_BACKEND_INTERNAL_ERROR

record failure_injection_config =
  fi_enabled :: bool
  fi_point :: failure_point
  fi_target_request_id :: "uuid option"
  fi_message :: string

definition default_injection_config :: failure_injection_config where
  "default_injection_config =
     \<lparr>fi_enabled = False, fi_point = FP_DISABLED, fi_target_request_id = None,
      fi_message = ''injected failure''\<rparr>"

definition is_active :: "failure_injection_config \<Rightarrow> failure_point \<Rightarrow> uuid option \<Rightarrow> bool" where
  "is_active c point request_id =
     (if \<not> fi_enabled c \<or> fi_point c \<noteq> point then False
      else case (fi_target_request_id c, request_id) of
             (Some target, Some r) \<Rightarrow> target = r
           | _ \<Rightarrow> True)"

datatype injected_failure = InjectedFailure failure_point string

definition should_inject ::
  "failure_injection_config option \<Rightarrow> failure_point \<Rightarrow> uuid option \<Rightarrow> bool" where
  "should_inject injector point request_id =
     (case injector of None \<Rightarrow> False | Some c \<Rightarrow> is_active c point request_id)"

definition maybe_raise ::
  "failure_injection_config \<Rightarrow> failure_point \<Rightarrow> uuid option \<Rightarrow> injected_failure + unit" where
  "maybe_raise c point request_id =
     (if is_active c point request_id then Inl (InjectedFailure point (fi_message c)) else Inr ())"

lemma is_active_point: "is_active c p r \<Longrightarrow> fi_enabled c \<and> fi_point c = p"
  by (auto simp: is_active_def split: if_splits)

lemma is_active_unique: "is_active c p r \<Longrightarrow> is_active c q r' \<Longrightarrow> p = q"
  by (auto dest: is_active_point)

lemma default_never_injects [simp]: "\<not> should_inject (Some default_injection_config) p r"
  by (simp add: should_inject_def is_active_def default_injection_config_def)

lemma no_injector [simp]: "\<not> should_inject None p r"
  by (simp add: should_inject_def)

section \<open>Classified failures (failures/categories.py)\<close>

datatype failure_category = FC_VALIDATION | FC_ADMISSION | FC_SCHEDULER | FC_BACKEND | FC_INTERNAL

fun category_ownership :: "failure_category \<Rightarrow> component" where
  "category_ownership FC_VALIDATION = GATEWAY"
| "category_ownership FC_ADMISSION = CONTROL_PLANE"
| "category_ownership FC_SCHEDULER = SCHEDULER"
| "category_ownership FC_BACKEND = ADAPTER"
| "category_ownership FC_INTERNAL = CONTROL_PLANE"

record classified_failure =
  cf_category :: failure_category
  cf_reason :: failure_reason
  cf_owner :: component
  cf_message :: string
  cf_propagate_to_client :: bool
  cf_retryable :: bool

definition mk_classified ::
  "failure_category \<Rightarrow> failure_reason \<Rightarrow> string \<Rightarrow> bool \<Rightarrow> bool \<Rightarrow> classified_failure" where
  "mk_classified c reason msg propagate retryable =
     \<lparr>cf_category = c, cf_reason = reason, cf_owner = category_ownership c, cf_message = msg,
      cf_propagate_to_client = propagate, cf_retryable = retryable\<rparr>"

definition validation_failure :: "string \<Rightarrow> failure_reason \<Rightarrow> classified_failure" where
  "validation_failure msg reason = mk_classified FC_VALIDATION reason msg True False"

definition admission_failure :: "string \<Rightarrow> failure_reason \<Rightarrow> bool \<Rightarrow> classified_failure" where
  "admission_failure msg reason retryable = mk_classified FC_ADMISSION reason msg True retryable"

definition scheduler_failure :: "string \<Rightarrow> failure_reason \<Rightarrow> classified_failure" where
  "scheduler_failure msg reason = mk_classified FC_SCHEDULER reason msg True True"

definition backend_failure :: "string \<Rightarrow> failure_reason \<Rightarrow> classified_failure" where
  "backend_failure msg reason = mk_classified FC_BACKEND reason msg True False"

definition internal_failure :: "string \<Rightarrow> failure_reason \<Rightarrow> classified_failure" where
  "internal_failure msg reason = mk_classified FC_INTERNAL reason msg False False"

section \<open>Failure framework (failures/framework.py)\<close>

definition target_state :: "failure_category \<Rightarrow> request_state" where
  "target_state c =
     (if c = FC_ADMISSION then REJECTED else if c = FC_VALIDATION then REJECTED else FAILED)"

text \<open>
  \<open>mark_failed\<close> passes the classified failure itself where a category is expected. A dataclass
  instance never equals a string enumeration member, so both comparisons are false.
\<close>

definition target_state_of_classified :: "classified_failure \<Rightarrow> request_state" where
  "target_state_of_classified failure = FAILED"

definition failure_status :: "failure_category \<Rightarrow> string" where
  "failure_status c = (if c = FC_VALIDATION \<or> c = FC_ADMISSION then ''rejected'' else ''failed'')"

lemma target_state_failure: "is_failure_request_state (target_state c)"
  by (simp add: target_state_def is_failure_request_state_def)

lemma failure_status_target: "failure_status c = request_state_value (target_state c)"
  by (cases c) (simp_all add: failure_status_def target_state_def)

section \<open>Exceptions of the control plane\<close>

datatype cp_exn =
    InvalidTransitionError uuid request_state request_state
  | RequestNotFoundError uuid
  | QueueFullError string int
  | PlatformFailure classified_failure
  | ValueError string
  | RuntimeError string

fun exn_message :: "cp_exn \<Rightarrow> string" where
  "exn_message (InvalidTransitionError r a b) =
     ''invalid transition for '' @ r @ '': '' @ request_state_value a @ '' -> ''
       @ request_state_value b"
| "exn_message (RequestNotFoundError r) = ''request not found: '' @ r"
| "exn_message (QueueFullError reason ms) = reason"
| "exn_message (PlatformFailure c) = cf_message c"
| "exn_message (ValueError m) = m"
| "exn_message (RuntimeError m) = m"

end
