(* ===== verification/Request_Registry.thy ===== *)
theory Request_Registry
  imports Failures
begin

text \<open>
  The request registry of the control plane (\<open>control_plane/registry/models.py\<close>, \<open>memory.py\<close>,
  \<open>queries.py\<close>). A \<open>RegisteredRequest\<close> is a mutable object that the registry and the waiting
  queue both point at, so entries live in a store (\<open>rs_heap\<close>, addressed by position) and the
  registry's dictionary maps a request id to an address. A request id registered twice gives
  two objects; the dictionary keeps the newer one.
\<close>

section \<open>Entries (registry/models.py)\<close>

record registered_request =
  re_submit :: submit_request
  re_state :: request_state
  re_created_at :: datetime
  re_updated_at :: datetime
  re_failure_reason :: "failure_reason option"
  re_failure_message :: "string option"
  re_queue_entered_at :: "datetime option"
  re_queue_position :: "nat option"
  re_batch_id :: "uuid option"
  re_backend_id :: "string option"
  re_completion :: "inference_completion_record option"
  re_stream_metrics :: "streaming_metrics_record option"

definition re_request_id :: "registered_request \<Rightarrow> uuid" where
  "re_request_id e = ir_request_id (sr_inference_request (re_submit e))"

definition re_trace_id :: "registered_request \<Rightarrow> string" where
  "re_trace_id e = rc_trace_id (sr_request_context (re_submit e))"

definition re_model :: "registered_request \<Rightarrow> string" where
  "re_model e = ir_model (sr_inference_request (re_submit e))"

definition new_registered_request ::
  "datetime \<Rightarrow> submit_request \<Rightarrow> request_state \<Rightarrow> registered_request" where
  "new_registered_request now submit st =
     \<lparr>re_submit = submit, re_state = st, re_created_at = now, re_updated_at = now,
      re_failure_reason = None, re_failure_message = None, re_queue_entered_at = None,
      re_queue_position = None, re_batch_id = None, re_backend_id = None,
      re_completion = None, re_stream_metrics = None\<rparr>"

definition apply_to_request :: "classified_failure \<Rightarrow> registered_request \<Rightarrow> registered_request" where
  "apply_to_request failure e =
     e\<lparr>re_state := target_state (cf_category failure),
       re_failure_reason := Some (cf_reason failure),
       re_failure_message := Some (cf_message failure)\<rparr>"

definition to_failure_record ::
  "datetime \<Rightarrow> registered_request \<Rightarrow> classified_failure \<Rightarrow> failure_record" where
  "to_failure_record now e failure =
     \<lparr>fr_request_id = re_request_id e, fr_status = failure_status (cf_category failure),
      fr_failure_reason = cf_reason failure, fr_failed_at = now,
      fr_component = cf_owner failure, fr_message = Some (cf_message failure),
      fr_last_state = Some (re_state e)\<rparr>"

section \<open>The registry (registry/memory.py)\<close>

type_synonym ref = nat

record registry_state =
  rs_heap :: "registered_request list"
  rs_entries :: "(uuid, ref) dict"
  rs_max_entries :: int

definition entry_at :: "('x registry_state_scheme) \<Rightarrow> ref \<Rightarrow> registered_request" where
  "entry_at s r = rs_heap s ! r"

definition alloc_entry :: "registered_request \<Rightarrow> ('x registry_state_scheme, cp_exn, ref) op" where
  "alloc_entry e s = (Inr (length (rs_heap s)), s\<lparr>rs_heap := rs_heap s @ [e]\<rparr>)"

definition modify_entry ::
  "ref \<Rightarrow> (registered_request \<Rightarrow> registered_request) \<Rightarrow> 'x registry_state_scheme \<Rightarrow>
   'x registry_state_scheme" where
  "modify_entry r f s = s\<lparr>rs_heap := (rs_heap s)[r := f (rs_heap s ! r)]\<rparr>"

definition registry_register :: "ref \<Rightarrow> ('x registry_state_scheme, cp_exn, ref) op" where
  "registry_register r s =
     (if int (length (rs_entries s)) \<ge> rs_max_entries s
      then (Inl (RuntimeError ''request registry at capacity''), s)
      else (Inr r, s\<lparr>rs_entries := dict_set (re_request_id (entry_at s r)) r (rs_entries s)\<rparr>))"

definition registry_get :: "uuid \<Rightarrow> ('x registry_state_scheme, cp_exn, ref) op" where
  "registry_get request_id s =
     (case dict_get (rs_entries s) request_id of
        None \<Rightarrow> (Inl (RequestNotFoundError request_id), s)
      | Some r \<Rightarrow> (Inr r, s))"

definition update_state ::
  "datetime \<Rightarrow> uuid \<Rightarrow> request_state \<Rightarrow> ('x registry_state_scheme, cp_exn, ref) op" where
  "update_state now request_id st =
     bind_op (registry_get request_id) (\<lambda>r.
     then_op (modify_op (modify_entry r (\<lambda>e. e\<lparr>re_state := st, re_updated_at := now\<rparr>)))
     (return_op r))"

definition get_status :: "uuid \<Rightarrow> ('x registry_state_scheme, cp_exn, request_state) op" where
  "get_status request_id =
     bind_op (registry_get request_id) (\<lambda>r. gets_op (\<lambda>s. re_state (entry_at s r)))"

definition registry_remove :: "uuid \<Rightarrow> 'x registry_state_scheme \<Rightarrow> 'x registry_state_scheme" where
  "registry_remove request_id s = s\<lparr>rs_entries := dict_del request_id (rs_entries s)\<rparr>"

definition remove_if_terminal :: "uuid \<Rightarrow> ('x registry_state_scheme, cp_exn, bool) op" where
  "remove_if_terminal request_id s =
     (case dict_get (rs_entries s) request_id of
        None \<Rightarrow> (Inr False, s)
      | Some r \<Rightarrow>
          if is_terminal_request_state (re_state (entry_at s r))
          then (Inr True, registry_remove request_id s)
          else (Inr False, s))"

definition registry_count :: "'x registry_state_scheme \<Rightarrow> nat" where
  "registry_count s = length (rs_entries s)"

definition list_active :: "'x registry_state_scheme \<Rightarrow> registered_request list" where
  "list_active s =
     filter (\<lambda>e. \<not> is_terminal_request_state (re_state e))
       (map (entry_at s) (dict_values (rs_entries s)))"

definition list_by_state :: "request_state \<Rightarrow> 'x registry_state_scheme \<Rightarrow> registered_request list" where
  "list_by_state st s =
     filter (\<lambda>e. re_state e = st) (map (entry_at s) (dict_values (rs_entries s)))"

section \<open>Read interface (registry/queries.py)\<close>

record request_status_view =
  sv_request_id :: uuid
  sv_state :: request_state
  sv_model :: string
  sv_correlation_id :: string
  sv_updated_at :: datetime

definition to_status_view :: "registered_request \<Rightarrow> request_status_view" where
  "to_status_view e =
     \<lparr>sv_request_id = re_request_id e, sv_state = re_state e, sv_model = re_model e,
      sv_correlation_id = re_trace_id e, sv_updated_at = re_updated_at e\<rparr>"

definition queries_get_status ::
  "uuid \<Rightarrow> ('x registry_state_scheme, cp_exn, request_status_view) op" where
  "queries_get_status request_id =
     bind_op (registry_get request_id) (\<lambda>r. gets_op (\<lambda>s. to_status_view (entry_at s r)))"

definition queries_list_active :: "'x registry_state_scheme \<Rightarrow> request_status_view list" where
  "queries_list_active s = map to_status_view (list_active s)"

definition queries_list_by_state ::
  "request_state \<Rightarrow> 'x registry_state_scheme \<Rightarrow> request_status_view list" where
  "queries_list_by_state st s = map to_status_view (list_by_state st s)"

section \<open>Well-formed registries\<close>

definition wf_registry :: "'x registry_state_scheme \<Rightarrow> bool" where
  "wf_registry s \<longleftrightarrow>
     wf_dict (rs_entries s) \<and>
     (\<forall>(k, r) \<in> set (rs_entries s). r < length (rs_heap s) \<and> re_request_id (rs_heap s ! r) = k)"

definition within_capacity :: "'x registry_state_scheme \<Rightarrow> bool" where
  "within_capacity s \<longleftrightarrow> int (length (rs_entries s)) \<le> max 0 (rs_max_entries s)"

lemma wf_registry_iff:
  "wf_registry s \<longleftrightarrow>
     wf_dict (rs_entries s) \<and>
     (\<forall>k r. dict_get (rs_entries s) k = Some r \<longrightarrow>
        r < length (rs_heap s) \<and> re_request_id (rs_heap s ! r) = k)"
  unfolding wf_registry_def using dict_item_iff [of "rs_entries s"] by fast

lemma wf_registry_getD:
  "wf_registry s \<Longrightarrow> dict_get (rs_entries s) i = Some r \<Longrightarrow>
   r < length (rs_heap s) \<and> re_request_id (rs_heap s ! r) = i"
  by (auto simp: wf_registry_def dest: map_of_SomeD)

definition keeps_id :: "(registered_request \<Rightarrow> registered_request) \<Rightarrow> bool" where
  "keeps_id f \<longleftrightarrow> (\<forall>e. re_submit (f e) = re_submit e)"

lemma keeps_id_request_id: "keeps_id f \<Longrightarrow> re_request_id (f e) = re_request_id e"
  by (simp add: keeps_id_def re_request_id_def)

lemma keeps_id_update:
  "keeps_id f \<Longrightarrow> re_request_id (xs[r := f (xs ! r)] ! k) = re_request_id (xs ! k)"
  by (cases "r < length xs"; cases "k = r") (simp_all add: keeps_id_request_id list_update_beyond)

lemma modify_entry_fields [simp]:
  "rs_entries (modify_entry r f s) = rs_entries s"
  "rs_max_entries (modify_entry r f s) = rs_max_entries s"
  "length (rs_heap (modify_entry r f s)) = length (rs_heap s)"
  by (simp_all add: modify_entry_def)

lemma entry_modify_same [simp]:
  "r < length (rs_heap s) \<Longrightarrow> entry_at (modify_entry r f s) r = f (entry_at s r)"
  by (simp add: modify_entry_def entry_at_def)

lemma entry_modify_other [simp]: "r' \<noteq> r \<Longrightarrow> entry_at (modify_entry r f s) r' = entry_at s r'"
  by (simp add: modify_entry_def entry_at_def)

lemma wf_modify_entry: "wf_registry s \<Longrightarrow> keeps_id f \<Longrightarrow> wf_registry (modify_entry r f s)"
  by (auto simp: wf_registry_iff modify_entry_def keeps_id_update)

lemma within_capacity_modify [simp]: "within_capacity (modify_entry r f s) = within_capacity s"
  by (simp add: within_capacity_def)

lemma keeps_id_simps [simp]:
  "keeps_id (\<lambda>e. e\<lparr>re_state := st, re_updated_at := now\<rparr>)"
  "keeps_id (re_state_update g)" "keeps_id (re_queue_position_update h)"
  "keeps_id (apply_to_request c)"
  by (simp_all add: keeps_id_def apply_to_request_def)

lemma length_dict_set:
  "length (dict_set k v d) = length d + (if dict_get d k = None then 1 else 0)"
  by (induction d) auto

lemma length_dict_del_le: "length (dict_del k d) \<le> length d"
  by (rule length_delete_le)

lemma wf_alloc: "wf_registry s \<Longrightarrow> wf_registry (snd (alloc_entry e s))"
  by (fastforce simp: wf_registry_iff alloc_entry_def nth_append)

lemma wf_register:
  assumes "wf_registry s" and "r < length (rs_heap s)"
  shows "wf_registry (snd (registry_register r s))"
  using assms
  by (auto simp: wf_registry_iff registry_register_def entry_at_def)

lemma capacity_register: "within_capacity s \<Longrightarrow> within_capacity (snd (registry_register r s))"
  by (auto simp: within_capacity_def registry_register_def length_dict_set)

lemma wf_remove: "wf_registry s \<Longrightarrow> wf_registry (registry_remove i s)"
  by (auto simp: wf_registry_iff registry_remove_def)

lemma capacity_remove: "within_capacity s \<Longrightarrow> within_capacity (registry_remove i s)"
  using length_dict_del_le [of i "rs_entries s"]
  by (simp add: within_capacity_def registry_remove_def)

text \<open>The dictionary of a registry as a store of addresses.\<close>

interpretation requests: keyed_store
  "\<lambda>s :: registry_state. dict_get (rs_entries s)"
  "\<lambda>k r s. s\<lparr>rs_entries := dict_set k r (rs_entries s)\<rparr>"
  "registry_remove" "\<lambda>s. dict_keys (rs_entries s)" "\<lambda>s. wf_dict (rs_entries s)"
  by unfold_locales
    (auto simp: registry_remove_def wf_dict_def map_of_eq_None_iff image_iff distinct_update
      distinct_delete)

lemma update_state_run:
  "update_state now i st s =
     (case dict_get (rs_entries s) i of
        None \<Rightarrow> (Inl (RequestNotFoundError i), s)
      | Some r \<Rightarrow>
          (Inr r, modify_entry r (\<lambda>e. e\<lparr>re_state := st, re_updated_at := now\<rparr>) s))"
  by (simp add: update_state_def registry_get_def op_defs split: option.split)

lemma wf_update_state: "preserves wf_registry (update_state now i st)"
  by (rule preservesI) (auto simp: update_state_run wf_modify_entry split: option.split)

lemma list_active_open: "e \<in> set (list_active s) \<Longrightarrow> \<not> is_terminal_request_state (re_state e)"
  by (simp add: list_active_def)

end
