(* ===== verification/Admission.thy ===== *)
theory Admission
  imports Request_Registry
begin

text \<open>
  Admission control (\<open>control_plane/admission\<close>) and the transition table of the request
  lifecycle (\<open>control_plane/lifecycle/transitions.py\<close>). The checks themselves are extension
  points with no implementation in the repository, so they are arguments: an object with a
  \<open>check\<close> method, one with an \<open>evaluate\<close> method, or one with neither, which is passed over.
\<close>

section \<open>Admission framework (admission/framework.py)\<close>

datatype admission_outcome = ACCEPT | REJECT | DEFER

record admission_result =
  ar_outcome :: admission_outcome
  ar_reason :: "string option"
  ar_retry_after_ms :: "int option"

definition accept_result :: admission_result where
  "accept_result = \<lparr>ar_outcome = ACCEPT, ar_reason = None, ar_retry_after_ms = None\<rparr>"

datatype admission_check =
    HasCheck "registered_request \<Rightarrow> cp_exn + admission_result"
  | HasEvaluate "registered_request \<Rightarrow> cp_exn + admission_result"
  | HasNeither

record admission_framework =
  af_evaluators :: "admission_check list"
  af_queue_checks :: "admission_check list"
  af_timeout_checks :: "admission_check list"
  af_policy_evaluators :: "admission_check list"

definition no_checks :: admission_framework where
  "no_checks =
     \<lparr>af_evaluators = [], af_queue_checks = [], af_timeout_checks = [], af_policy_evaluators = []\<rparr>"

fun run_checks ::
  "admission_check list \<Rightarrow> registered_request \<Rightarrow> cp_exn + admission_result" where
  "run_checks [] e = Inr accept_result"
| "run_checks (HasNeither # cs) e = run_checks cs e"
| "run_checks (HasCheck f # cs) e =
     (case f e of
        Inl x \<Rightarrow> Inl x
      | Inr r \<Rightarrow> if ar_outcome r \<noteq> ACCEPT then Inr r else run_checks cs e)"
| "run_checks (HasEvaluate f # cs) e =
     (case f e of
        Inl x \<Rightarrow> Inl x
      | Inr r \<Rightarrow> if ar_outcome r \<noteq> ACCEPT then Inr r else run_checks cs e)"

definition all_checks :: "admission_framework \<Rightarrow> admission_check list" where
  "all_checks af =
     af_evaluators af @ af_queue_checks af @ af_timeout_checks af @ af_policy_evaluators af"

definition admission_evaluate ::
  "admission_framework \<Rightarrow> registered_request \<Rightarrow> cp_exn + admission_result" where
  "admission_evaluate af e =
     (let checks = all_checks af
      in if checks = [] then Inr accept_result else run_checks checks e)"

text \<open>A check's answer: passing over counts as accepting.\<close>

fun check_answer :: "admission_check \<Rightarrow> registered_request \<Rightarrow> cp_exn + admission_result" where
  "check_answer (HasCheck f) e = f e"
| "check_answer (HasEvaluate f) e = f e"
| "check_answer HasNeither e = Inr accept_result"

definition accepts :: "registered_request \<Rightarrow> admission_check \<Rightarrow> bool" where
  "accepts e c = (case check_answer c e of Inl x \<Rightarrow> False | Inr r \<Rightarrow> ar_outcome r = ACCEPT)"

lemma accept_outcome [simp]: "ar_outcome accept_result = ACCEPT"
  by (simp add: accept_result_def)

lemma run_checks_first:
  "run_checks cs e =
     (case dropWhile (accepts e) cs of [] \<Rightarrow> Inr accept_result | c # _ \<Rightarrow> check_answer c e)"
proof (induction cs)
  case Nil
  then show ?case by simp
next
  case (Cons c cs)
  then show ?case
    by (cases c) (auto simp: accepts_def split: sum.split)
qed

lemma admission_first:
  "admission_evaluate af e =
     (case dropWhile (accepts e) (all_checks af) of
        [] \<Rightarrow> Inr accept_result
      | c # _ \<Rightarrow> check_answer c e)"
  by (simp add: admission_evaluate_def Let_def run_checks_first)

section \<open>Transition table (lifecycle/transitions.py)\<close>

fun allowed_request_transitions :: "request_state \<Rightarrow> request_state list" where
  "allowed_request_transitions RECEIVED = [VALIDATED, CANCELLED, FAILED]"
| "allowed_request_transitions VALIDATED = [ADMITTED, REJECTED, CANCELLED]"
| "allowed_request_transitions ADMITTED = [QUEUED, SCHEDULED, REJECTED, CANCELLED, FAILED]"
| "allowed_request_transitions QUEUED = [SCHEDULED, REJECTED, TIMED_OUT, CANCELLED, FAILED]"
| "allowed_request_transitions SCHEDULED = [BATCHED, PREFILLING, FAILED, TIMED_OUT, CANCELLED]"
| "allowed_request_transitions BATCHED = [SUBMITTED, REJECTED, FAILED, CANCELLED]"
| "allowed_request_transitions SUBMITTED = [STREAMING, DECODING, COMPLETED, FAILED, CANCELLED]"
| "allowed_request_transitions PREFILLING = [DECODING, FAILED, TIMED_OUT, CANCELLED]"
| "allowed_request_transitions DECODING = [STREAMING, COMPLETED, FAILED, TIMED_OUT, CANCELLED]"
| "allowed_request_transitions STREAMING = [COMPLETED, CANCELLED, FAILED]"
| "allowed_request_transitions _ = []"

definition is_allowed_transition :: "request_state \<Rightarrow> request_state \<Rightarrow> bool" where
  "is_allowed_transition from_state to_state =
     (if from_state \<in> {COMPLETED, FAILED, TIMED_OUT, REJECTED, CANCELLED} then False
      else to_state \<in> set (allowed_request_transitions from_state))"

lemma allowed_table: "is_allowed_transition a b \<longleftrightarrow> b \<in> set (allowed_request_transitions a)"
  by (cases a) (simp_all add: is_allowed_transition_def)

lemma allowed_up: "is_allowed_transition a b \<Longrightarrow> a < b"
  by (cases a) (auto simp: is_allowed_transition_def less_request_state_def)

lemma terminal_no_transition: "is_terminal_request_state a \<Longrightarrow> \<not> is_allowed_transition a b"
  by (auto simp: is_terminal_request_state_def is_allowed_transition_def)

lemma open_has_transition:
  "\<not> is_terminal_request_state a \<Longrightarrow> is_allowed_transition a CANCELLED"
  by (cases a) (simp_all add: is_allowed_transition_def)

text \<open>How far a state is from \<open>RECEIVED\<close> along the longest path of the table.\<close>

fun lifecycle_depth :: "request_state \<Rightarrow> nat" where
  "lifecycle_depth RECEIVED = 0"
| "lifecycle_depth VALIDATED = 1"
| "lifecycle_depth ADMITTED = 2"
| "lifecycle_depth QUEUED = 3"
| "lifecycle_depth SCHEDULED = 4"
| "lifecycle_depth BATCHED = 5"
| "lifecycle_depth SUBMITTED = 6"
| "lifecycle_depth PREFILLING = 6"
| "lifecycle_depth DECODING = 7"
| "lifecycle_depth STREAMING = 8"
| "lifecycle_depth _ = 9"

lemma lifecycle_depth_le: "lifecycle_depth a \<le> 9"
  by (cases a) simp_all

lemma allowed_deeper: "is_allowed_transition a b \<Longrightarrow> lifecycle_depth a < lifecycle_depth b"
  by (cases a) (auto simp: is_allowed_transition_def)

interpretation request_machine: ranked_machine
  is_allowed_transition is_terminal_request_state lifecycle_depth 9
  using terminal_no_transition allowed_deeper lifecycle_depth_le
  by unfold_locales auto

lemma allowed_failed:
  "is_allowed_transition a FAILED \<longleftrightarrow> \<not> is_terminal_request_state a \<and> a \<noteq> VALIDATED"
  by (cases a) (simp_all add: is_allowed_transition_def)

end
