(* ===== verification/Metrics.thy ===== *)
theory Metrics
  imports Prelude
begin

text \<open>
  The runtime metrics: the catalogue of \<open>registry/registry.py\<close> and the recorder of
  \<open>registry/recorder.py\<close> (\<open>gpu_inference_observability\<close>). The client library that holds the
  values is not part of the repository: the state keeps the calls made on it, in order, and
  a counter or gauge is read off the calls. The recorder's own state is the dictionary of
  start times (a monotonic clock reading, an argument here).
\<close>

section \<open>Calls on the metrics client\<close>

type_synonym labels = "(string \<times> string) list"

datatype metric_call =
    M_INC string labels rat
  | M_GAUGE_INC string
  | M_GAUGE_DEC string
  | M_GAUGE_SET string labels rat
  | M_OBSERVE string labels rat

fun call_metric :: "metric_call \<Rightarrow> string" where
  "call_metric (M_INC m l x) = m"
| "call_metric (M_GAUGE_INC m) = m"
| "call_metric (M_GAUGE_DEC m) = m"
| "call_metric (M_GAUGE_SET m l x) = m"
| "call_metric (M_OBSERVE m l x) = m"

fun call_labels :: "metric_call \<Rightarrow> labels" where
  "call_labels (M_INC m l x) = l"
| "call_labels (M_GAUGE_INC m) = []"
| "call_labels (M_GAUGE_DEC m) = []"
| "call_labels (M_GAUGE_SET m l x) = l"
| "call_labels (M_OBSERVE m l x) = l"

datatype metric_kind = MK_COUNTER | MK_GAUGE | MK_HISTOGRAM

fun call_kind :: "metric_call \<Rightarrow> metric_kind" where
  "call_kind (M_INC m l x) = MK_COUNTER"
| "call_kind (M_GAUGE_INC m) = MK_GAUGE"
| "call_kind (M_GAUGE_DEC m) = MK_GAUGE"
| "call_kind (M_GAUGE_SET m l x) = MK_GAUGE"
| "call_kind (M_OBSERVE m l x) = MK_HISTOGRAM"

section \<open>The catalogue (registry.py)\<close>

definition platform_catalogue :: "(string \<times> metric_kind \<times> string list) list" where
  "platform_catalogue =
     [(''requests_received_total'', MK_COUNTER, []),
      (''requests_completed_total'', MK_COUNTER, []),
      (''requests_failed_total'', MK_COUNTER, []),
      (''requests_rejected_total'', MK_COUNTER, []),
      (''active_requests'', MK_GAUGE, []),
      (''request_duration_seconds'', MK_HISTOGRAM, []),
      (''queue_depth'', MK_GAUGE, []),
      (''queue_enqueue_total'', MK_COUNTER, []),
      (''queue_dequeue_total'', MK_COUNTER, []),
      (''queue_timeout_total'', MK_COUNTER, []),
      (''queue_wait_duration_seconds'', MK_HISTOGRAM, []),
      (''scheduler_cycles_total'', MK_COUNTER, []),
      (''scheduler_selection_total'', MK_COUNTER, []),
      (''scheduler_skip_total'', MK_COUNTER, []),
      (''scheduler_failures_total'', MK_COUNTER, []),
      (''scheduler_cycle_duration_seconds'', MK_HISTOGRAM, []),
      (''scheduler_policy_decisions_total'', MK_COUNTER, [''policy_id'', ''selected'', ''decision_reason'']),
      (''scheduler_policy_queue_age_seconds'', MK_HISTOGRAM, [''policy_id'']),
      (''scheduler_policy_request_age_seconds'', MK_HISTOGRAM, [''policy_id'']),
      (''batches_created_total'', MK_COUNTER, []),
      (''active_batches'', MK_GAUGE, []),
      (''batch_size'', MK_HISTOGRAM, []),
      (''batch_admissions_total'', MK_COUNTER, []),
      (''batch_failures_total'', MK_COUNTER, []),
      (''batch_lifetime_seconds'', MK_HISTOGRAM, [])]"

definition backend_catalogue :: "(string \<times> metric_kind \<times> string list) list" where
  "backend_catalogue =
     [(''backend_submissions_total'', MK_COUNTER, [''backend_id'']),
      (''backend_acceptance_total'', MK_COUNTER, [''backend_id'']),
      (''backend_rejections_total'', MK_COUNTER, [''backend_id'']),
      (''backend_failures_total'', MK_COUNTER, [''backend_id'']),
      (''backend_request_duration_seconds'', MK_HISTOGRAM, [''backend_id'']),
      (''request_ttft_seconds'', MK_HISTOGRAM, []),
      (''request_itl_seconds'', MK_HISTOGRAM, []),
      (''streams_created_total'', MK_COUNTER, []),
      (''streams_completed_total'', MK_COUNTER, []),
      (''streams_failed_total'', MK_COUNTER, []),
      (''streams_cancelled_total'', MK_COUNTER, []),
      (''routing_decisions_total'', MK_COUNTER, [''model_id'', ''backend_id'']),
      (''routing_failures_total'', MK_COUNTER, [''model_id'']),
      (''fallback_invocations_total'', MK_COUNTER, [''model_id'']),
      (''model_requests_total'', MK_COUNTER, [''model_id'']),
      (''backend_selection_total'', MK_COUNTER, [''backend_id'']),
      (''backend_prompt_tokens_total'', MK_COUNTER, [''backend_id'']),
      (''backend_completion_tokens_total'', MK_COUNTER, [''backend_id'']),
      (''gpu_utilization_percent'', MK_GAUGE, [''device_id'']),
      (''gpu_memory_used_bytes'', MK_GAUGE, [''device_id'']),
      (''gpu_memory_free_bytes'', MK_GAUGE, [''device_id'']),
      (''gpu_memory_total_bytes'', MK_GAUGE, [''device_id'']),
      (''kv_cache_estimated_bytes'', MK_GAUGE, []),
      (''active_sequences'', MK_GAUGE, []),
      (''capacity_remaining'', MK_GAUGE, [])]"

definition metrics_catalogue :: "(string \<times> metric_kind \<times> string list) list" where
  "metrics_catalogue = platform_catalogue @ backend_catalogue"

definition declared_call :: "metric_call \<Rightarrow> bool" where
  "declared_call c \<longleftrightarrow>
     map_of metrics_catalogue (call_metric c) = Some (call_kind c, map fst (call_labels c))"

lemma catalogue_lookup:
  "map_of metrics_catalogue ''requests_received_total'' = Some (MK_COUNTER, [])"
  "map_of metrics_catalogue ''requests_completed_total'' = Some (MK_COUNTER, [])"
  "map_of metrics_catalogue ''requests_failed_total'' = Some (MK_COUNTER, [])"
  "map_of metrics_catalogue ''requests_rejected_total'' = Some (MK_COUNTER, [])"
  "map_of metrics_catalogue ''active_requests'' = Some (MK_GAUGE, [])"
  "map_of metrics_catalogue ''request_duration_seconds'' = Some (MK_HISTOGRAM, [])"
  "map_of metrics_catalogue ''queue_depth'' = Some (MK_GAUGE, [])"
  "map_of metrics_catalogue ''queue_enqueue_total'' = Some (MK_COUNTER, [])"
  "map_of metrics_catalogue ''queue_dequeue_total'' = Some (MK_COUNTER, [])"
  "map_of metrics_catalogue ''queue_timeout_total'' = Some (MK_COUNTER, [])"
  "map_of metrics_catalogue ''queue_wait_duration_seconds'' = Some (MK_HISTOGRAM, [])"
  "map_of metrics_catalogue ''scheduler_cycles_total'' = Some (MK_COUNTER, [])"
  "map_of metrics_catalogue ''scheduler_selection_total'' = Some (MK_COUNTER, [])"
  "map_of metrics_catalogue ''scheduler_skip_total'' = Some (MK_COUNTER, [])"
  "map_of metrics_catalogue ''scheduler_failures_total'' = Some (MK_COUNTER, [])"
  "map_of metrics_catalogue ''scheduler_cycle_duration_seconds'' = Some (MK_HISTOGRAM, [])"
  "map_of metrics_catalogue ''scheduler_policy_decisions_total'' = Some (MK_COUNTER, [''policy_id'', ''selected'', ''decision_reason''])"
  "map_of metrics_catalogue ''scheduler_policy_queue_age_seconds'' = Some (MK_HISTOGRAM, [''policy_id''])"
  "map_of metrics_catalogue ''scheduler_policy_request_age_seconds'' = Some (MK_HISTOGRAM, [''policy_id''])"
  "map_of metrics_catalogue ''batches_created_total'' = Some (MK_COUNTER, [])"
  "map_of metrics_catalogue ''active_batches'' = Some (MK_GAUGE, [])"
  "map_of metrics_catalogue ''batch_size'' = Some (MK_HISTOGRAM, [])"
  "map_of metrics_catalogue ''batch_admissions_total'' = Some (MK_COUNTER, [])"
  "map_of metrics_catalogue ''batch_failures_total'' = Some (MK_COUNTER, [])"
  "map_of metrics_catalogue ''batch_lifetime_seconds'' = Some (MK_HISTOGRAM, [])"
  "map_of metrics_catalogue ''backend_submissions_total'' = Some (MK_COUNTER, [''backend_id''])"
  "map_of metrics_catalogue ''backend_acceptance_total'' = Some (MK_COUNTER, [''backend_id''])"
  "map_of metrics_catalogue ''backend_rejections_total'' = Some (MK_COUNTER, [''backend_id''])"
  "map_of metrics_catalogue ''backend_failures_total'' = Some (MK_COUNTER, [''backend_id''])"
  "map_of metrics_catalogue ''backend_request_duration_seconds'' = Some (MK_HISTOGRAM, [''backend_id''])"
  "map_of metrics_catalogue ''request_ttft_seconds'' = Some (MK_HISTOGRAM, [])"
  "map_of metrics_catalogue ''request_itl_seconds'' = Some (MK_HISTOGRAM, [])"
  "map_of metrics_catalogue ''streams_created_total'' = Some (MK_COUNTER, [])"
  "map_of metrics_catalogue ''streams_completed_total'' = Some (MK_COUNTER, [])"
  "map_of metrics_catalogue ''streams_failed_total'' = Some (MK_COUNTER, [])"
  "map_of metrics_catalogue ''streams_cancelled_total'' = Some (MK_COUNTER, [])"
  "map_of metrics_catalogue ''routing_decisions_total'' = Some (MK_COUNTER, [''model_id'', ''backend_id''])"
  "map_of metrics_catalogue ''routing_failures_total'' = Some (MK_COUNTER, [''model_id''])"
  "map_of metrics_catalogue ''fallback_invocations_total'' = Some (MK_COUNTER, [''model_id''])"
  "map_of metrics_catalogue ''model_requests_total'' = Some (MK_COUNTER, [''model_id''])"
  "map_of metrics_catalogue ''backend_selection_total'' = Some (MK_COUNTER, [''backend_id''])"
  "map_of metrics_catalogue ''backend_prompt_tokens_total'' = Some (MK_COUNTER, [''backend_id''])"
  "map_of metrics_catalogue ''backend_completion_tokens_total'' = Some (MK_COUNTER, [''backend_id''])"
  "map_of metrics_catalogue ''gpu_utilization_percent'' = Some (MK_GAUGE, [''device_id''])"
  "map_of metrics_catalogue ''gpu_memory_used_bytes'' = Some (MK_GAUGE, [''device_id''])"
  "map_of metrics_catalogue ''gpu_memory_free_bytes'' = Some (MK_GAUGE, [''device_id''])"
  "map_of metrics_catalogue ''gpu_memory_total_bytes'' = Some (MK_GAUGE, [''device_id''])"
  "map_of metrics_catalogue ''kv_cache_estimated_bytes'' = Some (MK_GAUGE, [])"
  "map_of metrics_catalogue ''active_sequences'' = Some (MK_GAUGE, [])"
  "map_of metrics_catalogue ''capacity_remaining'' = Some (MK_GAUGE, [])"
  by (code_simp+)

section \<open>The recorder (recorder.py)\<close>

record metrics_state =
  mx_calls :: "metric_call list"
  mx_request_started :: "(uuid, rat) dict"

definition empty_metrics :: metrics_state where
  "empty_metrics = \<lparr>mx_calls = [], mx_request_started = []\<rparr>"

definition call_all :: "metric_call list \<Rightarrow> metrics_state \<Rightarrow> metrics_state" where
  "call_all cs m = m\<lparr>mx_calls := mx_calls m @ cs\<rparr>"

definition finish_request :: "rat \<Rightarrow> uuid \<Rightarrow> metrics_state \<Rightarrow> metrics_state" where
  "finish_request clock request_id m =
     (let m1 = call_all [M_GAUGE_DEC ''active_requests''] m;
          started = dict_get (mx_request_started m1) request_id;
          m2 = m1\<lparr>mx_request_started := dict_del request_id (mx_request_started m1)\<rparr>
      in case started of
           None \<Rightarrow> m2
         | Some t \<Rightarrow> call_all [M_OBSERVE ''request_duration_seconds'' [] (clock - t)] m2)"

definition record_request_received :: "rat \<Rightarrow> uuid \<Rightarrow> metrics_state \<Rightarrow> metrics_state" where
  "record_request_received clock request_id m =
     (let m1 = call_all [M_INC ''requests_received_total'' [] 1, M_GAUGE_INC ''active_requests''] m
      in m1\<lparr>mx_request_started := dict_set request_id clock (mx_request_started m1)\<rparr>)"

definition record_request_completed :: "rat \<Rightarrow> uuid \<Rightarrow> metrics_state \<Rightarrow> metrics_state" where
  "record_request_completed clock request_id m =
     finish_request clock request_id (call_all [M_INC ''requests_completed_total'' [] 1] m)"

definition record_request_failed :: "rat \<Rightarrow> uuid \<Rightarrow> metrics_state \<Rightarrow> metrics_state" where
  "record_request_failed clock request_id m =
     finish_request clock request_id (call_all [M_INC ''requests_failed_total'' [] 1] m)"

definition record_request_rejected :: "rat \<Rightarrow> uuid \<Rightarrow> metrics_state \<Rightarrow> metrics_state" where
  "record_request_rejected clock request_id m =
     finish_request clock request_id (call_all [M_INC ''requests_rejected_total'' [] 1] m)"

definition set_queue_depth :: "nat \<Rightarrow> metrics_state \<Rightarrow> metrics_state" where
  "set_queue_depth depth = call_all [M_GAUGE_SET ''queue_depth'' [] (of_nat depth)]"

definition observe_wait :: "rat option \<Rightarrow> metric_call list" where
  "observe_wait wait_seconds =
     (case wait_seconds of
        None \<Rightarrow> []
      | Some w \<Rightarrow> [M_OBSERVE ''queue_wait_duration_seconds'' [] w])"

definition record_queue_enqueue :: "rat option \<Rightarrow> metrics_state \<Rightarrow> metrics_state" where
  "record_queue_enqueue w = call_all (M_INC ''queue_enqueue_total'' [] 1 # observe_wait w)"

definition record_queue_dequeue :: "rat option \<Rightarrow> metrics_state \<Rightarrow> metrics_state" where
  "record_queue_dequeue w = call_all (M_INC ''queue_dequeue_total'' [] 1 # observe_wait w)"

definition record_queue_timeout :: "rat option \<Rightarrow> metrics_state \<Rightarrow> metrics_state" where
  "record_queue_timeout w = call_all (M_INC ''queue_timeout_total'' [] 1 # observe_wait w)"

definition record_scheduler_cycle ::
  "nat \<Rightarrow> nat \<Rightarrow> rat \<Rightarrow> bool \<Rightarrow> metrics_state \<Rightarrow> metrics_state" where
  "record_scheduler_cycle selected_count skipped_count duration failed =
     call_all
       ([M_INC ''scheduler_cycles_total'' [] 1]
        @ (if selected_count \<noteq> 0
           then [M_INC ''scheduler_selection_total'' [] (of_nat selected_count)] else [])
        @ (if skipped_count \<noteq> 0
           then [M_INC ''scheduler_skip_total'' [] (of_nat skipped_count)] else [])
        @ (if failed then [M_INC ''scheduler_failures_total'' [] 1] else [])
        @ [M_OBSERVE ''scheduler_cycle_duration_seconds'' [] duration])"

definition record_scheduler_policy_decision ::
  "string \<Rightarrow> bool \<Rightarrow> string \<Rightarrow> rat \<Rightarrow> rat \<Rightarrow> metrics_state \<Rightarrow> metrics_state" where
  "record_scheduler_policy_decision policy_id selected reason queue_wait request_age =
     call_all
       [M_INC ''scheduler_policy_decisions_total''
          [(''policy_id'', policy_id), (''selected'', if selected then ''true'' else ''false''),
           (''decision_reason'', reason)] 1,
        M_OBSERVE ''scheduler_policy_queue_age_seconds'' [(''policy_id'', policy_id)] queue_wait,
        M_OBSERVE ''scheduler_policy_request_age_seconds'' [(''policy_id'', policy_id)]
          request_age]"

definition record_batch_created :: "metrics_state \<Rightarrow> metrics_state" where
  "record_batch_created = call_all [M_INC ''batches_created_total'' [] 1]"

definition set_active_batches :: "nat \<Rightarrow> metrics_state \<Rightarrow> metrics_state" where
  "set_active_batches n = call_all [M_GAUGE_SET ''active_batches'' [] (of_nat n)]"

definition record_batch_admission :: "nat \<Rightarrow> metrics_state \<Rightarrow> metrics_state" where
  "record_batch_admission sz =
     call_all [M_INC ''batch_admissions_total'' [] 1, M_OBSERVE ''batch_size'' [] (of_nat sz)]"

definition record_batch_failed :: "rat \<Rightarrow> metrics_state \<Rightarrow> metrics_state" where
  "record_batch_failed lifetime =
     call_all [M_INC ''batch_failures_total'' [] 1,
               M_OBSERVE ''batch_lifetime_seconds'' [] lifetime]"

definition record_batch_completed :: "rat \<Rightarrow> metrics_state \<Rightarrow> metrics_state" where
  "record_batch_completed lifetime = call_all [M_OBSERVE ''batch_lifetime_seconds'' [] lifetime]"

abbreviation backend_label :: "string \<Rightarrow> labels" where
  "backend_label b \<equiv> [(''backend_id'', b)]"

abbreviation model_label :: "string \<Rightarrow> labels" where
  "model_label m \<equiv> [(''model_id'', m)]"

definition record_backend_submission :: "string \<Rightarrow> metrics_state \<Rightarrow> metrics_state" where
  "record_backend_submission b = call_all [M_INC ''backend_submissions_total'' (backend_label b) 1]"

definition record_backend_acceptance :: "string \<Rightarrow> rat \<Rightarrow> metrics_state \<Rightarrow> metrics_state" where
  "record_backend_acceptance b duration =
     call_all [M_INC ''backend_acceptance_total'' (backend_label b) 1,
               M_OBSERVE ''backend_request_duration_seconds'' (backend_label b) duration]"

definition record_backend_rejection :: "string \<Rightarrow> rat \<Rightarrow> metrics_state \<Rightarrow> metrics_state" where
  "record_backend_rejection b duration =
     call_all [M_INC ''backend_rejections_total'' (backend_label b) 1,
               M_OBSERVE ''backend_request_duration_seconds'' (backend_label b) duration]"

definition record_backend_failure :: "string \<Rightarrow> rat \<Rightarrow> metrics_state \<Rightarrow> metrics_state" where
  "record_backend_failure b duration =
     call_all [M_INC ''backend_failures_total'' (backend_label b) 1,
               M_OBSERVE ''backend_request_duration_seconds'' (backend_label b) duration]"

definition record_backend_tokens :: "string \<Rightarrow> int \<Rightarrow> int \<Rightarrow> metrics_state \<Rightarrow> metrics_state" where
  "record_backend_tokens b prompt_tokens completion_tokens =
     call_all
       ((if prompt_tokens \<noteq> 0
         then [M_INC ''backend_prompt_tokens_total'' (backend_label b) (of_int prompt_tokens)]
         else [])
        @ (if completion_tokens \<noteq> 0
           then [M_INC ''backend_completion_tokens_total'' (backend_label b)
                   (of_int completion_tokens)]
           else []))"

definition record_stream_created :: "metrics_state \<Rightarrow> metrics_state" where
  "record_stream_created = call_all [M_INC ''streams_created_total'' [] 1]"

definition record_stream_completed :: "metrics_state \<Rightarrow> metrics_state" where
  "record_stream_completed = call_all [M_INC ''streams_completed_total'' [] 1]"

definition record_stream_failed :: "metrics_state \<Rightarrow> metrics_state" where
  "record_stream_failed = call_all [M_INC ''streams_failed_total'' [] 1]"

definition record_stream_cancelled :: "metrics_state \<Rightarrow> metrics_state" where
  "record_stream_cancelled = call_all [M_INC ''streams_cancelled_total'' [] 1]"

definition record_ttft :: "rat \<Rightarrow> metrics_state \<Rightarrow> metrics_state" where
  "record_ttft t = call_all [M_OBSERVE ''request_ttft_seconds'' [] t]"

definition record_itl :: "rat \<Rightarrow> metrics_state \<Rightarrow> metrics_state" where
  "record_itl t = call_all [M_OBSERVE ''request_itl_seconds'' [] t]"

definition record_routing_decision :: "string \<Rightarrow> string \<Rightarrow> metrics_state \<Rightarrow> metrics_state" where
  "record_routing_decision model b =
     call_all [M_INC ''routing_decisions_total'' [(''model_id'', model), (''backend_id'', b)] 1]"

definition record_routing_failure :: "string \<Rightarrow> metrics_state \<Rightarrow> metrics_state" where
  "record_routing_failure model = call_all [M_INC ''routing_failures_total'' (model_label model) 1]"

definition record_fallback_invocation :: "string \<Rightarrow> metrics_state \<Rightarrow> metrics_state" where
  "record_fallback_invocation model =
     call_all [M_INC ''fallback_invocations_total'' (model_label model) 1]"

definition record_model_request :: "string \<Rightarrow> metrics_state \<Rightarrow> metrics_state" where
  "record_model_request model = call_all [M_INC ''model_requests_total'' (model_label model) 1]"

definition record_backend_selection :: "string \<Rightarrow> metrics_state \<Rightarrow> metrics_state" where
  "record_backend_selection b = call_all [M_INC ''backend_selection_total'' (backend_label b) 1]"

definition set_gpu_device_metrics ::
  "string \<Rightarrow> rat \<Rightarrow> int \<Rightarrow> int \<Rightarrow> int \<Rightarrow> metrics_state \<Rightarrow> metrics_state" where
  "set_gpu_device_metrics device utilization used free capacity =
     call_all
       [M_GAUGE_SET ''gpu_utilization_percent'' [(''device_id'', device)] utilization,
        M_GAUGE_SET ''gpu_memory_used_bytes'' [(''device_id'', device)] (of_int used),
        M_GAUGE_SET ''gpu_memory_free_bytes'' [(''device_id'', device)] (of_int free),
        M_GAUGE_SET ''gpu_memory_total_bytes'' [(''device_id'', device)] (of_int capacity)]"

definition set_kv_cache_estimated_bytes :: "int \<Rightarrow> metrics_state \<Rightarrow> metrics_state" where
  "set_kv_cache_estimated_bytes v = call_all [M_GAUGE_SET ''kv_cache_estimated_bytes'' [] (of_int v)]"

definition set_active_sequences :: "int \<Rightarrow> metrics_state \<Rightarrow> metrics_state" where
  "set_active_sequences v = call_all [M_GAUGE_SET ''active_sequences'' [] (of_int v)]"

definition set_capacity_remaining :: "int \<Rightarrow> metrics_state \<Rightarrow> metrics_state" where
  "set_capacity_remaining v = call_all [M_GAUGE_SET ''capacity_remaining'' [] (of_int v)]"

section \<open>Reading the calls\<close>

text \<open>
  The value of a counter is the sum of its increments, and that of the gauge of active
  requests its increments less its decrements (the recorder never sets it).
\<close>

definition inc_amount :: "string \<Rightarrow> metric_call \<Rightarrow> rat" where
  "inc_amount name c = (case c of M_INC m l x \<Rightarrow> if m = name then x else 0 | _ \<Rightarrow> 0)"

definition counter_value :: "string \<Rightarrow> metrics_state \<Rightarrow> rat" where
  "counter_value name m = sum_list (map (inc_amount name) (mx_calls m))"

definition gauge_step :: "string \<Rightarrow> metric_call \<Rightarrow> rat" where
  "gauge_step name c =
     (case c of
        M_GAUGE_INC m \<Rightarrow> if m = name then 1 else 0
      | M_GAUGE_DEC m \<Rightarrow> if m = name then - 1 else 0
      | _ \<Rightarrow> 0)"

definition gauge_balance :: "string \<Rightarrow> metrics_state \<Rightarrow> rat" where
  "gauge_balance name m = sum_list (map (gauge_step name) (mx_calls m))"

definition gauge_sets :: "string \<Rightarrow> metrics_state \<Rightarrow> rat list" where
  "gauge_sets name m =
     concat (map (\<lambda>c. case c of M_GAUGE_SET g l x \<Rightarrow> if g = name then [x] else [] | _ \<Rightarrow> [])
       (mx_calls m))"

named_theorems metrics_defs \<open>the recorder's operations\<close>

lemmas request_metrics_defs [metrics_defs] =
  record_request_received_def record_request_completed_def record_request_failed_def
  record_request_rejected_def finish_request_def

lemmas simple_metrics_defs [metrics_defs] =
  set_queue_depth_def record_queue_enqueue_def record_queue_dequeue_def record_queue_timeout_def
  record_scheduler_cycle_def record_scheduler_policy_decision_def record_batch_created_def
  set_active_batches_def record_batch_admission_def record_batch_failed_def
  record_batch_completed_def record_backend_submission_def record_backend_acceptance_def
  record_backend_rejection_def record_backend_failure_def record_backend_tokens_def
  record_stream_created_def record_stream_completed_def record_stream_failed_def
  record_stream_cancelled_def record_ttft_def record_itl_def record_routing_decision_def
  record_routing_failure_def record_fallback_invocation_def record_model_request_def
  record_backend_selection_def set_gpu_device_metrics_def set_kv_cache_estimated_bytes_def
  set_active_sequences_def set_capacity_remaining_def observe_wait_def

lemma counter_value_calls [simp]:
  "counter_value n (call_all cs m) = counter_value n m + sum_list (map (inc_amount n) cs)"
  by (simp add: counter_value_def call_all_def)

lemma gauge_balance_calls [simp]:
  "gauge_balance n (call_all cs m) = gauge_balance n m + sum_list (map (gauge_step n) cs)"
  by (simp add: gauge_balance_def call_all_def)

lemma started_calls [simp]: "mx_request_started (call_all cs m) = mx_request_started m"
  by (simp add: call_all_def)

lemma counter_value_started [simp]:
  "counter_value n (m\<lparr>mx_request_started := d\<rparr>) = counter_value n m"
  by (simp add: counter_value_def)

lemma gauge_balance_started [simp]:
  "gauge_balance n (m\<lparr>mx_request_started := d\<rparr>) = gauge_balance n m"
  by (simp add: gauge_balance_def)

text \<open>Every operation of the recorder, as one step on its state.\<close>

inductive recorder_step :: "metrics_state \<Rightarrow> metrics_state \<Rightarrow> bool" where
  record_request_received_step: "recorder_step m (record_request_received a0 a1 m)"
| record_request_completed_step: "recorder_step m (record_request_completed a0 a1 m)"
| record_request_failed_step: "recorder_step m (record_request_failed a0 a1 m)"
| record_request_rejected_step: "recorder_step m (record_request_rejected a0 a1 m)"
| set_queue_depth_step: "recorder_step m (set_queue_depth a0 m)"
| record_queue_enqueue_step: "recorder_step m (record_queue_enqueue a0 m)"
| record_queue_dequeue_step: "recorder_step m (record_queue_dequeue a0 m)"
| record_queue_timeout_step: "recorder_step m (record_queue_timeout a0 m)"
| record_scheduler_cycle_step: "recorder_step m (record_scheduler_cycle a0 a1 a2 a3 m)"
| record_scheduler_policy_decision_step: "recorder_step m (record_scheduler_policy_decision a0 a1 a2 a3 a4 m)"
| record_batch_created_step: "recorder_step m (record_batch_created m)"
| set_active_batches_step: "recorder_step m (set_active_batches a0 m)"
| record_batch_admission_step: "recorder_step m (record_batch_admission a0 m)"
| record_batch_failed_step: "recorder_step m (record_batch_failed a0 m)"
| record_batch_completed_step: "recorder_step m (record_batch_completed a0 m)"
| record_backend_submission_step: "recorder_step m (record_backend_submission a0 m)"
| record_backend_acceptance_step: "recorder_step m (record_backend_acceptance a0 a1 m)"
| record_backend_rejection_step: "recorder_step m (record_backend_rejection a0 a1 m)"
| record_backend_failure_step: "recorder_step m (record_backend_failure a0 a1 m)"
| record_backend_tokens_step: "recorder_step m (record_backend_tokens a0 a1 a2 m)"
| record_stream_created_step: "recorder_step m (record_stream_created m)"
| record_stream_completed_step: "recorder_step m (record_stream_completed m)"
| record_stream_failed_step: "recorder_step m (record_stream_failed m)"
| record_stream_cancelled_step: "recorder_step m (record_stream_cancelled m)"
| record_ttft_step: "recorder_step m (record_ttft a0 m)"
| record_itl_step: "recorder_step m (record_itl a0 m)"
| record_routing_decision_step: "recorder_step m (record_routing_decision a0 a1 m)"
| record_routing_failure_step: "recorder_step m (record_routing_failure a0 m)"
| record_fallback_invocation_step: "recorder_step m (record_fallback_invocation a0 m)"
| record_model_request_step: "recorder_step m (record_model_request a0 m)"
| record_backend_selection_step: "recorder_step m (record_backend_selection a0 m)"
| set_gpu_device_metrics_step: "recorder_step m (set_gpu_device_metrics a0 a1 a2 a3 a4 m)"
| set_kv_cache_estimated_bytes_step: "recorder_step m (set_kv_cache_estimated_bytes a0 m)"
| set_active_sequences_step: "recorder_step m (set_active_sequences a0 m)"
| set_capacity_remaining_step: "recorder_step m (set_capacity_remaining a0 m)"

definition active_balance :: "metrics_state \<Rightarrow> rat" where
  "active_balance m =
     gauge_balance ''active_requests'' m
       - (counter_value ''requests_received_total'' m
          - counter_value ''requests_completed_total'' m
          - counter_value ''requests_failed_total'' m
          - counter_value ''requests_rejected_total'' m)"

lemma active_balance_step: "recorder_step m m' \<Longrightarrow> active_balance m' = active_balance m"
  by (induction rule: recorder_step.induct)
    (simp_all add: active_balance_def metrics_defs inc_amount_def gauge_step_def Let_def
      split: option.split)

definition all_declared :: "metrics_state \<Rightarrow> bool" where
  "all_declared m \<longleftrightarrow> list_all declared_call (mx_calls m)"

lemma all_declared_calls [simp]:
  "all_declared (call_all cs m) \<longleftrightarrow> all_declared m \<and> list_all declared_call cs"
  by (simp add: all_declared_def call_all_def)

lemma all_declared_started [simp]:
  "all_declared (m\<lparr>mx_request_started := d\<rparr>) = all_declared m"
  by (simp add: all_declared_def)

lemma all_declared_step: "recorder_step m m' \<Longrightarrow> all_declared m \<Longrightarrow> all_declared m'"
  by (induction rule: recorder_step.induct)
    (simp_all add: metrics_defs declared_call_def catalogue_lookup Let_def split: option.split)

end
