(* ===== verification/Trace_Store.thy ===== *)
theory Trace_Store
  imports Prelude "HOL-Library.Sublist"
begin

text \<open>
  The per-request traces (\<open>gpu_inference_observability/runtime\<close>): the event and trace records
  of \<open>models.py\<close>, the store of \<open>store.py\<close> and the recorder of \<open>recorder.py\<close> that every
  component reports to.
\<close>

section \<open>Records (runtime/models.py)\<close>

datatype runtime_component =
    RT_GATEWAY | RT_CONTROL_PLANE | RT_SCHEDULER | RT_ADAPTER | RT_BACKEND | RT_REPLAY

fun runtime_component_value :: "runtime_component \<Rightarrow> string" where
  "runtime_component_value RT_GATEWAY = ''gateway''"
| "runtime_component_value RT_CONTROL_PLANE = ''control_plane''"
| "runtime_component_value RT_SCHEDULER = ''scheduler''"
| "runtime_component_value RT_ADAPTER = ''adapter''"
| "runtime_component_value RT_BACKEND = ''backend''"
| "runtime_component_value RT_REPLAY = ''replay''"

text \<open>The values the emitters put into the \<open>extra\<close> dictionaries.\<close>

datatype extra_value =
    X_NONE | X_STR string | X_INT int | X_NUM rat | X_BOOL bool | X_STRS "string list"

type_synonym extra = "(string, extra_value) dict"

definition dict_update :: "('k, 'v) dict \<Rightarrow> ('k, 'v) dict \<Rightarrow> ('k, 'v) dict" where
  "dict_update d e = fold (\<lambda>(k, v). dict_set k v) e d"

record trace_context =
  tc_request_id :: uuid
  tc_correlation_id :: string
  tc_batch_id :: "string option"
  tc_backend_id :: "string option"

record trace_event =
  te_request_id :: uuid
  te_correlation_id :: string
  te_timestamp :: datetime
  te_component :: runtime_component
  te_event_type :: string
  te_batch_id :: "string option"
  te_backend_id :: "string option"
  te_lifecycle_state :: "string option"
  te_decision_reason :: "string option"
  te_extra :: extra

record trace_failure =
  tf_failure_type :: string
  tf_failure_owner :: runtime_component
  tf_failure_component :: string
  tf_failure_timestamp :: datetime
  tf_failure_reason :: string
  tf_failure_state :: string
  tf_request_id :: uuid
  tf_correlation_id :: string
  tf_batch_id :: "string option"
  tf_backend_id :: "string option"

record lifecycle_timestamps =
  request_received_at :: "datetime option"
  request_validated_at :: "datetime option"
  request_admitted_at :: "datetime option"
  request_queued_at :: "datetime option"
  request_scheduled_at :: "datetime option"
  request_batched_at :: "datetime option"
  request_submitted_at :: "datetime option"
  request_completed_at :: "datetime option"

definition no_timestamps :: lifecycle_timestamps where
  "no_timestamps =
     \<lparr>request_received_at = None, request_validated_at = None, request_admitted_at = None,
      request_queued_at = None, request_scheduled_at = None, request_batched_at = None,
      request_submitted_at = None, request_completed_at = None\<rparr>"

definition keep_first :: "datetime \<Rightarrow> datetime option \<Rightarrow> datetime option" where
  "keep_first ts current = (case current of None \<Rightarrow> Some ts | Some t \<Rightarrow> Some t)"

definition record_lifecycle_state ::
  "string \<Rightarrow> datetime \<Rightarrow> lifecycle_timestamps \<Rightarrow> lifecycle_timestamps" where
  "record_lifecycle_state state ts l =
     (if state = ''received'' then request_received_at_update (keep_first ts) l
      else if state = ''validated'' then request_validated_at_update (keep_first ts) l
      else if state = ''admitted'' then request_admitted_at_update (keep_first ts) l
      else if state = ''queued'' then request_queued_at_update (keep_first ts) l
      else if state = ''scheduled'' then request_scheduled_at_update (keep_first ts) l
      else if state = ''batched'' then request_batched_at_update (keep_first ts) l
      else if state = ''submitted'' then request_submitted_at_update (keep_first ts) l
      else if state = ''completed'' then request_completed_at_update (keep_first ts) l
      else l)"

definition delta_ms :: "datetime option \<Rightarrow> datetime option \<Rightarrow> rat option" where
  "delta_ms start stop =
     (case (start, stop) of (Some a, Some b) \<Rightarrow> Some (elapsed_ms b a) | _ \<Rightarrow> None)"

definition durations_ms :: "lifecycle_timestamps \<Rightarrow> (string, rat option) dict" where
  "durations_ms l =
     [(''validation_ms'', delta_ms (request_received_at l) (request_validated_at l)),
      (''admission_ms'', delta_ms (request_validated_at l) (request_admitted_at l)),
      (''queue_wait_ms'', delta_ms (request_admitted_at l) (request_queued_at l)),
      (''schedule_ms'', delta_ms (request_queued_at l) (request_scheduled_at l)),
      (''batch_ms'', delta_ms (request_scheduled_at l) (request_batched_at l)),
      (''submit_ms'', delta_ms (request_batched_at l) (request_submitted_at l)),
      (''completion_ms'', delta_ms (request_submitted_at l) (request_completed_at l)),
      (''e2e_ms'', delta_ms (request_received_at l) (request_completed_at l))]"

record request_trace =
  rt_context :: trace_context
  rt_events :: "trace_event list"
  rt_failures :: "trace_failure list"
  rt_timestamps :: lifecycle_timestamps

record lifecycle_event_record =
  le_request_id :: uuid
  le_correlation_id :: string
  le_timestamp :: datetime
  le_component :: runtime_component
  le_event_type :: string
  le_lifecycle_state :: "string option"
  le_from_state :: "string option"
  le_to_state :: "string option"
  le_batch_id :: "string option"
  le_backend_id :: "string option"
  le_extra :: extra

record queue_event_record =
  qe_request_id :: uuid
  qe_correlation_id :: string
  qe_timestamp :: datetime
  qe_component :: runtime_component
  qe_event_type :: string
  qe_queue_position :: "nat option"
  qe_extra :: extra

record failure_event_record =
  fe_request_id :: uuid
  fe_correlation_id :: string
  fe_timestamp :: datetime
  fe_component :: runtime_component
  fe_event_type :: string
  fe_failure_type :: string
  fe_failure_reason :: string
  fe_failure_state :: string
  fe_batch_id :: "string option"
  fe_backend_id :: "string option"

text \<open>
  Scheduler, batch and backend records have the same fields; the scheduler's also carries the
  cycle id, which the other two leave \<open>None\<close>.
\<close>

record optional_event_record =
  oe_request_id :: "uuid option"
  oe_correlation_id :: "string option"
  oe_timestamp :: datetime
  oe_component :: runtime_component
  oe_event_type :: string
  oe_scheduler_cycle_id :: "string option"
  oe_batch_id :: "string option"
  oe_backend_id :: "string option"
  oe_decision_reason :: "string option"
  oe_extra :: extra

section \<open>The store (runtime/store.py)\<close>

type_synonym trace_store = "(uuid, request_trace) dict"

definition new_trace :: "uuid \<Rightarrow> string \<Rightarrow> request_trace" where
  "new_trace request_id correlation_id =
     \<lparr>rt_context = \<lparr>tc_request_id = request_id, tc_correlation_id = correlation_id,
        tc_batch_id = None, tc_backend_id = None\<rparr>,
      rt_events = [], rt_failures = [], rt_timestamps = no_timestamps\<rparr>"

definition ensure :: "uuid \<Rightarrow> string \<Rightarrow> trace_store \<Rightarrow> request_trace \<times> trace_store" where
  "ensure request_id correlation_id st =
     (case dict_get st request_id of
        None \<Rightarrow>
          let t = new_trace request_id correlation_id in (t, dict_set request_id t st)
      | Some t \<Rightarrow>
          if tc_correlation_id (rt_context t) \<noteq> correlation_id \<and> correlation_id \<noteq> []
          then let t' = t\<lparr>rt_context := \<lparr>tc_request_id = request_id,
                           tc_correlation_id = correlation_id,
                           tc_batch_id = tc_batch_id (rt_context t),
                           tc_backend_id = tc_backend_id (rt_context t)\<rparr>\<rparr>
               in (t', dict_set request_id t' st)
          else (t, st))"

definition retag :: "uuid \<Rightarrow> string option \<Rightarrow> string option \<Rightarrow> request_trace \<Rightarrow> request_trace" where
  "retag request_id batch_id backend_id t =
     (let c = rt_context t;
          t1 = (case batch_id of
                  None \<Rightarrow> t
                | Some b \<Rightarrow> t\<lparr>rt_context := \<lparr>tc_request_id = request_id,
                              tc_correlation_id = tc_correlation_id c, tc_batch_id = Some b,
                              tc_backend_id = tc_backend_id c\<rparr>\<rparr>);
          c1 = rt_context t1
      in case backend_id of
           None \<Rightarrow> t1
         | Some b \<Rightarrow> t1\<lparr>rt_context := \<lparr>tc_request_id = request_id,
                        tc_correlation_id = tc_correlation_id c1,
                        tc_batch_id = tc_batch_id c1, tc_backend_id = Some b\<rparr>\<rparr>)"

definition append_event :: "trace_event \<Rightarrow> trace_store \<Rightarrow> trace_store" where
  "append_event e st =
     (let (t, st1) = (case dict_get st (te_request_id e) of
                        None \<Rightarrow> ensure (te_request_id e) (te_correlation_id e) st
                      | Some t \<Rightarrow> (t, st));
          t1 = t\<lparr>rt_events := rt_events t @ [e]\<rparr>;
          t2 = retag (te_request_id e) (te_batch_id e) (te_backend_id e) t1;
          t3 = (case te_lifecycle_state e of
                  None \<Rightarrow> t2
                | Some s \<Rightarrow> t2\<lparr>rt_timestamps :=
                              record_lifecycle_state s (te_timestamp e) (rt_timestamps t2)\<rparr>)
      in dict_set (te_request_id e) t3 st1)"

definition append_failure :: "trace_failure \<Rightarrow> trace_store \<Rightarrow> trace_store" where
  "append_failure f st =
     (let (t, st1) = ensure (tf_request_id f) (tf_correlation_id f) st;
          t1 = t\<lparr>rt_failures := rt_failures t @ [f]\<rparr>
      in dict_set (tf_request_id f)
           (retag (tf_request_id f) (tf_batch_id f) (tf_backend_id f) t1) st1)"

definition update_context ::
  "uuid \<Rightarrow> string option \<Rightarrow> string option \<Rightarrow> string option \<Rightarrow> trace_store \<Rightarrow> trace_store" where
  "update_context request_id correlation_id batch_id backend_id st =
     (let write = (\<lambda>(t, st1).
            dict_set request_id
              (t\<lparr>rt_context := \<lparr>tc_request_id = request_id,
                 tc_correlation_id =
                   (case correlation_id of
                      Some c \<Rightarrow> if c \<noteq> [] then c else tc_correlation_id (rt_context t)
                    | None \<Rightarrow> tc_correlation_id (rt_context t)),
                 tc_batch_id = (if batch_id \<noteq> None then batch_id else tc_batch_id (rt_context t)),
                 tc_backend_id =
                   (if backend_id \<noteq> None then backend_id else tc_backend_id (rt_context t))\<rparr>\<rparr>)
              st1)
      in case dict_get st request_id of
           Some t \<Rightarrow> write (t, st)
         | None \<Rightarrow> (case correlation_id of None \<Rightarrow> st | Some c \<Rightarrow> write (ensure request_id c st)))"

definition list_request_ids :: "trace_store \<Rightarrow> uuid list" where
  "list_request_ids st = dict_keys st"

section \<open>The recorder (runtime/recorder.py)\<close>

text \<open>A string used as a condition: neither \<open>None\<close> nor empty.\<close>

definition truthy :: "string option \<Rightarrow> bool" where
  "truthy s = (case s of None \<Rightarrow> False | Some x \<Rightarrow> x \<noteq> [])"

definition or_else :: "string option \<Rightarrow> string option \<Rightarrow> string option" where
  "or_else a b = (if truthy a then a else b)"

definition str_item :: "string \<Rightarrow> string option \<Rightarrow> extra" where
  "str_item k v = (case v of Some x \<Rightarrow> if x \<noteq> [] then [(k, X_STR x)] else [] | None \<Rightarrow> [])"

definition record_lifecycle :: "lifecycle_event_record \<Rightarrow> trace_store \<Rightarrow> trace_store" where
  "record_lifecycle r st =
     append_event
       \<lparr>te_request_id = le_request_id r, te_correlation_id = le_correlation_id r,
        te_timestamp = le_timestamp r, te_component = le_component r,
        te_event_type = le_event_type r, te_batch_id = le_batch_id r,
        te_backend_id = le_backend_id r,
        te_lifecycle_state = or_else (le_to_state r) (le_lifecycle_state r),
        te_decision_reason = None,
        te_extra = dict_update (le_extra r) (str_item ''from_state'' (le_from_state r))\<rparr>
       (snd (ensure (le_request_id r) (le_correlation_id r) st))"

definition record_queue :: "queue_event_record \<Rightarrow> trace_store \<Rightarrow> trace_store" where
  "record_queue r st =
     append_event
       \<lparr>te_request_id = qe_request_id r, te_correlation_id = qe_correlation_id r,
        te_timestamp = qe_timestamp r, te_component = qe_component r,
        te_event_type = qe_event_type r, te_batch_id = None, te_backend_id = None,
        te_lifecycle_state = None, te_decision_reason = None,
        te_extra = dict_update (qe_extra r)
          (case qe_queue_position r of
             None \<Rightarrow> []
           | Some p \<Rightarrow> if p \<noteq> 0 then [(''queue_position'', X_INT (int p))] else [])\<rparr>
       (snd (ensure (qe_request_id r) (qe_correlation_id r) st))"

definition append_optional_event :: "optional_event_record \<Rightarrow> trace_store \<Rightarrow> trace_store" where
  "append_optional_event r st =
     (case oe_request_id r of
        None \<Rightarrow> st
      | Some i \<Rightarrow>
          append_event
            \<lparr>te_request_id = i,
             te_correlation_id = (case oe_correlation_id r of None \<Rightarrow> [] | Some c \<Rightarrow> c),
             te_timestamp = oe_timestamp r, te_component = oe_component r,
             te_event_type = oe_event_type r, te_batch_id = oe_batch_id r,
             te_backend_id = oe_backend_id r, te_lifecycle_state = None,
             te_decision_reason = None,
             te_extra = dict_update (dict_update (oe_extra r)
               (str_item ''decision_reason'' (oe_decision_reason r)))
               (str_item ''scheduler_cycle_id'' (oe_scheduler_cycle_id r))\<rparr>
            st)"

definition record_optional :: "optional_event_record \<Rightarrow> trace_store \<Rightarrow> trace_store" where
  "record_optional r st =
     append_optional_event r
       (case (oe_request_id r, oe_correlation_id r) of
          (Some i, Some c) \<Rightarrow> if c \<noteq> [] then snd (ensure i c st) else st
        | _ \<Rightarrow> st)"

definition record_failure :: "failure_event_record \<Rightarrow> trace_store \<Rightarrow> trace_store" where
  "record_failure r st =
     append_event
       \<lparr>te_request_id = fe_request_id r, te_correlation_id = fe_correlation_id r,
        te_timestamp = fe_timestamp r, te_component = fe_component r,
        te_event_type = fe_event_type r, te_batch_id = fe_batch_id r,
        te_backend_id = fe_backend_id r, te_lifecycle_state = Some (fe_failure_state r),
        te_decision_reason = None,
        te_extra = [(''failure_type'', X_STR (fe_failure_type r)),
                    (''failure_reason'', X_STR (fe_failure_reason r))]\<rparr>
       (append_failure
          \<lparr>tf_failure_type = fe_failure_type r, tf_failure_owner = fe_component r,
           tf_failure_component = runtime_component_value (fe_component r),
           tf_failure_timestamp = fe_timestamp r, tf_failure_reason = fe_failure_reason r,
           tf_failure_state = fe_failure_state r, tf_request_id = fe_request_id r,
           tf_correlation_id = fe_correlation_id r, tf_batch_id = fe_batch_id r,
           tf_backend_id = fe_backend_id r\<rparr> st)"

definition record_gateway_receive ::
  "datetime \<Rightarrow> uuid \<Rightarrow> string \<Rightarrow> string \<Rightarrow> extra \<Rightarrow> trace_store \<Rightarrow> trace_store" where
  "record_gateway_receive now request_id correlation_id event_type extra st =
     append_event
       \<lparr>te_request_id = request_id, te_correlation_id = correlation_id, te_timestamp = now,
        te_component = RT_GATEWAY, te_event_type = event_type, te_batch_id = None,
        te_backend_id = None, te_lifecycle_state = Some ''received'',
        te_decision_reason = None, te_extra = extra\<rparr>
       (snd (ensure request_id correlation_id st))"

section \<open>Traces only grow\<close>

text \<open>
  A trace extends another when its events and failures continue the other's and no lifecycle
  timestamp that the other has is changed.
\<close>

definition kept :: "'a option \<Rightarrow> 'a option \<Rightarrow> bool" where
  "kept x y \<longleftrightarrow> x = None \<or> y = x"

definition stamps_extend :: "lifecycle_timestamps \<Rightarrow> lifecycle_timestamps \<Rightarrow> bool" where
  "stamps_extend l l' \<longleftrightarrow>
     kept (request_received_at l) (request_received_at l') \<and>
     kept (request_validated_at l) (request_validated_at l') \<and>
     kept (request_admitted_at l) (request_admitted_at l') \<and>
     kept (request_queued_at l) (request_queued_at l') \<and>
     kept (request_scheduled_at l) (request_scheduled_at l') \<and>
     kept (request_batched_at l) (request_batched_at l') \<and>
     kept (request_submitted_at l) (request_submitted_at l') \<and>
     kept (request_completed_at l) (request_completed_at l')"

definition trace_extends :: "request_trace \<Rightarrow> request_trace \<Rightarrow> bool" where
  "trace_extends t t' \<longleftrightarrow>
     prefix (rt_events t) (rt_events t') \<and> prefix (rt_failures t) (rt_failures t') \<and>
     stamps_extend (rt_timestamps t) (rt_timestamps t')"

definition store_extends :: "trace_store \<Rightarrow> trace_store \<Rightarrow> bool" where
  "store_extends st st' \<longleftrightarrow>
     (\<forall>(i, t) \<in> set st. dict_get st i = Some t \<longrightarrow>
        (case dict_get st' i of None \<Rightarrow> False | Some t' \<Rightarrow> trace_extends t t'))"

lemma store_extends_iff:
  "store_extends st st' \<longleftrightarrow>
     (\<forall>i t. dict_get st i = Some t \<longrightarrow> (\<exists>t'. dict_get st' i = Some t' \<and> trace_extends t t'))"
  by (fastforce simp: store_extends_def dest: map_of_SomeD split: option.splits)

lemma kept_refl [simp]: "kept x x"
  by (simp add: kept_def)

lemma kept_trans: "kept x y \<Longrightarrow> kept y z \<Longrightarrow> kept x z"
  by (auto simp: kept_def)

lemma kept_keep_first [simp]: "kept x (keep_first ts x)"
  by (simp add: kept_def keep_first_def split: option.split)

lemma stamps_extend_refl [simp]: "stamps_extend l l"
  by (simp add: stamps_extend_def)

lemma stamps_extend_trans: "stamps_extend l m \<Longrightarrow> stamps_extend m n \<Longrightarrow> stamps_extend l n"
  unfolding stamps_extend_def by (blast intro: kept_trans)

lemma stamps_extend_record [simp]: "stamps_extend l (record_lifecycle_state s ts l)"
  by (simp add: stamps_extend_def record_lifecycle_state_def)

lemma trace_extends_refl [simp]: "trace_extends t t"
  by (simp add: trace_extends_def)

lemma trace_extends_trans: "trace_extends t u \<Longrightarrow> trace_extends u v \<Longrightarrow> trace_extends t v"
  unfolding trace_extends_def by (blast intro: prefix_order.trans stamps_extend_trans)

lemma trace_extends_retag [simp]: "trace_extends t (retag i b c t)"
  by (simp add: trace_extends_def retag_def Let_def split: option.split)

lemma retag_fields [simp]:
  "rt_events (retag i b c t) = rt_events t" "rt_failures (retag i b c t) = rt_failures t"
  "rt_timestamps (retag i b c t) = rt_timestamps t"
  by (simp_all add: retag_def Let_def split: option.split)

lemma store_extends_refl [simp]: "store_extends st st"
  by (simp add: store_extends_iff)

lemma store_extends_trans: "store_extends a b \<Longrightarrow> store_extends b c \<Longrightarrow> store_extends a c"
  unfolding store_extends_iff by (blast intro: trace_extends_trans)

lemma store_extends_set:
  "(\<And>t. dict_get st i = Some t \<Longrightarrow> trace_extends t t') \<Longrightarrow> store_extends st (dict_set i t' st)"
  by (auto simp: store_extends_iff)

lemma ensure_get: "dict_get (snd (ensure i c st)) i = Some (fst (ensure i c st))"
  by (simp add: ensure_def Let_def split: option.split)

lemma ensure_same_trace:
  "dict_get st i = Some t \<Longrightarrow> trace_extends t (fst (ensure i c st))"
  by (simp add: ensure_def Let_def trace_extends_def)

lemma ensure_extends [simp]: "store_extends st (snd (ensure i c st))"
  by (auto simp: ensure_def Let_def trace_extends_def intro: store_extends_set split: option.split)

lemma ensure_pair:
  assumes "ensure i c st = (t, st1)"
  shows "store_extends st st1" and "dict_get st1 i = Some t"
  using ensure_extends [of st i c] ensure_get [of i c st] assms by simp_all

lemma append_event_extends [simp]: "store_extends st (append_event e st)"
proof -
  obtain t st1 where p: "(case dict_get st (te_request_id e) of
        None \<Rightarrow> ensure (te_request_id e) (te_correlation_id e) st | Some t \<Rightarrow> (t, st)) = (t, st1)"
    by force
  then have "store_extends st st1" and "dict_get st1 (te_request_id e) = Some t"
    by (auto dest: ensure_pair split: option.splits)
  then show ?thesis
    unfolding append_event_def p
    by (auto simp: Let_def trace_extends_def intro!: store_extends_set
        intro: store_extends_trans split: option.split)
qed

lemma append_failure_extends [simp]: "store_extends st (append_failure f st)"
proof -
  obtain t st1 where p: "ensure (tf_request_id f) (tf_correlation_id f) st = (t, st1)" by force
  then have "store_extends st st1" and "dict_get st1 (tf_request_id f) = Some t"
    by (auto dest: ensure_pair)
  then show ?thesis
    unfolding append_failure_def p
    by (auto simp: Let_def trace_extends_def intro!: store_extends_set intro: store_extends_trans)
qed

text \<open>Every way a component reports to the recorder, as one step on the store.\<close>

inductive trace_step :: "trace_store \<Rightarrow> trace_store \<Rightarrow> bool" where
  lifecycle_step: "trace_step st (record_lifecycle r st)"
| queue_step: "trace_step st (record_queue q st)"
| optional_step: "trace_step st (record_optional p st)"
| failure_step: "trace_step st (record_failure f st)"
| gateway_step: "trace_step st (record_gateway_receive now i c ev x st)"

lemma trace_step_extends: "trace_step st st' \<Longrightarrow> store_extends st st'"
proof (induction rule: trace_step.induct)
  case (lifecycle_step st r)
  show ?case
    unfolding record_lifecycle_def by (rule store_extends_trans [OF ensure_extends append_event_extends])
next
  case (queue_step st q)
  show ?case unfolding record_queue_def by (rule store_extends_trans [OF ensure_extends append_event_extends])
next
  case (optional_step st p)
  have "store_extends st' (append_optional_event p st')" for st'
    by (simp add: append_optional_event_def split: option.split)
  then show ?case
    unfolding record_optional_def
    by (auto intro: store_extends_trans [OF ensure_extends] split: option.split)
next
  case (failure_step st f)
  show ?case
    unfolding record_failure_def
    by (rule store_extends_trans [OF append_failure_extends append_event_extends])
next
  case (gateway_step st now i c ev x)
  show ?case
    unfolding record_gateway_receive_def by (rule store_extends_trans [OF ensure_extends append_event_extends])
qed

lemma trace_run_extends: "trace_step\<^sup>*\<^sup>* st st' \<Longrightarrow> store_extends st st'"
  by (induction rule: rtranclp.induct) (auto intro: trace_step_extends store_extends_trans)

end
