(* ===== verification/Lifecycle_Events.thy ===== *)
theory Lifecycle_Events
  imports Admission Metrics Trace_Store
begin

text \<open>
  The event emitter of the control plane (\<open>control_plane/observability/events.py\<close>). An event
  is written to the log (not modelled: the log is only written), to the trace recorder and to
  the metrics recorder, where the emitter was given one. A clock reading is a pair of the
  wall clock (microseconds) and the monotonic clock (seconds).
\<close>

type_synonym clock = "datetime \<times> rat"

datatype lifecycle_event_type =
    REQUEST_RECEIVED | REQUEST_VALIDATED | REQUEST_ADMITTED | REQUEST_QUEUED | REQUEST_SCHEDULED
  | REQUEST_BATCHED | REQUEST_SUBMITTED | REQUEST_REJECTED | REQUEST_FAILED | REQUEST_COMPLETED

fun lifecycle_event_value :: "lifecycle_event_type \<Rightarrow> string" where
  "lifecycle_event_value REQUEST_RECEIVED = ''request_received''"
| "lifecycle_event_value REQUEST_VALIDATED = ''request_validated''"
| "lifecycle_event_value REQUEST_ADMITTED = ''request_admitted''"
| "lifecycle_event_value REQUEST_QUEUED = ''request_queued''"
| "lifecycle_event_value REQUEST_SCHEDULED = ''request_scheduled''"
| "lifecycle_event_value REQUEST_BATCHED = ''request_batched''"
| "lifecycle_event_value REQUEST_SUBMITTED = ''request_submitted''"
| "lifecycle_event_value REQUEST_REJECTED = ''request_rejected''"
| "lifecycle_event_value REQUEST_FAILED = ''request_failed''"
| "lifecycle_event_value REQUEST_COMPLETED = ''request_completed''"

datatype queue_event_type =
    QE_REQUEST_ENQUEUED | QE_REQUEST_DEQUEUED | QE_QUEUE_FULL | QE_QUEUE_TIMEOUT
  | QE_QUEUE_REMOVED | QE_REQUEST_QUEUED

fun queue_event_value :: "queue_event_type \<Rightarrow> string" where
  "queue_event_value QE_REQUEST_ENQUEUED = ''request_enqueued''"
| "queue_event_value QE_REQUEST_DEQUEUED = ''request_dequeued''"
| "queue_event_value QE_QUEUE_FULL = ''queue_full''"
| "queue_event_value QE_QUEUE_TIMEOUT = ''queue_timeout''"
| "queue_event_value QE_QUEUE_REMOVED = ''queue_removed''"
| "queue_event_value QE_REQUEST_QUEUED = ''request_queued''"

record observers =
  ob_trace :: "trace_store option"
  ob_metrics :: "metrics_state option"

definition on_trace :: "(trace_store \<Rightarrow> trace_store) \<Rightarrow> observers \<Rightarrow> observers" where
  "on_trace f obs = obs\<lparr>ob_trace := map_option f (ob_trace obs)\<rparr>"

definition on_metrics :: "(metrics_state \<Rightarrow> metrics_state) \<Rightarrow> observers \<Rightarrow> observers" where
  "on_metrics f obs = obs\<lparr>ob_metrics := map_option f (ob_metrics obs)\<rparr>"

definition extra_str :: "string \<Rightarrow> extra \<Rightarrow> string option" where
  "extra_str k x = (case dict_get x k of Some (X_STR v) \<Rightarrow> Some v | _ \<Rightarrow> None)"

definition extra_num :: "string \<Rightarrow> extra \<Rightarrow> rat option" where
  "extra_num k x = (case dict_get x k of Some (X_NUM v) \<Rightarrow> Some v | _ \<Rightarrow> None)"

text \<open>The arguments of \<open>emit\<close> that vary; every caller passes a correlation id and a time.\<close>

record event_args =
  ea_correlation_id :: string
  ea_lifecycle_state :: "request_state option"
  ea_from_state :: "request_state option"
  ea_to_state :: "request_state option"
  ea_failure_reason :: "failure_reason option"
  ea_extra :: extra

definition metrics_for_event ::
  "rat \<Rightarrow> lifecycle_event_type \<Rightarrow> uuid \<Rightarrow> bool \<Rightarrow> metrics_state \<Rightarrow> metrics_state" where
  "metrics_for_event mclock ev request_id has_from m =
     (if ev = REQUEST_RECEIVED then record_request_received mclock request_id m
      else if ev = REQUEST_COMPLETED \<and> has_from then record_request_completed mclock request_id m
      else if ev = REQUEST_FAILED then record_request_failed mclock request_id m
      else if ev = REQUEST_REJECTED \<and> has_from then record_request_rejected mclock request_id m
      else m)"

definition trace_for_event ::
  "datetime \<Rightarrow> lifecycle_event_type \<Rightarrow> uuid \<Rightarrow> event_args \<Rightarrow> trace_store \<Rightarrow> trace_store" where
  "trace_for_event ts ev request_id a st =
     (let batch_id = extra_str ''batch_id'' (ea_extra a);
          backend_id = extra_str ''backend_id'' (ea_extra a);
          st1 = record_lifecycle
            \<lparr>le_request_id = request_id, le_correlation_id = ea_correlation_id a,
             le_timestamp = ts, le_component = RT_CONTROL_PLANE,
             le_event_type = lifecycle_event_value ev,
             le_lifecycle_state = map_option request_state_value (ea_lifecycle_state a),
             le_from_state = map_option request_state_value (ea_from_state a),
             le_to_state = map_option request_state_value (ea_to_state a),
             le_batch_id = batch_id, le_backend_id = backend_id, le_extra = ea_extra a\<rparr> st
      in case ea_failure_reason a of
           None \<Rightarrow> st1
         | Some reason \<Rightarrow>
             if ev = REQUEST_FAILED \<or> ev = REQUEST_REJECTED
             then record_failure
               \<lparr>fe_request_id = request_id, fe_correlation_id = ea_correlation_id a,
                fe_timestamp = ts, fe_component = RT_CONTROL_PLANE,
                fe_event_type = lifecycle_event_value ev,
                fe_failure_type = lifecycle_event_value ev,
                fe_failure_reason = failure_reason_value reason,
                fe_failure_state =
                  (case ea_to_state a of
                     Some s \<Rightarrow> request_state_value s
                   | None \<Rightarrow> (case ea_lifecycle_state a of
                       Some s \<Rightarrow> request_state_value s | None \<Rightarrow> ''unknown'')),
                fe_batch_id = batch_id, fe_backend_id = backend_id\<rparr> st1
             else st1)"

definition emit :: "clock \<Rightarrow> lifecycle_event_type \<Rightarrow> uuid \<Rightarrow> event_args \<Rightarrow> observers \<Rightarrow> observers" where
  "emit ck ev request_id a obs =
     on_metrics (metrics_for_event (snd ck) ev request_id (ea_from_state a \<noteq> None))
       (on_trace (trace_for_event (fst ck) ev request_id a) obs)"

definition queue_trace ::
  "datetime \<Rightarrow> queue_event_type \<Rightarrow> uuid \<Rightarrow> string \<Rightarrow> nat option \<Rightarrow> extra \<Rightarrow> trace_store \<Rightarrow>
   trace_store" where
  "queue_trace ts ev request_id correlation_id position x st =
     (let st1 = record_queue
            \<lparr>qe_request_id = request_id, qe_correlation_id = correlation_id, qe_timestamp = ts,
             qe_component = RT_CONTROL_PLANE, qe_event_type = queue_event_value ev,
             qe_queue_position = position, qe_extra = x\<rparr> st
      in if ev = QE_QUEUE_FULL \<or> ev = QE_QUEUE_TIMEOUT
         then record_failure
            \<lparr>fe_request_id = request_id, fe_correlation_id = correlation_id,
             fe_timestamp = ts, fe_component = RT_CONTROL_PLANE,
             fe_event_type = queue_event_value ev, fe_failure_type = queue_event_value ev,
             fe_failure_reason =
               (case extra_str ''reason'' x of Some r \<Rightarrow> r | None \<Rightarrow> queue_event_value ev),
             fe_failure_state = (if ev = QE_QUEUE_FULL then ''rejected'' else ''timed_out''),
             fe_batch_id = None, fe_backend_id = None\<rparr> st1
         else st1)"

definition queue_metrics ::
  "rat \<Rightarrow> queue_event_type \<Rightarrow> uuid \<Rightarrow> extra \<Rightarrow> metrics_state \<Rightarrow> metrics_state" where
  "queue_metrics mclock ev request_id x m =
     (let wait_seconds = map_option (\<lambda>w. w / 1000) (extra_num ''queue_wait_duration_ms'' x)
      in if ev = QE_REQUEST_ENQUEUED then record_queue_enqueue wait_seconds m
         else if ev = QE_REQUEST_DEQUEUED then record_queue_dequeue wait_seconds m
         else if ev = QE_QUEUE_TIMEOUT
           then record_request_failed mclock request_id (record_queue_timeout wait_seconds m)
         else if ev = QE_QUEUE_FULL then record_request_rejected mclock request_id m
         else m)"

definition emit_queue ::
  "clock \<Rightarrow> queue_event_type \<Rightarrow> uuid \<Rightarrow> string \<Rightarrow> nat option \<Rightarrow> extra \<Rightarrow> observers \<Rightarrow> observers" where
  "emit_queue ck ev request_id correlation_id position x obs =
     on_metrics (queue_metrics (snd ck) ev request_id x)
       (on_trace (queue_trace (fst ck) ev request_id correlation_id position x) obs)"

section \<open>The control plane's state up to the emitter\<close>

record emitter_state = registry_state +
  em_observers :: observers

definition emit_op ::
  "clock \<Rightarrow> lifecycle_event_type \<Rightarrow> uuid \<Rightarrow> event_args \<Rightarrow> ('x emitter_state_scheme, cp_exn, unit) op"
  where
  "emit_op ck ev i a = modify_op (\<lambda>s. s\<lparr>em_observers := emit ck ev i a (em_observers s)\<rparr>)"

definition emit_queue_op ::
  "clock \<Rightarrow> queue_event_type \<Rightarrow> uuid \<Rightarrow> string \<Rightarrow> nat option \<Rightarrow> extra \<Rightarrow>
   ('x emitter_state_scheme, cp_exn, unit) op" where
  "emit_queue_op ck ev i c p x =
     modify_op (\<lambda>s. s\<lparr>em_observers := emit_queue ck ev i c p x (em_observers s)\<rparr>)"

definition metrics_op ::
  "(metrics_state \<Rightarrow> metrics_state) \<Rightarrow> ('x emitter_state_scheme, cp_exn, unit) op" where
  "metrics_op f = modify_op (\<lambda>s. s\<lparr>em_observers := on_metrics f (em_observers s)\<rparr>)"

section \<open>What an event does to the observers\<close>

definition observer_balance :: "observers \<Rightarrow> rat option" where
  "observer_balance obs = map_option active_balance (ob_metrics obs)"

lemma metrics_event_balance:
  "active_balance (metrics_for_event t ev i b m) = active_balance m"
  by (auto simp: metrics_for_event_def intro: active_balance_step recorder_step.intros)

lemma queue_metrics_balance: "active_balance (queue_metrics t ev i x m) = active_balance m"
  by (auto simp: queue_metrics_def Let_def
      intro: active_balance_step recorder_step.intros
        trans [OF active_balance_step [OF record_request_failed_step]])

definition observers_extend :: "observers \<Rightarrow> observers \<Rightarrow> bool" where
  "observers_extend obs p \<longleftrightarrow>
     (case (ob_trace obs, ob_trace p) of
        (Some st, Some st') \<Rightarrow> store_extends st st'
      | (None, None) \<Rightarrow> True
      | _ \<Rightarrow> False)"

lemma store_extends_lifecycle [simp]: "store_extends st (record_lifecycle r st)"
  by (rule trace_step_extends) (rule lifecycle_step)

lemma store_extends_queue [simp]: "store_extends st (record_queue r st)"
  by (rule trace_step_extends) (rule queue_step)

lemma store_extends_failure [simp]: "store_extends st (record_failure r st)"
  by (rule trace_step_extends) (rule failure_step)

lemma store_extends_then_failure:
  "store_extends st st' \<Longrightarrow> store_extends st (record_failure f st')"
  by (rule store_extends_trans [OF _ store_extends_failure])

lemma emit_extends: "observers_extend obs (emit ck ev i a obs)"
  by (auto simp: observers_extend_def emit_def on_metrics_def on_trace_def trace_for_event_def
      Let_def intro: store_extends_then_failure split: option.split)

lemma emit_queue_extends: "observers_extend obs (emit_queue ck ev i c p x obs)"
  by (auto simp: observers_extend_def emit_queue_def on_metrics_def on_trace_def queue_trace_def
      Let_def intro: store_extends_then_failure split: option.split)

end
