(* ===== verification/Waiting_Queue.thy ===== *)
theory Waiting_Queue
  imports Lifecycle_Events
begin

text \<open>
  The waiting queue of the control plane (\<open>control_plane/queue/models.py\<close>, \<open>capacity.py\<close>,
  \<open>waiting_queue.py\<close>, \<open>inspection.py\<close>): a list of queued requests, each pointing at its entry
  in the registry's store, with a capacity and a waiting time after which an item expires.
  Reads of the clock are arguments.
\<close>

section \<open>Data (queue/models.py, queue/capacity.py)\<close>

record queued_request =
  q_request_id :: uuid
  q_entry :: ref
  q_entered_at :: datetime
  q_position :: nat
  q_queue_name :: string
  q_priority_class :: priority_class

definition default_queue_name :: "string \<Rightarrow> string" where
  "default_queue_name model = model @ ''/default''"

record queue_capacity_config =
  qc_max_queue_size :: int
  qc_queue_timeout_ms :: int

definition validate_capacity :: "queue_capacity_config \<Rightarrow> cp_exn + unit" where
  "validate_capacity c =
     (if qc_max_queue_size c < 1 then Inl (ValueError ''max_queue_size must be >= 1'')
      else if qc_queue_timeout_ms c < 1 then Inl (ValueError ''queue_timeout_ms must be >= 1'')
      else Inr ())"

datatype queue_capacity_decision = QC_ACCEPT | QC_REJECT

record queue_capacity_result =
  qr_decision :: queue_capacity_decision
  qr_reason :: "string option"
  qr_retry_after_ms :: "int option"

definition evaluate_enqueue_capacity :: "nat \<Rightarrow> queue_capacity_config \<Rightarrow> queue_capacity_result" where
  "evaluate_enqueue_capacity current_depth c =
     (if int current_depth \<ge> qc_max_queue_size c
      then \<lparr>qr_decision = QC_REJECT, qr_reason = Some ''queue_full'', qr_retry_after_ms = Some 250\<rparr>
      else \<lparr>qr_decision = QC_ACCEPT, qr_reason = None, qr_retry_after_ms = None\<rparr>)"

record queue_state = emitter_state +
  qs_items :: "queued_request list"
  qs_config :: queue_capacity_config

section \<open>Operations (queue/waiting_queue.py)\<close>

definition set_entry_position :: "nat \<times> queued_request \<Rightarrow> registered_request list \<Rightarrow>
    registered_request list" where
  "set_entry_position = (\<lambda>(i, it) h.
     h[q_entry it := (h ! q_entry it)\<lparr>re_queue_position := Some i\<rparr>])"

definition reindex_items :: "queued_request list \<Rightarrow> queued_request list" where
  "reindex_items items = map (\<lambda>(i, it). it\<lparr>q_position := i\<rparr>) (enumerate 1 items)"

definition reindex_positions :: "'x queue_state_scheme \<Rightarrow> 'x queue_state_scheme" where
  "reindex_positions s =
     s\<lparr>qs_items := reindex_items (qs_items s),
       rs_heap := fold set_entry_position (enumerate 1 (qs_items s)) (rs_heap s)\<rparr>"

definition expired :: "datetime \<Rightarrow> queue_capacity_config \<Rightarrow> queued_request \<Rightarrow> bool" where
  "expired now c it \<longleftrightarrow> elapsed_ms now (q_entered_at it) > of_int (qc_queue_timeout_ms c)"

definition expire_timeouts ::
  "datetime \<Rightarrow> ('x queue_state_scheme, cp_exn, queued_request list) op" where
  "expire_timeouts now s =
     (Inr (filter (expired now (qs_config s)) (qs_items s)),
      reindex_positions (s\<lparr>qs_items := filter (\<lambda>it. \<not> expired now (qs_config s) it) (qs_items s)\<rparr>))"

definition queue_size :: "'x queue_state_scheme \<Rightarrow> nat" where
  "queue_size s = length (qs_items s)"

definition queue_contains :: "uuid \<Rightarrow> 'x queue_state_scheme \<Rightarrow> bool" where
  "queue_contains request_id s = list_ex (\<lambda>it. q_request_id it = request_id) (qs_items s)"

definition mk_queued :: "datetime \<Rightarrow> nat \<Rightarrow> ref \<Rightarrow> registered_request \<Rightarrow> queued_request" where
  "mk_queued now position r e =
     \<lparr>q_request_id = re_request_id e, q_entry = r, q_entered_at = now, q_position = position,
      q_queue_name = default_queue_name (re_model e),
      q_priority_class =
        (case ir_priority_class (sr_inference_request (re_submit e)) of
           None \<Rightarrow> PC_DEFAULT | Some p \<Rightarrow> p)\<rparr>"

definition append_queued ::
  "datetime \<Rightarrow> ref \<Rightarrow> ('x queue_state_scheme, cp_exn, queued_request) op" where
  "append_queued now r s =
     (let position = length (qs_items s) + 1;
          queued = mk_queued now position r (entry_at s r)
      in (Inr queued,
          modify_entry r
            (\<lambda>e. e\<lparr>re_queue_entered_at := Some now, re_queue_position := Some position\<rparr>)
            (s\<lparr>qs_items := qs_items s @ [queued]\<rparr>)))"

definition enqueue ::
  "datetime \<Rightarrow> datetime \<Rightarrow> ref \<Rightarrow> ('x queue_state_scheme, cp_exn, queued_request) op" where
  "enqueue sweep now r =
     bind_op (expire_timeouts sweep) (\<lambda>_.
     bind_op (gets_op (\<lambda>s. re_request_id (entry_at s r))) (\<lambda>request_id.
     bind_op (gets_op (queue_contains request_id)) (\<lambda>present.
       if present then raise_op (ValueError (''request already queued: '' @ request_id))
       else
         bind_op (gets_op (\<lambda>s. evaluate_enqueue_capacity (length (qs_items s)) (qs_config s)))
         (\<lambda>capacity.
           if qr_decision capacity = QC_REJECT
           then raise_op (QueueFullError
                  (case qr_reason capacity of Some x \<Rightarrow> x | None \<Rightarrow> ''queue_full'')
                  (case qr_retry_after_ms capacity of Some x \<Rightarrow> x | None \<Rightarrow> 250))
           else append_queued now r))))"

definition dequeue :: "datetime \<Rightarrow> ('x queue_state_scheme, cp_exn, queued_request option) op" where
  "dequeue now =
     bind_op (expire_timeouts now) (\<lambda>_ s.
       case qs_items s of
         [] \<Rightarrow> (Inr None, s)
       | it # rest \<Rightarrow> (Inr (Some it), reindex_positions (s\<lparr>qs_items := rest\<rparr>)))"

definition peek :: "datetime \<Rightarrow> ('x queue_state_scheme, cp_exn, queued_request option) op" where
  "peek now =
     bind_op (expire_timeouts now) (\<lambda>_.
       gets_op (\<lambda>s. case qs_items s of [] \<Rightarrow> None | it # _ \<Rightarrow> Some it))"

definition queue_remove :: "uuid \<Rightarrow> ('x queue_state_scheme, cp_exn, queued_request option) op" where
  "queue_remove request_id s =
     (case dropWhile (\<lambda>it. q_request_id it \<noteq> request_id) (qs_items s) of
        [] \<Rightarrow> (Inr None, s)
      | it # rest \<Rightarrow>
          (Inr (Some it),
           reindex_positions
             (s\<lparr>qs_items := takeWhile (\<lambda>it. q_request_id it \<noteq> request_id) (qs_items s) @ rest\<rparr>)))"

definition queue_clear :: "('x queue_state_scheme, cp_exn, nat) op" where
  "queue_clear s = (Inr (length (qs_items s)), s\<lparr>qs_items := []\<rparr>)"

definition list_items :: "datetime \<Rightarrow> ('x queue_state_scheme, cp_exn, queued_request list) op" where
  "list_items now = bind_op (expire_timeouts now) (\<lambda>_. gets_op qs_items)"

section \<open>Inspection (queue/inspection.py)\<close>

record queue_snapshot =
  qsn_queue_name :: string
  qsn_depth :: nat
  qsn_max_size :: int
  qsn_items :: "queue_item list"
  qsn_captured_at :: datetime

record queue_statistics =
  qst_depth :: nat
  qst_max_size :: int
  qst_oldest_wait_ms :: "rat option"
  qst_average_wait_ms :: "rat option"
  qst_captured_at :: datetime

definition to_queue_item :: "'x queue_state_scheme \<Rightarrow> queued_request \<Rightarrow> queue_item" where
  "to_queue_item s it =
     \<lparr>qi_request_id = q_request_id it,
      qi_inference_request = sr_inference_request (re_submit (entry_at s (q_entry it))),
      qi_request_context = sr_request_context (re_submit (entry_at s (q_entry it))),
      qi_enqueued_at = q_entered_at it, qi_priority_class = q_priority_class it,
      qi_queue_name = q_queue_name it\<rparr>"

definition get_queue_snapshot ::
  "datetime \<Rightarrow> string \<Rightarrow> ('x queue_state_scheme, cp_exn, queue_snapshot) op" where
  "get_queue_snapshot now queue_name =
     bind_op (list_items now) (\<lambda>all_items.
       let items = (if queue_name \<noteq> ''all''
                    then filter (\<lambda>it. q_queue_name it = queue_name) all_items else all_items)
       in gets_op (\<lambda>s.
            \<lparr>qsn_queue_name = queue_name, qsn_depth = length items,
             qsn_max_size = qc_max_queue_size (qs_config s),
             qsn_items = map (to_queue_item s) items, qsn_captured_at = now\<rparr>))"

definition max_of :: "rat list \<Rightarrow> rat" where
  "max_of xs = fold max (tl xs) (hd xs)"

definition get_queue_statistics ::
  "datetime \<Rightarrow> ('x queue_state_scheme, cp_exn, queue_statistics) op" where
  "get_queue_statistics now =
     bind_op (list_items now) (\<lambda>items.
       gets_op (\<lambda>s.
         if items = []
         then \<lparr>qst_depth = 0, qst_max_size = qc_max_queue_size (qs_config s),
               qst_oldest_wait_ms = None, qst_average_wait_ms = None, qst_captured_at = now\<rparr>
         else let waits = map (\<lambda>it. elapsed_ms now (q_entered_at it)) items
              in \<lparr>qst_depth = length items, qst_max_size = qc_max_queue_size (qs_config s),
                  qst_oldest_wait_ms = Some (max_of waits),
                  qst_average_wait_ms = Some (sum_list waits / of_nat (length waits)),
                  qst_captured_at = now\<rparr>))"

record queued_request_view =
  qv_request_id :: uuid
  qv_model :: string
  qv_correlation_id :: string
  qv_queue_position :: nat
  qv_queue_entered_at :: datetime
  qv_queue_wait_duration_ms :: rat
  qv_request_age_ms :: rat

definition to_queued_view ::
  "datetime \<Rightarrow> 'x queue_state_scheme \<Rightarrow> queued_request \<Rightarrow> queued_request_view" where
  "to_queued_view now s it =
     (let e = entry_at s (q_entry it)
      in \<lparr>qv_request_id = q_request_id it, qv_model = re_model e,
          qv_correlation_id = re_trace_id e, qv_queue_position = q_position it,
          qv_queue_entered_at = q_entered_at it,
          qv_queue_wait_duration_ms = elapsed_ms now (q_entered_at it),
          qv_request_age_ms = elapsed_ms now (re_created_at e)\<rparr>)"

definition list_queued_requests ::
  "datetime \<Rightarrow> ('x queue_state_scheme, cp_exn, queued_request_view list) op" where
  "list_queued_requests now =
     bind_op (list_items now) (\<lambda>items. gets_op (\<lambda>s. map (to_queued_view now s) items))"

section \<open>Well-formed queues\<close>

text \<open>
  Every item points at an entry of its own request; the items are the requests of distinct
  ids, at most as many as the capacity; and both the item and its entry carry the item's
  place, counted from one.
\<close>

definition linked_item :: "'x queue_state_scheme \<Rightarrow> queued_request \<Rightarrow> bool" where
  "linked_item s it \<longleftrightarrow>
     q_entry it < length (rs_heap s) \<and> re_request_id (rs_heap s ! q_entry it) = q_request_id it"

definition entry_knows_position :: "'x queue_state_scheme \<Rightarrow> queued_request \<Rightarrow> bool" where
  "entry_knows_position s it \<longleftrightarrow>
     re_queue_position (rs_heap s ! q_entry it) = Some (q_position it)"

definition pre_queue :: "'x queue_state_scheme \<Rightarrow> bool" where
  "pre_queue s \<longleftrightarrow>
     distinct (map q_request_id (qs_items s)) \<and>
     list_all (linked_item s) (qs_items s) \<and>
     int (length (qs_items s)) \<le> max 0 (qc_max_queue_size (qs_config s))"

definition wf_queue :: "'x queue_state_scheme \<Rightarrow> bool" where
  "wf_queue s \<longleftrightarrow>
     pre_queue s \<and>
     map q_position (qs_items s) = [1..<Suc (length (qs_items s))] \<and>
     list_all (entry_knows_position s) (qs_items s)"

lemma set_entry_position_apply:
  "set_entry_position (i, it) h = h[q_entry it := (h ! q_entry it)\<lparr>re_queue_position := Some i\<rparr>]"
  by (simp add: set_entry_position_def)

lemma set_entry_position_length [simp]:
  "length (fold set_entry_position ps h) = length h"
  by (induction ps arbitrary: h) (auto simp: set_entry_position_def)

lemma set_entry_position_field:
  assumes "\<And>e p. g (e\<lparr>re_queue_position := p\<rparr>) = g e"
  shows "g (fold set_entry_position ps h ! r) = g (h ! r)"
proof (induction ps arbitrary: h)
  case (Cons p ps)
  obtain i it where p: "p = (i, it)" by force
  have "g (set_entry_position p h ! r) = g (h ! r)"
    by (cases "q_entry it < length h"; cases "r = q_entry it")
      (simp_all add: p set_entry_position_def assms list_update_beyond)
  with Cons show ?case by simp
qed simp

lemmas set_entry_position_fields [simp] =
  set_entry_position_field [where g = re_request_id, simplified re_request_id_def, simplified,
    folded re_request_id_def]
  set_entry_position_field [where g = re_state, simplified]
  set_entry_position_field [where g = re_submit, simplified]

lemma set_entry_position_other:
  "r \<notin> q_entry ` snd ` set ps \<Longrightarrow> fold set_entry_position ps h ! r = h ! r"
  by (induction ps arbitrary: h) (auto simp: set_entry_position_def)

lemma set_entry_position_at:
  assumes "distinct (map (q_entry \<circ> snd) ps)" and "(i, it) \<in> set ps" and "q_entry it < length h"
  shows "re_queue_position (fold set_entry_position ps h ! q_entry it) = Some i"
  using assms
proof (induction ps arbitrary: h)
  case (Cons p ps)
  show ?case
  proof (cases "p = (i, it)")
    case True
    with Cons.prems show ?thesis
      by (auto simp: set_entry_position_other set_entry_position_apply image_iff)
  next
    case False
    with Cons show ?thesis by (cases p) (auto simp: set_entry_position_apply)
  qed
qed simp

lemma reindex_items_map:
  assumes "\<And>it i. g (it\<lparr>q_position := i\<rparr>) = g it"
  shows "map g (reindex_items xs) = map g xs"
proof -
  have "map g (reindex_items xs) = map (g \<circ> snd) (enumerate 1 xs)"
    unfolding reindex_items_def map_map by (rule map_cong) (auto simp: assms)
  then show ?thesis by (simp flip: map_map)
qed

lemma reindex_items_simps [simp]:
  "length (reindex_items xs) = length xs"
  "map q_request_id (reindex_items xs) = map q_request_id xs"
  "map q_entry (reindex_items xs) = map q_entry xs"
  "map q_entered_at (reindex_items xs) = map q_entered_at xs"
  "map (\<lambda>it. (q_request_id it, q_entered_at it)) (reindex_items xs) =
   map (\<lambda>it. (q_request_id it, q_entered_at it)) xs"
  "map q_position (reindex_items xs) = [1..<Suc (length xs)]"
proof -
  have "map q_position (reindex_items xs) = map fst (enumerate 1 xs)"
    unfolding reindex_items_def map_map by (rule map_cong) auto
  then show "map q_position (reindex_items xs) = [1..<Suc (length xs)]" by simp
qed (rule reindex_items_map, simp | simp add: reindex_items_def)+

lemma reindex_positions_fields [simp]:
  "qs_items (reindex_positions s) = reindex_items (qs_items s)"
  "qs_config (reindex_positions s) = qs_config s"
  "rs_entries (reindex_positions s) = rs_entries s"
  "rs_max_entries (reindex_positions s) = rs_max_entries s"
  "em_observers (reindex_positions s) = em_observers s"
  "length (rs_heap (reindex_positions s)) = length (rs_heap s)"
  "re_request_id (rs_heap (reindex_positions s) ! r) = re_request_id (rs_heap s ! r)"
  "re_state (rs_heap (reindex_positions s) ! r) = re_state (rs_heap s ! r)"
  by (simp_all add: reindex_positions_def)

lemma reindex_members:
  "it' \<in> set (reindex_items xs) \<longleftrightarrow> (\<exists>i it. (i, it) \<in> set (enumerate 1 xs) \<and> it' = it\<lparr>q_position := i\<rparr>)"
  by (force simp: reindex_items_def)

lemma pre_queue_distinct_entries:
  assumes "pre_queue s"
  shows "distinct (map q_entry (qs_items s))"
proof -
  have "map q_request_id (qs_items s) =
      map (\<lambda>r. re_request_id (rs_heap s ! r)) (map q_entry (qs_items s))"
    using assms by (auto simp: pre_queue_def list_all_iff linked_item_def)
  then show ?thesis
    using assms unfolding pre_queue_def by (metis distinct_map)
qed

lemma pre_queue_reindex:
  assumes "pre_queue s"
  shows "pre_queue (reindex_positions s)"
proof -
  have "linked_item (reindex_positions s) it'" if "it' \<in> set (reindex_items (qs_items s))" for it'
  proof -
    from that obtain i it where "(i, it) \<in> set (enumerate 1 (qs_items s))"
      and it': "it' = it\<lparr>q_position := i\<rparr>" by (auto simp: reindex_members)
    then have "it \<in> set (qs_items s)" by (metis in_set_enumerate_eq nth_mem prod.sel(2) set_zip_rightD enumerate_eq_zip)
    with assms show ?thesis
      by (auto simp: pre_queue_def list_all_iff linked_item_def it' reindex_positions_def)
  qed
  with assms show ?thesis
    by (simp add: pre_queue_def reindex_positions_def list_all_iff)
qed

lemma wf_queue_reindex:
  assumes "pre_queue s"
  shows "wf_queue (reindex_positions s)"
proof -
  have "entry_knows_position (reindex_positions s) it'"
    if "it' \<in> set (reindex_items (qs_items s))" for it'
  proof -
    from that obtain i it where mem: "(i, it) \<in> set (enumerate 1 (qs_items s))"
      and it': "it' = it\<lparr>q_position := i\<rparr>" by (auto simp: reindex_members)
    then have "it \<in> set (qs_items s)" by (metis set_zip_rightD enumerate_eq_zip)
    with assms have "q_entry it < length (rs_heap s)"
      by (auto simp: pre_queue_def list_all_iff linked_item_def)
    moreover have "distinct (map (q_entry \<circ> snd) (enumerate 1 (qs_items s)))"
      using pre_queue_distinct_entries [OF assms] by (simp flip: map_map)
    ultimately show ?thesis
      using mem set_entry_position_at
      by (simp add: entry_knows_position_def it' reindex_positions_def)
  qed
  moreover have "map q_position (qs_items (reindex_positions s)) =
      [1..<Suc (length (qs_items (reindex_positions s)))]"
    by (simp only: reindex_positions_fields reindex_items_simps)
  ultimately show ?thesis
    using pre_queue_reindex [OF assms]
    by (simp add: wf_queue_def list_all_iff reindex_positions_def del: upt_Suc)
qed

lemma pre_queue_subset:
  assumes "pre_queue s" and "subseq items (qs_items s)"
  shows "pre_queue (s\<lparr>qs_items := items\<rparr>)"
proof -
  have "set items \<subseteq> set (qs_items s)" and "length items \<le> length (qs_items s)"
    using assms(2) by (auto intro: list_emb_length dest: list_emb_set)
  moreover have "distinct (map q_request_id items)"
    using assms subseq_map [OF assms(2), of q_request_id]
    unfolding pre_queue_def by (metis subseq_conv_nths distinct_nthsI)
  ultimately show ?thesis
    using assms(1) by (auto simp: pre_queue_def list_all_iff linked_item_def)
qed

section \<open>Every operation keeps the queue well-formed\<close>

lemma wf_queue_pre: "wf_queue s \<Longrightarrow> pre_queue s"
  by (simp add: wf_queue_def)

lemma wf_expire: "wf_queue s \<Longrightarrow> wf_queue (snd (expire_timeouts now s))"
  by (simp add: expire_timeouts_def wf_queue_reindex pre_queue_subset wf_queue_pre)

lemma expire_fields [simp]:
  "qs_config (snd (expire_timeouts now s)) = qs_config s"
  "rs_entries (snd (expire_timeouts now s)) = rs_entries s"
  "rs_max_entries (snd (expire_timeouts now s)) = rs_max_entries s"
  "em_observers (snd (expire_timeouts now s)) = em_observers s"
  "length (rs_heap (snd (expire_timeouts now s))) = length (rs_heap s)"
  "re_request_id (rs_heap (snd (expire_timeouts now s)) ! r) = re_request_id (rs_heap s ! r)"
  "re_state (rs_heap (snd (expire_timeouts now s)) ! r) = re_state (rs_heap s ! r)"
  "fst (expire_timeouts now s) = Inr (filter (expired now (qs_config s)) (qs_items s))"
  by (simp_all add: expire_timeouts_def)

lemma expire_run:
  "bind_op (expire_timeouts now) f s =
     f (filter (expired now (qs_config s)) (qs_items s)) (snd (expire_timeouts now s))"
  by (simp add: bind_op_def expire_timeouts_def)

text \<open>
  The contents of a queue, as the FIFO the operations implement: request ids with their
  arrival times, in order.
\<close>

type_synonym fifo = "(uuid \<times> datetime) list"

definition abs_queue :: "'x queue_state_scheme \<Rightarrow> fifo" where
  "abs_queue s = map (\<lambda>it. (q_request_id it, q_entered_at it)) (qs_items s)"

definition fifo_late :: "datetime \<Rightarrow> queue_capacity_config \<Rightarrow> uuid \<times> datetime \<Rightarrow> bool" where
  "fifo_late now c x \<longleftrightarrow> elapsed_ms now (snd x) > of_int (qc_queue_timeout_ms c)"

definition fifo_expire :: "datetime \<Rightarrow> queue_capacity_config \<Rightarrow> fifo \<Rightarrow> fifo" where
  "fifo_expire now c q = filter (\<lambda>x. \<not> fifo_late now c x) q"

definition fifo_enqueue ::
  "datetime \<Rightarrow> datetime \<Rightarrow> queue_capacity_config \<Rightarrow> uuid \<Rightarrow> fifo \<Rightarrow> (cp_exn + nat) \<times> fifo" where
  "fifo_enqueue sweep now c i q =
     (let q' = fifo_expire sweep c q
      in if i \<in> fst ` set q' then (Inl (ValueError (''request already queued: '' @ i)), q')
         else if int (length q') \<ge> qc_max_queue_size c
         then (Inl (QueueFullError ''queue_full'' 250), q')
         else (Inr (length q' + 1), q' @ [(i, now)]))"

definition fifo_dequeue ::
  "datetime \<Rightarrow> queue_capacity_config \<Rightarrow> fifo \<Rightarrow> uuid option \<times> fifo" where
  "fifo_dequeue now c q =
     (case fifo_expire now c q of [] \<Rightarrow> (None, []) | x # rest \<Rightarrow> (Some (fst x), rest))"

definition fifo_remove :: "uuid \<Rightarrow> fifo \<Rightarrow> uuid option \<times> fifo" where
  "fifo_remove i q =
     (if i \<in> fst ` set q then (Some i, filter (\<lambda>x. fst x \<noteq> i) q) else (None, q))"

lemma abs_reindex [simp]: "abs_queue (reindex_positions s) = abs_queue s"
  by (simp add: abs_queue_def)

lemma abs_expire: "abs_queue (snd (expire_timeouts now s)) = fifo_expire now (qs_config s) (abs_queue s)"
  by (simp add: expire_timeouts_def)
    (simp add: abs_queue_def fifo_expire_def fifo_late_def expired_def filter_map comp_def)

lemma queue_contains_abs: "queue_contains i s \<longleftrightarrow> i \<in> fst ` set (abs_queue s)"
  by (force simp: queue_contains_def abs_queue_def list_ex_iff)

lemma length_abs [simp]: "length (abs_queue s) = length (qs_items s)"
  by (simp add: abs_queue_def)

lemma abs_append:
  "abs_queue (snd (append_queued now r s)) =
     abs_queue s @ [(re_request_id (entry_at s r), now)]"
  by (simp add: append_queued_def Let_def modify_entry_def abs_queue_def mk_queued_def)

lemma entry_at_expire [simp]:
  "re_request_id (entry_at (snd (expire_timeouts now s)) r) = re_request_id (entry_at s r)"
  by (simp add: entry_at_def)

text \<open>One equation for \<open>enqueue\<close>: sweep, refuse a duplicate, refuse when full, append.\<close>

lemma enqueue_run:
  "enqueue sweep now r s =
     (let s' = snd (expire_timeouts sweep s)
      in if queue_contains (re_request_id (entry_at s r)) s'
         then (Inl (ValueError (''request already queued: '' @ re_request_id (entry_at s r))), s')
         else if int (length (qs_items s')) \<ge> qc_max_queue_size (qs_config s)
         then (Inl (QueueFullError ''queue_full'' 250), s')
         else append_queued now r s')"
  unfolding enqueue_def expire_run Let_def
  by (simp add: op_defs evaluate_enqueue_capacity_def)

lemma enqueue_refines:
  "fifo_enqueue sweep now (qs_config s) (re_request_id (entry_at s r)) (abs_queue s) =
     (map_sum id q_position (fst (enqueue sweep now r s)), abs_queue (snd (enqueue sweep now r s)))"
  by (simp add: enqueue_run fifo_enqueue_def Let_def queue_contains_abs abs_append
      flip: abs_expire) (simp add: append_queued_def Let_def mk_queued_def)

lemma dequeue_refines:
  "fifo_dequeue now (qs_config s) (abs_queue s) =
     (case dequeue now s of
        (Inr x, s') \<Rightarrow> (map_option q_request_id x, abs_queue s')
      | (Inl e, s') \<Rightarrow> (None, abs_queue s'))"
  by (simp add: dequeue_def expire_run fifo_dequeue_def flip: abs_expire)
    (auto simp: abs_queue_def split: list.split)

lemma wf_append:
  assumes "pre_queue s" and "wf_queue s" and "r < length (rs_heap s)"
    and "\<not> queue_contains (re_request_id (entry_at s r)) s"
    and "int (length (qs_items s)) < qc_max_queue_size (qs_config s)"
  shows "wf_queue (snd (append_queued now r s))"
proof -
  have fresh: "q_entry it \<noteq> r" if "it \<in> set (qs_items s)" for it
    using that assms by (auto simp: pre_queue_def list_all_iff linked_item_def
        queue_contains_def list_ex_iff entry_at_def)
  have id: "re_request_id (e\<lparr>re_queue_entered_at := a, re_queue_position := b\<rparr>) = re_request_id e"
    for e a b by (simp add: re_request_id_def)
  show ?thesis
    using assms fresh
    by (auto simp: wf_queue_def pre_queue_def append_queued_def Let_def modify_entry_def
        list_all_iff linked_item_def entry_knows_position_def mk_queued_def entry_at_def
        queue_contains_def list_ex_iff nth_list_update id)
qed

lemma wf_enqueue:
  assumes "wf_queue s" and "r < length (rs_heap s)"
  shows "wf_queue (snd (enqueue sweep now r s))"
  using assms wf_expire [OF assms(1), of sweep]
  by (auto simp: enqueue_run Let_def wf_queue_pre intro!: wf_append)

lemma wf_dequeue: "wf_queue s \<Longrightarrow> wf_queue (snd (dequeue now s))"
  using wf_expire [of s now]
  by (auto simp: dequeue_def expire_run wf_queue_pre
      intro!: wf_queue_reindex pre_queue_subset split: list.split)

lemma wf_peek: "wf_queue s \<Longrightarrow> wf_queue (snd (peek now s))"
  by (simp add: peek_def expire_run gets_op_def wf_expire)

lemma wf_list_items: "wf_queue s \<Longrightarrow> wf_queue (snd (list_items now s))"
  by (simp add: list_items_def expire_run gets_op_def wf_expire)

lemma wf_clear: "wf_queue s \<Longrightarrow> wf_queue (snd (queue_clear s))"
  by (simp add: queue_clear_def wf_queue_def pre_queue_def)

lemma wf_remove_item: "wf_queue s \<Longrightarrow> wf_queue (snd (queue_remove i s))"
proof -
  assume wf: "wf_queue s"
  show ?thesis
  proof (cases "dropWhile (\<lambda>it. q_request_id it \<noteq> i) (qs_items s)")
    case Nil
    with wf show ?thesis by (simp add: queue_remove_def del: dropWhile_eq_Nil_conv)
  next
    case (Cons it rest)
    let ?pre = "takeWhile (\<lambda>it. q_request_id it \<noteq> i) (qs_items s)"
    have "qs_items s = ?pre @ it # rest" using Cons takeWhile_dropWhile_id by metis
    then have "subseq (?pre @ rest) (qs_items s)"
      by (metis list_emb_append_mono subseq_Cons' subseq_order.order_refl)
    with wf Cons show ?thesis
      by (simp add: queue_remove_def wf_queue_reindex pre_queue_subset wf_queue_pre)
  qed
qed

lemma remove_refines:
  assumes "wf_queue s"
  shows "fifo_remove i (abs_queue s) =
     (case queue_remove i s of
        (Inr x, s') \<Rightarrow> (map_option q_request_id x, abs_queue s')
      | (Inl e, s') \<Rightarrow> (None, abs_queue s'))"
proof (cases "dropWhile (\<lambda>it. q_request_id it \<noteq> i) (qs_items s)")
  case Nil
  then have "i \<notin> fst ` set (abs_queue s)" by (auto simp: abs_queue_def)
  with Nil show ?thesis
    by (simp add: fifo_remove_def queue_remove_def del: dropWhile_eq_Nil_conv)
next
  case (Cons it rest)
  let ?P = "\<lambda>it. q_request_id it \<noteq> i"
  have items: "qs_items s = takeWhile ?P (qs_items s) @ it # rest"
    using Cons takeWhile_dropWhile_id by metis
  have it: "q_request_id it = i" using hd_dropWhile [of ?P "qs_items s"] Cons by auto
  have "distinct (map q_request_id (takeWhile ?P (qs_items s) @ it # rest))"
    using assms items by (simp add: wf_queue_def pre_queue_def)
  with it have "filter ?P rest = rest" by (auto simp: filter_id_conv image_iff)
  moreover have "filter ?P (takeWhile ?P (qs_items s)) = takeWhile ?P (qs_items s)"
    by (auto simp: filter_id_conv dest: set_takeWhileD)
  ultimately have "filter ?P (qs_items s) = takeWhile ?P (qs_items s) @ rest"
    using it by (subst items) simp
  moreover have "i \<in> fst ` set (abs_queue s)"
    using it by (subst abs_queue_def, subst items) force
  ultimately show ?thesis
    using Cons it
    by (simp add: fifo_remove_def queue_remove_def abs_queue_def filter_map comp_def)
qed

end
