(* ===== verification/Queue_Service.thy ===== *)
theory Queue_Service
  imports Waiting_Queue
begin

text \<open>
  The queue service of the control plane (\<open>control_plane/queue/service.py\<close>): it moves admitted
  requests into the waiting queue, out of it, and times out those that waited too long. Its
  state is the control plane's: registry, observers and queue.
\<close>

abbreviation no_event :: "string \<Rightarrow> event_args" where
  "no_event c \<equiv> \<lparr>ea_correlation_id = c, ea_lifecycle_state = None, ea_from_state = None,
    ea_to_state = None, ea_failure_reason = None, ea_extra = []\<rparr>"

definition set_depth_op :: "('x queue_state_scheme, cp_exn, unit) op" where
  "set_depth_op s = metrics_op (set_queue_depth (queue_size s)) s"

definition reject_full ::
  "clock \<Rightarrow> uuid \<Rightarrow> ref \<Rightarrow> string \<Rightarrow> ('x queue_state_scheme, cp_exn, ref) op" where
  "reject_full ck request_id r reason =
     bind_op (gets_op (\<lambda>s. (entry_at s r, queue_size s))) (\<lambda>(e, depth).
     then_op (emit_queue_op ck QE_QUEUE_FULL (re_request_id e) (re_trace_id e) None
                [(''reason'', X_STR reason), (''queue_depth'', X_INT (int depth))])
     (then_op (modify_op (modify_entry r (apply_to_request (admission_failure reason QUEUE_FULL True))))
     (then_op (modify_op (modify_entry r (\<lambda>e. e\<lparr>re_state := REJECTED\<rparr>)))
     (bind_op (update_state (fst ck) request_id REJECTED) (\<lambda>_.
      then_op set_depth_op (return_op r))))))"

definition after_enqueue ::
  "clock \<Rightarrow> uuid \<Rightarrow> ref \<Rightarrow> queued_request \<Rightarrow> ('x queue_state_scheme, cp_exn, ref) op" where
  "after_enqueue ck request_id r queued =
     then_op (modify_op (modify_entry r (\<lambda>e. e\<lparr>re_state := QUEUED\<rparr>)))
     (bind_op (update_state (fst ck) request_id QUEUED) (\<lambda>_.
      bind_op (gets_op (\<lambda>s. entry_at s r)) (\<lambda>e.
      then_op (emit_queue_op ck QE_REQUEST_ENQUEUED (re_request_id e) (re_trace_id e)
                 (Some (q_position queued))
                 [(''queue_wait_duration_ms'', X_NUM 0),
                  (''request_age_ms'', X_NUM (elapsed_ms (fst ck) (re_created_at e))),
                  (''queue_name'', X_STR (q_queue_name queued))])
      (then_op (emit_op ck REQUEST_QUEUED (re_request_id e)
                 ((no_event (re_trace_id e))
                    \<lparr>ea_lifecycle_state := Some QUEUED, ea_to_state := Some QUEUED,
                     ea_extra := [(''queue_position'', X_INT (int (q_position queued)))]\<rparr>))
      (then_op set_depth_op (return_op r))))))"

definition enqueue_from_admitted ::
  "datetime \<Rightarrow> clock \<Rightarrow> uuid \<Rightarrow> ('x queue_state_scheme, cp_exn, ref) op" where
  "enqueue_from_admitted sweep ck request_id =
     bind_op (registry_get request_id) (\<lambda>r s.
       if re_state (entry_at s r) \<noteq> ADMITTED
       then (Inl (ValueError (''request '' @ request_id @ '' must be ADMITTED before enqueue, got ''
                    @ request_state_value (re_state (entry_at s r)))), s)
       else case enqueue sweep (fst ck) r s of
              (Inl (QueueFullError reason ms), s1) \<Rightarrow> reject_full ck request_id r reason s1
            | (Inl x, s1) \<Rightarrow> (Inl x, s1)
            | (Inr queued, s1) \<Rightarrow> after_enqueue ck request_id r queued s1)"

definition dequeue_next :: "clock \<Rightarrow> ('x queue_state_scheme, cp_exn, ref option) op" where
  "dequeue_next ck =
     bind_op (dequeue (fst ck)) (\<lambda>x. case x of
         None \<Rightarrow> return_op None
       | Some it \<Rightarrow>
           bind_op (gets_op (\<lambda>s. entry_at s (q_entry it))) (\<lambda>e.
           then_op (emit_queue_op ck QE_REQUEST_DEQUEUED (q_request_id it) (re_trace_id e)
                      (Some (q_position it))
                      [(''queue_wait_duration_ms'', X_NUM (elapsed_ms (fst ck) (q_entered_at it))),
                       (''request_age_ms'', X_NUM (elapsed_ms (fst ck) (re_created_at e)))])
           (then_op set_depth_op (return_op (Some (q_entry it))))))"

definition service_remove :: "clock \<Rightarrow> uuid \<Rightarrow> ('x queue_state_scheme, cp_exn, ref option) op" where
  "service_remove ck request_id =
     bind_op (queue_remove request_id) (\<lambda>x. case x of
         None \<Rightarrow> return_op None
       | Some it \<Rightarrow>
           bind_op (gets_op (\<lambda>s. entry_at s (q_entry it))) (\<lambda>e.
           then_op (emit_queue_op ck QE_QUEUE_REMOVED (q_request_id it) (re_trace_id e)
                      (Some (q_position it)) [])
           (return_op (Some (q_entry it)))))"

definition time_out_item :: "clock \<Rightarrow> queued_request \<Rightarrow> ('x queue_state_scheme, cp_exn, ref) op" where
  "time_out_item ck it =
     then_op (modify_op (modify_entry (q_entry it)
                (\<lambda>e. e\<lparr>re_state := TIMED_OUT, re_failure_reason := Some QUEUE_TIMEOUT,
                       re_failure_message := Some ''queue wait timeout exceeded''\<rparr>)))
     (bind_op (gets_op (\<lambda>s. entry_at s (q_entry it))) (\<lambda>e.
      bind_op (update_state (fst ck) (re_request_id e) TIMED_OUT) (\<lambda>_.
      then_op (emit_queue_op ck QE_QUEUE_TIMEOUT (re_request_id e) (re_trace_id e)
                 (Some (q_position it))
                 [(''queue_wait_duration_ms'', X_NUM (elapsed_ms (fst ck) (q_entered_at it)))])
      (return_op (q_entry it)))))"

definition process_timeouts :: "clock \<Rightarrow> ('x queue_state_scheme, cp_exn, ref list) op" where
  "process_timeouts ck =
     bind_op (expire_timeouts (fst ck)) (\<lambda>expired_items.
     bind_op (map_op (time_out_item ck) expired_items) (\<lambda>results.
     then_op (if expired_items \<noteq> [] then set_depth_op else return_op ()) (return_op results)))"

section \<open>The control plane's invariant\<close>

text \<open>The queue's and the registry's together; \<open>cp_intros\<close> carries them through the operations.\<close>

definition wf_cp :: "'x queue_state_scheme \<Rightarrow> bool" where
  "wf_cp s \<longleftrightarrow> wf_registry s \<and> within_capacity s \<and> wf_queue s"

definition keeps_place :: "(registered_request \<Rightarrow> registered_request) \<Rightarrow> bool" where
  "keeps_place f \<longleftrightarrow> keeps_id f \<and> (\<forall>e. re_queue_position (f e) = re_queue_position e)"

named_theorems cp_intros \<open>operations that keep the control plane's invariant\<close>

lemma keeps_place_simps [simp]:
  "keeps_place (\<lambda>e. e\<lparr>re_state := st, re_updated_at := now\<rparr>)"
  "keeps_place (\<lambda>e. e\<lparr>re_state := st\<rparr>)"
  "keeps_place (\<lambda>e. e\<lparr>re_state := st, re_failure_reason := x, re_failure_message := y\<rparr>)"
  "keeps_place (\<lambda>e. e\<lparr>re_batch_id := b\<rparr>)" "keeps_place (\<lambda>e. e\<lparr>re_backend_id := k\<rparr>)"
  "keeps_place (\<lambda>e. e\<lparr>re_completion := c\<rparr>)"
  "keeps_place (\<lambda>e. e\<lparr>re_stream_metrics := m\<rparr>)"
  "keeps_place (apply_to_request cf)"
  by (simp_all add: keeps_place_def keeps_id_def apply_to_request_def)

lemma modify_entry_queue_fields [simp]:
  "qs_items (modify_entry r f s) = qs_items s" "qs_config (modify_entry r f s) = qs_config s"
  "em_observers (modify_entry r f s) = em_observers s"
  by (simp_all add: modify_entry_def)

lemma modify_entry_keeps:
  assumes "\<And>e. g (f e) = g e"
  shows "g (rs_heap (modify_entry r f s) ! k) = g (rs_heap s ! k)"
  by (cases "r < length (rs_heap s)"; cases "k = r")
    (simp_all add: modify_entry_def assms list_update_beyond)

lemma wf_queue_modify: "wf_queue s \<Longrightarrow> keeps_place f \<Longrightarrow> wf_queue (modify_entry r f s)"
  using modify_entry_keeps [of re_request_id f r s] modify_entry_keeps [of re_queue_position f r s]
  by (simp add: wf_queue_def pre_queue_def list_all_iff linked_item_def entry_knows_position_def
      keeps_place_def keeps_id_request_id del: upt_Suc)

lemma wf_cp_modify [cp_intros]:
  "keeps_place f \<Longrightarrow> preserves wf_cp (modify_op (modify_entry r f))"
  by (rule preserves_modify)
    (auto simp: wf_cp_def keeps_place_def intro: wf_modify_entry wf_queue_modify)

lemma wf_cp_observers: "wf_cp (s\<lparr>em_observers := x\<rparr>) = wf_cp s"
  by (simp add: wf_cp_def wf_registry_def within_capacity_def wf_queue_def pre_queue_def
      list_all_iff linked_item_def entry_knows_position_def)

lemma wf_cp_emit [cp_intros]: "preserves wf_cp (emit_op ck ev i a)"
  unfolding emit_op_def by (rule preserves_modify) (simp add: wf_cp_observers)

lemma wf_cp_emit_queue [cp_intros]: "preserves wf_cp (emit_queue_op ck qe i c p x)"
  unfolding emit_queue_op_def by (rule preserves_modify) (simp add: wf_cp_observers)

lemma wf_cp_metrics [cp_intros]: "preserves wf_cp (metrics_op f)"
  unfolding metrics_op_def by (rule preserves_modify) (simp add: wf_cp_observers)

lemma wf_cp_depth [cp_intros]: "preserves wf_cp set_depth_op"
  using wf_cp_metrics by (auto simp: preserves_def set_depth_op_def)

lemma wf_cp_get [cp_intros]: "preserves wf_cp (registry_get i)"
  by (rule preservesI) (simp add: registry_get_def split: option.split)

lemma wf_cp_update_state [cp_intros]: "preserves wf_cp (update_state now i st)"
  unfolding update_state_def by (intro preserves_intros cp_intros) simp

lemma wf_registry_reindex:
  "wf_registry (reindex_positions s) = wf_registry (s :: 'x queue_state_scheme)"
  by (simp add: wf_registry_def)

lemma wf_registry_expire [simp]: "wf_registry (snd (expire_timeouts now s)) = wf_registry s"
  by (simp add: wf_registry_def)

lemma within_capacity_expire [simp]:
  "within_capacity (snd (expire_timeouts now s)) = within_capacity s"
  by (simp add: within_capacity_def)

lemma wf_cp_expire [cp_intros]: "preserves wf_cp (expire_timeouts now)"
  by (rule preservesI) (simp add: wf_cp_def wf_expire)

lemma wf_cp_items [simp]: "wf_registry (s\<lparr>qs_items := x\<rparr>) = wf_registry s"
  "within_capacity (s\<lparr>qs_items := x\<rparr>) = within_capacity s"
  "within_capacity (reindex_positions s) = within_capacity s"
  by (simp_all add: wf_registry_def within_capacity_def)

lemma wf_cp_enqueue:
  assumes "wf_cp s" and "r < length (rs_heap s)"
  shows "wf_cp (snd (enqueue sweep now r s))"
proof -
  have "keeps_id (\<lambda>e. e\<lparr>re_queue_entered_at := a, re_queue_position := b\<rparr>)" for a b
    by (simp add: keeps_id_def)
  with assms have "wf_registry (snd (enqueue sweep now r s))"
    and "within_capacity (snd (enqueue sweep now r s))"
    by (auto simp: wf_cp_def enqueue_run Let_def append_queued_def intro!: wf_modify_entry)
  with assms show ?thesis by (simp add: wf_cp_def wf_enqueue)
qed

lemma wf_cp_dequeue [cp_intros]: "preserves wf_cp (dequeue now)"
  by (rule preservesI)
    (auto simp: wf_cp_def wf_dequeue, auto simp: dequeue_def expire_run wf_registry_reindex
      split: list.split)

lemma wf_cp_remove [cp_intros]: "preserves wf_cp (queue_remove i)"
  by (rule preservesI)
    (auto simp: wf_cp_def wf_remove_item, auto simp: queue_remove_def wf_registry_reindex
      split: list.split)

lemma preserves_prod: "(\<And>a b. preserves I (f a b)) \<Longrightarrow> preserves I (case p of (a, b) \<Rightarrow> f a b)"
  by (cases p) simp

lemma wf_cp_reject [cp_intros]: "preserves wf_cp (reject_full ck i r reason)"
  unfolding reject_full_def by (intro preserves_intros cp_intros preserves_prod) simp_all

lemma wf_cp_after_enqueue [cp_intros]: "preserves wf_cp (after_enqueue ck i r q)"
  unfolding after_enqueue_def by (intro preserves_intros cp_intros) simp_all

lemma wf_cp_enqueue_from_admitted [cp_intros]:
  "preserves wf_cp (enqueue_from_admitted sweep ck i)"
proof (rule preservesI)
  fix s :: "'a queue_state_scheme" assume wf: "wf_cp s"
  show "wf_cp (snd (enqueue_from_admitted sweep ck i s))"
  proof (cases "dict_get (rs_entries s) i")
    case None
    with wf show ?thesis by (simp add: enqueue_from_admitted_def bind_op_def registry_get_def)
  next
    case (Some r)
    with wf have "r < length (rs_heap s)" by (auto simp: wf_cp_def dest: wf_registry_getD)
    then have "wf_cp (snd (enqueue sweep (fst ck) r s))" using wf by (rule wf_cp_enqueue [rotated])
    with wf Some show ?thesis
      by (auto intro: preservesD [OF wf_cp_reject] preservesD [OF wf_cp_after_enqueue]
          simp: enqueue_from_admitted_def bind_op_def registry_get_def
          split: prod.split sum.split cp_exn.split)
  qed
qed

lemma wf_cp_time_out_item [cp_intros]: "preserves wf_cp (time_out_item ck it)"
  unfolding time_out_item_def by (intro preserves_intros cp_intros) simp

lemma wf_cp_process_timeouts [cp_intros]: "preserves wf_cp (process_timeouts ck)"
  unfolding process_timeouts_def by (intro preserves_intros cp_intros)

lemma wf_cp_dequeue_next [cp_intros]: "preserves wf_cp (dequeue_next ck)"
  unfolding dequeue_next_def by (intro preserves_intros cp_intros)

lemma wf_cp_service_remove [cp_intros]: "preserves wf_cp (service_remove ck i)"
  unfolding service_remove_def by (intro preserves_intros cp_intros)

end
