(* ===== verification/Lifecycle.thy ===== *)
theory Lifecycle
  imports Queue_Service
begin

text \<open>
  The lifecycle manager of the control plane (\<open>control_plane/lifecycle/manager.py\<close>): the
  operations that move a request from one state to the next, the path of a new request to
  the waiting queue, and failing and completing a request.
\<close>

section \<open>Events of the manager\<close>

definition trace_extra :: "registered_request \<Rightarrow> extra" where
  "trace_extra e =
     (case re_batch_id e of None \<Rightarrow> [] | Some b \<Rightarrow> [(''batch_id'', X_STR b)])
     @ (case re_backend_id e of None \<Rightarrow> [] | Some b \<Rightarrow> [(''backend_id'', X_STR b)])"

definition emit_state_event ::
  "clock \<Rightarrow> ref \<Rightarrow> lifecycle_event_type \<Rightarrow> extra \<Rightarrow> ('x queue_state_scheme, cp_exn, unit) op" where
  "emit_state_event ck r ev extra =
     bind_op (gets_op (\<lambda>s. entry_at s r)) (\<lambda>e.
       emit_op ck ev (re_request_id e)
         \<lparr>ea_correlation_id = re_trace_id e, ea_lifecycle_state = Some (re_state e),
          ea_from_state = None, ea_to_state = Some (re_state e), ea_failure_reason = None,
          ea_extra = dict_update (trace_extra e) extra\<rparr>)"

fun transition_event :: "request_state \<Rightarrow> (lifecycle_event_type \<times> bool) option" where
  "transition_event VALIDATED = Some (REQUEST_VALIDATED, False)"
| "transition_event ADMITTED = Some (REQUEST_ADMITTED, False)"
| "transition_event QUEUED = None"
| "transition_event SCHEDULED = Some (REQUEST_SCHEDULED, False)"
| "transition_event BATCHED = Some (REQUEST_BATCHED, False)"
| "transition_event SUBMITTED = Some (REQUEST_SUBMITTED, False)"
| "transition_event REJECTED = Some (REQUEST_REJECTED, True)"
| "transition_event FAILED = Some (REQUEST_FAILED, True)"
| "transition_event TIMED_OUT = Some (REQUEST_FAILED, True)"
| "transition_event COMPLETED = Some (REQUEST_COMPLETED, False)"
| "transition_event _ = None"

definition emit_for_transition ::
  "clock \<Rightarrow> ref \<Rightarrow> request_state \<Rightarrow> request_state \<Rightarrow> ('x queue_state_scheme, cp_exn, unit) op" where
  "emit_for_transition ck r from_state to_state =
     bind_op (gets_op (\<lambda>s. entry_at s r)) (\<lambda>e.
       case transition_event to_state of
         None \<Rightarrow> return_op ()
       | Some (ev, with_reason) \<Rightarrow>
           emit_op ck ev (re_request_id e)
             \<lparr>ea_correlation_id = re_trace_id e, ea_lifecycle_state = Some to_state,
              ea_from_state = Some from_state, ea_to_state = Some to_state,
              ea_failure_reason = (if with_reason then re_failure_reason e else None),
              ea_extra = trace_extra e\<rparr>)"

section \<open>Operations\<close>

definition register ::
  "clock \<Rightarrow> submit_request \<Rightarrow> request_state \<Rightarrow> ('x queue_state_scheme, cp_exn, ref) op" where
  "register ck submit initial_state =
     (if initial_state \<notin> {RECEIVED, VALIDATED}
      then raise_op (InvalidTransitionError (ir_request_id (sr_inference_request submit))
             RECEIVED initial_state)
      else
        bind_op (alloc_entry (new_registered_request (fst ck) submit initial_state)) (\<lambda>r.
        bind_op (registry_register r) (\<lambda>_.
        then_op (emit_state_event ck r
                   (if initial_state = RECEIVED then REQUEST_RECEIVED else REQUEST_VALIDATED) [])
        (return_op r))))"

definition assign_ids ::
  "ref \<Rightarrow> uuid option \<Rightarrow> string option \<Rightarrow> ('x queue_state_scheme, cp_exn, unit) op" where
  "assign_ids r batch_id backend_id =
     then_op (case batch_id of
                None \<Rightarrow> return_op ()
              | Some b \<Rightarrow> modify_op (modify_entry r (\<lambda>e. e\<lparr>re_batch_id := Some b\<rparr>)))
     (case backend_id of
        None \<Rightarrow> return_op ()
      | Some k \<Rightarrow> modify_op (modify_entry r (\<lambda>e. e\<lparr>re_backend_id := Some k\<rparr>)))"

definition transition ::
  "clock \<Rightarrow> uuid \<Rightarrow> request_state \<Rightarrow> uuid option \<Rightarrow> string option \<Rightarrow>
   ('x queue_state_scheme, cp_exn, ref) op" where
  "transition ck request_id to_state batch_id backend_id =
     bind_op (registry_get request_id) (\<lambda>r.
     then_op (assign_ids r batch_id backend_id)
     (bind_op (gets_op (\<lambda>s. re_state (entry_at s r))) (\<lambda>from_state.
       if \<not> is_allowed_transition from_state to_state
       then raise_op (InvalidTransitionError request_id from_state to_state)
       else
         bind_op (update_state (fst ck) request_id to_state) (\<lambda>updated.
         then_op (emit_for_transition ck updated from_state to_state) (return_op updated)))))"

definition reject_admission ::
  "clock \<Rightarrow> uuid \<Rightarrow> ref \<Rightarrow> admission_result \<Rightarrow> ('x queue_state_scheme, cp_exn, ref) op" where
  "reject_admission ck request_id r result =
     (let message = (case ar_reason result of
                       None \<Rightarrow> ''admission rejected''
                     | Some m \<Rightarrow> if m = [] then ''admission rejected'' else m);
          failure = admission_failure message QUEUE_FULL (ar_retry_after_ms result \<noteq> None)
      in then_op (modify_op (modify_entry r (apply_to_request failure)))
         (then_op (modify_op (modify_entry r (\<lambda>e. e\<lparr>re_state := REJECTED\<rparr>)))
         (bind_op (update_state (fst ck) request_id REJECTED) (\<lambda>_.
          then_op (emit_state_event ck r REQUEST_REJECTED []) (return_op r)))))"

definition run_admission ::
  "admission_framework \<Rightarrow> clock \<Rightarrow> uuid \<Rightarrow> ('x queue_state_scheme, cp_exn, ref) op" where
  "run_admission af ck request_id =
     bind_op (registry_get request_id) (\<lambda>r.
     bind_op (gets_op (\<lambda>s. entry_at s r)) (\<lambda>e.
       if re_state e \<noteq> VALIDATED
       then raise_op (InvalidTransitionError request_id (re_state e) ADMITTED)
       else case admission_evaluate af e of
              Inl x \<Rightarrow> raise_op x
            | Inr result \<Rightarrow>
                if ar_outcome result = ACCEPT then transition ck request_id ADMITTED None None
                else reject_admission ck request_id r result))"

definition mark_failed ::
  "clock \<Rightarrow> uuid \<Rightarrow> failure_reason \<Rightarrow> string \<Rightarrow> uuid option \<Rightarrow> string option \<Rightarrow>
   ('x queue_state_scheme, cp_exn, ref) op" where
  "mark_failed ck request_id reason message batch_id backend_id =
     bind_op (registry_get request_id) (\<lambda>r.
     then_op (assign_ids r batch_id backend_id)
     (bind_op (gets_op (\<lambda>s. re_state (entry_at s r))) (\<lambda>previous_state.
       let failure = internal_failure message reason;
           target = target_state_of_classified failure
       in if is_allowed_transition previous_state target
          then
            bind_op (transition ck request_id target None None) (\<lambda>updated.
            then_op (modify_op (modify_entry updated (apply_to_request failure)))
            (return_op updated))
          else
            then_op (modify_op (modify_entry r (apply_to_request failure)))
            (bind_op (update_state (fst ck) request_id target) (\<lambda>_.
             then_op (emit_state_event ck r REQUEST_FAILED []) (return_op r))))))"

definition completion_extra :: "inference_completion_record \<Rightarrow> extra" where
  "completion_extra c =
     [(''prompt_tokens'', X_INT (ic_prompt_tokens c)),
      (''completion_tokens'', X_INT (ic_completion_tokens c)),
      (''total_tokens'', X_INT (ic_total_tokens c)),
      (''finish_reason'', case ic_finish_reason c of None \<Rightarrow> X_NONE | Some x \<Rightarrow> X_STR x),
      (''execution_duration_ms'',
         case ic_execution_duration_ms c of None \<Rightarrow> X_NONE | Some x \<Rightarrow> X_NUM x)]"

definition complete_request ::
  "clock \<Rightarrow> uuid \<Rightarrow> inference_completion_record option \<Rightarrow> ('x queue_state_scheme, cp_exn, ref) op"
  where
  "complete_request ck request_id completion =
     bind_op (registry_get request_id) (\<lambda>r.
     bind_op (gets_op (\<lambda>s. re_state (entry_at s r))) (\<lambda>st.
       if st \<notin> {SUBMITTED, STREAMING}
       then raise_op (InvalidTransitionError request_id st COMPLETED)
       else
         then_op (case completion of
                    None \<Rightarrow> return_op ()
                  | Some c \<Rightarrow> modify_op (modify_entry r (\<lambda>e. e\<lparr>re_completion := Some c\<rparr>)))
         (bind_op (transition ck request_id COMPLETED None None) (\<lambda>updated.
          bind_op (gets_op (\<lambda>s. entry_at s updated)) (\<lambda>e.
          then_op (emit_state_event ck updated REQUEST_COMPLETED
                     (dict_update (trace_extra e)
                        (case completion of None \<Rightarrow> [] | Some c \<Rightarrow> completion_extra c)))
          (return_op updated))))))"

text \<open>
  \<open>process_through_queued\<close>: everything an exception does in the body is a failed request,
  except an invalid transition and an internal failure, which pass on.
\<close>

definition through_body ::
  "admission_framework \<Rightarrow> clock \<Rightarrow> clock \<Rightarrow> submit_request \<Rightarrow>
   ('x queue_state_scheme, cp_exn, ref) op" where
  "through_body af sweep ck submit =
     (let request_id = ir_request_id (sr_inference_request submit)
      in bind_op (process_timeouts sweep) (\<lambda>_.
         bind_op (register ck submit RECEIVED) (\<lambda>_.
         bind_op (transition ck request_id VALIDATED None None) (\<lambda>_.
         bind_op (run_admission af ck request_id) (\<lambda>r.
         bind_op (gets_op (\<lambda>s. re_state (entry_at s r))) (\<lambda>st.
           if st = REJECTED then return_op r
           else if st \<noteq> ADMITTED
           then raise_op (PlatformFailure (internal_failure
                  (''unexpected state after admission: '' @ request_state_value st)
                  INTERNAL_ERROR))
           else enqueue_from_admitted (fst ck) ck request_id))))))"

fun passes_on :: "cp_exn \<Rightarrow> bool" where
  "passes_on (InvalidTransitionError r a b) = True"
| "passes_on (PlatformFailure c) = (cf_category c = FC_INTERNAL)"
| "passes_on _ = False"

definition process_through_queued ::
  "admission_framework \<Rightarrow> clock \<Rightarrow> clock \<Rightarrow> submit_request \<Rightarrow>
   ('x queue_state_scheme, cp_exn, ref) op" where
  "process_through_queued af sweep ck submit =
     catch_op (through_body af sweep ck submit)
       (\<lambda>x. if passes_on x then raise_op x
             else mark_failed ck (ir_request_id (sr_inference_request submit)) INTERNAL_ERROR
                    (''control plane error: '' @ exn_message x) None None)"

definition get_entry :: "uuid \<Rightarrow> ('x queue_state_scheme, cp_exn, ref) op" where
  "get_entry request_id = registry_get request_id"

section \<open>Invariants\<close>

lemma wf_cp_emit_state [cp_intros]: "preserves wf_cp (emit_state_event ck r ev x)"
  unfolding emit_state_event_def by (intro preserves_intros cp_intros)

lemma wf_cp_emit_transition [cp_intros]: "preserves wf_cp (emit_for_transition ck r a b)"
  unfolding emit_for_transition_def by (intro preserves_intros cp_intros preserves_prod)

lemma wf_cp_assign [cp_intros]: "preserves wf_cp (assign_ids r b k)"
  unfolding assign_ids_def by (intro preserves_intros cp_intros) simp_all

lemma wf_cp_transition [cp_intros]: "preserves wf_cp (transition ck i st b k)"
  unfolding transition_def by (intro preserves_intros cp_intros)

lemma wf_cp_alloc: "wf_cp s \<Longrightarrow> wf_cp (snd (alloc_entry e s))"
  using wf_alloc [of s e]
  by (auto simp: wf_cp_def alloc_entry_def within_capacity_def wf_queue_def pre_queue_def
      list_all_iff linked_item_def entry_knows_position_def nth_append simp del: upt_Suc)

lemma wf_cp_registry_register:
  assumes "wf_cp s" and "r < length (rs_heap s)"
  shows "wf_cp (snd (registry_register r s))"
proof -
  have "wf_queue (snd (registry_register r s)) = wf_queue s"
    by (simp add: registry_register_def wf_queue_def pre_queue_def list_all_iff linked_item_def
        entry_knows_position_def)
  with assms show ?thesis by (simp add: wf_cp_def wf_register capacity_register)
qed

lemma wf_cp_register [cp_intros]: "preserves wf_cp (register ck submit st)"
proof -
  have "wf_cp (snd (bind_op (alloc_entry e) (\<lambda>r. bind_op (registry_register r) (\<lambda>_.
          then_op (emit_state_event ck r ev []) (return_op r))) s))"
    if "wf_cp s" for e ev and s :: "'a queue_state_scheme"
  proof -
    let ?s1 = "snd (alloc_entry e s)" and ?r = "length (rs_heap s)"
    have "wf_cp (snd (registry_register ?r ?s1))"
      using wf_cp_alloc [OF that] by (rule wf_cp_registry_register) (simp add: alloc_entry_def)
    moreover have "preserves wf_cp (then_op (emit_state_event ck ?r ev []) (return_op ?r))"
      by (intro preserves_intros cp_intros)
    ultimately show ?thesis
      by (auto simp: bind_op_def alloc_entry_def preserves_def split: prod.split sum.split)
  qed
  then show ?thesis
    unfolding register_def
    by (intro preserves_if preserves_raise preservesI) auto
qed

lemma wf_cp_reject_admission [cp_intros]: "preserves wf_cp (reject_admission ck i r x)"
  unfolding reject_admission_def Let_def by (intro preserves_intros cp_intros) simp_all

lemma preserves_case_sum:
  "(\<And>a. preserves I (f a)) \<Longrightarrow> (\<And>b. preserves I (g b)) \<Longrightarrow>
   preserves I (case x of Inl a \<Rightarrow> f a | Inr b \<Rightarrow> g b)"
  by (cases x) auto

lemma wf_cp_run_admission [cp_intros]: "preserves wf_cp (run_admission af ck i)"
  unfolding run_admission_def by (intro preserves_intros cp_intros preserves_case_sum)

lemma wf_cp_mark_failed [cp_intros]: "preserves wf_cp (mark_failed ck i reason m b k)"
  unfolding mark_failed_def Let_def by (intro preserves_intros cp_intros) simp_all

lemma wf_cp_complete [cp_intros]: "preserves wf_cp (complete_request ck i c)"
  unfolding complete_request_def by (intro preserves_intros cp_intros) simp

lemma wf_cp_through_body [cp_intros]: "preserves wf_cp (through_body af sweep ck submit)"
  unfolding through_body_def Let_def by (intro preserves_intros cp_intros)

lemma wf_cp_process [cp_intros]: "preserves wf_cp (process_through_queued af sweep ck submit)"
  unfolding process_through_queued_def by (intro preserves_intros cp_intros)

end
