(* ===== verification/Control_Plane.thy ===== *)
theory Control_Plane
  imports Lifecycle
begin

text \<open>
  What the control plane does as a whole: the outcome of every operation of the lifecycle
  manager on a registered request, the time-out sweep, the path of a new request to the
  queue, and the invariant of every state the control plane reaches.
\<close>

section \<open>Running the operations\<close>

text \<open>\<open>quiet s t\<close>: the registry's dictionary and the queue of \<open>t\<close> are those of \<open>s\<close>.\<close>

definition quiet :: "'x queue_state_scheme \<Rightarrow> 'x queue_state_scheme \<Rightarrow> bool" where
  "quiet s t \<longleftrightarrow>
     rs_entries t = rs_entries s \<and> rs_max_entries t = rs_max_entries s \<and>
     qs_items t = qs_items s \<and> qs_config t = qs_config s \<and>
     length (rs_heap t) = length (rs_heap s)"

lemma quiet_refl [simp]: "quiet s s"
  by (simp add: quiet_def)

lemma quiet_trans: "quiet s t \<Longrightarrow> quiet t u \<Longrightarrow> quiet s u"
  by (simp add: quiet_def)

lemma entry_at_observers [simp]: "entry_at (s\<lparr>em_observers := x\<rparr>) r = entry_at s r"
  by (simp add: entry_at_def)

lemma emit_state_event_run:
  "emit_state_event ck r ev x s =
     (Inr (), s\<lparr>em_observers := emit ck ev (re_request_id (entry_at s r))
        \<lparr>ea_correlation_id = re_trace_id (entry_at s r),
         ea_lifecycle_state = Some (re_state (entry_at s r)), ea_from_state = None,
         ea_to_state = Some (re_state (entry_at s r)), ea_failure_reason = None,
         ea_extra = dict_update (trace_extra (entry_at s r)) x\<rparr> (em_observers s)\<rparr>)"
  by (simp add: emit_state_event_def emit_op_def op_defs)

lemma emit_for_transition_run:
  "\<exists>obs. emit_for_transition ck r a b s = (Inr (), s\<lparr>em_observers := obs\<rparr>)"
  by (auto simp: emit_for_transition_def emit_op_def op_defs split: option.split)
    (metis queue_state.surjective emitter_state.update_convs(1))

text \<open>What assigning the batch and backend ids does to an entry.\<close>

definition with_ids ::
  "uuid option \<Rightarrow> string option \<Rightarrow> registered_request \<Rightarrow> registered_request" where
  "with_ids b k e =
     (let e1 = (case b of None \<Rightarrow> e | Some x \<Rightarrow> e\<lparr>re_batch_id := Some x\<rparr>)
      in case k of None \<Rightarrow> e1 | Some x \<Rightarrow> e1\<lparr>re_backend_id := Some x\<rparr>)"

lemma with_ids_none [simp]: "with_ids None None e = e"
  by (simp add: with_ids_def)

lemma with_ids_fields [simp]:
  "re_state (with_ids b k e) = re_state e" "re_submit (with_ids b k e) = re_submit e"
  "re_request_id (with_ids b k e) = re_request_id e"
  by (simp_all add: with_ids_def Let_def re_request_id_def split: option.split)

lemma modify_entry_twice:
  "modify_entry r g (modify_entry r f s) = modify_entry r (\<lambda>e. g (f e)) s"
  by (cases "r < length (rs_heap s)") (simp_all add: modify_entry_def list_update_beyond)

lemma modify_entry_id [simp]: "modify_entry r (\<lambda>e. e) s = s"
  by (simp add: modify_entry_def)

lemma modify_entry_observers:
  "modify_entry r f (s\<lparr>em_observers := x\<rparr>) = (modify_entry r f s)\<lparr>em_observers := x\<rparr>"
  by (simp add: modify_entry_def)

lemma assign_ids_run:
  "assign_ids r b k s = (Inr (), modify_entry r (with_ids b k) s)"
  by (cases b; cases k)
    (simp_all add: assign_ids_def op_defs with_ids_def [abs_def] Let_def modify_entry_twice)

lemma quiet_modify [simp]: "quiet s (modify_entry r f s)"
  by (simp add: quiet_def)

lemma transition_missing:
  "dict_get (rs_entries s) i = None \<Longrightarrow>
   transition ck i st b k s = (Inl (RequestNotFoundError i), s)"
  by (simp add: transition_def op_defs registry_get_def)

lemma transition_run:
  assumes "dict_get (rs_entries s) i = Some r" and "r < length (rs_heap s)"
  shows "\<exists>obs. transition ck i st b k s =
     (if is_allowed_transition (re_state (entry_at s r)) st
      then (Inr r, (modify_entry r
              (\<lambda>e. (with_ids b k e)\<lparr>re_state := st, re_updated_at := fst ck\<rparr>) s)
                \<lparr>em_observers := obs\<rparr>)
      else (Inl (InvalidTransitionError i (re_state (entry_at s r)) st),
            modify_entry r (with_ids b k) s))"
proof (cases "is_allowed_transition (re_state (entry_at s r)) st")
  case True
  let ?t = "modify_entry r (\<lambda>e. (with_ids b k e)\<lparr>re_state := st, re_updated_at := fst ck\<rparr>) s"
  obtain obs where
    "emit_for_transition ck r (re_state (entry_at s r)) st ?t = (Inr (), ?t\<lparr>em_observers := obs\<rparr>)"
    using emit_for_transition_run by blast
  with True assms show ?thesis
    by (intro exI [of _ obs])
      (simp add: transition_def op_defs registry_get_def assign_ids_run update_state_run
        modify_entry_twice)
next
  case False
  with assms show ?thesis
    by (simp add: transition_def op_defs registry_get_def assign_ids_run)
qed

text \<open>A failed request: its state, reason and message, whatever its state was.\<close>

lemma mark_failed_run:
  assumes "dict_get (rs_entries s) i = Some r" and "r < length (rs_heap s)"
  shows "\<exists>obs e. mark_failed ck i reason msg b k s = (Inr r, (modify_entry r (\<lambda>_. e) s)\<lparr>em_observers := obs\<rparr>) \<and>
     re_state e = FAILED \<and> re_failure_reason e = Some reason \<and> re_failure_message e = Some msg \<and>
     re_submit e = re_submit (entry_at s r) \<and>
     re_queue_position e = re_queue_position (entry_at s r)"
proof -
  let ?f = "internal_failure msg reason"
  let ?s1 = "modify_entry r (with_ids b k) s"
  have f: "apply_to_request ?f e =
      e\<lparr>re_state := FAILED, re_failure_reason := Some reason, re_failure_message := Some msg\<rparr>" for e
    by (simp add: apply_to_request_def internal_failure_def mk_classified_def target_state_def)
  have place: "re_queue_position (with_ids b k e) = re_queue_position e" for e
    by (simp add: with_ids_def Let_def split: option.split)
  have const: "modify_entry r g s = modify_entry r (\<lambda>_. g (entry_at s r)) s" for g
    by (simp add: modify_entry_def entry_at_def)
  show ?thesis
  proof (cases "is_allowed_transition (re_state (entry_at s r)) FAILED")
    case True
    obtain obs where "transition ck i FAILED None None ?s1 =
        (Inr r, (modify_entry r (\<lambda>e. e\<lparr>re_state := FAILED, re_updated_at := fst ck\<rparr>) ?s1)
           \<lparr>em_observers := obs\<rparr>)"
      using transition_run [of ?s1 i r ck FAILED None None] assms True by auto
    with True assms have "mark_failed ck i reason msg b k s =
        (Inr r, (modify_entry r (\<lambda>e. apply_to_request ?f
          ((with_ids b k e)\<lparr>re_state := FAILED, re_updated_at := fst ck\<rparr>)) s)\<lparr>em_observers := obs\<rparr>)"
      by (simp add: mark_failed_def op_defs registry_get_def assign_ids_run Let_def
          target_state_of_classified_def modify_entry_observers modify_entry_twice)
    then show ?thesis
      by (subst (asm) const) (force simp: f place)
  next
    case False
    let ?s2 = "modify_entry r (\<lambda>e. (apply_to_request ?f (with_ids b k e))
                \<lparr>re_state := FAILED, re_updated_at := fst ck\<rparr>) s"
    obtain obs where "mark_failed ck i reason msg b k s = (Inr r, ?s2\<lparr>em_observers := obs\<rparr>)"
      using False assms
      by (simp add: mark_failed_def op_defs registry_get_def assign_ids_run Let_def
          target_state_of_classified_def modify_entry_twice update_state_run emit_state_event_run)
    then show ?thesis
      by (subst (asm) const) (force simp: f place)
  qed
qed

section \<open>The time-out sweep\<close>

definition timed_out_entry :: "datetime \<Rightarrow> registered_request \<Rightarrow> registered_request" where
  "timed_out_entry now e =
     e\<lparr>re_state := TIMED_OUT, re_failure_reason := Some QUEUE_TIMEOUT,
       re_failure_message := Some ''queue wait timeout exceeded'', re_updated_at := now\<rparr>"

text \<open>Every queued item is the registered entry of its request id.\<close>

definition queue_registered :: "'x queue_state_scheme \<Rightarrow> bool" where
  "queue_registered s \<longleftrightarrow>
     list_all (\<lambda>it. dict_get (rs_entries s) (q_request_id it) = Some (q_entry it)) (qs_items s)"

lemma timed_out_entry_id [simp]:
  "re_request_id (timed_out_entry now e) = re_request_id e"
  "re_state (timed_out_entry now e) = TIMED_OUT"
  "timed_out_entry now (timed_out_entry now e) = timed_out_entry now e"
  by (simp_all add: timed_out_entry_def re_request_id_def)

lemma abs_queue_observers [simp]: "abs_queue (s\<lparr>em_observers := x\<rparr>) = abs_queue s"
  by (simp add: abs_queue_def)

lemma entry_modify_request_id:
  "keeps_id f \<Longrightarrow> re_request_id (entry_at (modify_entry r f s) k) = re_request_id (entry_at s k)"
  by (simp add: entry_at_def modify_entry_def keeps_id_update)

lemma keeps_id_timed_out [simp]: "keeps_id (timed_out_entry now)"
  by (simp add: keeps_id_def timed_out_entry_def)

lemma set_depth_run:
  "set_depth_op s =
     (Inr (), s\<lparr>em_observers := on_metrics (set_queue_depth (queue_size s)) (em_observers s)\<rparr>)"
  by (simp add: set_depth_op_def metrics_op_def op_defs)

lemma entry_modify_if:
  "r < length (rs_heap s) \<Longrightarrow>
   entry_at (modify_entry r f s) k = (if k = r then f (entry_at s k) else entry_at s k)"
  by simp

lemma time_out_item_run:
  assumes "q_entry it < length (rs_heap s)"
    and "dict_get (rs_entries s) (re_request_id (entry_at s (q_entry it))) = Some (q_entry it)"
  shows "\<exists>obs. time_out_item ck it s =
    (Inr (q_entry it), (modify_entry (q_entry it) (timed_out_entry (fst ck)) s)\<lparr>em_observers := obs\<rparr>)"
proof -
  have id: "re_request_id (e\<lparr>re_state := a, re_failure_reason := b, re_failure_message := c\<rparr>) =
      re_request_id e" for e a b c
    by (simp add: re_request_id_def)
  have f: "(\<lambda>e. e\<lparr>re_state := TIMED_OUT, re_failure_reason := Some QUEUE_TIMEOUT,
      re_failure_message := Some ''queue wait timeout exceeded'', re_state := TIMED_OUT,
      re_updated_at := fst ck\<rparr>) = timed_out_entry (fst ck)"
    by (simp add: timed_out_entry_def fun_eq_iff)
  from assms show ?thesis
    by (simp add: time_out_item_def op_defs emit_queue_op_def update_state_run id
        modify_entry_twice f [simplified]) (rule exI, rule refl)
qed

lemma map_time_out_run:
  assumes "list_all (\<lambda>it. q_entry it < length (rs_heap s) \<and>
      dict_get (rs_entries s) (re_request_id (entry_at s (q_entry it))) = Some (q_entry it)) its"
  shows "\<exists>t. map_op (time_out_item ck) its s = (Inr (map q_entry its), t) \<and> quiet s t \<and>
     (\<forall>k < length (rs_heap s). entry_at t k =
        (if k \<in> q_entry ` set its then timed_out_entry (fst ck) (entry_at s k) else entry_at s k))"
  using assms
proof (induction its arbitrary: s)
  case Nil
  then show ?case by (simp add: op_defs)
next
  case (Cons it its)
  then obtain obs where item: "time_out_item ck it s =
      (Inr (q_entry it), (modify_entry (q_entry it) (timed_out_entry (fst ck)) s)\<lparr>em_observers := obs\<rparr>)"
    using time_out_item_run [of it s ck] by auto
  let ?s1 = "(modify_entry (q_entry it) (timed_out_entry (fst ck)) s)\<lparr>em_observers := obs\<rparr>"
  have q: "quiet s ?s1" by (simp add: quiet_def)
  have "list_all (\<lambda>it. q_entry it < length (rs_heap ?s1) \<and>
      dict_get (rs_entries ?s1) (re_request_id (entry_at ?s1 (q_entry it))) = Some (q_entry it)) its"
    using Cons.prems by (auto simp: list_all_iff entry_modify_request_id)
  then obtain t where t: "map_op (time_out_item ck) its ?s1 = (Inr (map q_entry its), t)"
      "quiet ?s1 t"
      "\<forall>k < length (rs_heap ?s1). entry_at t k =
        (if k \<in> q_entry ` set its then timed_out_entry (fst ck) (entry_at ?s1 k) else entry_at ?s1 k)"
    using Cons.IH by blast
  have "quiet s t" using q t(2) by (rule quiet_trans)
  moreover have "\<forall>k < length (rs_heap s). entry_at t k =
      (if k \<in> q_entry ` set (it # its) then timed_out_entry (fst ck) (entry_at s k) else entry_at s k)"
    using t(3) Cons.prems by (auto simp: entry_modify_if)
  ultimately show ?case
    using item t(1) by (simp add: op_defs)
qed

lemma process_timeouts_run:
  fixes ck :: clock
  assumes "wf_queue s" and "queue_registered s"
  defines "late \<equiv> filter (expired (fst ck) (qs_config s)) (qs_items s)"
  shows "\<exists>t. process_timeouts ck s = (Inr (map q_entry late), t) \<and>
     rs_entries t = rs_entries s \<and> length (rs_heap t) = length (rs_heap s) \<and>
     qs_config t = qs_config s \<and>
     abs_queue t = fifo_expire (fst ck) (qs_config s) (abs_queue s) \<and>
     map q_entry (qs_items t) =
       map q_entry (filter (\<lambda>it. \<not> expired (fst ck) (qs_config s) it) (qs_items s)) \<and>
     (\<forall>k < length (rs_heap s). re_state (entry_at t k) =
        (if k \<in> q_entry ` set late then TIMED_OUT else re_state (entry_at s k)))"
proof -
  let ?s1 = "snd (expire_timeouts (fst ck) s)"
  have "list_all (\<lambda>it. q_entry it < length (rs_heap ?s1) \<and>
      dict_get (rs_entries ?s1) (re_request_id (entry_at ?s1 (q_entry it))) = Some (q_entry it)) late"
    using assms
    by (auto simp: list_all_iff queue_registered_def wf_queue_def pre_queue_def linked_item_def
        entry_at_def)
  then obtain t where t: "map_op (time_out_item ck) late ?s1 = (Inr (map q_entry late), t)"
      "quiet ?s1 t"
      "\<forall>k < length (rs_heap ?s1). entry_at t k =
        (if k \<in> q_entry ` set late then timed_out_entry (fst ck) (entry_at ?s1 k) else entry_at ?s1 k)"
    using map_time_out_run by blast
  obtain obs where run: "process_timeouts ck s = (Inr (map q_entry late), t\<lparr>em_observers := obs\<rparr>)"
  proof (cases "late = []")
    case True
    with t(1) that [of "em_observers t"] show ?thesis
      unfolding process_timeouts_def expire_run late_def [symmetric]
      by (simp add: bind_op_def then_op_def return_op_def)
  next
    case False
    with t(1) that show ?thesis
      unfolding process_timeouts_def expire_run late_def [symmetric]
      by (simp add: bind_op_def then_op_def return_op_def set_depth_run)
  qed
  have "abs_queue t = abs_queue ?s1" and "map q_entry (qs_items t) = map q_entry (qs_items ?s1)"
    using t(2) by (simp_all add: quiet_def abs_queue_def)
  then have "abs_queue t = fifo_expire (fst ck) (qs_config s) (abs_queue s)"
    and "map q_entry (qs_items t) =
       map q_entry (filter (\<lambda>it. \<not> expired (fst ck) (qs_config s) it) (qs_items s))"
    by (simp add: abs_expire, simp add: expire_timeouts_def)
  moreover have "\<forall>k < length (rs_heap s). re_state (entry_at t k) =
        (if k \<in> q_entry ` set late then TIMED_OUT else re_state (entry_at s k))"
    using t(3) by (simp add: entry_at_def [of "snd (expire_timeouts n s)" for n] entry_at_def [of s])
  ultimately show ?thesis
    using run t(2) by (auto simp: quiet_def abs_queue_observers)
qed

section \<open>How the states of requests may change\<close>

text \<open>
  Along the allowed transitions, or forced to \<open>FAILED\<close> (by \<open>mark_failed\<close>) or to \<open>TIMED_OUT\<close>
  (by the time-out sweep), which do not ask the table.
\<close>

definition legal_or_forced :: "request_state \<Rightarrow> request_state \<Rightarrow> bool" where
  "legal_or_forced a b \<longleftrightarrow> is_allowed_transition\<^sup>*\<^sup>* a b \<or> b = FAILED \<or> b = TIMED_OUT"

definition evolves :: "'x queue_state_scheme \<Rightarrow> 'x queue_state_scheme \<Rightarrow> bool" where
  "evolves s t \<longleftrightarrow>
     (wf_cp s \<longrightarrow>
        wf_cp t \<and> length (rs_heap s) \<le> length (rs_heap t) \<and>
        (\<forall>k < length (rs_heap s).
           legal_or_forced (re_state (entry_at s k)) (re_state (entry_at t k)) \<and>
           re_submit (entry_at t k) = re_submit (entry_at s k)))"

lemma legal_refl [simp]: "legal_or_forced a a"
  by (simp add: legal_or_forced_def)

lemma legal_step [intro]: "is_allowed_transition a b \<Longrightarrow> legal_or_forced a b"
  by (auto simp: legal_or_forced_def)

lemma legal_trans: "legal_or_forced a b \<Longrightarrow> legal_or_forced b c \<Longrightarrow> legal_or_forced a c"
  unfolding legal_or_forced_def
  by (auto dest: request_machine.terminal_absorbing intro: rtranclp_trans)

interpretation evolve: step_relation evolves
proof
  fix s t u :: "'x queue_state_scheme"
  show "evolves s s" by (simp add: evolves_def)
  assume "evolves s t" "evolves t u"
  then show "evolves s u"
    unfolding evolves_def
    by (intro impI conjI allI; elim impE conjE; (auto intro: legal_trans)?; fastforce)
qed

named_theorems evolve_intros \<open>operations that change request states as the table allows\<close>

lemma evolves_same:
  "(\<And>s. wf_cp s \<Longrightarrow> wf_cp (snd (m s))) \<Longrightarrow>
   (\<And>s k. length (rs_heap (snd (m s))) = length (rs_heap s)) \<Longrightarrow>
   (\<And>s k. re_state (entry_at (snd (m s)) k) = re_state (entry_at s k) \<and>
     re_submit (entry_at (snd (m s)) k) = re_submit (entry_at s k)) \<Longrightarrow>
   within_rel evolves m"
  by (rule within_relI) (simp add: evolves_def)

lemma evolves_modify [evolve_intros]:
  assumes "keeps_place f" and "\<And>e. re_state (f e) = re_state e"
  shows "within_rel evolves (modify_op (modify_entry r f))"
  using assms modify_entry_keeps [of re_state f] modify_entry_keeps [of re_submit f]
  by (intro evolves_same preservesD [OF wf_cp_modify])
    (auto simp: modify_op_def entry_at_def keeps_place_def keeps_id_def)

lemma evolves_emit [evolve_intros]: "within_rel evolves (emit_op ck ev i a)"
  by (intro evolves_same preservesD [OF wf_cp_emit]) (simp_all add: emit_op_def modify_op_def)

lemma evolves_emit_queue [evolve_intros]: "within_rel evolves (emit_queue_op ck ev i c p x)"
  by (intro evolves_same preservesD [OF wf_cp_emit_queue])
    (simp_all add: emit_queue_op_def modify_op_def)

lemma evolves_depth [evolve_intros]: "within_rel evolves set_depth_op"
  by (intro evolves_same preservesD [OF wf_cp_depth]) (simp_all add: set_depth_run)

lemma evolves_get [evolve_intros]: "within_rel evolves (registry_get i)"
  by (intro evolves_same preservesD [OF wf_cp_get])
    (auto simp: registry_get_def split: option.split)

lemma reindex_submit [simp]:
  "re_submit (rs_heap (reindex_positions s) ! r) = re_submit (rs_heap s ! r)"
  by (simp add: reindex_positions_def)

lemma evolves_expire [evolve_intros]: "within_rel evolves (expire_timeouts now)"
  by (intro evolves_same preservesD [OF wf_cp_expire])
    (simp_all add: entry_at_def expire_timeouts_def)

lemma evolves_dequeue [evolve_intros]: "within_rel evolves (dequeue now)"
  by (intro evolves_same preservesD [OF wf_cp_dequeue])
    (auto simp: dequeue_def expire_run entry_at_def expire_timeouts_def split: list.split)

lemma evolves_remove [evolve_intros]: "within_rel evolves (queue_remove i)"
  by (intro evolves_same preservesD [OF wf_cp_remove])
    (auto simp: queue_remove_def entry_at_def split: list.split)

lemma evolvesI:
  assumes "wf_cp s \<Longrightarrow> wf_cp t" and "wf_cp s \<Longrightarrow> length (rs_heap s) \<le> length (rs_heap t)"
    and "\<And>k. wf_cp s \<Longrightarrow> k < length (rs_heap s) \<Longrightarrow>
      legal_or_forced (re_state (entry_at s k)) (re_state (entry_at t k)) \<and>
      re_submit (entry_at t k) = re_submit (entry_at s k)"
  shows "evolves s t"
  using assms by (simp add: evolves_def)

lemma wf_cp_registered:
  "wf_cp s \<Longrightarrow> dict_get (rs_entries s) i = Some r \<Longrightarrow> r < length (rs_heap s)"
  by (auto simp: wf_cp_def dest: wf_registry_getD)

lemma evolves_transition [evolve_intros]: "within_rel evolves (transition ck i st b k)"
proof (rule within_relI, rule evolvesI)
  fix s :: "'x queue_state_scheme" assume wf: "wf_cp s"
  then show "wf_cp (snd (transition ck i st b k s))" by (rule preservesD [OF wf_cp_transition])
  consider "dict_get (rs_entries s) i = None" | r where "dict_get (rs_entries s) i = Some r"
    by (cases "dict_get (rs_entries s) i") auto
  then have "length (rs_heap (snd (transition ck i st b k s))) = length (rs_heap s) \<and>
    (\<forall>j. legal_or_forced (re_state (entry_at s j))
           (re_state (entry_at (snd (transition ck i st b k s)) j)) \<and>
         re_submit (entry_at (snd (transition ck i st b k s)) j) = re_submit (entry_at s j))"
  proof cases
    case 1
    then show ?thesis by (simp add: transition_missing)
  next
    case 2
    then show ?thesis
      using transition_run [OF 2 wf_cp_registered [OF wf 2], of ck st b k]
      by (auto simp: entry_modify_if wf_cp_registered [OF wf 2] split: if_splits)
  qed
  then show "length (rs_heap s) \<le> length (rs_heap (snd (transition ck i st b k s)))"
    and "legal_or_forced (re_state (entry_at s j)) (re_state (entry_at (snd (transition ck i st b k s)) j))
      \<and> re_submit (entry_at (snd (transition ck i st b k s)) j) = re_submit (entry_at s j)" for j
    by auto
qed

lemma reject_full_run:
  assumes "dict_get (rs_entries s) i = Some r" and "r < length (rs_heap s)"
  shows "\<exists>obs. reject_full ck i r reason s =
     (Inr r, (modify_entry r (\<lambda>e. (apply_to_request (admission_failure reason QUEUE_FULL True) e)
        \<lparr>re_state := REJECTED, re_updated_at := fst ck\<rparr>) s)\<lparr>em_observers := obs\<rparr>)"
  using assms
  by (simp add: reject_full_def op_defs emit_queue_op_def update_state_run set_depth_run
      modify_entry_observers modify_entry_twice)
    (rule exI, rule refl)

lemma after_enqueue_run:
  assumes "dict_get (rs_entries s) i = Some r" and "r < length (rs_heap s)"
  shows "\<exists>obs. after_enqueue ck i r q s =
     (Inr r, (modify_entry r (\<lambda>e. e\<lparr>re_state := QUEUED, re_updated_at := fst ck\<rparr>) s)
        \<lparr>em_observers := obs\<rparr>)"
  using assms
  by (simp add: after_enqueue_def op_defs emit_queue_op_def emit_op_def update_state_run
      set_depth_run modify_entry_observers modify_entry_twice)
    (rule exI, rule refl)

lemma reject_admission_run:
  assumes "dict_get (rs_entries s) i = Some r" and "r < length (rs_heap s)"
  shows "\<exists>obs f. reject_admission ck i r x s =
     (Inr r, (modify_entry r (\<lambda>e. (apply_to_request f e)
        \<lparr>re_state := REJECTED, re_updated_at := fst ck\<rparr>) s)\<lparr>em_observers := obs\<rparr>)"
  using assms
  by (simp add: reject_admission_def Let_def op_defs update_state_run emit_state_event_run
      modify_entry_twice)
    (rule exI, rule exI, rule refl)

lemma apply_submit [simp]: "re_submit (apply_to_request f e) = re_submit e"
  by (simp add: apply_to_request_def)

text \<open>An operation on a registered request that leaves the store's size and the other entries.\<close>

lemma evolves_on_entry:
  assumes "\<And>s r. wf_cp s \<Longrightarrow> dict_get (rs_entries s) i = Some r \<Longrightarrow> r < length (rs_heap s) \<Longrightarrow>
      evolves s (snd (m s))"
    and "\<And>s. dict_get (rs_entries s) i = None \<Longrightarrow> snd (m s) = s"
  shows "within_rel evolves m"
proof (rule within_relI)
  fix s
  show "evolves s (snd (m s))"
  proof (cases "wf_cp s")
    case True
    then show ?thesis
      using assms evolve.R_refl [of s] wf_cp_registered
      by (cases "dict_get (rs_entries s) i") fastforce+
  next
    case False
    then show ?thesis by (simp add: evolves_def)
  qed
qed

lemma evolves_entry_write:
  assumes "p = (x, (modify_entry r f s)\<lparr>em_observers := obs\<rparr>)" and "wf_cp (snd p)"
    and "r < length (rs_heap s)"
    and "legal_or_forced (re_state (entry_at s r)) (re_state (f (entry_at s r)))"
    and "re_submit (f (entry_at s r)) = re_submit (entry_at s r)"
  shows "evolves s (snd p)"
  using assms by (intro evolvesI) (auto simp: entry_modify_if)

lemma evolves_run_admission [evolve_intros]: "within_rel evolves (run_admission af ck i)"
proof (rule evolves_on_entry [where i = i])
  fix s :: "'x queue_state_scheme" and r
  assume wf: "wf_cp s" and r: "dict_get (rs_entries s) i = Some r" "r < length (rs_heap s)"
  note wf' = preservesD [OF wf_cp_run_admission wf]
  have tr: "evolves s (snd (transition ck i ADMITTED None None s))"
    by (rule within_relD [OF evolves_transition])
  have rj: "evolves s (snd (reject_admission ck i r x s))" if "re_state (entry_at s r) = VALIDATED" for x
  proof -
    obtain obs f where run: "reject_admission ck i r x s =
        (Inr r, (modify_entry r (\<lambda>e. (apply_to_request f e)
          \<lparr>re_state := REJECTED, re_updated_at := fst ck\<rparr>) s)\<lparr>em_observers := obs\<rparr>)"
      using reject_admission_run [OF r] by blast
    show ?thesis
      using that preservesD [OF wf_cp_reject_admission wf, of ck i r x]
      by (intro evolves_entry_write [OF run _ r(2)])
        (auto intro!: legal_step simp: is_allowed_transition_def)
  qed
  from r tr rj show "evolves s (snd (run_admission af ck i s))"
    by (auto simp: run_admission_def op_defs registry_get_def evolve.R_refl split: sum.split)
qed (simp add: run_admission_def op_defs registry_get_def)

lemma evolves_mark_failed [evolve_intros]: "within_rel evolves (mark_failed ck i reason m b k)"
proof (rule evolves_on_entry [where i = i])
  fix s :: "'x queue_state_scheme" and r
  assume wf: "wf_cp s" and r: "dict_get (rs_entries s) i = Some r" "r < length (rs_heap s)"
  obtain obs e where run: "mark_failed ck i reason m b k s =
      (Inr r, (modify_entry r (\<lambda>_. e) s)\<lparr>em_observers := obs\<rparr>)"
    and "re_state e = FAILED" "re_submit e = re_submit (entry_at s r)"
    using mark_failed_run [OF r] by blast
  then show "evolves s (snd (mark_failed ck i reason m b k s))"
    using preservesD [OF wf_cp_mark_failed wf, of ck i reason m b k]
    by (intro evolves_entry_write [OF run _ r(2)]) (auto simp: legal_or_forced_def)
qed (simp add: mark_failed_def op_defs registry_get_def)

lemma evolves_complete [evolve_intros]: "within_rel evolves (complete_request ck i c)"
proof -
  have emit: "within_rel evolves (emit_state_event ck r ev x)" for r ev x
    unfolding emit_state_event_def by (intro evolve.within_intros evolve_intros)
  show ?thesis
    unfolding complete_request_def
    by (intro evolve.within_intros evolve_intros emit) simp_all
qed

lemma append_queued_state [simp]:
  "r < length (rs_heap s) \<Longrightarrow>
     re_state (entry_at (snd (append_queued now r s)) k) = re_state (entry_at s k)"
  "length (rs_heap (snd (append_queued now r s))) = length (rs_heap s)"
  "r < length (rs_heap s) \<Longrightarrow>
     re_submit (entry_at (snd (append_queued now r s)) k) = re_submit (entry_at s k)"
  "rs_entries (snd (append_queued now r s)) = rs_entries s"
proof -
  have at: "entry_at (s\<lparr>qs_items := x\<rparr>) k = entry_at s k" for x k by (simp add: entry_at_def)
  show "r < length (rs_heap s) \<Longrightarrow>
      re_state (entry_at (snd (append_queued now r s)) k) = re_state (entry_at s k)"
    "r < length (rs_heap s) \<Longrightarrow>
      re_submit (entry_at (snd (append_queued now r s)) k) = re_submit (entry_at s k)"
    by (simp_all add: append_queued_def Let_def entry_modify_if at)
qed (simp_all add: append_queued_def Let_def)

lemma enqueue_state:
  assumes "r < length (rs_heap s)"
  shows "re_state (entry_at (snd (enqueue sweep now r s)) k) = re_state (entry_at s k)"
    and "re_submit (entry_at (snd (enqueue sweep now r s)) k) = re_submit (entry_at s k)"
    and "length (rs_heap (snd (enqueue sweep now r s))) = length (rs_heap s)"
    and "rs_entries (snd (enqueue sweep now r s)) = rs_entries s"
  using assms
  by (simp_all add: enqueue_run Let_def)
    (simp_all add: entry_at_def expire_timeouts_def)

lemma enqueue_from_admitted_cases:
  assumes "dict_get (rs_entries s) i = Some r" and "r < length (rs_heap s)"
    and "re_state (entry_at s r) = ADMITTED"
  obtains (duplicate) m where "fst (enqueue sweep (fst ck) r s) = Inl (ValueError m)"
      "enqueue_from_admitted sweep ck i s = (Inl (ValueError m), snd (enqueue sweep (fst ck) r s))"
  | (full) reason ms where "fst (enqueue sweep (fst ck) r s) = Inl (QueueFullError reason ms)"
      "enqueue_from_admitted sweep ck i s = reject_full ck i r reason (snd (enqueue sweep (fst ck) r s))"
  | (queued) q where "fst (enqueue sweep (fst ck) r s) = Inr q"
      "enqueue_from_admitted sweep ck i s = after_enqueue ck i r q (snd (enqueue sweep (fst ck) r s))"
proof -
  have "enqueue_from_admitted sweep ck i s =
      (case enqueue sweep (fst ck) r s of
         (Inl (QueueFullError reason ms), s1) \<Rightarrow> reject_full ck i r reason s1
       | (Inl x, s1) \<Rightarrow> (Inl x, s1)
       | (Inr queued, s1) \<Rightarrow> after_enqueue ck i r queued s1)"
    using assms by (simp add: enqueue_from_admitted_def bind_op_def registry_get_def)
  moreover have "(\<exists>m. fst (enqueue sweep (fst ck) r s) = Inl (ValueError m)) \<or>
      fst (enqueue sweep (fst ck) r s) = Inl (QueueFullError ''queue_full'' 250) \<or>
      (\<exists>q. fst (enqueue sweep (fst ck) r s) = Inr q)"
    by (simp add: enqueue_run Let_def append_queued_def)
  ultimately show ?thesis
    using that by (cases "enqueue sweep (fst ck) r s") auto
qed

lemma evolves_enqueue_from_admitted [evolve_intros]:
  "within_rel evolves (enqueue_from_admitted sweep ck i)"
proof (rule evolves_on_entry [where i = i])
  fix s :: "'x queue_state_scheme" and r
  assume wf: "wf_cp s" and r: "dict_get (rs_entries s) i = Some r" "r < length (rs_heap s)"
  let ?s1 = "snd (enqueue sweep (fst ck) r s)"
  note enq = enqueue_state [OF r(2), of sweep "fst ck"]
  have wf1: "wf_cp ?s1" using wf r(2) by (rule wf_cp_enqueue)
  have ev1: "evolves s ?s1" using wf1 enq by (intro evolvesI) auto
  have r1: "dict_get (rs_entries ?s1) i = Some r" "r < length (rs_heap ?s1)" using r enq by auto
  show "evolves s (snd (enqueue_from_admitted sweep ck i s))"
  proof (cases "re_state (entry_at s r) = ADMITTED")
    case False
    with r show ?thesis
      by (simp add: enqueue_from_admitted_def bind_op_def registry_get_def evolve.R_refl)
  next
    case True
    with r show ?thesis
    proof (cases rule: enqueue_from_admitted_cases [of s i r sweep ck])
      case (duplicate m)
      with ev1 show ?thesis by simp
    next
      case (full reason ms)
      obtain obs where run: "reject_full ck i r reason ?s1 = (Inr r, (modify_entry r
          (\<lambda>e. (apply_to_request (admission_failure reason QUEUE_FULL True) e)
             \<lparr>re_state := REJECTED, re_updated_at := fst ck\<rparr>) ?s1)\<lparr>em_observers := obs\<rparr>)"
        using reject_full_run [OF r1] by blast
      have "evolves ?s1 (snd (reject_full ck i r reason ?s1))"
        using True enq(1) preservesD [OF wf_cp_reject wf1, of ck i r reason]
        by (intro evolves_entry_write [OF run _ r1(2)])
          (auto intro!: legal_step simp: is_allowed_transition_def)
      with ev1 full show ?thesis by (auto intro: evolve.R_trans)
    next
      case (queued q)
      obtain obs where run: "after_enqueue ck i r q ?s1 = (Inr r, (modify_entry r
          (\<lambda>e. e\<lparr>re_state := QUEUED, re_updated_at := fst ck\<rparr>) ?s1)\<lparr>em_observers := obs\<rparr>)"
        using after_enqueue_run [OF r1] by blast
      have "evolves ?s1 (snd (after_enqueue ck i r q ?s1))"
        using True enq(1) preservesD [OF wf_cp_after_enqueue wf1, of ck i r q]
        by (intro evolves_entry_write [OF run _ r1(2)])
          (auto intro!: legal_step simp: is_allowed_transition_def)
      with ev1 queued show ?thesis by (auto intro: evolve.R_trans)
    qed
  qed
qed (simp add: enqueue_from_admitted_def bind_op_def registry_get_def)

text \<open>Writes that force \<open>TIMED_OUT\<close>, and the operations that only read the queue.\<close>

lemma evolves_force_modify:
  assumes "keeps_place f" and "\<And>e. re_state (f e) = TIMED_OUT"
  shows "within_rel evolves (modify_op (modify_entry r f))"
proof (rule within_relI, rule evolvesI)
  fix s :: "'x queue_state_scheme" and k assume wf: "wf_cp s" and k: "k < length (rs_heap s)"
  show "legal_or_forced (re_state (entry_at s k))
      (re_state (entry_at (snd (modify_op (modify_entry r f) s)) k)) \<and>
    re_submit (entry_at (snd (modify_op (modify_entry r f) s)) k) = re_submit (entry_at s k)"
    using assms k
    by (cases "k = r") (auto simp: modify_op_def keeps_place_def keeps_id_def legal_or_forced_def)
qed (use assms in \<open>auto simp: modify_op_def intro: preservesD [OF wf_cp_modify, unfolded modify_op_def, simplified]\<close>)

lemma evolves_update_timed_out: "within_rel evolves (update_state now i TIMED_OUT)"
  unfolding update_state_def
  by (intro evolve.within_intros evolve_intros evolves_force_modify) simp_all

lemma evolves_process_timeouts [evolve_intros]: "within_rel evolves (process_timeouts ck)"
  unfolding process_timeouts_def time_out_item_def
  by (intro evolve.within_intros evolve_intros evolves_force_modify evolves_update_timed_out)
    simp_all

lemma evolves_dequeue_next [evolve_intros]: "within_rel evolves (dequeue_next ck)"
  unfolding dequeue_next_def by (intro evolve.within_intros evolve_intros)

lemma evolves_service_remove [evolve_intros]: "within_rel evolves (service_remove ck i)"
  unfolding service_remove_def by (intro evolve.within_intros evolve_intros)

lemma evolves_list [evolve_intros]: "within_rel evolves (list_items now)"
  unfolding list_items_def by (intro evolve.within_intros evolve_intros)

lemma evolves_snapshot [evolve_intros]: "within_rel evolves (get_queue_snapshot now n)"
  unfolding get_queue_snapshot_def Let_def by (intro evolve.within_intros evolve_intros)

lemma evolves_register [evolve_intros]: "within_rel evolves (register ck submit st)"
proof (rule within_relI, rule evolvesI)
  fix s :: "'x queue_state_scheme" assume wf: "wf_cp s"
  show "wf_cp (snd (register ck submit st s))" using wf by (rule preservesD [OF wf_cp_register])
  show "length (rs_heap s) \<le> length (rs_heap (snd (register ck submit st s)))"
    by (simp add: register_def bind_op_def then_op_def alloc_entry_def registry_register_def
        emit_state_event_run return_op_def raise_op_def)
  fix k assume "k < length (rs_heap s)"
  then show "legal_or_forced (re_state (entry_at s k))
      (re_state (entry_at (snd (register ck submit st s)) k)) \<and>
    re_submit (entry_at (snd (register ck submit st s)) k) = re_submit (entry_at s k)"
    by (simp add: register_def bind_op_def then_op_def alloc_entry_def registry_register_def
        emit_state_event_run return_op_def raise_op_def entry_at_def nth_append)
qed

lemma evolves_process [evolve_intros]:
  "within_rel evolves (process_through_queued af sweep ck submit)"
  unfolding process_through_queued_def through_body_def Let_def
  by (intro evolve.within_intros evolve_intros)

text \<open>No operation of the sweep changes the registry's capacity.\<close>

definition same_capacity :: "'x queue_state_scheme \<Rightarrow> 'x queue_state_scheme \<Rightarrow> bool" where
  "same_capacity s t \<longleftrightarrow> rs_max_entries t = rs_max_entries s \<and> qs_config t = qs_config s"

interpretation capacity: step_relation same_capacity
  by unfold_locales (auto simp: same_capacity_def)

lemma same_capacity_modify: "within_rel same_capacity (modify_op (modify_entry r f))"
  by (rule within_relI) (simp add: same_capacity_def modify_op_def)

lemma same_capacity_emit: "within_rel same_capacity (emit_queue_op ck ev i c p x)"
  by (rule within_relI) (simp add: same_capacity_def emit_queue_op_def modify_op_def)

lemma same_capacity_depth: "within_rel same_capacity set_depth_op"
  by (rule within_relI) (simp add: same_capacity_def set_depth_run)

lemma same_capacity_get: "within_rel same_capacity (registry_get i)"
  by (rule within_relI) (simp add: same_capacity_def registry_get_def split: option.split)

lemma same_capacity_expire: "within_rel same_capacity (expire_timeouts now)"
  by (rule within_relI) (simp add: same_capacity_def)

lemma same_capacity_timeouts: "within_rel same_capacity (process_timeouts ck)"
  unfolding process_timeouts_def time_out_item_def update_state_def
  by (intro capacity.within_intros same_capacity_modify same_capacity_emit same_capacity_depth
      same_capacity_get same_capacity_expire)

section \<open>The path of a new request\<close>

definition submit_id :: "submit_request \<Rightarrow> uuid" where
  "submit_id submit = ir_request_id (sr_inference_request submit)"

lemma register_run:
  assumes "int (length (rs_entries s)) < rs_max_entries s"
  shows "\<exists>obs. register ck submit RECEIVED s =
     (Inr (length (rs_heap s)),
      s\<lparr>rs_heap := rs_heap s @ [new_registered_request (fst ck) submit RECEIVED],
        rs_entries := dict_set (submit_id submit) (length (rs_heap s)) (rs_entries s),
        em_observers := obs\<rparr>)"
  using assms
  by (simp add: register_def op_basic alloc_entry_def registry_register_def emit_state_event_run
      entry_at_def new_registered_request_def re_request_id_def submit_id_def)
    (rule exI, rule refl)

lemma abs_queue_heap [simp]:
  "abs_queue (s\<lparr>rs_heap := h\<rparr>) = abs_queue s" "abs_queue (s\<lparr>rs_entries := d\<rparr>) = abs_queue s"
  "abs_queue (modify_entry r f s) = abs_queue s"
  by (simp_all add: abs_queue_def)

text \<open>
  An operation that moves the entry at \<open>r\<close> from state to state and leaves registry, queue and
  configuration as they are.
\<close>

definition moves_entry ::
  "uuid \<Rightarrow> ref \<Rightarrow> request_state \<Rightarrow> 'x queue_state_scheme \<Rightarrow> 'x queue_state_scheme \<Rightarrow> bool" where
  "moves_entry i r st s t \<longleftrightarrow>
     quiet s t \<and> re_state (entry_at t r) = st \<and> re_request_id (entry_at t r) = i"

lemma transition_moves:
  assumes "dict_get (rs_entries s) i = Some r" and "r < length (rs_heap s)"
    and "re_request_id (entry_at s r) = i"
    and "is_allowed_transition (re_state (entry_at s r)) st"
  shows "\<exists>t. transition ck i st None None s = (Inr r, t) \<and> moves_entry i r st s t"
  using transition_run [OF assms(1,2), of ck st None None] assms
  by (auto simp: moves_entry_def quiet_def re_request_id_def)

lemma run_admission_moves:
  assumes "dict_get (rs_entries s) i = Some r" and "r < length (rs_heap s)"
    and "re_request_id (entry_at s r) = i" and "re_state (entry_at s r) = VALIDATED"
    and "admission_evaluate af (entry_at s r) = Inr x" and "ar_outcome x = ACCEPT"
  shows "\<exists>t. run_admission af ck i s = (Inr r, t) \<and> moves_entry i r ADMITTED s t"
  using transition_moves [OF assms(1-3), of ADMITTED ck] assms
  by (auto simp: run_admission_def op_basic registry_get_def is_allowed_transition_def)

lemma enqueue_outcome:
  fixes ck :: clock
  assumes "dict_get (rs_entries s) i = Some r" and "r < length (rs_heap s)"
    and "re_request_id (entry_at s r) = i" and "re_state (entry_at s r) = ADMITTED"
    and "\<not> queue_contains i s"
  defines "q \<equiv> fifo_expire (fst ck) (qs_config s) (abs_queue s)"
  shows "\<exists>t. enqueue_from_admitted (fst ck) ck i s = (Inr r, t) \<and>
     (if int (length q) < qc_max_queue_size (qs_config s)
      then re_state (entry_at t r) = QUEUED \<and> abs_queue t = q @ [(i, fst ck)] \<and>
           re_queue_position (entry_at t r) = Some (length q + 1)
      else re_state (entry_at t r) = REJECTED \<and> abs_queue t = q \<and>
           re_failure_reason (entry_at t r) = Some QUEUE_FULL)"
proof -
  let ?s1 = "snd (expire_timeouts (fst ck) s)"
  let ?s2 = "snd (enqueue (fst ck) (fst ck) r s)"
  have q: "abs_queue ?s1 = q" and len: "length (qs_items ?s1) = length q"
    by (simp_all add: q_def abs_expire flip: length_abs)
  have absent: "\<not> queue_contains i ?s1"
    using assms(5) by (auto simp: queue_contains_abs q q_def fifo_expire_def)
  note enq = enqueue_state [OF assms(2), of "fst ck" "fst ck"]
  have r2: "dict_get (rs_entries ?s2) i = Some r" "r < length (rs_heap ?s2)"
    using assms enq by auto
  from assms(1,2,4) show ?thesis
  proof (cases rule: enqueue_from_admitted_cases [of s i r "fst ck" ck])
    case (duplicate m)
    with absent assms(3) show ?thesis
      by (auto simp: enqueue_run Let_def append_queued_def split: if_splits)
  next
    case (full reason ms)
    then have "?s2 = ?s1" and room: "\<not> int (length q) < qc_max_queue_size (qs_config s)"
      using absent assms(3) len by (auto simp: enqueue_run Let_def append_queued_def split: if_splits)
    obtain obs where "reject_full ck i r reason ?s2 = (Inr r, (modify_entry r
          (\<lambda>e. (apply_to_request (admission_failure reason QUEUE_FULL True) e)
             \<lparr>re_state := REJECTED, re_updated_at := fst ck\<rparr>) ?s2)\<lparr>em_observers := obs\<rparr>)"
      using reject_full_run [OF r2] by blast
    with full(2) room r2(2) \<open>?s2 = ?s1\<close> q show ?thesis
      by (auto simp: apply_to_request_def admission_failure_def mk_classified_def)
  next
    case (queued qd)
    then have s2: "?s2 = snd (append_queued (fst ck) r ?s1)"
      and room: "int (length q) < qc_max_queue_size (qs_config s)"
      using absent assms(3) len by (auto simp: enqueue_run Let_def split: if_splits)
    obtain obs where run: "after_enqueue ck i r qd ?s2 = (Inr r, (modify_entry r
          (\<lambda>e. e\<lparr>re_state := QUEUED, re_updated_at := fst ck\<rparr>) ?s2)\<lparr>em_observers := obs\<rparr>)"
      using after_enqueue_run [OF r2] by blast
    have "abs_queue ?s2 = q @ [(i, fst ck)]"
      using assms(3) by (simp add: s2 abs_append q)
    moreover have "re_queue_position (entry_at ?s2 r) = Some (length q + 1)"
      using assms(2) by (simp add: s2 append_queued_def Let_def len)
    ultimately show ?thesis
      using queued(2) run room r2(2) by (auto simp: entry_modify_if)
  qed
qed

lemma submit_outcome:
  fixes ck sweep :: clock
  assumes wf: "wf_cp s" "queue_registered s"
    and fresh: "dict_get (rs_entries s) (submit_id submit) = None"
      "int (length (rs_entries s)) < rs_max_entries s"
    and accepted: "\<And>e. \<exists>x. admission_evaluate af e = Inr x \<and> ar_outcome x = ACCEPT"
  defines "q \<equiv> fifo_expire (fst ck) (qs_config s) (fifo_expire (fst sweep) (qs_config s) (abs_queue s))"
    and "r \<equiv> length (rs_heap s)"
  shows "\<exists>t. process_through_queued af sweep ck submit s = (Inr r, t) \<and>
     (if int (length q) < qc_max_queue_size (qs_config s)
      then re_state (entry_at t r) = QUEUED \<and> abs_queue t = q @ [(submit_id submit, fst ck)] \<and>
           re_queue_position (entry_at t r) = Some (length q + 1)
      else re_state (entry_at t r) = REJECTED \<and> abs_queue t = q \<and>
           re_failure_reason (entry_at t r) = Some QUEUE_FULL)"
proof -
  let ?i = "submit_id submit"
  obtain s1 where s1: "process_timeouts sweep s =
      (Inr (map q_entry (filter (expired (fst sweep) (qs_config s)) (qs_items s))), s1)"
    "rs_entries s1 = rs_entries s" "length (rs_heap s1) = r" "qs_config s1 = qs_config s"
    "abs_queue s1 = fifo_expire (fst sweep) (qs_config s) (abs_queue s)"
    using process_timeouts_run [of s sweep] wf by (auto simp: wf_cp_def r_def)
  have max1: "rs_max_entries s1 = rs_max_entries s"
    using within_relD [OF same_capacity_timeouts, of s sweep] s1(1) by (simp add: same_capacity_def)
  obtain obs where reg: "register ck submit RECEIVED s1 = (Inr r,
      s1\<lparr>rs_heap := rs_heap s1 @ [new_registered_request (fst ck) submit RECEIVED],
        rs_entries := dict_set ?i r (rs_entries s1), em_observers := obs\<rparr>)" (is "_ = (_, ?s2)")
    using register_run [of s1 ck submit] s1 max1 fresh(2) by auto
  have at2: "dict_get (rs_entries ?s2) ?i = Some r" "r < length (rs_heap ?s2)"
    "re_request_id (entry_at ?s2 r) = ?i" "re_state (entry_at ?s2 r) = RECEIVED"
    using s1(3)
    by (simp_all add: entry_at_def new_registered_request_def re_request_id_def submit_id_def nth_append)
  then obtain s3 where s3: "transition ck ?i VALIDATED None None ?s2 = (Inr r, s3)"
    "moves_entry ?i r VALIDATED ?s2 s3"
    using transition_moves [of ?s2 ?i r VALIDATED ck] by (auto simp: is_allowed_transition_def)
  then have at3: "dict_get (rs_entries s3) ?i = Some r" "r < length (rs_heap s3)"
    "re_request_id (entry_at s3 r) = ?i" "re_state (entry_at s3 r) = VALIDATED"
    using at2 by (simp_all add: moves_entry_def quiet_def)
  obtain x where "admission_evaluate af (entry_at s3 r) = Inr x" "ar_outcome x = ACCEPT"
    using accepted by blast
  then obtain s4 where s4: "run_admission af ck ?i s3 = (Inr r, s4)" "moves_entry ?i r ADMITTED s3 s4"
    using run_admission_moves [OF at3] by blast
  then have at4: "dict_get (rs_entries s4) ?i = Some r" "r < length (rs_heap s4)"
    "re_request_id (entry_at s4 r) = ?i" "re_state (entry_at s4 r) = ADMITTED"
    using at3 by (simp_all add: moves_entry_def quiet_def)
  have same: "qs_items s4 = qs_items s1" "qs_config s4 = qs_config s"
    using s3(2) s4(2) s1(4) by (simp_all add: moves_entry_def quiet_def)
  then have q4: "abs_queue s4 = fifo_expire (fst sweep) (qs_config s) (abs_queue s)"
    using s1(5) by (simp add: abs_queue_def)
  have "?i \<notin> fst ` set (abs_queue s)"
    using wf fresh(1)
    by (force simp: queue_registered_def abs_queue_def list_all_iff)
  then have "\<not> queue_contains ?i s4"
    by (auto simp: queue_contains_abs q4 fifo_expire_def)
  note out = enqueue_outcome [OF at4 this, of ck, unfolded same(2) q4, folded q_def]
  have "through_body af sweep ck submit s = enqueue_from_admitted (fst ck) ck ?i s4"
    using s1(1) reg s3(1) s4(1) at4(4)
    by (simp add: through_body_def Let_def bind_op_def gets_op_def flip: submit_id_def)
  with out show ?thesis
    by (auto simp: process_through_queued_def catch_op_def)
qed

section \<open>Reachable states\<close>

text \<open>\<open>create_application\<close>: an empty registry and queue with the configured sizes.\<close>

definition new_control_plane ::
  "int \<Rightarrow> queue_capacity_config \<Rightarrow> observers \<Rightarrow> cp_exn + queue_state" where
  "new_control_plane max_entries c obs =
     (case validate_capacity c of
        Inl x \<Rightarrow> Inl x
      | Inr _ \<Rightarrow> Inr \<lparr>rs_heap = [], rs_entries = [], rs_max_entries = max_entries,
                     em_observers = obs, qs_items = [], qs_config = c\<rparr>)"

inductive cp_step :: "queue_state \<Rightarrow> queue_state \<Rightarrow> bool" where
  submitted: "cp_step s (snd (process_through_queued af sweep ck submit s))"
| moved: "cp_step s (snd (transition ck i st b k s))"
| failed: "cp_step s (snd (mark_failed ck i reason m b k s))"
| completed: "cp_step s (snd (complete_request ck i c s))"
| swept: "cp_step s (snd (process_timeouts ck s))"
| dequeued: "cp_step s (snd (dequeue_next ck s))"
| removed: "cp_step s (snd (service_remove ck i s))"
| viewed: "cp_step s (snd (get_queue_snapshot now n s))"

inductive_cases cp_stepE: "cp_step s t"

lemma new_control_plane_wf: "new_control_plane m c obs = Inr s \<Longrightarrow> wf_cp s"
  by (auto simp: new_control_plane_def wf_cp_def wf_registry_def within_capacity_def
      wf_queue_def pre_queue_def split: sum.splits)

lemma cp_step_evolves: "cp_step s t \<Longrightarrow> evolves s t"
  by (induction rule: cp_step.induct) (rule within_relD, rule evolve_intros)+

lemma cp_run_evolves: "cp_step\<^sup>*\<^sup>* s t \<Longrightarrow> evolves s t"
  by (induction rule: rtranclp.induct) (auto intro: evolve.R_refl evolve.R_trans cp_step_evolves)

lemma cp_run_wf: "new_control_plane m c obs = Inr s \<Longrightarrow> cp_step\<^sup>*\<^sup>* s t \<Longrightarrow> wf_cp t"
  using cp_run_evolves new_control_plane_wf by (auto simp: evolves_def)

section \<open>What the observers see\<close>

text \<open>
  Across every operation the traces grow (events, failures and first timestamps are never
  taken back) and the balance of the gauge of active requests is unchanged.
\<close>

definition observed :: "'x queue_state_scheme \<Rightarrow> 'x queue_state_scheme \<Rightarrow> bool" where
  "observed s t \<longleftrightarrow>
     observers_extend (em_observers s) (em_observers t) \<and>
     observer_balance (em_observers t) = observer_balance (em_observers s)"

lemma observers_extend_refl [simp]: "observers_extend x x"
  by (simp add: observers_extend_def split: option.split)

lemma observers_extend_trans:
  "observers_extend x y \<Longrightarrow> observers_extend y z \<Longrightarrow> observers_extend x z"
  by (auto simp: observers_extend_def intro: store_extends_trans split: option.splits)

interpretation observe: step_relation observed
  by unfold_locales (auto simp: observed_def intro: observers_extend_trans)

named_theorems observe_intros \<open>operations that only add to what the observers hold\<close>

lemma observed_same:
  "(\<And>s. em_observers (snd (m s)) = em_observers s) \<Longrightarrow> within_rel observed m"
  by (rule within_relI) (simp add: observed_def)

lemma observed_modify [observe_intros]: "within_rel observed (modify_op (modify_entry r f))"
  by (rule observed_same) (simp add: modify_op_def)

lemma observed_get [observe_intros]: "within_rel observed (registry_get i)"
  by (rule observed_same) (simp add: registry_get_def split: option.split)

lemma observed_expire [observe_intros]: "within_rel observed (expire_timeouts now)"
  by (rule observed_same) simp

lemma observed_enqueue: "em_observers (snd (enqueue sweep now r s)) = em_observers s"
  by (simp add: enqueue_run Let_def append_queued_def)

lemma observed_dequeue [observe_intros]: "within_rel observed (dequeue now)"
  by (rule observed_same) (auto simp: dequeue_def expire_run split: list.split)

lemma observed_remove [observe_intros]: "within_rel observed (queue_remove i)"
  by (rule observed_same) (auto simp: queue_remove_def split: list.split)

lemma observed_emit [observe_intros]: "within_rel observed (emit_op ck ev i a)"
proof (rule within_relI)
  fix s :: "'x queue_state_scheme"
  have "observer_balance (emit ck ev i a (em_observers s)) = observer_balance (em_observers s)"
    by (cases "ob_metrics (em_observers s)")
      (simp_all add: observer_balance_def emit_def on_metrics_def on_trace_def
        metrics_event_balance)
  then show "observed s (snd (emit_op ck ev i a s))"
    by (simp add: observed_def emit_op_def modify_op_def emit_extends)
qed

lemma observed_emit_queue [observe_intros]: "within_rel observed (emit_queue_op ck ev i c p x)"
proof (rule within_relI)
  fix s :: "'x queue_state_scheme"
  have "observer_balance (emit_queue ck ev i c p x (em_observers s)) = observer_balance (em_observers s)"
    by (cases "ob_metrics (em_observers s)")
      (simp_all add: observer_balance_def emit_queue_def on_metrics_def on_trace_def
        queue_metrics_balance)
  then show "observed s (snd (emit_queue_op ck ev i c p x s))"
    by (simp add: observed_def emit_queue_op_def modify_op_def emit_queue_extends)
qed

lemma observed_depth [observe_intros]: "within_rel observed set_depth_op"
proof (rule within_relI)
  fix s :: "'x queue_state_scheme"
  have "active_balance (set_queue_depth n m) = active_balance m" for n m
    by (rule active_balance_step) (rule set_queue_depth_step)
  then show "observed s (snd (set_depth_op s))"
    by (auto simp: observed_def set_depth_run observers_extend_def observer_balance_def
        on_metrics_def option.map_comp comp_def split: option.split)
qed

lemma observed_update [observe_intros]: "within_rel observed (update_state now i st)"
  unfolding update_state_def by (intro observe.within_intros observe_intros)

lemma observed_emit_state [observe_intros]: "within_rel observed (emit_state_event ck r ev x)"
  unfolding emit_state_event_def by (intro observe.within_intros observe_intros)

lemma observed_transition [observe_intros]: "within_rel observed (transition ck i st b k)"
  unfolding transition_def assign_ids_def emit_for_transition_def
  by (intro observe.within_intros observe_intros)

lemma observed_mark_failed [observe_intros]: "within_rel observed (mark_failed ck i reason m b k)"
  unfolding mark_failed_def assign_ids_def Let_def
  by (intro observe.within_intros observe_intros)

lemma observed_complete [observe_intros]: "within_rel observed (complete_request ck i c)"
  unfolding complete_request_def by (intro observe.within_intros observe_intros)

lemma observed_timeouts [observe_intros]: "within_rel observed (process_timeouts ck)"
  unfolding process_timeouts_def time_out_item_def
  by (intro observe.within_intros observe_intros)

lemma observed_dequeue_next [observe_intros]: "within_rel observed (dequeue_next ck)"
  unfolding dequeue_next_def by (intro observe.within_intros observe_intros)

lemma observed_service_remove [observe_intros]: "within_rel observed (service_remove ck i)"
  unfolding service_remove_def by (intro observe.within_intros observe_intros)

lemma observed_snapshot [observe_intros]: "within_rel observed (get_queue_snapshot now n)"
  unfolding get_queue_snapshot_def list_items_def Let_def
  by (intro observe.within_intros observe_intros)

lemma observed_run_admission [observe_intros]: "within_rel observed (run_admission af ck i)"
  unfolding run_admission_def reject_admission_def Let_def
  by (intro observe.within_intros observe_intros)

lemma observed_alloc: "within_rel observed (alloc_entry e)"
  by (rule observed_same) (simp add: alloc_entry_def)

lemma observed_registry: "within_rel observed (registry_register r)"
  by (rule observed_same) (simp add: registry_register_def)

lemma observed_register [observe_intros]: "within_rel observed (register ck submit st)"
  unfolding register_def
  by (intro observe.within_intros observe_intros observed_alloc observed_registry)

lemma observed_reject [observe_intros]: "within_rel observed (reject_full ck i r reason)"
  unfolding reject_full_def by (intro observe.within_intros observe_intros)

lemma observed_after [observe_intros]: "within_rel observed (after_enqueue ck i r q)"
  unfolding after_enqueue_def by (intro observe.within_intros observe_intros)

lemma observed_enqueue_from_admitted [observe_intros]:
  "within_rel observed (enqueue_from_admitted sweep ck i)"
proof (rule within_relI)
  fix s :: "'x queue_state_scheme"
  show "observed s (snd (enqueue_from_admitted sweep ck i s))"
  proof (cases "dict_get (rs_entries s) i")
    case None
    then show ?thesis
      by (simp add: enqueue_from_admitted_def bind_op_def registry_get_def observe.R_refl)
  next
    case (Some r)
    obtain x s1 where e: "enqueue sweep (fst ck) r s = (x, s1)" by force
    then have s1: "observed s s1"
      using observed_enqueue [of sweep "fst ck" r s] by (simp add: observed_def)
    have "observed s1 (snd (reject_full ck i r reason s1))" for reason
      by (rule within_relD [OF observed_reject])
    moreover have "observed s1 (snd (after_enqueue ck i r q s1))" for q
      by (rule within_relD [OF observed_after])
    ultimately show ?thesis
      using Some e s1 observe.R_trans [OF s1] observe.R_refl [of s]
      by (auto simp: enqueue_from_admitted_def bind_op_def registry_get_def
          split: sum.split cp_exn.split)
  qed
qed

lemma observed_process [observe_intros]:
  "within_rel observed (process_through_queued af sweep ck submit)"
  unfolding process_through_queued_def through_body_def Let_def
  by (intro observe.within_intros observe_intros)

lemma cp_step_observed: "cp_step s t \<Longrightarrow> observed s t"
  by (induction rule: cp_step.induct) (rule within_relD, rule observe_intros)+

lemma cp_run_observed: "cp_step\<^sup>*\<^sup>* s t \<Longrightarrow> observed s t"
  by (induction rule: rtranclp.induct) (auto intro: observe.R_refl observe.R_trans cp_step_observed)

end
