(* ===== verification/Control_Plane_Properties.thy ===== *)
theory Control_Plane_Properties
  imports Control_Plane
begin

text \<open>
  The properties of the control plane, each with a concrete instance: the invariant of its
  reachable states, how a request may change state, what each operation of the lifecycle
  manager does, the queue as a FIFO with expiry, and what the observers see.
\<close>

section \<open>Concrete instances\<close>

definition sample_request :: "uuid \<Rightarrow> inference_request" where
  "sample_request i =
     \<lparr>ir_request_id = i, ir_model = ''demo'',
      ir_messages = [\<lparr>m_role = ROLE_USER, m_content = ''hi''\<rparr>], ir_stream = False,
      ir_max_tokens = 16, ir_temperature = None, ir_top_p = None, ir_priority_class = None,
      ir_api_key_id = None, ir_client_request_id = None\<rparr>"

definition sample_submit :: "uuid \<Rightarrow> submit_request" where
  "sample_submit i =
     \<lparr>sr_inference_request = sample_request i,
      sr_request_context =
        \<lparr>rc_request_id = i, rc_trace_id = ''trace'', rc_span_id = ''span'', rc_arrival_time = 0,
         rc_model = ''demo'', rc_stream = False, rc_gateway_instance_id = ''gateway''\<rparr>\<rparr>"

definition sample_config :: queue_capacity_config where
  "sample_config = \<lparr>qc_max_queue_size = 2, qc_queue_timeout_ms = 100\<rparr>"

definition sample_cp :: queue_state where
  "sample_cp =
     \<lparr>rs_heap = [], rs_entries = [], rs_max_entries = 10,
      em_observers = \<lparr>ob_trace = Some [], ob_metrics = Some empty_metrics\<rparr>,
      qs_items = [], qs_config = sample_config\<rparr>"

definition sample_queued :: queue_state where
  "sample_queued =
     \<lparr>rs_heap = [(new_registered_request 0 (sample_submit ''a'') QUEUED)
                   \<lparr>re_queue_entered_at := Some 0, re_queue_position := Some 1\<rparr>],
      rs_entries = [(''a'', 0)], rs_max_entries = 10,
      em_observers = \<lparr>ob_trace = Some [], ob_metrics = Some empty_metrics\<rparr>,
      qs_items = [\<lparr>q_request_id = ''a'', q_entry = 0, q_entered_at = 0, q_position = 1,
                   q_queue_name = ''demo/default'', q_priority_class = PC_DEFAULT\<rparr>],
      qs_config = sample_config\<rparr>"

definition sample_item :: queued_request where
  "sample_item = \<lparr>q_request_id = ''a'', q_entry = 0, q_entered_at = 0, q_position = 1,
     q_queue_name = ''demo/default'', q_priority_class = PC_DEFAULT\<rparr>"

lemmas sample_defs = sample_cp_def sample_queued_def sample_config_def sample_submit_def
  sample_request_def sample_item_def new_registered_request_def

lemma sample_cp_new: "new_control_plane 10 sample_config (em_observers sample_cp) = Inr sample_cp"
  by (simp add: new_control_plane_def validate_capacity_def sample_defs)

lemma sample_queued_wf: "wf_cp sample_queued" "queue_registered sample_queued"
  by (simp_all add: wf_cp_def wf_registry_def wf_dict_def within_capacity_def wf_queue_def
      pre_queue_def linked_item_def entry_knows_position_def queue_registered_def sample_defs
      re_request_id_def)

lemma cp_step_run: "cp_step s t \<Longrightarrow> cp_step\<^sup>*\<^sup>* s t"
  by (rule r_into_rtranclp)

lemma no_checks_accept: "admission_evaluate no_checks e = Inr accept_result"
  by (simp add: admission_evaluate_def all_checks_def no_checks_def)

section \<open>Reachable states\<close>

text \<open>C14: Whatever sequence of operations the control plane runs from its start, the registry
  holds at most its capacity under distinct request ids, each naming an entry of that request;
  the waiting queue holds distinct requests, at most its capacity, at positions 1, 2, ..., and
  every queued entry carries its item's position.\<close>

theorem cp_reachable_ok:
  assumes "new_control_plane m c obs = Inr s0" and "cp_step\<^sup>*\<^sup>* s0 s"
  shows "distinct (dict_keys (rs_entries s)) \<and>
    int (length (rs_entries s)) \<le> max 0 (rs_max_entries s) \<and>
    (\<forall>(i, r) \<in> set (rs_entries s). r < length (rs_heap s) \<and> re_request_id (entry_at s r) = i) \<and>
    distinct (map q_request_id (qs_items s)) \<and>
    map q_position (qs_items s) = [1..<Suc (length (qs_items s))] \<and>
    int (length (qs_items s)) \<le> max 0 (qc_max_queue_size (qs_config s)) \<and>
    (\<forall>it \<in> set (qs_items s). re_request_id (entry_at s (q_entry it)) = q_request_id it \<and>
       re_queue_position (entry_at s (q_entry it)) = Some (q_position it))"
  using cp_run_wf [OF assms]
  by (simp add: wf_cp_def wf_registry_def wf_dict_def within_capacity_def wf_queue_def
      pre_queue_def list_all_iff linked_item_def entry_knows_position_def entry_at_def
      del: upt_Suc)

theorem cp_reachable_ok_witness:
  "distinct (dict_keys (rs_entries (snd (process_timeouts (0, 0) sample_cp))))"
  using cp_reachable_ok [OF sample_cp_new cp_step_run [OF swept [of sample_cp "(0, 0)"]]] by blast

text \<open>C16: Over any sequence of operations, a registered request keeps its submitted body, and its
  state changes only along the allowed transitions, unless it is forced to FAILED or TIMED_OUT:
  the two writes of the control plane that do not ask the transition table.\<close>

theorem cp_state_changes:
  assumes "new_control_plane m c obs = Inr s0" and "cp_step\<^sup>*\<^sup>* s0 s" and "cp_step\<^sup>*\<^sup>* s t"
    and "k < length (rs_heap s)"
  shows "k < length (rs_heap t) \<and> re_submit (entry_at t k) = re_submit (entry_at s k) \<and>
    (is_allowed_transition\<^sup>*\<^sup>* (re_state (entry_at s k)) (re_state (entry_at t k)) \<or>
     re_state (entry_at t k) = FAILED \<or> re_state (entry_at t k) = TIMED_OUT)"
  using cp_run_evolves [OF assms(3)] cp_run_wf [OF assms(1,2)] assms(4)
  by (auto simp: evolves_def legal_or_forced_def)

definition sample_ck :: clock where
  "sample_ck = (0, 0)"

definition sample_one :: queue_state where
  "sample_one = snd (process_through_queued no_checks sample_ck sample_ck (sample_submit ''a'') sample_cp)"

lemma sample_outcome:
  "\<exists>t. process_through_queued no_checks sample_ck sample_ck (sample_submit ''a'') sample_cp = (Inr 0, t) \<and>
     re_state (entry_at t 0) = QUEUED \<and> abs_queue t = [(''a'', 0)]"
proof -
  have "wf_cp sample_cp" by (rule new_control_plane_wf [OF sample_cp_new])
  moreover have "queue_registered sample_cp"
    "dict_get (rs_entries sample_cp) (submit_id (sample_submit ''a'')) = None"
    "int (length (rs_entries sample_cp)) < rs_max_entries sample_cp"
    by (simp_all add: queue_registered_def sample_defs)
  ultimately show ?thesis
    using submit_outcome [of sample_cp "sample_submit ''a''" no_checks sample_ck sample_ck]
    by (auto simp: no_checks_accept sample_defs sample_ck_def abs_queue_def fifo_expire_def
        submit_id_def)
qed

lemma sample_one_heap: "0 < length (rs_heap sample_one)"
proof (rule ccontr)
  assume "\<not> 0 < length (rs_heap sample_one)"
  then have empty: "rs_heap sample_one = []" by simp
  have "wf_cp sample_one"
    unfolding sample_one_def
    by (rule preservesD [OF wf_cp_process]) (rule new_control_plane_wf [OF sample_cp_new])
  moreover have "qs_items sample_one \<noteq> []"
    using sample_outcome by (auto simp: sample_one_def abs_queue_def)
  ultimately show False
    using empty
    by (cases "qs_items sample_one")
      (auto simp: wf_cp_def wf_queue_def pre_queue_def linked_item_def)
qed

lemma sample_one_run: "cp_step\<^sup>*\<^sup>* sample_cp sample_one"
  unfolding sample_one_def by (rule cp_step_run [OF submitted])

theorem cp_state_changes_witness:
  "is_allowed_transition\<^sup>*\<^sup>* (re_state (entry_at sample_one 0))
     (re_state (entry_at (snd (process_timeouts sample_ck sample_one)) 0)) \<or>
   re_state (entry_at (snd (process_timeouts sample_ck sample_one)) 0) = FAILED \<or>
   re_state (entry_at (snd (process_timeouts sample_ck sample_one)) 0) = TIMED_OUT"
  using cp_state_changes [OF sample_cp_new sample_one_run
      cp_step_run [OF swept [of sample_one sample_ck]] sample_one_heap] by blast

text \<open>C37: The request state machine terminates: no run of allowed transitions has more than nine
  steps (and one has nine), none returns to a state it left, and a state without an allowed
  transition is exactly a terminal one.\<close>

theorem lifecycle_terminates:
  "(\<forall>n a b. (is_allowed_transition ^^ n) a b \<longrightarrow> n \<le> 9) \<and>
   (is_allowed_transition ^^ 9) RECEIVED COMPLETED \<and>
   (\<forall>a. \<not> is_allowed_transition\<^sup>+\<^sup>+ a a) \<and>
   (\<forall>a. is_terminal_request_state a \<longleftrightarrow> (\<forall>b. \<not> is_allowed_transition a b))"
proof (intro conjI allI)
  show "(is_allowed_transition ^^ n) a b \<longrightarrow> n \<le> 9" for n a b
    using request_machine.run_length by blast
  show "\<not> is_allowed_transition\<^sup>+\<^sup>+ a a" for a by (rule request_machine.no_cycle)
  show "is_terminal_request_state a \<longleftrightarrow> (\<forall>b. \<not> is_allowed_transition a b)" for a
    using open_has_transition terminal_no_transition by blast
  have step: "is_allowed_transition a b \<Longrightarrow> (is_allowed_transition ^^ n) b c \<Longrightarrow>
      (is_allowed_transition ^^ Suc n) a c" for a b c n
    by (rule relpowp_Suc_I2)
  have "(is_allowed_transition ^^ Suc (Suc (Suc (Suc (Suc (Suc (Suc (Suc (Suc 0))))))))) RECEIVED COMPLETED"
    by (rule step [of _ VALIDATED], simp add: is_allowed_transition_def,
        rule step [of _ ADMITTED], simp add: is_allowed_transition_def,
        rule step [of _ QUEUED], simp add: is_allowed_transition_def,
        rule step [of _ SCHEDULED], simp add: is_allowed_transition_def,
        rule step [of _ BATCHED], simp add: is_allowed_transition_def,
        rule step [of _ SUBMITTED], simp add: is_allowed_transition_def,
        rule step [of _ DECODING], simp add: is_allowed_transition_def,
        rule step [of _ STREAMING], simp add: is_allowed_transition_def,
        rule step [of _ COMPLETED], simp add: is_allowed_transition_def) simp
  then show "(is_allowed_transition ^^ 9) RECEIVED COMPLETED" by (simp only: numeral_eq_Suc BitM.simps pred_numeral_simps numeral_One One_nat_def)
qed

theorem lifecycle_terminates_witness:
  "(1 :: nat) \<le> 9 \<and> is_allowed_transition RECEIVED VALIDATED"
proof -
  have "is_allowed_transition RECEIVED VALIDATED" by (simp add: is_allowed_transition_def)
  moreover from this have "(is_allowed_transition ^^ 1) RECEIVED VALIDATED"
    by (simp only: relpowp_1)
  with lifecycle_terminates have "(1 :: nat) \<le> 9" by blast
  ultimately show ?thesis by simp
qed

section \<open>The operations of the lifecycle manager\<close>

text \<open>C11: A new request that admission accepts ends QUEUED at the tail of the queue that the sweeps
  leave, at the position that follows the others, when the queue has room, and otherwise
  REJECTED for QUEUE_FULL with the queue unchanged; in both cases the operation returns its
  entry.\<close>

theorem new_request_outcome:
  fixes ck sweep :: clock
  assumes "wf_cp s" and "queue_registered s"
    and "dict_get (rs_entries s) (submit_id submit) = None"
    and "int (length (rs_entries s)) < rs_max_entries s"
    and "\<And>e. \<exists>x. admission_evaluate af e = Inr x \<and> ar_outcome x = ACCEPT"
  defines "q \<equiv> fifo_expire (fst ck) (qs_config s) (fifo_expire (fst sweep) (qs_config s) (abs_queue s))"
    and "r \<equiv> length (rs_heap s)"
  shows "\<exists>t. process_through_queued af sweep ck submit s = (Inr r, t) \<and>
     (if int (length q) < qc_max_queue_size (qs_config s)
      then re_state (entry_at t r) = QUEUED \<and> abs_queue t = q @ [(submit_id submit, fst ck)] \<and>
           re_queue_position (entry_at t r) = Some (length q + 1)
      else re_state (entry_at t r) = REJECTED \<and> abs_queue t = q \<and>
           re_failure_reason (entry_at t r) = Some QUEUE_FULL)"
  unfolding q_def r_def by (rule submit_outcome [OF assms(1-5)])

theorem new_request_outcome_witness:
  "\<exists>t. process_through_queued no_checks (50, 0) (60, 0) (sample_submit ''b'') sample_queued = (Inr 1, t) \<and>
     re_state (entry_at t 1) = QUEUED \<and> abs_queue t = [(''a'', 0), (''b'', 60)] \<and>
     re_queue_position (entry_at t 1) = Some 2"
proof -
  have "dict_get (rs_entries sample_queued) (submit_id (sample_submit ''b'')) = None"
    "int (length (rs_entries sample_queued)) < rs_max_entries sample_queued"
    by (simp_all add: sample_defs submit_id_def)
  moreover have "abs_queue sample_queued = [(''a'', 0)]" "length (rs_heap sample_queued) = 1"
    "qs_config sample_queued = sample_config" "submit_id (sample_submit ''b'') = ''b''"
    by (simp_all add: abs_queue_def sample_defs submit_id_def)
  moreover have "fifo_expire 60 sample_config (fifo_expire 50 sample_config [(''a'', 0)]) = [(''a'', 0)]"
    "qc_max_queue_size sample_config = 2"
    by (simp_all add: fifo_expire_def fifo_late_def elapsed_ms_def sample_config_def)
  ultimately show ?thesis
    using new_request_outcome [OF sample_queued_wf, of "sample_submit ''b''" no_checks "(50, 0)" "(60, 0)"]
    by (simp add: no_checks_accept numeral_2_eq_2)
qed

text \<open>C27: A transition on a registered request: the batch and backend ids that the caller passes are
  written first; then an allowed transition sets the state and returns the entry, and any other
  one raises InvalidTransitionError and leaves the state, but not the ids, as it was. No other
  entry changes.\<close>

theorem transition_outcome:
  assumes "dict_get (rs_entries s) i = Some r" and "r < length (rs_heap s)"
  shows "fst (transition ck i st b k s) =
      (if is_allowed_transition (re_state (entry_at s r)) st then Inr r
       else Inl (InvalidTransitionError i (re_state (entry_at s r)) st)) \<and>
    re_state (entry_at (snd (transition ck i st b k s)) r) =
      (if is_allowed_transition (re_state (entry_at s r)) st then st else re_state (entry_at s r)) \<and>
    re_batch_id (entry_at (snd (transition ck i st b k s)) r) =
      (if b = None then re_batch_id (entry_at s r) else b) \<and>
    re_backend_id (entry_at (snd (transition ck i st b k s)) r) =
      (if k = None then re_backend_id (entry_at s r) else k) \<and>
    (\<forall>j. j \<noteq> r \<longrightarrow> entry_at (snd (transition ck i st b k s)) j = entry_at s j)"
  using transition_run [OF assms, of ck st b k] assms(2)
  by (cases b; cases k) (auto simp: entry_modify_if with_ids_def Let_def)

theorem transition_outcome_witness:
  "fst (transition (5, 0) ''a'' DECODING (Some ''batch'') None sample_queued) =
      Inl (InvalidTransitionError ''a'' QUEUED DECODING) \<and>
   re_batch_id (entry_at (snd (transition (5, 0) ''a'' DECODING (Some ''batch'') None sample_queued)) 0)
      = Some ''batch''"
proof -
  have "dict_get (rs_entries sample_queued) ''a'' = Some 0" "0 < length (rs_heap sample_queued)"
    "re_state (entry_at sample_queued 0) = QUEUED"
    by (simp_all add: sample_defs entry_at_def)
  with transition_outcome [of sample_queued "''a''" 0 "(5, 0)" DECODING "Some ''batch''" None]
  show ?thesis by (simp add: is_allowed_transition_def)
qed

text \<open>\<open>mark_failed\<close> makes a registered request FAILED with the given reason and message whatever its
  state was: a COMPLETED, CANCELLED, REJECTED or TIMED_OUT request too, although the state
  machine allows no transition out of those.\<close>

theorem mark_failed_overrides:
  assumes "dict_get (rs_entries s) i = Some r" and "r < length (rs_heap s)"
  shows "\<exists>t. mark_failed ck i reason msg b k s = (Inr r, t) \<and>
    re_state (entry_at t r) = FAILED \<and> re_failure_reason (entry_at t r) = Some reason \<and>
    re_failure_message (entry_at t r) = Some msg \<and>
    (\<forall>j. j \<noteq> r \<longrightarrow> entry_at t j = entry_at s j)"
  using mark_failed_run [OF assms, of ck reason msg b k] assms(2)
  by (auto simp: entry_modify_if)

definition sample_completed :: queue_state where
  "sample_completed = modify_entry 0 (re_state_update (\<lambda>_. COMPLETED)) sample_queued"

theorem mark_failed_overrides_witness:
  "re_state (entry_at sample_completed 0) = COMPLETED \<and>
   (\<exists>t. mark_failed (9, 0) ''a'' WORKER_ERROR ''late'' None None sample_completed = (Inr 0, t) \<and>
     re_state (entry_at t 0) = FAILED)"
proof -
  have "dict_get (rs_entries sample_completed) ''a'' = Some 0" "0 < length (rs_heap sample_completed)"
    "re_state (entry_at sample_completed 0) = COMPLETED"
    by (simp_all add: sample_completed_def sample_defs entry_at_def modify_entry_def)
  with mark_failed_overrides [of sample_completed "''a''" 0 "(9, 0)" WORKER_ERROR "''late''" None None]
  show ?thesis by auto
qed

text \<open>Admission answers with the first check, in the order evaluators, queue checks, time-out checks,
  policies, that does not accept (or raises), and accepts when every check does; objects with
  neither method are passed over.\<close>

theorem admission_first_answer:
  "admission_evaluate af e =
     (case dropWhile (accepts e)
        (af_evaluators af @ af_queue_checks af @ af_timeout_checks af @ af_policy_evaluators af) of
        [] \<Rightarrow> Inr accept_result
      | c # _ \<Rightarrow> check_answer c e)"
  by (simp add: admission_first all_checks_def)

section \<open>The waiting queue\<close>

text \<open>C9: The waiting queue is a FIFO with expiry: enqueue sweeps, refuses a request that is already
  queued and a full queue, and otherwise appends at the tail and returns the place; dequeue
  sweeps and takes the head; remove takes the one item of that request and keeps the order of
  the others.\<close>

theorem queue_is_fifo:
  assumes "wf_queue s"
  shows "fifo_enqueue sweep now (qs_config s) (re_request_id (entry_at s r)) (abs_queue s) =
      (map_sum id q_position (fst (enqueue sweep now r s)), abs_queue (snd (enqueue sweep now r s))) \<and>
    fifo_dequeue now (qs_config s) (abs_queue s) =
      (case dequeue now s of
         (Inr x, s') \<Rightarrow> (map_option q_request_id x, abs_queue s')
       | (Inl e, s') \<Rightarrow> (None, abs_queue s')) \<and>
    fifo_remove i (abs_queue s) =
      (case queue_remove i s of
         (Inr x, s') \<Rightarrow> (map_option q_request_id x, abs_queue s')
       | (Inl e, s') \<Rightarrow> (None, abs_queue s'))"
  using enqueue_refines dequeue_refines remove_refines [OF assms] by blast

theorem queue_is_fifo_witness:
  "fst (fifo_dequeue 50 sample_config (abs_queue sample_queued)) = Some ''a'' \<and>
   (case dequeue 50 sample_queued of
      (Inr x, s') \<Rightarrow> map_option q_request_id x = Some ''a'' | (Inl e, s') \<Rightarrow> False)"
proof -
  have "wf_queue sample_queued" using sample_queued_wf by (simp add: wf_cp_def)
  from queue_is_fifo [OF this, of 0 50 0 "''a''"]
  have "fifo_dequeue 50 (qs_config sample_queued) (abs_queue sample_queued) =
      (case dequeue 50 sample_queued of
         (Inr x, s') \<Rightarrow> (map_option q_request_id x, abs_queue s')
       | (Inl e, s') \<Rightarrow> (None, abs_queue s'))" by blast
  moreover have "fst (fifo_dequeue 50 (qs_config sample_queued) (abs_queue sample_queued)) = Some ''a''"
    "qs_config sample_queued = sample_config"
    by (simp_all add: fifo_dequeue_def fifo_expire_def fifo_late_def abs_queue_def elapsed_ms_def
        sample_defs)
  moreover have "\<exists>x s'. dequeue 50 sample_queued = (Inr x, s')"
    by (simp add: dequeue_def expire_run split: list.split)
  ultimately show ?thesis by auto
qed

text \<open>C24: The time-out sweep returns exactly the entries of the items that waited longer than the
  limit, makes each of them TIMED_OUT whatever its state was (a COMPLETED request whose item was
  never removed from the queue too), keeps every other entry's state, and leaves the other
  items in the queue in their order.\<close>

theorem sweep_outcome:
  fixes ck :: clock
  assumes "wf_queue s" and "queue_registered s"
  defines "late \<equiv> filter (expired (fst ck) (qs_config s)) (qs_items s)"
  shows "\<exists>t. process_timeouts ck s = (Inr (map q_entry late), t) \<and>
     abs_queue t = fifo_expire (fst ck) (qs_config s) (abs_queue s) \<and>
     (\<forall>k < length (rs_heap s). re_state (entry_at t k) =
        (if k \<in> q_entry ` set late then TIMED_OUT else re_state (entry_at s k)))"
  using process_timeouts_run [OF assms(1,2), of ck] unfolding late_def by blast

theorem sweep_outcome_witness:
  "\<exists>t. process_timeouts (100001, 0) sample_completed = (Inr [0], t) \<and> abs_queue t = [] \<and>
     re_state (entry_at sample_completed 0) = COMPLETED \<and> re_state (entry_at t 0) = TIMED_OUT"
proof -
  have "wf_queue sample_completed" "queue_registered sample_completed"
    by (simp_all add: wf_queue_def pre_queue_def linked_item_def entry_knows_position_def
        queue_registered_def sample_completed_def modify_entry_def sample_defs re_request_id_def)
  from sweep_outcome [OF this, of "(100001, 0)"] show ?thesis
    by (simp add: sample_completed_def modify_entry_def sample_defs expired_def elapsed_ms_def
        abs_queue_def fifo_expire_def fifo_late_def entry_at_def)
qed

section \<open>Observers\<close>

text \<open>C38: Whatever the control plane does, traces only grow: for every traced request the events and
  failures recorded before are a prefix of those recorded after, and a lifecycle timestamp once
  set never changes; and the gauge of active requests always differs from received minus
  completed, failed and rejected by the same amount as at the start.\<close>

theorem control_plane_observed:
  assumes "cp_step\<^sup>*\<^sup>* s t"
  shows "observers_extend (em_observers s) (em_observers t) \<and>
    map_option active_balance (ob_metrics (em_observers t)) =
    map_option active_balance (ob_metrics (em_observers s))"
  using cp_run_observed [OF assms] by (simp add: observed_def observer_balance_def)

theorem control_plane_observed_witness:
  "map_option active_balance (ob_metrics (em_observers sample_one)) = Some 0"
proof -
  have "map_option active_balance (ob_metrics (em_observers sample_cp)) = Some 0"
    by (simp add: sample_cp_def active_balance_def gauge_balance_def counter_value_def
        empty_metrics_def)
  with control_plane_observed [OF cp_step_run [OF submitted], of sample_cp no_checks sample_ck
      sample_ck "sample_submit ''a''"]
  show ?thesis by (simp add: sample_one_def)
qed

text \<open>Every call the metrics recorder makes names a metric of the catalogue, with that metric's kind
  and exactly its declared labels.\<close>

theorem metrics_calls_declared:
  assumes "recorder_step\<^sup>*\<^sup>* m m'" and "list_all declared_call (mx_calls m)"
  shows "list_all declared_call (mx_calls m')"
  using assms
  by (induction rule: rtranclp.induct)
    (auto dest: all_declared_step simp: all_declared_def)

theorem metrics_calls_declared_witness:
  "list_all declared_call (mx_calls (record_ttft 3 (record_batch_created empty_metrics)))"
proof (rule metrics_calls_declared)
  show "recorder_step\<^sup>*\<^sup>* empty_metrics (record_ttft 3 (record_batch_created empty_metrics))"
    by (rule rtranclp.rtrancl_into_rtrancl [OF r_into_rtranclp])
      (rule record_batch_created_step, rule record_ttft_step)
  show "list_all declared_call (mx_calls empty_metrics)" by (simp add: empty_metrics_def)
qed

end
