(* ===== verification/Op_Rules.thy ===== *)
theory Op_Rules
  imports Prelude
begin

text \<open>
  Before-and-after rules for the operations of the prelude: \<open>ensures P m Q E\<close> says that \<open>m\<close>,
  run where \<open>P\<close> holds, ends with a result and a state for which \<open>Q\<close> holds, or raises in a
  state for which \<open>E\<close> holds. One rule per combinator.
\<close>

definition ensures ::
  "('s \<Rightarrow> bool) \<Rightarrow> ('s, 'e, 'a) op \<Rightarrow> ('a \<Rightarrow> 's \<Rightarrow> bool) \<Rightarrow> ('s \<Rightarrow> bool) \<Rightarrow> bool" where
  "ensures P m Q E \<longleftrightarrow> (\<forall>s. P s \<longrightarrow> (case m s of (Inl e, t) \<Rightarrow> E t | (Inr a, t) \<Rightarrow> Q a t))"

lemma ensures_result: "ensures P m Q E \<Longrightarrow> P s \<Longrightarrow> m s = (Inr a, t) \<Longrightarrow> Q a t"
  by (force simp: ensures_def)

lemma ensures_raised: "ensures P m Q E \<Longrightarrow> P s \<Longrightarrow> m s = (Inl e, t) \<Longrightarrow> E t"
  by (force simp: ensures_def)

lemma ensuresI:
  "(\<And>s e t. P s \<Longrightarrow> m s = (Inl e, t) \<Longrightarrow> E t) \<Longrightarrow> (\<And>s a t. P s \<Longrightarrow> m s = (Inr a, t) \<Longrightarrow> Q a t) \<Longrightarrow>
   ensures P m Q E"
  by (auto simp: ensures_def split: prod.split sum.split)

lemma ensures_conseq:
  assumes "ensures P m Q E" and "\<And>s. P' s \<Longrightarrow> P s" and "\<And>a t. Q a t \<Longrightarrow> Q' a t"
    and "\<And>t. E t \<Longrightarrow> E' t"
  shows "ensures P' m Q' E'"
  by (rule ensuresI) (use assms ensures_raised [OF assms(1)] ensures_result [OF assms(1)] in blast)+

lemma ensures_return: "(\<And>s. P s \<Longrightarrow> Q a s) \<Longrightarrow> ensures P (return_op a) Q E"
  by (simp add: ensures_def op_defs)

lemma ensures_bind:
  assumes m: "ensures P m Q E" and f: "\<And>a. ensures (Q a) (f a) R E"
  shows "ensures P (bind_op m f) R E"
proof (rule ensuresI)
  fix s e t assume p: "P s" and run: "bind_op m f s = (Inl e, t)"
  obtain res u where r: "m s = (res, u)" by force
  show "E t"
  proof (cases res)
    case (Inl x)
    with run r have "m s = (Inl x, t)" by (simp add: bind_op_def)
    then show ?thesis by (rule ensures_raised [OF m p])
  next
    case (Inr a)
    with run r have "f a u = (Inl e, t)" by (simp add: bind_op_def)
    then show ?thesis by (rule ensures_raised [OF f ensures_result [OF m p r [unfolded Inr]]])
  qed
next
  fix s b t assume p: "P s" and run: "bind_op m f s = (Inr b, t)"
  obtain res u where r: "m s = (res, u)" by force
  show "R b t"
  proof (cases res)
    case (Inl x)
    with run r show ?thesis by (simp add: bind_op_def)
  next
    case (Inr a)
    with run r have "f a u = (Inr b, t)" by (simp add: bind_op_def)
    then show ?thesis by (rule ensures_result [OF f ensures_result [OF m p r [unfolded Inr]]])
  qed
qed

lemma ensures_then: "ensures P m (\<lambda>_. Q) E \<Longrightarrow> ensures Q n R E \<Longrightarrow> ensures P (then_op m n) R E"
  by (simp add: then_op_def ensures_bind)

lemma ensures_catch:
  assumes m: "ensures P m Q E" and h: "\<And>e. ensures E (h e) Q F"
  shows "ensures P (catch_op m h) Q F"
proof (rule ensuresI)
  fix s e t assume p: "P s" and run: "catch_op m h s = (Inl e, t)"
  obtain res u where r: "m s = (res, u)" by force
  show "F t"
  proof (cases res)
    case (Inl x)
    with run r have "h x u = (Inl e, t)" by (simp add: catch_op_def)
    then show ?thesis by (rule ensures_raised [OF h ensures_raised [OF m p r [unfolded Inl]]])
  next
    case (Inr a)
    with run r show ?thesis by (simp add: catch_op_def)
  qed
next
  fix s b t assume p: "P s" and run: "catch_op m h s = (Inr b, t)"
  obtain res u where r: "m s = (res, u)" by force
  show "Q b t"
  proof (cases res)
    case (Inl x)
    with run r have "h x u = (Inr b, t)" by (simp add: catch_op_def)
    then show ?thesis by (rule ensures_result [OF h ensures_raised [OF m p r [unfolded Inl]]])
  next
    case (Inr a)
    with run r have "m s = (Inr b, t)" by (simp add: catch_op_def)
    then show ?thesis by (rule ensures_result [OF m p])
  qed
qed

lemma ensures_option:
  "(x = None \<Longrightarrow> ensures P m Q E) \<Longrightarrow> (\<And>a. x = Some a \<Longrightarrow> ensures P (f a) Q E) \<Longrightarrow>
   ensures P (case x of None \<Rightarrow> m | Some a \<Rightarrow> f a) Q E"
  by (cases x) auto

text \<open>Keeping an invariant is its special case.\<close>

lemma ensures_preserves: "preserves I m \<Longrightarrow> ensures I m (\<lambda>_. I) I"
  unfolding preserves_def by (rule ensuresI) (metis snd_conv)+

lemma ensures_invariant:
  assumes "ensures I m (\<lambda>_. I) I" and "I s"
  shows "I (snd (m s))"
proof -
  obtain r t where run: "m s = (r, t)" by force
  then show ?thesis
    using ensures_raised [OF assms] ensures_result [OF assms] by (cases r) auto
qed

section \<open>What an operation raises\<close>

definition raises_only :: "('e \<Rightarrow> bool) \<Rightarrow> ('s, 'e, 'a) op \<Rightarrow> bool" where
  "raises_only X m \<longleftrightarrow> (\<forall>s. case fst (m s) of Inl e \<Rightarrow> X e | Inr _ \<Rightarrow> True)"

named_theorems raises_intros \<open>one rule per combinator\<close>

lemma raises_onlyI: "(\<And>s e t. m s = (Inl e, t) \<Longrightarrow> X e) \<Longrightarrow> raises_only X m"
  by (auto simp: raises_only_def split: sum.split intro: prod_eqI) (metis prod.collapse)

lemma raises_onlyD: "raises_only X m \<Longrightarrow> m s = (Inl e, t) \<Longrightarrow> X e"
  unfolding raises_only_def by (drule spec [of _ s]) simp

lemma raises_return [raises_intros]: "raises_only X (return_op a)"
  by (simp add: raises_only_def op_defs)

lemma raises_gets [raises_intros]: "raises_only X (gets_op f)"
  by (simp add: raises_only_def op_defs)

lemma raises_modify [raises_intros]: "raises_only X (modify_op f)"
  by (simp add: raises_only_def op_defs)

lemma raises_bind [raises_intros]:
  assumes m: "raises_only X m" and f: "\<And>a. raises_only X (f a)"
  shows "raises_only X (bind_op m f)"
proof (rule raises_onlyI)
  fix s e t assume run: "bind_op m f s = (Inl e, t)"
  obtain r u where r: "m s = (r, u)" by force
  with run show "X e"
    using raises_onlyD [OF m, of s e t] raises_onlyD [OF f, of _ u e t]
    by (cases r) (simp_all add: bind_op_def)
qed

lemma raises_then [raises_intros]:
  "raises_only X m \<Longrightarrow> raises_only X n \<Longrightarrow> raises_only X (then_op m n)"
  by (simp add: then_op_def raises_bind)

text \<open>Of a caught operation only the handler's exceptions pass on.\<close>

lemma raises_catch [raises_intros]:
  assumes "\<And>e. raises_only X (h e)"
  shows "raises_only X (catch_op m h)"
proof (rule raises_onlyI)
  fix s e t assume run: "catch_op m h s = (Inl e, t)"
  obtain r u where "m s = (r, u)" by force
  with run show "X e"
    using raises_onlyD [OF assms, of _ u e t] by (cases r) (simp_all add: catch_op_def)
qed

lemma raises_if [raises_intros]:
  "raises_only X m \<Longrightarrow> raises_only X n \<Longrightarrow> raises_only X (if b then m else n)"
  by simp

lemma raises_map [raises_intros]: "(\<And>x. raises_only X (f x)) \<Longrightarrow> raises_only X (map_op f xs)"
  by (induction xs) (auto intro: raises_intros)

end
