(* ===== verification/Queue_Loss.thy ===== *)
theory Queue_Loss
  imports Control_Plane_Properties Op_Rules
begin

text \<open>
  What becomes of a request whose item a read of the queue has dropped (\<open>queue/waiting_queue.py\<close>,
  \<open>lifecycle/manager.py\<close>): an invariant of the operations of the control plane that do not name it.
\<close>

section \<open>A lost request\<close>

text \<open>Request \<open>i\<close> is registered as entry \<open>k\<close> and QUEUED, and no item of the queue is its item.\<close>

definition lost :: "uuid \<Rightarrow> ref \<Rightarrow> 'x queue_state_scheme \<Rightarrow> bool" where
  "lost i k s \<longleftrightarrow>
     wf_cp s \<and> dict_get (rs_entries s) i = Some k \<and> re_state (rs_heap s ! k) = QUEUED \<and>
     list_all (\<lambda>it. q_request_id it \<noteq> i) (qs_items s)"

text \<open>The operations of the control plane that do not name request \<open>i\<close>.\<close>

inductive other_step :: "uuid \<Rightarrow> queue_state \<Rightarrow> queue_state \<Rightarrow> bool" for i where
  submitted: "submit_id submit \<noteq> i \<Longrightarrow> other_step i s (snd (process_through_queued af sweep ck submit s))"
| moved: "j \<noteq> i \<Longrightarrow> other_step i s (snd (transition ck j st b k s))"
| failed: "j \<noteq> i \<Longrightarrow> other_step i s (snd (mark_failed ck j reason m b k s))"
| completed: "j \<noteq> i \<Longrightarrow> other_step i s (snd (complete_request ck j c s))"
| swept: "other_step i s (snd (process_timeouts ck s))"
| dequeued: "other_step i s (snd (dequeue_next ck s))"
| removed: "other_step i s (snd (service_remove ck j s))"
| viewed: "other_step i s (snd (get_queue_snapshot now n s))"

lemma other_step_cp: "other_step i s t \<Longrightarrow> cp_step s t"
  by (induction rule: other_step.induct) (rule cp_step.intros)+

section \<open>What the parts of an operation do to it\<close>

abbreviation keeps_lost :: "uuid \<Rightarrow> ref \<Rightarrow> ('x queue_state_scheme, cp_exn, 'a) op \<Rightarrow> bool" where
  "keeps_lost i k m \<equiv> ensures (lost i k) m (\<lambda>_. lost i k) (lost i k)"

text \<open>An operation that returns an entry returns another one.\<close>

abbreviation finds_other :: "uuid \<Rightarrow> ref \<Rightarrow> ('x queue_state_scheme, cp_exn, ref) op \<Rightarrow> bool" where
  "finds_other i k m \<equiv> ensures (lost i k) m (\<lambda>r s. lost i k s \<and> r \<noteq> k) (lost i k)"

named_theorems lost_intros \<open>operations that leave a lost request lost\<close>

lemma lost_entry: "lost i k s \<Longrightarrow> k < length (rs_heap s) \<and> re_request_id (rs_heap s ! k) = i"
  by (auto simp: lost_def wf_cp_def dest: wf_registry_getD)

lemma lost_other:
  "lost i k s \<Longrightarrow> dict_get (rs_entries s) j = Some r \<Longrightarrow> j \<noteq> i \<Longrightarrow> r \<noteq> k"
  using lost_entry [of i k s] by (auto simp: lost_def wf_cp_def dest: wf_registry_getD)

lemma keeps_lostI:
  assumes "preserves wf_cp m"
    and "\<And>s. lost i k s \<Longrightarrow> dict_get (rs_entries (snd (m s))) i = Some k \<and>
      re_state (rs_heap (snd (m s)) ! k) = QUEUED \<and>
      list_all (\<lambda>it. q_request_id it \<noteq> i) (qs_items (snd (m s)))"
  shows "keeps_lost i k m"
  by (rule ensures_preserves, rule preservesI)
    (use assms in \<open>auto simp: lost_def dest: preservesD\<close>)

lemma lost_return [lost_intros]: "keeps_lost i k (return_op a)"
  by (rule ensures_return)

lemma lost_found: "r \<noteq> k \<Longrightarrow> finds_other i k (return_op r)"
  by (rule ensures_return) simp

lemma lost_raise [lost_intros]: "ensures (lost i k) (raise_op x) Q (lost i k)"
  by (simp add: ensures_def op_defs)

lemma lost_gets [lost_intros]: "(\<And>a. ensures (lost i k) (f a) Q (lost i k)) \<Longrightarrow>
  ensures (lost i k) (bind_op (gets_op g) f) Q (lost i k)"
  by (simp add: ensures_def bind_op_def gets_op_def)

lemma lost_if [lost_intros]:
  "ensures (lost i k) m Q (lost i k) \<Longrightarrow> ensures (lost i k) n Q (lost i k) \<Longrightarrow>
   ensures (lost i k) (if b then m else n) Q (lost i k)"
  by simp

lemma lost_bind:
  "keeps_lost i k m \<Longrightarrow> (\<And>a. ensures (lost i k) (f a) Q (lost i k)) \<Longrightarrow>
   ensures (lost i k) (bind_op m f) Q (lost i k)"
  by (rule ensures_bind)

lemma lost_then:
  "keeps_lost i k m \<Longrightarrow> ensures (lost i k) n Q (lost i k) \<Longrightarrow> ensures (lost i k) (then_op m n) Q (lost i k)"
  by (rule ensures_then)

lemma lost_bind_other:
  assumes "finds_other i k m" and "\<And>r. r \<noteq> k \<Longrightarrow> ensures (lost i k) (f r) Q (lost i k)"
  shows "ensures (lost i k) (bind_op m f) Q (lost i k)"
proof (rule ensures_bind [OF assms(1)])
  fix r
  show "ensures (\<lambda>s. lost i k s \<and> r \<noteq> k) (f r) Q (lost i k)"
    using assms(2) [of r] by (cases "r = k") (simp_all add: ensures_def)
qed

lemma lost_forget: "finds_other i k m \<Longrightarrow> keeps_lost i k m"
  by (erule ensures_conseq) auto

lemma lost_observers [simp]: "lost i k (s\<lparr>em_observers := x\<rparr>) = lost i k s"
  by (simp add: lost_def wf_cp_observers)

lemma lost_emits [lost_intros]:
  "keeps_lost i k (emit_op ck ev j a)" "keeps_lost i k (emit_queue_op ck qe j c p x)"
  "keeps_lost i k (metrics_op f)"
  by (simp_all add: ensures_def emit_op_def emit_queue_op_def metrics_op_def modify_op_def)

lemma lost_depth [lost_intros]: "keeps_lost i k set_depth_op"
  by (simp add: ensures_def set_depth_op_def metrics_op_def modify_op_def)

lemma lost_modify [lost_intros]:
  assumes "keeps_place f" and "r \<noteq> k"
  shows "keeps_lost i k (modify_op (modify_entry r f))"
  by (rule keeps_lostI) (use assms in \<open>auto simp: modify_op_def lost_def modify_entry_def intro: wf_cp_modify\<close>)

lemma lost_get: "j \<noteq> i \<Longrightarrow> finds_other i k (registry_get j)"
  by (rule ensuresI) (auto simp: registry_get_def dest: lost_other split: option.splits)

lemma lost_update: "j \<noteq> i \<Longrightarrow> finds_other i k (update_state now j st)"
  unfolding update_state_def
  by (rule lost_bind_other [OF lost_get]) (auto intro!: lost_then lost_modify lost_found)

lemma no_item_iff: "list_all (\<lambda>it. q_request_id it \<noteq> i) xs = (i \<notin> set (map q_request_id xs))"
  by (auto simp: list_all_iff)

lemma reindexed_ids [simp]:
  "list_all (\<lambda>it. q_request_id it \<noteq> i) (reindex_items xs) = list_all (\<lambda>it. q_request_id it \<noteq> i) xs"
  unfolding no_item_iff by (simp only: reindex_items_simps)

lemma lost_expire [lost_intros]: "keeps_lost i k (expire_timeouts now)"
proof (rule keeps_lostI [OF wf_cp_expire])
  fix s :: "'a queue_state_scheme" assume "lost i k s"
  then have "list_all (\<lambda>it. q_request_id it \<noteq> i) (qs_items (snd (expire_timeouts now s)))"
    by (auto simp: lost_def expire_timeouts_def list_all_iff [of _ "filter _ _"])
      (auto simp: list_all_iff)
  with \<open>lost i k s\<close> show "dict_get (rs_entries (snd (expire_timeouts now s))) i = Some k \<and>
      re_state (rs_heap (snd (expire_timeouts now s)) ! k) = QUEUED \<and>
      list_all (\<lambda>it. q_request_id it \<noteq> i) (qs_items (snd (expire_timeouts now s)))"
    by (simp add: lost_def)
qed

text \<open>Taking an item out: the ones that stay are other requests' items still.\<close>

lemma lost_dequeue [lost_intros]: "keeps_lost i k (dequeue now)"
proof (rule keeps_lostI [OF wf_cp_dequeue])
  fix s :: "'a queue_state_scheme" assume "lost i k s"
  then have "lost i k (snd (expire_timeouts now s))"
    by (rule ensures_invariant [OF lost_expire])
  then show "dict_get (rs_entries (snd (dequeue now s))) i = Some k \<and>
      re_state (rs_heap (snd (dequeue now s)) ! k) = QUEUED \<and>
      list_all (\<lambda>it. q_request_id it \<noteq> i) (qs_items (snd (dequeue now s)))"
    by (auto simp: dequeue_def expire_run lost_def split: list.split)
qed

lemma lost_remove [lost_intros]: "keeps_lost i k (queue_remove j)"
proof (rule keeps_lostI [OF wf_cp_remove])
  fix s :: "'a queue_state_scheme" assume lost: "lost i k s"
  let ?P = "\<lambda>it. q_request_id it \<noteq> j"
  have "list_all (\<lambda>it. q_request_id it \<noteq> i) (takeWhile ?P (qs_items s) @ dropWhile ?P (qs_items s))"
    using lost by (simp add: lost_def del: list_all_append)
  then show "dict_get (rs_entries (snd (queue_remove j s))) i = Some k \<and>
      re_state (rs_heap (snd (queue_remove j s)) ! k) = QUEUED \<and>
      list_all (\<lambda>it. q_request_id it \<noteq> i) (qs_items (snd (queue_remove j s)))"
    using lost
    by (auto simp: queue_remove_def lost_def simp del: takeWhile_dropWhile_id split: list.split)
qed

lemma lost_snapshot [lost_intros]: "keeps_lost i k (get_queue_snapshot now n)"
  unfolding get_queue_snapshot_def list_items_def Let_def
  by (intro lost_bind lost_gets lost_intros) (simp add: ensures_def gets_op_def)+

section \<open>The operations\<close>

lemma lost_option [lost_intros]:
  "(x = None \<Longrightarrow> ensures P m Q E) \<Longrightarrow> (\<And>a. x = Some a \<Longrightarrow> ensures P (f a) Q E) \<Longrightarrow>
   ensures P (case x of None \<Rightarrow> m | Some a \<Rightarrow> f a) Q E"
  by (rule ensures_option)

lemma lost_emit_state [lost_intros]: "keeps_lost i k (emit_state_event ck r ev x)"
  unfolding emit_state_event_def by (intro lost_intros)

lemma lost_emit_transition [lost_intros]: "keeps_lost i k (emit_for_transition ck r a b)"
  unfolding emit_for_transition_def by (auto intro!: lost_intros split: option.split)

lemma lost_assign [lost_intros]: "r \<noteq> k \<Longrightarrow> keeps_lost i k (assign_ids r b c)"
  unfolding assign_ids_def by (intro lost_then lost_intros) simp_all

lemma lost_transition: "j \<noteq> i \<Longrightarrow> finds_other i k (transition ck j st b c)"
  unfolding transition_def
  by (rule lost_bind_other [OF lost_get], assumption)
    (intro lost_then lost_assign lost_gets lost_if lost_raise lost_bind_other [OF lost_update]
      lost_emit_transition lost_found, assumption+)

lemma lost_update_keeps [lost_intros]: "j \<noteq> i \<Longrightarrow> keeps_lost i k (update_state now j st)"
  by (rule lost_forget [OF lost_update])

lemma lost_reject_full: "r \<noteq> k \<Longrightarrow> j \<noteq> i \<Longrightarrow> keeps_lost i k (reject_full ck j r x)"
  unfolding reject_full_def
  by (auto intro!: lost_gets lost_then lost_bind lost_emits lost_depth lost_modify
      lost_update_keeps lost_return)

lemma lost_after_enqueue: "r \<noteq> k \<Longrightarrow> j \<noteq> i \<Longrightarrow> keeps_lost i k (after_enqueue ck j r q)"
  unfolding after_enqueue_def
  by (auto intro!: lost_gets lost_then lost_bind lost_emits lost_depth lost_modify
      lost_update_keeps lost_return)

text \<open>An item that is put in the queue carries the id of its entry.\<close>

lemma lost_enqueue:
  assumes "lost i k s" and "r \<noteq> k" and "r < length (rs_heap s)"
    and "re_request_id (rs_heap s ! r) \<noteq> i"
  shows "lost i k (snd (enqueue sweep now r s))"
proof -
  let ?s1 = "snd (expire_timeouts sweep s)"
  have "lost i k ?s1" by (rule ensures_invariant [OF lost_expire assms(1)])
  moreover have "wf_cp (snd (enqueue sweep now r s))"
    using assms(1,3) by (simp add: lost_def wf_cp_enqueue)
  ultimately show ?thesis
    using assms(2,4)
    by (auto simp: lost_def enqueue_run Let_def append_queued_def modify_entry_def mk_queued_def
        entry_at_def)
qed

lemma lost_enqueue_from_admitted:
  assumes "j \<noteq> i"
  shows "keeps_lost i k (enqueue_from_admitted sweep ck j)"
proof (rule ensures_preserves, rule preservesI)
  fix s :: "'a queue_state_scheme" assume lost: "lost i k s"
  show "lost i k (snd (enqueue_from_admitted sweep ck j s))"
  proof (cases "dict_get (rs_entries s) j")
    case None
    with lost show ?thesis by (simp add: enqueue_from_admitted_def bind_op_def registry_get_def)
  next
    case (Some r)
    then have r: "r \<noteq> k" using lost assms by (metis lost_other)
    have at: "r < length (rs_heap s)" "re_request_id (rs_heap s ! r) \<noteq> i"
      using lost Some assms by (auto simp: lost_def wf_cp_def dest: wf_registry_getD)
    obtain x s1 where e: "enqueue sweep (fst ck) r s = (x, s1)" by force
    then have s1: "lost i k s1" using lost_enqueue [OF lost r at, of sweep "fst ck"] by simp
    have "lost i k (snd (reject_full ck j r reason s1))" for reason
      by (rule ensures_invariant [OF lost_reject_full [OF r assms] s1])
    moreover have "lost i k (snd (after_enqueue ck j r q s1))" for q
      by (rule ensures_invariant [OF lost_after_enqueue [OF r assms] s1])
    ultimately show ?thesis
      using Some e s1 lost
      by (auto simp: enqueue_from_admitted_def bind_op_def registry_get_def
          split: sum.split cp_exn.split)
  qed
qed

lemma lost_register:
  assumes "submit_id submit \<noteq> i"
  shows "keeps_lost i k (register ck submit st :: ('z queue_state_scheme, cp_exn, ref) op)"
proof -
  have *: "keeps_lost i k (bind_op (alloc_entry (new_registered_request now submit st))
      (\<lambda>r. bind_op (registry_register r) (\<lambda>_. then_op (emit_state_event ck r ev []) (return_op r)))
        :: ('z queue_state_scheme, cp_exn, ref) op)"
    (is "keeps_lost i k ?m") for now ev
  proof (rule ensures_preserves, rule preservesI)
    fix s :: "'z queue_state_scheme" assume lost: "lost i k s"
    let ?e = "new_registered_request now submit st"
    let ?r = "length (rs_heap s)" and ?s1 = "snd (alloc_entry ?e s)"
    have k: "k < length (rs_heap s)" using lost_entry [OF lost] by simp
    have id: "re_request_id ?e = submit_id submit"
      by (simp add: new_registered_request_def re_request_id_def submit_id_def)
    have wf: "wf_cp (snd (registry_register ?r ?s1))"
      using lost by (intro wf_cp_registry_register wf_cp_alloc) (simp_all add: lost_def alloc_entry_def)
    with lost k have "lost i k (snd (registry_register ?r ?s1))"
      using assms by (auto simp: lost_def registry_register_def alloc_entry_def entry_at_def
          nth_append id)
    moreover have "keeps_lost i k (then_op (emit_state_event ck ?r ev []) (return_op ?r))"
      by (intro lost_then lost_intros)
    ultimately have "lost i k (snd (bind_op (registry_register ?r)
        (\<lambda>_. then_op (emit_state_event ck ?r ev []) (return_op ?r)) ?s1))"
      by (auto simp: bind_op_def dest: ensures_invariant split: prod.split sum.split)
    then show "lost i k (snd (?m s))"
      by (simp add: bind_op_def alloc_entry_def split: prod.split sum.split)
  qed
  show ?thesis unfolding register_def by (intro lost_if lost_raise *)
qed

text \<open>The sweep: the entries of the items it times out are not entry \<open>k\<close>.\<close>

definition linked_elsewhere :: "uuid \<Rightarrow> queued_request list \<Rightarrow> 'x queue_state_scheme \<Rightarrow> bool" where
  "linked_elsewhere i its s \<longleftrightarrow> list_all (\<lambda>it. linked_item s it \<and> q_request_id it \<noteq> i) its"

lemma lost_time_out_item:
  assumes lost: "lost i k s" and linked: "linked_elsewhere i its s" and it: "it \<in> set its"
  shows "lost i k (snd (time_out_item ck it s)) \<and> linked_elsewhere i its (snd (time_out_item ck it s))"
proof -
  let ?r = "q_entry it"
  have at: "?r < length (rs_heap s)" "re_request_id (rs_heap s ! ?r) \<noteq> i"
    using linked it by (auto simp: linked_elsewhere_def linked_item_def list_all_iff)
  then have r: "?r \<noteq> k" using lost_entry [OF lost] by auto
  let ?f = "\<lambda>e. e\<lparr>re_state := TIMED_OUT, re_failure_reason := Some QUEUE_TIMEOUT,
    re_failure_message := Some ''queue wait timeout exceeded''\<rparr>"
  let ?s1 = "modify_entry ?r ?f s"
  define e where "e = entry_at ?s1 ?r"
  have s1: "lost i k ?s1"
    using ensures_invariant [OF lost_modify [of ?f, OF keeps_place_simps(3) r] lost]
    by (simp add: modify_op_def)
  have "re_request_id e \<noteq> i"
    using at by (simp add: e_def re_request_id_def entry_at_def modify_entry_def)
  then have "lost i k (snd (bind_op (update_state (fst ck) (re_request_id e) TIMED_OUT) (\<lambda>_.
      then_op (emit_queue_op ck QE_QUEUE_TIMEOUT (re_request_id e) (re_trace_id e) p x)
        (return_op ?r)) ?s1))" for p x
    by (intro ensures_invariant [where I = "lost i k", OF _ s1] lost_bind lost_then lost_intros)
  then have "lost i k (snd (time_out_item ck it s))"
    by (simp add: time_out_item_def then_op_def bind_op_def [of "modify_op _"] modify_op_def
        bind_op_def [of "gets_op _"] gets_op_def e_def [symmetric])
  moreover have "evolves s (snd (time_out_item ck it s))"
    unfolding time_out_item_def
    by (rule within_relD) (intro evolve.within_intros evolve_intros evolves_force_modify evolves_update_timed_out;
        simp)
  with lost linked have "linked_elsewhere i its (snd (time_out_item ck it s))"
    by (auto simp: lost_def evolves_def linked_elsewhere_def linked_item_def list_all_iff
        re_request_id_def entry_at_def)
  ultimately show ?thesis by blast
qed

lemma lost_time_out_items:
  assumes "lost i k s" and "linked_elsewhere i its s" and "set xs \<subseteq> set its"
  shows "lost i k (snd (map_op (time_out_item ck) xs s))"
  using assms(1,2) assms(3)
proof (induction xs arbitrary: s)
  case Nil
  then show ?case by (simp add: op_defs)
next
  case (Cons it xs)
  obtain x s1 where run: "time_out_item ck it s = (x, s1)" by force
  with Cons.prems lost_time_out_item [of i k s its it ck]
  have "lost i k s1" "linked_elsewhere i its s1" by auto
  with Cons.IH Cons.prems(3) have "lost i k (snd (map_op (time_out_item ck) xs s1))" by simp
  with run \<open>lost i k s1\<close> show ?case
    by (auto simp: bind_op_def return_op_def split: prod.split sum.split)
qed

lemma lost_process_timeouts: "keeps_lost i k (process_timeouts ck)"
proof (rule ensures_preserves, rule preservesI)
  fix s :: "'a queue_state_scheme" assume lost: "lost i k s"
  define its where "its = filter (expired (fst ck) (qs_config s)) (qs_items s)"
  let ?s1 = "snd (expire_timeouts (fst ck) s)"
  have s1: "lost i k ?s1" by (rule ensures_invariant [OF lost_expire lost])
  have "linked_elsewhere i its ?s1"
    using lost
    by (auto simp: lost_def wf_cp_def wf_queue_def pre_queue_def linked_elsewhere_def its_def
        linked_item_def list_all_iff)
  from lost_time_out_items [OF s1 this, of its ck]
  have "lost i k (snd (map_op (time_out_item ck) its ?s1))" by simp
  moreover have "lost i k (snd (then_op (if its \<noteq> [] then set_depth_op else return_op ())
      (return_op rs) u))" if "lost i k u" for rs :: "ref list" and u :: "'a queue_state_scheme"
    by (rule ensures_invariant [where I = "lost i k", OF lost_then that])
      (intro lost_intros)+
  ultimately show "lost i k (snd (process_timeouts ck s))"
    unfolding process_timeouts_def expire_run its_def [symmetric]
    by (auto simp: bind_op_def split: prod.split sum.split)
qed

lemma lost_dequeue_next: "keeps_lost i k (dequeue_next ck)"
  unfolding dequeue_next_def
  by (intro lost_bind [OF lost_dequeue] lost_option lost_gets lost_then lost_emits lost_depth
      lost_return)

lemma lost_service_remove: "keeps_lost i k (service_remove ck j)"
  unfolding service_remove_def
  by (intro lost_bind [OF lost_remove] lost_option lost_gets lost_then lost_emits lost_return)

lemma lost_mark_failed: "j \<noteq> i \<Longrightarrow> keeps_lost i k (mark_failed ck j reason m b c)"
  unfolding mark_failed_def Let_def
  by (rule lost_bind_other [OF lost_get], assumption)
    (intro lost_then lost_bind lost_if lost_assign lost_gets lost_emit_state lost_return
      lost_update_keeps lost_bind_other [OF lost_transition] lost_modify keeps_place_simps;
     assumption)

lemma lost_complete: "j \<noteq> i \<Longrightarrow> keeps_lost i k (complete_request ck j c)"
  unfolding complete_request_def
  by (rule lost_bind_other [OF lost_get], assumption)
    (intro lost_then lost_option lost_if lost_raise lost_gets lost_emit_state lost_return
      lost_bind_other [OF lost_transition] lost_modify keeps_place_simps;
     assumption)

lemma lost_reject_admission: "j \<noteq> i \<Longrightarrow> r \<noteq> k \<Longrightarrow> keeps_lost i k (reject_admission ck j r x)"
  unfolding reject_admission_def Let_def
  by (intro lost_then lost_bind lost_update_keeps lost_emit_state lost_return lost_modify
      keeps_place_simps; assumption)

lemma lost_run_admission: "j \<noteq> i \<Longrightarrow> keeps_lost i k (run_admission af ck j)"
  unfolding run_admission_def
  by (rule lost_bind_other [OF lost_get], assumption)
    (auto intro!: lost_gets lost_raise lost_forget [OF lost_transition] lost_reject_admission
      split: sum.split)

lemma lost_process:
  assumes "submit_id submit \<noteq> i"
  shows "keeps_lost i k (process_through_queued af sweep ck submit)"
proof -
  note id = assms [unfolded submit_id_def]
  have "keeps_lost i k (through_body af sweep ck submit)"
    unfolding through_body_def Let_def
    by (intro lost_bind [OF lost_process_timeouts] lost_bind [OF lost_register [OF assms]]
        lost_bind [OF lost_forget [OF lost_transition [OF id]]]
        lost_bind [OF lost_run_admission [OF id]] lost_gets lost_if lost_return lost_raise
        lost_enqueue_from_admitted [OF id])
  then show ?thesis
    unfolding process_through_queued_def
    by (rule ensures_catch) (intro lost_if lost_raise lost_mark_failed [OF id])
qed

lemma other_step_lost: "other_step i s t \<Longrightarrow> lost i k s \<Longrightarrow> lost i k t"
  by (induction rule: other_step.induct)
    (erule ensures_invariant [rotated], simp add: lost_process lost_forget [OF lost_transition]
      lost_mark_failed lost_complete lost_process_timeouts lost_dequeue_next lost_service_remove
      lost_snapshot)+

lemma other_run_lost: "(other_step i)\<^sup>*\<^sup>* s t \<Longrightarrow> lost i k s \<Longrightarrow> lost i k t"
  by (induction rule: rtranclp.induct) (auto intro: other_step_lost)

section \<open>The read that loses it\<close>

lemma expired_lost:
  assumes wf: "wf_cp s" and reg: "dict_get (rs_entries s) (q_request_id it) = Some (q_entry it)"
    and mem: "it \<in> set (qs_items s)" and late: "expired now (qs_config s) it"
    and st: "re_state (entry_at s (q_entry it)) = QUEUED"
  shows "lost (q_request_id it) (q_entry it) (snd (expire_timeouts now s))"
proof -
  have "inj_on q_request_id (set (qs_items s))"
    using wf by (simp add: wf_cp_def wf_queue_def pre_queue_def distinct_map)
  then have "list_all (\<lambda>x. q_request_id x \<noteq> q_request_id it)
      (filter (\<lambda>x. \<not> expired now (qs_config s) x) (qs_items s))"
    using mem late by (auto simp: list_all_iff dest: inj_onD)
  moreover have "wf_cp (snd (expire_timeouts now s))" by (rule preservesD [OF wf_cp_expire wf])
  ultimately show ?thesis
    using reg st by (simp add: lost_def entry_at_def) (simp add: expire_timeouts_def)
qed

lemma snapshot_expires: "snd (get_queue_snapshot now n s) = snd (expire_timeouts now s)"
  by (simp add: get_queue_snapshot_def list_items_def bind_op_def gets_op_def
      expire_timeouts_def Let_def)

lemma dequeue_next_entry:
  assumes "lost i k s"
  shows "fst (dequeue_next ck s) \<noteq> Inr (Some k)"
proof
  assume run: "fst (dequeue_next ck s) = Inr (Some k)"
  obtain x s1 where e: "expire_timeouts (fst ck) s = (Inr x, s1)"
    by (simp add: expire_timeouts_def)
  then have lost: "lost i k s1"
    using ensures_invariant [OF lost_expire assms, of "fst ck"] by simp
  obtain it rest where items: "qs_items s1 = it # rest" "q_entry it = k"
  proof (cases "qs_items s1")
    case Nil
    with run e show ?thesis
      by (simp add: dequeue_next_def dequeue_def bind_op_def return_op_def)
  next
    case (Cons it rest)
    with run e that show ?thesis
      by (simp add: dequeue_next_def dequeue_def bind_op_def then_op_def emit_queue_op_def
          set_depth_op_def metrics_op_def modify_op_def gets_op_def return_op_def)
  qed
  with lost lost_entry [OF lost] show False
    by (auto simp: lost_def wf_cp_def wf_queue_def pre_queue_def linked_item_def)
qed

text \<open>C22: Reading the queue loses requests: an item past its time limit is dropped by a snapshot
  without a trace in the registry. Through every later sequence of operations of the control
  plane that do not name the request (submissions of other requests, transitions, failures and
  completions of others, sweeps, dequeues, removals and further reads) it stays registered and
  QUEUED and is in no queue, so no sweep times it out and no dequeue hands it out.\<close>

theorem snapshot_loses_expired:
  assumes "wf_cp s" and "it \<in> set (qs_items s)"
    and "dict_get (rs_entries s) (q_request_id it) = Some (q_entry it)"
    and "expired now (qs_config s) it" and "re_state (entry_at s (q_entry it)) = QUEUED"
    and "(other_step (q_request_id it))\<^sup>*\<^sup>* (snd (get_queue_snapshot now n s)) t"
  shows "\<not> queue_contains (q_request_id it) t \<and>
    get_status (q_request_id it) t = (Inr QUEUED, t) \<and>
    fst (dequeue_next ck t) \<noteq> Inr (Some (q_entry it))"
proof -
  have "lost (q_request_id it) (q_entry it) t"
    using assms(6) unfolding snapshot_expires
    by (rule other_run_lost) (rule expired_lost [OF assms(1,3,2,4,5)])
  then show ?thesis
    using dequeue_next_entry [of "q_request_id it" "q_entry it" t ck]
    by (simp add: lost_def queue_contains_def list_all_iff list_ex_iff get_status_def bind_op_def
        registry_get_def gets_op_def entry_at_def)
qed

lemma other_run: "other_step i s t \<Longrightarrow> (other_step i)\<^sup>*\<^sup>* s t"
  by (rule r_into_rtranclp)

text \<open>After the sweep of a day later the lost request is QUEUED still.\<close>

theorem snapshot_loses_expired_witness:
  "get_status ''a'' (snd (process_timeouts (90000000000, 0)
       (snd (get_queue_snapshot 200000 ''all'' sample_queued)))) =
     (Inr QUEUED, snd (process_timeouts (90000000000, 0)
       (snd (get_queue_snapshot 200000 ''all'' sample_queued))))"
proof -
  have "sample_item \<in> set (qs_items sample_queued)"
    "dict_get (rs_entries sample_queued) (q_request_id sample_item) = Some (q_entry sample_item)"
    "expired 200000 (qs_config sample_queued) sample_item"
    "re_state (entry_at sample_queued (q_entry sample_item)) = QUEUED"
    "q_request_id sample_item = ''a''"
    by (simp_all add: sample_defs expired_def elapsed_ms_def entry_at_def)
  from snapshot_loses_expired [OF sample_queued_wf(1) this(1-4) other_run [OF other_step.swept]] this(5)
  show ?thesis by simp
qed

end
