(* ===== verification/Policies.thy ===== *)
theory Policies
  imports Lifecycle_Events
begin

text \<open>
  Candidate construction from the queue (\<open>scheduler/queue/reader.py\<close>), the four scheduling
  policies (\<open>scheduler/policies\<close>) behind the interface \<open>scheduling_policy\<close>, and the policy
  registry. \<open>SchedulingCandidate\<close> and \<open>SchedulingDecision\<close> have no source in the repository;
  their records have the fields the code builds them with.
\<close>

section \<open>Candidates (queue/reader.py)\<close>

record scheduling_candidate =
  sc_request_id :: uuid
  sc_model :: string
  sc_correlation_id :: string
  sc_queue_name :: string
  sc_queue_position :: nat
  sc_queue_wait_duration_ms :: rat
  sc_enqueued_at :: datetime
  sc_max_tokens :: int
  sc_estimated_input_tokens :: int
  sc_estimated_job_tokens :: int
  sc_priority_class :: string
  sc_request_age_ms :: rat

record scheduling_decision =
  sd_request_id :: uuid
  sd_correlation_id :: string
  sd_selected :: bool
  sd_decision_reason :: string
  sd_queue_position :: nat

definition estimate_input_tokens :: "queue_item \<Rightarrow> int" where
  "estimate_input_tokens item =
     max 1 (int (sum_list (map (\<lambda>m. length (m_content m)) (ir_messages (qi_inference_request item)))) div 4)"

definition queue_item_to_candidate :: "datetime \<Rightarrow> queue_item \<Rightarrow> nat \<Rightarrow> scheduling_candidate" where
  "queue_item_to_candidate now item queue_position =
     (let r = qi_inference_request item; input_tokens = estimate_input_tokens item
      in \<lparr>sc_request_id = qi_request_id item, sc_model = ir_model r,
          sc_correlation_id = rc_trace_id (qi_request_context item),
          sc_queue_name = qi_queue_name item, sc_queue_position = queue_position,
          sc_queue_wait_duration_ms = elapsed_ms now (qi_enqueued_at item),
          sc_enqueued_at = qi_enqueued_at item, sc_max_tokens = ir_max_tokens r,
          sc_estimated_input_tokens = input_tokens,
          sc_estimated_job_tokens = input_tokens + ir_max_tokens r,
          sc_priority_class = priority_class_value
            (case ir_priority_class r of None \<Rightarrow> qi_priority_class item | Some p \<Rightarrow> p),
          sc_request_age_ms = elapsed_ms now (rc_arrival_time (qi_request_context item))\<rparr>)"

fun candidates_from :: "datetime \<Rightarrow> nat \<Rightarrow> queue_item list \<Rightarrow> scheduling_candidate list" where
  "candidates_from now index [] = []"
| "candidates_from now index (item # items) =
     queue_item_to_candidate now item index # candidates_from now (Suc index) items"

definition items_to_candidates :: "datetime \<Rightarrow> queue_item list \<Rightarrow> scheduling_candidate list" where
  "items_to_candidates now items = candidates_from now 1 items"

section \<open>Decisions (policies/base.py)\<close>

type_synonym evaluation = "scheduling_decision list \<times> uuid list \<times> uuid list"

definition mk_decision :: "bool \<Rightarrow> string \<Rightarrow> scheduling_candidate \<Rightarrow> scheduling_decision" where
  "mk_decision sel reason c =
     \<lparr>sd_request_id = sc_request_id c, sd_correlation_id = sc_correlation_id c, sd_selected = sel,
      sd_decision_reason = reason, sd_queue_position = sc_queue_position c\<rparr>"

fun decide_from ::
  "nat \<Rightarrow> nat \<Rightarrow> string \<Rightarrow> string \<Rightarrow> evaluation \<Rightarrow> scheduling_candidate list \<Rightarrow> evaluation" where
  "decide_from index limit yes no acc [] = acc"
| "decide_from index limit yes no (decisions, selected, skipped) (c # cs) =
     decide_from (Suc index) limit yes no
       (if index < limit
        then (decisions @ [mk_decision True yes c], selected @ [sc_request_id c], skipped)
        else (decisions @ [mk_decision False no c], selected, skipped @ [sc_request_id c])) cs"

definition build_decisions ::
  "scheduling_candidate list \<Rightarrow> nat \<Rightarrow> string \<Rightarrow> string \<Rightarrow> evaluation" where
  "build_decisions ordered limit yes no = decide_from 0 limit yes no ([], [], []) ordered"

lemma decide_from_eq:
  "decide_from i n yes no (ds, sel, sk) cs =
     (ds @ map (mk_decision True yes) (take (n - i) cs) @ map (mk_decision False no) (drop (n - i) cs),
      sel @ map sc_request_id (take (n - i) cs), sk @ map sc_request_id (drop (n - i) cs))"
proof (induction cs arbitrary: i ds sel sk)
  case (Cons c cs)
  show ?case
  proof (cases "i < n")
    case True
    then have "n - i = Suc (n - Suc i)" by simp
    with True show ?thesis by (simp add: Cons.IH)
  qed (simp add: Cons.IH)
qed simp

lemma build_decisions_eq:
  "build_decisions cs n yes no =
     (map (mk_decision True yes) (take n cs) @ map (mk_decision False no) (drop n cs),
      map sc_request_id (take n cs), map sc_request_id (drop n cs))"
  by (simp add: build_decisions_def decide_from_eq)

text \<open>
  What a cycle relies on in a policy: an order of the candidates that loses and adds none and
  puts the preferred ones first, the decisions built from that order, and a policy of the same
  kind left behind.
\<close>

locale scheduling_policy =
  fixes evaluate :: "'p \<Rightarrow> scheduling_candidate list \<Rightarrow> nat \<Rightarrow> evaluation \<times> 'p"
    and order :: "'p \<Rightarrow> scheduling_candidate list \<Rightarrow> scheduling_candidate list"
    and prefers :: "'p \<Rightarrow> scheduling_candidate \<Rightarrow> scheduling_candidate \<Rightarrow> bool"
    and selected_reason :: "'p \<Rightarrow> string"
  assumes decided: "fst (evaluate p cs n) =
      build_decisions (order p cs) n (selected_reason p) ''max_candidates_reached''"
    and order_perm: "mset (order p cs) = mset cs"
    and order_sorted: "sorted_wrt (prefers p) (order p cs)"
begin

lemma selected_skipped:
  "mset (fst (snd (fst (evaluate p cs n)))) + mset (snd (snd (fst (evaluate p cs n)))) =
   mset (map sc_request_id cs)"
proof -
  let ?os = "order p cs"
  have "mset (map sc_request_id (take n ?os)) + mset (map sc_request_id (drop n ?os)) =
      image_mset sc_request_id (mset (take n ?os @ drop n ?os))"
    by (simp only: mset_append image_mset_union mset_map)
  then show ?thesis by (simp add: decided build_decisions_eq order_perm)
qed

lemma selected_count: "length (fst (snd (fst (evaluate p cs n)))) = min n (length cs)"
  using mset_eq_length [OF order_perm [of p cs]] by (simp add: decided build_decisions_eq min.commute)

lemma selected_preferred:
  "c \<in> set (take n (order p cs)) \<Longrightarrow> d \<in> set (drop n (order p cs)) \<Longrightarrow> prefers p c d"
  using order_sorted [of p cs] sorted_wrt_append [of "prefers p" "take n (order p cs)"] by force

lemma decisions_count: "length (fst (fst (evaluate p cs n))) = length cs"
  using mset_eq_length [OF order_perm [of p cs]] by (simp add: decided build_decisions_eq)

end

section \<open>The policies\<close>

subsection \<open>FIFO (policies/fifo.py)\<close>

definition fifo_key :: "scheduling_candidate \<Rightarrow> nat \<times> datetime" where
  "fifo_key c = (sc_queue_position c, sc_enqueued_at c)"

definition fifo_evaluate :: "scheduling_candidate list \<Rightarrow> nat \<Rightarrow> evaluation" where
  "fifo_evaluate cs n = build_decisions (sort_key fifo_key cs) n ''fifo_selected'' ''max_candidates_reached''"

subsection \<open>Shortest job first (policies/shortest_job_first.py)\<close>

definition sjf_key :: "scheduling_candidate \<Rightarrow> int \<times> nat \<times> datetime" where
  "sjf_key c = (sc_estimated_job_tokens c, sc_queue_position c, sc_enqueued_at c)"

definition sjf_evaluate :: "scheduling_candidate list \<Rightarrow> nat \<Rightarrow> evaluation" where
  "sjf_evaluate cs n = build_decisions (sort_key sjf_key cs) n ''sjf_selected'' ''max_candidates_reached''"

subsection \<open>Latency aware (policies/latency_aware.py)\<close>

record latency_policy =
  lp_queue_objective_ms :: rat
  lp_request_age_objective_ms :: rat

definition new_latency_policy :: "rat \<Rightarrow> rat \<Rightarrow> string + latency_policy" where
  "new_latency_policy q a =
     (if q \<le> 0 \<or> a \<le> 0 then Inl ''latency objectives must be positive''
      else Inr \<lparr>lp_queue_objective_ms = q, lp_request_age_objective_ms = a\<rparr>)"

definition latency_score :: "latency_policy \<Rightarrow> scheduling_candidate \<Rightarrow> rat" where
  "latency_score p c =
     sc_queue_wait_duration_ms c / lp_queue_objective_ms p
       + sc_request_age_ms c / lp_request_age_objective_ms p"

definition latency_key :: "latency_policy \<Rightarrow> scheduling_candidate \<Rightarrow> rat \<times> nat \<times> datetime" where
  "latency_key p c = (- latency_score p c, sc_queue_position c, sc_enqueued_at c)"

definition latency_evaluate :: "latency_policy \<Rightarrow> scheduling_candidate list \<Rightarrow> nat \<Rightarrow> evaluation" where
  "latency_evaluate p cs n =
     build_decisions (sort_key (latency_key p) cs) n ''latency_aware_selected'' ''max_candidates_reached''"

subsection \<open>Fairness (policies/fairness.py)\<close>

record fairness_policy =
  fp_elevated_weight :: rat
  fp_default_weight :: rat
  fp_background_weight :: rat
  fp_selection_counts :: "(string, nat) dict"

definition fairness_weights :: "fairness_policy \<Rightarrow> (string, rat) dict" where
  "fairness_weights p =
     [(priority_class_value PC_ELEVATED, fp_elevated_weight p),
      (priority_class_value PC_DEFAULT, fp_default_weight p),
      (priority_class_value PC_BACKGROUND, fp_background_weight p)]"

definition new_fairness_policy :: "rat \<Rightarrow> rat \<Rightarrow> rat \<Rightarrow> string + fairness_policy" where
  "new_fairness_policy elevated def bg =
     (if min elevated (min def bg) \<le> 0 then Inl ''fairness weights must be positive''
      else Inr \<lparr>fp_elevated_weight = elevated, fp_default_weight = def, fp_background_weight = bg,
                fp_selection_counts =
                  map (\<lambda>p. (priority_class_value p, 0)) [PC_ELEVATED, PC_DEFAULT, PC_BACKGROUND]\<rparr>)"

definition fairness_weight :: "fairness_policy \<Rightarrow> string \<Rightarrow> rat" where
  "fairness_weight p k =
     (case dict_get (fairness_weights p) k of Some w \<Rightarrow> w | None \<Rightarrow> fp_default_weight p)"

definition selection_count :: "fairness_policy \<Rightarrow> string \<Rightarrow> nat" where
  "selection_count p k = (case dict_get (fp_selection_counts p) k of None \<Rightarrow> 0 | Some n \<Rightarrow> n)"

definition fairness_ratio :: "fairness_policy \<Rightarrow> string \<Rightarrow> rat" where
  "fairness_ratio p k = of_nat (selection_count p k) / fairness_weight p k"

definition record_selections :: "scheduling_candidate list \<Rightarrow> fairness_policy \<Rightarrow> fairness_policy" where
  "record_selections cs p =
     fold (\<lambda>c q. q\<lparr>fp_selection_counts :=
        dict_set (sc_priority_class c) (selection_count q (sc_priority_class c) + 1)
          (fp_selection_counts q)\<rparr>) cs p"

definition fairness_key :: "fairness_policy \<Rightarrow> scheduling_candidate \<Rightarrow> rat \<times> rat \<times> nat \<times> datetime" where
  "fairness_key p c =
     (fairness_ratio p (sc_priority_class c), - sc_queue_wait_duration_ms c, sc_queue_position c,
      sc_enqueued_at c)"

definition fairness_evaluate ::
  "fairness_policy \<Rightarrow> scheduling_candidate list \<Rightarrow> nat \<Rightarrow> evaluation \<times> fairness_policy" where
  "fairness_evaluate p cs n =
     (let ordered = sort_key (fairness_key p) cs
      in (build_decisions ordered n ''fairness_selected'' ''max_candidates_reached'',
          record_selections (take n ordered) p))"

subsection \<open>The policy of a scheduler\<close>

datatype policy =
    FIFOSchedulerPolicy
  | ShortestJobFirstPolicy
  | LatencyAwarePolicy latency_policy
  | FairnessPolicy fairness_policy

fun policy_id :: "policy \<Rightarrow> string" where
  "policy_id FIFOSchedulerPolicy = ''fifo''"
| "policy_id ShortestJobFirstPolicy = ''shortest_job_first''"
| "policy_id (LatencyAwarePolicy _) = ''latency_aware''"
| "policy_id (FairnessPolicy _) = ''fairness''"

fun policy_evaluate :: "policy \<Rightarrow> scheduling_candidate list \<Rightarrow> nat \<Rightarrow> evaluation \<times> policy" where
  "policy_evaluate FIFOSchedulerPolicy cs n = (fifo_evaluate cs n, FIFOSchedulerPolicy)"
| "policy_evaluate ShortestJobFirstPolicy cs n = (sjf_evaluate cs n, ShortestJobFirstPolicy)"
| "policy_evaluate (LatencyAwarePolicy p) cs n = (latency_evaluate p cs n, LatencyAwarePolicy p)"
| "policy_evaluate (FairnessPolicy p) cs n =
     (case fairness_evaluate p cs n of (e, q) \<Rightarrow> (e, FairnessPolicy q))"

section \<open>The registry (policies/registry.py)\<close>

record policy_settings =
  ps_scheduler_policy_id :: string
  ps_latency_queue_objective_ms :: rat
  ps_latency_request_age_objective_ms :: rat
  ps_fairness_elevated_weight :: rat
  ps_fairness_default_weight :: rat
  ps_fairness_background_weight :: rat

datatype policy_exn = PE_ValueError string | PE_KeyError string

type_synonym policy_factory = "policy_settings \<Rightarrow> policy_exn + policy"
type_synonym policy_registry = "(string, policy_factory) dict"

definition register_policy ::
  "string \<Rightarrow> policy_factory \<Rightarrow> policy_registry \<Rightarrow> policy_exn + policy_registry" where
  "register_policy i f r =
     (if dict_get r i \<noteq> None then Inl (PE_ValueError (''policy already registered: '' @ i))
      else Inr (dict_set i f r))"

definition create_policy :: "string \<Rightarrow> policy_settings \<Rightarrow> policy_registry \<Rightarrow> policy_exn + policy" where
  "create_policy i st r =
     (case dict_get r i of
        None \<Rightarrow> Inl (PE_KeyError (''unknown scheduler policy: '' @ i))
      | Some f \<Rightarrow> f st)"

definition list_policy_ids :: "policy_registry \<Rightarrow> string list" where
  "list_policy_ids r = sort (dict_keys r)"

definition lift_factory :: "('a \<Rightarrow> policy) \<Rightarrow> string + 'a \<Rightarrow> policy_exn + policy" where
  "lift_factory k x = (case x of Inl e \<Rightarrow> Inl (PE_ValueError e) | Inr a \<Rightarrow> Inr (k a))"

definition default_factories :: "(string \<times> policy_factory) list" where
  "default_factories =
     [(''fifo'', \<lambda>_. Inr FIFOSchedulerPolicy),
      (''shortest_job_first'', \<lambda>_. Inr ShortestJobFirstPolicy),
      (''latency_aware'', \<lambda>s. lift_factory LatencyAwarePolicy
         (new_latency_policy (ps_latency_queue_objective_ms s) (ps_latency_request_age_objective_ms s))),
      (''fairness'', \<lambda>s. lift_factory FairnessPolicy
         (new_fairness_policy (ps_fairness_elevated_weight s) (ps_fairness_default_weight s)
            (ps_fairness_background_weight s)))]"

fun register_all :: "(string \<times> policy_factory) list \<Rightarrow> policy_registry \<Rightarrow> policy_exn + policy_registry" where
  "register_all [] r = Inr r"
| "register_all ((i, f) # fs) r =
     (case register_policy i f r of Inl e \<Rightarrow> Inl e | Inr r' \<Rightarrow> register_all fs r')"

definition build_policy :: "policy_settings \<Rightarrow> policy_exn + policy" where
  "build_policy st =
     (case register_all default_factories [] of
        Inl e \<Rightarrow> Inl e
      | Inr r \<Rightarrow> create_policy (ps_scheduler_policy_id st) st r)"

section \<open>The policies fulfil the contract\<close>

lemma sort_key_prefers: "sorted_wrt (\<lambda>c d. f c \<le> f d) (sort_key f cs)"
  using sorted_sort_key [of f cs] by (simp add: sorted_map)

interpretation fifo: scheduling_policy
  "\<lambda>_ :: unit. \<lambda>cs n. (fifo_evaluate cs n, ())" "\<lambda>_. sort_key fifo_key"
  "\<lambda>_ c d. fifo_key c \<le> fifo_key d" "\<lambda>_. ''fifo_selected''"
  by unfold_locales (simp_all add: fifo_evaluate_def sort_key_prefers)

interpretation sjf: scheduling_policy
  "\<lambda>_ :: unit. \<lambda>cs n. (sjf_evaluate cs n, ())" "\<lambda>_. sort_key sjf_key"
  "\<lambda>_ c d. sjf_key c \<le> sjf_key d" "\<lambda>_. ''sjf_selected''"
  by unfold_locales (simp_all add: sjf_evaluate_def sort_key_prefers)

interpretation latency: scheduling_policy
  "\<lambda>p cs n. (latency_evaluate p cs n, p)" "\<lambda>p. sort_key (latency_key p)"
  "\<lambda>p c d. latency_key p c \<le> latency_key p d" "\<lambda>_. ''latency_aware_selected''"
  by unfold_locales (simp_all add: latency_evaluate_def sort_key_prefers)

interpretation fairness: scheduling_policy
  fairness_evaluate "\<lambda>p. sort_key (fairness_key p)"
  "\<lambda>p c d. fairness_key p c \<le> fairness_key p d" "\<lambda>_. ''fairness_selected''"
  by unfold_locales (simp_all add: fairness_evaluate_def Let_def sort_key_prefers)

end
