(* ===== verification/Policy_Properties.thy ===== *)
theory Policy_Properties
  imports Policies
begin

text \<open>
  The properties of the scheduling policies: what every policy does with the candidates, whom
  it prefers, the head of the queue under FIFO, and the bound on how far the fairness policy
  lets one priority class run ahead of another over any number of cycles.
\<close>

section \<open>Every policy\<close>

definition sample_candidate :: "uuid \<Rightarrow> nat \<Rightarrow> string \<Rightarrow> scheduling_candidate" where
  "sample_candidate i position class =
     \<lparr>sc_request_id = i, sc_model = ''demo'', sc_correlation_id = ''t'', sc_queue_name = ''q'',
      sc_queue_position = position, sc_queue_wait_duration_ms = 1, sc_enqueued_at = 0,
      sc_max_tokens = 10 - int position, sc_estimated_input_tokens = 1,
      sc_estimated_job_tokens = 11 - int position, sc_priority_class = class,
      sc_request_age_ms = 1\<rparr>"

fun policy_order :: "policy \<Rightarrow> scheduling_candidate list \<Rightarrow> scheduling_candidate list" where
  "policy_order FIFOSchedulerPolicy = sort_key fifo_key"
| "policy_order ShortestJobFirstPolicy = sort_key sjf_key"
| "policy_order (LatencyAwarePolicy p) = sort_key (latency_key p)"
| "policy_order (FairnessPolicy p) = sort_key (fairness_key p)"

fun policy_key_le :: "policy \<Rightarrow> scheduling_candidate \<Rightarrow> scheduling_candidate \<Rightarrow> bool" where
  "policy_key_le FIFOSchedulerPolicy c d \<longleftrightarrow> fifo_key c \<le> fifo_key d"
| "policy_key_le ShortestJobFirstPolicy c d \<longleftrightarrow> sjf_key c \<le> sjf_key d"
| "policy_key_le (LatencyAwarePolicy p) c d \<longleftrightarrow> latency_key p c \<le> latency_key p d"
| "policy_key_le (FairnessPolicy p) c d \<longleftrightarrow> fairness_key p c \<le> fairness_key p d"

fun policy_reason :: "policy \<Rightarrow> string" where
  "policy_reason FIFOSchedulerPolicy = ''fifo_selected''"
| "policy_reason ShortestJobFirstPolicy = ''sjf_selected''"
| "policy_reason (LatencyAwarePolicy _) = ''latency_aware_selected''"
| "policy_reason (FairnessPolicy _) = ''fairness_selected''"

lemma policy_evaluate_fst:
  "fst (policy_evaluate p cs n) =
     build_decisions (policy_order p cs) n (policy_reason p) ''max_candidates_reached''"
  using fifo.decided sjf.decided latency.decided fairness.decided
  by (cases p) (auto split: prod.split simp: fifo_evaluate_def sjf_evaluate_def latency_evaluate_def
      fairness_evaluate_def Let_def)

lemma policy_order_perm: "mset (policy_order p cs) = mset cs"
  by (cases p) simp_all

lemma policy_order_sorted: "sorted_wrt (policy_key_le p) (policy_order p cs)"
  by (cases p) (auto intro: sorted_wrt_mono_rel [OF _ sort_key_prefers])

text \<open>The configured policy, whichever it is, is again a scheduling policy.\<close>

interpretation pol: scheduling_policy policy_evaluate policy_order policy_key_le policy_reason
  by unfold_locales (simp_all add: policy_evaluate_fst policy_order_perm policy_order_sorted)

text \<open>C29: Whatever the policy, an evaluation selects exactly the smaller of
  \<open>max_candidate_requests\<close> and the number of candidates, every candidate is selected or
  skipped and none twice, there is one decision per candidate, in the order selected before
  skipped and flagged accordingly, and the policy keeps its identity.\<close>

theorem policy_selects:
  "length (fst (snd (fst (policy_evaluate p cs n)))) = min n (length cs) \<and>
   mset (fst (snd (fst (policy_evaluate p cs n)))) + mset (snd (snd (fst (policy_evaluate p cs n)))) =
     mset (map sc_request_id cs) \<and>
   map (\<lambda>d. (sd_request_id d, sd_selected d)) (fst (fst (policy_evaluate p cs n))) =
     map (\<lambda>i. (i, True)) (fst (snd (fst (policy_evaluate p cs n)))) @
     map (\<lambda>i. (i, False)) (snd (snd (fst (policy_evaluate p cs n)))) \<and>
   policy_id (snd (policy_evaluate p cs n)) = policy_id p"
proof -
  have "policy_id (snd (policy_evaluate p cs n)) = policy_id p"
    by (cases p) (auto split: prod.split)
  moreover have "map (\<lambda>d. (sd_request_id d, sd_selected d)) (fst (fst (policy_evaluate p cs n))) =
      map (\<lambda>i. (i, True)) (fst (snd (fst (policy_evaluate p cs n)))) @
      map (\<lambda>i. (i, False)) (snd (snd (fst (policy_evaluate p cs n))))"
    by (simp add: policy_evaluate_fst build_decisions_eq mk_decision_def)
  ultimately show ?thesis using pol.selected_count pol.selected_skipped by blast
qed

text \<open>C31: A selected candidate is never worse than a skipped one: FIFO selects by queue
  position, shortest-job-first by the estimated number of tokens, the latency-aware policy by
  the pressure score, and the fairness policy by the ratio of past selections to weight of the
  priority class, ties going to the longer wait.\<close>

theorem policy_preference:
  assumes "distinct (map sc_request_id cs)" and "c \<in> set cs" and "d \<in> set cs"
    and "sc_request_id c \<in> set (fst (snd (fst (policy_evaluate p cs n))))"
    and "sc_request_id d \<in> set (snd (snd (fst (policy_evaluate p cs n))))"
  shows "case p of
      FIFOSchedulerPolicy \<Rightarrow> sc_queue_position c \<le> sc_queue_position d
    | ShortestJobFirstPolicy \<Rightarrow> sc_estimated_job_tokens c \<le> sc_estimated_job_tokens d
    | LatencyAwarePolicy lp \<Rightarrow> latency_score lp d \<le> latency_score lp c
    | FairnessPolicy fp \<Rightarrow>
        fairness_ratio fp (sc_priority_class c) < fairness_ratio fp (sc_priority_class d) \<or>
        fairness_ratio fp (sc_priority_class c) = fairness_ratio fp (sc_priority_class d) \<and>
        sc_queue_wait_duration_ms d \<le> sc_queue_wait_duration_ms c"
proof -
  let ?os = "policy_order p cs"
  have "set ?os = set cs" using policy_order_perm [of p cs] by (metis set_mset_mset)
  have inj: "inj_on sc_request_id (set cs)" using assms(1) by (simp add: distinct_map)
  have "c \<in> set (take n ?os)" "d \<in> set (drop n ?os)"
    using assms(2-5) inj \<open>set ?os = set cs\<close> set_take_subset [of n ?os] set_drop_subset [of n ?os]
    by (auto simp: policy_evaluate_fst build_decisions_eq dest: inj_onD)
  then have "policy_key_le p c d" by (rule pol.selected_preferred)
  then show ?thesis
    by (cases p) (auto simp: fifo_key_def sjf_key_def latency_key_def fairness_key_def)
qed

theorem policy_preference_witness:
  "sc_estimated_job_tokens (sample_candidate ''b'' 2 ''default'') \<le>
   sc_estimated_job_tokens (sample_candidate ''a'' 1 ''default'')"
proof -
  let ?a = "sample_candidate ''a'' 1 ''default''" and ?b = "sample_candidate ''b'' 2 ''default''"
  have "fst (policy_evaluate ShortestJobFirstPolicy [?a, ?b] 1) =
      build_decisions [?b, ?a] 1 ''sjf_selected'' ''max_candidates_reached''"
    by (simp add: sjf_evaluate_def sjf_key_def sample_candidate_def)
  then show ?thesis
    using policy_preference [of "[?a, ?b]" ?b ?a ShortestJobFirstPolicy 1]
    by (simp add: build_decisions_eq sample_candidate_def)
qed

section \<open>FIFO and the queue\<close>

lemma candidates_from_ids: "map sc_request_id (candidates_from now i items) = map qi_request_id items"
  by (induction items arbitrary: i) (simp_all add: queue_item_to_candidate_def Let_def)

lemma candidates_from_positions:
  "map sc_queue_position (candidates_from now i items) = [i..<i + length items]"
proof (induction items arbitrary: i)
  case (Cons x xs)
  show ?case by (simp add: Cons.IH queue_item_to_candidate_def Let_def upt_conv_Cons del: upt_Suc)
qed simp

lemma candidates_sorted: "sorted (map fifo_key (candidates_from now i items))"
proof -
  have "sorted_wrt (\<lambda>c d. sc_queue_position c < sc_queue_position d) (candidates_from now i items)"
    using sorted_wrt_upt [of i "i + length items"]
    by (simp only: sorted_wrt_map flip: candidates_from_positions [of now i items])
  then have "sorted_wrt (\<lambda>c d. fifo_key c \<le> fifo_key d) (candidates_from now i items)"
    by (rule sorted_wrt_mono_rel [rotated]) (simp add: fifo_key_def)
  then show ?thesis by (simp add: sorted_map)
qed

text \<open>Under FIFO a cycle selects exactly the first \<open>max_candidate_requests\<close> requests of the
  queue, in queue order, and skips the rest in queue order, whatever their enqueue times.\<close>

theorem fifo_takes_head:
  "fst (snd (fst (policy_evaluate FIFOSchedulerPolicy (items_to_candidates now items) n))) =
     map qi_request_id (take n items) \<and>
   snd (snd (fst (policy_evaluate FIFOSchedulerPolicy (items_to_candidates now items) n))) =
     map qi_request_id (drop n items)"
  using candidates_from_ids [of now 1 items]
  by (simp add: fifo_evaluate_def items_to_candidates_def build_decisions_eq
      sort_key_sorted [OF candidates_sorted] flip: take_map drop_map)

section \<open>Fairness\<close>

lemma record_selections_simps [simp]:
  "fp_elevated_weight (record_selections cs p) = fp_elevated_weight p"
  "fp_default_weight (record_selections cs p) = fp_default_weight p"
  "fp_background_weight (record_selections cs p) = fp_background_weight p"
  by (induction cs arbitrary: p) (simp_all add: record_selections_def)

lemma fairness_weight_recorded [simp]: "fairness_weight (record_selections cs p) k = fairness_weight p k"
  by (simp add: fairness_weight_def fairness_weights_def)

lemma record_selections_count:
  "selection_count (record_selections cs p) k =
     selection_count p k + length (filter (\<lambda>c. sc_priority_class c = k) cs)"
  by (induction cs arbitrary: p) (auto simp: record_selections_def selection_count_def)

definition fairness_ok :: "fairness_policy \<Rightarrow> bool" where
  "fairness_ok p \<longleftrightarrow> 0 < fp_elevated_weight p \<and> 0 < fp_default_weight p \<and> 0 < fp_background_weight p"

lemma fairness_ok_weight: "fairness_ok p \<Longrightarrow> 0 < fairness_weight p k"
  by (simp add: fairness_ok_def fairness_weight_def fairness_weights_def)

primrec fairness_run :: "nat \<Rightarrow> scheduling_candidate list list \<Rightarrow> fairness_policy \<Rightarrow> fairness_policy" where
  "fairness_run n [] p = p"
| "fairness_run n (cs # css) p = fairness_run n css (snd (fairness_evaluate p cs n))"

primrec backlogged ::
  "string \<Rightarrow> nat \<Rightarrow> scheduling_candidate list list \<Rightarrow> fairness_policy \<Rightarrow> bool" where
  "backlogged k n [] p = True"
| "backlogged k n (cs # css) p =
     (list_ex (\<lambda>d. sc_priority_class d = k) (drop n (sort_key (fairness_key p) cs)) \<and>
      backlogged k n css (snd (fairness_evaluate p cs n)))"

definition within_bound :: "nat \<Rightarrow> string \<Rightarrow> fairness_policy \<Rightarrow> bool" where
  "within_bound n k p \<longleftrightarrow>
     (\<forall>j. fairness_ratio p j \<le> fairness_ratio p k + of_nat n / fairness_weight p j)"

lemma fairness_step:
  assumes ok: "fairness_ok p" and bound: "within_bound n k p"
    and left: "list_ex (\<lambda>d. sc_priority_class d = k) (drop n (sort_key (fairness_key p) cs))"
  shows "within_bound n k (snd (fairness_evaluate p cs n))"
  unfolding within_bound_def
proof
  fix j
  let ?sel = "take n (sort_key (fairness_key p) cs)" and ?q = "snd (fairness_evaluate p cs n)"
  let ?picked = "\<lambda>i. length (filter (\<lambda>c. sc_priority_class c = i) ?sel)"
  have q: "?q = record_selections ?sel p" by (simp add: fairness_evaluate_def Let_def)
  have ratio: "fairness_ratio ?q i = fairness_ratio p i + of_nat (?picked i) / fairness_weight p i" for i
    by (simp add: fairness_ratio_def q record_selections_count add_divide_distrib)
  have grows: "fairness_ratio p k \<le> fairness_ratio ?q k"
    using fairness_ok_weight [OF ok, of k] by (simp add: ratio)
  have w: "0 < fairness_weight p j" using ok by (rule fairness_ok_weight)
  show "fairness_ratio ?q j \<le> fairness_ratio ?q k + of_nat n / fairness_weight ?q j"
  proof (cases "?picked j = 0")
    case True
    then have "fairness_ratio ?q j = fairness_ratio p j" by (simp add: ratio)
    also have "\<dots> \<le> fairness_ratio p k + of_nat n / fairness_weight p j"
      using bound by (simp add: within_bound_def)
    finally show ?thesis using grows by (simp add: q)
  next
    case False
    then obtain c where c: "c \<in> set ?sel" "sc_priority_class c = j"
      by (auto simp: filter_empty_conv)
    obtain d where d: "d \<in> set (drop n (sort_key (fairness_key p) cs))" "sc_priority_class d = k"
      using left by (auto simp: list_ex_iff)
    have "fairness_key p c \<le> fairness_key p d"
      using c(1) d(1) by (rule fairness.selected_preferred)
    then have le: "fairness_ratio p j \<le> fairness_ratio p k"
      using c(2) d(2) by (auto simp: fairness_key_def)
    have "?picked j \<le> n"
      by (rule order_trans [OF length_filter_le]) simp
    then have "of_nat (?picked j) / fairness_weight p j \<le> of_nat n / fairness_weight p j"
      using w by (simp add: divide_right_mono)
    moreover have same: "fairness_weight ?q j = fairness_weight p j" by (simp add: q)
    ultimately show ?thesis using le grows ratio [of j] unfolding same by linarith
  qed
qed

lemma fairness_evaluate_ok: "fairness_ok p \<Longrightarrow> fairness_ok (snd (fairness_evaluate p cs n))"
  by (simp add: fairness_evaluate_def Let_def fairness_ok_def)

lemma fairness_run_bound:
  "fairness_ok p \<Longrightarrow> within_bound n k p \<Longrightarrow> backlogged k n css p \<Longrightarrow>
   within_bound n k (fairness_run n css p)"
  by (induction css arbitrary: p) (auto intro: fairness_step fairness_evaluate_ok)

lemma new_fairness_ok:
  assumes "new_fairness_policy e d b = Inr p"
  shows "fairness_ok p" and "within_bound n k p"
proof -
  have p: "fairness_ok p" "\<And>i. selection_count p i = 0"
    using assms by (auto simp: new_fairness_policy_def fairness_ok_def selection_count_def split: if_splits)
  then show "fairness_ok p" by simp
  show "within_bound n k p"
    using fairness_ok_weight [OF p(1)] by (simp add: within_bound_def fairness_ratio_def p(2) less_imp_le)
qed

text \<open>C8: No priority class is starved by the fairness policy: over any number of cycles, as long
  as every cycle leaves some candidate of class \<open>k\<close> unselected, no other class has been selected,
  relative to its weight, more than one cycle's selections (\<open>max_candidate_requests\<close> over its
  weight) ahead of \<open>k\<close>.\<close>

theorem fairness_bounded:
  assumes "new_fairness_policy e d b = Inr p" and "backlogged k n css p"
  shows "fairness_ratio (fairness_run n css p) j \<le>
    fairness_ratio (fairness_run n css p) k + of_nat n / fairness_weight (fairness_run n css p) j"
  using fairness_run_bound [OF new_fairness_ok [OF assms(1)] assms(2)] by (simp add: within_bound_def)

definition sample_fairness :: fairness_policy where
  "sample_fairness =
     \<lparr>fp_elevated_weight = 3, fp_default_weight = 2, fp_background_weight = 1,
      fp_selection_counts = [(''elevated'', 0), (''default'', 0), (''background'', 0)]\<rparr>"

theorem fairness_bounded_witness:
  "fairness_ratio (fairness_run 1
      [[sample_candidate ''a'' 1 ''elevated'', sample_candidate ''b'' 2 ''background'']] sample_fairness)
     ''elevated'' \<le>
   fairness_ratio (fairness_run 1
      [[sample_candidate ''a'' 1 ''elevated'', sample_candidate ''b'' 2 ''background'']] sample_fairness)
     ''background'' +
   of_nat 1 / fairness_weight (fairness_run 1
      [[sample_candidate ''a'' 1 ''elevated'', sample_candidate ''b'' 2 ''background'']] sample_fairness)
     ''elevated''"
proof -
  have new: "new_fairness_policy 3 2 1 = Inr sample_fairness"
    by (simp add: new_fairness_policy_def sample_fairness_def)
  show ?thesis
  proof (rule fairness_bounded [OF new])
    show "backlogged ''background'' 1
      [[sample_candidate ''a'' 1 ''elevated'', sample_candidate ''b'' 2 ''background'']] sample_fairness"
      by (simp add: fairness_key_def sample_candidate_def sample_fairness_def fairness_ratio_def
          selection_count_def)
  qed
qed

end
