(* ===== verification/Batch_Model.thy ===== *)
theory Batch_Model
  imports Lifecycle_Events
begin

text \<open>
  The data of the continuous batching engine (\<open>scheduler/batch/models.py\<close>, \<open>active_set.py\<close>,
  \<open>transitions.py\<close>, \<open>admission.py\<close>) and its events (\<open>scheduler/observability\<close>).
\<close>

section \<open>Batches and members (batch/models.py)\<close>

datatype batch_state =
    BS_CREATED | BS_FILLING | BS_READY | BS_ACTIVE | BS_COMPLETED | BS_FAILED | BS_CANCELLED

fun batch_state_value :: "batch_state \<Rightarrow> string" where
  "batch_state_value BS_CREATED = ''created''"
| "batch_state_value BS_FILLING = ''filling''"
| "batch_state_value BS_READY = ''ready''"
| "batch_state_value BS_ACTIVE = ''active''"
| "batch_state_value BS_COMPLETED = ''completed''"
| "batch_state_value BS_FAILED = ''failed''"
| "batch_state_value BS_CANCELLED = ''cancelled''"

definition batch_terminal :: "batch_state \<Rightarrow> bool" where
  "batch_terminal st \<longleftrightarrow> st \<in> {BS_COMPLETED, BS_FAILED, BS_CANCELLED}"

datatype member_status = MS_ACTIVE | MS_COMPLETED | MS_CANCELLED | MS_FAILED

fun member_status_value :: "member_status \<Rightarrow> string" where
  "member_status_value MS_ACTIVE = ''active''"
| "member_status_value MS_COMPLETED = ''completed''"
| "member_status_value MS_CANCELLED = ''cancelled''"
| "member_status_value MS_FAILED = ''failed''"

record batch_member =
  bm_request_id :: uuid
  bm_slot_index :: nat
  bm_model :: string
  bm_correlation_id :: string
  bm_added_at :: datetime
  bm_status :: member_status

record batch_context =
  bx_batch_id :: uuid
  bx_model :: string
  bx_state :: batch_state
  bx_created_at :: datetime
  bx_admission_window_end :: datetime
  bx_activated_at :: "datetime option"
  bx_completed_at :: "datetime option"
  bx_failure_reason :: "string option"

record batch =
  b_context :: batch_context
  b_members :: "batch_member list"

abbreviation b_id :: "batch \<Rightarrow> uuid" where "b_id b \<equiv> bx_batch_id (b_context b)"
abbreviation b_state :: "batch \<Rightarrow> batch_state" where "b_state b \<equiv> bx_state (b_context b)"
abbreviation b_model :: "batch \<Rightarrow> string" where "b_model b \<equiv> bx_model (b_context b)"

definition member_active :: "batch_member \<Rightarrow> bool" where
  "member_active m \<longleftrightarrow> bm_status m = MS_ACTIVE"

definition active_members :: "batch \<Rightarrow> batch_member list" where
  "active_members b = filter member_active (b_members b)"

definition active_member_count :: "batch \<Rightarrow> nat" where
  "active_member_count b = length (active_members b)"

record batch_result =
  br_batch_id :: uuid
  br_request_id :: "uuid option"
  br_success :: bool
  br_decision_reason :: string
  br_previous_state :: "batch_state option"
  br_new_state :: "batch_state option"

record batch_snapshot =
  bsn_batch_id :: uuid
  bsn_model :: string
  bsn_state :: batch_state
  bsn_member_count :: nat
  bsn_active_member_count :: nat
  bsn_members :: "batch_member list"
  bsn_created_at :: datetime
  bsn_captured_at :: datetime

record batch_statistics =
  bst_total_batches :: nat
  bst_active_batches :: nat
  bst_filling_batches :: nat
  bst_total_active_requests :: nat
  bst_total_completed_requests :: nat
  bst_total_failed_requests :: nat
  bst_total_cancelled_requests :: nat
  bst_captured_at :: datetime

section \<open>Transitions (batch/transitions.py)\<close>

datatype scheduler_exn =
    SE_ValueError string
  | SE_KeyError string
  | SE_InvalidBatchTransition batch_state batch_state
  | SE_Injected injected_failure

fun allowed_batch_transitions :: "batch_state \<Rightarrow> batch_state list" where
  "allowed_batch_transitions BS_CREATED = [BS_FILLING, BS_CANCELLED]"
| "allowed_batch_transitions BS_FILLING = [BS_FILLING, BS_READY, BS_CANCELLED, BS_FAILED]"
| "allowed_batch_transitions BS_READY = [BS_ACTIVE, BS_CANCELLED, BS_FAILED]"
| "allowed_batch_transitions BS_ACTIVE = [BS_ACTIVE, BS_COMPLETED, BS_FAILED, BS_CANCELLED]"
| "allowed_batch_transitions _ = []"

definition can_transition :: "batch_state \<Rightarrow> batch_state \<Rightarrow> bool" where
  "can_transition from_state to_state =
     (if from_state = to_state then from_state \<in> {BS_FILLING, BS_ACTIVE}
      else if batch_terminal from_state then False
      else to_state \<in> set (allowed_batch_transitions from_state))"

definition batch_transition :: "batch_state \<Rightarrow> batch_state \<Rightarrow> scheduler_exn + batch_state" where
  "batch_transition from_state to_state =
     (if \<not> can_transition from_state to_state
      then Inl (SE_InvalidBatchTransition from_state to_state) else Inr to_state)"

interpretation batch_machine: state_machine can_transition batch_terminal
  by unfold_locales (auto simp: can_transition_def batch_terminal_def split: if_splits)

section \<open>Admission rules (batch/admission.py)\<close>

datatype batch_admission_decision = BA_ACCEPT | BA_REJECT

record batch_admission_config =
  bac_max_batch_size :: int
  bac_max_active_requests :: int
  bac_batch_admission_window_ms :: int

definition validate_batch_config :: "batch_admission_config \<Rightarrow> scheduler_exn + unit" where
  "validate_batch_config c =
     (if bac_max_batch_size c < 1 then Inl (SE_ValueError ''max_batch_size must be >= 1'')
      else if bac_max_active_requests c < 1
      then Inl (SE_ValueError ''max_active_requests must be >= 1'')
      else if bac_batch_admission_window_ms c < 1
      then Inl (SE_ValueError ''batch_admission_window_ms must be >= 1'')
      else Inr ())"

definition evaluate_batch_admission ::
  "batch option \<Rightarrow> nat \<Rightarrow> batch_admission_config \<Rightarrow> datetime \<Rightarrow> batch_admission_decision \<times> string"
  where
  "evaluate_batch_admission b global_active_count c now =
     (if int global_active_count \<ge> bac_max_active_requests c
      then (BA_REJECT, ''max_active_requests_reached'')
      else case b of
        None \<Rightarrow> (BA_ACCEPT, ''new_batch'')
      | Some b \<Rightarrow>
          if b_state b \<in> {BS_COMPLETED, BS_FAILED, BS_CANCELLED} then (BA_REJECT, ''batch_terminal'')
          else if int (active_member_count b) \<ge> bac_max_batch_size c
          then (if b_state b = BS_ACTIVE then (BA_REJECT, ''batch_full_no_slots'')
                else (BA_REJECT, ''batch_full''))
          else if b_state b = BS_FILLING \<and> now > bx_admission_window_end (b_context b)
          then (BA_REJECT, ''admission_window_closed'')
          else (BA_ACCEPT, ''batch_has_capacity''))"

section \<open>Request sets (batch/active_set.py)\<close>

type_synonym active_set = "(uuid, batch_member) dict"

definition set_add_request :: "batch_member \<Rightarrow> active_set \<Rightarrow> scheduler_exn + active_set" where
  "set_add_request m d =
     (if dict_get d (bm_request_id m) \<noteq> None
      then Inl (SE_ValueError (''request already in batch: '' @ bm_request_id m))
      else Inr (dict_set (bm_request_id m) m d))"

definition set_remove_request :: "uuid \<Rightarrow> active_set \<Rightarrow> batch_member option \<times> active_set" where
  "set_remove_request i d = (dict_get d i, dict_del i d)"

definition set_replace_request ::
  "uuid \<Rightarrow> batch_member \<Rightarrow> active_set \<Rightarrow> batch_member option \<times> active_set" where
  "set_replace_request i m d = (dict_get d i, dict_set (bm_request_id m) m (dict_del i d))"

definition list_active_requests :: "active_set \<Rightarrow> batch_member list" where
  "list_active_requests d = filter member_active (dict_values d)"

definition list_by_status :: "member_status \<Rightarrow> active_set \<Rightarrow> batch_member list" where
  "list_by_status st d = filter (\<lambda>m. bm_status m = st) (dict_values d)"

definition active_count :: "active_set \<Rightarrow> nat" where
  "active_count d = length (list_active_requests d)"

definition set_status :: "uuid \<Rightarrow> member_status \<Rightarrow> active_set \<Rightarrow> batch_member option \<times> active_set" where
  "set_status i st d =
     (case dict_get d i of
        None \<Rightarrow> (None, d)
      | Some m \<Rightarrow> let m' = m\<lparr>bm_status := st\<rparr> in (Some m', dict_set i m' d))"

interpretation members: keyed_store
  "\<lambda>d :: active_set. dict_get d" "\<lambda>i m d. dict_set i m d"
  "\<lambda>i d. snd (set_remove_request i d)" "\<lambda>d. dict_keys d" wf_dict
  by unfold_locales
    (auto simp: set_remove_request_def wf_dict_def map_of_eq_None_iff image_iff distinct_update
      distinct_delete)

text \<open>Storing a member changes the number of active ones by the difference it makes.\<close>

definition active_weight :: "batch_member \<Rightarrow> nat" where
  "active_weight m = (if member_active m then 1 else 0)"

lemma active_count_sum: "active_count d = sum_list (map active_weight (dict_values d))"
  unfolding active_count_def list_active_requests_def length_filter_sum
  by (simp add: active_weight_def comp_def)

lemma active_count_set:
  "wf_dict d \<Longrightarrow> dict_get d i = Some m \<Longrightarrow>
   active_count (dict_set i m' d) + active_weight m = active_count d + active_weight m'"
  unfolding active_count_sum by (rule sum_list_dict_set)

lemma active_count_fresh:
  "dict_get d i = None \<Longrightarrow> active_count (dict_set i m d) = active_count d + active_weight m"
  unfolding active_count_sum by (rule sum_list_dict_set_fresh)

lemma active_count_retire:
  assumes "wf_dict d" and "st \<noteq> MS_ACTIVE"
  shows "active_count (snd (set_status i st d)) \<le> active_count d"
proof (cases "dict_get d i")
  case None
  then show ?thesis by (simp add: set_status_def)
next
  case (Some m)
  from active_count_set [OF assms(1) this, of "m\<lparr>bm_status := st\<rparr>"] assms(2) Some show ?thesis
    by (simp add: set_status_def Let_def active_weight_def member_active_def split: if_splits)
qed

section \<open>Events (scheduler/observability)\<close>

datatype batch_event_type =
    BE_CREATED | BE_ADMISSION | BE_FULL | BE_REQUEST_ADDED | BE_REQUEST_REMOVED | BE_COMPLETED
  | BE_FAILED

fun batch_event_value :: "batch_event_type \<Rightarrow> string" where
  "batch_event_value BE_CREATED = ''batch_created''"
| "batch_event_value BE_ADMISSION = ''batch_admission''"
| "batch_event_value BE_FULL = ''batch_full''"
| "batch_event_value BE_REQUEST_ADDED = ''request_added_to_batch''"
| "batch_event_value BE_REQUEST_REMOVED = ''request_removed_from_batch''"
| "batch_event_value BE_COMPLETED = ''batch_completed''"
| "batch_event_value BE_FAILED = ''batch_failed''"

definition emit_batch ::
  "datetime \<Rightarrow> batch_event_type \<Rightarrow> uuid option \<Rightarrow> uuid option \<Rightarrow> string option \<Rightarrow> string \<Rightarrow>
   extra \<Rightarrow> observers \<Rightarrow> observers" where
  "emit_batch now ev batch_id request_id correlation_id decision_reason x obs =
     (if request_id = None then obs
      else on_trace (record_optional
             \<lparr>oe_request_id = request_id, oe_correlation_id = correlation_id, oe_timestamp = now,
              oe_component = RT_SCHEDULER, oe_event_type = batch_event_value ev,
              oe_scheduler_cycle_id = None, oe_batch_id = batch_id, oe_backend_id = None,
              oe_decision_reason = Some decision_reason, oe_extra = x\<rparr>) obs)"

datatype scheduler_event_type =
    SEV_CYCLE_STARTED | SEV_CYCLE_COMPLETED | SEV_REQUEST_SELECTED | SEV_REQUEST_SKIPPED
  | SEV_FAILURE

fun scheduler_event_value :: "scheduler_event_type \<Rightarrow> string" where
  "scheduler_event_value SEV_CYCLE_STARTED = ''scheduler_cycle_started''"
| "scheduler_event_value SEV_CYCLE_COMPLETED = ''scheduler_cycle_completed''"
| "scheduler_event_value SEV_REQUEST_SELECTED = ''request_selected''"
| "scheduler_event_value SEV_REQUEST_SKIPPED = ''request_skipped''"
| "scheduler_event_value SEV_FAILURE = ''scheduler_failure''"

definition emit_scheduler ::
  "datetime \<Rightarrow> scheduler_event_type \<Rightarrow> string option \<Rightarrow> uuid option \<Rightarrow> string option \<Rightarrow>
   string option \<Rightarrow> extra \<Rightarrow> observers \<Rightarrow> observers" where
  "emit_scheduler now ev cycle_id request_id correlation_id decision_reason x obs =
     (if request_id = None then obs
      else on_trace (record_optional
             \<lparr>oe_request_id = request_id, oe_correlation_id = correlation_id, oe_timestamp = now,
              oe_component = RT_SCHEDULER, oe_event_type = scheduler_event_value ev,
              oe_scheduler_cycle_id = cycle_id, oe_batch_id = extra_str ''batch_id'' x,
              oe_backend_id = None, oe_decision_reason = decision_reason, oe_extra = x\<rparr>) obs)"

end
