(* ===== verification/Batch_Engine.thy ===== *)
theory Batch_Engine
  imports Batch_Model
begin

text \<open>
  The continuous batching engine (\<open>scheduler/batch/engine.py\<close>), its service facade
  (\<open>service.py\<close>) and its inspection (\<open>inspection.py\<close>). Each public method takes the engine's
  lock and is one operation. Ids from \<open>uuid4\<close> and clock readings are arguments; one reading
  stands for all those of a call.
\<close>

section \<open>State\<close>

record engine_state =
  eg_config :: batch_admission_config
  eg_injector :: "failure_injection_config option"
  eg_observers :: observers
  eg_batches :: "(uuid, batch) dict"
  eg_sets :: "(uuid, active_set) dict"
  eg_request_to_batch :: "(uuid, uuid) dict"
  eg_active_by_model :: "(string, uuid) dict"
  eg_assignments :: "(uuid, batch_assignment) dict"

type_synonym 'a eng = "(engine_state, scheduler_exn, 'a) op"

definition new_engine ::
  "batch_admission_config \<Rightarrow> failure_injection_config option \<Rightarrow> observers \<Rightarrow>
   scheduler_exn + engine_state" where
  "new_engine c fi obs =
     (case validate_batch_config c of
        Inl e \<Rightarrow> Inl e
      | Inr _ \<Rightarrow> Inr \<lparr>eg_config = c, eg_injector = fi, eg_observers = obs, eg_batches = [],
                     eg_sets = [], eg_request_to_batch = [], eg_active_by_model = [],
                     eg_assignments = []\<rparr>)"

definition put_batch :: "uuid \<Rightarrow> batch \<Rightarrow> engine_state \<Rightarrow> engine_state" where
  "put_batch i b s = s\<lparr>eg_batches := dict_set i b (eg_batches s)\<rparr>"

definition the_batch :: "uuid \<Rightarrow> batch eng" where
  "the_batch i s =
     (case dict_get (eg_batches s) i of None \<Rightarrow> (Inl (SE_KeyError i), s) | Some b \<Rightarrow> (Inr b, s))"

definition the_set :: "uuid \<Rightarrow> active_set eng" where
  "the_set i s =
     (case dict_get (eg_sets s) i of None \<Rightarrow> (Inl (SE_KeyError i), s) | Some d \<Rightarrow> (Inr d, s))"

definition observe_op :: "(observers \<Rightarrow> observers) \<Rightarrow> unit eng" where
  "observe_op f = modify_op (\<lambda>s. s\<lparr>eg_observers := f (eg_observers s)\<rparr>)"

section \<open>Reads\<close>

definition get_batch :: "uuid \<Rightarrow> engine_state \<Rightarrow> batch option" where
  "get_batch i s = dict_get (eg_batches s) i"

definition list_batches :: "engine_state \<Rightarrow> batch list" where
  "list_batches s = dict_values (eg_batches s)"

definition get_active_batch :: "string \<Rightarrow> engine_state \<Rightarrow> batch option" where
  "get_active_batch model s =
     (case dict_get (eg_active_by_model s) model of
        None \<Rightarrow> None
      | Some i \<Rightarrow>
          (case dict_get (eg_batches s) i of
             None \<Rightarrow> None
           | Some b \<Rightarrow> if b_state b \<in> {BS_FILLING, BS_ACTIVE} then Some b else None))"

definition global_active_count :: "engine_state \<Rightarrow> nat" where
  "global_active_count s = sum_list (map active_count (dict_values (eg_sets s)))"

definition get_assignment :: "uuid \<Rightarrow> engine_state \<Rightarrow> batch_assignment option" where
  "get_assignment r s = dict_get (eg_assignments s) r"

definition get_batch_assignments :: "uuid \<Rightarrow> engine_state \<Rightarrow> batch_assignment list" where
  "get_batch_assignments i s =
     (case dict_get (eg_batches s) i of
        None \<Rightarrow> []
      | Some b \<Rightarrow> List.map_filter (\<lambda>m. dict_get (eg_assignments s) (bm_request_id m)) (active_members b))"

definition open_batches :: "engine_state \<Rightarrow> batch list" where
  "open_batches s = filter (\<lambda>b. \<not> batch_terminal (b_state b)) (dict_values (eg_batches s))"

definition update_active_batches_gauge :: "unit eng" where
  "update_active_batches_gauge s =
     observe_op (on_metrics (set_active_batches (length (open_batches s)))) s"

section \<open>Placing a request\<close>

record batch_placement_decision =
  bp_request_id :: uuid
  bp_batch_id :: uuid
  bp_assignment :: batch_assignment
  bp_decision_reason :: string
  bp_correlation_id :: string

record batch_rejection_decision =
  bj_request_id :: uuid
  bj_decision_reason :: string
  bj_correlation_id :: string
  bj_batch_id :: "uuid option"

datatype placement = Placed batch_placement_decision | Rejected batch_rejection_decision

function next_index :: "nat list \<Rightarrow> nat \<Rightarrow> nat" where
  "next_index used i = (if i \<in> set used then next_index used (Suc i) else i)"
  by pat_completeness auto

lemma unused_above_smaller: "i \<in> set used \<Longrightarrow> card {x \<in> set used. Suc i \<le> x} < card {x \<in> set used. i \<le> x}"
proof (rule psubset_card_mono)
  assume i: "i \<in> set used"
  have "{x \<in> set used. Suc i \<le> x} \<subseteq> {x \<in> set used. i \<le> x}" by auto
  moreover have "i \<in> {x \<in> set used. i \<le> x}" using i by simp
  moreover have "i \<notin> {x \<in> set used. Suc i \<le> x}" by simp
  ultimately show "{x \<in> set used. Suc i \<le> x} \<subset> {x \<in> set used. i \<le> x}" by blast
qed simp

termination next_index
proof (relation "measure (\<lambda>(used, i). card {x \<in> set used. i \<le> x})")
  fix used and i :: nat assume "i \<in> set used"
  then show "((used, Suc i), used, i) \<in> measure (\<lambda>(used, i). card {x \<in> set used. i \<le> x})"
    using unused_above_smaller by simp
qed simp

declare next_index.simps [simp del]

definition next_slot_index :: "batch \<Rightarrow> nat" where
  "next_slot_index b = next_index (map bm_slot_index (active_members b)) 0"

definition find_admittable_batch :: "string \<Rightarrow> datetime \<Rightarrow> engine_state \<Rightarrow> batch option" where
  "find_admittable_batch model now s =
     (let room = (\<lambda>b. int (active_member_count b) < bac_max_batch_size (eg_config s));
          by_model = (case dict_get (eg_active_by_model s) model of
             None \<Rightarrow> None
           | Some i \<Rightarrow>
               (case dict_get (eg_batches s) i of
                  None \<Rightarrow> None
                | Some b \<Rightarrow> if \<not> batch_terminal (b_state b) \<and> room b then Some b else None))
      in case by_model of
           Some b \<Rightarrow> Some b
         | None \<Rightarrow>
             List.find (\<lambda>b. b_model b = model \<and> b_state b = BS_FILLING \<and> room b
                          \<and> now \<le> bx_admission_window_end (b_context b))
               (dict_values (eg_batches s)))"

definition active_full_batch :: "string \<Rightarrow> engine_state \<Rightarrow> batch option" where
  "active_full_batch model s =
     (case dict_get (eg_active_by_model s) model of
        None \<Rightarrow> None
      | Some i \<Rightarrow>
          (case dict_get (eg_batches s) i of
             None \<Rightarrow> None
           | Some b \<Rightarrow>
               if b_state b = BS_ACTIVE
                  \<and> int (active_member_count b) \<ge> bac_max_batch_size (eg_config s)
               then Some b else None))"

definition move_batch :: "uuid \<Rightarrow> batch_state \<Rightarrow> unit eng" where
  "move_batch i st =
     bind_op (the_batch i) (\<lambda>b.
       case batch_transition (b_state b) st of
         Inl e \<Rightarrow> raise_op e
       | Inr st' \<Rightarrow> modify_op (put_batch i (b\<lparr>b_context := (b_context b)\<lparr>bx_state := st'\<rparr>\<rparr>)))"

definition activate_batch :: "uuid \<Rightarrow> datetime \<Rightarrow> unit eng" where
  "activate_batch i now =
     bind_op (the_batch i) (\<lambda>b.
       if b_state b \<noteq> BS_READY then return_op ()
       else
         then_op (move_batch i BS_ACTIVE)
         (bind_op (the_batch i) (\<lambda>b'.
          modify_op (\<lambda>s. put_batch i (b'\<lparr>b_context := (b_context b')\<lparr>bx_activated_at := Some now\<rparr>\<rparr>)
            (s\<lparr>eg_active_by_model := dict_set (b_model b') i (eg_active_by_model s)\<rparr>)))))"

definition advance_batch_after_admission :: "uuid \<Rightarrow> datetime \<Rightarrow> unit eng" where
  "advance_batch_after_admission i now =
     bind_op (the_batch i) (\<lambda>b.
     bind_op (gets_op eg_config) (\<lambda>c.
       if b_state b = BS_FILLING then
         (if int (active_member_count b) \<ge> bac_max_batch_size c then
            then_op (observe_op (emit_batch now BE_FULL (Some i) None None ''max_batch_size_reached'' []))
            (then_op (move_batch i BS_READY) (activate_batch i now))
          else if now \<ge> bx_admission_window_end (b_context b) then
            then_op (move_batch i BS_READY) (activate_batch i now)
          else return_op ())
       else if b_state b = BS_READY then activate_batch i now
       else return_op ()))"

definition create_batch :: "string \<Rightarrow> datetime \<Rightarrow> uuid \<Rightarrow> uuid eng" where
  "create_batch model now fresh =
     then_op (modify_op (\<lambda>s.
         put_batch fresh
           \<lparr>b_context =
              \<lparr>bx_batch_id = fresh, bx_model = model, bx_state = BS_CREATED, bx_created_at = now,
               bx_admission_window_end =
                 now + 1000 * bac_batch_admission_window_ms (eg_config s),
               bx_activated_at = None, bx_completed_at = None, bx_failure_reason = None\<rparr>,
            b_members = []\<rparr>
           (s\<lparr>eg_sets := dict_set fresh [] (eg_sets s)\<rparr>)))
     (then_op (observe_op (emit_batch now BE_CREATED (Some fresh) None None ''new_batch'' []))
     (then_op (observe_op (on_metrics record_batch_created))
     (then_op update_active_batches_gauge
     (then_op (observe_op (emit_batch now BE_ADMISSION (Some fresh) None None ''batch_opened'' []))
     (then_op (move_batch fresh BS_FILLING)
     (then_op (modify_op (\<lambda>s. s\<lparr>eg_active_by_model := dict_set model fresh (eg_active_by_model s)\<rparr>))
     (return_op fresh)))))))"

definition item_model :: "queue_item \<Rightarrow> string" where
  "item_model item = ir_model (qi_inference_request item)"

definition item_correlation :: "queue_item \<Rightarrow> string" where
  "item_correlation item = rc_trace_id (qi_request_context item)"

definition reject_item :: "queue_item \<Rightarrow> string \<Rightarrow> uuid option \<Rightarrow> placement" where
  "reject_item item reason i =
     Rejected \<lparr>bj_request_id = qi_request_id item, bj_decision_reason = reason,
               bj_correlation_id = item_correlation item, bj_batch_id = i\<rparr>"

definition new_member :: "datetime \<Rightarrow> queue_item \<Rightarrow> nat \<Rightarrow> batch_member" where
  "new_member now item slot =
     \<lparr>bm_request_id = qi_request_id item, bm_slot_index = slot, bm_model = item_model item,
      bm_correlation_id = item_correlation item, bm_added_at = now, bm_status = MS_ACTIVE\<rparr>"

definition enter_batch :: "datetime \<Rightarrow> queue_item \<Rightarrow> string \<Rightarrow> uuid \<Rightarrow> nat eng" where
  "enter_batch now item reason i =
     bind_op (the_batch i) (\<lambda>b.
     bind_op (the_set i) (\<lambda>d.
       let member = new_member now item (next_slot_index b)
       in case set_add_request member d of
            Inl e \<Rightarrow> raise_op e
          | Inr d' \<Rightarrow>
              then_op (modify_op (\<lambda>s. put_batch i (b\<lparr>b_members := dict_values d'\<rparr>)
                (s\<lparr>eg_sets := dict_set i d' (eg_sets s),
                   eg_request_to_batch := dict_set (qi_request_id item) i (eg_request_to_batch s)\<rparr>)))
              (then_op (observe_op (emit_batch now BE_REQUEST_ADDED (Some i)
                 (Some (qi_request_id item)) (Some (item_correlation item)) reason
                 [(''slot_index'', X_INT (int (bm_slot_index member)))]))
              (return_op (bm_slot_index member)))))"

definition assignment_for :: "queue_item \<Rightarrow> nat \<Rightarrow> batch_assignment" where
  "assignment_for item slot =
     \<lparr>ba_request_id = qi_request_id item, ba_slot_index = slot,
      ba_inference_request = qi_inference_request item\<rparr>"

definition add_to_batch :: "datetime \<Rightarrow> queue_item \<Rightarrow> string \<Rightarrow> uuid \<Rightarrow> placement eng" where
  "add_to_batch now item reason i =
     bind_op (enter_batch now item reason i) (\<lambda>slot.
     then_op (advance_batch_after_admission i now)
     (bind_op (the_batch i) (\<lambda>b.
      then_op (observe_op (on_metrics (record_batch_admission (active_member_count b))))
      (then_op update_active_batches_gauge
      (then_op (modify_op (\<lambda>s. s\<lparr>eg_assignments :=
          dict_set (qi_request_id item) (assignment_for item slot) (eg_assignments s)\<rparr>))
      (bind_op (gets_op eg_injector) (\<lambda>fi.
        if should_inject fi FP_SCHEDULER_INVALID_BATCH_ASSIGNMENT (Some (qi_request_id item))
        then return_op (reject_item item ''invalid_batch_assignment'' (Some i))
        else return_op (Placed
          \<lparr>bp_request_id = qi_request_id item, bp_batch_id = i,
           bp_assignment = assignment_for item slot, bp_decision_reason = reason,
           bp_correlation_id = item_correlation item\<rparr>))))))))"

definition create_or_raise :: "queue_item \<Rightarrow> datetime \<Rightarrow> uuid \<Rightarrow> uuid eng" where
  "create_or_raise item now fresh =
     bind_op (gets_op eg_injector) (\<lambda>fi.
       case fi of
         None \<Rightarrow> create_batch (item_model item) now fresh
       | Some c \<Rightarrow>
           (case maybe_raise c FP_BATCH_CREATION_FAILURE (Some (qi_request_id item)) of
              Inl f \<Rightarrow> raise_op (SE_Injected f)
            | Inr _ \<Rightarrow> create_batch (item_model item) now fresh))"

definition admit_item :: "datetime \<Rightarrow> uuid \<Rightarrow> queue_item \<Rightarrow> batch option \<Rightarrow> placement eng" where
  "admit_item now fresh item ob =
     bind_op (gets_op (\<lambda>s. evaluate_batch_admission ob (global_active_count s) (eg_config s) now))
     (\<lambda>(decision, reason).
       if decision = BA_REJECT then
         then_op (observe_op (emit_batch now BE_ADMISSION (map_option b_id ob)
            (Some (qi_request_id item)) (Some (item_correlation item)) reason []))
         (return_op (reject_item item reason (map_option b_id ob)))
       else
         bind_op (case ob of Some b \<Rightarrow> return_op (b_id b) | None \<Rightarrow> create_or_raise item now fresh)
         (add_to_batch now item reason))"

definition place_selected :: "datetime \<Rightarrow> uuid \<Rightarrow> queue_item \<Rightarrow> placement eng" where
  "place_selected now fresh item s =
     (if should_inject (eg_injector s) FP_BATCH_ADMISSION_FAILURE (Some (qi_request_id item))
      then (Inr (reject_item item ''injected_batch_admission_failure'' None), s)
      else if dict_get (eg_request_to_batch s) (qi_request_id item) \<noteq> None
      then (Inr (reject_item item ''request_already_batched'' None), s)
      else case find_admittable_batch (item_model item) now s of
        Some b \<Rightarrow> admit_item now fresh item (Some b) s
      | None \<Rightarrow>
          (case active_full_batch (item_model item) s of
             Some b \<Rightarrow>
               then_op (observe_op (emit_batch now BE_ADMISSION (Some (b_id b))
                  (Some (qi_request_id item)) (Some (item_correlation item))
                  ''batch_full_no_slots'' []))
               (return_op (reject_item item ''batch_full_no_slots'' (Some (b_id b)))) s
           | None \<Rightarrow> admit_item now fresh item None s))"

section \<open>Retiring a request\<close>

definition complete_batch :: "uuid \<Rightarrow> datetime \<Rightarrow> string \<Rightarrow> unit eng" where
  "complete_batch i now reason =
     bind_op (the_batch i) (\<lambda>b.
       if batch_terminal (b_state b) then return_op ()
       else
         then_op (move_batch i BS_COMPLETED)
         (bind_op (the_batch i) (\<lambda>b'.
          then_op (modify_op (\<lambda>s.
            put_batch i (b'\<lparr>b_context := (b_context b')\<lparr>bx_completed_at := Some now\<rparr>\<rparr>)
              (s\<lparr>eg_active_by_model := dict_del (b_model b') (eg_active_by_model s)\<rparr>)))
          (then_op (observe_op (emit_batch now BE_COMPLETED (Some i) None None reason
             [(''previous_state'', X_STR (batch_state_value (b_state b)))]))
          (then_op (observe_op (on_metrics
             (record_batch_completed (of_int (now - bx_created_at (b_context b)) / 1000000))))
          update_active_batches_gauge)))))"

definition fail_batch :: "uuid \<Rightarrow> datetime \<Rightarrow> string \<Rightarrow> unit eng" where
  "fail_batch i now reason =
     bind_op (the_batch i) (\<lambda>b.
       if batch_terminal (b_state b) then return_op ()
       else
         then_op (move_batch i BS_FAILED)
         (bind_op (the_batch i) (\<lambda>b'.
          then_op (modify_op (\<lambda>s.
            put_batch i (b'\<lparr>b_context := (b_context b')\<lparr>bx_failure_reason := Some reason\<rparr>\<rparr>)
              (s\<lparr>eg_active_by_model := dict_del (b_model b') (eg_active_by_model s)\<rparr>)))
          (then_op (observe_op (emit_batch now BE_FAILED (Some i) None None reason
             [(''previous_state'', X_STR (batch_state_value (b_state b)))]))
          (then_op (observe_op (on_metrics
             (record_batch_failed (of_int (now - bx_created_at (b_context b)) / 1000000))))
          update_active_batches_gauge)))))"

definition retired ::
  "uuid \<Rightarrow> uuid \<Rightarrow> string \<Rightarrow> batch_state \<Rightarrow> batch_state \<Rightarrow> batch_result" where
  "retired i r reason previous new_state =
     \<lparr>br_batch_id = i, br_request_id = Some r, br_success = True, br_decision_reason = reason,
      br_previous_state = Some previous, br_new_state = Some new_state\<rparr>"

definition not_retired :: "uuid \<Rightarrow> uuid \<Rightarrow> string \<Rightarrow> batch_result" where
  "not_retired i r reason =
     \<lparr>br_batch_id = i, br_request_id = Some r, br_success = False, br_decision_reason = reason,
      br_previous_state = None, br_new_state = None\<rparr>"

definition retire_member ::
  "datetime \<Rightarrow> uuid \<Rightarrow> uuid \<Rightarrow> member_status \<Rightarrow> string \<Rightarrow> batch_result eng" where
  "retire_member now i r status reason =
     bind_op (the_batch i) (\<lambda>b.
     bind_op (the_set i) (\<lambda>d.
       case set_status r status d of
         (None, _) \<Rightarrow> return_op (not_retired i r ''member_not_found'')
       | (Some m, d') \<Rightarrow>
           then_op (modify_op (\<lambda>s. put_batch i (b\<lparr>b_members := dict_values d'\<rparr>)
             (s\<lparr>eg_sets := dict_set i d' (eg_sets s)\<rparr>)))
           (then_op (observe_op (emit_batch now BE_REQUEST_REMOVED (Some i) (Some r)
              (Some (bm_correlation_id m)) reason
              [(''member_status'', X_STR (member_status_value status))]))
           (then_op
             (if status = MS_FAILED then fail_batch i now reason
              else if active_count d' = 0 \<and> b_state b = BS_ACTIVE
              then complete_batch i now ''all_members_retired''
              else return_op ())
            (bind_op (the_batch i) (\<lambda>b'.
             return_op (retired i r reason (b_state b) (b_state b'))))))))"

definition retire_request ::
  "datetime \<Rightarrow> uuid \<Rightarrow> uuid \<Rightarrow> member_status \<Rightarrow> string \<Rightarrow> batch_result eng" where
  "retire_request now fresh r status reason s =
     (case dict_get (eg_request_to_batch s) r of
        None \<Rightarrow> (Inr (not_retired fresh r ''request_not_in_batch''), s)
      | Some i \<Rightarrow> retire_member now i r status reason s)"

definition complete_request_in_batch :: "datetime \<Rightarrow> uuid \<Rightarrow> uuid \<Rightarrow> batch_result eng" where
  "complete_request_in_batch now fresh r = retire_request now fresh r MS_COMPLETED ''request_completed''"

definition fail_request_in_batch :: "datetime \<Rightarrow> uuid \<Rightarrow> uuid \<Rightarrow> string \<Rightarrow> batch_result eng" where
  "fail_request_in_batch now fresh r reason = retire_request now fresh r MS_FAILED reason"

definition cancel_request_in_batch :: "datetime \<Rightarrow> uuid \<Rightarrow> uuid \<Rightarrow> batch_result eng" where
  "cancel_request_in_batch now fresh r = retire_request now fresh r MS_CANCELLED ''request_cancelled''"

section \<open>Service facade (batch/service.py) and inspection (batch/inspection.py)\<close>

definition list_active_members :: "engine_state \<Rightarrow> batch_member list" where
  "list_active_members s = concat (map active_members (list_batches s))"

datatype replacement = Replaced placement | NotRetired batch_result

definition replace_request :: "datetime \<Rightarrow> uuid \<Rightarrow> uuid \<Rightarrow> queue_item \<Rightarrow> replacement eng" where
  "replace_request now fresh r item =
     bind_op (complete_request_in_batch now fresh r) (\<lambda>res.
       if \<not> br_success res then return_op (NotRetired res)
       else bind_op (place_selected now fresh item) (\<lambda>p. return_op (Replaced p)))"

definition get_batch_snapshot :: "datetime \<Rightarrow> uuid \<Rightarrow> engine_state \<Rightarrow> batch_snapshot option" where
  "get_batch_snapshot now i s =
     map_option (\<lambda>b. \<lparr>bsn_batch_id = b_id b, bsn_model = b_model b, bsn_state = b_state b,
        bsn_member_count = length (b_members b), bsn_active_member_count = active_member_count b,
        bsn_members = b_members b, bsn_created_at = bx_created_at (b_context b),
        bsn_captured_at = now\<rparr>) (get_batch i s)"

definition count_members :: "member_status \<Rightarrow> engine_state \<Rightarrow> nat" where
  "count_members st s =
     sum_list (map (\<lambda>b. length (filter (\<lambda>m. bm_status m = st) (b_members b))) (list_batches s))"

definition get_batch_statistics :: "datetime \<Rightarrow> engine_state \<Rightarrow> batch_statistics" where
  "get_batch_statistics now s =
     \<lparr>bst_total_batches = length (list_batches s),
      bst_active_batches =
        length (filter (\<lambda>b. b_state b \<in> {BS_FILLING, BS_ACTIVE}) (list_batches s)),
      bst_filling_batches = length (filter (\<lambda>b. b_state b = BS_FILLING) (list_batches s)),
      bst_total_active_requests = count_members MS_ACTIVE s,
      bst_total_completed_requests = count_members MS_COMPLETED s,
      bst_total_failed_requests = count_members MS_FAILED s,
      bst_total_cancelled_requests = count_members MS_CANCELLED s,
      bst_captured_at = now\<rparr>"

end
