(* ===== verification/Scheduler_Cycle.thy ===== *)
theory Scheduler_Cycle
  imports Control_Plane Batch_Engine Policies
begin

text \<open>
  One scheduling cycle (\<open>scheduler/loop/cycle.py\<close>) over the control plane's queue, read as
  \<open>integrations/control_plane.py\<close> reads it, the policy and the batching engine, with the state
  of the scheduler process and its snapshot (\<open>application.py\<close>).

  \<open>SchedulerCycle\<close>, \<open>SchedulerState\<close>, \<open>SchedulingResult\<close> and \<open>SchedulingFailure\<close> have no source
  in the repository; their records have the fields the code builds them with. What
  \<open>SchedulerCycle.complete\<close> does besides keeping its argument is not modelled: the end of a
  cycle is the clock reading the code falls back to.
\<close>

section \<open>State\<close>

datatype cycle_exn = CX_Queue cp_exn | CX_Batch scheduler_exn | CX_Injected injected_failure

record scheduler_cycle =
  cy_cycle_id :: string
  cy_start_time :: datetime
  cy_selected_requests :: "uuid list"
  cy_skipped_requests :: "uuid list"
  cy_decisions :: "scheduling_decision list"
  cy_decision_reason :: "string option"
  cy_failure :: "cycle_exn option"

record cycle_settings =
  cs_max_candidate_requests :: nat
  cs_queue_scan_limit :: nat

record scheduler_app =
  sa_settings :: cycle_settings
  sa_policy :: policy
  sa_queue :: queue_state
  sa_engine :: engine_state
  sa_process_mode :: scheduler_mode
  sa_loop_running :: bool
  sa_current_cycle :: "scheduler_cycle option"
  sa_last_completed_cycle :: "scheduler_cycle option"
  sa_total_cycles :: nat

record scheduling_result =
  sr_cycle_id :: string
  sr_cycle_start_time :: datetime
  sr_cycle_end_time :: datetime
  sr_decisions :: "scheduling_decision list"
  sr_selected_request_ids :: "uuid list"
  sr_skipped_request_ids :: "uuid list"
  sr_placement_decisions :: "batch_placement_decision list"
  sr_rejection_decisions :: "batch_rejection_decision list"
  sr_failure :: "cycle_exn option"

type_synonym 'a sched = "(scheduler_app, cycle_exn, 'a) op"

definition map_exn :: "('e \<Rightarrow> 'f) \<Rightarrow> ('s, 'e, 'a) op \<Rightarrow> ('s, 'f, 'a) op" where
  "map_exn f m s = (case m s of (Inl e, t) \<Rightarrow> (Inl (f e), t) | (Inr a, t) \<Rightarrow> (Inr a, t))"

definition on_engine :: "'a eng \<Rightarrow> 'a sched" where
  "on_engine m = map_exn CX_Batch (zoom_op sa_engine (\<lambda>t s. s\<lparr>sa_engine := t\<rparr>) m)"

definition on_queue :: "(queue_state, cp_exn, 'a) op \<Rightarrow> 'a sched" where
  "on_queue m = map_exn CX_Queue (zoom_op sa_queue (\<lambda>t s. s\<lparr>sa_queue := t\<rparr>) m)"

text \<open>The scheduler's own observers are the engine's.\<close>

definition on_observers :: "(observers \<Rightarrow> observers) \<Rightarrow> unit sched" where
  "on_observers f =
     modify_op (\<lambda>s. s\<lparr>sa_engine := (sa_engine s)\<lparr>eg_observers := f (eg_observers (sa_engine s))\<rparr>\<rparr>)"

section \<open>The steps of a cycle\<close>

definition list_queue_items :: "datetime \<Rightarrow> nat \<Rightarrow> queue_item list sched" where
  "list_queue_items now limit =
     bind_op (on_queue (get_queue_snapshot now ''all'')) (\<lambda>snap. return_op (take limit (qsn_items snap)))"

definition inject_cycle_failures :: "unit sched" where
  "inject_cycle_failures =
     bind_op (gets_op (\<lambda>s. eg_injector (sa_engine s))) (\<lambda>fi.
       case fi of
         None \<Rightarrow> return_op ()
       | Some c \<Rightarrow>
           (case maybe_raise c FP_SCHEDULER_CRASH None of
              Inl f \<Rightarrow> raise_op (CX_Injected f)
            | Inr _ \<Rightarrow>
                (case maybe_raise c FP_SCHEDULER_TIMEOUT None of
                   Inl f \<Rightarrow> raise_op (CX_Injected f)
                 | Inr _ \<Rightarrow> return_op ())))"

definition evaluate_policy :: "scheduling_candidate list \<Rightarrow> nat \<Rightarrow> evaluation sched" where
  "evaluate_policy cs n s =
     (case policy_evaluate (sa_policy s) cs n of (ev, p) \<Rightarrow> (Inr ev, s\<lparr>sa_policy := p\<rparr>))"

text \<open>A later candidate with the same id replaces an earlier one in \<open>candidate_by_id\<close>.\<close>

definition by_id :: "('a \<Rightarrow> uuid) \<Rightarrow> 'a list \<Rightarrow> (uuid, 'a) dict" where
  "by_id f xs = fold (\<lambda>x. dict_set (f x) x) xs []"

definition record_decision :: "string \<Rightarrow> scheduling_candidate list \<Rightarrow> scheduling_decision \<Rightarrow> unit sched" where
  "record_decision pid cs d =
     (case dict_get (by_id sc_request_id cs) (sd_request_id d) of
        None \<Rightarrow> return_op ()
      | Some c \<Rightarrow> on_observers (on_metrics (record_scheduler_policy_decision pid (sd_selected d)
          (sd_decision_reason d) (sc_queue_wait_duration_ms c / 1000) (sc_request_age_ms c / 1000))))"

type_synonym outcomes = "batch_placement_decision list \<times> batch_rejection_decision list"

definition place_one ::
  "datetime \<Rightarrow> uuid \<Rightarrow> (uuid, queue_item) dict \<Rightarrow> outcomes \<Rightarrow> uuid \<Rightarrow> outcomes sched" where
  "place_one now fresh items acc r =
     (case dict_get items r of
        None \<Rightarrow> return_op (fst acc, snd acc @
          [\<lparr>bj_request_id = r, bj_decision_reason = ''queue_item_not_found'', bj_correlation_id = [],
            bj_batch_id = None\<rparr>])
      | Some item \<Rightarrow>
          bind_op (on_engine (place_selected now fresh item)) (\<lambda>outcome.
            case outcome of
              Placed p \<Rightarrow> return_op (fst acc @ [p], snd acc)
            | Rejected j \<Rightarrow> return_op (fst acc, snd acc @ [j])))"

text \<open>\<open>ids k\<close> is what \<open>uuid4\<close> would return for a batch opened for the \<open>k\<close>-th selected request.\<close>

fun place_all ::
  "datetime \<Rightarrow> (nat \<Rightarrow> uuid) \<Rightarrow> nat \<Rightarrow> (uuid, queue_item) dict \<Rightarrow> outcomes \<Rightarrow> uuid list \<Rightarrow>
   outcomes sched" where
  "place_all now ids k items acc [] = return_op acc"
| "place_all now ids k items acc (r # rs) =
     bind_op (place_one now (ids k) items acc r) (\<lambda>acc'. place_all now ids (Suc k) items acc' rs)"

definition cycle_summary_reason :: "nat \<Rightarrow> nat \<Rightarrow> nat \<Rightarrow> string" where
  "cycle_summary_reason selected skipped candidates =
     (if candidates = 0 then ''queue_empty''
      else if selected = 0 then ''no_candidates_selected''
      else if skipped = 0 then ''all_candidates_selected''
      else ''partial_selection'')"

definition find_candidate :: "scheduling_candidate list \<Rightarrow> uuid \<Rightarrow> scheduling_candidate option" where
  "find_candidate cs r = List.find (\<lambda>c. sc_request_id c = r) cs"

definition opt_ms :: "string \<Rightarrow> rat option \<Rightarrow> extra" where
  "opt_ms k x = (case x of None \<Rightarrow> [(k, X_NONE)] | Some v \<Rightarrow> [(k, X_NUM v)])"

definition emit_decision ::
  "datetime \<Rightarrow> string \<Rightarrow> string \<Rightarrow> scheduling_candidate list \<Rightarrow> scheduling_decision \<Rightarrow> unit sched" where
  "emit_decision now cid pid cs d =
     (let c = find_candidate cs (sd_request_id d);
          base = [(''queue_position'', X_INT (int (sd_queue_position d))),
                  (''scheduler_policy_id'', X_STR pid)]
      in on_observers (emit_scheduler now
           (if sd_selected d then SEV_REQUEST_SELECTED else SEV_REQUEST_SKIPPED) (Some cid)
           (Some (sd_request_id d)) (Some (sd_correlation_id d)) (Some (sd_decision_reason d))
           (if sd_selected d
            then base @ opt_ms ''queue_wait_duration_ms'' (map_option sc_queue_wait_duration_ms c)
                 @ opt_ms ''request_age_ms'' (map_option sc_request_age_ms c)
            else base)))"

section \<open>The cycle\<close>

definition cycle_counts ::
  "evaluation \<Rightarrow> outcomes \<Rightarrow> nat \<Rightarrow> string \<Rightarrow> extra" where
  "cycle_counts ev acc candidates pid =
     [(''selected_count'', X_INT (int (length (fst (snd ev))))),
      (''placed_count'', X_INT (int (length (fst acc)))),
      (''batch_rejected_count'', X_INT (int (length (snd acc)))),
      (''skipped_count'', X_INT (int (length (snd (snd ev))))),
      (''candidate_count'', X_INT (int candidates)), (''scheduler_policy_id'', X_STR pid)]"

definition finish_cycle ::
  "datetime \<Rightarrow> string \<Rightarrow> scheduling_candidate list \<Rightarrow> evaluation \<Rightarrow> outcomes \<Rightarrow> scheduling_result sched"
  where
  "finish_cycle now cid cs ev acc =
     (let (decisions, selected, skipped) = ev;
          reason = cycle_summary_reason (length (fst acc)) (length skipped + length (snd acc)) (length cs)
      in
       bind_op (gets_op (\<lambda>s. policy_id (sa_policy s))) (\<lambda>pid.
       then_op (iter_op (emit_decision now cid pid cs) decisions)
       (then_op (on_observers (emit_scheduler now SEV_CYCLE_COMPLETED (Some cid) None None (Some reason)
          (cycle_counts ev acc (length cs) pid)))
       (then_op (modify_op (\<lambda>s. s\<lparr>sa_last_completed_cycle := Some
            \<lparr>cy_cycle_id = cid, cy_start_time = now, cy_selected_requests = selected,
             cy_skipped_requests = skipped, cy_decisions = decisions,
             cy_decision_reason = Some reason, cy_failure = None\<rparr>,
          sa_total_cycles := Suc (sa_total_cycles s)\<rparr>))
       (then_op (on_observers (on_metrics
          (record_scheduler_cycle (length selected) (length skipped) 0 False)))
       (return_op
          \<lparr>sr_cycle_id = cid, sr_cycle_start_time = now, sr_cycle_end_time = now,
           sr_decisions = decisions, sr_selected_request_ids = selected,
           sr_skipped_request_ids = skipped, sr_placement_decisions = fst acc,
           sr_rejection_decisions = snd acc, sr_failure = None\<rparr>))))))"

definition cycle_body :: "datetime \<Rightarrow> string \<Rightarrow> (nat \<Rightarrow> uuid) \<Rightarrow> scheduling_result sched" where
  "cycle_body now cid ids =
     then_op inject_cycle_failures
     (bind_op (gets_op sa_settings) (\<lambda>st.
      bind_op (list_queue_items now (cs_queue_scan_limit st)) (\<lambda>items.
      let cs = items_to_candidates now items in
      bind_op (evaluate_policy cs (cs_max_candidate_requests st)) (\<lambda>ev.
      bind_op (gets_op (\<lambda>s. policy_id (sa_policy s))) (\<lambda>pid.
      then_op (iter_op (record_decision pid cs) (fst ev))
      (bind_op (place_all now ids 0 (by_id qi_request_id items) ([], []) (fst (snd ev))) (\<lambda>acc.
       finish_cycle now cid cs ev acc)))))))"

text \<open>
  The failure event is about no request, so it is only logged; its message is not modelled.
\<close>

definition fail_cycle :: "datetime \<Rightarrow> string \<Rightarrow> cycle_exn \<Rightarrow> scheduling_result sched" where
  "fail_cycle now cid e =
     then_op (modify_op (\<lambda>s. s\<lparr>sa_process_mode := SM_UNAVAILABLE\<rparr>))
     (then_op (on_observers (emit_scheduler now SEV_FAILURE (Some cid) None None
        (Some ''scheduler_cycle_error'') []))
     (then_op (on_observers (on_metrics (record_scheduler_cycle 0 0 0 True)))
     (return_op
        \<lparr>sr_cycle_id = cid, sr_cycle_start_time = now, sr_cycle_end_time = now, sr_decisions = [],
         sr_selected_request_ids = [], sr_skipped_request_ids = [], sr_placement_decisions = [],
         sr_rejection_decisions = [], sr_failure = Some e\<rparr>)))"

definition begin_cycle :: "datetime \<Rightarrow> string \<Rightarrow> unit sched" where
  "begin_cycle now cid =
     then_op (modify_op (\<lambda>s. s\<lparr>sa_current_cycle := Some
          \<lparr>cy_cycle_id = cid, cy_start_time = now, cy_selected_requests = [],
           cy_skipped_requests = [], cy_decisions = [], cy_decision_reason = None, cy_failure = None\<rparr>,
        sa_process_mode := SM_ACCEPTING\<rparr>))
     (bind_op (gets_op (\<lambda>s. (sa_settings s, policy_id (sa_policy s)))) (\<lambda>(st, pid).
      on_observers (emit_scheduler now SEV_CYCLE_STARTED (Some cid) None None None
        [(''queue_scan_limit'', X_INT (int (cs_queue_scan_limit st))),
         (''scheduler_policy_id'', X_STR pid)])))"

definition end_cycle :: "unit sched" where
  "end_cycle = modify_op (\<lambda>s. s\<lparr>sa_current_cycle := None,
     sa_process_mode := (if sa_process_mode s = SM_UNAVAILABLE then SM_UNAVAILABLE else SM_ACCEPTING)\<rparr>)"

definition run_cycle :: "datetime \<Rightarrow> string \<Rightarrow> (nat \<Rightarrow> uuid) \<Rightarrow> scheduling_result sched" where
  "run_cycle now cid ids =
     then_op (begin_cycle now cid)
     (bind_op (catch_op (cycle_body now cid ids) (fail_cycle now cid)) (\<lambda>res.
      then_op end_cycle (return_op res)))"

section \<open>The process (application.py)\<close>

definition scheduler_startup :: "scheduler_app \<Rightarrow> scheduler_app" where
  "scheduler_startup s =
     (if sa_loop_running s then s else s\<lparr>sa_process_mode := SM_ACCEPTING, sa_loop_running := True\<rparr>)"

definition scheduler_shutdown :: "scheduler_app \<Rightarrow> scheduler_app" where
  "scheduler_shutdown s =
     (if sa_loop_running s then s\<lparr>sa_loop_running := False, sa_process_mode := SM_DRAINING\<rparr> else s)"

record scheduler_snapshot =
  ssn_process_mode :: scheduler_mode
  ssn_loop_running :: bool
  ssn_total_cycles :: nat
  ssn_current_cycle_id :: "string option"
  ssn_last_cycle_id :: "string option"
  ssn_last_selected_count :: nat
  ssn_last_skipped_count :: nat
  ssn_last_decision_reason :: "string option"
  ssn_captured_at :: datetime

definition get_scheduler_snapshot :: "datetime \<Rightarrow> scheduler_app \<Rightarrow> scheduler_snapshot" where
  "get_scheduler_snapshot now s =
     (let last_cycle = sa_last_completed_cycle s
      in \<lparr>ssn_process_mode = sa_process_mode s, ssn_loop_running = sa_loop_running s,
          ssn_total_cycles = sa_total_cycles s,
          ssn_current_cycle_id = map_option cy_cycle_id (sa_current_cycle s),
          ssn_last_cycle_id = map_option cy_cycle_id last_cycle,
          ssn_last_selected_count =
            (case last_cycle of None \<Rightarrow> 0 | Some c \<Rightarrow> length (cy_selected_requests c)),
          ssn_last_skipped_count =
            (case last_cycle of None \<Rightarrow> 0 | Some c \<Rightarrow> length (cy_skipped_requests c)),
          ssn_last_decision_reason = Option.bind last_cycle cy_decision_reason,
          ssn_captured_at = now\<rparr>)"

end
