(* ===== verification/Routing.thy ===== *)
theory Routing
  imports Lifecycle_Events
begin

text \<open>
  The model registry (\<open>control_plane/registry/model_registry.py\<close>) and the routing engine with
  its policies and events (\<open>control_plane/routing\<close>). The backends the engine chooses from are
  the snapshots of the inference adapter; a set of excluded ids is a list that is only tested
  for membership.
\<close>

section \<open>Model registry\<close>

type_synonym model_registry = "(string, model_record) dict"

definition register_model :: "model_record \<Rightarrow> model_registry \<Rightarrow> model_registry" where
  "register_model m r = dict_set (mr_model_id m) m r"

definition remove_model :: "string \<Rightarrow> model_registry \<Rightarrow> model_record option \<times> model_registry" where
  "remove_model i r = (dict_get r i, dict_del i r)"

definition list_models :: "model_registry \<Rightarrow> model_record list" where
  "list_models r = dict_values r"

definition get_model :: "string \<Rightarrow> model_registry \<Rightarrow> model_record option" where
  "get_model i r = dict_get r i"

interpretation models: keyed_store
  "\<lambda>r :: model_registry. \<lambda>i. get_model i r" "\<lambda>i m r. dict_set i m r"
  "\<lambda>i r. snd (remove_model i r)" "\<lambda>r. dict_keys r" wf_dict
  by unfold_locales
    (auto simp: get_model_def remove_model_def wf_dict_def map_of_eq_None_iff image_iff distinct_update
      distinct_delete)

definition default_models :: "model_record list" where
  "default_models =
     [\<lparr>mr_model_id = ''demo'', mr_backend = ''mock'', mr_pool_id = ''default'',
       mr_max_output_tokens = 1024, mr_max_prompt_tokens = 32768, mr_default_temperature = Some 1,
       mr_capabilities = default_capabilities, mr_routing_policy = RP_EXPLICIT,
       mr_fallback_backend = None, mr_metadata = []\<rparr>,
      \<lparr>mr_model_id = ''example-model'', mr_backend = ''mock'', mr_pool_id = ''default'',
       mr_max_output_tokens = 256, mr_max_prompt_tokens = 16384, mr_default_temperature = None,
       mr_capabilities = default_capabilities, mr_routing_policy = RP_EXPLICIT,
       mr_fallback_backend = None, mr_metadata = []\<rparr>,
      \<lparr>mr_model_id = ''demo-fast'', mr_backend = ''mock-fast'', mr_pool_id = ''latency'',
       mr_max_output_tokens = 512, mr_max_prompt_tokens = 16384, mr_default_temperature = None,
       mr_capabilities = default_capabilities\<lparr>cap_latency_tier := LT_FAST\<rparr>,
       mr_routing_policy = RP_LATENCY_TIER, mr_fallback_backend = None, mr_metadata = []\<rparr>,
      \<lparr>mr_model_id = ''demo-quality'', mr_backend = ''mock-quality'', mr_pool_id = ''quality'',
       mr_max_output_tokens = 1024, mr_max_prompt_tokens = 32768, mr_default_temperature = None,
       mr_capabilities = default_capabilities\<lparr>cap_quality_tier := QT_HIGH\<rparr>,
       mr_routing_policy = RP_QUALITY_TIER, mr_fallback_backend = None, mr_metadata = []\<rparr>,
      \<lparr>mr_model_id = ''demo-fallback'', mr_backend = ''mock-primary'', mr_pool_id = ''default'',
       mr_max_output_tokens = 512, mr_max_prompt_tokens = 16384, mr_default_temperature = None,
       mr_capabilities = default_capabilities, mr_routing_policy = RP_FALLBACK,
       mr_fallback_backend = Some ''mock'', mr_metadata = []\<rparr>]"

definition default_model_registry :: model_registry where
  "default_model_registry = fold register_model default_models []"

section \<open>Candidates (routing/policies.py)\<close>

definition supports_model :: "model_record \<Rightarrow> routable_backend_snapshot \<Rightarrow> bool" where
  "supports_model m b \<longleftrightarrow> mr_model_id m \<in> set (bs_supported_models b) \<or> bs_supported_models b = []"

definition filter_candidates ::
  "model_record \<Rightarrow> routable_backend_snapshot list \<Rightarrow> string list \<Rightarrow> routing_candidate list" where
  "filter_candidates m bs excluded =
     map (\<lambda>b. \<lparr>cand_backend_id = bs_backend_id b, cand_model_id = mr_model_id m, cand_score = 0,
              cand_latency_tier = Some (bs_latency_tier b),
              cand_quality_tier = Some (bs_quality_tier b), cand_healthy = bs_healthy b,
              cand_supports_model = supports_model m b,
              cand_available_capacity = Some (bs_max_batch_size b)\<rparr>)
       (filter (\<lambda>b. bs_backend_id b \<notin> set excluded) bs)"

definition healthy_supporting :: "routing_candidate list \<Rightarrow> routing_candidate list" where
  "healthy_supporting cs = filter (\<lambda>c. cand_healthy c \<and> cand_supports_model c) cs"

definition route_refused :: "string \<Rightarrow> routing_candidate list \<Rightarrow> routing_result" where
  "route_refused e cs = \<lparr>rr_success = False, rr_decision = None, rr_error = Some e, rr_candidates = cs\<rparr>"

definition route_chosen :: "routing_decision \<Rightarrow> routing_candidate list \<Rightarrow> routing_result" where
  "route_chosen d cs = \<lparr>rr_success = True, rr_decision = Some d, rr_error = None, rr_candidates = cs\<rparr>"

text \<open>What the callers of the engine read: the backend of a successful decision.\<close>

definition chosen_backend :: "routing_result \<Rightarrow> string option" where
  "chosen_backend res = (if rr_success res then map_option rd_backend_id (rr_decision res) else None)"

definition usable :: "string \<Rightarrow> routing_candidate list \<Rightarrow> bool" where
  "usable i cs = list_ex (\<lambda>c. cand_backend_id c = i \<and> cand_healthy c \<and> cand_supports_model c) cs"

section \<open>The four policies\<close>

text \<open>\<open>route_id\<close> is what \<open>new_route_id\<close> returns.\<close>

definition select_explicit ::
  "uuid \<Rightarrow> uuid \<Rightarrow> model_record \<Rightarrow> routable_backend_snapshot list \<Rightarrow> string list \<Rightarrow> routing_result"
  where
  "select_explicit route_id request_id m bs excluded =
     (let cs = filter_candidates m bs excluded; target = mr_backend m
      in if usable target cs
         then route_chosen
                \<lparr>rd_route_id = route_id, rd_request_id = request_id, rd_model_id = mr_model_id m,
                 rd_backend_id = target, rd_policy_name = routing_policy_name_value RP_EXPLICIT,
                 rd_fallback_used = False, rd_primary_backend_id = None,
                 rd_reason = ''explicit_model_backend''\<rparr> cs
         else route_refused (''explicit backend unavailable: '' @ target) cs)"

definition select_by_tier ::
  "routing_policy_name \<Rightarrow> string \<Rightarrow> (routing_candidate \<Rightarrow> bool) \<Rightarrow> uuid \<Rightarrow> uuid \<Rightarrow> model_record \<Rightarrow>
   routable_backend_snapshot list \<Rightarrow> string list \<Rightarrow> routing_result" where
  "select_by_tier policy tier matches route_id request_id m bs excluded =
     (let cs = filter_candidates m bs excluded;
          eligible = filter matches (healthy_supporting cs)
      in if eligible = []
         then route_refused (''no healthy backend for '' @ routing_policy_name_value policy @ ''='' @ tier) cs
         else route_chosen
                \<lparr>rd_route_id = route_id, rd_request_id = request_id, rd_model_id = mr_model_id m,
                 rd_backend_id = cand_backend_id (hd (sort_key cand_backend_id eligible)),
                 rd_policy_name = routing_policy_name_value policy, rd_fallback_used = False,
                 rd_primary_backend_id = None,
                 rd_reason = routing_policy_name_value policy @ ''_match:'' @ tier\<rparr> cs)"

definition select_latency_tier ::
  "uuid \<Rightarrow> uuid \<Rightarrow> model_record \<Rightarrow> routable_backend_snapshot list \<Rightarrow> string list \<Rightarrow> routing_result"
  where
  "select_latency_tier route_id request_id m =
     (let tier = cap_latency_tier (mr_capabilities m)
      in select_by_tier RP_LATENCY_TIER (latency_tier_value tier)
           (\<lambda>c. cand_latency_tier c = Some tier) route_id request_id m)"

definition select_quality_tier ::
  "uuid \<Rightarrow> uuid \<Rightarrow> model_record \<Rightarrow> routable_backend_snapshot list \<Rightarrow> string list \<Rightarrow> routing_result"
  where
  "select_quality_tier route_id request_id m =
     (let tier = cap_quality_tier (mr_capabilities m)
      in select_by_tier RP_QUALITY_TIER (quality_tier_value tier)
           (\<lambda>c. cand_quality_tier c = Some tier) route_id request_id m)"

definition select_fallback ::
  "uuid \<Rightarrow> uuid \<Rightarrow> model_record \<Rightarrow> routable_backend_snapshot list \<Rightarrow> string list \<Rightarrow> routing_result"
  where
  "select_fallback route_id request_id m bs excluded =
     (let primary = select_explicit route_id request_id m bs excluded
      in if rr_success primary \<and> rr_decision primary \<noteq> None then primary
         else case mr_fallback_backend m of
           None \<Rightarrow> route_refused
             (case rr_error primary of None \<Rightarrow> ''no fallback configured'' | Some e \<Rightarrow> e)
             (rr_candidates primary)
         | Some fallback_id \<Rightarrow>
             (let cs = filter_candidates m bs excluded
              in if usable fallback_id cs
                 then route_chosen
                        \<lparr>rd_route_id = route_id, rd_request_id = request_id,
                         rd_model_id = mr_model_id m, rd_backend_id = fallback_id,
                         rd_policy_name = routing_policy_name_value RP_FALLBACK,
                         rd_fallback_used = True, rd_primary_backend_id = Some (mr_backend m),
                         rd_reason = ''fallback_backend_selected''\<rparr> cs
                 else route_refused (''fallback backend unavailable: '' @ fallback_id) cs))"

definition select_for_model ::
  "uuid \<Rightarrow> uuid \<Rightarrow> model_record \<Rightarrow> routable_backend_snapshot list \<Rightarrow> string list \<Rightarrow> routing_result"
  where
  "select_for_model route_id request_id m =
     (case mr_routing_policy m of
        RP_LATENCY_TIER \<Rightarrow> select_latency_tier route_id request_id m
      | RP_QUALITY_TIER \<Rightarrow> select_quality_tier route_id request_id m
      | RP_FALLBACK \<Rightarrow> select_fallback route_id request_id m
      | RP_EXPLICIT \<Rightarrow> select_explicit route_id request_id m)"

section \<open>Events (routing/events.py)\<close>

datatype routing_event_type =
    RE_STARTED | RE_COMPLETED | RE_MODEL_SELECTED | RE_BACKEND_SELECTED | RE_FALLBACK_INVOKED
  | RE_FAILED

fun routing_event_value :: "routing_event_type \<Rightarrow> string" where
  "routing_event_value RE_STARTED = ''routing_started''"
| "routing_event_value RE_COMPLETED = ''routing_completed''"
| "routing_event_value RE_MODEL_SELECTED = ''model_selected''"
| "routing_event_value RE_BACKEND_SELECTED = ''backend_selected''"
| "routing_event_value RE_FALLBACK_INVOKED = ''fallback_invoked''"
| "routing_event_value RE_FAILED = ''routing_failed''"

definition opt_value :: "string option \<Rightarrow> extra_value" where
  "opt_value x = (case x of None \<Rightarrow> X_NONE | Some v \<Rightarrow> X_STR v)"

definition emit_routing ::
  "datetime \<Rightarrow> routing_event_type \<Rightarrow> uuid \<Rightarrow> uuid option \<Rightarrow> string option \<Rightarrow> string option \<Rightarrow>
   extra \<Rightarrow> observers \<Rightarrow> observers" where
  "emit_routing now ev request_id route_id model_id backend_id x =
     on_trace (append_event
       \<lparr>te_request_id = request_id, te_correlation_id = request_id, te_timestamp = now,
        te_component = RT_SCHEDULER, te_event_type = routing_event_value ev, te_batch_id = None,
        te_backend_id = None, te_lifecycle_state = None, te_decision_reason = None,
        te_extra = dict_update
          [(''routing_event'', X_BOOL True), (''route_id'', opt_value route_id),
           (''model_id'', opt_value model_id), (''backend_id'', opt_value backend_id)] x\<rparr>)"

section \<open>The engine (routing/engine.py)\<close>

definition record_route_failure ::
  "datetime \<Rightarrow> uuid \<Rightarrow> string \<Rightarrow> string \<Rightarrow> observers \<Rightarrow> observers" where
  "record_route_failure now request_id model_id e obs =
     emit_routing now RE_FAILED request_id None (Some model_id) None [(''error'', X_STR e)]
       (on_metrics (record_routing_failure model_id) obs)"

definition record_route_metrics :: "string \<Rightarrow> routing_decision \<Rightarrow> metrics_state \<Rightarrow> metrics_state" where
  "record_route_metrics model_id d m =
     (let m1 = record_backend_selection (rd_backend_id d)
                 (record_model_request model_id (record_routing_decision model_id (rd_backend_id d) m))
      in if rd_fallback_used d then record_fallback_invocation model_id m1 else m1)"

definition emit_route_decision ::
  "datetime \<Rightarrow> uuid \<Rightarrow> string \<Rightarrow> routing_decision \<Rightarrow> observers \<Rightarrow> observers" where
  "emit_route_decision now request_id model_id d obs =
     (let emit = (\<lambda>ev x. emit_routing now ev request_id (Some (rd_route_id d)) (Some model_id)
                    (Some (rd_backend_id d)) x);
          obs1 = (if rd_fallback_used d
                  then emit RE_FALLBACK_INVOKED
                         [(''primary_backend_id'', opt_value (rd_primary_backend_id d)),
                          (''reason'', X_STR (rd_reason d))] obs
                  else obs);
          obs2 = emit RE_BACKEND_SELECTED
                   [(''policy_name'', X_STR (rd_policy_name d)), (''reason'', X_STR (rd_reason d))] obs1
      in emit RE_COMPLETED [(''fallback_used'', X_BOOL (rd_fallback_used d))] obs2)"

definition route_request ::
  "datetime \<Rightarrow> uuid \<Rightarrow> model_registry \<Rightarrow> routable_backend_snapshot list \<Rightarrow> uuid \<Rightarrow> string \<Rightarrow>
   string list \<Rightarrow> observers \<Rightarrow> routing_result \<times> observers" where
  "route_request now route_id models backends request_id model_id excluded obs =
     (let obs1 = emit_routing now RE_STARTED request_id None (Some model_id) None [] obs
      in case get_model model_id models of
           None \<Rightarrow>
             (route_refused (''model unavailable: '' @ model_id) [],
              record_route_failure now request_id model_id (''model unavailable: '' @ model_id) obs1)
         | Some m \<Rightarrow>
             (let obs2 = emit_routing now RE_MODEL_SELECTED request_id None (Some (mr_model_id m)) None
                    [(''routing_policy'', X_STR (routing_policy_name_value (mr_routing_policy m)))] obs1;
                  res = select_for_model route_id request_id m backends excluded
              in case rr_decision res of
                   Some d \<Rightarrow>
                     if rr_success res
                     then (res, emit_route_decision now request_id model_id d
                             (on_metrics (record_route_metrics model_id d) obs2))
                     else (res, record_route_failure now request_id model_id
                             (case rr_error res of None \<Rightarrow> ''routing_failed'' | Some e \<Rightarrow> e) obs2)
                 | None \<Rightarrow> (res, record_route_failure now request_id model_id
                             (case rr_error res of None \<Rightarrow> ''routing_failed'' | Some e \<Rightarrow> e) obs2)))"

end
