(* ===== verification/Backends.thy ===== *)
theory Backends
  imports Lifecycle_Events
begin

text \<open>
  The inference backends (\<open>inference_adapter/backend\<close>, \<open>backends/mock.py\<close>, \<open>backends/vllm.py\<close>):
  their states, results and failures, the mock backend, and the vLLM backend over an HTTP
  client. The client library is not in the repository: its replies are the functions of
  \<open>http_env\<close>, with JSON bodies given as the fields the code reads from them. A clock reading or
  a measured duration is an argument.
\<close>

section \<open>Process states (backend/state.py)\<close>

datatype backend_state = BK_UNKNOWN | BK_STARTING | BK_HEALTHY | BK_DEGRADED | BK_UNHEALTHY | BK_STOPPED

fun backend_state_value :: "backend_state \<Rightarrow> string" where
  "backend_state_value BK_UNKNOWN = ''unknown''"
| "backend_state_value BK_STARTING = ''starting''"
| "backend_state_value BK_HEALTHY = ''healthy''"
| "backend_state_value BK_DEGRADED = ''degraded''"
| "backend_state_value BK_UNHEALTHY = ''unhealthy''"
| "backend_state_value BK_STOPPED = ''stopped''"

definition backend_terminal :: "backend_state \<Rightarrow> bool" where
  "backend_terminal st \<longleftrightarrow> st = BK_STOPPED"

fun allowed_backend_transitions :: "backend_state \<Rightarrow> backend_state list" where
  "allowed_backend_transitions BK_UNKNOWN = [BK_STARTING, BK_STOPPED]"
| "allowed_backend_transitions BK_STARTING = [BK_HEALTHY, BK_DEGRADED, BK_UNHEALTHY, BK_STOPPED]"
| "allowed_backend_transitions BK_HEALTHY = [BK_DEGRADED, BK_UNHEALTHY, BK_STOPPED]"
| "allowed_backend_transitions BK_DEGRADED = [BK_HEALTHY, BK_UNHEALTHY, BK_STOPPED]"
| "allowed_backend_transitions BK_UNHEALTHY = [BK_STARTING, BK_STOPPED]"
| "allowed_backend_transitions BK_STOPPED = []"

definition backend_can_transition :: "backend_state \<Rightarrow> backend_state \<Rightarrow> bool" where
  "backend_can_transition from_state to_state =
     (if from_state = to_state then True
      else if backend_terminal from_state then False
      else to_state \<in> set (allowed_backend_transitions from_state))"

interpretation backend_machine: state_machine backend_can_transition backend_terminal
  by unfold_locales (auto simp: backend_can_transition_def split: if_splits)

section \<open>Results and failures (backend/models.py, backend/failures.py)\<close>

datatype execution_status =
  XS_SUBMITTED | XS_ACKNOWLEDGED | XS_COMPLETED | XS_CANCELLED | XS_FAILED | XS_UNKNOWN

datatype backend_health_state = HS_HEALTHY | HS_DEGRADED | HS_UNAVAILABLE

fun backend_health_value :: "backend_health_state \<Rightarrow> string" where
  "backend_health_value HS_HEALTHY = ''healthy''"
| "backend_health_value HS_DEGRADED = ''degraded''"
| "backend_health_value HS_UNAVAILABLE = ''unavailable''"

record request_completion_result =
  cmr_request_id :: uuid
  cmr_backend_id :: string
  cmr_generated_text :: string
  cmr_prompt_tokens :: int
  cmr_completion_tokens :: int
  cmr_total_tokens :: int
  cmr_finish_reason :: "string option"
  cmr_completed_at :: datetime
  cmr_execution_duration_ms :: "rat option"
  cmr_status :: execution_status

record health_check_result =
  hc_backend_id :: string
  hc_healthy :: bool
  hc_state :: string
  hc_message :: "string option"
  hc_checked_at :: datetime

record batch_submit_result =
  su_batch_id :: uuid
  su_backend_id :: string
  su_accepted :: bool
  su_reason :: string
  su_submitted_at :: datetime
  su_completions :: "request_completion_result list"

record request_status_result =
  rst_request_id :: uuid
  rst_backend_id :: string
  rst_status :: execution_status
  rst_reason :: "string option"

record cancel_request_result =
  cr_request_id :: uuid
  cr_backend_id :: string
  cr_cancelled :: bool
  cr_reason :: string

text \<open>\<open>AE_Other\<close> stands for an exception of the HTTP or JSON library.\<close>

datatype adapter_exn =
    BackendUnavailable string
  | BackendTimeout string
  | BackendRejected string
  | BackendMisconfigured string
  | BackendInternalFailure string
  | AE_ValueError string
  | AE_KeyError string
  | AE_Other string

fun adapter_exn_message :: "adapter_exn \<Rightarrow> string" where
  "adapter_exn_message (BackendUnavailable m) = m"
| "adapter_exn_message (BackendTimeout m) = m"
| "adapter_exn_message (BackendRejected m) = m"
| "adapter_exn_message (BackendMisconfigured m) = m"
| "adapter_exn_message (BackendInternalFailure m) = m"
| "adapter_exn_message (AE_ValueError m) = m"
| "adapter_exn_message (AE_KeyError m) = CHR 39 # m @ [CHR 39]"
| "adapter_exn_message (AE_Other m) = m"

definition submit_result ::
  "datetime \<Rightarrow> string \<Rightarrow> dispatch_batch \<Rightarrow> bool \<Rightarrow> string \<Rightarrow> request_completion_result list \<Rightarrow>
   batch_submit_result" where
  "submit_result now b batch accepted reason completions =
     \<lparr>su_batch_id = db_batch_id batch, su_backend_id = b, su_accepted = accepted,
      su_reason = reason, su_submitted_at = now, su_completions = completions\<rparr>"

section \<open>Streams\<close>

record stream_chunk =
  ch_stream_id :: uuid
  ch_request_id :: uuid
  ch_index :: nat
  ch_delta_text :: string
  ch_finish_reason :: "string option"
  ch_timestamp :: datetime
  ch_is_first :: bool

definition mk_chunk ::
  "datetime \<Rightarrow> uuid \<Rightarrow> uuid \<Rightarrow> nat \<Rightarrow> string \<Rightarrow> string option \<Rightarrow> bool \<Rightarrow> stream_chunk" where
  "mk_chunk now sid r i text fin is_first =
     \<lparr>ch_stream_id = sid, ch_request_id = r, ch_index = i, ch_delta_text = text,
      ch_finish_reason = fin, ch_timestamp = now, ch_is_first = is_first\<rparr>"

section \<open>The mock backend (backends/mock.py)\<close>

record mock_backend =
  mk_backend_id :: string
  mk_supported_models :: "string list"
  mk_max_batch_size :: int
  mk_reject :: bool
  mk_submitted_batches :: "uuid list"
  mk_request_status :: "(uuid, execution_status) dict"
  mk_cancelled_requests :: "uuid list"
  mk_stream_fail :: bool

definition new_mock :: "string \<Rightarrow> string list \<Rightarrow> int \<Rightarrow> bool \<Rightarrow> mock_backend" where
  "new_mock i models capacity reject =
     \<lparr>mk_backend_id = i, mk_supported_models = models, mk_max_batch_size = capacity,
      mk_reject = reject, mk_submitted_batches = [], mk_request_status = [],
      mk_cancelled_requests = [], mk_stream_fail = False\<rparr>"

definition mock_submit_batch ::
  "datetime \<Rightarrow> dispatch_batch \<Rightarrow> mock_backend \<Rightarrow> batch_submit_result \<times> mock_backend" where
  "mock_submit_batch now batch k =
     (let answer = (\<lambda>accepted reason. submit_result now (mk_backend_id k) batch accepted reason [])
      in if mk_reject k then (answer False ''mock_reject_enabled'', k)
         else if db_model batch \<notin> set (mk_supported_models k)
         then (answer False ''unsupported_model'', k)
         else if int (length (db_assignments batch)) > mk_max_batch_size k
         then (answer False ''batch_too_large'', k)
         else (answer True ''mock_acknowledged'',
               k\<lparr>mk_submitted_batches := List.insert (db_batch_id batch) (mk_submitted_batches k),
                 mk_request_status := fold (\<lambda>a. dict_set (ba_request_id a) XS_ACKNOWLEDGED)
                   (db_assignments batch) (mk_request_status k)\<rparr>))"

definition status_result :: "string \<Rightarrow> uuid \<Rightarrow> (uuid, execution_status) dict \<Rightarrow> request_status_result" where
  "status_result b r d =
     (let st = (case dict_get d r of None \<Rightarrow> XS_UNKNOWN | Some x \<Rightarrow> x)
      in \<lparr>rst_request_id = r, rst_backend_id = b, rst_status = st,
          rst_reason = (if st \<noteq> XS_UNKNOWN then None else Some ''not_submitted'')\<rparr>)"

definition mock_request_status :: "uuid \<Rightarrow> mock_backend \<Rightarrow> request_status_result" where
  "mock_request_status r k = status_result (mk_backend_id k) r (mk_request_status k)"

definition cancel_result :: "string \<Rightarrow> uuid \<Rightarrow> bool \<Rightarrow> string \<Rightarrow> cancel_request_result" where
  "cancel_result b r done reason =
     \<lparr>cr_request_id = r, cr_backend_id = b, cr_cancelled = done, cr_reason = reason\<rparr>"

definition mock_cancel_request :: "uuid \<Rightarrow> mock_backend \<Rightarrow> cancel_request_result \<times> mock_backend" where
  "mock_cancel_request r k =
     (if dict_get (mk_request_status k) r = None
      then (cancel_result (mk_backend_id k) r False ''request_not_found'', k)
      else (cancel_result (mk_backend_id k) r True ''mock_cancelled'',
            k\<lparr>mk_request_status := dict_set r XS_CANCELLED (mk_request_status k),
              mk_cancelled_requests := List.insert r (mk_cancelled_requests k)\<rparr>))"

definition mock_health_check :: "datetime \<Rightarrow> mock_backend \<Rightarrow> health_check_result" where
  "mock_health_check now k =
     \<lparr>hc_backend_id = mk_backend_id k, hc_healthy = (\<not> mk_reject k),
      hc_state = (if mk_reject k then ''unhealthy'' else ''healthy''),
      hc_message = Some (if mk_reject k then ''mock reject mode'' else ''mock backend operational''),
      hc_checked_at = now\<rparr>"

definition was_batch_submitted :: "uuid \<Rightarrow> mock_backend \<Rightarrow> bool" where
  "was_batch_submitted i k \<longleftrightarrow> i \<in> set (mk_submitted_batches k)"

definition enable_stream_failure :: "bool \<Rightarrow> mock_backend \<Rightarrow> mock_backend" where
  "enable_stream_failure enabled k = k\<lparr>mk_stream_fail := enabled\<rparr>"

definition mock_tokens :: "string list" where
  "mock_tokens = [''mock'', '' stream'', '' output'']"

text \<open>
  \<open>cancelled i\<close> tells whether the request has been cancelled by the time the generator is
  resumed for token \<open>i\<close>; after the last token it is not asked again. The clock \<open>now\<close> is read once
  per chunk.
\<close>

fun mock_token_chunks ::
  "(nat \<Rightarrow> datetime) \<Rightarrow> uuid \<Rightarrow> uuid \<Rightarrow> (nat \<Rightarrow> bool) \<Rightarrow> nat \<Rightarrow> string list \<Rightarrow> stream_chunk list \<times> bool" where
  "mock_token_chunks now r sid cancelled i [] =
     ([mk_chunk (now i) sid r i [] (Some ''stop'') False], True)"
| "mock_token_chunks now r sid cancelled i (t # ts) =
     (if cancelled i then ([], False)
      else case mock_token_chunks now r sid cancelled (Suc i) ts of
             (cs, finished) \<Rightarrow> (mk_chunk (now i) sid r i t None (i = 0) # cs, finished))"

definition mock_stream_request ::
  "(nat \<Rightarrow> datetime) \<Rightarrow> uuid \<Rightarrow> uuid \<Rightarrow> (nat \<Rightarrow> bool) \<Rightarrow> mock_backend \<Rightarrow>
   (adapter_exn + stream_chunk list) \<times> mock_backend" where
  "mock_stream_request now r sid cancelled k =
     (if mk_stream_fail k then (Inl (AE_Other ''mock stream failure injected''), k)
      else if r \<in> set (mk_cancelled_requests k) then (Inr [], k)
      else case mock_token_chunks now r sid cancelled 0 mock_tokens of
             (cs, finished) \<Rightarrow>
               (Inr cs, if finished
                        then k\<lparr>mk_request_status := dict_set r XS_COMPLETED (mk_request_status k)\<rparr>
                        else k))"

section \<open>The vLLM backend (backends/vllm.py)\<close>

record vllm_config =
  vc_backend_id :: string
  vc_base_url :: string
  vc_default_model :: string
  vc_supported_models :: "string list"
  vc_max_batch_size :: int
  vc_request_timeout_seconds :: rat
  vc_health_timeout_seconds :: rat
  vc_api_key :: "string option"
  vc_tensor_parallel_size :: "int option"
  vc_gpu_memory_utilization :: "rat option"

definition rstrip_slash :: "string \<Rightarrow> string" where
  "rstrip_slash u = rev (dropWhile (\<lambda>c. c = CHR ''/'') (rev u))"

definition vllm_config_from_values ::
  "string \<Rightarrow> string \<Rightarrow> string \<Rightarrow> string list option \<Rightarrow> int \<Rightarrow> rat \<Rightarrow> rat \<Rightarrow> string option \<Rightarrow> int option \<Rightarrow>
   rat option \<Rightarrow> vllm_config" where
  "vllm_config_from_values i url model supported capacity timeout health key tp util =
     (let models = (case supported of
            Some ms \<Rightarrow> if ms \<noteq> [] then ms else if model \<noteq> [] then [model] else []
          | None \<Rightarrow> if model \<noteq> [] then [model] else [])
      in \<lparr>vc_backend_id = i, vc_base_url = rstrip_slash url, vc_default_model = model,
          vc_supported_models = models, vc_max_batch_size = capacity,
          vc_request_timeout_seconds = timeout, vc_health_timeout_seconds = health,
          vc_api_key = key, vc_tensor_parallel_size = tp, vc_gpu_memory_utilization = util\<rparr>)"

datatype http_failure = HttpTimeout string | HttpRequestError string

fun http_failure_message :: "http_failure \<Rightarrow> string" where
  "http_failure_message (HttpTimeout m) = m"
| "http_failure_message (HttpRequestError m) = m"

record chat_payload =
  pl_model :: string
  pl_messages :: "(string \<times> string) list"
  pl_max_tokens :: int
  pl_stream :: bool
  pl_temperature :: "rat option"
  pl_top_p :: "rat option"

text \<open>The fields of a completion body that the code reads; an absent or null field is \<open>None\<close>.\<close>

record chat_body =
  cb_choices :: "(string option \<times> string option) list"
  cb_prompt_tokens :: "int option"
  cb_completion_tokens :: "int option"
  cb_total_tokens :: "int option"

text \<open>
  The replies of the client: the health and models endpoints, a completion per request, the
  status, lines and possible failure of a stream, and the library functions that parse a
  stream's JSON line (content and finish reason of its first choice) and print a float.
\<close>

record http_env =
  he_health :: "http_failure + int"
  he_models :: "http_failure + (int \<times> (string + string option list))"
  he_chat :: "uuid \<Rightarrow> chat_payload \<Rightarrow> http_failure + (int \<times> (string + chat_body))"
  he_stream :: "uuid \<Rightarrow> chat_payload \<Rightarrow> http_failure + (int \<times> string list \<times> http_failure option)"
  he_parse_line :: "string \<Rightarrow> string + (string option \<times> string option)"
  he_show_float :: "rat \<Rightarrow> string"

record vllm_backend =
  vb_config :: vllm_config
  vb_request_status :: "(uuid, execution_status) dict"
  vb_completions :: "(uuid, request_completion_result) dict"
  vb_last_health :: "health_check_result option"
  vb_loaded_models :: "string list"

definition new_vllm :: "vllm_config \<Rightarrow> vllm_backend" where
  "new_vllm c = \<lparr>vb_config = c, vb_request_status = [], vb_completions = [], vb_last_health = None,
                 vb_loaded_models = []\<rparr>"

definition vllm_health ::
  "datetime \<Rightarrow> vllm_backend \<Rightarrow> bool \<Rightarrow> backend_health_state \<Rightarrow> string \<Rightarrow> health_check_result" where
  "vllm_health now k healthy st m =
     \<lparr>hc_backend_id = vc_backend_id (vb_config k), hc_healthy = healthy,
      hc_state = backend_health_value st, hc_message = Some m, hc_checked_at = now\<rparr>"

definition keep_health :: "health_check_result \<Rightarrow> vllm_backend \<Rightarrow> vllm_backend" where
  "keep_health h k = k\<lparr>vb_last_health := Some h\<rparr>"

text \<open>
  The ids of the models endpoint: none when the call fails or answers another status than 200,
  and an exception when its body cannot be parsed.
\<close>

definition loaded_ids :: "http_env \<Rightarrow> string + string list" where
  "loaded_ids env =
     (case he_models env of
        Inl _ \<Rightarrow> Inr []
      | Inr (code, body) \<Rightarrow>
          if code = 200
          then (case body of
                  Inl e \<Rightarrow> Inl e
                | Inr ids \<Rightarrow> Inr (List.map_filter (\<lambda>i. case i of
                    None \<Rightarrow> None | Some x \<Rightarrow> if x \<noteq> [] then Some x else None) ids))
          else Inr [])"

definition configured_models :: "vllm_config \<Rightarrow> string list" where
  "configured_models c =
     (if vc_supported_models c \<noteq> [] then vc_supported_models c
      else if vc_default_model c \<noteq> [] then [vc_default_model c] else [])"

definition vllm_health_check ::
  "http_env \<Rightarrow> datetime \<Rightarrow> vllm_backend \<Rightarrow> (adapter_exn + health_check_result) \<times> vllm_backend" where
  "vllm_health_check env now k =
     (case he_health env of
        Inl e \<Rightarrow>
          (let h = vllm_health now k False HS_UNAVAILABLE (http_failure_message e)
           in (Inr h, keep_health h k))
      | Inr code \<Rightarrow>
          if code \<ge> 500 then
            (let h = vllm_health now k False HS_UNAVAILABLE
                       (''health endpoint returned '' @ show_int code)
             in (Inr h, keep_health h k))
          else
            case loaded_ids env of
              Inl e \<Rightarrow> (Inl (AE_Other e), k)
            | Inr loaded \<Rightarrow>
                (let k1 = k\<lparr>vb_loaded_models := loaded\<rparr>;
                     configured = configured_models (vb_config k);
                     ready = list_ex (\<lambda>m. m \<in> set loaded) configured;
                     h = (if configured \<noteq> [] \<and> loaded \<noteq> []
                          then (if ready then vllm_health now k True HS_HEALTHY ''model loaded''
                                else vllm_health now k False HS_DEGRADED
                                       ''vllm reachable but configured model not loaded'')
                          else vllm_health now k True HS_HEALTHY ''vllm reachable'')
                 in (Inr h, keep_health h k1)))"

definition or_zero :: "int option \<Rightarrow> int" where
  "or_zero x = (case x of None \<Rightarrow> 0 | Some v \<Rightarrow> v)"

definition vllm_payload :: "vllm_backend \<Rightarrow> string \<Rightarrow> inference_request \<Rightarrow> chat_payload" where
  "vllm_payload k model r =
     \<lparr>pl_model = (if model \<noteq> [] then model else vc_default_model (vb_config k)),
      pl_messages = map (\<lambda>m. (message_role_value (m_role m), m_content m)) (ir_messages r),
      pl_max_tokens = ir_max_tokens r, pl_stream = False, pl_temperature = ir_temperature r,
      pl_top_p = ir_top_p r\<rparr>"

definition vllm_completion ::
  "datetime \<Rightarrow> rat \<Rightarrow> vllm_backend \<Rightarrow> uuid \<Rightarrow> chat_body \<Rightarrow> request_completion_result" where
  "vllm_completion now dur k r body =
     (let (content, fin) = (case cb_choices body of [] \<Rightarrow> (None, None) | c # _ \<Rightarrow> c);
          prompt_tokens = or_zero (cb_prompt_tokens body);
          completion_tokens = or_zero (cb_completion_tokens body);
          total_tokens = or_zero (cb_total_tokens body)
      in \<lparr>cmr_request_id = r, cmr_backend_id = vc_backend_id (vb_config k),
          cmr_generated_text = (case content of None \<Rightarrow> [] | Some t \<Rightarrow> t),
          cmr_prompt_tokens = prompt_tokens, cmr_completion_tokens = completion_tokens,
          cmr_total_tokens =
            (if total_tokens \<noteq> 0 then total_tokens else prompt_tokens + completion_tokens),
          cmr_finish_reason = fin, cmr_completed_at = now, cmr_execution_duration_ms = Some dur,
          cmr_status = XS_COMPLETED\<rparr>)"

definition vllm_error_result :: "datetime \<Rightarrow> rat \<Rightarrow> vllm_backend \<Rightarrow> uuid \<Rightarrow> request_completion_result" where
  "vllm_error_result now dur k r =
     \<lparr>cmr_request_id = r, cmr_backend_id = vc_backend_id (vb_config k), cmr_generated_text = [],
      cmr_prompt_tokens = 0, cmr_completion_tokens = 0, cmr_total_tokens = 0,
      cmr_finish_reason = Some ''error'', cmr_completed_at = now,
      cmr_execution_duration_ms = Some dur, cmr_status = XS_FAILED\<rparr>"

definition vllm_execute_request ::
  "http_env \<Rightarrow> datetime \<Rightarrow> rat \<Rightarrow> vllm_backend \<Rightarrow> string \<Rightarrow> batch_assignment \<Rightarrow>
   adapter_exn + request_completion_result" where
  "vllm_execute_request env now dur k model a =
     (case he_chat env (ba_request_id a) (vllm_payload k model (ba_inference_request a)) of
        Inl (HttpTimeout _) \<Rightarrow> Inl (BackendTimeout (''vllm request timed out after ''
          @ he_show_float env (vc_request_timeout_seconds (vb_config k)) @ ''s''))
      | Inl (HttpRequestError m) \<Rightarrow> Inl (BackendUnavailable (''vllm request failed: '' @ m))
      | Inr (code, body) \<Rightarrow>
          if code \<ge> 500 then Inl (BackendInternalFailure (''vllm server error: '' @ show_int code))
          else if code \<ge> 400 then Inr (vllm_error_result now dur k (ba_request_id a))
          else case body of
                 Inl e \<Rightarrow> Inl (AE_Other e)
               | Inr b \<Rightarrow> Inr (vllm_completion now dur k (ba_request_id a) b))"

definition set_vllm_status :: "uuid \<Rightarrow> execution_status \<Rightarrow> vllm_backend \<Rightarrow> vllm_backend" where
  "set_vllm_status r st k = k\<lparr>vb_request_status := dict_set r st (vb_request_status k)\<rparr>"

fun vllm_run ::
  "http_env \<Rightarrow> datetime \<Rightarrow> (uuid \<Rightarrow> rat) \<Rightarrow> dispatch_batch \<Rightarrow> request_completion_result list \<Rightarrow>
   batch_assignment list \<Rightarrow> vllm_backend \<Rightarrow> (adapter_exn + batch_submit_result) \<times> vllm_backend" where
  "vllm_run env now dur batch done [] k =
     (Inr (submit_result now (vc_backend_id (vb_config k)) batch True ''vllm_completed'' done), k)"
| "vllm_run env now dur batch done (a # as) k =
     (case vllm_execute_request env now (dur (ba_request_id a)) k (db_model batch) a of
        Inl e \<Rightarrow> (Inl e, k)
      | Inr c \<Rightarrow>
          if cmr_status c = XS_COMPLETED
          then vllm_run env now dur batch (done @ [c]) as
                 ((set_vllm_status (ba_request_id a) XS_COMPLETED k)
                    \<lparr>vb_completions := dict_set (ba_request_id a) c (vb_completions k)\<rparr>)
          else (Inr (submit_result now (vc_backend_id (vb_config k)) batch False
                  ''inference_execution_failed'' (done @ [c])),
                set_vllm_status (ba_request_id a) XS_FAILED k))"

definition vllm_submit_batch ::
  "http_env \<Rightarrow> datetime \<Rightarrow> (uuid \<Rightarrow> rat) \<Rightarrow> dispatch_batch \<Rightarrow> vllm_backend \<Rightarrow>
   (adapter_exn + batch_submit_result) \<times> vllm_backend" where
  "vllm_submit_batch env now dur batch k =
     (let c = vb_config k;
          answer = (\<lambda>accepted reason. Inr (submit_result now (vc_backend_id c) batch accepted reason []))
      in if db_model batch \<notin> set (vc_supported_models c) \<and> vc_supported_models c \<noteq> []
         then (answer False ''unsupported_model'', k)
         else if int (length (db_assignments batch)) > vc_max_batch_size c
         then (answer False ''batch_too_large'', k)
         else case vllm_health_check env now k of
           (Inl e, k1) \<Rightarrow> (Inl e, k1)
         | (Inr h, k1) \<Rightarrow>
             if hc_state h = backend_health_value HS_UNAVAILABLE
             then (Inl (BackendUnavailable (case hc_message h of
                     Some m \<Rightarrow> if m \<noteq> [] then m else ''vllm unavailable''
                   | None \<Rightarrow> ''vllm unavailable'')), k1)
             else if hc_state h = backend_health_value HS_DEGRADED
               \<and> db_model batch \<notin> set (vb_loaded_models k1)
             then (answer False ''model_not_loaded'', k1)
             else if list_ex (\<lambda>a. ir_stream (ba_inference_request a)) (db_assignments batch)
             then (answer True ''vllm_stream_deferred'',
                   fold (\<lambda>a. set_vllm_status (ba_request_id a) XS_ACKNOWLEDGED) (db_assignments batch) k1)
             else vllm_run env now dur batch [] (db_assignments batch) k1)"

definition vllm_request_status :: "uuid \<Rightarrow> vllm_backend \<Rightarrow> request_status_result" where
  "vllm_request_status r k = status_result (vc_backend_id (vb_config k)) r (vb_request_status k)"

definition vllm_request_completion :: "uuid \<Rightarrow> vllm_backend \<Rightarrow> request_completion_result option" where
  "vllm_request_completion r k = dict_get (vb_completions k) r"

definition vllm_cancel_request :: "uuid \<Rightarrow> vllm_backend \<Rightarrow> cancel_request_result \<times> vllm_backend" where
  "vllm_cancel_request r k =
     (if dict_get (vb_request_status k) r = None
      then (cancel_result (vc_backend_id (vb_config k)) r False ''request_not_found'', k)
      else (cancel_result (vc_backend_id (vb_config k)) r True ''vllm_cancelled'',
            set_vllm_status r XS_CANCELLED k))"

subsection \<open>Streaming\<close>

text \<open>
  The chunks of the lines, their number \<open>n\<close> (the clock is read once per chunk) and the index after
  them, and how the loop over the lines ended: at a break (\<open>True\<close>), at the end of the lines
  (\<open>False\<close>), or with an exception.
\<close>

fun vllm_lines ::
  "http_env \<Rightarrow> (nat \<Rightarrow> datetime) \<Rightarrow> uuid \<Rightarrow> uuid \<Rightarrow> nat \<Rightarrow> nat \<Rightarrow> string list \<Rightarrow>
   stream_chunk list \<times> nat \<times> (adapter_exn + bool)" where
  "vllm_lines env now r sid n i [] = ([], i, Inr False)"
| "vllm_lines env now r sid n i (l # ls) =
     (if take 5 l \<noteq> ''data:'' then vllm_lines env now r sid n i ls
      else let text = strip (drop 5 l)
           in if text = ''[DONE]'' then ([], i, Inr True)
              else case he_parse_line env text of
                Inl e \<Rightarrow> ([], i, Inl (AE_Other e))
              | Inr (content, fin) \<Rightarrow>
                  let delta = (case content of None \<Rightarrow> [] | Some t \<Rightarrow> t)
                  in if delta = [] \<and> fin = None then vllm_lines env now r sid n i ls
                     else let chunk = mk_chunk (now n) sid r i delta fin (i = 0 \<and> delta \<noteq> []);
                              i' = (if delta \<noteq> [] then Suc i else i)
                          in if (case fin of None \<Rightarrow> False | Some f \<Rightarrow> f \<noteq> [])
                             then ([chunk], i', Inr True)
                             else case vllm_lines env now r sid (Suc n) i' ls of
                                    (cs, j, end) \<Rightarrow> (chunk # cs, j, end))"

definition stream_failure :: "http_env \<Rightarrow> vllm_backend \<Rightarrow> http_failure \<Rightarrow> adapter_exn" where
  "stream_failure env k e =
     (case e of
        HttpTimeout _ \<Rightarrow> BackendTimeout (''vllm stream timed out after ''
          @ he_show_float env (vc_request_timeout_seconds (vb_config k)) @ ''s'')
      | HttpRequestError m \<Rightarrow> BackendUnavailable (''vllm stream failed: '' @ m))"

definition vllm_stream_request ::
  "http_env \<Rightarrow> (nat \<Rightarrow> datetime) \<Rightarrow> uuid \<Rightarrow> uuid \<Rightarrow> inference_request \<Rightarrow> string \<Rightarrow> vllm_backend \<Rightarrow>
   stream_chunk list \<times> adapter_exn option \<times> vllm_backend" where
  "vllm_stream_request env now r sid req model k =
     (case he_stream env r ((vllm_payload k model req)
          \<lparr>pl_stream := True, pl_temperature := None, pl_top_p := None\<rparr>) of
        Inl e \<Rightarrow> ([], Some (stream_failure env k e), k)
      | Inr (code, ls, failed) \<Rightarrow>
          if code \<ge> 400
          then ([], Some (BackendInternalFailure (''vllm stream error: '' @ show_int code)), k)
          else case vllm_lines env now r sid 0 0 ls of
                 (cs, i, Inl e) \<Rightarrow> (cs, Some e, k)
               | (cs, i, Inr stopped) \<Rightarrow>
                   (case (if stopped then None else failed) of
                      Some e \<Rightarrow> (cs, Some (stream_failure env k e), k)
                    | None \<Rightarrow>
                        (cs @ (if i = 0 then [mk_chunk (now (length cs)) sid r 0 [] (Some ''stop'') True] else []),
                         None, set_vllm_status r XS_COMPLETED k)))"

end
