(* ===== verification/Adapter.thy ===== *)
theory Adapter
  imports Backends
begin

text \<open>
  The backend registry (\<open>inference_adapter/registry\<close>), the adapter's events
  (\<open>inference_adapter/observability\<close>) and the adapter application (\<open>application.py\<close>): health
  refresh, registration, submission of a batch to a backend, completions and cancellation.
\<close>

section \<open>Backends behind one contract (backend/contract.py)\<close>

datatype backend = Mock mock_backend | VLLM vllm_backend

fun backend_id :: "backend \<Rightarrow> string" where
  "backend_id (Mock k) = mk_backend_id k"
| "backend_id (VLLM k) = vc_backend_id (vb_config k)"

text \<open>One call of a backend: the client's replies, the clock and the measured durations.\<close>

record call_env =
  ce_http :: http_env
  ce_now :: datetime
  ce_duration :: "uuid \<Rightarrow> rat"

fun backend_submit_batch ::
  "call_env \<Rightarrow> dispatch_batch \<Rightarrow> backend \<Rightarrow> (adapter_exn + batch_submit_result) \<times> backend" where
  "backend_submit_batch env batch (Mock k) =
     (case mock_submit_batch (ce_now env) batch k of (res, k') \<Rightarrow> (Inr res, Mock k'))"
| "backend_submit_batch env batch (VLLM k) =
     (case vllm_submit_batch (ce_http env) (ce_now env) (ce_duration env) batch k of
        (res, k') \<Rightarrow> (res, VLLM k'))"

fun backend_health_check :: "call_env \<Rightarrow> backend \<Rightarrow> (adapter_exn + health_check_result) \<times> backend" where
  "backend_health_check env (Mock k) = (Inr (mock_health_check (ce_now env) k), Mock k)"
| "backend_health_check env (VLLM k) =
     (case vllm_health_check (ce_http env) (ce_now env) k of (res, k') \<Rightarrow> (res, VLLM k'))"

fun backend_request_status :: "uuid \<Rightarrow> backend \<Rightarrow> request_status_result" where
  "backend_request_status r (Mock k) = mock_request_status r k"
| "backend_request_status r (VLLM k) = vllm_request_status r k"

fun backend_cancel_request :: "uuid \<Rightarrow> backend \<Rightarrow> cancel_request_result \<times> backend" where
  "backend_cancel_request r (Mock k) = (case mock_cancel_request r k of (x, k') \<Rightarrow> (x, Mock k'))"
| "backend_cancel_request r (VLLM k) = (case vllm_cancel_request r k of (x, k') \<Rightarrow> (x, VLLM k'))"

text \<open>The mock has no \<open>get_request_completion\<close>.\<close>

fun backend_completion :: "uuid \<Rightarrow> backend \<Rightarrow> request_completion_result option" where
  "backend_completion r (Mock k) = None"
| "backend_completion r (VLLM k) = vllm_request_completion r k"

lemma submit_keeps_id [simp]: "backend_id (snd (backend_submit_batch env batch k)) = backend_id k"
proof (cases k)
  case (Mock m)
  then show ?thesis
    by (simp add: mock_submit_batch_def Let_def)
next
  case (VLLM v)
  have run: "vb_config (snd (vllm_run e n u b cs as x)) = vb_config x" for e n u b cs as x
    by (induction e n u b cs as x rule: vllm_run.induct)
      (auto simp: set_vllm_status_def split: sum.split)
  have health: "vb_config (snd (vllm_health_check e n x)) = vb_config x" for e n x
    by (auto simp: vllm_health_check_def keep_health_def Let_def split: sum.split)
  have acks: "vb_config (fold (\<lambda>a. set_vllm_status (ba_request_id a) XS_ACKNOWLEDGED) as x) = vb_config x"
    for as :: "batch_assignment list" and x
    by (induction as arbitrary: x) (simp_all add: set_vllm_status_def)
  have "vb_config (snd (vllm_submit_batch e n u batch v)) = vb_config v" for e n u
    using health [of e n v]
    by (auto simp: vllm_submit_batch_def Let_def run acks split: prod.split sum.split)
  with VLLM show ?thesis by (simp split: prod.split) (metis snd_conv)
qed

section \<open>Registry (registry/registry.py)\<close>

record registered_backend =
  rb_backend :: backend
  rb_state :: backend_state
  rb_registered_at :: datetime
  rb_last_health_state :: "backend_state option"
  rb_supported_models :: "string list"
  rb_latency_tier :: latency_tier
  rb_quality_tier :: quality_tier
  rb_max_batch_size :: int

record adapter_state =
  ad_default_backend_id :: string
  ad_backends :: "(string, registered_backend) dict"
  ad_observers :: observers
  ad_running :: bool

type_synonym 'a adapt = "(adapter_state, adapter_exn, 'a) op"

definition put_backend :: "string \<Rightarrow> registered_backend \<Rightarrow> adapter_state \<Rightarrow> adapter_state" where
  "put_backend i b s = s\<lparr>ad_backends := dict_set i b (ad_backends s)\<rparr>"

definition registry_register_backend ::
  "datetime \<Rightarrow> backend \<Rightarrow> backend_state \<Rightarrow> string list option \<Rightarrow> latency_tier \<Rightarrow> quality_tier \<Rightarrow>
   int option \<Rightarrow> unit adapt" where
  "registry_register_backend now b st models lat qual capacity s =
     (if dict_get (ad_backends s) (backend_id b) \<noteq> None
      then (Inl (AE_ValueError (''backend already registered: '' @ backend_id b)), s)
      else (Inr (), put_backend (backend_id b)
        \<lparr>rb_backend = b, rb_state = st, rb_registered_at = now, rb_last_health_state = None,
         rb_supported_models = (case models of None \<Rightarrow> [] | Some ms \<Rightarrow> ms), rb_latency_tier = lat,
         rb_quality_tier = qual,
         rb_max_batch_size = (case capacity of None \<Rightarrow> 32 | Some c \<Rightarrow> c)\<rparr> s))"

definition registry_remove_backend :: "string \<Rightarrow> registered_backend option adapt" where
  "registry_remove_backend i s =
     (case dict_get (ad_backends s) i of
        None \<Rightarrow> (Inr None, s)
      | Some b \<Rightarrow>
          (Inr (Some (if backend_can_transition (rb_state b) BK_STOPPED
                      then b\<lparr>rb_state := BK_STOPPED\<rparr> else b)),
           s\<lparr>ad_backends := dict_del i (ad_backends s)\<rparr>))"

definition get_backend :: "string \<Rightarrow> adapter_state \<Rightarrow> registered_backend option" where
  "get_backend i s = dict_get (ad_backends s) i"

definition list_backends :: "adapter_state \<Rightarrow> registered_backend list" where
  "list_backends s = dict_values (ad_backends s)"

definition set_state :: "string \<Rightarrow> backend_state \<Rightarrow> unit adapt" where
  "set_state i st s =
     (case dict_get (ad_backends s) i of
        None \<Rightarrow> (Inl (AE_KeyError (''backend not found: '' @ i)), s)
      | Some b \<Rightarrow>
          if \<not> backend_can_transition (rb_state b) st
          then (Inl (AE_ValueError (''invalid state transition: '' @ backend_state_value (rb_state b)
                 @ '' -> '' @ backend_state_value st)), s)
          else (Inr (), put_backend i (b\<lparr>rb_state := st, rb_last_health_state := Some st\<rparr>) s))"

definition get_backend_instance :: "string \<Rightarrow> backend adapt" where
  "get_backend_instance i s =
     (case get_backend i s of
        None \<Rightarrow> (Inl (AE_KeyError (''backend not found: '' @ i)), s)
      | Some b \<Rightarrow> (Inr (rb_backend b), s))"

definition routable_healthy :: "backend_state \<Rightarrow> bool" where
  "routable_healthy st \<longleftrightarrow> st \<in> {BK_HEALTHY, BK_DEGRADED, BK_STARTING}"

definition list_routable_snapshots :: "adapter_state \<Rightarrow> routable_backend_snapshot list" where
  "list_routable_snapshots s =
     map (\<lambda>b. \<lparr>bs_backend_id = backend_id (rb_backend b),
              bs_state = backend_state_value (rb_state b), bs_healthy = routable_healthy (rb_state b),
              bs_supported_models = rb_supported_models b, bs_latency_tier = rb_latency_tier b,
              bs_quality_tier = rb_quality_tier b, bs_max_batch_size = rb_max_batch_size b\<rparr>)
       (dict_values (ad_backends s))"

interpretation backends: keyed_store
  "\<lambda>s. \<lambda>i. get_backend i s" put_backend
  "\<lambda>i s. snd (registry_remove_backend i s)" "\<lambda>s. dict_keys (ad_backends s)"
  "\<lambda>s. wf_dict (ad_backends s)"
  by unfold_locales
    (auto simp: get_backend_def put_backend_def registry_remove_backend_def wf_dict_def
      map_of_eq_None_iff image_iff distinct_update distinct_delete fun_upd_idem split: option.split)

section \<open>Events (observability/events.py)\<close>

datatype backend_event_type =
    BV_REGISTERED | BV_REMOVED | BV_SELECTED | BV_SUBMITTED | BV_ACCEPTED | BV_REJECTED
  | BV_HEALTH_CHANGED

fun backend_event_value :: "backend_event_type \<Rightarrow> string" where
  "backend_event_value BV_REGISTERED = ''backend_registered''"
| "backend_event_value BV_REMOVED = ''backend_removed''"
| "backend_event_value BV_SELECTED = ''backend_selected''"
| "backend_event_value BV_SUBMITTED = ''batch_submitted''"
| "backend_event_value BV_ACCEPTED = ''batch_accepted''"
| "backend_event_value BV_REJECTED = ''batch_rejected''"
| "backend_event_value BV_HEALTH_CHANGED = ''backend_health_changed''"

definition known_correlation :: "uuid \<Rightarrow> trace_store \<Rightarrow> string option" where
  "known_correlation r st = map_option (\<lambda>t. tc_correlation_id (rt_context t)) (dict_get st r)"

text \<open>Python's \<open>a or b\<close> for an optional string \<open>a\<close>.\<close>

definition str_or :: "string option \<Rightarrow> string \<Rightarrow> string" where
  "str_or a b = (case a of None \<Rightarrow> b | Some x \<Rightarrow> if x \<noteq> [] then x else b)"

text \<open>An event about no request is only logged.\<close>

definition backend_trace ::
  "datetime \<Rightarrow> backend_event_type \<Rightarrow> string option \<Rightarrow> uuid option \<Rightarrow> uuid \<Rightarrow> string option \<Rightarrow>
   string option \<Rightarrow> trace_store \<Rightarrow> trace_store" where
  "backend_trace now ev b batch r correlation reason st =
     (let resolved = str_or correlation (str_or (known_correlation r st) []);
          st1 = record_optional
            \<lparr>oe_request_id = Some r, oe_correlation_id = Some resolved, oe_timestamp = now,
             oe_component = RT_ADAPTER, oe_event_type = backend_event_value ev,
             oe_scheduler_cycle_id = None, oe_batch_id = batch, oe_backend_id = b,
             oe_decision_reason = reason, oe_extra = []\<rparr> st
      in if ev = BV_REJECTED
         then record_failure
            \<lparr>fe_request_id = r, fe_correlation_id = resolved, fe_timestamp = now,
             fe_component = RT_ADAPTER, fe_event_type = backend_event_value ev,
             fe_failure_type = ''backend_rejected'',
             fe_failure_reason = str_or reason ''batch_rejected'',
             fe_failure_state = ''failed'', fe_batch_id = batch, fe_backend_id = b\<rparr> st1
         else st1)"

definition emit_backend ::
  "datetime \<Rightarrow> backend_event_type \<Rightarrow> string option \<Rightarrow> uuid option \<Rightarrow> uuid option \<Rightarrow>
   string option \<Rightarrow> string option \<Rightarrow> observers \<Rightarrow> observers" where
  "emit_backend now ev b batch request correlation reason obs =
     (case request of
        None \<Rightarrow> obs
      | Some r \<Rightarrow> on_trace (backend_trace now ev b batch r correlation reason) obs)"

definition emit_backend_op ::
  "datetime \<Rightarrow> backend_event_type \<Rightarrow> string \<Rightarrow> uuid option \<Rightarrow> uuid option \<Rightarrow> string \<Rightarrow> unit adapt" where
  "emit_backend_op now ev b batch request reason =
     modify_op (\<lambda>s.
       let correlation = (case request of
             None \<Rightarrow> None
           | Some r \<Rightarrow> Option.bind (ob_trace (ad_observers s)) (known_correlation r))
       in s\<lparr>ad_observers :=
            emit_backend now ev (Some b) batch request correlation (Some reason) (ad_observers s)\<rparr>)"

definition backend_metrics :: "(metrics_state \<Rightarrow> metrics_state) \<Rightarrow> unit adapt" where
  "backend_metrics f = modify_op (\<lambda>s. s\<lparr>ad_observers := on_metrics f (ad_observers s)\<rparr>)"

section \<open>The application (application.py)\<close>

definition register_backend ::
  "datetime \<Rightarrow> backend \<Rightarrow> backend_state \<Rightarrow> string list option \<Rightarrow> latency_tier option \<Rightarrow>
   quality_tier option \<Rightarrow> int option \<Rightarrow> unit adapt" where
  "register_backend now b st models lat qual capacity =
     then_op (registry_register_backend now b st models
        (case lat of None \<Rightarrow> LT_STANDARD | Some l \<Rightarrow> l) (case qual of None \<Rightarrow> QT_STANDARD | Some q \<Rightarrow> q)
        capacity)
     (emit_backend_op now BV_REGISTERED (backend_id b) None None ''registered'')"

definition remove_backend :: "datetime \<Rightarrow> string \<Rightarrow> registered_backend option adapt" where
  "remove_backend now i =
     bind_op (registry_remove_backend i) (\<lambda>removed.
       then_op (if removed = None then return_op ()
                else emit_backend_op now BV_REMOVED i None None ''removed'')
       (return_op removed))"

definition health_target :: "health_check_result \<Rightarrow> backend_state" where
  "health_target h =
     (if hc_state h = ''unavailable'' \<or> \<not> hc_healthy h
      then (if hc_state h = ''unavailable'' then BK_UNHEALTHY else BK_DEGRADED)
      else BK_HEALTHY)"

definition write_backend :: "string \<Rightarrow> backend \<Rightarrow> adapter_state \<Rightarrow> adapter_state" where
  "write_backend i b s =
     (case dict_get (ad_backends s) i of
        None \<Rightarrow> s
      | Some e \<Rightarrow> put_backend i (e\<lparr>rb_backend := b\<rparr>) s)"

text \<open>A call that the backend answers or fails; what it wrote in itself stays either way.\<close>

definition call_backend ::
  "string \<Rightarrow> (backend \<Rightarrow> (adapter_exn + 'a) \<times> backend) \<Rightarrow> registered_backend \<Rightarrow> 'a adapt" where
  "call_backend i f e s = (case f (rb_backend e) of (res, b) \<Rightarrow> (res, write_backend i b s))"

definition refresh_backend_health :: "call_env \<Rightarrow> string \<Rightarrow> unit adapt" where
  "refresh_backend_health env i =
     bind_op (gets_op (get_backend i)) (\<lambda>oe.
       case oe of
         None \<Rightarrow> return_op ()
       | Some e \<Rightarrow>
           bind_op (call_backend i (backend_health_check env) e) (\<lambda>h.
           then_op (set_state i (health_target h))
           (emit_backend_op (ce_now env) BV_HEALTH_CHANGED i None None ''health_check'')))"

definition adapter_startup :: "(string \<Rightarrow> call_env) \<Rightarrow> unit adapt" where
  "adapter_startup envs =
     bind_op (gets_op ad_running) (\<lambda>running.
       if running then return_op ()
       else
         bind_op (gets_op (\<lambda>s. map (\<lambda>e. backend_id (rb_backend e)) (list_backends s))) (\<lambda>ids.
         then_op (iter_op (\<lambda>i. refresh_backend_health (envs i) i) ids)
         (modify_op (\<lambda>s. s\<lparr>ad_running := True\<rparr>))))"

definition adapter_shutdown :: "datetime \<Rightarrow> unit adapt" where
  "adapter_shutdown now =
     bind_op (gets_op ad_running) (\<lambda>running.
       if \<not> running then return_op ()
       else
         bind_op (gets_op (\<lambda>s. map (\<lambda>e. backend_id (rb_backend e)) (list_backends s))) (\<lambda>ids.
         then_op (iter_op (\<lambda>i. then_op (set_state i BK_STOPPED)
            (emit_backend_op now BV_HEALTH_CHANGED i None None ''adapter_shutdown'')) ids)
         (modify_op (\<lambda>s. s\<lparr>ad_running := False\<rparr>))))"

text \<open>One event per request of the batch.\<close>

definition emit_for_requests ::
  "datetime \<Rightarrow> backend_event_type \<Rightarrow> string \<Rightarrow> dispatch_batch \<Rightarrow> string \<Rightarrow> unit adapt" where
  "emit_for_requests now ev i batch reason =
     iter_op (\<lambda>a. emit_backend_op now ev i (Some (db_batch_id batch)) (Some (ba_request_id a)) reason)
       (db_assignments batch)"

definition accepted_result :: "datetime \<Rightarrow> rat \<Rightarrow> string \<Rightarrow> dispatch_batch \<Rightarrow> batch_submit_result \<Rightarrow> unit adapt"
  where
  "accepted_result now dur i batch res =
     then_op (backend_metrics (record_backend_acceptance i dur))
     (then_op (iter_op (\<lambda>c. backend_metrics
         (record_backend_tokens i (cmr_prompt_tokens c) (cmr_completion_tokens c))) (su_completions res))
     (then_op (emit_backend_op now BV_ACCEPTED i (Some (db_batch_id batch)) None (su_reason res))
     (emit_for_requests now BV_ACCEPTED i batch (su_reason res))))"

definition rejected_result :: "datetime \<Rightarrow> rat \<Rightarrow> string \<Rightarrow> dispatch_batch \<Rightarrow> batch_submit_result \<Rightarrow> unit adapt"
  where
  "rejected_result now dur i batch res =
     then_op (backend_metrics (record_backend_rejection i dur))
     (then_op (emit_backend_op now BV_REJECTED i (Some (db_batch_id batch)) None (su_reason res))
     (emit_for_requests now BV_REJECTED i batch (su_reason res)))"

definition raise_submit_error :: "rat \<Rightarrow> string \<Rightarrow> adapter_exn \<Rightarrow> 'a adapt" where
  "raise_submit_error dur i x =
     (case x of
        BackendRejected m \<Rightarrow>
          then_op (backend_metrics (record_backend_rejection i dur)) (raise_op (BackendRejected m))
      | _ \<Rightarrow>
          then_op (backend_metrics (record_backend_failure i dur))
            (raise_op (BackendInternalFailure (adapter_exn_message x))))"

definition adapter_submit_batch ::
  "call_env \<Rightarrow> rat \<Rightarrow> dispatch_batch \<Rightarrow> string option \<Rightarrow> batch_submit_result adapt" where
  "adapter_submit_batch env dur batch backend =
     bind_op (gets_op (\<lambda>s. str_or backend (ad_default_backend_id s))) (\<lambda>i.
     bind_op (gets_op (get_backend i)) (\<lambda>oe.
       case oe of
         None \<Rightarrow> raise_op (BackendMisconfigured (''backend not registered: '' @ i))
       | Some e \<Rightarrow>
           if rb_state e \<in> {BK_UNHEALTHY, BK_STOPPED}
           then raise_op (BackendUnavailable (''backend unavailable: '' @ backend_state_value (rb_state e)))
           else
             then_op (emit_backend_op (ce_now env) BV_SELECTED i (Some (db_batch_id batch)) None
                ''explicit_backend_id'')
             (then_op (emit_backend_op (ce_now env) BV_SUBMITTED i (Some (db_batch_id batch)) None
                ''submit_batch'')
             (then_op (emit_for_requests (ce_now env) BV_SUBMITTED i batch ''submit_batch'')
             (then_op (backend_metrics (record_backend_submission i))
             (bind_op (catch_op (call_backend i (backend_submit_batch env batch) e)
                 (raise_submit_error dur i)) (\<lambda>res.
              then_op (if su_accepted res then accepted_result (ce_now env) dur i batch res
                       else rejected_result (ce_now env) dur i batch res)
              (return_op res))))))))"

definition to_completion_record :: "request_completion_result \<Rightarrow> inference_completion_record" where
  "to_completion_record c =
     \<lparr>ic_request_id = cmr_request_id c, ic_backend_id = cmr_backend_id c,
      ic_generated_text = cmr_generated_text c, ic_prompt_tokens = cmr_prompt_tokens c,
      ic_completion_tokens = cmr_completion_tokens c, ic_total_tokens = cmr_total_tokens c,
      ic_finish_reason = cmr_finish_reason c, ic_completed_at = cmr_completed_at c,
      ic_execution_duration_ms = cmr_execution_duration_ms c\<rparr>"

definition adapter_request_completion ::
  "uuid \<Rightarrow> string option \<Rightarrow> inference_completion_record option adapt" where
  "adapter_request_completion r backend =
     bind_op (gets_op (\<lambda>s. str_or backend (ad_default_backend_id s))) (\<lambda>i.
     bind_op (get_backend_instance i) (\<lambda>b.
     return_op (map_option to_completion_record (backend_completion r b))))"

definition adapter_request_status :: "uuid \<Rightarrow> string option \<Rightarrow> request_status_result adapt" where
  "adapter_request_status r backend =
     bind_op (gets_op (\<lambda>s. str_or backend (ad_default_backend_id s))) (\<lambda>i.
     bind_op (get_backend_instance i) (\<lambda>b.
     return_op (backend_request_status r b)))"

definition adapter_cancel_request :: "uuid \<Rightarrow> string option \<Rightarrow> cancel_request_result adapt" where
  "adapter_cancel_request r backend =
     bind_op (gets_op (\<lambda>s. str_or backend (ad_default_backend_id s))) (\<lambda>i.
     bind_op (gets_op (get_backend i)) (\<lambda>oe.
       case oe of
         None \<Rightarrow> raise_op (AE_KeyError (''backend not found: '' @ i))
       | Some e \<Rightarrow> call_backend i (\<lambda>b. case backend_cancel_request r b of (x, b') \<Rightarrow> (Inr x, b')) e))"

definition new_adapter :: "string \<Rightarrow> observers \<Rightarrow> adapter_state" where
  "new_adapter backend obs =
     \<lparr>ad_default_backend_id = backend, ad_backends = [], ad_observers = obs, ad_running = False\<rparr>"

end
