(* ===== verification/Dispatch.thy ===== *)
theory Dispatch
  imports Batch_Engine Routing Adapter
begin

text \<open>
  Submission of scheduler batches to the inference adapter (\<open>scheduler/dispatch\<close>) through the
  ports of \<open>scheduler/integrations\<close>. The router and the adapter are arguments of the loop, as
  they are protocols in the code; the locale \<open>dispatch_env\<close> states what the loop relies on,
  and the routing engine over the adapter's registry fulfils it.
\<close>

section \<open>Building a dispatch batch (dispatch/builder.py)\<close>

definition build_dispatch_batch :: "batch \<Rightarrow> batch_assignment list \<Rightarrow> string \<Rightarrow> dispatch_batch option" where
  "build_dispatch_batch b assignments backend =
     (if b_state b \<notin> {BS_ACTIVE, BS_READY, BS_FILLING} then None
      else if assignments = [] then None
      else Some
        \<lparr>db_batch_id = b_id b, db_model = b_model b, db_worker_id = backend,
         db_assignments = assignments,
         db_created_at = (case bx_activated_at (b_context b) of
             None \<Rightarrow> bx_created_at (b_context b) | Some t \<Rightarrow> t),
         db_max_batch_tokens = None, db_state = DB_FORMING\<rparr>)"

section \<open>Submitting one batch (dispatch/submitter.py)\<close>

record adapter_batch_submit_result =
  as_batch_id :: uuid
  as_backend_id :: string
  as_accepted :: bool
  as_reason :: string

record batch_dispatch_result =
  bd_batch_id :: string
  bd_backend_id :: string
  bd_accepted :: bool
  bd_reason :: string

type_synonym 'w router = "uuid \<Rightarrow> string \<Rightarrow> string list \<Rightarrow> 'w \<Rightarrow> routing_result \<times> 'w"
type_synonym 'w submitter =
  "dispatch_batch \<Rightarrow> string \<Rightarrow> 'w \<Rightarrow> (string + adapter_batch_submit_result) \<times> 'w"

definition dispatched :: "batch \<Rightarrow> string \<Rightarrow> bool \<Rightarrow> string \<Rightarrow> batch_dispatch_result option" where
  "dispatched b backend accepted reason =
     Some \<lparr>bd_batch_id = b_id b, bd_backend_id = backend, bd_accepted = accepted, bd_reason = reason\<rparr>"

text \<open>The two ways of choosing a backend: the router's decision, or the default without a router.\<close>

definition choose_backend ::
  "'w router option \<Rightarrow> string \<Rightarrow> uuid \<Rightarrow> string \<Rightarrow> string list \<Rightarrow> string \<Rightarrow> 'w \<Rightarrow>
   (string + string) \<times> 'w" where
  "choose_backend router default_id request_id model excluded last_error w =
     (case router of
        None \<Rightarrow> (Inr default_id, w)
      | Some route \<Rightarrow>
          (case route request_id model excluded w of
             (res, w') \<Rightarrow>
               (case chosen_backend res of
                  None \<Rightarrow> (Inl (str_or (rr_error res) last_error), w')
                | Some i \<Rightarrow> (Inr i, w'))))"

text \<open>After an exception of the adapter, whether the router has another backend to try.\<close>

definition can_retry ::
  "'w router option \<Rightarrow> uuid \<Rightarrow> string \<Rightarrow> string list \<Rightarrow> 'w \<Rightarrow> bool \<times> 'w" where
  "can_retry router request_id model excluded w =
     (case router of
        None \<Rightarrow> (False, w)
      | Some route \<Rightarrow>
          (case route request_id model excluded w of (res, w') \<Rightarrow> (chosen_backend res \<noteq> None, w')))"

partial_function (option) submit_loop ::
  "'w router option \<Rightarrow> 'w submitter \<Rightarrow> string \<Rightarrow> uuid \<Rightarrow> batch \<Rightarrow> batch_assignment list \<Rightarrow>
   string list \<Rightarrow> string \<Rightarrow> 'w \<Rightarrow> (batch_dispatch_result option \<times> 'w) option" where
  "submit_loop router submit default_id request_id b assignments excluded last_error w =
     (case choose_backend router default_id request_id (b_model b) excluded last_error w of
        (Inl e, w1) \<Rightarrow> Some (dispatched b default_id False e, w1)
      | (Inr i, w1) \<Rightarrow>
          (case build_dispatch_batch b assignments i of
             None \<Rightarrow> Some (None, w1)
           | Some d \<Rightarrow>
               (case submit d i w1 of
                  (Inl e, w2) \<Rightarrow>
                    (case can_retry router request_id (b_model b) (i # excluded) w2 of
                       (again, w3) \<Rightarrow>
                         if again
                         then submit_loop router submit default_id request_id b assignments
                                (i # excluded) e w3
                         else Some (dispatched b i False e, w3))
                | (Inr res, w2) \<Rightarrow>
                    if as_accepted res
                    then Some (dispatched b (as_backend_id res) True (as_reason res), w2)
                    else if router \<noteq> None
                    then submit_loop router submit default_id request_id b assignments
                           (i # excluded) (as_reason res) w2
                    else Some (dispatched b (as_backend_id res) False (as_reason res), w2))))"

declare submit_loop.simps [code]

record dispatch_state =
  dp_default_backend_id :: string
  dp_min_dispatch_members :: "nat option"
  dp_submitted_batch_ids :: "string list"

text \<open>\<open>fresh\<close> is the request id of \<open>uuid4\<close> for a batch without assignments.\<close>

definition submit_batch ::
  "'w router option \<Rightarrow> 'w submitter \<Rightarrow> uuid \<Rightarrow> batch \<Rightarrow> batch_assignment list \<Rightarrow> dispatch_state \<Rightarrow> 'w \<Rightarrow>
   (batch_dispatch_result option \<times> dispatch_state \<times> 'w) option" where
  "submit_batch router submit fresh b assignments p w =
     map_option (\<lambda>(res, w').
         (res, (case res of
                  Some r \<Rightarrow> if bd_accepted r
                    then p\<lparr>dp_submitted_batch_ids := List.insert (b_id b) (dp_submitted_batch_ids p)\<rparr> else p
                | None \<Rightarrow> p), w'))
       (submit_loop router submit (dp_default_backend_id p)
          (case assignments of [] \<Rightarrow> fresh | a # _ \<Rightarrow> ba_request_id a) b assignments [] ''routing_failed'' w)"

definition pending :: "dispatch_state \<Rightarrow> batch \<Rightarrow> bool" where
  "pending p b \<longleftrightarrow>
     b_id b \<notin> set (dp_submitted_batch_ids p) \<and>
     b_state b \<in> {BS_ACTIVE, BS_READY, BS_FILLING} \<and>
     active_member_count b \<noteq> 0 \<and>
     (case dp_min_dispatch_members p of None \<Rightarrow> True | Some n \<Rightarrow> n \<le> active_member_count b)"

fun submit_batches ::
  "'w router option \<Rightarrow> 'w submitter \<Rightarrow> uuid \<Rightarrow> engine_state \<Rightarrow> batch list \<Rightarrow> dispatch_state \<Rightarrow> 'w \<Rightarrow>
   (batch_dispatch_result list \<times> dispatch_state \<times> 'w) option" where
  "submit_batches router submit fresh eng [] p w = Some ([], p, w)"
| "submit_batches router submit fresh eng (b # bs) p w =
     (if \<not> pending p b then submit_batches router submit fresh eng bs p w
      else
        Option.bind (submit_batch router submit fresh b (get_batch_assignments (b_id b) eng) p w)
          (\<lambda>(res, p', w').
            map_option (\<lambda>(rs, q). (case res of None \<Rightarrow> rs | Some r \<Rightarrow> r # rs, q))
              (submit_batches router submit fresh eng bs p' w')))"

definition submit_pending_batches ::
  "'w router option \<Rightarrow> 'w submitter \<Rightarrow> uuid \<Rightarrow> engine_state \<Rightarrow> dispatch_state \<Rightarrow> 'w \<Rightarrow>
   (batch_dispatch_result list \<times> dispatch_state \<times> 'w) option" where
  "submit_pending_batches router submit fresh eng p w =
     submit_batches router submit fresh eng (list_batches eng) p w"

definition submit_batch_by_id ::
  "'w router option \<Rightarrow> 'w submitter \<Rightarrow> uuid \<Rightarrow> engine_state \<Rightarrow> uuid \<Rightarrow> dispatch_state \<Rightarrow> 'w \<Rightarrow>
   (batch_dispatch_result option \<times> dispatch_state \<times> 'w) option" where
  "submit_batch_by_id router submit fresh eng i p w =
     (case get_batch i eng of
        None \<Rightarrow> Some (None, p, w)
      | Some b \<Rightarrow> submit_batch router submit fresh b (get_batch_assignments i eng) p w)"

section \<open>What the loop relies on\<close>

text \<open>
  A router never chooses an excluded backend, chooses among backends that are known, and
  neither a routing nor a submission changes which backends are known.
\<close>

locale dispatch_env =
  fixes route :: "'w router" and submit :: "'w submitter" and known :: "'w \<Rightarrow> string list"
  assumes route_sound: "chosen_backend (fst (route r m ex w)) = Some i \<Longrightarrow>
      i \<notin> set ex \<and> i \<in> set (known w)"
    and route_known: "known (snd (route r m ex w)) = known w"
    and submit_known: "known (snd (submit d i w)) = known w"
begin

definition left :: "string list \<Rightarrow> 'w \<Rightarrow> nat" where
  "left ex w = card (set (known w) - set ex)"

lemma left_drops: "i \<notin> set ex \<Longrightarrow> i \<in> set (known w) \<Longrightarrow> known w' = known w \<Longrightarrow> left (i # ex) w' < left ex w"
  unfolding left_def by (rule psubset_card_mono) auto

lemma loop_returns: "\<exists>y. submit_loop (Some route) submit df r b as ex e w = Some y"
proof (induction "left ex w" arbitrary: ex e w rule: less_induct)
  case less
  show ?case
  proof (cases "choose_backend (Some route) df r (b_model b) ex e w")
    case (Pair choice w1)
    then have w1: "w1 = snd (route r (b_model b) ex w)"
      by (auto simp: choose_backend_def split: prod.splits option.splits)
    show ?thesis
    proof (cases choice)
      case (Inl x)
      with Pair show ?thesis by (subst submit_loop.simps) simp
    next
      case (Inr i)
      with Pair have i: "i \<notin> set ex" "i \<in> set (known w)"
        using route_sound [of r "b_model b" ex w i]
        by (auto simp: choose_backend_def split: prod.splits option.splits)
      show ?thesis
      proof (cases "build_dispatch_batch b as i")
        case None
        with Pair Inr show ?thesis by (subst submit_loop.simps) simp
      next
        case (Some d)
        obtain res w2 where sub: "submit d i w1 = (res, w2)" by fastforce
        have k2: "known w2 = known w" using submit_known [of d i w1] sub w1 by (simp add: route_known)
        show ?thesis
        proof (cases res)
          case (Inl x)
          obtain again w3 where retry: "can_retry (Some route) r (b_model b) (i # ex) w2 = (again, w3)"
            by fastforce
          have "known w3 = known w2"
            using retry route_known [of r "b_model b" "i # ex" w2]
            by (auto simp: can_retry_def split: prod.splits)
          then have "left (i # ex) w3 < left ex w" using i k2 by (intro left_drops) auto
          with less.hyps Pair Inr Some sub Inl retry show ?thesis
            by (subst submit_loop.simps) (cases again, simp_all)
        next
          case r: (Inr a)
          have "left (i # ex) w2 < left ex w" using i k2 by (intro left_drops) auto
          with less.hyps Pair Inr Some sub r show ?thesis
            by (subst submit_loop.simps) simp
        qed
      qed
    qed
  qed
qed

lemma submit_batch_returns: "\<exists>y. submit_batch (Some route) submit fresh b as p w = Some y"
  using loop_returns by (fastforce simp: submit_batch_def)

lemma batches_return: "\<exists>y. submit_batches (Some route) submit fresh eng bs p w = Some y"
proof (induction bs arbitrary: p w)
  case (Cons b bs)
  show ?case
  proof (cases "pending p b")
    case True
    obtain res p' w' where "submit_batch (Some route) submit fresh b
        (get_batch_assignments (b_id b) eng) p w = Some (res, p', w')"
      using submit_batch_returns by (metis prod_cases3)
    with True Cons.IH [of p' w'] show ?thesis by auto
  qed (use Cons.IH in simp)
qed simp

end

end
