(* ===== verification/Routing_Properties.thy ===== *)
theory Routing_Properties
  imports Routing
begin

text \<open>
  The properties of routing: a decision is sound and complete for the policy of the model, and
  the engine finds a backend exactly when the policy allows one.
\<close>

section \<open>Which backends a policy allows\<close>

definition backend_usable ::
  "model_record \<Rightarrow> string list \<Rightarrow> routable_backend_snapshot \<Rightarrow> bool" where
  "backend_usable m excluded b \<longleftrightarrow>
     bs_backend_id b \<notin> set excluded \<and> bs_healthy b \<and> supports_model m b"

text \<open>The specification of the policies: the backends that may serve the model.\<close>

definition policy_allows :: "model_record \<Rightarrow> routable_backend_snapshot \<Rightarrow> bool" where
  "policy_allows m b \<longleftrightarrow>
     (case mr_routing_policy m of
        RP_EXPLICIT \<Rightarrow> bs_backend_id b = mr_backend m
      | RP_LATENCY_TIER \<Rightarrow> bs_latency_tier b = cap_latency_tier (mr_capabilities m)
      | RP_QUALITY_TIER \<Rightarrow> bs_quality_tier b = cap_quality_tier (mr_capabilities m)
      | RP_FALLBACK \<Rightarrow> bs_backend_id b = mr_backend m \<or> Some (bs_backend_id b) = mr_fallback_backend m)"

definition eligible ::
  "model_record \<Rightarrow> string list \<Rightarrow> routable_backend_snapshot list \<Rightarrow> routable_backend_snapshot list" where
  "eligible m excluded bs = filter (\<lambda>b. backend_usable m excluded b \<and> policy_allows m b) bs"

lemma chosen_backend_simps [simp]:
  "chosen_backend (route_chosen d cs) = Some (rd_backend_id d)" "chosen_backend (route_refused e cs) = None"
  by (simp_all add: chosen_backend_def route_chosen_def route_refused_def)

lemma result_simps [simp]:
  "rr_success (route_chosen d cs)" "rr_decision (route_chosen d cs) = Some d"
  "\<not> rr_success (route_refused e cs)" "rr_decision (route_refused e cs) = None"
  "rr_error (route_refused e cs) = Some e"
  by (simp_all add: route_chosen_def route_refused_def)

lemma usable_iff:
  "usable i (filter_candidates m bs excluded) \<longleftrightarrow>
     (\<exists>b \<in> set bs. backend_usable m excluded b \<and> bs_backend_id b = i)"
  by (auto simp: usable_def filter_candidates_def list_ex_iff backend_usable_def)

lemma tier_candidates:
  "map cand_backend_id (filter matches (healthy_supporting (filter_candidates m bs excluded))) =
   map bs_backend_id (filter (\<lambda>b. backend_usable m excluded b \<and> matches
     \<lparr>cand_backend_id = bs_backend_id b, cand_model_id = mr_model_id m, cand_score = 0,
      cand_latency_tier = Some (bs_latency_tier b), cand_quality_tier = Some (bs_quality_tier b),
      cand_healthy = bs_healthy b, cand_supports_model = supports_model m b,
      cand_available_capacity = Some (bs_max_batch_size b)\<rparr>) bs)"
  by (induction bs) (auto simp: healthy_supporting_def filter_candidates_def backend_usable_def)

lemma tier_choice:
  assumes "map cand_backend_id cs = map bs_backend_id es" and "cs \<noteq> []"
  shows "cand_backend_id (hd (sort_key cand_backend_id cs)) \<in> bs_backend_id ` set es"
    and "\<forall>b \<in> set es. cand_backend_id (hd (sort_key cand_backend_id cs)) \<le> bs_backend_id b"
proof -
  have "set (map cand_backend_id cs) = set (map bs_backend_id es)" by (simp only: assms(1))
  then have ids: "cand_backend_id ` set cs = bs_backend_id ` set es" by simp
  show "cand_backend_id (hd (sort_key cand_backend_id cs)) \<in> bs_backend_id ` set es"
    using sort_key_Cons_hd(1) [OF assms(2), of cand_backend_id] ids by blast
  show "\<forall>b \<in> set es. cand_backend_id (hd (sort_key cand_backend_id cs)) \<le> bs_backend_id b"
  proof
    fix b assume "b \<in> set es"
    then obtain c where "c \<in> set cs" "cand_backend_id c = bs_backend_id b"
      using ids by (metis imageE imageI)
    then show "cand_backend_id (hd (sort_key cand_backend_id cs)) \<le> bs_backend_id b"
      using sort_key_Cons_hd(2) [OF assms(2), of cand_backend_id] by auto
  qed
qed

lemma select_tier_choice:
  assumes es: "map cand_backend_id (filter matches (healthy_supporting (filter_candidates m bs excluded))) =
      map bs_backend_id es"
  shows "chosen_backend (select_by_tier p t matches k r m bs excluded) = None \<longleftrightarrow> es = []"
    and "chosen_backend (select_by_tier p t matches k r m bs excluded) = Some i \<Longrightarrow>
      i \<in> bs_backend_id ` set es \<and> (\<forall>b \<in> set es. i \<le> bs_backend_id b)"
proof -
  let ?cs = "filter matches (healthy_supporting (filter_candidates m bs excluded))"
  have nil: "?cs = [] \<longleftrightarrow> es = []" using es by (metis map_is_Nil_conv)
  show "chosen_backend (select_by_tier p t matches k r m bs excluded) = None \<longleftrightarrow> es = []"
    by (simp add: select_by_tier_def Let_def nil)
  show "i \<in> bs_backend_id ` set es \<and> (\<forall>b \<in> set es. i \<le> bs_backend_id b)"
    if "chosen_backend (select_by_tier p t matches k r m bs excluded) = Some i"
    using that tier_choice [OF es] by (auto simp: select_by_tier_def Let_def split: if_splits)
qed

lemma eligible_tier:
  "mr_routing_policy m = RP_LATENCY_TIER \<Longrightarrow>
   map cand_backend_id (filter (\<lambda>c. cand_latency_tier c = Some (cap_latency_tier (mr_capabilities m)))
     (healthy_supporting (filter_candidates m bs excluded))) = map bs_backend_id (eligible m excluded bs)"
  "mr_routing_policy m = RP_QUALITY_TIER \<Longrightarrow>
   map cand_backend_id (filter (\<lambda>c. cand_quality_tier c = Some (cap_quality_tier (mr_capabilities m)))
     (healthy_supporting (filter_candidates m bs excluded))) = map bs_backend_id (eligible m excluded bs)"
  by (simp_all add: tier_candidates eligible_def policy_allows_def)

lemma select_explicit_choice:
  "chosen_backend (select_explicit k r m bs excluded) =
     (if usable (mr_backend m) (filter_candidates m bs excluded) then Some (mr_backend m) else None)"
  by (simp add: select_explicit_def Let_def)

lemma select_fallback_choice:
  "chosen_backend (select_fallback k r m bs excluded) =
     (if usable (mr_backend m) (filter_candidates m bs excluded) then Some (mr_backend m)
      else case mr_fallback_backend m of
        None \<Rightarrow> None
      | Some f \<Rightarrow> if usable f (filter_candidates m bs excluded) then Some f else None)"
  by (simp add: select_fallback_def select_explicit_def Let_def split: option.split)

lemma eligible_empty: "eligible m ex bs = [] \<longleftrightarrow> (\<forall>b \<in> set bs. backend_usable m ex b \<longrightarrow> \<not> policy_allows m b)"
  by (auto simp: eligible_def filter_empty_conv)

lemma select_sound:
  assumes "chosen_backend (select_for_model k r m bs excluded) = Some i"
  shows "\<exists>b \<in> set (eligible m excluded bs). bs_backend_id b = i"
proof (cases "mr_routing_policy m")
  case RP_EXPLICIT
  with assms show ?thesis
    by (auto simp: select_for_model_def select_explicit_choice usable_iff eligible_def policy_allows_def
        split: if_splits)
next
  case RP_LATENCY_TIER
  with assms select_tier_choice(2) [OF eligible_tier(1)] show ?thesis
    by (fastforce simp: select_for_model_def select_latency_tier_def Let_def)
next
  case RP_QUALITY_TIER
  with assms select_tier_choice(2) [OF eligible_tier(2)] show ?thesis
    by (fastforce simp: select_for_model_def select_quality_tier_def Let_def)
next
  case RP_FALLBACK
  with assms show ?thesis
    by (auto simp: select_for_model_def select_fallback_choice usable_iff eligible_def policy_allows_def
        split: if_splits option.splits)
qed

lemma select_complete:
  "chosen_backend (select_for_model k r m bs excluded) = None \<longleftrightarrow> eligible m excluded bs = []"
proof (cases "mr_routing_policy m")
  case RP_EXPLICIT
  then show ?thesis
    by (auto simp: select_for_model_def select_explicit_choice usable_iff eligible_empty policy_allows_def)
next
  case RP_LATENCY_TIER
  with select_tier_choice(1) [OF eligible_tier(1)] show ?thesis
    by (simp add: select_for_model_def select_latency_tier_def Let_def)
next
  case RP_QUALITY_TIER
  with select_tier_choice(1) [OF eligible_tier(2)] show ?thesis
    by (simp add: select_for_model_def select_quality_tier_def Let_def)
next
  case RP_FALLBACK
  then show ?thesis
    by (auto simp: select_for_model_def select_fallback_choice usable_iff eligible_empty policy_allows_def
        split: option.splits)
qed

section \<open>The engine\<close>

lemma route_request_result:
  "fst (route_request now k models bs r model_id excluded obs) =
     (case get_model model_id models of
        None \<Rightarrow> route_refused (''model unavailable: '' @ model_id) []
      | Some m \<Rightarrow> select_for_model k r m bs excluded)"
  by (simp add: route_request_def Let_def split: option.split)

text \<open>C4: Routing a request succeeds exactly when its model is registered and the model's policy
  allows some backend that is not excluded, is healthy and supports the model. It then chooses
  such a backend: under the explicit policy the model's own, under a tier policy the one with
  the least id in the tier, and under the fallback policy the model's own whenever that one is
  usable and its fallback otherwise. The registered models and backends decide, not the
  observers.\<close>

theorem routing_correct:
  "case get_model model_id models of
     None \<Rightarrow> chosen_backend (fst (route_request now k models bs r model_id excluded obs)) = None
   | Some m \<Rightarrow>
       (case chosen_backend (fst (route_request now k models bs r model_id excluded obs)) of
          None \<Rightarrow> eligible m excluded bs = []
        | Some i \<Rightarrow> (\<exists>b \<in> set bs. bs_backend_id b = i \<and> backend_usable m excluded b \<and> policy_allows m b) \<and>
            (mr_routing_policy m \<in> {RP_LATENCY_TIER, RP_QUALITY_TIER} \<longrightarrow>
               (\<forall>b \<in> set (eligible m excluded bs). i \<le> bs_backend_id b)) \<and>
            (mr_routing_policy m = RP_FALLBACK \<longrightarrow>
               (\<exists>b \<in> set bs. bs_backend_id b = mr_backend m \<and> backend_usable m excluded b) \<longrightarrow>
               i = mr_backend m))"
proof (cases "get_model model_id models")
  case None
  then show ?thesis by (simp add: route_request_result)
next
  case (Some m)
  let ?sel = "select_for_model k r m bs excluded"
  have tier: "i \<le> bs_backend_id b"
    if "chosen_backend ?sel = Some i" "mr_routing_policy m \<in> {RP_LATENCY_TIER, RP_QUALITY_TIER}"
      "b \<in> set (eligible m excluded bs)" for i b
    using that select_tier_choice(2) [OF eligible_tier(1)] select_tier_choice(2) [OF eligible_tier(2)]
    by (auto simp: select_for_model_def select_latency_tier_def select_quality_tier_def Let_def)
  have primary: "i = mr_backend m"
    if "chosen_backend ?sel = Some i" "mr_routing_policy m = RP_FALLBACK"
      "b \<in> set bs" "bs_backend_id b = mr_backend m" "backend_usable m excluded b" for i b
    using that usable_iff [of "mr_backend m" m bs excluded]
    by (auto simp: select_for_model_def select_fallback_choice split: if_splits)
  show ?thesis
  proof (cases "chosen_backend ?sel")
    case None
    then have "eligible m excluded bs = []" by (simp only: select_complete)
    with Some None show ?thesis by (simp add: route_request_result)
  next
    case i: (Some i)
    with Some select_sound [OF i] tier [OF i] primary [OF i] show ?thesis
      by (auto simp: route_request_result eligible_def)
  qed
qed

theorem routing_correct_witness:
  "\<exists>m. get_model ''demo-fallback'' default_model_registry = Some m \<and>
     chosen_backend (fst (route_request 0 ''k'' default_model_registry
       [\<lparr>bs_backend_id = ''mock'', bs_state = ''healthy'', bs_healthy = True,
         bs_supported_models = [''demo-fallback''], bs_latency_tier = LT_STANDARD,
         bs_quality_tier = QT_STANDARD, bs_max_batch_size = 32\<rparr>]
       ''r'' ''demo-fallback'' [''mock-primary''] \<lparr>ob_trace = None, ob_metrics = None\<rparr>)) \<noteq> None"
proof -
  let ?b = "\<lparr>bs_backend_id = ''mock'', bs_state = ''healthy'', bs_healthy = True,
         bs_supported_models = [''demo-fallback''], bs_latency_tier = LT_STANDARD,
         bs_quality_tier = QT_STANDARD, bs_max_batch_size = 32\<rparr>"
  obtain m where m: "get_model ''demo-fallback'' default_model_registry = Some m"
    "mr_routing_policy m = RP_FALLBACK" "mr_fallback_backend m = Some ''mock''"
    "mr_model_id m = ''demo-fallback''"
    by (simp add: get_model_def default_model_registry_def default_models_def register_model_def)
  then have "eligible m [''mock-primary''] [?b] \<noteq> []"
    by (simp add: eligible_def backend_usable_def policy_allows_def supports_model_def)
  with routing_correct [where model_id = "''demo-fallback''" and models = default_model_registry
      and now = 0 and k = "''k''" and bs = "[?b]" and r = "''r''" and excluded = "[''mock-primary'']"
      and obs = "\<lparr>ob_trace = None, ob_metrics = None\<rparr>"] m(1)
  show ?thesis by (auto simp: m(1) split: option.splits)
qed

end
