(* ===== verification/Batch_Invariants.thy ===== *)
theory Batch_Invariants
  imports Batch_Engine
begin

text \<open>
  What the batching engine's operations do to its state, as one equation each, and the
  invariant they keep: capacities, slots, one open batch per model, and the agreement of the
  engine's five dictionaries.
\<close>

section \<open>Effects\<close>

lemma dict_set_twice [simp]: "dict_set k v (dict_set k w d) = dict_set k v d"
  by (induction d) auto

lemma put_batch_simps [simp]:
  "eg_batches (put_batch i b s) = dict_set i b (eg_batches s)"
  "eg_sets (put_batch i b s) = eg_sets s" "eg_config (put_batch i b s) = eg_config s"
  "eg_injector (put_batch i b s) = eg_injector s"
  "eg_active_by_model (put_batch i b s) = eg_active_by_model s"
  "eg_request_to_batch (put_batch i b s) = eg_request_to_batch s"
  "eg_assignments (put_batch i b s) = eg_assignments s"
  "eg_observers (put_batch i b s) = eg_observers s"
  by (simp_all add: put_batch_def)

lemma the_batch_run [simp]: "dict_get (eg_batches s) i = Some b \<Longrightarrow> the_batch i s = (Inr b, s)"
  by (simp add: the_batch_def)

lemma the_set_run [simp]: "dict_get (eg_sets s) i = Some d \<Longrightarrow> the_set i s = (Inr d, s)"
  by (simp add: the_set_def)

lemma move_batch_run:
  assumes "dict_get (eg_batches s) i = Some b" and "can_transition (b_state b) st"
  shows "move_batch i st s =
     (Inr (), put_batch i (b\<lparr>b_context := (b_context b)\<lparr>bx_state := st\<rparr>\<rparr>) s)"
  using assms by (simp add: move_batch_def op_basic batch_transition_def)

lemma move_allowed [simp]:
  "can_transition BS_CREATED BS_FILLING" "can_transition BS_FILLING BS_READY"
  "can_transition BS_READY BS_ACTIVE" "can_transition BS_ACTIVE BS_COMPLETED"
  "can_transition BS_FILLING BS_FAILED" "can_transition BS_ACTIVE BS_FAILED"
  by (simp_all add: can_transition_def batch_terminal_def)

text \<open>Everything of the engine's state but the observers.\<close>

definition engine_view where
  "engine_view s =
     (eg_config s, eg_injector s, eg_batches s, eg_sets s, eg_request_to_batch s,
      eg_active_by_model s, eg_assignments s)"

definition same_engine :: "engine_state \<Rightarrow> engine_state \<Rightarrow> bool" where
  "same_engine s t \<longleftrightarrow> engine_view t = engine_view s"

lemma same_engine_refl [simp]: "same_engine s s"
  by (simp add: same_engine_def)

lemma same_engine_observe [simp]: "same_engine s (s\<lparr>eg_observers := x\<rparr>)"
  by (simp add: same_engine_def engine_view_def)

subsection \<open>Creating and filling a batch\<close>

definition fresh_batch :: "string \<Rightarrow> datetime \<Rightarrow> uuid \<Rightarrow> batch_admission_config \<Rightarrow> batch" where
  "fresh_batch model now i c =
     \<lparr>b_context =
        \<lparr>bx_batch_id = i, bx_model = model, bx_state = BS_FILLING, bx_created_at = now,
         bx_admission_window_end = now + 1000 * bac_batch_admission_window_ms c,
         bx_activated_at = None, bx_completed_at = None, bx_failure_reason = None\<rparr>,
      b_members = []\<rparr>"

lemma create_batch_run:
  "\<exists>t. create_batch model now i s = (Inr i, t) \<and> engine_view t =
     (eg_config s, eg_injector s, dict_set i (fresh_batch model now i (eg_config s)) (eg_batches s),
      dict_set i [] (eg_sets s), eg_request_to_batch s, dict_set model i (eg_active_by_model s),
      eg_assignments s)"
  by (simp add: create_batch_def op_basic observe_op_def update_active_batches_gauge_def
      move_batch_run fresh_batch_def engine_view_def)

text \<open>The batch after a member entered it: full, or past its window, it becomes active.\<close>

definition entered :: "datetime \<Rightarrow> batch_admission_config \<Rightarrow> batch \<Rightarrow> batch" where
  "entered now c b =
     (if b_state b = BS_FILLING
         \<and> (int (active_member_count b) \<ge> bac_max_batch_size c
            \<or> now \<ge> bx_admission_window_end (b_context b))
      then b\<lparr>b_context := (b_context b)\<lparr>bx_state := BS_ACTIVE, bx_activated_at := Some now\<rparr>\<rparr>
      else b)"

definition activates :: "datetime \<Rightarrow> batch_admission_config \<Rightarrow> batch \<Rightarrow> bool" where
  "activates now c b \<longleftrightarrow> b_state b = BS_FILLING
     \<and> (int (active_member_count b) \<ge> bac_max_batch_size c
        \<or> now \<ge> bx_admission_window_end (b_context b))"

lemma advance_run:
  assumes "dict_get (eg_batches s) i = Some b" and "b_state b \<noteq> BS_READY"
  shows "\<exists>t. advance_batch_after_admission i now s = (Inr (), t) \<and> engine_view t =
     (eg_config s, eg_injector s,
      if activates now (eg_config s) b
        then dict_set i (entered now (eg_config s) b) (eg_batches s) else eg_batches s,
      eg_sets s, eg_request_to_batch s,
      if activates now (eg_config s) b
        then dict_set (b_model b) i (eg_active_by_model s) else eg_active_by_model s,
      eg_assignments s)"
proof (cases "activates now (eg_config s) b")
  case True
  then have F: "b_state b = BS_FILLING" by (simp add: activates_def)
  show ?thesis
    using True assms F
    by (auto simp: advance_batch_after_admission_def op_basic observe_op_def activate_batch_def
        move_batch_run activates_def entered_def engine_view_def)
next
  case False
  then have "advance_batch_after_admission i now s = (Inr (), s)"
    using assms by (auto simp: advance_batch_after_admission_def op_basic activates_def)
  with False show ?thesis by (simp add: engine_view_def)
qed

definition placed_answer ::
  "failure_injection_config option \<Rightarrow> queue_item \<Rightarrow> string \<Rightarrow> uuid \<Rightarrow> nat \<Rightarrow> placement" where
  "placed_answer fi item reason i slot =
     (if should_inject fi FP_SCHEDULER_INVALID_BATCH_ASSIGNMENT (Some (qi_request_id item))
      then reject_item item ''invalid_batch_assignment'' (Some i)
      else Placed
        \<lparr>bp_request_id = qi_request_id item, bp_batch_id = i,
         bp_assignment = assignment_for item slot, bp_decision_reason = reason,
         bp_correlation_id = item_correlation item\<rparr>)"

lemma enter_batch_run:
  assumes "dict_get (eg_batches s) i = Some b" and "dict_get (eg_sets s) i = Some d"
    and "dict_get d (qi_request_id item) = None" and "d' = dict_set (qi_request_id item)
      (new_member now item (next_slot_index b)) d"
  shows "\<exists>t. enter_batch now item reason i s = (Inr (next_slot_index b), t) \<and> engine_view t =
     (eg_config s, eg_injector s, dict_set i (b\<lparr>b_members := dict_values d'\<rparr>) (eg_batches s),
      dict_set i d' (eg_sets s), dict_set (qi_request_id item) i (eg_request_to_batch s),
      eg_active_by_model s, eg_assignments s)"
  using assms(1-3)
  by (simp add: enter_batch_def op_basic Let_def set_add_request_def observe_op_def
      engine_view_def new_member_def assms(4))

lemma add_to_batch_run:
  fixes now :: datetime
  assumes b: "dict_get (eg_batches s) i = Some b" and d: "dict_get (eg_sets s) i = Some d"
    and fresh: "dict_get d (qi_request_id item) = None" and st: "b_state b \<noteq> BS_READY"
  defines "slot \<equiv> next_slot_index b"
  defines "d' \<equiv> dict_set (qi_request_id item) (new_member now item slot) d"
  defines "b' \<equiv> b\<lparr>b_members := dict_values d'\<rparr>"
  shows "\<exists>t. add_to_batch now item reason i s = (Inr (placed_answer (eg_injector s) item reason i slot), t) \<and>
     engine_view t =
       (eg_config s, eg_injector s, dict_set i (entered now (eg_config s) b') (eg_batches s),
        dict_set i d' (eg_sets s),
        dict_set (qi_request_id item) i (eg_request_to_batch s),
        if activates now (eg_config s) b'
          then dict_set (b_model b) i (eg_active_by_model s) else eg_active_by_model s,
        dict_set (qi_request_id item) (assignment_for item slot) (eg_assignments s))"
proof -
  have e: "entered now c b' = b'" if "\<not> activates now c b'" for c
    using that by (auto simp: entered_def activates_def)
  have mdl: "b_model b' = b_model b" and st': "b_state b' \<noteq> BS_READY" using st by (simp_all add: b'_def)
  obtain s1 where enter: "enter_batch now item reason i s = (Inr slot, s1)"
    and v1: "engine_view s1 = (eg_config s, eg_injector s, dict_set i b' (eg_batches s),
        dict_set i d' (eg_sets s), dict_set (qi_request_id item) i (eg_request_to_batch s),
        eg_active_by_model s, eg_assignments s)"
    using enter_batch_run [OF b d fresh refl] unfolding slot_def d'_def b'_def by blast
  then have b1: "dict_get (eg_batches s1) i = Some b'" by (simp add: engine_view_def)
  obtain s2 where adv: "advance_batch_after_admission i now s1 = (Inr (), s2)"
    and v2: "engine_view s2 = (eg_config s1, eg_injector s1,
      if activates now (eg_config s1) b'
        then dict_set i (entered now (eg_config s1) b') (eg_batches s1) else eg_batches s1,
      eg_sets s1, eg_request_to_batch s1,
      if activates now (eg_config s1) b'
        then dict_set (b_model b') i (eg_active_by_model s1) else eg_active_by_model s1,
      eg_assignments s1)"
    using advance_run [OF b1 st', of now] by blast
  have b2: "\<exists>b2. dict_get (eg_batches s2) i = Some b2"
    using v1 v2 by (auto simp: engine_view_def)
  have fi: "eg_injector s2 = eg_injector s" using v1 v2 by (simp add: engine_view_def)
  from b2 obtain b2 where b2: "dict_get (eg_batches s2) i = Some b2" by blast
  have "\<exists>t. add_to_batch now item reason i s =
      (Inr (placed_answer (eg_injector s) item reason i slot), t) \<and>
     engine_view t = (eg_config s2, eg_injector s2, eg_batches s2, eg_sets s2, eg_request_to_batch s2,
        eg_active_by_model s2, dict_set (qi_request_id item) (assignment_for item slot) (eg_assignments s2))"
    unfolding add_to_batch_def bind_op_def [of "enter_batch now item reason i"] enter
    by (simp add: op_basic adv b2 fi observe_op_def update_active_batches_gauge_def
        placed_answer_def engine_view_def)
  then obtain t where t: "add_to_batch now item reason i s =
      (Inr (placed_answer (eg_injector s) item reason i slot), t)"
    "engine_view t = (eg_config s2, eg_injector s2, eg_batches s2, eg_sets s2, eg_request_to_batch s2,
        eg_active_by_model s2, dict_set (qi_request_id item) (assignment_for item slot) (eg_assignments s2))"
    by blast
  show ?thesis
    using t v1 v2 e mdl by (auto simp: engine_view_def)
qed

subsection \<open>Retiring a member\<close>

lemma fail_batch_run:
  assumes "dict_get (eg_batches s) i = Some b" and "b_state b \<in> {BS_FILLING, BS_ACTIVE}"
  shows "\<exists>t. fail_batch i now reason s = (Inr (), t) \<and> engine_view t =
     (eg_config s, eg_injector s,
      dict_set i (b\<lparr>b_context := (b_context b)\<lparr>bx_state := BS_FAILED, bx_failure_reason := Some reason\<rparr>\<rparr>)
        (eg_batches s),
      eg_sets s, eg_request_to_batch s, dict_del (b_model b) (eg_active_by_model s), eg_assignments s)"
  using assms
  by (auto simp: fail_batch_def op_basic observe_op_def update_active_batches_gauge_def
      move_batch_run engine_view_def batch_terminal_def)

lemma complete_batch_run:
  assumes "dict_get (eg_batches s) i = Some b" and "b_state b = BS_ACTIVE"
  shows "\<exists>t. complete_batch i now reason s = (Inr (), t) \<and> engine_view t =
     (eg_config s, eg_injector s,
      dict_set i (b\<lparr>b_context := (b_context b)\<lparr>bx_state := BS_COMPLETED, bx_completed_at := Some now\<rparr>\<rparr>)
        (eg_batches s),
      eg_sets s, eg_request_to_batch s, dict_del (b_model b) (eg_active_by_model s), eg_assignments s)"
  using assms
  by (auto simp: complete_batch_def op_basic observe_op_def update_active_batches_gauge_def
      move_batch_run engine_view_def batch_terminal_def)

lemma fail_batch_terminal:
  "dict_get (eg_batches s) i = Some b \<Longrightarrow> batch_terminal (b_state b) \<Longrightarrow>
   fail_batch i now reason s = (Inr (), s)"
  by (simp add: fail_batch_def op_basic)

text \<open>When retiring a member closes its batch, and what the batch becomes.\<close>

definition closes :: "member_status \<Rightarrow> active_set \<Rightarrow> batch \<Rightarrow> bool" where
  "closes st d b \<longleftrightarrow>
     (if st = MS_FAILED then \<not> batch_terminal (b_state b)
      else active_count d = 0 \<and> b_state b = BS_ACTIVE)"

definition closed :: "datetime \<Rightarrow> member_status \<Rightarrow> string \<Rightarrow> active_set \<Rightarrow> batch \<Rightarrow> batch" where
  "closed now st reason d b =
     (if \<not> closes st d b then b
      else if st = MS_FAILED
      then b\<lparr>b_context := (b_context b)\<lparr>bx_state := BS_FAILED, bx_failure_reason := Some reason\<rparr>\<rparr>
      else b\<lparr>b_context := (b_context b)\<lparr>bx_state := BS_COMPLETED, bx_completed_at := Some now\<rparr>\<rparr>)"

definition usual_state :: "batch_state \<Rightarrow> bool" where
  "usual_state st \<longleftrightarrow> st \<in> {BS_FILLING, BS_ACTIVE, BS_COMPLETED, BS_FAILED}"

lemma retire_member_run:
  fixes now :: datetime and status :: member_status
  assumes b: "dict_get (eg_batches s) i = Some b" and d: "dict_get (eg_sets s) i = Some d"
    and m: "dict_get d r = Some m" and st: "usual_state (b_state b)"
  defines "d' \<equiv> dict_set r (m\<lparr>bm_status := status\<rparr>) d"
  defines "b' \<equiv> b\<lparr>b_members := dict_values d'\<rparr>"
  shows "\<exists>t. retire_member now i r status reason s =
       (Inr (retired i r reason (b_state b) (b_state (closed now status reason d' b'))), t) \<and>
     engine_view t =
       (eg_config s, eg_injector s, dict_set i (closed now status reason d' b') (eg_batches s),
        dict_set i d' (eg_sets s), eg_request_to_batch s,
        if closes status d' b' then dict_del (b_model b) (eg_active_by_model s)
          else eg_active_by_model s,
        eg_assignments s)"
proof -
  let ?obs = "emit_batch now BE_REQUEST_REMOVED (Some i) (Some r) (Some (bm_correlation_id m)) reason
    [(''member_status'', X_STR (member_status_value status))] (eg_observers s)"
  let ?s1 = "put_batch i b' (s\<lparr>eg_sets := dict_set i d' (eg_sets s)\<rparr>)\<lparr>eg_observers := ?obs\<rparr>"
  let ?act = "if status = MS_FAILED then fail_batch i now reason
      else if active_count d' = 0 \<and> b_state b = BS_ACTIVE
      then complete_batch i now ''all_members_retired'' else return_op ()"
  have fields: "b_state b' = b_state b" "b_model b' = b_model b" by (simp_all add: b'_def)
  have b1: "dict_get (eg_batches ?s1) i = Some b'" by simp
  have "\<exists>t. ?act ?s1 = (Inr (), t) \<and> engine_view t =
      (eg_config s, eg_injector s, dict_set i (closed now status reason d' b') (eg_batches s),
        dict_set i d' (eg_sets s), eg_request_to_batch s,
        if closes status d' b' then dict_del (b_model b) (eg_active_by_model s)
          else eg_active_by_model s,
        eg_assignments s)"
  proof (cases "closes status d' b'")
    case True
    then show ?thesis
      using fail_batch_run [OF b1, of now reason] complete_batch_run [OF b1, of now "''all_members_retired''"]
        fields st
      by (auto simp: closed_def closes_def usual_state_def batch_terminal_def engine_view_def
          split: if_splits)
  next
    case False
    then show ?thesis
      using fail_batch_terminal [OF b1, of now reason] fields
      by (auto simp: closed_def closes_def op_basic engine_view_def split: if_splits)
  qed
  then obtain t where act: "?act ?s1 = (Inr (), t)" and v: "engine_view t =
      (eg_config s, eg_injector s, dict_set i (closed now status reason d' b') (eg_batches s),
        dict_set i d' (eg_sets s), eg_request_to_batch s,
        if closes status d' b' then dict_del (b_model b) (eg_active_by_model s)
          else eg_active_by_model s,
        eg_assignments s)" by blast
  have bt: "dict_get (eg_batches t) i = Some (closed now status reason d' b')"
    using v by (simp add: engine_view_def)
  have "set_status r status d = (Some (m\<lparr>bm_status := status\<rparr>), d')"
    by (simp add: set_status_def m d'_def Let_def)
  then have "retire_member now i r status reason s =
      bind_op ?act (\<lambda>_. bind_op (the_batch i) (\<lambda>b'. return_op (retired i r reason (b_state b) (b_state b')))) ?s1"
    using b d by (simp add: retire_member_def then_op_def bind_op_def [of "the_batch i"]
        bind_op_def [of "the_set i"] bind_op_def [of "modify_op f" for f] modify_op_def
        bind_op_def [of "observe_op f" for f] observe_op_def b'_def)
  also have "\<dots> = (Inr (retired i r reason (b_state b) (b_state (closed now status reason d' b'))), t)"
    unfolding bind_op_def [of ?act] act using bt by (simp add: op_basic)
  finally show ?thesis using v by blast
qed

section \<open>Slots\<close>

lemma next_index_unused: "next_index used i \<notin> set used"
  by (induction used i rule: next_index.induct) (subst next_index.simps, simp)

lemma next_index_between: "i \<le> j \<Longrightarrow> j < next_index used i \<Longrightarrow> j \<in> set used"
proof (induction used i rule: next_index.induct)
  case (1 used i)
  show ?case
  proof (cases "i \<in> set used")
    case True
    with 1 show ?thesis using next_index.simps [of used i] by (cases "i = j") auto
  next
    case False
    with 1(2,3) show ?thesis using next_index.simps [of used i] by simp
  qed
qed

lemma next_index_bound: "next_index used 0 \<le> length used"
proof -
  have "{0..<next_index used 0} \<subseteq> set used" using next_index_between [of 0] by auto
  then have "card {0..<next_index used 0} \<le> card (set used)" by (rule card_mono [rotated]) simp
  also have "\<dots> \<le> length used" by (rule card_length)
  finally show ?thesis by simp
qed

section \<open>The invariant\<close>

definition set_ok :: "engine_state \<Rightarrow> uuid \<Rightarrow> batch \<Rightarrow> active_set \<Rightarrow> bool" where
  "set_ok s i b d \<longleftrightarrow>
     wf_dict d \<and> b_members b = dict_values d \<and>
     (\<forall>(r, m) \<in> set d. bm_request_id m = r \<and> dict_get (eg_request_to_batch s) r = Some i)"

definition slots_ok :: "batch_admission_config \<Rightarrow> batch \<Rightarrow> bool" where
  "slots_ok c b \<longleftrightarrow>
     int (active_member_count b) \<le> bac_max_batch_size c \<and>
     (b_state b = BS_FILLING \<longrightarrow> int (active_member_count b) < bac_max_batch_size c) \<and>
     distinct (map bm_slot_index (active_members b)) \<and>
     (\<forall>m \<in> set (active_members b). int (bm_slot_index m) < bac_max_batch_size c)"

definition batch_ok :: "engine_state \<Rightarrow> uuid \<Rightarrow> batch \<Rightarrow> bool" where
  "batch_ok s i b \<longleftrightarrow>
     b_id b = i \<and> usual_state (b_state b) \<and>
     (case dict_get (eg_sets s) i of None \<Rightarrow> False | Some d \<Rightarrow> set_ok s i b d) \<and>
     slots_ok (eg_config s) b \<and>
     (\<not> batch_terminal (b_state b) \<longrightarrow> dict_get (eg_active_by_model s) (b_model b) = Some i)"

definition engine_ok :: "engine_state \<Rightarrow> bool" where
  "engine_ok s \<longleftrightarrow>
     1 \<le> bac_max_batch_size (eg_config s) \<and>
     wf_dict (eg_batches s) \<and> wf_dict (eg_sets s) \<and> wf_dict (eg_request_to_batch s) \<and>
     wf_dict (eg_active_by_model s) \<and>
     (\<forall>(i, b) \<in> set (eg_batches s). batch_ok s i b) \<and>
     (\<forall>(i, d) \<in> set (eg_sets s). dict_get (eg_batches s) i \<noteq> None) \<and>
     (\<forall>(r, i) \<in> set (eg_request_to_batch s).
        case dict_get (eg_sets s) i of None \<Rightarrow> False | Some d \<Rightarrow> dict_get d r \<noteq> None) \<and>
     (\<forall>(m, i) \<in> set (eg_active_by_model s).
        case dict_get (eg_batches s) i of
          None \<Rightarrow> False | Some b \<Rightarrow> b_model b = m \<and> \<not> batch_terminal (b_state b)) \<and>
     int (global_active_count s) \<le> bac_max_active_requests (eg_config s)"

lemma dict_all:
  "wf_dict d \<Longrightarrow> (\<forall>(k, v) \<in> set d. P k v) \<longleftrightarrow> (\<forall>k v. dict_get d k = Some v \<longrightarrow> P k v)"
  by (auto simp flip: dict_item_iff)

lemma option_holds:
  "(case x of None \<Rightarrow> False | Some y \<Rightarrow> Q y) \<longleftrightarrow> (\<exists>y. x = Some y \<and> Q y)"
  by (cases x) auto

lemma engine_ok_iff:
  "engine_ok s \<longleftrightarrow>
     1 \<le> bac_max_batch_size (eg_config s) \<and>
     wf_dict (eg_batches s) \<and> wf_dict (eg_sets s) \<and> wf_dict (eg_request_to_batch s) \<and>
     wf_dict (eg_active_by_model s) \<and>
     (\<forall>i b. dict_get (eg_batches s) i = Some b \<longrightarrow> batch_ok s i b) \<and>
     (\<forall>i d. dict_get (eg_sets s) i = Some d \<longrightarrow> dict_get (eg_batches s) i \<noteq> None) \<and>
     (\<forall>r i. dict_get (eg_request_to_batch s) r = Some i \<longrightarrow>
        (\<exists>d. dict_get (eg_sets s) i = Some d \<and> dict_get d r \<noteq> None)) \<and>
     (\<forall>m i. dict_get (eg_active_by_model s) m = Some i \<longrightarrow>
        (\<exists>b. dict_get (eg_batches s) i = Some b \<and> b_model b = m \<and> \<not> batch_terminal (b_state b))) \<and>
     int (global_active_count s) \<le> bac_max_active_requests (eg_config s)"
  unfolding engine_ok_def option_holds
  by (cases "wf_dict (eg_batches s)"; cases "wf_dict (eg_sets s)";
      cases "wf_dict (eg_request_to_batch s)"; cases "wf_dict (eg_active_by_model s)")
    (simp_all add: dict_all)

lemma active_members_set:
  "b_members b = dict_values d \<Longrightarrow> active_members b = list_active_requests d"
  by (simp add: active_members_def list_active_requests_def)

lemma active_member_count_set:
  "b_members b = dict_values d \<Longrightarrow> active_member_count b = active_count d"
  by (simp add: active_member_count_def active_count_def active_members_set)

lemma global_active_set:
  "wf_dict (eg_sets s) \<Longrightarrow> dict_get (eg_sets s) i = Some d \<Longrightarrow>
   sum_list (map active_count (dict_values (dict_set i d' (eg_sets s)))) + active_count d =
   global_active_count s + active_count d'"
  unfolding global_active_count_def by (rule sum_list_dict_set)

lemma engine_okD:
  assumes "engine_ok s"
  shows "wf_dict (eg_batches s)" "wf_dict (eg_sets s)" "wf_dict (eg_request_to_batch s)"
    "wf_dict (eg_active_by_model s)" "1 \<le> bac_max_batch_size (eg_config s)"
    "int (global_active_count s) \<le> bac_max_active_requests (eg_config s)"
    "dict_get (eg_batches s) i = Some b \<Longrightarrow> batch_ok s i b"
    "dict_get (eg_sets s) i = Some d \<Longrightarrow> \<exists>b. dict_get (eg_batches s) i = Some b"
    "dict_get (eg_request_to_batch s) r = Some i \<Longrightarrow>
      \<exists>d m. dict_get (eg_sets s) i = Some d \<and> dict_get d r = Some m"
    "dict_get (eg_active_by_model s) model = Some i \<Longrightarrow>
      \<exists>b. dict_get (eg_batches s) i = Some b \<and> b_model b = model \<and> \<not> batch_terminal (b_state b)"
  using assms unfolding engine_ok_iff by blast+

lemma engine_okI:
  assumes "engine_ok s" and "eg_config t = eg_config s"
    and "wf_dict (eg_batches t)" "wf_dict (eg_sets t)" "wf_dict (eg_request_to_batch t)"
    "wf_dict (eg_active_by_model t)"
    and "\<And>i b. dict_get (eg_batches t) i = Some b \<Longrightarrow> batch_ok t i b"
    and "\<And>i d. dict_get (eg_sets t) i = Some d \<Longrightarrow> dict_get (eg_batches t) i \<noteq> None"
    and "\<And>r i. dict_get (eg_request_to_batch t) r = Some i \<Longrightarrow>
      \<exists>d. dict_get (eg_sets t) i = Some d \<and> dict_get d r \<noteq> None"
    and "\<And>m i. dict_get (eg_active_by_model t) m = Some i \<Longrightarrow>
      \<exists>b. dict_get (eg_batches t) i = Some b \<and> b_model b = m \<and> \<not> batch_terminal (b_state b)"
    and "int (global_active_count t) \<le> bac_max_active_requests (eg_config s)"
  shows "engine_ok t"
  using assms unfolding engine_ok_iff [of t] by (simp add: engine_okD)

lemma set_ok_mono:
  "set_ok s i b d \<Longrightarrow>
   (\<And>r. dict_get (eg_request_to_batch s) r = Some i \<Longrightarrow> dict_get (eg_request_to_batch t) r = Some i) \<Longrightarrow>
   set_ok t i b d"
  by (fastforce simp: set_ok_def)

text \<open>The other batches keep \<open>batch_ok\<close> when one batch, its set and its model's entry change.\<close>

lemma batch_ok_other:
  assumes "batch_ok s j c" and "eg_config t = eg_config s"
    and "dict_get (eg_sets t) j = dict_get (eg_sets s) j"
    and "\<And>r. dict_get (eg_request_to_batch s) r = Some j \<Longrightarrow> dict_get (eg_request_to_batch t) r = Some j"
    and "\<not> batch_terminal (b_state c) \<Longrightarrow> dict_get (eg_active_by_model s) (b_model c) = Some j \<Longrightarrow>
      dict_get (eg_active_by_model t) (b_model c) = Some j"
  shows "batch_ok t j c"
  using assms by (auto simp: batch_ok_def option_holds intro: set_ok_mono)

section \<open>Creating a batch keeps the invariant\<close>

lemma engine_ok_create:
  assumes ok: "engine_ok s" and fresh: "dict_get (eg_batches s) i = None"
    and free: "dict_get (eg_active_by_model s) model = None"
    and v: "engine_view t =
     (eg_config s, eg_injector s, dict_set i (fresh_batch model now i (eg_config s)) (eg_batches s),
      dict_set i [] (eg_sets s), eg_request_to_batch s, dict_set model i (eg_active_by_model s),
      eg_assignments s)"
  shows "engine_ok t"
proof -
  let ?b = "fresh_batch model now i (eg_config s)"
  have f: "eg_config t = eg_config s" "eg_batches t = dict_set i ?b (eg_batches s)"
    "eg_sets t = dict_set i [] (eg_sets s)" "eg_request_to_batch t = eg_request_to_batch s"
    "eg_active_by_model t = dict_set model i (eg_active_by_model s)"
    using v by (simp_all add: engine_view_def)
  have nb: "b_id ?b = i" "b_state ?b = BS_FILLING" "b_model ?b = model" "b_members ?b = []"
    "active_members ?b = []" "active_member_count ?b = 0"
    by (simp_all add: fresh_batch_def active_members_def active_member_count_def)
  have noset: "dict_get (eg_sets s) i = None"
    using ok fresh by (cases "dict_get (eg_sets s) i") (auto simp: engine_ok_iff)
  have new: "batch_ok t i ?b"
    using ok by (auto simp: batch_ok_def nb f usual_state_def set_ok_def slots_ok_def engine_ok_iff)
  have old: "batch_ok t j c" if "dict_get (eg_batches s) j = Some c" "j \<noteq> i" for j c
  proof (rule batch_ok_other [of s])
    show "batch_ok s j c" using ok that by (simp add: engine_ok_iff)
  qed (use that free f in auto)
  have "global_active_count t = global_active_count s"
    using sum_list_dict_set_fresh [OF noset, of active_count "[]"]
    by (simp add: global_active_count_def f active_count_def list_active_requests_def)
  moreover have "dict_get (eg_request_to_batch s) r \<noteq> Some i" for r
    using engine_okD(9) [OF ok, of r i] noset by auto
  moreover have "dict_get (eg_active_by_model s) m \<noteq> Some i" for m
    using engine_okD(10) [OF ok, of m i] fresh by auto
  ultimately show ?thesis
    using engine_okD [OF ok] new old nb
    by (intro engine_okI [OF ok f(1)]) (auto simp: f batch_terminal_def split: if_splits)
qed

section \<open>Adding a member keeps the invariant\<close>

lemma entered_fields [simp]:
  "b_id (entered now c b) = b_id b" "b_model (entered now c b) = b_model b"
  "b_members (entered now c b) = b_members b" "active_members (entered now c b) = active_members b"
  "active_member_count (entered now c b) = active_member_count b"
  "b_state (entered now c b) = (if activates now c b then BS_ACTIVE else b_state b)"
  by (simp_all add: entered_def activates_def active_members_def active_member_count_def)

lemma batch_okD:
  assumes "batch_ok s i b"
  obtains d where "b_id b = i" "usual_state (b_state b)" "dict_get (eg_sets s) i = Some d"
    "set_ok s i b d" "slots_ok (eg_config s) b"
    "\<not> batch_terminal (b_state b) \<Longrightarrow> dict_get (eg_active_by_model s) (b_model b) = Some i"
  using assms by (auto simp: batch_ok_def option_holds)

lemma set_ok_iff:
  "set_ok s i b d \<longleftrightarrow>
     wf_dict d \<and> b_members b = dict_values d \<and>
     (\<forall>r m. dict_get d r = Some m \<longrightarrow>
        bm_request_id m = r \<and> dict_get (eg_request_to_batch s) r = Some i)"
  by (cases "wf_dict d") (auto simp: set_ok_def simp flip: dict_item_iff)

lemma set_ok_fresh:
  "set_ok s i b d \<Longrightarrow> dict_get (eg_request_to_batch s) r = None \<Longrightarrow> dict_get d r = None"
  by (cases "dict_get d r") (simp_all add: set_ok_iff)

text \<open>Storing a member of the batch keeps its set well-formed.\<close>

lemma set_ok_set:
  assumes "set_ok s i b d" and "d' = dict_set (bm_request_id m) m d" and "b_members b' = dict_values d'"
    and "eg_request_to_batch t = dict_set (bm_request_id m) i (eg_request_to_batch s)"
  shows "set_ok t i b' d'"
  using assms by (auto simp: set_ok_iff)

lemma new_member_fields [simp]:
  "bm_request_id (new_member now item slot) = qi_request_id item"
  "bm_slot_index (new_member now item slot) = slot" "member_active (new_member now item slot)"
  by (simp_all add: new_member_def member_active_def)

lemma slots_ok_add:
  assumes "slots_ok c b" and "int (active_member_count b) < bac_max_batch_size c"
    and "active_members b' = active_members b @ [new_member now item (next_slot_index b)]"
    and "b_state b' = BS_FILLING \<Longrightarrow> int (active_member_count b') < bac_max_batch_size c"
  shows "slots_ok c b'"
proof -
  have "next_slot_index b \<notin> set (map bm_slot_index (active_members b))"
    unfolding next_slot_index_def by (rule next_index_unused)
  moreover have "next_slot_index b \<le> active_member_count b"
    using next_index_bound [of "map bm_slot_index (active_members b)"]
    by (simp add: next_slot_index_def active_member_count_def)
  ultimately show ?thesis
    using assms by (auto simp: slots_ok_def active_member_count_def)
qed

lemma engine_ok_add:
  fixes now :: datetime
  assumes ok: "engine_ok s" and b: "dict_get (eg_batches s) i = Some b"
    and d: "dict_get (eg_sets s) i = Some d" and live: "\<not> batch_terminal (b_state b)"
    and room: "int (active_member_count b) < bac_max_batch_size (eg_config s)"
    and globe: "int (global_active_count s) < bac_max_active_requests (eg_config s)"
    and unplaced: "dict_get (eg_request_to_batch s) (qi_request_id item) = None"
  defines "slot \<equiv> next_slot_index b"
  defines "d' \<equiv> dict_set (qi_request_id item) (new_member now item slot) d"
  defines "b' \<equiv> b\<lparr>b_members := dict_values d'\<rparr>"
  assumes v: "engine_view t =
       (eg_config s, eg_injector s, dict_set i (entered now (eg_config s) b') (eg_batches s),
        dict_set i d' (eg_sets s),
        dict_set (qi_request_id item) i (eg_request_to_batch s),
        if activates now (eg_config s) b'
          then dict_set (b_model b) i (eg_active_by_model s) else eg_active_by_model s,
        dict_set (qi_request_id item) (assignment_for item slot) (eg_assignments s))"
  shows "engine_ok t"
proof -
  let ?r = "qi_request_id item" and ?m = "new_member now item slot" and ?c = "eg_config s"
  have bok: "b_id b = i" "usual_state (b_state b)" "set_ok s i b d" "slots_ok ?c b"
    "dict_get (eg_active_by_model s) (b_model b) = Some i"
    using engine_okD(7) [OF ok b] d live by (auto elim!: batch_okD)
  have d'app: "d' = d @ [(?r, ?m)]" and wfd: "wf_dict d" and members: "b_members b = dict_values d"
    using set_ok_fresh [OF bok(3) unplaced] bok(3) by (simp_all add: d'_def dict_set_fresh set_ok_def)
  have f: "eg_config t = ?c" "eg_batches t = dict_set i (entered now ?c b') (eg_batches s)"
    "eg_sets t = dict_set i d' (eg_sets s)" "eg_request_to_batch t = dict_set ?r i (eg_request_to_batch s)"
    "dict_get (eg_active_by_model t) = dict_get (eg_active_by_model s)"
    "wf_dict (eg_active_by_model t)"
    using v bok(5) engine_okD(4) [OF ok] by (auto simp: engine_view_def fun_upd_idem)
  have b'f: "b_state b' = b_state b" "b_model b' = b_model b" "b_id b' = i" "b_members b' = dict_values d'"
    "active_members b' = active_members b @ [?m]"
    using bok(1) members by (simp_all add: b'_def active_members_def d'app)
  have "slots_ok ?c (entered now ?c b')"
  proof (rule slots_ok_add [OF bok(4) room])
    show "active_members (entered now ?c b') = active_members b @ [new_member now item (next_slot_index b)]"
      by (simp add: b'f(5) slot_def)
    show "int (active_member_count (entered now ?c b')) < bac_max_batch_size ?c"
      if "b_state (entered now ?c b') = BS_FILLING"
      using that by (simp add: activates_def split: if_splits)
  qed
  moreover have "usual_state (b_state (entered now ?c b'))"
    using bok(2) b'f by (simp add: usual_state_def)
  moreover have "set_ok t i (entered now ?c b') d'"
    by (rule set_ok_set [OF bok(3), of _ ?m]) (use b'f in \<open>simp_all add: d'_def f\<close>)
  ultimately have new: "batch_ok t i (entered now ?c b')"
    using bok b'f by (simp add: batch_ok_def f)
  have old: "batch_ok t j c" if "dict_get (eg_batches s) j = Some c" "j \<noteq> i" for j c
  proof (rule batch_ok_other [of s])
    show "batch_ok s j c" using ok that by (simp add: engine_okD)
  qed (use that f unplaced in auto)
  have "global_active_count t = global_active_count s + 1"
    using global_active_set [OF engine_okD(2) [OF ok] d, of d']
      active_count_fresh [OF set_ok_fresh [OF bok(3) unplaced], of ?m]
    by (simp add: global_active_count_def [of t] f d'_def active_weight_def)
  moreover have "\<not> batch_terminal (b_state (entered now ?c b'))"
    using live b'f by (simp add: batch_terminal_def)
  ultimately show ?thesis
  proof (intro engine_okI [OF ok f(1)])
    show "wf_dict (eg_batches t)" "wf_dict (eg_sets t)" "wf_dict (eg_request_to_batch t)"
      "wf_dict (eg_active_by_model t)"
      using engine_okD(1-3) [OF ok] f by simp_all
    show "batch_ok t j c" if "dict_get (eg_batches t) j = Some c" for j c
      using that new old [of j c] by (auto simp: f(2) split: if_splits)
    show "dict_get (eg_batches t) j \<noteq> None" if "dict_get (eg_sets t) j = Some e" for j e
      using that engine_okD(8) [OF ok, of j e] by (auto simp: f(2,3) split: if_splits)
    show "\<exists>e. dict_get (eg_sets t) j = Some e \<and> dict_get e r \<noteq> None"
      if "dict_get (eg_request_to_batch t) r = Some j" for r j
      using that engine_okD(9) [OF ok, of r j] d by (auto simp: f(3,4) d'_def split: if_splits)
    show "\<exists>c. dict_get (eg_batches t) j = Some c \<and> b_model c = m \<and> \<not> batch_terminal (b_state c)"
      if "dict_get (eg_active_by_model t) m = Some j" for m j
      using that engine_okD(10) [OF ok, of m j] b live b'f(1,2)
      by (auto simp: f(2,5) batch_terminal_def)
    show "int (global_active_count t) \<le> bac_max_active_requests (eg_config s)"
      if "global_active_count t = global_active_count s + 1"
      using that globe by simp
  qed
qed

section \<open>Retiring a member keeps the invariant\<close>

lemma dropped_subset:
  "\<not> P v \<Longrightarrow> set (filter P (dict_values (dict_set k v d))) \<subseteq> set (filter P (dict_values d))"
  by (induction d) auto

lemma dropped_distinct:
  assumes "\<not> P v" and "distinct (map f (filter P (dict_values d)))"
  shows "distinct (map f (filter P (dict_values (dict_set k v d))))"
  using assms
proof (induction d)
  case (Cons p d)
  have "f ` set (filter P (dict_values (dict_set k v d))) \<subseteq> f ` set (filter P (dict_values d))"
    using dropped_subset [of P v k d] Cons.prems(1) by (intro image_mono) blast
  with Cons show ?case by (cases p) (auto split: if_splits)
qed simp

lemma slots_ok_drop:
  assumes ok: "slots_ok c b" and "b_members b = dict_values d"
    and "b_members b' = dict_values (dict_set r (m\<lparr>bm_status := st\<rparr>) d)" and "st \<noteq> MS_ACTIVE"
    and le: "active_count (dict_set r (m\<lparr>bm_status := st\<rparr>) d) \<le> active_count d"
    and "b_state b' = BS_FILLING \<Longrightarrow> b_state b = BS_FILLING"
  shows "slots_ok c b'"
proof -
  let ?d = "dict_set r (m\<lparr>bm_status := st\<rparr>) d"
  have na: "\<not> member_active (m\<lparr>bm_status := st\<rparr>)" using assms(4) by (simp add: member_active_def)
  have "active_members b' = list_active_requests ?d" "active_members b = list_active_requests d"
    using assms(2,3) by (simp_all add: active_members_set)
  then show ?thesis
    using ok le assms(6) na dropped_subset [of member_active "m\<lparr>bm_status := st\<rparr>" r d]
      dropped_distinct [of member_active "m\<lparr>bm_status := st\<rparr>" bm_slot_index d r]
    by (auto simp: slots_ok_def active_member_count_def active_count_def list_active_requests_def)
qed

lemma closed_fields [simp]:
  "b_id (closed now st reason d b) = b_id b" "b_model (closed now st reason d b) = b_model b"
  "b_members (closed now st reason d b) = b_members b"
  "b_state (closed now st reason d b) =
     (if \<not> closes st d b then b_state b else if st = MS_FAILED then BS_FAILED else BS_COMPLETED)"
  by (simp_all add: closed_def)

lemma closes_open: "closes st d b \<Longrightarrow> \<not> batch_terminal (b_state b)"
  by (auto simp: closes_def batch_terminal_def split: if_splits)

lemma engine_ok_retire:
  fixes now :: datetime and st :: member_status and reason :: string
  assumes ok: "engine_ok s" and b: "dict_get (eg_batches s) i = Some b"
    and d: "dict_get (eg_sets s) i = Some d" and m: "dict_get d r = Some m"
    and st: "st \<noteq> MS_ACTIVE"
  defines "d' \<equiv> dict_set r (m\<lparr>bm_status := st\<rparr>) d"
  defines "b' \<equiv> closed now st reason d' (b\<lparr>b_members := dict_values d'\<rparr>)"
  defines "shut \<equiv> closes st d' (b\<lparr>b_members := dict_values d'\<rparr>)"
  assumes v: "engine_view t =
       (eg_config s, eg_injector s, dict_set i b' (eg_batches s), dict_set i d' (eg_sets s),
        eg_request_to_batch s,
        if shut then dict_del (b_model b) (eg_active_by_model s) else eg_active_by_model s,
        eg_assignments s)"
  shows "engine_ok t"
proof -
  let ?c = "eg_config s" and ?m = "m\<lparr>bm_status := st\<rparr>"
  have bok: "b_id b = i" "usual_state (b_state b)" "set_ok s i b d" "slots_ok ?c b"
    "\<not> batch_terminal (b_state b) \<Longrightarrow> dict_get (eg_active_by_model s) (b_model b) = Some i"
    using engine_okD(7) [OF ok b] d by (auto elim!: batch_okD)
  have mr: "bm_request_id ?m = r" and rb: "dict_get (eg_request_to_batch s) r = Some i"
    and wfd: "wf_dict d" and members: "b_members b = dict_values d"
    using bok(3) m by (auto simp: set_ok_iff)
  have f: "eg_config t = ?c" "eg_batches t = dict_set i b' (eg_batches s)"
    "eg_sets t = dict_set i d' (eg_sets s)" "eg_request_to_batch t = eg_request_to_batch s"
    "eg_active_by_model t =
       (if shut then dict_del (b_model b) (eg_active_by_model s) else eg_active_by_model s)"
    using v by (simp_all add: engine_view_def)
  have b'f: "b_model b' = b_model b" "b_id b' = i" "b_members b' = dict_values d'"
    "b_state b' = (if \<not> shut then b_state b else if st = MS_FAILED then BS_FAILED else BS_COMPLETED)"
    using bok(1) by (simp_all add: b'_def shut_def)
  have shut: "shut \<Longrightarrow> \<not> batch_terminal (b_state b)"
    using closes_open [of st d' "b\<lparr>b_members := dict_values d'\<rparr>"] by (simp add: shut_def)
  have le: "active_count d' \<le> active_count d"
    using active_count_retire [OF wfd st, of r] m by (simp add: set_status_def d'_def Let_def)
  have "slots_ok ?c b'"
    by (rule slots_ok_drop [OF bok(4) members b'f(3) [unfolded d'_def] st le [unfolded d'_def]])
      (auto simp: b'f(4) split: if_splits)
  moreover have "set_ok t i b' d'"
    using bok(3) by (rule set_ok_set [of _ _ _ _ _ ?m]) (use rb mr b'f(3) in \<open>simp_all add: d'_def f(4) update_triv\<close>)
  ultimately have new: "batch_ok t i b'"
    using bok(2,5) b'f by (auto simp: batch_ok_def f usual_state_def batch_terminal_def)
  have old: "batch_ok t j c" if "dict_get (eg_batches s) j = Some c" "j \<noteq> i" for j c
  proof (rule batch_ok_other [of s])
    show "batch_ok s j c" using ok that by (simp add: engine_okD)
    show "dict_get (eg_active_by_model t) (b_model c) = Some j"
      if "dict_get (eg_active_by_model s) (b_model c) = Some j"
      using that shut bok(5) \<open>j \<noteq> i\<close> by (auto simp: f(5))
  qed (use that f in auto)
  have "global_active_count t \<le> global_active_count s"
    using global_active_set [OF engine_okD(2) [OF ok] d, of d'] le
    by (simp add: global_active_count_def [of t] f(3))
  then show ?thesis
  proof (intro engine_okI [OF ok f(1)])
    show "wf_dict (eg_batches t)" "wf_dict (eg_sets t)" "wf_dict (eg_request_to_batch t)"
      "wf_dict (eg_active_by_model t)"
      using engine_okD(1-4) [OF ok] f by simp_all
    show "batch_ok t j c" if "dict_get (eg_batches t) j = Some c" for j c
      using that new old [of j c] by (auto simp: f(2) split: if_splits)
    show "dict_get (eg_batches t) j \<noteq> None" if "dict_get (eg_sets t) j = Some e" for j e
      using that engine_okD(8) [OF ok, of j e] by (auto simp: f(2,3) split: if_splits)
    show "\<exists>e. dict_get (eg_sets t) j = Some e \<and> dict_get e k \<noteq> None"
      if "dict_get (eg_request_to_batch t) k = Some j" for k j
      using that engine_okD(9) [OF ok, of k j] d by (auto simp: f(3,4) d'_def split: if_splits)
    show "\<exists>c. dict_get (eg_batches t) j = Some c \<and> b_model c = k \<and> \<not> batch_terminal (b_state c)"
      if "dict_get (eg_active_by_model t) k = Some j" for k j
      using that engine_okD(10) [OF ok, of k j] b b'f(1,4) shut bok(5)
      by (auto simp: f(2,5) split: if_splits)
    show "int (global_active_count t) \<le> bac_max_active_requests (eg_config s)"
      if "global_active_count t \<le> global_active_count s"
      using that engine_okD(6) [OF ok] by simp
  qed
qed

section \<open>Placing a request keeps the invariant\<close>

lemma open_batch_found:
  assumes "engine_ok s" and "dict_get (eg_active_by_model s) model = Some i"
  obtains b d where "dict_get (eg_batches s) i = Some b" "dict_get (eg_sets s) i = Some d"
    "b_id b = i" "b_model b = model" "\<not> batch_terminal (b_state b)" "usual_state (b_state b)"
    "set_ok s i b d" "slots_ok (eg_config s) b"
proof -
  obtain b where b: "dict_get (eg_batches s) i = Some b" "b_model b = model"
    "\<not> batch_terminal (b_state b)"
    using engine_okD(10) [OF assms] by blast
  obtain d where "b_id b = i" "usual_state (b_state b)" "dict_get (eg_sets s) i = Some d"
    "set_ok s i b d" "slots_ok (eg_config s) b"
    using engine_okD(7) [OF assms(1) b(1)] by (rule batch_okD)
  with b that show thesis by blast
qed

lemma find_member: "List.find P xs = Some x \<Longrightarrow> x \<in> set xs \<and> P x"
  by (auto simp: find_Some_iff)

lemma find_admittable_how:
  assumes "find_admittable_batch model now s = Some b"
  shows "int (active_member_count b) < bac_max_batch_size (eg_config s) \<and>
    ((\<exists>i. dict_get (eg_active_by_model s) model = Some i \<and> dict_get (eg_batches s) i = Some b) \<or>
     b \<in> set (dict_values (eg_batches s)) \<and> b_model b = model \<and> b_state b = BS_FILLING)"
  using assms unfolding find_admittable_batch_def Let_def
  by (auto dest!: find_member split: option.splits if_splits)

text \<open>The scan over all batches never finds one the index by model does not.\<close>

lemma find_admittable_found:
  assumes ok: "engine_ok s" and "find_admittable_batch model now s = Some b"
  obtains d where "dict_get (eg_active_by_model s) model = Some (b_id b)"
    "dict_get (eg_batches s) (b_id b) = Some b" "dict_get (eg_sets s) (b_id b) = Some d"
    "b_model b = model" "\<not> batch_terminal (b_state b)"
    "int (active_member_count b) < bac_max_batch_size (eg_config s)"
    "usual_state (b_state b)" "set_ok s (b_id b) b d"
proof -
  have room: "int (active_member_count b) < bac_max_batch_size (eg_config s)"
    using find_admittable_how [OF assms(2)] by blast
  have "dict_get (eg_active_by_model s) model = Some (b_id b) \<and> dict_get (eg_batches s) (b_id b) = Some b"
  proof (cases "\<exists>i. dict_get (eg_active_by_model s) model = Some i \<and> dict_get (eg_batches s) i = Some b")
    case True
    then obtain i where i: "dict_get (eg_active_by_model s) model = Some i" "dict_get (eg_batches s) i = Some b"
      by blast
    from open_batch_found [OF ok i(1)] i(2) have "b_id b = i" by (metis option.inject)
    with i show ?thesis by simp
  next
    case False
    then have "b \<in> set (dict_values (eg_batches s))" "b_model b = model" "b_state b = BS_FILLING"
      using find_admittable_how [OF assms(2)] by blast+
    then obtain i where i: "dict_get (eg_batches s) i = Some b"
      using dict_value_iff [OF engine_okD(1) [OF ok], of b] by auto
    have "batch_ok s i b" using ok i by (rule engine_okD(7))
    with \<open>b_model b = model\<close> \<open>b_state b = BS_FILLING\<close>
    have "b_id b = i" "dict_get (eg_active_by_model s) model = Some i"
      by (simp_all add: batch_ok_def batch_terminal_def)
    with i show ?thesis by simp
  qed
  then have i: "dict_get (eg_active_by_model s) model = Some (b_id b)"
    "dict_get (eg_batches s) (b_id b) = Some b" by auto
  obtain b' d where found: "dict_get (eg_batches s) (b_id b) = Some b'"
    "dict_get (eg_sets s) (b_id b) = Some d" "b_model b' = model" "\<not> batch_terminal (b_state b')"
    "usual_state (b_state b')" "set_ok s (b_id b) b' d"
    using ok i(1) by (rule open_batch_found)
  have "b' = b" using found(1) i(2) by simp
  with found show thesis by (intro that [OF i, of d]) (simp_all add: room)
qed

text \<open>When neither a batch with room nor a full one is found, the model has no open batch.\<close>

lemma no_open_batch:
  assumes ok: "engine_ok s" and none: "find_admittable_batch model now s = None"
    and "active_full_batch model s = None"
  shows "dict_get (eg_active_by_model s) model = None"
proof (rule ccontr)
  assume "dict_get (eg_active_by_model s) model \<noteq> None"
  then obtain i where i: "dict_get (eg_active_by_model s) model = Some i" by blast
  obtain b where b: "dict_get (eg_batches s) i = Some b" "\<not> batch_terminal (b_state b)"
    "usual_state (b_state b)" "slots_ok (eg_config s) b"
    using ok i by (rule open_batch_found)
  have "\<not> int (active_member_count b) < bac_max_batch_size (eg_config s)"
    using none i b by (auto simp: find_admittable_batch_def)
  moreover have "b_state b = BS_ACTIVE"
    using calculation b(2-4) by (auto simp: slots_ok_def usual_state_def batch_terminal_def)
  ultimately show False
    using assms(3) i b(1) by (simp add: active_full_batch_def)
qed

definition placement_recorded :: "queue_item \<Rightarrow> uuid \<Rightarrow> nat \<Rightarrow> engine_state \<Rightarrow> bool" where
  "placement_recorded item i slot t \<longleftrightarrow>
     dict_get (eg_request_to_batch t) (qi_request_id item) = Some i \<and>
     get_assignment (qi_request_id item) t = Some (assignment_for item slot) \<and>
     (case get_batch i t of
        None \<Rightarrow> False
      | Some b \<Rightarrow> b_model b = item_model item \<and> \<not> batch_terminal (b_state b) \<and>
          list_ex (\<lambda>m. bm_request_id m = qi_request_id item \<and> bm_slot_index m = slot)
            (active_members b))"

lemma add_to_batch_ok:
  fixes now :: datetime
  assumes ok: "engine_ok s" and b: "dict_get (eg_batches s) i = Some b"
    and live: "\<not> batch_terminal (b_state b)" and model: "b_model b = item_model item"
    and room: "int (active_member_count b) < bac_max_batch_size (eg_config s)"
    and globe: "int (global_active_count s) < bac_max_active_requests (eg_config s)"
    and unplaced: "dict_get (eg_request_to_batch s) (qi_request_id item) = None"
  shows "\<exists>t. add_to_batch now item reason i s =
       (Inr (placed_answer (eg_injector s) item reason i (next_slot_index b)), t) \<and>
     engine_ok t \<and> placement_recorded item i (next_slot_index b) t \<and>
     global_active_count t = Suc (global_active_count s) \<and>
     (\<forall>j. j \<noteq> i \<longrightarrow> get_batch j t = get_batch j s) \<and>
     eg_request_to_batch t = dict_set (qi_request_id item) i (eg_request_to_batch s) \<and>
     eg_config t = eg_config s \<and> eg_injector t = eg_injector s"
proof -
  obtain d where d: "b_id b = i" "usual_state (b_state b)" "dict_get (eg_sets s) i = Some d"
    "set_ok s i b d"
    using engine_okD(7) [OF ok b] by (rule batch_okD)
  have fresh: "dict_get d (qi_request_id item) = None" using d(4) unplaced by (rule set_ok_fresh)
  have nready: "b_state b \<noteq> BS_READY" using d(2) by (auto simp: usual_state_def)
  obtain t where t: "add_to_batch now item reason i s =
       (Inr (placed_answer (eg_injector s) item reason i (next_slot_index b)), t)"
    and v: "engine_view t = (eg_config s, eg_injector s,
        dict_set i (entered now (eg_config s) (b\<lparr>b_members := dict_values
          (dict_set (qi_request_id item) (new_member now item (next_slot_index b)) d)\<rparr>)) (eg_batches s),
        dict_set i (dict_set (qi_request_id item) (new_member now item (next_slot_index b)) d) (eg_sets s),
        dict_set (qi_request_id item) i (eg_request_to_batch s),
        if activates now (eg_config s) (b\<lparr>b_members := dict_values
            (dict_set (qi_request_id item) (new_member now item (next_slot_index b)) d)\<rparr>)
          then dict_set (b_model b) i (eg_active_by_model s) else eg_active_by_model s,
        dict_set (qi_request_id item) (assignment_for item (next_slot_index b)) (eg_assignments s))"
    using add_to_batch_run [OF b d(3) fresh nready, of now reason] by blast
  have "engine_ok t" using engine_ok_add [OF ok b d(3) live room globe unplaced v] .
  moreover have "placement_recorded item i (next_slot_index b) t"
    using v model live fresh by (simp add: placement_recorded_def engine_view_def get_assignment_def
        get_batch_def active_members_def dict_set_fresh batch_terminal_def)
  moreover have "global_active_count t = Suc (global_active_count s)"
    using v active_count_fresh [OF fresh, of "new_member now item (next_slot_index b)"]
      global_active_set [OF engine_okD(2) [OF ok] d(3),
        of "dict_set (qi_request_id item) (new_member now item (next_slot_index b)) d"]
    by (simp add: global_active_count_def [of t] engine_view_def active_weight_def)
  moreover have "\<forall>j. j \<noteq> i \<longrightarrow> get_batch j t = get_batch j s"
    "eg_request_to_batch t = dict_set (qi_request_id item) i (eg_request_to_batch s)"
    "eg_config t = eg_config s" "eg_injector t = eg_injector s"
    using v by (simp_all add: engine_view_def get_batch_def)
  ultimately show ?thesis using t by blast
qed

lemma create_global:
  assumes "engine_ok s" and "dict_get (eg_batches s) i = None"
    and "eg_sets t = dict_set i [] (eg_sets s)"
  shows "global_active_count t = global_active_count s"
proof -
  have "dict_get (eg_sets s) i = None"
    using engine_okD(8) [OF assms(1), of i] assms(2) by (cases "dict_get (eg_sets s) i") auto
  then show ?thesis
    using sum_list_dict_set_fresh [of "eg_sets s" i active_count "[]"]
    by (simp add: global_active_count_def assms(3) active_count_def list_active_requests_def)
qed

text \<open>An operation that leaves the engine as it was and does not answer with a placement.\<close>

definition declined :: "engine_state \<Rightarrow> (scheduler_exn + placement) \<times> engine_state \<Rightarrow> bool" where
  "declined s = (\<lambda>(r, t). same_engine s t \<and>
     (case r of Inl _ \<Rightarrow> True | Inr (Placed _) \<Rightarrow> False | Inr (Rejected _) \<Rightarrow> True))"

definition took :: "uuid \<Rightarrow> queue_item \<Rightarrow> engine_state \<Rightarrow> (scheduler_exn + placement) \<times> engine_state \<Rightarrow> bool" where
  "took fresh item s = (\<lambda>(r, t). \<exists>i slot reason.
     r = Inr (placed_answer (eg_injector s) item reason i slot) \<and> engine_ok t \<and>
     placement_recorded item i slot t \<and> global_active_count t = Suc (global_active_count s) \<and>
     (\<forall>j. j \<noteq> i \<longrightarrow> get_batch j t = get_batch j s) \<and>
     (case get_batch i s of None \<Rightarrow> i = fresh | Some b \<Rightarrow> b_model b = item_model item) \<and>
     eg_request_to_batch t = dict_set (qi_request_id item) i (eg_request_to_batch s) \<and>
     eg_config t = eg_config s \<and> eg_injector t = eg_injector s)"

lemma tookI:
  "engine_ok t \<Longrightarrow> placement_recorded item i slot t \<Longrightarrow>
   global_active_count t = Suc (global_active_count s) \<Longrightarrow>
   (\<And>j. j \<noteq> i \<Longrightarrow> get_batch j t = get_batch j s) \<Longrightarrow>
   (case get_batch i s of None \<Rightarrow> i = fresh | Some b \<Rightarrow> b_model b = item_model item) \<Longrightarrow>
   eg_request_to_batch t = dict_set (qi_request_id item) i (eg_request_to_batch s) \<Longrightarrow>
   eg_config t = eg_config s \<Longrightarrow> eg_injector t = eg_injector s \<Longrightarrow>
   took fresh item s (Inr (placed_answer (eg_injector s) item reason i slot), t)"
  unfolding took_def prod.case by (intro exI conjI) (rule refl | assumption | simp)+

lemma evaluate_accepts:
  "evaluate_batch_admission ob g c now = (BA_ACCEPT, reason) \<Longrightarrow> int g < bac_max_active_requests c"
  by (auto simp: evaluate_batch_admission_def split: if_splits)

lemma admit_rejects:
  assumes "evaluate_batch_admission ob (global_active_count s) (eg_config s) now = (BA_REJECT, reason)"
  shows "\<exists>t. admit_item now fresh item ob s = (Inr (reject_item item reason (map_option b_id ob)), t) \<and>
    same_engine s t"
  using assms by (simp add: admit_item_def op_basic observe_op_def)

lemma admit_existing_accepts:
  assumes ok: "engine_ok s" and found: "find_admittable_batch (item_model item) now s = Some b"
    and unplaced: "dict_get (eg_request_to_batch s) (qi_request_id item) = None"
    and accept: "evaluate_batch_admission (Some b) (global_active_count s) (eg_config s) now =
      (BA_ACCEPT, reason)"
  shows "took fresh item s (admit_item now fresh item (Some b) s)"
proof -
  have globe: "int (global_active_count s) < bac_max_active_requests (eg_config s)"
    using accept by (rule evaluate_accepts)
  have run: "admit_item now fresh item (Some b) s = add_to_batch now item reason (b_id b) s"
    using accept by (simp add: admit_item_def op_basic)
  obtain d where i: "dict_get (eg_batches s) (b_id b) = Some b" "b_model b = item_model item"
    "\<not> batch_terminal (b_state b)"
    "int (active_member_count b) < bac_max_batch_size (eg_config s)"
    using ok found by (rule find_admittable_found)
  from add_to_batch_ok [OF ok i(1,3,2,4) globe unplaced, of now reason] run
  show ?thesis using i(1,2) by (auto simp: get_batch_def intro!: tookI)
qed

lemma fresh_batch_fields [simp]:
  "b_id (fresh_batch model now i c) = i" "b_model (fresh_batch model now i c) = model"
  "b_state (fresh_batch model now i c) = BS_FILLING" "b_members (fresh_batch model now i c) = []"
  "active_members (fresh_batch model now i c) = []" "active_member_count (fresh_batch model now i c) = 0"
  by (simp_all add: fresh_batch_def active_members_def active_member_count_def)

lemma admit_new_run:
  assumes "evaluate_batch_admission None (global_active_count s) (eg_config s) now = (BA_ACCEPT, reason)"
  shows "admit_item now fresh item None s =
    bind_op (create_or_raise item now fresh) (add_to_batch now item reason) s"
  using assms by (simp add: admit_item_def bind_op_def [of "gets_op f" for f] gets_op_def)

lemma admit_new_accepts:
  assumes ok: "engine_ok s" and fresh: "dict_get (eg_batches s) fresh = None"
    and free: "dict_get (eg_active_by_model s) (item_model item) = None"
    and unplaced: "dict_get (eg_request_to_batch s) (qi_request_id item) = None"
    and accept: "evaluate_batch_admission None (global_active_count s) (eg_config s) now =
      (BA_ACCEPT, reason)"
    and create: "create_or_raise item now fresh s = create_batch (item_model item) now fresh s"
  shows "took fresh item s (admit_item now fresh item None s)"
proof -
  let ?b = "fresh_batch (item_model item) now fresh (eg_config s)"
  have globe: "int (global_active_count s) < bac_max_active_requests (eg_config s)"
    using accept by (rule evaluate_accepts)
  obtain u where u: "create_batch (item_model item) now fresh s = (Inr fresh, u)"
    and v: "engine_view u = (eg_config s, eg_injector s, dict_set fresh ?b (eg_batches s),
      dict_set fresh [] (eg_sets s), eg_request_to_batch s,
      dict_set (item_model item) fresh (eg_active_by_model s), eg_assignments s)"
    using create_batch_run [of "item_model item" now fresh s] by blast
  have f: "eg_config u = eg_config s" "eg_injector u = eg_injector s"
    "eg_request_to_batch u = eg_request_to_batch s" "eg_sets u = dict_set fresh [] (eg_sets s)"
    "dict_get (eg_batches u) fresh = Some ?b"
    using v by (simp_all add: engine_view_def)
  have g: "global_active_count u = global_active_count s" using create_global [OF ok fresh f(4)] .
  have oku: "engine_ok u" using engine_ok_create [OF ok fresh free v] .
  have "\<exists>t. add_to_batch now item reason fresh u =
      (Inr (placed_answer (eg_injector u) item reason fresh (next_slot_index ?b)), t) \<and>
    engine_ok t \<and> placement_recorded item fresh (next_slot_index ?b) t \<and>
    global_active_count t = Suc (global_active_count u) \<and>
    (\<forall>j. j \<noteq> fresh \<longrightarrow> get_batch j t = get_batch j u) \<and>
    eg_request_to_batch t = dict_set (qi_request_id item) fresh (eg_request_to_batch u) \<and>
    eg_config t = eg_config u \<and> eg_injector t = eg_injector u"
    by (rule add_to_batch_ok [OF oku f(5)])
      (use globe unplaced engine_okD(5) [OF ok] in \<open>simp_all add: f g batch_terminal_def\<close>)
  then show ?thesis
    using v fresh unfolding admit_new_run [OF accept]
    by (auto simp: bind_op_def create u f g get_batch_def engine_view_def intro!: tookI)
qed

lemma admit_item_rejected:
  "evaluate_batch_admission ob (global_active_count s) (eg_config s) now = (BA_REJECT, reason) \<Longrightarrow>
   declined s (admit_item now fresh item ob s)"
  using admit_rejects [of ob s now reason fresh item] by (auto simp: declined_def reject_item_def)

lemma admit_new_raised:
  "evaluate_batch_admission None (global_active_count s) (eg_config s) now = (BA_ACCEPT, reason) \<Longrightarrow>
   create_or_raise item now fresh s = (Inl e, s) \<Longrightarrow>
   declined s (admit_item now fresh item None s)"
  by (simp add: admit_new_run bind_op_def declined_def)

text \<open>Which of the four ways a placement goes.\<close>

definition placeable :: "queue_item \<Rightarrow> datetime \<Rightarrow> engine_state \<Rightarrow> bool" where
  "placeable item now s \<longleftrightarrow>
     dict_get (eg_request_to_batch s) (qi_request_id item) = None \<and>
     int (global_active_count s) < bac_max_active_requests (eg_config s) \<and>
     (case get_active_batch (item_model item) s of
        None \<Rightarrow> True
      | Some b \<Rightarrow> int (active_member_count b) < bac_max_batch_size (eg_config s) \<and>
          (b_state b = BS_FILLING \<longrightarrow> now \<le> bx_admission_window_end (b_context b)))"

lemma get_active_batch_open:
  assumes "engine_ok s" and "dict_get (eg_active_by_model s) model = Some i"
  obtains b where "get_active_batch model s = Some b" "dict_get (eg_batches s) i = Some b"
    "b_state b = BS_FILLING \<or> b_state b = BS_ACTIVE" "slots_ok (eg_config s) b"
proof -
  obtain b where b: "dict_get (eg_batches s) i = Some b" "\<not> batch_terminal (b_state b)"
    "usual_state (b_state b)" "slots_ok (eg_config s) b"
    using assms by (rule open_batch_found)
  then show thesis
    using that [of b] assms(2)
    by (auto simp: get_active_batch_def usual_state_def batch_terminal_def)
qed

lemma evaluate_open:
  assumes "b_state b = BS_FILLING \<or> b_state b = BS_ACTIVE"
    and "int (active_member_count b) < bac_max_batch_size c"
  shows "fst (evaluate_batch_admission (Some b) g c now) = BA_ACCEPT \<longleftrightarrow>
    int g < bac_max_active_requests c \<and>
    (b_state b = BS_FILLING \<longrightarrow> now \<le> bx_admission_window_end (b_context b))"
  using assms by (auto simp: evaluate_batch_admission_def)

lemma place_with_open_batch:
  assumes ok: "engine_ok s" and i: "dict_get (eg_active_by_model s) (item_model item) = Some i"
    and unplaced: "dict_get (eg_request_to_batch s) (qi_request_id item) = None"
    and ninj: "\<not> should_inject (eg_injector s) FP_BATCH_ADMISSION_FAILURE (Some (qi_request_id item))"
  shows "if placeable item now s then took fresh item s (place_selected now fresh item s)
    else declined s (place_selected now fresh item s)"
proof -
  obtain b where b: "get_active_batch (item_model item) s = Some b" "dict_get (eg_batches s) i = Some b"
    "b_state b = BS_FILLING \<or> b_state b = BS_ACTIVE" "slots_ok (eg_config s) b"
    using ok i by (rule get_active_batch_open)
  show ?thesis
  proof (cases "int (active_member_count b) < bac_max_batch_size (eg_config s)")
    case True
    then have found: "find_admittable_batch (item_model item) now s = Some b"
      using i b(2,3) by (auto simp: find_admittable_batch_def batch_terminal_def)
    have run: "place_selected now fresh item s = admit_item now fresh item (Some b) s"
      using unplaced ninj found by (simp add: place_selected_def)
    obtain decision reason where e:
      "evaluate_batch_admission (Some b) (global_active_count s) (eg_config s) now = (decision, reason)"
      by (cases "evaluate_batch_admission (Some b) (global_active_count s) (eg_config s) now")
    have "decision = BA_ACCEPT \<longleftrightarrow> placeable item now s"
      using evaluate_open [OF b(3) True, of "global_active_count s" now] e b(1) True unplaced
      by (simp add: placeable_def)
    then show ?thesis
      using e admit_existing_accepts [OF ok found unplaced, of reason fresh]
        admit_item_rejected [of "Some b" s now reason fresh item] unfolding run
      by (cases decision) auto
  next
    case False
    then have "b_state b = BS_ACTIVE" using b(3,4) by (auto simp: slots_ok_def)
    then have full: "active_full_batch (item_model item) s = Some b"
      using False i b(2) by (simp add: active_full_batch_def)
    have "find_admittable_batch (item_model item) now s = None"
    proof (rule ccontr)
      assume "find_admittable_batch (item_model item) now s \<noteq> None"
      then obtain b' where f: "find_admittable_batch (item_model item) now s = Some b'" by blast
      obtain d where "dict_get (eg_active_by_model s) (item_model item) = Some (b_id b')"
        "dict_get (eg_batches s) (b_id b') = Some b'"
        "int (active_member_count b') < bac_max_batch_size (eg_config s)"
        using ok f by (rule find_admittable_found)
      with False i b(2) show False by simp
    qed
    then have "declined s (place_selected now fresh item s)"
      using unplaced ninj full
      by (simp add: place_selected_def op_basic observe_op_def declined_def reject_item_def)
    then show ?thesis using False b(1) by (simp add: placeable_def)
  qed
qed

lemma place_without_batch:
  assumes ok: "engine_ok s" and fresh: "dict_get (eg_batches s) fresh = None"
    and none: "dict_get (eg_active_by_model s) (item_model item) = None"
    and unplaced: "dict_get (eg_request_to_batch s) (qi_request_id item) = None"
    and ninj: "\<not> should_inject (eg_injector s) FP_BATCH_ADMISSION_FAILURE (Some (qi_request_id item))"
  shows "if placeable item now s
      \<and> \<not> should_inject (eg_injector s) FP_BATCH_CREATION_FAILURE (Some (qi_request_id item))
    then took fresh item s (place_selected now fresh item s)
    else declined s (place_selected now fresh item s)"
proof -
  have "find_admittable_batch (item_model item) now s = None"
  proof (rule ccontr)
    assume "find_admittable_batch (item_model item) now s \<noteq> None"
    then obtain b where f: "find_admittable_batch (item_model item) now s = Some b" by blast
    obtain d where "dict_get (eg_active_by_model s) (item_model item) = Some (b_id b)"
      using ok f by (rule find_admittable_found)
    with none show False by simp
  qed
  then have run: "place_selected now fresh item s = admit_item now fresh item None s"
    using unplaced ninj none by (simp add: place_selected_def active_full_batch_def)
  have ready: "placeable item now s \<longleftrightarrow> int (global_active_count s) < bac_max_active_requests (eg_config s)"
    using unplaced none by (simp add: placeable_def get_active_batch_def)
  show ?thesis
  proof (cases "int (global_active_count s) < bac_max_active_requests (eg_config s)")
    case False
    then have "declined s (admit_item now fresh item None s)"
      by (intro admit_item_rejected) (simp add: evaluate_batch_admission_def)
    with False show ?thesis by (simp add: run ready)
  next
    case True
    then have acc: "evaluate_batch_admission None (global_active_count s) (eg_config s) now =
        (BA_ACCEPT, ''new_batch'')" by (simp add: evaluate_batch_admission_def)
    show ?thesis
    proof (cases "should_inject (eg_injector s) FP_BATCH_CREATION_FAILURE (Some (qi_request_id item))")
      case inj: True
      then have "\<exists>e. create_or_raise item now fresh s = (Inl e, s)"
        by (auto simp: create_or_raise_def op_basic should_inject_def maybe_raise_def split: option.splits)
      with inj show ?thesis using admit_new_raised [OF acc, of item fresh] by (auto simp: run)
    next
      case ninj': False
      then have "create_or_raise item now fresh s = create_batch (item_model item) now fresh s"
        by (auto simp: create_or_raise_def op_basic should_inject_def maybe_raise_def split: option.splits)
      then have "took fresh item s (admit_item now fresh item None s)"
        by (rule admit_new_accepts [OF ok fresh none unplaced acc])
      with ninj' True show ?thesis by (simp add: run ready)
    qed
  qed
qed

lemma place_selected_outcome:
  assumes ok: "engine_ok s" and fresh: "dict_get (eg_batches s) fresh = None"
  shows "declined s (place_selected now fresh item s) \<or>
    took fresh item s (place_selected now fresh item s) \<and> placeable item now s"
proof (cases "should_inject (eg_injector s) FP_BATCH_ADMISSION_FAILURE (Some (qi_request_id item))
    \<or> dict_get (eg_request_to_batch s) (qi_request_id item) \<noteq> None")
  case True
  then show ?thesis by (auto simp: place_selected_def declined_def reject_item_def)
next
  case False
  then show ?thesis
    using place_with_open_batch [OF ok, of item _ now fresh] place_without_batch [OF ok fresh, of item now]
    by (cases "dict_get (eg_active_by_model s) (item_model item)") (auto split: if_splits)
qed

end
