(* ===== verification/Batch_Properties.thy ===== *)
theory Batch_Properties
  imports Batch_Invariants Control_Plane_Properties
begin

text \<open>
  The runs of the batching engine and its properties: the invariant of the reachable states,
  exactly when a request is placed, what retiring a request does, and the batch that never
  leaves its filling state.
\<close>

section \<open>Runs\<close>

datatype engine_op =
    Place datetime uuid queue_item
  | Complete datetime uuid uuid
  | Fail datetime uuid uuid string
  | Cancel datetime uuid uuid
  | Replace datetime uuid uuid queue_item

fun perform :: "engine_op \<Rightarrow> engine_state \<Rightarrow> engine_state" where
  "perform (Place now fresh item) s = snd (place_selected now fresh item s)"
| "perform (Complete now fresh r) s = snd (complete_request_in_batch now fresh r s)"
| "perform (Fail now fresh r reason) s = snd (fail_request_in_batch now fresh r reason s)"
| "perform (Cancel now fresh r) s = snd (cancel_request_in_batch now fresh r s)"
| "perform (Replace now fresh r item) s = snd (replace_request now fresh r item s)"

fun op_time :: "engine_op \<Rightarrow> datetime" where
  "op_time (Place now _ _) = now"
| "op_time (Complete now _ _) = now"
| "op_time (Fail now _ _ _) = now"
| "op_time (Cancel now _ _) = now"
| "op_time (Replace now _ _ _) = now"

text \<open>\<open>uuid4\<close> never returns the id of a batch the engine has.\<close>

fun id_unused :: "engine_op \<Rightarrow> engine_state \<Rightarrow> bool" where
  "id_unused (Place _ fresh _) s = (dict_get (eg_batches s) fresh = None)"
| "id_unused (Replace _ fresh _ _) s = (dict_get (eg_batches s) fresh = None)"
| "id_unused _ _ = True"

inductive engine_reachable :: "engine_state \<Rightarrow> bool" where
  start: "new_engine c fi obs = Inr s \<Longrightarrow> engine_reachable s"
| step: "engine_reachable s \<Longrightarrow> id_unused a s \<Longrightarrow> engine_reachable (perform a s)"

inductive engine_run :: "(engine_op \<Rightarrow> bool) \<Rightarrow> engine_state \<Rightarrow> engine_state \<Rightarrow> bool" for P where
  run_nil: "engine_run P s s"
| run_step: "engine_run P s t \<Longrightarrow> P a \<Longrightarrow> id_unused a t \<Longrightarrow> engine_run P s (perform a t)"

section \<open>Every operation keeps the invariant\<close>

lemma view_ok: "engine_view t = engine_view s \<Longrightarrow> engine_ok s \<Longrightarrow> engine_ok t"
proof -
  assume v: "engine_view t = engine_view s" and ok: "engine_ok s"
  from v have f: "eg_config t = eg_config s" "eg_batches t = eg_batches s" "eg_sets t = eg_sets s"
    "eg_request_to_batch t = eg_request_to_batch s" "eg_active_by_model t = eg_active_by_model s"
    by (simp_all add: engine_view_def)
  have "batch_ok t i b" if "dict_get (eg_batches t) i = Some b" for i b
    by (rule batch_ok_other [of s]) (use engine_okD(7) [OF ok, of i b] that f in simp_all)
  then show ?thesis
    using engine_okD [OF ok] f
    by (intro engine_okI [OF ok f(1)]) (simp_all add: global_active_count_def)
qed

lemma same_engine_ok: "same_engine s t \<Longrightarrow> engine_ok s \<Longrightarrow> engine_ok t"
  by (simp add: same_engine_def view_ok)

lemma engine_ok_place:
  assumes "engine_ok s" and "dict_get (eg_batches s) fresh = None"
  shows "engine_ok (snd (place_selected now fresh item s))"
  using place_selected_outcome [OF assms, of now item] same_engine_ok assms(1)
  by (cases "place_selected now fresh item s") (auto simp: declined_def took_def)

text \<open>What retiring a request does to a well-formed engine.\<close>

lemma retire_request_cases:
  fixes now :: datetime
  assumes ok: "engine_ok s" and st: "st \<noteq> MS_ACTIVE"
  obtains (unknown) "dict_get (eg_request_to_batch s) r = None"
      "retire_request now fresh r st reason s = (Inr (not_retired fresh r ''request_not_in_batch''), s)"
  | (known) i b d m t where "dict_get (eg_request_to_batch s) r = Some i"
      "dict_get (eg_batches s) i = Some b" "dict_get (eg_sets s) i = Some d" "dict_get d r = Some m"
      "retire_request now fresh r st reason s = (Inr (retired i r reason (b_state b)
         (b_state (closed now st reason (dict_set r (m\<lparr>bm_status := st\<rparr>) d)
            (b\<lparr>b_members := dict_values (dict_set r (m\<lparr>bm_status := st\<rparr>) d)\<rparr>)))), t)"
      "engine_ok t"
      "eg_batches t = dict_set i (closed now st reason (dict_set r (m\<lparr>bm_status := st\<rparr>) d)
         (b\<lparr>b_members := dict_values (dict_set r (m\<lparr>bm_status := st\<rparr>) d)\<rparr>)) (eg_batches s)"
      "eg_sets t = dict_set i (dict_set r (m\<lparr>bm_status := st\<rparr>) d) (eg_sets s)"
      "eg_request_to_batch t = eg_request_to_batch s" "eg_assignments t = eg_assignments s"
      "eg_config t = eg_config s" "eg_injector t = eg_injector s"
proof (cases "dict_get (eg_request_to_batch s) r")
  case None
  then show thesis by (intro unknown) (simp_all add: retire_request_def)
next
  case (Some i)
  obtain d m where d: "dict_get (eg_sets s) i = Some d" "dict_get d r = Some m"
    using engine_okD(9) [OF ok Some] by blast
  obtain b where b: "dict_get (eg_batches s) i = Some b"
    using engine_okD(8) [OF ok d(1)] by blast
  have u: "usual_state (b_state b)" using engine_okD(7) [OF ok b] by (rule batch_okD)
  obtain t where t: "retire_member now i r st reason s = (Inr (retired i r reason (b_state b)
         (b_state (closed now st reason (dict_set r (m\<lparr>bm_status := st\<rparr>) d)
            (b\<lparr>b_members := dict_values (dict_set r (m\<lparr>bm_status := st\<rparr>) d)\<rparr>)))), t)"
    and v: "engine_view t = (eg_config s, eg_injector s,
        dict_set i (closed now st reason (dict_set r (m\<lparr>bm_status := st\<rparr>) d)
         (b\<lparr>b_members := dict_values (dict_set r (m\<lparr>bm_status := st\<rparr>) d)\<rparr>)) (eg_batches s),
        dict_set i (dict_set r (m\<lparr>bm_status := st\<rparr>) d) (eg_sets s), eg_request_to_batch s,
        if closes st (dict_set r (m\<lparr>bm_status := st\<rparr>) d)
            (b\<lparr>b_members := dict_values (dict_set r (m\<lparr>bm_status := st\<rparr>) d)\<rparr>)
          then dict_del (b_model b) (eg_active_by_model s) else eg_active_by_model s,
        eg_assignments s)"
    using retire_member_run [OF b d u, of now st reason] by blast
  have "engine_ok t" by (rule engine_ok_retire [OF ok b d st v])
  then show thesis
    by (intro known [OF Some b d, of t]) (use Some t v in \<open>simp_all add: retire_request_def engine_view_def\<close>)
qed

lemma engine_ok_retired:
  assumes "engine_ok s" and "st \<noteq> MS_ACTIVE"
  shows "engine_ok (snd (retire_request now fresh r st reason s))"
  using assms by (rule retire_request_cases [of s st r now fresh reason]) (simp_all add: assms)

lemma retire_batch_ids:
  assumes "engine_ok s" and "st \<noteq> MS_ACTIVE"
  shows "dict_get (eg_batches (snd (retire_request now fresh r st reason s))) j = None \<longleftrightarrow>
    dict_get (eg_batches s) j = None"
  using assms by (rule retire_request_cases [of s st r now fresh reason]) auto

lemma replace_request_run:
  "snd (replace_request now fresh r item s) =
     (let u = snd (complete_request_in_batch now fresh r s)
      in case fst (complete_request_in_batch now fresh r s) of
           Inl _ \<Rightarrow> u
         | Inr res \<Rightarrow> if br_success res then snd (place_selected now fresh item u) else u)"
  by (simp add: replace_request_def op_basic Let_def split: prod.splits sum.splits)

lemma perform_ok:
  assumes ok: "engine_ok s" and new: "id_unused a s"
  shows "engine_ok (perform a s)"
proof (cases a)
  case (Place now fresh item)
  with assms show ?thesis by (simp add: engine_ok_place)
next
  case (Replace now fresh r item)
  let ?u = "snd (complete_request_in_batch now fresh r s)"
  have u: "engine_ok ?u" "dict_get (eg_batches ?u) fresh = None"
    using ok new Replace
    by (simp_all add: complete_request_in_batch_def engine_ok_retired retire_batch_ids)
  with Replace show ?thesis
    by (simp add: replace_request_run Let_def engine_ok_place split: sum.split)
qed (use ok in \<open>simp_all add: complete_request_in_batch_def fail_request_in_batch_def
    cancel_request_in_batch_def engine_ok_retired\<close>)

lemma new_engine_ok: "new_engine c fi obs = Inr s \<Longrightarrow> engine_ok s"
  by (auto simp: new_engine_def validate_batch_config_def engine_ok_def global_active_count_def
      split: if_splits)

lemma reachable_ok: "engine_reachable s \<Longrightarrow> engine_ok s"
  by (induction rule: engine_reachable.induct) (auto intro: new_engine_ok perform_ok)

section \<open>Concrete instances\<close>

definition sample_batch_config :: batch_admission_config where
  "sample_batch_config =
     \<lparr>bac_max_batch_size = 2, bac_max_active_requests = 3, bac_batch_admission_window_ms = 10\<rparr>"

definition sample_engine :: engine_state where
  "sample_engine =
     \<lparr>eg_config = sample_batch_config, eg_injector = None,
      eg_observers = \<lparr>ob_trace = None, ob_metrics = None\<rparr>, eg_batches = [], eg_sets = [],
      eg_request_to_batch = [], eg_active_by_model = [], eg_assignments = []\<rparr>"

definition sample_queue_item :: "uuid \<Rightarrow> queue_item" where
  "sample_queue_item i =
     \<lparr>qi_request_id = i, qi_inference_request = sample_request i,
      qi_request_context = sr_request_context (sample_submit i), qi_enqueued_at = 0,
      qi_priority_class = PC_DEFAULT, qi_queue_name = ''demo/default''\<rparr>"

definition sample_filling :: engine_state where
  "sample_filling = perform (Place 0 ''b'' (sample_queue_item ''a'')) sample_engine"

lemma sample_engine_reachable: "engine_reachable sample_engine"
proof (rule engine_reachable.start)
  show "new_engine sample_batch_config None \<lparr>ob_trace = None, ob_metrics = None\<rparr> = Inr sample_engine"
    by (simp add: new_engine_def validate_batch_config_def sample_engine_def sample_batch_config_def)
qed

lemma sample_filling_reachable: "engine_reachable sample_filling"
  unfolding sample_filling_def
  by (rule engine_reachable.step [OF sample_engine_reachable]) (simp add: sample_engine_def)

section \<open>Bounds\<close>

lemma listed_ok:
  assumes "engine_ok s" and "b \<in> set (list_batches s)"
  shows "dict_get (eg_batches s) (b_id b) = Some b" and "batch_ok s (b_id b) b"
proof -
  obtain i where i: "dict_get (eg_batches s) i = Some b"
    using assms(2) dict_value_iff [OF engine_okD(1) [OF assms(1)], of b] by (auto simp: list_batches_def)
  have "batch_ok s i b" using assms(1) i by (rule engine_okD(7))
  then have "b_id b = i" by (simp add: batch_ok_def)
  with i \<open>batch_ok s i b\<close> show "dict_get (eg_batches s) (b_id b) = Some b" "batch_ok s (b_id b) b"
    by simp_all
qed

lemma member_batch:
  assumes "engine_ok s" and "b \<in> set (list_batches s)" and "m \<in> set (b_members b)"
  shows "dict_get (eg_request_to_batch s) (bm_request_id m) = Some (b_id b)"
proof -
  from listed_ok(2) [OF assms(1,2)] obtain d where d: "set_ok s (b_id b) b d"
    by (rule batch_okD)
  then have "m \<in> set (dict_values d)" using assms(3) by (simp add: set_ok_iff)
  with d obtain r where "dict_get d r = Some m"
    using dict_value_iff [of d m] by (auto simp: set_ok_iff)
  with d show ?thesis by (auto simp: set_ok_iff)
qed

text \<open>C5: In every reachable state of the batching engine the number of active requests is
  within \<open>max_active_requests\<close>, every batch has at most \<open>max_batch_size\<close> active members, in
  pairwise different slots below \<open>max_batch_size\<close>, is FILLING, ACTIVE, COMPLETED or FAILED (never
  left in CREATED or READY), and is not full while it fills; no request is a member of two
  batches and no model has two open batches.\<close>

theorem engine_reachable_bounds:
  assumes "engine_reachable s" and "b \<in> set (list_batches s)" and "c \<in> set (list_batches s)"
  shows "int (global_active_count s) \<le> bac_max_active_requests (eg_config s) \<and>
    int (active_member_count b) \<le> bac_max_batch_size (eg_config s) \<and>
    distinct (map bm_slot_index (active_members b)) \<and>
    list_all (\<lambda>m. int (bm_slot_index m) < bac_max_batch_size (eg_config s)) (active_members b) \<and>
    b_state b \<in> {BS_FILLING, BS_ACTIVE, BS_COMPLETED, BS_FAILED} \<and>
    (b_state b = BS_FILLING \<longrightarrow> int (active_member_count b) < bac_max_batch_size (eg_config s)) \<and>
    (b \<noteq> c \<longrightarrow> set (map bm_request_id (b_members b)) \<inter> set (map bm_request_id (b_members c)) = {} \<and>
      (b_model b = b_model c \<longrightarrow> batch_terminal (b_state b) \<or> batch_terminal (b_state c)))"
proof -
  have ok: "engine_ok s" using assms(1) by (rule reachable_ok)
  have b: "batch_ok s (b_id b) b" and c: "batch_ok s (b_id c) c"
    using listed_ok(2) [OF ok] assms(2,3) by auto
  have ids: "b_id b = b_id c \<Longrightarrow> b = c"
    using listed_ok(1) [OF ok] assms(2,3) by (metis option.inject)
  have "b = c" if r: "r \<in> set (map bm_request_id (b_members b))" "r \<in> set (map bm_request_id (b_members c))" for r
  proof -
    obtain m m' where m: "m \<in> set (b_members b)" "m' \<in> set (b_members c)"
      "bm_request_id m = r" "bm_request_id m' = r"
      using r by auto
    with member_batch [OF ok assms(2) m(1)] member_batch [OF ok assms(3) m(2)] show ?thesis
      by (intro ids) simp
  qed
  moreover have "batch_terminal (b_state b) \<or> batch_terminal (b_state c)"
    if "b \<noteq> c" "b_model b = b_model c"
    using that b c ids by (auto simp: batch_ok_def)
  ultimately show ?thesis
    using b engine_okD(6) [OF ok]
    by (auto simp: batch_ok_def slots_ok_def usual_state_def list_all_iff)
qed

theorem engine_reachable_bounds_witness:
  "\<exists>b. b \<in> set (list_batches sample_filling) \<and> active_member_count b = 1 \<and>
     int (active_member_count b) \<le> bac_max_batch_size (eg_config sample_filling)"
proof -
  have "list_batches sample_filling \<noteq> [] \<and> active_member_count (hd (list_batches sample_filling)) = 1"
    by (code_simp)
  then show ?thesis
    using engine_reachable_bounds [OF sample_filling_reachable, of "hd (list_batches sample_filling)"
        "hd (list_batches sample_filling)"] by (intro exI [of _ "hd (list_batches sample_filling)"]) simp
qed

section \<open>Placing\<close>

text \<open>C18: Offering a selected request to a reachable engine either leaves the engine as it was
  and does not answer with a placement, or adds the request: it is then an active member, in
  the slot of the answer, of an open or newly activated batch for its model, with its
  assignment stored, one more request is active, and every other batch is untouched. The
  answer is the placement, unless the injection point for invalid assignments is on: then it
  is a rejection although the request has been added.\<close>

theorem placement_outcome:
  assumes "engine_reachable s" and "get_batch fresh s = None"
    and "place_selected now fresh item s = (r, t)"
  shows "(same_engine s t \<and> (case r of Inr (Placed _) \<Rightarrow> False | _ \<Rightarrow> True)) \<or>
    (\<exists>i slot reason. placement_recorded item i slot t \<and>
       global_active_count t = Suc (global_active_count s) \<and>
       (\<forall>j. j \<noteq> i \<longrightarrow> get_batch j t = get_batch j s) \<and>
       r = Inr (if should_inject (eg_injector s) FP_SCHEDULER_INVALID_BATCH_ASSIGNMENT
                  (Some (qi_request_id item))
            then reject_item item ''invalid_batch_assignment'' (Some i)
            else Placed \<lparr>bp_request_id = qi_request_id item, bp_batch_id = i,
                   bp_assignment = assignment_for item slot, bp_decision_reason = reason,
                   bp_correlation_id = item_correlation item\<rparr>))"
proof -
  have "dict_get (eg_batches s) fresh = None" using assms(2) by (simp add: get_batch_def)
  from place_selected_outcome [OF reachable_ok [OF assms(1)] this, of now item]
  consider "declined s (r, t)" | "took fresh item s (r, t)" by (auto simp: assms(3))
  then show ?thesis
  proof cases
    case 1
    then show ?thesis by (auto simp: declined_def split: sum.splits placement.splits)
  next
    case 2
    then show ?thesis unfolding took_def prod.case placed_answer_def by blast
  qed
qed

theorem placement_outcome_witness:
  "\<exists>t. snd (place_selected 5 ''c'' (sample_queue_item ''z'') sample_filling) = t \<and>
     global_active_count t = 2"
proof -
  have fresh: "get_batch ''c'' sample_filling = None" by code_simp
  have "\<not> (case fst (place_selected 5 ''c'' (sample_queue_item ''z'') sample_filling) of
      Inr (Placed _) \<Rightarrow> False | _ \<Rightarrow> True)" "global_active_count sample_filling = 1"
    by code_simp+
  then show ?thesis
    using placement_outcome [OF sample_filling_reachable fresh surjective_pairing,
        of 5 "sample_queue_item ''z''"] by auto
qed

lemma took_placed: "took fresh item s (r, t) \<Longrightarrow> eg_injector s = None \<Longrightarrow> \<exists>p. r = Inr (Placed p)"
  by (auto simp: took_def placed_answer_def)

lemma declined_not_placed: "declined s (r, t) \<Longrightarrow> r \<noteq> Inr (Placed p)"
  by (auto simp: declined_def)

text \<open>C6: With failure injection off, a reachable engine places a request exactly when the
  request was never placed before, fewer than \<open>max_active_requests\<close> requests are active, and
  the open batch of its model, if there is one, has room and, while it is filling, has not
  passed its admission window. Placement thus never fails for another reason, and a full or
  late batch of one model never blocks another model.\<close>

theorem placement_accepted_iff:
  assumes "engine_reachable s" and "get_batch fresh s = None" and "eg_injector s = None"
  shows "(\<exists>p. fst (place_selected now fresh item s) = Inr (Placed p)) \<longleftrightarrow>
    dict_get (eg_request_to_batch s) (qi_request_id item) = None \<and>
    int (global_active_count s) < bac_max_active_requests (eg_config s) \<and>
    (case get_active_batch (item_model item) s of
       None \<Rightarrow> True
     | Some b \<Rightarrow> int (active_member_count b) < bac_max_batch_size (eg_config s) \<and>
         (b_state b = BS_FILLING \<longrightarrow> now \<le> bx_admission_window_end (b_context b)))"
proof -
  have ok: "engine_ok s" using assms(1) by (rule reachable_ok)
  have fresh: "dict_get (eg_batches s) fresh = None" using assms(2) by (simp add: get_batch_def)
  have "if placeable item now s then took fresh item s (place_selected now fresh item s)
      else declined s (place_selected now fresh item s)"
  proof (cases "dict_get (eg_request_to_batch s) (qi_request_id item)")
    case None
    with place_with_open_batch [OF ok _ None, of _ now fresh] place_without_batch [OF ok fresh _ None, of now]
    show ?thesis
      by (cases "dict_get (eg_active_by_model s) (item_model item)") (auto simp: assms(3))
  next
    case (Some i)
    then have "declined s (place_selected now fresh item s)" "\<not> placeable item now s"
      by (auto simp: place_selected_def declined_def reject_item_def assms(3) placeable_def)
    then show ?thesis by simp
  qed
  then have "placeable item now s \<longleftrightarrow> (\<exists>p. fst (place_selected now fresh item s) = Inr (Placed p))"
    using took_placed [OF _ assms(3)] declined_not_placed
    by (cases "place_selected now fresh item s") (auto split: if_splits)
  then show ?thesis by (simp add: placeable_def)
qed

theorem placement_accepted_iff_witness:
  "(\<exists>p. fst (place_selected 5 ''c'' (sample_queue_item ''z'') sample_filling) = Inr (Placed p)) \<and>
   \<not> (\<exists>p. fst (place_selected 20000 ''c'' (sample_queue_item ''z'') sample_filling) = Inr (Placed p))"
proof -
  have s: "get_batch ''c'' sample_filling = None" by code_simp
  have i: "eg_injector sample_filling = None" by code_simp
  have q: "dict_get (eg_request_to_batch sample_filling) (qi_request_id (sample_queue_item ''z'')) = None"
    "int (global_active_count sample_filling) < bac_max_active_requests (eg_config sample_filling)"
    by code_simp+
  have w: "(case get_active_batch (item_model (sample_queue_item ''z'')) sample_filling of None \<Rightarrow> True
     | Some b \<Rightarrow> int (active_member_count b) < bac_max_batch_size (eg_config sample_filling) \<and>
         (b_state b = BS_FILLING \<longrightarrow> 5 \<le> bx_admission_window_end (b_context b)))"
    by code_simp
  have n: "\<not> (case get_active_batch (item_model (sample_queue_item ''z'')) sample_filling of None \<Rightarrow> True
     | Some b \<Rightarrow> int (active_member_count b) < bac_max_batch_size (eg_config sample_filling) \<and>
         (b_state b = BS_FILLING \<longrightarrow> 20000 \<le> bx_admission_window_end (b_context b)))"
    by code_simp
  show ?thesis
    using placement_accepted_iff [OF sample_filling_reachable s i, of _ "sample_queue_item ''z''"] q w n
    by blast
qed

section \<open>Retiring\<close>

lemma dict_set_member:
  assumes "wf_dict d" and "list_all (\<lambda>(k, x). bm_request_id x = k) d" and "dict_get d r = Some m"
  shows "dict_values (dict_set r (m\<lparr>bm_status := st\<rparr>) d) =
    map (\<lambda>x. if bm_request_id x = r then x\<lparr>bm_status := st\<rparr> else x) (dict_values d)"
  using assms
proof (induction d)
  case (Cons p d)
  show ?case
  proof (cases "fst p = r")
    case True
    with Cons.prems have "p = (r, m)" "r \<notin> set (dict_keys d)"
      by (auto simp: wf_dict_def prod_eq_iff)
    moreover have "map (\<lambda>x. if bm_request_id x = r then x\<lparr>bm_status := st\<rparr> else x) (dict_values d) =
        dict_values d"
      using Cons.prems(2) calculation(2) by (intro map_idI) (force simp: list_all_iff image_iff)
    ultimately show ?thesis using Cons.prems(2) by simp
  qed (use Cons in \<open>auto simp: wf_dict_def\<close>)
qed simp

text \<open>C20: Retiring a request (with any status but active) in a reachable engine is an answered
  no-op when the request was never placed. Otherwise it always succeeds, whatever the member's
  status was: exactly that member gets the new status, the batch fails when the member failed
  and the batch was open, completes when it was active and no active member is left, and keeps
  its state otherwise (a filling batch does not complete); other batches and the request's
  entry in the batch index stay, so the request can never be placed again.\<close>

theorem retire_outcome:
  assumes "engine_reachable s" and "st \<noteq> MS_ACTIVE"
    and "retire_request now fresh r st reason s = (res, t)"
  shows "case dict_get (eg_request_to_batch s) r of
      None \<Rightarrow> res = Inr (not_retired fresh r ''request_not_in_batch'') \<and> t = s
    | Some i \<Rightarrow> \<exists>b b'. get_batch i s = Some b \<and> get_batch i t = Some b' \<and>
        res = Inr (retired i r reason (b_state b) (b_state b')) \<and>
        b_members b' = map (\<lambda>m. if bm_request_id m = r then m\<lparr>bm_status := st\<rparr> else m) (b_members b) \<and>
        b_state b' =
          (if st = MS_FAILED then (if batch_terminal (b_state b) then b_state b else BS_FAILED)
           else if b_state b = BS_ACTIVE \<and> active_members b' = [] then BS_COMPLETED else b_state b) \<and>
        (\<forall>j. j \<noteq> i \<longrightarrow> get_batch j t = get_batch j s) \<and>
        eg_request_to_batch t = eg_request_to_batch s"
proof -
  have ok: "engine_ok s" using assms(1) by (rule reachable_ok)
  show ?thesis
    using ok assms(2)
  proof (rule retire_request_cases [of s st r now fresh reason], goal_cases)
    case 1
    with assms(3) show ?case by simp
  next
    case (2 i b d m u)
    let ?d = "dict_set r (m\<lparr>bm_status := st\<rparr>) d"
    have b': "get_batch i u = Some (closed now st reason ?d (b\<lparr>b_members := dict_values ?d\<rparr>))"
      using 2(7) by (simp add: get_batch_def)
    obtain d' where "dict_get (eg_sets s) i = Some d'" "set_ok s i b d'"
      using engine_okD(7) [OF ok 2(2)] by (rule batch_okD)
    then have set: "set_ok s i b d" using 2(3) by simp
    then have "dict_values ?d = map (\<lambda>m. if bm_request_id m = r then m\<lparr>bm_status := st\<rparr> else m) (b_members b)"
      using dict_set_member [of d r m st] 2(4) by (auto simp: set_ok_def list_all_iff)
    moreover have "active_count ?d = 0 \<longleftrightarrow>
        active_members (closed now st reason ?d (b\<lparr>b_members := dict_values ?d\<rparr>)) = []"
      by (simp add: active_count_def list_active_requests_def active_members_def filter_map)
    ultimately show ?case
      using assms(3) 2 b' by (auto simp: get_batch_def closes_def)
  qed
qed

theorem retire_outcome_witness:
  "\<exists>b. get_batch ''b'' (snd (retire_request 5 ''f'' ''a'' MS_COMPLETED ''x'' sample_filling)) = Some b \<and>
     b_state b = BS_FILLING \<and> map bm_status (b_members b) = [MS_COMPLETED]"
proof -
  have i: "dict_get (eg_request_to_batch sample_filling) ''a'' = Some ''b''" by code_simp
  have b: "map_option b_state (get_batch ''b'' sample_filling) = Some BS_FILLING"
    "map_option (\<lambda>b. map bm_request_id (b_members b)) (get_batch ''b'' sample_filling) = Some [''a'']"
    by code_simp+
  have st: "MS_COMPLETED \<noteq> MS_ACTIVE" by simp
  show ?thesis
    using retire_outcome [OF sample_filling_reachable st surjective_pairing, of 5 "''f''" "''a''" "''x''"] i b
    by (auto simp: map_eq_Cons_conv)
qed

section \<open>A batch that waits for ever\<close>

definition batch_ids :: "batch \<Rightarrow> uuid list" where
  "batch_ids b = map bm_request_id (b_members b)"

definition late_filling :: "uuid \<Rightarrow> batch \<Rightarrow> engine_state \<Rightarrow> bool" where
  "late_filling i b s \<longleftrightarrow> engine_ok s \<and>
     (case get_batch i s of None \<Rightarrow> False
      | Some c \<Rightarrow> b_context c = b_context b \<and> batch_ids c = batch_ids b)"

lemma late_filling_get:
  "late_filling i b s \<longleftrightarrow> engine_ok s \<and>
     (\<exists>c. get_batch i s = Some c \<and> b_context c = b_context b \<and> batch_ids c = batch_ids b)"
  by (auto simp: late_filling_def split: option.split)

lemma late_filling_same: "late_filling i b s \<Longrightarrow> get_batch i t = get_batch i s \<Longrightarrow> engine_ok t \<Longrightarrow> late_filling i b t"
  by (simp add: late_filling_def)

lemma late_not_placeable:
  assumes "late_filling i b s" and "b_state b = BS_FILLING" and "item_model item = b_model b"
    and "bx_admission_window_end (b_context b) < now"
  shows "\<not> placeable item now s"
proof -
  obtain c where c: "get_batch i s = Some c" "b_context c = b_context b" and ok: "engine_ok s"
    using assms(1) by (auto simp: late_filling_get)
  have "batch_ok s i c" using engine_okD(7) [OF ok] c(1) by (simp add: get_batch_def)
  then have "get_active_batch (item_model item) s = Some c"
    using c assms(2,3) by (auto simp: batch_ok_def batch_terminal_def get_active_batch_def get_batch_def)
  then show ?thesis using c assms(2,4) by (simp add: placeable_def)
qed

lemma late_place:
  assumes late: "late_filling i b s" and b: "b_state b = BS_FILLING"
    "bx_admission_window_end (b_context b) < now" and fresh: "dict_get (eg_batches s) fresh = None"
  shows "late_filling i b (snd (place_selected now fresh item s))"
proof -
  have ok: "engine_ok s" using late by (simp add: late_filling_def)
  obtain r t where rt: "place_selected now fresh item s = (r, t)" by fastforce
  from place_selected_outcome [OF ok fresh, of now item] consider "same_engine s t"
    | "took fresh item s (r, t)" "placeable item now s"
    by (auto simp: declined_def rt)
  then show ?thesis
  proof cases
    case 1
    then have "get_batch i t = get_batch i s"
      by (simp add: same_engine_def engine_view_def get_batch_def)
    then show ?thesis using late_filling_same [OF late] same_engine_ok [OF 1 ok] by (simp add: rt)
  next
    case 2
    then have "item_model item \<noteq> b_model b"
      using late_not_placeable [OF late b(1) _ b(2)] by blast
    moreover obtain c where "get_batch i s = Some c" "b_context c = b_context b"
      using late by (auto simp: late_filling_get)
    moreover obtain j where j: "engine_ok t" "\<forall>k. k \<noteq> j \<longrightarrow> get_batch k t = get_batch k s"
      "case get_batch j s of None \<Rightarrow> j = fresh | Some c \<Rightarrow> b_model c = item_model item"
      using 2(1) by (auto simp: took_def)
    ultimately have "j \<noteq> i" by auto
    with j(2) have "get_batch i t = get_batch i s" by simp
    then show ?thesis using late_filling_same [OF late] j(1) by (simp add: rt)
  qed
qed

lemma late_retire:
  assumes late: "late_filling i b s" and b: "b_state b = BS_FILLING" and "st \<noteq> MS_ACTIVE"
    and keep: "st = MS_FAILED \<Longrightarrow> r \<notin> set (batch_ids b)"
  shows "late_filling i b (snd (retire_request now fresh r st reason s))"
proof -
  have ok: "engine_ok s" using late by (simp add: late_filling_def)
  show ?thesis
    using ok assms(3)
  proof (rule retire_request_cases [of s st r now fresh reason], goal_cases)
    case 1
    then show ?case using late by simp
  next
    case (2 j c d m u)
    let ?d = "dict_set r (m\<lparr>bm_status := st\<rparr>) d"
    show ?case
    proof (cases "j = i")
      case False
      then show ?thesis using 2(5-7) late_filling_same [OF late, of u] by (simp add: get_batch_def)
    next
      case True
      then have c: "b_context c = b_context b" "batch_ids c = batch_ids b"
        using late 2(2) by (auto simp: late_filling_get get_batch_def)
      obtain d' where "dict_get (eg_sets s) j = Some d'" "set_ok s j c d'"
        using engine_okD(7) [OF ok 2(2)] by (rule batch_okD)
      then have set: "set_ok s j c d" using 2(3) by simp
      then have mem: "r \<in> set (batch_ids c)" and vals: "dict_values ?d =
          map (\<lambda>m. if bm_request_id m = r then m\<lparr>bm_status := st\<rparr> else m) (b_members c)"
        using dict_set_member [of d r m st] 2(4)
        by (force simp: set_ok_def list_all_iff batch_ids_def dest: map_of_SomeD)+
      have "st \<noteq> MS_FAILED" using keep mem c by auto
      then have "closed now st reason ?d (c\<lparr>b_members := dict_values ?d\<rparr>) = c\<lparr>b_members := dict_values ?d\<rparr>"
        using c(1) b by (simp add: closed_def closes_def)
      moreover have "batch_ids (c\<lparr>b_members := dict_values ?d\<rparr>) = batch_ids c"
        by (simp add: batch_ids_def vals)
      ultimately show ?thesis
        using 2(5-7) True c by (simp add: late_filling_get get_batch_def)
    qed
  qed
qed

fun keeps_batch :: "datetime \<Rightarrow> uuid list \<Rightarrow> engine_op \<Rightarrow> bool" where
  "keeps_batch t0 rs (Fail now _ r _) = (t0 < now \<and> r \<notin> set rs)"
| "keeps_batch t0 rs a = (t0 < op_time a)"

lemma late_step:
  assumes late: "late_filling i b s" and b: "b_state b = BS_FILLING"
    and a: "keeps_batch (bx_admission_window_end (b_context b)) (batch_ids b) a" "id_unused a s"
  shows "late_filling i b (perform a s)"
proof (cases a)
  case (Place now fresh item)
  with late_place [OF late b, of now fresh item] a show ?thesis by simp
next
  case (Replace now fresh r item)
  let ?u = "snd (complete_request_in_batch now fresh r s)"
  have ok: "engine_ok s" using late by (simp add: late_filling_def)
  have u: "late_filling i b ?u" "dict_get (eg_batches ?u) fresh = None"
    using late_retire [OF late b, of MS_COMPLETED r now fresh] retire_batch_ids [OF ok] a(2) Replace
    by (simp_all add: complete_request_in_batch_def)
  with Replace late_place [OF u(1) b _ u(2), of now item] a(1) show ?thesis
    by (simp add: replace_request_run Let_def split: sum.split)
qed (use late_retire [OF late b, of MS_COMPLETED] late_retire [OF late b, of MS_FAILED]
    late_retire [OF late b, of MS_CANCELLED] a in \<open>simp_all add: complete_request_in_batch_def
    fail_request_in_batch_def cancel_request_in_batch_def\<close>)

lemma late_run:
  assumes "engine_run (keeps_batch (bx_admission_window_end (b_context b)) (batch_ids b)) s t"
    and "late_filling i b s" and "b_state b = BS_FILLING"
  shows "late_filling i b t"
  using assms by (induction rule: engine_run.induct) (auto intro: late_step)

text \<open>C7: A batch that is still filling when its admission window has passed stays in that
  state over every run of placements, completions, cancellations and replacements, however
  long: only the failure of one of its own members closes it. All the while every request for
  its model is refused and changes nothing.\<close>

theorem late_batch_blocks_model:
  assumes "engine_reachable s" and "get_batch i s = Some b" and "b_state b = BS_FILLING"
    and "engine_run (keeps_batch (bx_admission_window_end (b_context b)) (batch_ids b)) s t"
    and "bx_admission_window_end (b_context b) < now" and "item_model item = b_model b"
    and "get_batch fresh t = None"
  shows "map_option b_context (get_batch i t) = Some (b_context b) \<and>
    same_engine t (snd (place_selected now fresh item t)) \<and>
    (case fst (place_selected now fresh item t) of Inr (Placed _) \<Rightarrow> False | _ \<Rightarrow> True)"
proof -
  have "late_filling i b s" using assms(1,2) by (simp add: late_filling_get reachable_ok)
  then have t: "late_filling i b t" using late_run assms(3,4) by blast
  then have "\<not> placeable item now t" using late_not_placeable assms(3,5,6) by blast
  moreover have "engine_ok t" using t by (simp add: late_filling_def)
  ultimately have "declined t (place_selected now fresh item t)"
    using place_selected_outcome [of t fresh now item] assms(7) by (auto simp: get_batch_def)
  then show ?thesis
    using t by (auto simp: late_filling_get declined_def split: sum.splits placement.splits)
qed

theorem late_batch_blocks_model_witness:
  "\<exists>b. get_batch ''b'' sample_filling = Some b \<and>
     map_option b_state (get_batch ''b'' (perform (Complete 20000 ''f'' ''a'') sample_filling)) = Some BS_FILLING \<and>
     same_engine (perform (Complete 20000 ''f'' ''a'') sample_filling)
       (snd (place_selected 30000 ''c'' (sample_queue_item ''z'')
          (perform (Complete 20000 ''f'' ''a'') sample_filling)))"
proof -
  let ?t = "perform (Complete 20000 ''f'' ''a'') sample_filling"
  have st: "map_option b_state (get_batch ''b'' sample_filling) = Some BS_FILLING"
    "map_option (\<lambda>b. bx_admission_window_end (b_context b)) (get_batch ''b'' sample_filling) = Some 10000"
    "map_option b_model (get_batch ''b'' sample_filling) = Some (item_model (sample_queue_item ''z''))"
    "get_batch ''c'' ?t = None"
    by code_simp+
  from st(1) obtain b where b: "get_batch ''b'' sample_filling = Some b" "b_state b = BS_FILLING" by auto
  have w: "bx_admission_window_end (b_context b) = 10000" "item_model (sample_queue_item ''z'') = b_model b"
    using st b(1) by simp_all
  have run: "engine_run (keeps_batch (bx_admission_window_end (b_context b)) (batch_ids b)) sample_filling ?t"
    by (rule engine_run.run_step [OF engine_run.run_nil]) (simp_all add: w)
  show ?thesis
    using late_batch_blocks_model [OF sample_filling_reachable b run _ w(2) st(4), of 30000] b w
    by auto
qed

end
