(* ===== verification/Dispatch_Properties.thy ===== *)
theory Dispatch_Properties
  imports Dispatch Routing_Properties Batch_Properties
begin

text \<open>
  Dispatch with the parts the platform plugs into it: the routing engine over the adapter's
  registry, and the adapter behind its embedded client. The loop returns, a batch is accepted
  at most once, and one healthy accepting backend that the policy allows is enough.
\<close>

section \<open>The router and the adapter (stack.py, embedded_adapter.py, routing/provider.py)\<close>

text \<open>\<open>dw_ids n\<close> is what the \<open>n\<close>-th call of \<open>new_route_id\<close> returns.\<close>

record dispatch_world =
  dw_models :: model_registry
  dw_adapter :: adapter_state
  dw_route_observers :: observers
  dw_ids :: "nat \<Rightarrow> uuid"
  dw_drawn :: nat

definition engine_route :: "datetime \<Rightarrow> dispatch_world router" where
  "engine_route now request_id model_id excluded w =
     (case route_request now (dw_ids w (dw_drawn w)) (dw_models w)
             (list_routable_snapshots (dw_adapter w)) request_id model_id excluded
             (dw_route_observers w) of
        (res, obs) \<Rightarrow> (res, w\<lparr>dw_route_observers := obs, dw_drawn := Suc (dw_drawn w)\<rparr>))"

text \<open>
  \<open>envs b i\<close> and \<open>dur b i\<close> are what backend \<open>i\<close> sees, and how long it takes, when batch \<open>b\<close>
  is submitted to it; one round submits a batch to a backend at most once.
\<close>

definition adapter_client_submit ::
  "(uuid \<Rightarrow> string \<Rightarrow> call_env) \<Rightarrow> (uuid \<Rightarrow> string \<Rightarrow> rat) \<Rightarrow> dispatch_world submitter" where
  "adapter_client_submit envs dur d i w =
     (case adapter_submit_batch (envs (db_batch_id d) i) (dur (db_batch_id d) i) d (Some i)
             (dw_adapter w) of
        (Inl e, a) \<Rightarrow> (Inl (adapter_exn_message e), w\<lparr>dw_adapter := a\<rparr>)
      | (Inr r, a) \<Rightarrow>
          (Inr \<lparr>as_batch_id = su_batch_id r, as_backend_id = su_backend_id r,
                as_accepted = su_accepted r, as_reason = su_reason r\<rparr>, w\<lparr>dw_adapter := a\<rparr>))"

text \<open>The backends of the embedded stack (\<open>runtime/routing_setup.py\<close>).\<close>

definition register_routing_backends :: "datetime \<Rightarrow> unit adapt" where
  "register_routing_backends now =
     then_op (register_backend now
        (Mock (new_mock ''mock'' [''demo'', ''example-model'', ''demo-fallback''] 32 False))
        BK_STARTING (Some [''demo'', ''example-model'', ''demo-fallback'']) None None None)
     (then_op (register_backend now (Mock (new_mock ''mock-fast'' [''demo-fast''] 32 False))
        BK_STARTING (Some [''demo-fast'']) (Some LT_FAST) None None)
     (then_op (register_backend now (Mock (new_mock ''mock-quality'' [''demo-quality''] 32 False))
        BK_STARTING (Some [''demo-quality'']) None (Some QT_HIGH) None)
     (register_backend now (Mock (new_mock ''mock-primary'' [''demo-fallback''] 32 True))
        BK_STARTING (Some [''demo-fallback'']) None None None)))"

section \<open>The registry during a submission\<close>

definition registered_ids :: "adapter_state \<Rightarrow> string list" where
  "registered_ids s = map (\<lambda>e. backend_id (rb_backend e)) (dict_values (ad_backends s))"

lemma map_values_dict_set:
  "dict_get d i = Some e \<Longrightarrow> f v = f e \<Longrightarrow> map f (dict_values (dict_set i v d)) = map f (dict_values d)"
  by (induction d) (auto split: if_splits)

text \<open>An operation that only tells the observers: it returns, and the registry is as before.\<close>

definition silent :: "unit adapt \<Rightarrow> bool" where
  "silent m \<longleftrightarrow> (\<forall>s. \<exists>t. m s = (Inr (), t) \<and> ad_backends t = ad_backends s)"

named_theorems silent_intros \<open>operations that only tell the observers\<close>

lemma silent_return [silent_intros]: "silent (return_op ())"
  by (simp add: silent_def op_defs)

lemma silentE:
  assumes "silent m"
  obtains t where "m s = (Inr (), t)" and "ad_backends t = ad_backends s"
  using assms by (auto simp: silent_def)

lemma after_silent:
  assumes "silent m"
  obtains t where "ad_backends t = ad_backends s" and "then_op m n s = n t"
  using assms by (rule silentE [of m s]) (simp add: then_op_def bind_op_def)

lemma silent_then [silent_intros]:
  assumes "silent m" and "silent n"
  shows "silent (then_op m n)"
  unfolding silent_def
proof
  fix s
  obtain t where t: "ad_backends t = ad_backends s" "then_op m n s = n t"
    using assms(1) by (rule after_silent)
  obtain u where "n t = (Inr (), u)" "ad_backends u = ad_backends t"
    using assms(2) by (rule silentE)
  with t show "\<exists>u. then_op m n s = (Inr (), u) \<and> ad_backends u = ad_backends s" by simp
qed

lemma silent_iter [silent_intros]: "(\<And>x. silent (f x)) \<Longrightarrow> silent (iter_op f xs)"
  by (induction xs) (auto intro: silent_intros)

lemma silent_emit [silent_intros]: "silent (emit_backend_op now ev i b r reason)"
  by (simp add: silent_def emit_backend_op_def Let_def op_defs)

lemma silent_metrics [silent_intros]: "silent (backend_metrics f)"
  by (simp add: silent_def backend_metrics_def op_defs)

lemma silent_requests [silent_intros]: "silent (emit_for_requests now ev i batch reason)"
  unfolding emit_for_requests_def by (intro silent_intros)

lemma silent_results [silent_intros]:
  "silent (accepted_result now dur i batch res)" "silent (rejected_result now dur i batch res)"
  unfolding accepted_result_def rejected_result_def by (intro silent_intros)+

lemma silent_end:
  assumes "silent m"
  shows "fst (then_op m (return_op a) s) = Inr a"
    and "ad_backends (snd (then_op m (return_op a) s)) = ad_backends s"
  by (rule after_silent [OF assms, of s "return_op a"]; simp add: op_defs)+

lemma submit_error_quiet:
  "\<exists>x' t. raise_submit_error dur i x s = (Inl x', t) \<and> ad_backends t = ad_backends s"
  by (cases x) (simp_all add: raise_submit_error_def backend_metrics_def op_defs)

text \<open>
  A submission to an entry that is neither unhealthy nor stopped: the registry afterwards is
  the one in which only that entry's backend has changed, and the answer is the backend's.
\<close>

lemma adapter_submit_effect:
  assumes i: "str_or backend (ad_default_backend_id s) = i"
    and e: "get_backend i s = Some e" and up: "rb_state e \<notin> {BK_UNHEALTHY, BK_STOPPED}"
  shows "ad_backends (snd (adapter_submit_batch env dur d backend s)) =
      dict_set i (e\<lparr>rb_backend := snd (backend_submit_batch env d (rb_backend e))\<rparr>) (ad_backends s)"
    and "fst (backend_submit_batch env d (rb_backend e)) = Inr r \<Longrightarrow>
      fst (adapter_submit_batch env dur d backend s) = Inr r"
    and "fst (adapter_submit_batch env dur d backend s) = Inr r \<Longrightarrow>
      fst (backend_submit_batch env d (rb_backend e)) = Inr r"
proof -
  let ?call = "\<lambda>t. catch_op (call_backend i (backend_submit_batch env d) e) (raise_submit_error dur i) t"
  let ?tell = "\<lambda>res. if su_accepted res then accepted_result (ce_now env) dur i d res
                      else rejected_result (ce_now env) dur i d res"
  let ?before = "then_op (emit_backend_op (ce_now env) BV_SELECTED i (Some (db_batch_id d)) None
        ''explicit_backend_id'')
     (then_op (emit_backend_op (ce_now env) BV_SUBMITTED i (Some (db_batch_id d)) None ''submit_batch'')
     (then_op (emit_for_requests (ce_now env) BV_SUBMITTED i d ''submit_batch'')
     (backend_metrics (record_backend_submission i))))"
  have gets: "bind_op (gets_op f) k s = k (f s) s" for f :: "adapter_state \<Rightarrow> 'b" and k :: "'b \<Rightarrow> 'c adapt"
    by (simp add: bind_op_def gets_op_def)
  let ?main = "bind_op ?call (\<lambda>res. then_op (?tell res) (return_op res))"
  have "silent ?before" by (intro silent_intros)
  then obtain t where t: "ad_backends t = ad_backends s" and "then_op ?before ?main s = ?main t"
    by (rule after_silent)
  moreover have "adapter_submit_batch env dur d backend s = then_op ?before ?main s"
    unfolding adapter_submit_batch_def gets i then_assoc using e up by simp
  ultimately have run: "adapter_submit_batch env dur d backend s = ?main t" by simp
  have tell: "silent (?tell res)" for res by (auto intro: silent_intros)
  obtain res b where sub: "backend_submit_batch env d (rb_backend e) = (res, b)" by fastforce
  have w: "ad_backends (write_backend i b t) = dict_set i (e\<lparr>rb_backend := b\<rparr>) (ad_backends s)"
    using e t by (simp add: write_backend_def put_backend_def get_backend_def)
  have all: "ad_backends (snd (adapter_submit_batch env dur d backend s)) =
      dict_set i (e\<lparr>rb_backend := b\<rparr>) (ad_backends s) \<and>
    (case res of Inl x \<Rightarrow> \<exists>x'. fst (adapter_submit_batch env dur d backend s) = Inl x'
     | Inr r \<Rightarrow> fst (adapter_submit_batch env dur d backend s) = Inr r)"
  proof (cases res)
    case (Inl x)
    obtain x' u where "raise_submit_error dur i x (write_backend i b t) =
        (Inl x' :: adapter_exn + batch_submit_result, u)"
      "ad_backends u = ad_backends (write_backend i b t)"
      using submit_error_quiet [of dur i x "write_backend i b t"] by blast
    then show ?thesis
      by (simp add: run w sub Inl bind_op_def catch_op_def call_backend_def)
  next
    case (Inr r)
    then have "adapter_submit_batch env dur d backend s =
        then_op (?tell r) (return_op r) (write_backend i b t)"
      by (simp only: run) (simp add: sub bind_op_def catch_op_def call_backend_def)
    then show ?thesis
      using silent_end [OF tell [of r], of r "write_backend i b t"] by (simp add: w Inr)
  qed
  with sub show "ad_backends (snd (adapter_submit_batch env dur d backend s)) =
      dict_set i (e\<lparr>rb_backend := snd (backend_submit_batch env d (rb_backend e))\<rparr>) (ad_backends s)"
    by simp
  show "fst (backend_submit_batch env d (rb_backend e)) = Inr r \<Longrightarrow>
      fst (adapter_submit_batch env dur d backend s) = Inr r"
    using all sub by simp
  show "fst (adapter_submit_batch env dur d backend s) = Inr r \<Longrightarrow>
      fst (backend_submit_batch env d (rb_backend e)) = Inr r"
    using all sub by (cases res) auto
qed

lemma adapter_submit_refused:
  fixes s :: adapter_state and backend :: "string option"
  assumes "\<nexists>e. get_backend (str_or backend (ad_default_backend_id s)) s = Some e \<and>
    rb_state e \<notin> {BK_UNHEALTHY, BK_STOPPED}"
  shows "\<exists>x. adapter_submit_batch env dur d backend s = (Inl x, s)"
  using assms by (auto simp: adapter_submit_batch_def op_defs split: option.split)

lemma adapter_submit_map:
  assumes "\<And>e b. backend_id b = backend_id (rb_backend e) \<Longrightarrow> f (e\<lparr>rb_backend := b\<rparr>) = f e"
  shows "map f (dict_values (ad_backends (snd (adapter_submit_batch env dur d backend s)))) =
    map f (dict_values (ad_backends s))"
proof (cases "\<exists>e. get_backend (str_or backend (ad_default_backend_id s)) s = Some e \<and>
    rb_state e \<notin> {BK_UNHEALTHY, BK_STOPPED}")
  case True
  then obtain e where e: "get_backend (str_or backend (ad_default_backend_id s)) s = Some e"
    "rb_state e \<notin> {BK_UNHEALTHY, BK_STOPPED}" by blast
  then show ?thesis
    using assms by (subst adapter_submit_effect(1) [OF refl e])
      (rule map_values_dict_set, simp_all add: get_backend_def)
next
  case False
  then obtain x where "adapter_submit_batch env dur d backend s = (Inl x, s)"
    using adapter_submit_refused by blast
  then show ?thesis by simp
qed

lemma submit_snapshots:
  "list_routable_snapshots (snd (adapter_submit_batch env dur d backend s)) = list_routable_snapshots s"
  unfolding list_routable_snapshots_def by (rule adapter_submit_map) simp

lemma registered_snapshots: "registered_ids s = map bs_backend_id (list_routable_snapshots s)"
  by (simp add: registered_ids_def list_routable_snapshots_def)

section \<open>One backend that serves is enough\<close>

context dispatch_env
begin

lemma loop_induct:
  assumes "\<And>ex e w. (\<And>j e' w'. j \<notin> set ex \<Longrightarrow> j \<in> set (known w) \<Longrightarrow> known w' = known w \<Longrightarrow>
      Q (j # ex) e' w') \<Longrightarrow> Q ex e w"
  shows "Q ex e w"
proof (induction "left ex w" arbitrary: ex e w rule: less_induct)
  case less
  show ?case by (rule assms, rule less) (rule left_drops)
qed

lemma route_can_retry:
  "can_retry (Some route) r m ex w = (chosen_backend (fst (route r m ex w)) \<noteq> None, snd (route r m ex w))"
  by (simp add: can_retry_def split: prod.split)

lemma route_choice:
  "chosen_backend (fst (route r m ex w)) = Some j \<Longrightarrow>
   choose_backend (Some route) df r m ex e w = (Inr j, snd (route r m ex w))"
  by (auto simp: choose_backend_def split: prod.split)

text \<open>
  \<open>P\<close> holds throughout, and under \<open>P\<close> the router has a choice while \<open>i\<close> is not excluded and
  \<open>i\<close> accepts the batch.
\<close>

lemma loop_accepts:
  assumes route_P: "\<And>ex w. P w \<Longrightarrow> P (snd (route r (b_model b) ex w))"
    and submit_P: "\<And>d j w res w'. P w \<Longrightarrow> submit d j w = (res, w') \<Longrightarrow> j \<in> set (known w) \<Longrightarrow>
        build_dispatch_batch b as j = Some d \<Longrightarrow> (\<forall>a. res = Inr a \<longrightarrow> \<not> as_accepted a) \<Longrightarrow> P w' \<and> j \<noteq> i"
    and offers: "\<And>ex w. P w \<Longrightarrow> i \<notin> set ex \<Longrightarrow> chosen_backend (fst (route r (b_model b) ex w)) \<noteq> None"
    and builds: "\<And>j. build_dispatch_batch b as j \<noteq> None"
  shows "P w \<Longrightarrow> i \<notin> set ex \<Longrightarrow>
    \<exists>res w'. submit_loop (Some route) submit df r b as ex e w = Some (Some res, w') \<and> bd_accepted res"
proof (induction ex e w rule: loop_induct)
  case (1 ex e w)
  obtain j where j: "chosen_backend (fst (route r (b_model b) ex w)) = Some j"
    using offers [OF 1(2,3)] by blast
  let ?w1 = "snd (route r (b_model b) ex w)"
  have P1: "P ?w1" and k1: "known ?w1 = known w" using route_P [OF 1(2)] route_known by auto
  obtain d where d: "build_dispatch_batch b as j = Some d" using builds by blast
  obtain res w2 where sub: "submit d j ?w1 = (res, w2)" by fastforce
  have jk: "j \<notin> set ex" "j \<in> set (known w)" using route_sound [OF j] by auto
  have k2: "known w2 = known w" using submit_known [of d j ?w1] by (simp add: sub k1)
  have fail: "P w2 \<and> j \<noteq> i" if "\<forall>a. res = Inr a \<longrightarrow> \<not> as_accepted a"
    using submit_P [OF P1 sub] jk d k1 that by simp
  show ?case
  proof (cases res)
    case (Inl x)
    with fail have ne: "P w2" "i \<notin> set (j # ex)" using 1(3) by auto
    let ?w3 = "snd (route r (b_model b) (j # ex) w2)"
    have "\<exists>res w'. submit_loop (Some route) submit df r b as (j # ex) x ?w3 = Some (Some res, w') \<and> bd_accepted res"
      using 1(1) [OF jk, of ?w3 x] route_P [OF ne(1)] ne(2) k2 by (simp add: route_known)
    with Inl offers [OF ne] sub d show ?thesis
      by (subst submit_loop.simps) (simp add: route_choice [OF j] route_can_retry)
  next
    case (Inr a)
    show ?thesis
    proof (cases "as_accepted a")
      case True
      with Inr sub d show ?thesis
        by (subst submit_loop.simps) (simp add: route_choice [OF j] dispatched_def)
    next
      case False
      with fail Inr have ne: "P w2" "i \<notin> set (j # ex)" using 1(3) by auto
      with 1(1) [OF jk, of w2 "as_reason a"] k2 False Inr sub d show ?thesis
        by (subst submit_loop.simps) (simp add: route_choice [OF j])
    qed
  qed
qed

end

section \<open>The platform's router and adapter fulfil the contract\<close>

definition known_backends :: "dispatch_world \<Rightarrow> string list" where
  "known_backends w = map bs_backend_id (list_routable_snapshots (dw_adapter w))"

lemma engine_route_result:
  "fst (engine_route now r m ex w) =
     fst (route_request now (dw_ids w (dw_drawn w)) (dw_models w)
       (list_routable_snapshots (dw_adapter w)) r m ex (dw_route_observers w))"
  by (simp add: engine_route_def split: prod.split)

lemma engine_route_keeps [simp]:
  "dw_adapter (snd (engine_route now r m ex w)) = dw_adapter w"
  "dw_models (snd (engine_route now r m ex w)) = dw_models w"
  by (simp_all add: engine_route_def split: prod.split)

lemma client_submit_world:
  "snd (adapter_client_submit envs dur d i w) =
     w\<lparr>dw_adapter := snd (adapter_submit_batch (envs (db_batch_id d) i) (dur (db_batch_id d) i) d
         (Some i) (dw_adapter w))\<rparr>"
  by (simp add: adapter_client_submit_def split: prod.split sum.split)

lemma client_submit_keeps [simp]:
  "list_routable_snapshots (dw_adapter (snd (adapter_client_submit envs dur d i w))) =
     list_routable_snapshots (dw_adapter w)"
  "dw_models (snd (adapter_client_submit envs dur d i w)) = dw_models w"
  by (simp_all add: client_submit_world submit_snapshots)

lemma engine_route_eligible:
  assumes "chosen_backend (fst (engine_route now r model ex w)) = Some i"
  obtains m b where "get_model model (dw_models w) = Some m"
    and "b \<in> set (eligible m ex (list_routable_snapshots (dw_adapter w)))" and "bs_backend_id b = i"
  using assms select_sound
  by (auto simp: engine_route_result route_request_result split: option.splits) blast

interpretation dispatching: dispatch_env "engine_route now" "adapter_client_submit envs dur"
  known_backends for now envs dur
proof
  fix r m ex w i
  assume "chosen_backend (fst (engine_route now r m ex w)) = Some i"
  then obtain mr b where "b \<in> set (eligible mr ex (list_routable_snapshots (dw_adapter w)))"
    "bs_backend_id b = i" by (rule engine_route_eligible)
  then show "i \<notin> set ex \<and> i \<in> set (known_backends w)"
    by (auto simp: eligible_def backend_usable_def known_backends_def)
qed (simp_all add: known_backends_def)

section \<open>Rounds of dispatch\<close>

text \<open>
  The rounds that the scheduler runs after its cycles, each over the batches and assignments of
  the engine at that time and with the answers the backends give in that round.
\<close>

record round_env =
  rn_now :: datetime
  rn_envs :: "uuid \<Rightarrow> string \<Rightarrow> call_env"
  rn_durations :: "uuid \<Rightarrow> string \<Rightarrow> rat"
  rn_fresh :: uuid

fun dispatch_rounds ::
  "(round_env \<times> engine_state) list \<Rightarrow> dispatch_state \<Rightarrow> dispatch_world \<Rightarrow>
   (batch_dispatch_result list \<times> dispatch_state \<times> dispatch_world) option" where
  "dispatch_rounds [] p w = Some ([], p, w)"
| "dispatch_rounds ((n, eng) # rest) p w =
     Option.bind (submit_pending_batches (Some (engine_route (rn_now n)))
         (adapter_client_submit (rn_envs n) (rn_durations n)) (rn_fresh n) eng p w)
       (\<lambda>(rs, p', w'). map_option (\<lambda>(rs', q). (rs @ rs', q)) (dispatch_rounds rest p' w'))"

definition accepted_ids :: "batch_dispatch_result list \<Rightarrow> string list" where
  "accepted_ids rs = map bd_batch_id (filter bd_accepted rs)"

lemma accepted_ids_simps [simp]:
  "accepted_ids [] = []"
  "accepted_ids (r # rs) = (if bd_accepted r then bd_batch_id r # accepted_ids rs else accepted_ids rs)"
  "accepted_ids (rs @ rs') = accepted_ids rs @ accepted_ids rs'"
  by (simp_all add: accepted_ids_def)

text \<open>What a round adds to the submitted batches is what was accepted in it, each once.\<close>

definition accounted ::
  "dispatch_state \<Rightarrow> batch_dispatch_result list \<Rightarrow> dispatch_state \<Rightarrow> bool" where
  "accounted p rs p' \<longleftrightarrow>
     set (dp_submitted_batch_ids p') = set (dp_submitted_batch_ids p) \<union> set (accepted_ids rs) \<and>
     set (dp_submitted_batch_ids p) \<inter> set (map bd_batch_id rs) = {} \<and> distinct (accepted_ids rs)"

lemma accounted_Nil [simp]: "accounted p [] p"
  by (simp add: accounted_def)

lemma accepted_ids_subset: "set (accepted_ids rs) \<subseteq> set (map bd_batch_id rs)"
  by (auto simp: accepted_ids_def)

lemma accounted_append: "accounted p rs q \<Longrightarrow> accounted q rs' p' \<Longrightarrow> accounted p (rs @ rs') p'"
  using accepted_ids_subset [of rs'] by (auto simp: accounted_def)

lemma loop_result_names_batch:
  assumes "submit_loop router submit df r b as ex e w = Some y"
  shows "case fst y of None \<Rightarrow> True | Some res \<Rightarrow> bd_batch_id res = b_id b"
proof (rule submit_loop.raw_induct [where P = "\<lambda>router submit df r b as ex e w y.
    case fst y of None \<Rightarrow> True | Some res \<Rightarrow> bd_batch_id res = b_id b", OF _ assms])
  fix f router submit df r b as ex e w y
  assume IH: "\<And>router submit df r b as ex e w y. f router submit df r b as ex e w = Some y \<Longrightarrow>
      case fst y of None \<Rightarrow> True | Some res \<Rightarrow> bd_batch_id res = b_id b"
    and body: "(case choose_backend router df r (b_model b) ex e w of
        (Inl e, w1) \<Rightarrow> Some (dispatched b df False e, w1)
      | (Inr i, w1) \<Rightarrow>
          (case build_dispatch_batch b as i of
             None \<Rightarrow> Some (None, w1)
           | Some d \<Rightarrow>
               (case submit d i w1 of
                  (Inl e, w2) \<Rightarrow>
                    (case can_retry router r (b_model b) (i # ex) w2 of
                       (again, w3) \<Rightarrow>
                         if again then f router submit df r b as (i # ex) e w3
                         else Some (dispatched b i False e, w3))
                | (Inr res, w2) \<Rightarrow>
                    if as_accepted res
                    then Some (dispatched b (as_backend_id res) True (as_reason res), w2)
                    else if router \<noteq> None
                    then f router submit df r b as (i # ex) (as_reason res) w2
                    else Some (dispatched b (as_backend_id res) False (as_reason res), w2)))) = Some y"
  from body show "case fst y of None \<Rightarrow> True | Some res \<Rightarrow> bd_batch_id res = b_id b"
    by (fastforce simp: dispatched_def split: prod.split_asm sum.split_asm if_split_asm
        option.split_asm dest: IH)
qed

lemma loop_names_batch:
  "submit_loop router submit df r b as ex e w = Some (Some res, w') \<Longrightarrow> bd_batch_id res = b_id b"
  using loop_result_names_batch by fastforce

lemma submit_batch_accounted:
  assumes "submit_batch router submit fresh b as p w = Some (res, p', w')"
    and "b_id b \<notin> set (dp_submitted_batch_ids p)"
  shows "accounted p (case res of None \<Rightarrow> [] | Some r \<Rightarrow> [r]) p'"
  using assms
  by (auto simp: submit_batch_def accounted_def dest: loop_names_batch split: option.splits if_splits)

lemma submit_batches_accounted:
  "submit_batches router submit fresh eng bs p w = Some (rs, p', w') \<Longrightarrow> accounted p rs p'"
proof (induction bs arbitrary: p w rs)
  case (Cons b bs)
  show ?case
  proof (cases "pending p b")
    case True
    with Cons.prems obtain res q v rs' where b: "submit_batch router submit fresh b
        (get_batch_assignments (b_id b) eng) p w = Some (res, q, v)"
      and bs: "submit_batches router submit fresh eng bs q v = Some (rs', p', w')"
      and rs: "rs = (case res of None \<Rightarrow> [] | Some r \<Rightarrow> [r]) @ rs'"
      by (auto simp: bind_eq_Some_conv split: option.splits)
    from b True have "accounted p (case res of None \<Rightarrow> [] | Some r \<Rightarrow> [r]) q"
      by (auto intro: submit_batch_accounted simp: pending_def)
    with Cons.IH [OF bs] show ?thesis unfolding rs by (blast intro: accounted_append)
  qed (use Cons in simp)
qed simp

lemma rounds_accounted: "dispatch_rounds ns p w = Some (rs, p', w') \<Longrightarrow> accounted p rs p'"
proof (induction ns p w arbitrary: rs rule: dispatch_rounds.induct)
  case (2 n eng rest p w)
  then show ?case
    by (fastforce simp: bind_eq_Some_conv submit_pending_batches_def
        intro: accounted_append dest: submit_batches_accounted)
qed simp

lemma rounds_return: "\<exists>y. dispatch_rounds ns p w = Some y"
proof (induction ns arbitrary: p w)
  case (Cons ne ns)
  obtain n eng where ne: "ne = (n, eng)" by fastforce
  obtain rs p' w' where "submit_pending_batches (Some (engine_route (rn_now n)))
      (adapter_client_submit (rn_envs n) (rn_durations n)) (rn_fresh n) eng p w = Some (rs, p', w')"
    using dispatching.batches_return by (metis prod_cases3 submit_pending_batches_def)
  moreover obtain y where "dispatch_rounds ns p' w' = Some y" using Cons.IH by blast
  ultimately show ?case by (cases y) (simp add: ne)
qed simp

text \<open>C1: Dispatch ends and accepts a batch at most once. Whatever the registered backends answer,
  and however the engine's batches change between the rounds, every round returns (the loop over
  the router and the backends never runs forever). The batches that became submitted are those
  with an accepting result, each of them has one such result only, and a batch that was
  submitted before has no result at all: members that join it later are never dispatched.\<close>

theorem dispatch_at_most_once:
  "\<exists>rs p' w'. dispatch_rounds ns p w = Some (rs, p', w') \<and>
     set (dp_submitted_batch_ids p') = set (dp_submitted_batch_ids p) \<union> set (accepted_ids rs) \<and>
     set (dp_submitted_batch_ids p) \<inter> set (map bd_batch_id rs) = {} \<and> distinct (accepted_ids rs)"
proof -
  obtain rs p' w' where "dispatch_rounds ns p w = Some (rs, p', w')"
    using rounds_return by (metis prod_cases3)
  with rounds_accounted [OF this] show ?thesis by (auto simp: accounted_def)
qed

section \<open>A healthy backend serves\<close>

text \<open>
  Entry \<open>i\<close> is up and its backend, a mock or a vLLM server, accepts this batch when it is called in
  the environment that dispatch calls it in.
\<close>

definition backend_accepts :: "call_env \<Rightarrow> dispatch_batch \<Rightarrow> backend \<Rightarrow> bool" where
  "backend_accepts env d k =
     (case fst (backend_submit_batch env d k) of Inl x \<Rightarrow> False | Inr r \<Rightarrow> su_accepted r)"

definition accepts_batch :: "(uuid \<Rightarrow> string \<Rightarrow> call_env) \<Rightarrow> string \<Rightarrow> dispatch_batch \<Rightarrow> adapter_state \<Rightarrow> bool" where
  "accepts_batch envs i d s =
     (case get_backend i s of
        None \<Rightarrow> False
      | Some e \<Rightarrow> rb_state e \<notin> {BK_UNHEALTHY, BK_STOPPED} \<and>
          backend_accepts (envs (db_batch_id d) i) d (rb_backend e))"

text \<open>When a backend accepts: a mock by its settings, a vLLM server that answers its health check.\<close>

lemma mock_accepts:
  "backend_accepts env d (Mock k) \<longleftrightarrow>
     \<not> mk_reject k \<and> db_model d \<in> set (mk_supported_models k) \<and>
     int (length (db_assignments d)) \<le> mk_max_batch_size k"
  by (auto simp: backend_accepts_def mock_submit_batch_def submit_result_def)

lemma vllm_accepts_streams:
  assumes "db_model d \<in> set (vc_supported_models (vb_config k))"
    and "int (length (db_assignments d)) \<le> vc_max_batch_size (vb_config k)"
    and "list_ex (\<lambda>a. ir_stream (ba_inference_request a)) (db_assignments d)"
    and "vllm_health_check (ce_http env) (ce_now env) k = (Inr h, k1)"
    and "hc_state h = backend_health_value HS_HEALTHY"
  shows "backend_accepts env d (VLLM k)"
  using assms by (simp add: backend_accepts_def vllm_submit_batch_def submit_result_def)

lemma built_batch:
  "build_dispatch_batch b as j = Some d \<Longrightarrow> db_model d = b_model b \<and> db_assignments d = as"
  by (auto simp: build_dispatch_batch_def split: if_splits)

lemma accepting_accepts:
  assumes "accepts_batch envs i d s" and "str_or backend (ad_default_backend_id s) = i"
  shows "\<exists>res. fst (adapter_submit_batch (envs (db_batch_id d) i) dur d backend s) = Inr res \<and> su_accepted res"
proof -
  obtain e where e: "get_backend i s = Some e" "rb_state e \<notin> {BK_UNHEALTHY, BK_STOPPED}"
    and k: "backend_accepts (envs (db_batch_id d) i) d (rb_backend e)"
    using assms(1) by (auto simp: accepts_batch_def split: option.splits)
  obtain res where "fst (backend_submit_batch (envs (db_batch_id d) i) d (rb_backend e)) = Inr res" "su_accepted res"
    using k by (auto simp: backend_accepts_def split: sum.splits)
  with adapter_submit_effect(2) [OF assms(2) e, of "envs (db_batch_id d) i" d res dur] show ?thesis by auto
qed

lemma submit_other_entry:
  assumes "str_or backend (ad_default_backend_id s) \<noteq> i"
  shows "get_backend i (snd (adapter_submit_batch env dur d backend s)) = get_backend i s"
proof (cases "\<exists>e. get_backend (str_or backend (ad_default_backend_id s)) s = Some e \<and>
    rb_state e \<notin> {BK_UNHEALTHY, BK_STOPPED}")
  case True
  then obtain e where "get_backend (str_or backend (ad_default_backend_id s)) s = Some e"
    "rb_state e \<notin> {BK_UNHEALTHY, BK_STOPPED}" by blast
  from adapter_submit_effect(1) [OF refl this] assms show ?thesis
    by (simp add: get_backend_def)
next
  case False
  then obtain x where "adapter_submit_batch env dur d backend s = (Inl x, s)"
    using adapter_submit_refused by blast
  then show ?thesis by simp
qed

text \<open>C2: One backend that accepts is enough. When the model of a batch is registered and its policy
  allows a backend, a mock or a vLLM server, that is up and accepts this batch when it is called,
  submitting the batch ends with its acceptance, whatever the other backends do: those that refuse
  or raise are excluded one after the other, and the router falls back to the next.\<close>

theorem dispatch_served:
  assumes model: "get_model (b_model b) (dw_models w) = Some m"
    and allowed: "list_ex (\<lambda>s. bs_backend_id s = i)
        (eligible m [] (list_routable_snapshots (dw_adapter w)))"
    and batch: "build_dispatch_batch b as i = Some d"
    and serves: "accepts_batch envs i d (dw_adapter w)" and named: "[] \<notin> set (known_backends w)"
  shows "\<exists>r p' w'. submit_batch (Some (engine_route now)) (adapter_client_submit envs dur) fresh b as p w
      = Some (Some r, p', w') \<and> bd_accepted r \<and> b_id b \<in> set (dp_submitted_batch_ids p')"
proof -
  let ?P = "\<lambda>v :: dispatch_world. dw_models v = dw_models w \<and> accepts_batch envs i d (dw_adapter v) \<and>
      list_routable_snapshots (dw_adapter v) = list_routable_snapshots (dw_adapter w)"
  let ?r = "case as of [] \<Rightarrow> fresh | a # _ \<Rightarrow> ba_request_id a"
  have built: "build_dispatch_batch b as j \<noteq> None" for j
    using batch by (auto simp: build_dispatch_batch_def split: if_splits)
  have "\<exists>res w'. submit_loop (Some (engine_route now)) (adapter_client_submit envs dur)
      (dp_default_backend_id p) ?r b as [] ''routing_failed'' w = Some (Some res, w') \<and> bd_accepted res"
  proof (rule dispatching.loop_accepts [where P = ?P and i = i])
    fix ex v assume P: "?P v" and ex: "i \<notin> set ex"
    obtain sn where "sn \<in> set (eligible m [] (list_routable_snapshots (dw_adapter w)))"
      "bs_backend_id sn = i" using allowed by (auto simp: list_ex_iff)
    with P ex have "eligible m ex (list_routable_snapshots (dw_adapter v)) \<noteq> []"
      by (auto simp: eligible_def backend_usable_def filter_empty_conv)
    with model P show "chosen_backend (fst (engine_route now ?r (b_model b) ex v)) \<noteq> None"
      by (simp add: engine_route_result route_request_result select_complete)
  next
    fix d' j v res v'
    assume P: "?P v" and sub: "adapter_client_submit envs dur d' j v = (res, v')"
      and j: "j \<in> set (known_backends v)" and d': "build_dispatch_batch b as j = Some d'"
      and no: "\<forall>a. res = Inr a \<longrightarrow> \<not> as_accepted a"
    let ?s = "dw_adapter v"
    have v': "v' = snd (adapter_client_submit envs dur d' j v)" using sub by simp
    have ne: "j \<noteq> []"
      using P j named unfolding known_backends_def by metis
    have other: "str_or (Some j) (ad_default_backend_id ?s) \<noteq> i"
    proof
      assume "str_or (Some j) (ad_default_backend_id ?s) = i"
      with ne have ji: "j = i" by (simp add: str_or_def)
      with d' batch have "d' = d" by simp
      moreover have "str_or (Some i) (ad_default_backend_id ?s) = i" using ne ji by (simp add: str_or_def)
      ultimately obtain x where "fst (adapter_submit_batch (envs (db_batch_id d') j)
          (dur (db_batch_id d') j) d' (Some j) ?s) = Inr x" "su_accepted x"
        using accepting_accepts P ji by blast
      with sub no show False by (auto simp: adapter_client_submit_def split: prod.splits)
    qed
    with submit_other_entry [OF other] P show "?P v' \<and> j \<noteq> i"
      using ne
      by (auto simp: v' client_submit_world submit_snapshots accepts_batch_def str_or_def split: if_splits)
  qed (use serves built in auto)
  then show ?thesis
    using loop_names_batch by (fastforce simp: submit_batch_def)
qed

definition sample_world :: dispatch_world where
  "sample_world =
     \<lparr>dw_models = default_model_registry,
      dw_adapter = snd (register_routing_backends 0
        (new_adapter ''mock'' \<lparr>ob_trace = None, ob_metrics = None\<rparr>)),
      dw_route_observers = \<lparr>ob_trace = None, ob_metrics = None\<rparr>,
      dw_ids = (\<lambda>n. show_nat n), dw_drawn = 0\<rparr>"

definition sample_assignment :: batch_assignment where
  "sample_assignment =
     \<lparr>ba_request_id = ''r'', ba_slot_index = 0, ba_inference_request = sample_request ''r''\<rparr>"

definition sample_batch :: batch where
  "sample_batch =
     \<lparr>b_context = \<lparr>bx_batch_id = ''b'', bx_model = ''demo-fallback'', bx_state = BS_FILLING,
        bx_created_at = 0, bx_admission_window_end = 1, bx_activated_at = None,
        bx_completed_at = None, bx_failure_reason = None\<rparr>, b_members = []\<rparr>"

theorem dispatch_served_witness:
  "\<forall>envs dur. \<exists>r p' w'. submit_batch (Some (engine_route 5)) (adapter_client_submit envs dur) ''f'' sample_batch [sample_assignment]
       \<lparr>dp_default_backend_id = ''mock'', dp_min_dispatch_members = None, dp_submitted_batch_ids = []\<rparr>
       sample_world = Some (Some r, p', w') \<and> bd_accepted r \<and> ''b'' \<in> set (dp_submitted_batch_ids p')"
proof -
  obtain m where m: "get_model ''demo-fallback'' (dw_models sample_world) = Some m"
    "mr_routing_policy m = RP_FALLBACK" "mr_fallback_backend m = Some ''mock''"
    "mr_model_id m = ''demo-fallback''"
    by (simp add: sample_world_def get_model_def default_model_registry_def default_models_def
        register_model_def)
  have allowed: "list_ex (\<lambda>s. bs_backend_id s = ''mock'')
      (eligible m [] (list_routable_snapshots (dw_adapter sample_world)))"
  proof -
    have "list_ex (\<lambda>s. bs_backend_id s = ''mock'' \<and> bs_healthy s \<and>
        ''demo-fallback'' \<in> set (bs_supported_models s)) (list_routable_snapshots (dw_adapter sample_world))"
      by code_simp
    with m show ?thesis
      by (auto simp: eligible_def backend_usable_def policy_allows_def supports_model_def list_ex_iff)
  qed
  define d where "d = \<lparr>db_batch_id = ''b'', db_model = ''demo-fallback'', db_worker_id = ''mock'',
    db_assignments = [sample_assignment], db_created_at = 0, db_max_batch_tokens = None, db_state = DB_FORMING\<rparr>"
  have d: "build_dispatch_batch sample_batch [sample_assignment] ''mock'' = Some d"
    by (simp add: d_def build_dispatch_batch_def sample_batch_def)
  have "case get_backend ''mock'' (dw_adapter sample_world) of None \<Rightarrow> False | Some e \<Rightarrow>
      rb_state e \<notin> {BK_UNHEALTHY, BK_STOPPED} \<and>
      (case rb_backend e of VLLM _ \<Rightarrow> False
       | Mock k \<Rightarrow> \<not> mk_reject k \<and> ''demo-fallback'' \<in> set (mk_supported_models k) \<and> 1 \<le> mk_max_batch_size k)"
    by code_simp
  then have serves: "accepts_batch envs ''mock'' d (dw_adapter sample_world)" for envs
    by (auto simp: accepts_batch_def d_def mock_accepts split: option.splits backend.splits)
  have named: "[] \<notin> set (known_backends sample_world)" by code_simp
  have b: "b_model sample_batch = ''demo-fallback''" "b_id sample_batch = ''b''"
    by (simp_all add: sample_batch_def)
  show ?thesis
    using dispatch_served [of sample_batch sample_world m "''mock''" "[sample_assignment]" d
        _ 5 _ "''f''", OF _ allowed d serves named] m(1)
    unfolding b by simp
qed

end
