(* ===== verification/Platform.thy ===== *)
theory Platform
  imports Scheduler_Cycle Dispatch_Properties
begin

text \<open>
  The embedded platform of the gateway (\<open>api_gateway/runtime\<close>): the scheduler process with its
  dispatch (\<open>scheduler/application.py\<close>), the path of a request through all services
  (\<open>orchestrator.py\<close>) and the clients that turn its outcome into an answer or a gateway error
  (\<open>integrated_client.py\<close>, \<open>control_plane/integrated.py\<close>, \<open>control_plane/stub.py\<close>).

  The control plane's registry and queue are the ones the scheduler reads: they are the
  \<open>sa_queue\<close> of the scheduler. Spans (OpenTelemetry) are not modelled. A dispatch round may fail
  to return, so the path of a request is an option; \<open>Dispatch_Properties\<close> shows that it returns.
\<close>

section \<open>State\<close>

record platform =
  pf_scheduler :: scheduler_app
  pf_dispatch :: "dispatch_state option"
  pf_dispatch_enabled :: bool
  pf_world :: dispatch_world

abbreviation pf_control :: "platform \<Rightarrow> queue_state" where
  "pf_control s \<equiv> sa_queue (pf_scheduler s)"

abbreviation pf_engine :: "platform \<Rightarrow> engine_state" where
  "pf_engine s \<equiv> sa_engine (pf_scheduler s)"

datatype platform_exn =
    PX_Control cp_exn | PX_Batch scheduler_exn | PX_Adapter adapter_exn | PX_Runtime string

type_synonym 'a plat = "(platform, platform_exn, 'a) op"

definition on_control :: "(queue_state, cp_exn, 'a) op \<Rightarrow> 'a plat" where
  "on_control m = map_exn PX_Control (zoom_op pf_control
     (\<lambda>q s. s\<lparr>pf_scheduler := (pf_scheduler s)\<lparr>sa_queue := q\<rparr>\<rparr>) m)"

definition on_batches :: "'a eng \<Rightarrow> 'a plat" where
  "on_batches m = map_exn PX_Batch (zoom_op pf_engine
     (\<lambda>e s. s\<lparr>pf_scheduler := (pf_scheduler s)\<lparr>sa_engine := e\<rparr>\<rparr>) m)"

definition on_adapter :: "'a adapt \<Rightarrow> 'a plat" where
  "on_adapter m = map_exn PX_Adapter (zoom_op (\<lambda>s. dw_adapter (pf_world s))
     (\<lambda>a s. s\<lparr>pf_world := (pf_world s)\<lparr>dw_adapter := a\<rparr>\<rparr>) m)"

text \<open>What the path of one request reads from clocks, from \<open>uuid4\<close> and from the backends.\<close>

record path_env =
  pe_received :: datetime
  pe_sweep :: clock
  pe_admit :: clock
  pe_cycle_now :: datetime
  pe_cycle_id :: string
  pe_batch_ids :: "nat \<Rightarrow> uuid"
  pe_round :: round_env
  pe_finish :: clock
  pe_retire_id :: uuid

section \<open>One scheduling cycle with its dispatch (scheduler/application.py)\<close>

definition run_scheduling_cycle ::
  "path_env \<Rightarrow> platform \<Rightarrow>
   (((cycle_exn + scheduling_result) \<times> batch_dispatch_result list) \<times> platform) option" where
  "run_scheduling_cycle env s =
     (case run_cycle (pe_cycle_now env) (pe_cycle_id env) (pe_batch_ids env) (pf_scheduler s) of
        (res, sched) \<Rightarrow>
          (case (res, pf_dispatch s) of
             (Inr r, Some p) \<Rightarrow>
               if pf_dispatch_enabled s
               then map_option (\<lambda>(ds, p', w'). ((res, ds),
                      s\<lparr>pf_scheduler := sched, pf_dispatch := Some p', pf_world := w'\<rparr>))
                      (submit_pending_batches (Some (engine_route (rn_now (pe_round env))))
                        (adapter_client_submit (rn_envs (pe_round env)) (rn_durations (pe_round env)))
                        (rn_fresh (pe_round env)) (sa_engine sched) p (pf_world s))
               else Some ((res, []), s\<lparr>pf_scheduler := sched\<rparr>)
           | _ \<Rightarrow> Some ((res, []), s\<lparr>pf_scheduler := sched\<rparr>)))"

section \<open>The orchestrator (runtime/orchestrator.py)\<close>

definition find_placement ::
  "batch_placement_decision list \<Rightarrow> uuid \<Rightarrow> batch_placement_decision option" where
  "find_placement ps r = List.find (\<lambda>p. bp_request_id p = r) ps"

definition find_batch_rejection ::
  "batch_rejection_decision list \<Rightarrow> uuid \<Rightarrow> batch_rejection_decision option" where
  "find_batch_rejection js r = List.find (\<lambda>j. bj_request_id j = r) js"

definition find_dispatch :: "batch_dispatch_result list \<Rightarrow> uuid \<Rightarrow> batch_dispatch_result option" where
  "find_dispatch ds b = List.find (\<lambda>d. bd_batch_id d = b) ds"

definition fail_request ::
  "path_env \<Rightarrow> uuid \<Rightarrow> failure_reason \<Rightarrow> string \<Rightarrow> uuid option \<Rightarrow> ref plat" where
  "fail_request env r reason message batch =
     on_control (mark_failed (pe_finish env) r reason message batch None)"

definition complete_submitted :: "path_env \<Rightarrow> uuid \<Rightarrow> string \<Rightarrow> ref plat" where
  "complete_submitted env r backend =
     bind_op (on_control (transition (pe_finish env) r SUBMITTED None (Some backend))) (\<lambda>_.
     bind_op (on_adapter (adapter_request_completion r (Some backend))) (\<lambda>completion.
     bind_op (on_batches (complete_request_in_batch (fst (pe_finish env)) (pe_retire_id env) r)) (\<lambda>_.
     on_control (complete_request (pe_finish env) r completion))))"

definition finalize_request ::
  "path_env \<Rightarrow> uuid \<Rightarrow> scheduling_result \<Rightarrow> batch_dispatch_result list \<Rightarrow> ref plat" where
  "finalize_request env r res ds =
     (case find_batch_rejection (sr_rejection_decisions res) r of
        Some j \<Rightarrow> fail_request env r ADAPTER_ERROR (bj_decision_reason j) None
      | None \<Rightarrow>
          (case find_placement (sr_placement_decisions res) r of
             None \<Rightarrow>
               if r \<in> set (sr_skipped_request_ids res) then on_control (get_entry r)
               else fail_request env r INTERNAL_ERROR ''scheduler_did_not_select_request'' None
           | Some p \<Rightarrow>
               bind_op (on_control (transition (pe_finish env) r SCHEDULED (Some (bp_batch_id p)) None)) (\<lambda>_.
               bind_op (on_control (transition (pe_finish env) r BATCHED None None)) (\<lambda>_.
               case find_dispatch ds (bp_batch_id p) of
                 None \<Rightarrow> fail_request env r ADAPTER_ERROR ''batch_not_dispatched'' (Some (bp_batch_id p))
               | Some d \<Rightarrow>
                   if bd_accepted d then complete_submitted env r (bd_backend_id d)
                   else fail_request env r ADAPTER_ERROR (bd_reason d) (Some (bp_batch_id p))))))"

definition entry_state :: "platform \<Rightarrow> ref \<Rightarrow> request_state" where
  "entry_state s e = re_state (entry_at (pf_control s) e)"

text \<open>\<open>run_cycle\<close> keeps every exception of the cycle in its result.\<close>

definition execute_full_path ::
  "admission_framework \<Rightarrow> path_env \<Rightarrow> submit_request \<Rightarrow> platform \<Rightarrow>
   ((platform_exn + ref) \<times> platform) option" where
  "execute_full_path af env submit s =
     (case on_control (process_through_queued af (pe_sweep env) (pe_admit env) submit) s of
        (Inl x, s1) \<Rightarrow> Some (Inl x, s1)
      | (Inr e, s1) \<Rightarrow>
          if entry_state s1 e \<noteq> QUEUED then Some (Inr e, s1)
          else
            map_option (\<lambda>((res, ds), s2).
                case res of
                  Inl x \<Rightarrow> (Inl (PX_Runtime []), s2)
                | Inr r \<Rightarrow> finalize_request env (submit_id submit) r ds s2)
              (run_scheduling_cycle env s1))"

section \<open>Gateway errors (errors.py)\<close>

record gateway_error =
  ge_error_type :: string
  ge_message :: string
  ge_status_code :: int
  ge_param :: "string option"
  ge_retry_after_ms :: "int option"

definition gateway_error :: "failure_reason \<Rightarrow> string \<Rightarrow> int \<Rightarrow> gateway_error" where
  "gateway_error reason message status =
     \<lparr>ge_error_type = failure_reason_value reason, ge_message = message, ge_status_code = status,
      ge_param = None, ge_retry_after_ms = None\<rparr>"

definition validation_error :: "string \<Rightarrow> string option \<Rightarrow> gateway_error" where
  "validation_error message param = (gateway_error VALIDATION_ERROR message 400)\<lparr>ge_param := param\<rparr>"

definition unsupported_field :: "string \<Rightarrow> gateway_error" where
  "unsupported_field field =
     (gateway_error UNSUPPORTED_FIELD (''unsupported field: '' @ field) 400)\<lparr>ge_param := Some field\<rparr>"

definition unknown_model :: "string \<Rightarrow> gateway_error" where
  "unknown_model model = gateway_error UNKNOWN_MODEL (''unknown model: '' @ model) 404"

definition authentication_error :: gateway_error where
  "authentication_error = gateway_error AUTHENTICATION_ERROR ''invalid or missing API key'' 401"

definition not_implemented :: "string \<Rightarrow> gateway_error" where
  "not_implemented message = gateway_error INTERNAL_ERROR message 501"

record error_body =
  eb_type :: string
  eb_message :: string
  eb_code :: string
  eb_param :: "string option"
  eb_retry_after_ms :: "int option"

text \<open>The status, the body and the seconds of the \<open>Retry-After\<close> header.\<close>

definition error_response :: "gateway_error \<Rightarrow> int \<times> error_body \<times> int option" where
  "error_response e =
     (ge_status_code e,
      \<lparr>eb_type = ge_error_type e, eb_message = ge_message e, eb_code = ge_error_type e,
       eb_param = ge_param e, eb_retry_after_ms = ge_retry_after_ms e\<rparr>,
      map_option (\<lambda>ms. max 1 (ms div 1000)) (ge_retry_after_ms e))"

section \<open>The clients (runtime/integrated_client.py, control_plane/integrated.py, stub.py)\<close>

definition admission_error :: "registered_request \<Rightarrow> gateway_error" where
  "admission_error e =
     (let reason = (case re_failure_reason e of None \<Rightarrow> QUEUE_FULL | Some x \<Rightarrow> x);
          status = (if reason = QUEUE_FULL \<or> reason = NO_CAPACITY then 429 else 400)
      in (gateway_error reason (str_or (re_failure_message e) (failure_reason_value reason)) status)
           \<lparr>ge_retry_after_ms := (if status = 429 then Some 250 else None)\<rparr>)"

definition execution_error :: "registered_request \<Rightarrow> gateway_error" where
  "execution_error e =
     (let reason = (case re_failure_reason e of None \<Rightarrow> ADAPTER_ERROR | Some x \<Rightarrow> x)
      in gateway_error reason (str_or (re_failure_message e) (failure_reason_value reason)) 502)"

definition internal_error :: "registered_request \<Rightarrow> gateway_error" where
  "internal_error e =
     gateway_error (case re_failure_reason e of None \<Rightarrow> INTERNAL_ERROR | Some x \<Rightarrow> x)
       (str_or (re_failure_message e) ''control plane failure'') 500"

text \<open>\<open>describe\<close> is \<open>str\<close> of the exceptions that have no message of their own here.\<close>

definition control_error :: "string \<Rightarrow> cp_exn \<Rightarrow> gateway_error" where
  "control_error what x =
     (case x of
        InvalidTransitionError r a b \<Rightarrow> gateway_error INTERNAL_ERROR (exn_message x) 500
      | PlatformFailure c \<Rightarrow> gateway_error (cf_reason c) (cf_message c) 500
      | _ \<Rightarrow> gateway_error INTERNAL_ERROR (what @ exn_message x) 500)"

fun platform_error :: "(scheduler_exn \<Rightarrow> string) \<Rightarrow> platform_exn \<Rightarrow> gateway_error" where
  "platform_error describe (PX_Control x) = control_error ''platform failure: '' x"
| "platform_error describe (PX_Batch x) =
     gateway_error INTERNAL_ERROR (''platform failure: '' @ describe x) 500"
| "platform_error describe (PX_Adapter x) =
     gateway_error INTERNAL_ERROR (''platform failure: '' @ adapter_exn_message x) 500"
| "platform_error describe (PX_Runtime m) =
     gateway_error INTERNAL_ERROR (''platform failure: '' @ m) 500"

text \<open>
  The answer for a request whose path ended in entry \<open>e\<close>; \<open>capture_error\<close> is what writing its
  execution record raises, if anything.
\<close>

definition answer_full :: "string option \<Rightarrow> registered_request \<Rightarrow> gateway_error option" where
  "answer_full capture_error e =
     (case capture_error of
        Some m \<Rightarrow> Some (gateway_error INTERNAL_ERROR (''platform failure: '' @ m) 500)
      | None \<Rightarrow>
          if re_state e = REJECTED then Some (admission_error e)
          else if re_state e = FAILED then Some (execution_error e)
          else if re_state e \<noteq> COMPLETED
          then Some (gateway_error INTERNAL_ERROR
                 (''unexpected terminal state: '' @ request_state_value (re_state e)) 500)
          else None)"

definition answer_queued :: "(registered_request \<Rightarrow> gateway_error) \<Rightarrow> string \<Rightarrow> registered_request \<Rightarrow>
    gateway_error option" where
  "answer_queued failed_error what e =
     (if re_state e = REJECTED then Some (admission_error e)
      else if re_state e = FAILED then Some (failed_error e)
      else if re_state e \<noteq> QUEUED
      then Some (gateway_error INTERNAL_ERROR (what @ request_state_value (re_state e)) 500)
      else None)"

definition answered :: "(registered_request \<Rightarrow> gateway_error option) \<Rightarrow>
    (scheduler_exn \<Rightarrow> string) \<Rightarrow> (platform_exn + ref) \<times> platform \<Rightarrow> (gateway_error + ref) \<times> platform" where
  "answered check describe = (\<lambda>(res, s).
     (case res of
        Inl x \<Rightarrow> Inl (platform_error describe x)
      | Inr e \<Rightarrow> (case check (entry_at (pf_control s) e) of None \<Rightarrow> Inr e | Some g \<Rightarrow> Inl g), s))"

text \<open>The trace recorder notes that the gateway has received the request.\<close>

definition gateway_received :: "datetime \<Rightarrow> submit_request \<Rightarrow> platform \<Rightarrow> platform" where
  "gateway_received now submit s =
     snd (on_control (modify_op (\<lambda>q. q\<lparr>em_observers := on_trace
       (record_gateway_receive now (submit_id submit) (rc_trace_id (sr_request_context submit))
          ''gateway_request_received'' [(''model'', X_STR (ir_model (sr_inference_request submit)))])
       (em_observers q)\<rparr>)) s)"

definition accept_request ::
  "admission_framework \<Rightarrow> path_env \<Rightarrow> (scheduler_exn \<Rightarrow> string) \<Rightarrow> string option \<Rightarrow> submit_request \<Rightarrow>
   platform \<Rightarrow> ((gateway_error + ref) \<times> platform) option" where
  "accept_request af env describe capture_error submit s =
     (let s = gateway_received (pe_received env) submit s in
      if ir_stream (sr_inference_request submit)
      then Some (answered (answer_queued execution_error ''unexpected pre-stream state: '') describe
             (on_control (process_through_queued af (pe_sweep env) (pe_admit env) submit) s))
      else map_option (answered (answer_full capture_error) describe)
             (execute_full_path af env submit s))"

text \<open>The client that embeds the control plane alone, and the stub without one.\<close>

definition accept_in_control_plane ::
  "admission_framework \<Rightarrow> clock \<Rightarrow> clock \<Rightarrow> submit_request \<Rightarrow> queue_state \<Rightarrow>
   (gateway_error + ref) \<times> queue_state" where
  "accept_in_control_plane af sweep ck submit s =
     (case process_through_queued af sweep ck submit s of
        (Inl x, t) \<Rightarrow> (Inl (control_error ''control plane failure: '' x), t)
      | (Inr e, t) \<Rightarrow>
          ((case answer_queued internal_error ''unexpected lifecycle state: '' (entry_at t e) of
              None \<Rightarrow> Inr e | Some g \<Rightarrow> Inl g), t))"

definition stub_accept :: "gateway_error" where
  "stub_accept = gateway_error INTERNAL_ERROR ''control plane integration disabled'' 503"

definition is_ready :: "bool \<Rightarrow> platform \<Rightarrow> bool" where
  "is_ready control_plane_running s \<longleftrightarrow>
     control_plane_running \<and> sa_loop_running (pf_scheduler s) \<and> ad_running (dw_adapter (pf_world s))"

end
