(* ===== verification/Codecs.thy ===== *)
theory Codecs
  imports Schemas Trace_Store
begin

text \<open>
  Values on their way to the database and back: Python values, JSON, the encoder of
  \<open>persistence/serialization.py\<close>, and the texts of dates and ids. JSON is a tree, as \<open>json.dumps\<close>
  and \<open>json.loads\<close> are inverse on it; what the encoder changes is modelled: ids, dates and
  enumerations become strings and the keys of a dictionary are sorted. The interface
  \<open>codec\<close> states what a pair of \<open>x_to_dict\<close> and \<open>x_from_dict\<close> promises.
\<close>

section \<open>Results\<close>

datatype codec_exn = CE_KeyError string | CE_ValueError string | CE_TypeError | CE_ValidationError string

type_synonym 'a decoded = "codec_exn + 'a"

definition bind_result :: "'e + 'a \<Rightarrow> ('a \<Rightarrow> 'e + 'b) \<Rightarrow> 'e + 'b" where
  "bind_result m f = (case m of Inl e \<Rightarrow> Inl e | Inr a \<Rightarrow> f a)"

lemma bind_result_simps [simp]: "bind_result (Inl e) f = Inl e" "bind_result (Inr a) f = f a"
  by (simp_all add: bind_result_def)

fun map_results :: "('a \<Rightarrow> 'e + 'b) \<Rightarrow> 'a list \<Rightarrow> 'e + 'b list" where
  "map_results f [] = Inr []"
| "map_results f (x # xs) =
     bind_result (f x) (\<lambda>y. bind_result (map_results f xs) (\<lambda>ys. Inr (y # ys)))"

lemma map_results_all: "(\<And>x. x \<in> set xs \<Longrightarrow> f x = Inr (g x)) \<Longrightarrow> map_results f xs = Inr (map g xs)"
  by (induction xs) simp_all

section \<open>Python values and JSON\<close>

datatype pyval =
    PV_None | PV_Bool bool | PV_Int int | PV_Float rat | PV_Str string
  | PV_Uuid uuid | PV_Time datetime | PV_Role message_role | PV_Priority priority_class
  | PV_List "pyval list" | PV_Dict "(string \<times> pyval) list"

datatype json =
    J_Null | J_Bool bool | J_Int int | J_Float rat | J_Str string
  | J_Array "json list" | J_Object "(string \<times> json) list"

text \<open>\<open>None\<close>, empty texts and containers, zero and \<open>False\<close> are false in a condition.\<close>

fun py_truthy :: "pyval \<Rightarrow> bool" where
  "py_truthy PV_None = False"
| "py_truthy (PV_Bool b) = b"
| "py_truthy (PV_Int i) = (i \<noteq> 0)"
| "py_truthy (PV_Float x) = (x \<noteq> 0)"
| "py_truthy (PV_Str s) = (s \<noteq> [])"
| "py_truthy (PV_List xs) = (xs \<noteq> [])"
| "py_truthy (PV_Dict d) = (d \<noteq> [])"
| "py_truthy _ = True"

section \<open>The text of a date\<close>

text \<open>
  \<open>datetime.isoformat\<close> of a UTC date: microseconds are written when they are not zero. Dates
  count from \<open>datetime.min\<close>, the first day of year 1.
\<close>

definition is_leap :: "nat \<Rightarrow> bool" where
  "is_leap y \<longleftrightarrow> y mod 4 = 0 \<and> (y mod 100 \<noteq> 0 \<or> y mod 400 = 0)"

definition days_before_year :: "nat \<Rightarrow> nat" where
  "days_before_year y = (let z = y - 1 in z * 365 + z div 4 + z div 400 - z div 100)"

definition days_in_month :: "nat \<Rightarrow> nat \<Rightarrow> nat" where
  "days_in_month y m =
     (if m = 2 then (if is_leap y then 29 else 28) else if m \<in> {4, 6, 9, 11} then 30 else 31)"

lemma div_step: "Suc z div n = z div n + of_bool (Suc z mod n = 0)" for n :: nat
  by (simp add: div_Suc)

lemma leap_days:
  "of_bool (y mod 4 = 0) + of_bool (y mod 400 = 0) + (365 :: nat) =
     (if is_leap y then 366 else 365) + of_bool (y mod 100 = 0)" for y :: nat
proof -
  have "4 dvd y" if "100 dvd y" using that by (rule dvd_trans [of 4 100 y, rotated]) simp
  moreover have "100 dvd y" if "400 dvd y" using that by (rule dvd_trans [of 100 400 y, rotated]) simp
  ultimately show ?thesis unfolding is_leap_def mod_eq_0_iff_dvd
    by (cases "4 dvd y"; cases "100 dvd y"; cases "400 dvd y") simp_all
qed

lemma shift_difference:
  fixes a c e k l n :: nat
  assumes "c \<le> a" and "e + n = l + k"
  shows "a + n + e - (c + k) = a - c + l"
  using assms by linarith

lemma days_before_next:
  assumes "1 \<le> y"
  shows "days_before_year (Suc y) = days_before_year y + (if is_leap y then 366 else 365)"
proof -
  obtain z where y: "y = Suc z" using assms by (cases y) auto
  have "z div 100 \<le> z" by simp
  then have le: "z div 100 \<le> z * 365 + z div 4 + z div 400" by linarith
  have "Suc z * 365 + Suc z div 4 + Suc z div 400 - Suc z div 100 =
      z * 365 + z div 4 + z div 400 + 365 + (of_bool (y mod 4 = 0) + of_bool (y mod 400 = 0))
        - (z div 100 + of_bool (y mod 100 = 0))"
    by (simp only: div_step y mult_Suc ac_simps)
  also have "\<dots> = z * 365 + z div 4 + z div 400 - z div 100 + (if is_leap y then 366 else 365)"
    by (rule shift_difference [OF le leap_days])
  finally show ?thesis by (simp only: days_before_year_def Let_def y diff_Suc_1)
qed

lemma days_before_lower: "365 * (y - 1) \<le> days_before_year y"
proof -
  have "(y - 1) div 100 \<le> (y - 1) div 4" by (rule div_le_mono2) simp_all
  then show ?thesis unfolding days_before_year_def Let_def by linarith
qed

lemma days_before_upper: "days_before_year y \<le> 366 * (y - 1)"
proof -
  define z where "z = y - 1"
  have "4 * (z div 4) \<le> z" "400 * (z div 400) \<le> z" by simp_all
  then have "z * 365 + z div 4 + z div 400 - z div 100 \<le> 366 * z" by linarith
  then show ?thesis by (simp add: days_before_year_def Let_def z_def)
qed

lemma days_before_mono: "1 \<le> a \<Longrightarrow> a \<le> b \<Longrightarrow> days_before_year a \<le> days_before_year b"
  by (rule dec_induct [of a b]) (auto simp: days_before_next)

function year_from :: "nat \<Rightarrow> nat \<Rightarrow> nat" where
  "year_from y d = (if days_before_year (Suc y) \<le> d then year_from (Suc y) d else y)"
  by auto

termination
proof (relation "measure (\<lambda>(y, d). Suc d - y)")
  fix y d :: nat
  assume "days_before_year (Suc y) \<le> d"
  with days_before_lower [of "Suc y"] have "y \<le> d" by simp
  then show "((Suc y, d), y, d) \<in> measure (\<lambda>(y, d). Suc d - y)" by simp
qed simp

declare year_from.simps [simp del]

function month_from :: "nat \<Rightarrow> nat \<Rightarrow> nat \<Rightarrow> nat \<times> nat" where
  "month_from y m d =
     (if m < 12 \<and> days_in_month y m \<le> d then month_from y (Suc m) (d - days_in_month y m)
      else (m, Suc d))"
  by auto

termination by (relation "measure (\<lambda>(y, m, d). 12 - m)") auto

declare month_from.simps [simp del]

fun days_before_month :: "nat \<Rightarrow> nat \<Rightarrow> nat" where
  "days_before_month y 0 = 0"
| "days_before_month y (Suc m) = days_before_month y m + (if m = 0 then 0 else days_in_month y m)"

definition date_of :: "nat \<Rightarrow> nat \<times> nat \<times> nat" where
  "date_of n = (let y = year_from (n div 366 + 1) n in (y, month_from y 1 (n - days_before_year y)))"

definition ordinal_of :: "nat \<Rightarrow> nat \<Rightarrow> nat \<Rightarrow> nat" where
  "ordinal_of y m d = days_before_year y + days_before_month y m + (d - 1)"

definition date_valid :: "nat \<Rightarrow> nat \<Rightarrow> nat \<Rightarrow> bool" where
  "date_valid y m d \<longleftrightarrow>
     1 \<le> y \<and> y \<le> 9999 \<and> 1 \<le> m \<and> m \<le> 12 \<and> 1 \<le> d \<and> d \<le> days_in_month y m"

lemma year_from_bounds:
  assumes "1 \<le> y" and "days_before_year y \<le> n"
  shows "1 \<le> year_from y n \<and> days_before_year (year_from y n) \<le> n
    \<and> n < days_before_year (Suc (year_from y n))"
  using assms
proof (induction y n rule: year_from.induct)
  case (1 y d)
  then show ?case by (subst (1 2 3) year_from.simps) auto
qed

lemma month_from_bounds:
  assumes "1 \<le> m" and "m \<le> 12" and "d < (\<Sum>i = m..12. days_in_month y i)" and "month_from y m d = (m', d')"
  shows "1 \<le> m' \<and> m' \<le> 12 \<and> 1 \<le> d' \<and> d' \<le> days_in_month y m' \<and>
    days_before_month y m' + (d' - 1) = days_before_month y m + d"
  using assms
proof (induction y m d rule: month_from.induct)
  case (1 y m d)
  have split: "(\<Sum>i = m..12. days_in_month y i) = days_in_month y m + (\<Sum>i = Suc m..12. days_in_month y i)"
    using 1(3) by (simp add: sum.atLeast_Suc_atMost)
  show ?case
  proof (cases "m < 12 \<and> days_in_month y m \<le> d")
    case True
    then have "month_from y (Suc m) (d - days_in_month y m) = (m', d')"
      using 1(5) by (simp add: month_from.simps [of y m])
    moreover have "d - days_in_month y m < (\<Sum>i = Suc m..12. days_in_month y i)"
      using 1(4) split True by linarith
    ultimately have "1 \<le> m' \<and> m' \<le> 12 \<and> 1 \<le> d' \<and> d' \<le> days_in_month y m' \<and>
        days_before_month y m' + (d' - 1) = days_before_month y (Suc m) + (d - days_in_month y m)"
      using 1(1) [OF True] True by simp
    with 1(2) True show ?thesis by auto
  next
    case False
    then have eq: "m' = m" "d' = Suc d"
      using 1(5) by (auto simp: month_from.simps [of y m] split: if_splits)
    have "d < days_in_month y m"
    proof (cases "m < 12")
      case True
      with False show ?thesis by simp
    next
      case False
      with 1(3,4) have "m = 12" by simp
      with 1(4) show ?thesis by simp
    qed
    with eq 1 show ?thesis by simp
  qed
qed

lemma year_days: "(\<Sum>i = 1..12. days_in_month y i) = (if is_leap y then 366 else 365)"
  by (simp add: days_in_month_def numeral_eq_Suc sum.atLeast_Suc_atMost)

lemma date_roundtrip:
  assumes "n < days_before_year 10000" and "date_of n = (y, m, d)"
  shows "date_valid y m d" and "ordinal_of y m d = n"
proof -
  have y: "y = year_from (n div 366 + 1) n" and md: "month_from y 1 (n - days_before_year y) = (m, d)"
    using assms(2) by (auto simp: date_of_def Let_def)
  have "366 * (n div 366) \<le> n" by simp
  then have "days_before_year (n div 366 + 1) \<le> n"
    using days_before_upper [of "n div 366 + 1"] by simp
  then have b: "1 \<le> y" "days_before_year y \<le> n" "n < days_before_year (Suc y)"
    using year_from_bounds [of "n div 366 + 1" n] by (simp_all add: y)
  have "y < 10000"
  proof (rule ccontr)
    assume "\<not> y < 10000"
    then have "days_before_year 10000 \<le> days_before_year y" by (intro days_before_mono) simp_all
    with assms(1) b(2) show False by simp
  qed
  have "n - days_before_year y < (\<Sum>i = 1..12. days_in_month y i)"
    unfolding year_days using b days_before_next [OF b(1)] by simp
  from month_from_bounds [OF _ _ this md]
  have m: "1 \<le> m" "m \<le> 12" "1 \<le> d" "d \<le> days_in_month y m"
    and sum: "days_before_month y m + (d - 1) = n - days_before_year y"
    by simp_all
  from m b(1) \<open>y < 10000\<close> show "date_valid y m d" by (simp add: date_valid_def)
  show "ordinal_of y m d = n" unfolding ordinal_of_def using sum b(2) by linarith
qed

definition digit_char :: "nat \<Rightarrow> char" where
  "digit_char n = char_of (48 + n mod 10)"

definition digit_value :: "char \<Rightarrow> nat option" where
  "digit_value c = (if CHR ''0'' \<le> c \<and> c \<le> CHR ''9'' then Some (of_char c - 48) else None)"

lemma digit_value_char [simp]: "digit_value (digit_char n) = Some (n mod 10)"
proof -
  have "\<forall>d \<in> set [0..<10]. digit_value (char_of (48 + d)) = Some d"
    by (simp add: upt_rec digit_value_def less_eq_char_def)
  moreover have "n mod 10 \<in> set [0..<10]" by simp
  ultimately show ?thesis unfolding digit_char_def by blast
qed

fun digits :: "nat \<Rightarrow> nat \<Rightarrow> string" where
  "digits 0 n = []"
| "digits (Suc k) n = digits k (n div 10) @ [digit_char n]"

lemma length_digits [simp]: "length (digits k n) = k"
  by (induction k arbitrary: n) simp_all

fun read_digits :: "nat \<Rightarrow> string \<Rightarrow> nat option" where
  "read_digits acc [] = Some acc"
| "read_digits acc (c # cs) = (case digit_value c of None \<Rightarrow> None | Some v \<Rightarrow> read_digits (10 * acc + v) cs)"

lemma read_digits_append:
  "read_digits acc (xs @ ys) = (case read_digits acc xs of None \<Rightarrow> None | Some v \<Rightarrow> read_digits v ys)"
  by (induction xs arbitrary: acc) (auto split: option.split)

lemma read_digits_digits: "n < 10 ^ k \<Longrightarrow> read_digits acc (digits k n) = Some (acc * 10 ^ k + n)"
proof (induction k arbitrary: n)
  case (Suc k)
  then have "n div 10 < 10 ^ k" by (simp add: less_mult_imp_div_less mult.commute)
  with Suc.IH [of "n div 10"] show ?case
    by (simp add: read_digits_append algebra_simps)
qed simp

definition day_us :: nat where
  "day_us = 24 * 60 * 60 * 1000000"

definition max_time :: nat where
  "max_time = days_before_year 10000 * day_us"

definition date_ok :: "datetime \<Rightarrow> bool" where
  "date_ok t \<longleftrightarrow> 0 \<le> t \<and> nat t < max_time"

definition isoformat :: "datetime \<Rightarrow> string" where
  "isoformat t =
     (let (y, m, d) = date_of (nat t div day_us); us = nat t mod day_us; sec = us div 1000000 in
      digits 4 y @ ''-'' @ digits 2 m @ ''-'' @ digits 2 d @ ''T'' @ digits 2 (sec div 3600) @ '':''
        @ digits 2 (sec div 60 mod 60) @ '':'' @ digits 2 (sec mod 60)
        @ (if us mod 1000000 = 0 then [] else ''.'' @ digits 6 (us mod 1000000)) @ ''+00:00'')"

text \<open>
  \<open>datetime.fromisoformat\<close> on the texts that \<open>isoformat\<close> writes; the code reads no others.
\<close>

definition at_text :: "nat \<Rightarrow> string \<Rightarrow> string \<Rightarrow> bool" where
  "at_text i w s \<longleftrightarrow> take (length w) (drop i s) = w"

definition number_at :: "nat \<Rightarrow> nat \<Rightarrow> string \<Rightarrow> nat option" where
  "number_at i k s = (if i + k \<le> length s then read_digits 0 (take k (drop i s)) else None)"

definition fraction_at :: "nat \<Rightarrow> string \<Rightarrow> nat option" where
  "fraction_at i s =
     (if drop i s = ''+00:00'' then Some 0
      else if at_text i ''.'' s \<and> drop (i + 7) s = ''+00:00'' then number_at (i + 1) 6 s else None)"

definition time_of :: "nat \<Rightarrow> nat \<Rightarrow> nat \<Rightarrow> nat \<Rightarrow> nat \<Rightarrow> nat \<Rightarrow> nat \<Rightarrow> datetime option" where
  "time_of y m d hh mm ss us =
     (if date_valid y m d \<and> hh < 24 \<and> mm < 60 \<and> ss < 60
      then Some (int (ordinal_of y m d * day_us + ((hh * 60 + mm) * 60 + ss) * 1000000 + us)) else None)"

definition fromisoformat :: "string \<Rightarrow> datetime option" where
  "fromisoformat s =
     (if at_text 4 ''-'' s \<and> at_text 7 ''-'' s \<and> at_text 10 ''T'' s \<and> at_text 13 '':'' s \<and> at_text 16 '':'' s
      then Option.bind (number_at 0 4 s) (\<lambda>y. Option.bind (number_at 5 2 s) (\<lambda>m.
           Option.bind (number_at 8 2 s) (\<lambda>d. Option.bind (number_at 11 2 s) (\<lambda>hh.
           Option.bind (number_at 14 2 s) (\<lambda>mm. Option.bind (number_at 17 2 s) (\<lambda>ss.
           Option.bind (fraction_at 19 s) (\<lambda>us. time_of y m d hh mm ss us)))))))
      else None)"

lemma number_at_skip [simp]: "length w \<le> i \<Longrightarrow> number_at i k (w @ s) = number_at (i - length w) k s"
  by (auto simp: number_at_def)

lemma number_at_here [simp]: "number_at 0 k (digits k n @ s) = read_digits 0 (digits k n)"
  by (simp add: number_at_def)

lemma at_text_skip [simp]: "length v \<le> i \<Longrightarrow> at_text i w (v @ s) = at_text (i - length v) w s"
  by (simp add: at_text_def)

lemma at_text_here [simp]: "at_text 0 w (w @ s)"
  by (simp add: at_text_def)

lemma number_at_Cons [simp]: "0 < i \<Longrightarrow> number_at i k (c # s) = number_at (i - 1) k s"
  using number_at_skip [of "[c]" i k s] by simp

lemma at_text_Cons [simp]: "0 < i \<Longrightarrow> at_text i w (c # s) = at_text (i - 1) w s"
  using at_text_skip [of "[c]" i w s] by simp

lemma at_text_char [simp]: "at_text 0 [c] (c # s)"
  using at_text_here [of "[c]" s] by simp

lemma clock_parts:
  assumes "us < day_us"
  defines "sec \<equiv> us div 1000000"
  shows "sec div 3600 < 24"
    and "((sec div 3600 * 60 + sec div 60 mod 60) * 60 + sec mod 60) * 1000000 + us mod 1000000 = us"
proof -
  show "sec div 3600 < 24" using assms by (simp add: day_us_def div_less_iff_less_mult)
  have "sec div 3600 = sec div 60 div 60" by (simp add: div_mult2_eq [symmetric])
  then have "(sec div 3600 * 60 + sec div 60 mod 60) * 60 + sec mod 60 = sec" by simp
  then show "((sec div 3600 * 60 + sec div 60 mod 60) * 60 + sec mod 60) * 1000000 + us mod 1000000 = us"
    by (simp add: sec_def)
qed

theorem isoformat_roundtrip:
  assumes "date_ok t"
  shows "fromisoformat (isoformat t) = Some t"
proof -
  obtain y m d where ymd: "date_of (nat t div day_us) = (y, m, d)" by (metis prod_cases3)
  have "nat t div day_us < days_before_year 10000"
    using assms by (simp add: date_ok_def max_time_def day_us_def div_less_iff_less_mult)
  note date = date_roundtrip [OF this ymd]
  have lim: "y < 10 ^ 4" "m < 10 ^ 2" "d < 10 ^ 2"
    using date(1) by (auto simp: date_valid_def days_in_month_def split: if_splits)
  define us where "us = nat t mod day_us"
  have us: "us < day_us" by (simp add: us_def day_us_def)
  note clock = clock_parts [OF us]
  have "ordinal_of y m d * day_us + us = nat t" by (simp add: date us_def)
  with clock(2) have sum: "ordinal_of y m d * day_us
      + ((us div 1000000 div 3600 * 60 + us div 1000000 div 60 mod 60) * 60 + us div 1000000 mod 60) * 1000000
      + us mod 1000000 = nat t" by linarith
  have time: "time_of y m d (us div 1000000 div 3600) (us div 1000000 div 60 mod 60)
      (us div 1000000 mod 60) (us mod 1000000) = Some t"
    unfolding time_of_def sum using date(1) clock(1) assms by (simp add: date_ok_def)
  have n: "read_digits 0 (digits k x) = Some x" if "x < 10 ^ k" for k x
    using read_digits_digits [OF that, of 0] by simp
  have "us div 1000000 div 3600 < 10 ^ 2" using clock(1) by simp
  then show ?thesis
    using time lim unfolding isoformat_def us_def [symmetric] ymd Let_def fromisoformat_def
    by (cases "us mod 1000000 = 0") (simp_all add: n fraction_at_def)
qed

section \<open>Ids and enumerations\<close>

text \<open>\<open>UUID(text)\<close> on the canonical texts, the only ones the code writes.\<close>

definition hex_digit :: "char \<Rightarrow> bool" where
  "hex_digit c \<longleftrightarrow> c \<in> set ''0123456789abcdef''"

definition uuid_text :: "string \<Rightarrow> bool" where
  "uuid_text s \<longleftrightarrow>
     length s = 36 \<and>
     list_all (\<lambda>i. if i \<in> {8, 13, 18, 23} then s ! i = CHR ''-'' else hex_digit (s ! i)) [0..<36]"

definition parse_uuid :: "string \<Rightarrow> uuid decoded" where
  "parse_uuid s = (if uuid_text s then Inr s else Inl (CE_ValueError s))"

definition parse_time :: "string \<Rightarrow> datetime decoded" where
  "parse_time s = (case fromisoformat s of None \<Rightarrow> Inl (CE_ValueError s) | Some t \<Rightarrow> Inr t)"

lemma parse_time_isoformat [simp]: "date_ok t \<Longrightarrow> parse_time (isoformat t) = Inr t"
  by (simp add: parse_time_def isoformat_roundtrip)

text \<open>\<open>E(value)\<close> for an enumeration \<open>E\<close> with the members \<open>all\<close>.\<close>

definition enum_of :: "('a \<Rightarrow> string) \<Rightarrow> 'a list \<Rightarrow> string \<Rightarrow> 'a decoded" where
  "enum_of val all s =
     (case List.find (\<lambda>x. val x = s) all of None \<Rightarrow> Inl (CE_ValueError s) | Some x \<Rightarrow> Inr x)"

lemma enum_of_val: "inj_on val (set all) \<Longrightarrow> x \<in> set all \<Longrightarrow> enum_of val all (val x) = Inr x"
  unfolding enum_of_def
  by (auto simp: find_None_iff find_Some_iff inj_on_def split: option.split)

definition runtime_components :: "runtime_component list" where
  "runtime_components =
     [RT_GATEWAY, RT_CONTROL_PLANE, RT_SCHEDULER, RT_ADAPTER, RT_BACKEND, RT_REPLAY]"

lemma runtime_component_of [simp]:
  "enum_of runtime_component_value runtime_components (runtime_component_value c) = Inr c"
  by (cases c) (simp_all add: enum_of_def runtime_components_def)

definition message_roles :: "message_role list" where
  "message_roles = [ROLE_SYSTEM, ROLE_USER, ROLE_ASSISTANT]"

lemma message_role_of [simp]: "enum_of message_role_value message_roles (message_role_value r) = Inr r"
  by (cases r) (simp_all add: enum_of_def message_roles_def)

definition priority_classes :: "priority_class list" where
  "priority_classes = [PC_DEFAULT, PC_ELEVATED, PC_BACKGROUND]"

lemma priority_class_of [simp]:
  "enum_of priority_class_value priority_classes (priority_class_value r) = Inr r"
  by (cases r) (simp_all add: enum_of_def priority_classes_def)

section \<open>The encoder (persistence/serialization.py)\<close>

text \<open>
  Members of \<open>StrEnum\<close> are strings to the JSON encoder. \<open>dumps\<close> sorts the keys of every dictionary.
\<close>

primrec dumps :: "pyval \<Rightarrow> json" where
  "dumps PV_None = J_Null"
| "dumps (PV_Bool b) = J_Bool b"
| "dumps (PV_Int i) = J_Int i"
| "dumps (PV_Float x) = J_Float x"
| "dumps (PV_Str s) = J_Str s"
| "dumps (PV_Uuid u) = J_Str u"
| "dumps (PV_Time t) = J_Str (isoformat t)"
| "dumps (PV_Role r) = J_Str (message_role_value r)"
| "dumps (PV_Priority p) = J_Str (priority_class_value p)"
| "dumps (PV_List xs) = J_Array (map dumps xs)"
| "dumps (PV_Dict d) = J_Object (sort_key fst (map (map_prod id dumps) d))"

primrec loads :: "json \<Rightarrow> pyval" where
  "loads J_Null = PV_None"
| "loads (J_Bool b) = PV_Bool b"
| "loads (J_Int i) = PV_Int i"
| "loads (J_Float x) = PV_Float x"
| "loads (J_Str s) = PV_Str s"
| "loads (J_Array xs) = PV_List (map loads xs)"
| "loads (J_Object d) = PV_Dict (map (map_prod id loads) d)"

text \<open>A value after a write to the database and a read from it.\<close>

abbreviation reread :: "pyval \<Rightarrow> pyval" where
  "reread v \<equiv> loads (dumps v)"

declare dumps.simps [simp del] loads.simps [simp del]

lemma reread_leaf [simp]:
  "reread PV_None = PV_None" "reread (PV_Bool b) = PV_Bool b" "reread (PV_Int i) = PV_Int i"
  "reread (PV_Float x) = PV_Float x" "reread (PV_Str s) = PV_Str s" "reread (PV_Uuid u) = PV_Str u"
  "reread (PV_Time t) = PV_Str (isoformat t)" "reread (PV_Role r) = PV_Str (message_role_value r)"
  "reread (PV_Priority c) = PV_Str (priority_class_value c)"
  by (simp_all add: dumps.simps loads.simps)

lemma insort_key_map_prod:
  "insort_key fst (k, g v) (map (map_prod id g) d) = map (map_prod id g) (insort_key fst (k, v) d)"
  by (induction d) auto

lemma sort_key_map_prod: "sort_key fst (map (map_prod id g) d) = map (map_prod id g) (sort_key fst d)"
  by (induction d) (auto simp: insort_key_map_prod [unfolded id_def] id_def)

lemma dict_get_filter: "dict_get d k = (case filter (\<lambda>p. fst p = k) d of [] \<Rightarrow> None | p # _ \<Rightarrow> Some (snd p))"
  by (induction d) auto

lemma dict_get_sort [simp]: "dict_get (sort_key fst d) k = dict_get d k"
  unfolding dict_get_filter by (simp add: sort_key_stable)

lemma dict_get_map_prod [simp]: "dict_get (map (map_prod id g) d) k = map_option g (dict_get d k)"
  by (induction d) auto

lemma reread_List [simp]: "reread (PV_List xs) = PV_List (map (\<lambda>v. reread v) xs)"
  by (simp add: dumps.simps loads.simps)

lemma reread_Dict: "reread (PV_Dict d) = PV_Dict (sort_key fst (map (map_prod id (\<lambda>v. reread v)) d))"
  by (simp add: dumps.simps loads.simps sort_key_map_prod [unfolded id_def] prod.map_comp comp_def id_def)

section \<open>Reading fields\<close>

text \<open>
  \<open>data[k]\<close> and \<open>data.get(k)\<close>. The dataclasses do not check the types of their fields; here a value
  of another type than the field's raises, which the texts the code has written never do.
\<close>

definition get_item :: "string \<Rightarrow> pyval \<Rightarrow> pyval decoded" where
  "get_item k v =
     (case v of
        PV_Dict d \<Rightarrow> (case dict_get d k of None \<Rightarrow> Inl (CE_KeyError k) | Some x \<Rightarrow> Inr x)
      | _ \<Rightarrow> Inl CE_TypeError)"

definition get_or_none :: "string \<Rightarrow> pyval \<Rightarrow> pyval decoded" where
  "get_or_none k v =
     (case v of
        PV_Dict d \<Rightarrow> (case dict_get d k of None \<Rightarrow> Inr PV_None | Some x \<Rightarrow> Inr x)
      | _ \<Rightarrow> Inl CE_TypeError)"

lemma get_item_reread:
  "get_item k (reread (PV_Dict d)) =
     (case dict_get d k of None \<Rightarrow> Inl (CE_KeyError k) | Some x \<Rightarrow> Inr (reread x))"
  unfolding reread_Dict get_item_def by (simp split: option.split)

lemma get_or_none_reread:
  "get_or_none k (reread (PV_Dict d)) =
     (case dict_get d k of None \<Rightarrow> Inr PV_None | Some x \<Rightarrow> Inr (reread x))"
  unfolding reread_Dict get_or_none_def by (simp split: option.split)

fun as_str :: "pyval \<Rightarrow> string decoded" where
  "as_str (PV_Str s) = Inr s"
| "as_str _ = Inl CE_TypeError"

fun as_opt_str :: "pyval \<Rightarrow> string option decoded" where
  "as_opt_str PV_None = Inr None"
| "as_opt_str (PV_Str s) = Inr (Some s)"
| "as_opt_str _ = Inl CE_TypeError"

fun as_int :: "pyval \<Rightarrow> int decoded" where
  "as_int (PV_Int i) = Inr i"
| "as_int _ = Inl CE_TypeError"

fun as_bool :: "pyval \<Rightarrow> bool decoded" where
  "as_bool (PV_Bool b) = Inr b"
| "as_bool _ = Inl CE_TypeError"

fun as_list :: "pyval \<Rightarrow> pyval list decoded" where
  "as_list (PV_List xs) = Inr xs"
| "as_list _ = Inl CE_TypeError"

definition str_field :: "string \<Rightarrow> pyval \<Rightarrow> string decoded" where
  "str_field k v = bind_result (get_item k v) as_str"

definition opt_str_field :: "string \<Rightarrow> pyval \<Rightarrow> string option decoded" where
  "opt_str_field k v = bind_result (get_or_none k v) as_opt_str"

definition int_field :: "string \<Rightarrow> pyval \<Rightarrow> int decoded" where
  "int_field k v = bind_result (get_item k v) as_int"

definition bool_field :: "string \<Rightarrow> pyval \<Rightarrow> bool decoded" where
  "bool_field k v = bind_result (get_item k v) as_bool"

definition uuid_field :: "string \<Rightarrow> pyval \<Rightarrow> uuid decoded" where
  "uuid_field k v = bind_result (str_field k v) parse_uuid"

text \<open>\<open>UUID(data[k]) if data.get(k) else None\<close>\<close>

definition opt_uuid_field :: "string \<Rightarrow> pyval \<Rightarrow> uuid option decoded" where
  "opt_uuid_field k v =
     bind_result (get_or_none k v) (\<lambda>x.
       if py_truthy x then bind_result (as_str x) (\<lambda>s. bind_result (parse_uuid s) (\<lambda>u. Inr (Some u)))
       else Inr None)"

definition time_field :: "string \<Rightarrow> pyval \<Rightarrow> datetime decoded" where
  "time_field k v = bind_result (str_field k v) parse_time"

definition enum_field :: "('a \<Rightarrow> string) \<Rightarrow> 'a list \<Rightarrow> string \<Rightarrow> pyval \<Rightarrow> 'a decoded" where
  "enum_field val all k v = bind_result (str_field k v) (enum_of val all)"

definition list_field :: "string \<Rightarrow> (pyval \<Rightarrow> 'a decoded) \<Rightarrow> pyval \<Rightarrow> 'a list decoded" where
  "list_field k of_py v = bind_result (bind_result (get_item k v) as_list) (map_results of_py)"

definition opt_str :: "string option \<Rightarrow> pyval" where
  "opt_str x = (case x of None \<Rightarrow> PV_None | Some s \<Rightarrow> PV_Str s)"

lemma opt_str_reread [simp]: "reread (opt_str x) = opt_str x"
  by (cases x) (simp_all add: opt_str_def)

lemma as_opt_str_opt [simp]: "as_opt_str (opt_str x) = Inr x"
  by (cases x) (simp_all add: opt_str_def)

lemmas field_defs =
  str_field_def opt_str_field_def int_field_def bool_field_def uuid_field_def opt_uuid_field_def
  time_field_def enum_field_def list_field_def

section \<open>The interface of a codec\<close>

text \<open>
  What is written with \<open>to_py\<close> and read with \<open>of_py\<close> is the value itself, up to the order of the
  keys in its dictionaries (\<open>stored\<close>).
\<close>

locale codec =
  fixes to_py :: "'a \<Rightarrow> pyval" and of_py :: "pyval \<Rightarrow> 'a decoded"
    and ok :: "'a \<Rightarrow> bool" and stored :: "'a \<Rightarrow> 'a"
  assumes round: "ok x \<Longrightarrow> of_py (reread (to_py x)) = Inr (stored x)"
begin

lemma rounds: "list_all ok xs \<Longrightarrow> map_results of_py (map (\<lambda>x. reread (to_py x)) xs) = Inr (map stored xs)"
  by (induction xs) (simp_all add: round)

end

section \<open>The extra dictionaries of events\<close>

fun extra_value_to_py :: "extra_value \<Rightarrow> pyval" where
  "extra_value_to_py X_NONE = PV_None"
| "extra_value_to_py (X_STR s) = PV_Str s"
| "extra_value_to_py (X_INT i) = PV_Int i"
| "extra_value_to_py (X_NUM x) = PV_Float x"
| "extra_value_to_py (X_BOOL b) = PV_Bool b"
| "extra_value_to_py (X_STRS xs) = PV_List (map PV_Str xs)"

fun extra_value_of_py :: "pyval \<Rightarrow> extra_value decoded" where
  "extra_value_of_py PV_None = Inr X_NONE"
| "extra_value_of_py (PV_Str s) = Inr (X_STR s)"
| "extra_value_of_py (PV_Int i) = Inr (X_INT i)"
| "extra_value_of_py (PV_Float x) = Inr (X_NUM x)"
| "extra_value_of_py (PV_Bool b) = Inr (X_BOOL b)"
| "extra_value_of_py (PV_List xs) = bind_result (map_results as_str xs) (\<lambda>ss. Inr (X_STRS ss))"
| "extra_value_of_py _ = Inl CE_TypeError"

definition extra_to_py :: "extra \<Rightarrow> pyval" where
  "extra_to_py e = PV_Dict (map (map_prod id extra_value_to_py) e)"

definition read_extra :: "pyval \<Rightarrow> extra decoded" where
  "read_extra x =
     (if \<not> py_truthy x then Inr []
      else case x of
        PV_Dict d \<Rightarrow> map_results (\<lambda>(key, y). bind_result (extra_value_of_py y) (\<lambda>z. Inr (key, z))) d
      | _ \<Rightarrow> Inl CE_TypeError)"

text \<open>\<open>data.get(k) or {}\<close>\<close>

definition extra_field :: "string \<Rightarrow> pyval \<Rightarrow> extra decoded" where
  "extra_field k v = bind_result (get_or_none k v) read_extra"

definition sort_dict :: "(string, 'v) dict \<Rightarrow> (string, 'v) dict" where
  "sort_dict d = sort_key fst d"

lemma sort_dict_get [simp]: "dict_get (sort_dict d) k = dict_get d k"
  by (simp add: sort_dict_def)

lemma strs_round: "map_results as_str (map PV_Str xs) = Inr xs"
  by (induction xs) simp_all

lemma extra_value_round [simp]: "extra_value_of_py (reread (extra_value_to_py v)) = Inr v"
  by (cases v) (simp_all add: comp_def strs_round)

lemma extra_entries:
  "map_results (\<lambda>(key, y). bind_result (extra_value_of_py y) (\<lambda>z. Inr (key, z)))
     (map (map_prod id (\<lambda>v. reread (extra_value_to_py v))) e) = Inr e"
  by (induction e) auto

lemma read_extra_round [simp]: "read_extra (reread (extra_to_py e)) = Inr (sort_dict e)"
proof -
  have "reread (extra_to_py e) =
      PV_Dict (map (map_prod id (\<lambda>v. reread (extra_value_to_py v))) (sort_dict e))"
    by (simp add: extra_to_py_def reread_Dict sort_key_map_prod [unfolded id_def] sort_dict_def
        prod.map_comp comp_def id_def)
  moreover have "sort_dict e = [] \<longleftrightarrow> e = []" by (metis length_0_conv length_sort sort_dict_def)
  ultimately show ?thesis by (auto simp: extra_entries read_extra_def)
qed

end
