(* ===== verification/Execution_Records.thy ===== *)
theory Execution_Records
  imports Codecs Request_Registry
begin

text \<open>
  What is kept of an execution for replay (\<open>runtime/replay/models.py\<close>), how it is read from the
  traces (\<open>runtime/inspection.py\<close>, \<open>replay/capture.py\<close>), how two executions are compared
  (\<open>replay/comparison.py\<close>) and how one is reconstructed (\<open>replay/reconstruction.py\<close>).
\<close>

section \<open>Records (replay/models.py)\<close>

record payload_snapshot =
  ps_inference_request :: "(string, pyval) dict"
  ps_request_context :: "(string, pyval) dict"

record terminal_outcome =
  to_state :: string
  to_failure_reason :: "string option"
  to_failure_message :: "string option"
  to_batch_id :: "string option"
  to_backend_id :: "string option"

record transition_snapshot =
  ts_event_type :: string
  ts_from_state :: "string option"
  ts_to_state :: "string option"
  ts_timestamp :: datetime

record execution_record =
  xr_request_id :: uuid
  xr_correlation_id :: string
  xr_captured_at :: datetime
  xr_payload :: payload_snapshot
  xr_lifecycle_transitions :: "transition_snapshot list"
  xr_queue_events :: "trace_event list"
  xr_scheduler_events :: "trace_event list"
  xr_batch_events :: "trace_event list"
  xr_backend_events :: "trace_event list"
  xr_failures :: "trace_failure list"
  xr_terminal_outcome :: terminal_outcome
  xr_event_timeline :: "trace_event list"
  xr_replay_id :: "uuid option"
  xr_source_request_id :: "uuid option"
  xr_completion :: "inference_completion_record option"
  xr_stream_metrics :: "streaming_metrics_record option"

text \<open>\<open>model_dump\<close> of the request models: the fields in the order they are declared.\<close>

definition opt_py :: "('a \<Rightarrow> pyval) \<Rightarrow> 'a option \<Rightarrow> pyval" where
  "opt_py f x = (case x of None \<Rightarrow> PV_None | Some v \<Rightarrow> f v)"

definition dump_message :: "message \<Rightarrow> pyval" where
  "dump_message m = PV_Dict [(''role'', PV_Role (m_role m)), (''content'', PV_Str (m_content m))]"

definition dump_inference_request :: "inference_request \<Rightarrow> (string, pyval) dict" where
  "dump_inference_request r =
     [(''request_id'', PV_Uuid (ir_request_id r)), (''model'', PV_Str (ir_model r)),
      (''messages'', PV_List (map dump_message (ir_messages r))),
      (''stream'', PV_Bool (ir_stream r)), (''max_tokens'', PV_Int (ir_max_tokens r)),
      (''temperature'', opt_py PV_Float (ir_temperature r)), (''top_p'', opt_py PV_Float (ir_top_p r)),
      (''priority_class'', opt_py PV_Priority (ir_priority_class r)),
      (''api_key_id'', opt_str (ir_api_key_id r)),
      (''client_request_id'', opt_str (ir_client_request_id r))]"

definition dump_request_context :: "request_context \<Rightarrow> (string, pyval) dict" where
  "dump_request_context c =
     [(''request_id'', PV_Uuid (rc_request_id c)), (''trace_id'', PV_Str (rc_trace_id c)),
      (''span_id'', PV_Str (rc_span_id c)), (''arrival_time'', PV_Time (rc_arrival_time c)),
      (''model'', PV_Str (rc_model c)), (''stream'', PV_Bool (rc_stream c)),
      (''gateway_instance_id'', PV_Str (rc_gateway_instance_id c))]"

definition from_submit :: "submit_request \<Rightarrow> payload_snapshot" where
  "from_submit submit =
     \<lparr>ps_inference_request = dump_inference_request (sr_inference_request submit),
      ps_request_context = dump_request_context (sr_request_context submit)\<rparr>"

section \<open>Inspection (runtime/inspection.py)\<close>

record trace_timeline =
  tl_request_id :: uuid
  tl_correlation_id :: string
  tl_events :: "trace_event list"
  tl_stage_durations_ms :: "(string, rat option) dict"
  tl_captured_at :: datetime

definition get_request_trace :: "uuid \<Rightarrow> trace_store \<Rightarrow> request_trace option" where
  "get_request_trace r st = dict_get st r"

definition get_request_timeline :: "datetime \<Rightarrow> uuid \<Rightarrow> trace_store \<Rightarrow> trace_timeline option" where
  "get_request_timeline now r st =
     map_option (\<lambda>t. \<lparr>tl_request_id = tc_request_id (rt_context t),
         tl_correlation_id = tc_correlation_id (rt_context t),
         tl_events = sort_key te_timestamp (rt_events t),
         tl_stage_durations_ms = durations_ms (rt_timestamps t), tl_captured_at = now\<rparr>)
       (dict_get st r)"

definition get_request_failures :: "uuid \<Rightarrow> trace_store \<Rightarrow> trace_failure list" where
  "get_request_failures r st = (case dict_get st r of None \<Rightarrow> [] | Some t \<Rightarrow> rt_failures t)"

record request_metrics =
  rqm_request_id :: uuid
  rqm_correlation_id :: string
  rqm_durations_ms :: "(string, rat option) dict"
  rqm_event_count :: nat
  rqm_failure_count :: nat

text \<open>The durations the record keeps; the admission stage is left out.\<close>

definition get_request_metrics :: "uuid \<Rightarrow> trace_store \<Rightarrow> request_metrics option" where
  "get_request_metrics r st =
     map_option (\<lambda>t. \<lparr>rqm_request_id = tc_request_id (rt_context t),
         rqm_correlation_id = tc_correlation_id (rt_context t),
         rqm_durations_ms = filter (\<lambda>(k, _). k \<noteq> ''admission_ms'') (durations_ms (rt_timestamps t)),
         rqm_event_count = length (rt_events t), rqm_failure_count = length (rt_failures t)\<rparr>)
       (dict_get st r)"

definition text_contains :: "string \<Rightarrow> string \<Rightarrow> bool" where
  "text_contains w s = list_ex (\<lambda>t. prefix w t) (suffixes s)"

record queue_metrics =
  qum_request_id :: uuid
  qum_queue_event_count :: nat
  qum_last_queue_position :: "extra_value option"

definition get_queue_metrics :: "uuid \<Rightarrow> trace_store \<Rightarrow> queue_metrics option" where
  "get_queue_metrics r st =
     map_option (\<lambda>t. \<lparr>qum_request_id = r,
         qum_queue_event_count = length (filter (\<lambda>e. te_component e = RT_CONTROL_PLANE
           \<and> text_contains ''queue'' (te_event_type e)) (rt_events t)),
         qum_last_queue_position =
           (case List.find (\<lambda>e. dict_get (te_extra e) ''queue_position'' \<noteq> None) (rev (rt_events t)) of
              None \<Rightarrow> None | Some e \<Rightarrow> dict_get (te_extra e) ''queue_position'')\<rparr>)
       (dict_get st r)"

record scheduler_metrics =
  scm_request_id :: uuid
  scm_scheduler_event_count :: nat
  scm_selected :: bool

definition get_scheduler_metrics :: "uuid \<Rightarrow> trace_store \<Rightarrow> scheduler_metrics option" where
  "get_scheduler_metrics r st =
     map_option (\<lambda>t.
       let es = filter (\<lambda>e. te_component e = RT_SCHEDULER) (rt_events t)
       in \<lparr>scm_request_id = r, scm_scheduler_event_count = length es,
           scm_selected = list_ex (\<lambda>e. te_event_type e = ''request_selected'') es\<rparr>)
       (dict_get st r)"

record batch_metrics =
  btm_request_id :: uuid
  btm_batch_id :: "string option"
  btm_batch_event_count :: nat

definition get_batch_metrics :: "uuid \<Rightarrow> trace_store \<Rightarrow> batch_metrics option" where
  "get_batch_metrics r st =
     map_option (\<lambda>t. \<lparr>btm_request_id = r, btm_batch_id = tc_batch_id (rt_context t),
         btm_batch_event_count = length (filter (\<lambda>e. text_contains ''batch'' (te_event_type e)
           \<or> te_event_type e = ''request_added_to_batch'') (rt_events t))\<rparr>)
       (dict_get st r)"

record backend_metrics_view =
  bkm_request_id :: uuid
  bkm_backend_id :: "string option"
  bkm_batch_id :: "string option"
  bkm_backend_event_count :: nat
  bkm_accepted :: "bool option"

definition get_backend_metrics :: "uuid \<Rightarrow> trace_store \<Rightarrow> backend_metrics_view option" where
  "get_backend_metrics r st =
     map_option (\<lambda>t.
       let es = filter (\<lambda>e. te_component e \<in> {RT_ADAPTER, RT_BACKEND}) (rt_events t)
       in \<lparr>bkm_request_id = r, bkm_backend_id = tc_backend_id (rt_context t),
           bkm_batch_id = tc_batch_id (rt_context t), bkm_backend_event_count = length es,
           bkm_accepted = (if es = [] then None
             else Some (list_ex (\<lambda>e. te_event_type e = ''batch_accepted'') es))\<rparr>)
       (dict_get st r)"

section \<open>Capture (replay/capture.py)\<close>

definition lifecycle_event_types :: "string list" where
  "lifecycle_event_types =
     [''request_received'', ''request_validated'', ''request_admitted'', ''request_queued'',
      ''request_scheduled'', ''request_batched'', ''request_submitted'', ''request_completed'',
      ''request_failed'', ''request_rejected'']"

definition queue_event_types :: "string list" where
  "queue_event_types =
     [''request_enqueued'', ''request_dequeued'', ''queue_full'', ''queue_timeout'', ''queue_removed'']"

definition scheduler_event_types :: "string list" where
  "scheduler_event_types =
     [''request_selected'', ''request_skipped'', ''scheduler_cycle_started'',
      ''scheduler_cycle_completed'', ''scheduler_failure'']"

definition batch_event_types :: "string list" where
  "batch_event_types =
     [''batch_created'', ''batch_admission'', ''batch_full'', ''request_added_to_batch'',
      ''request_removed_from_batch'', ''batch_completed'', ''batch_failed'']"

definition backend_event_types :: "string list" where
  "backend_event_types =
     [''batch_submitted'', ''batch_accepted'', ''batch_rejected'', ''backend_selected'',
      ''backend_registered'']"

definition filter_events :: "trace_event list \<Rightarrow> string list \<Rightarrow> trace_event list" where
  "filter_events es allowed = filter (\<lambda>e. te_event_type e \<in> set allowed) es"

text \<open>\<open>extra.get(k)\<close> where the value is a text or missing.\<close>

definition extra_text :: "string \<Rightarrow> extra \<Rightarrow> string option" where
  "extra_text k x = (case dict_get x k of Some (X_STR s) \<Rightarrow> Some s | _ \<Rightarrow> None)"

definition extract_lifecycle_transitions :: "trace_event list \<Rightarrow> transition_snapshot list" where
  "extract_lifecycle_transitions es =
     map (\<lambda>e. \<lparr>ts_event_type = te_event_type e, ts_from_state = extra_text ''from_state'' (te_extra e),
              ts_to_state = or_else (extra_text ''to_state'' (te_extra e)) (te_lifecycle_state e),
              ts_timestamp = te_timestamp e\<rparr>)
       (filter_events es lifecycle_event_types)"

record capture_args =
  ca_submit :: submit_request
  ca_state :: string
  ca_failure_reason :: "string option"
  ca_failure_message :: "string option"
  ca_batch_id :: "uuid option"
  ca_backend_id :: "string option"
  ca_source_request_id :: "uuid option"
  ca_replay_id :: "uuid option"
  ca_completion :: "inference_completion_record option"
  ca_stream_metrics :: "streaming_metrics_record option"

definition capture_execution_record ::
  "datetime \<Rightarrow> datetime \<Rightarrow> capture_args \<Rightarrow> trace_store \<Rightarrow> execution_record" where
  "capture_execution_record now captured a st =
     (let r = ir_request_id (sr_inference_request (ca_submit a));
          timeline = get_request_timeline now r st;
          es0 = (case timeline of None \<Rightarrow> [] | Some t \<Rightarrow> tl_events t);
          es = (case get_request_trace r st of
                  None \<Rightarrow> es0 | Some t \<Rightarrow> if es0 = [] then sort_key te_timestamp (rt_events t) else es0)
      in \<lparr>xr_request_id = r, xr_correlation_id = rc_trace_id (sr_request_context (ca_submit a)),
          xr_captured_at = captured, xr_payload = from_submit (ca_submit a),
          xr_lifecycle_transitions = extract_lifecycle_transitions es,
          xr_queue_events = filter_events es queue_event_types,
          xr_scheduler_events = filter_events es scheduler_event_types,
          xr_batch_events = filter_events es batch_event_types,
          xr_backend_events = filter_events es backend_event_types,
          xr_failures = get_request_failures r st,
          xr_terminal_outcome =
            \<lparr>to_state = ca_state a, to_failure_reason = ca_failure_reason a,
             to_failure_message = ca_failure_message a, to_batch_id = ca_batch_id a,
             to_backend_id = ca_backend_id a\<rparr>,
          xr_event_timeline = es, xr_replay_id = ca_replay_id a,
          xr_source_request_id =
            (case ca_source_request_id a of None \<Rightarrow> Some r | Some i \<Rightarrow> Some i),
          xr_completion = ca_completion a, xr_stream_metrics = ca_stream_metrics a\<rparr>)"

text \<open>\<open>ExecutionTerminal\<close> of an entry with its completion and stream metrics.\<close>

definition terminal_of_entry :: "registered_request \<Rightarrow> capture_args" where
  "terminal_of_entry e =
     \<lparr>ca_submit = re_submit e, ca_state = request_state_value (re_state e),
      ca_failure_reason = map_option failure_reason_value (re_failure_reason e),
      ca_failure_message = re_failure_message e, ca_batch_id = re_batch_id e,
      ca_backend_id = re_backend_id e, ca_source_request_id = None, ca_replay_id = None,
      ca_completion = re_completion e, ca_stream_metrics = re_stream_metrics e\<rparr>"

section \<open>Comparison (replay/comparison.py)\<close>

datatype difference_kind =
    DK_LIFECYCLE | DK_SCHEDULER | DK_BATCH | DK_BACKEND | DK_TERMINAL | DK_EVENT_SEQUENCE

fun difference_kind_value :: "difference_kind \<Rightarrow> string" where
  "difference_kind_value DK_LIFECYCLE = ''lifecycle''"
| "difference_kind_value DK_SCHEDULER = ''scheduler''"
| "difference_kind_value DK_BATCH = ''batch''"
| "difference_kind_value DK_BACKEND = ''backend''"
| "difference_kind_value DK_TERMINAL = ''terminal''"
| "difference_kind_value DK_EVENT_SEQUENCE = ''event_sequence''"

record execution_difference =
  xd_kind :: difference_kind
  xd_field :: string
  xd_original :: "string option"
  xd_replay :: "string option"
  xd_detail :: "string option"

record execution_comparison =
  xc_original_request_id :: uuid
  xc_replay_request_id :: uuid
  xc_generated_at :: datetime
  xc_terminal_state_match :: bool
  xc_differences :: "execution_difference list"
  xc_original_terminal_state :: string
  xc_replay_terminal_state :: string

definition comparison_matches :: "execution_comparison \<Rightarrow> bool" where
  "comparison_matches c \<longleftrightarrow> xc_differences c = []"

fun join :: "string \<Rightarrow> string list \<Rightarrow> string" where
  "join sep [] = []"
| "join sep [x] = x"
| "join sep (x # y # zs) = x @ sep @ join sep (y # zs)"

definition difference ::
  "difference_kind \<Rightarrow> string \<Rightarrow> string option \<Rightarrow> string option \<Rightarrow> string option \<Rightarrow> execution_difference list"
  where
  "difference k f a b d =
     [\<lparr>xd_kind = k, xd_field = f, xd_original = a, xd_replay = b, xd_detail = d\<rparr>]"

definition compare_terminal :: "execution_record \<Rightarrow> execution_record \<Rightarrow> execution_difference list" where
  "compare_terminal a b =
     (let x = xr_terminal_outcome a; y = xr_terminal_outcome b in
      (if to_state x \<noteq> to_state y
       then difference DK_TERMINAL ''state'' (Some (to_state x)) (Some (to_state y)) None else [])
      @ (if to_failure_reason x \<noteq> to_failure_reason y
         then difference DK_TERMINAL ''failure_reason'' (to_failure_reason x) (to_failure_reason y) None
         else [])
      @ (if to_backend_id x \<noteq> to_backend_id y
         then difference DK_TERMINAL ''backend_id'' (to_backend_id x) (to_backend_id y) None else []))"

definition transition_path :: "execution_record \<Rightarrow> string list" where
  "transition_path a =
     map (\<lambda>t. if truthy (ts_to_state t) then the (ts_to_state t) else ts_event_type t)
       (xr_lifecycle_transitions a)"

text \<open>\<open>sep.join(xs) or None\<close>\<close>

definition joined :: "string \<Rightarrow> string list \<Rightarrow> string option" where
  "joined sep xs = (if join sep xs = [] then None else Some (join sep xs))"

definition compare_lifecycle :: "execution_record \<Rightarrow> execution_record \<Rightarrow> execution_difference list" where
  "compare_lifecycle a b =
     (let p = transition_path a; q = transition_path b in
      if p \<noteq> q
      then difference DK_LIFECYCLE ''transition_path'' (if p = [] then None else Some (join '' -> '' p))
             (if q = [] then None else Some (join '' -> '' q)) None
      else [])"

definition compare_event_sets ::
  "difference_kind \<Rightarrow> string \<Rightarrow> trace_event list \<Rightarrow> trace_event list \<Rightarrow> execution_difference list" where
  "compare_event_sets k f es fs =
     (let p = map te_event_type es; q = map te_event_type fs in
      if p \<noteq> q then difference k f (joined '','' p) (joined '','' q) None else [])"

definition execution_components :: "runtime_component set" where
  "execution_components = {RT_CONTROL_PLANE, RT_SCHEDULER, RT_ADAPTER, RT_BACKEND}"

definition execution_event_signature :: "trace_event list \<Rightarrow> string list" where
  "execution_event_signature es =
     map (\<lambda>e. runtime_component_value (te_component e) @ '':'' @ te_event_type e)
       (filter (\<lambda>e. te_component e \<in> execution_components) es)"

definition compare_event_sequence ::
  "trace_event list \<Rightarrow> trace_event list \<Rightarrow> execution_difference list" where
  "compare_event_sequence es fs =
     (let p = execution_event_signature es; q = execution_event_signature fs in
      if p \<noteq> q
      then difference DK_EVENT_SEQUENCE ''execution_timeline'' (joined '','' p) (joined '','' q)
             (Some (''original='' @ show_nat (length p) @ '' replay='' @ show_nat (length q)))
      else [])"

definition compare_executions ::
  "datetime \<Rightarrow> execution_record \<Rightarrow> execution_record \<Rightarrow> execution_comparison" where
  "compare_executions now a b =
     \<lparr>xc_original_request_id = xr_request_id a, xc_replay_request_id = xr_request_id b,
      xc_generated_at = now,
      xc_terminal_state_match =
        (to_state (xr_terminal_outcome a) = to_state (xr_terminal_outcome b)),
      xc_differences =
        compare_terminal a b @ compare_lifecycle a b
        @ compare_event_sets DK_SCHEDULER ''scheduler_events'' (xr_scheduler_events a) (xr_scheduler_events b)
        @ compare_event_sets DK_BATCH ''batch_events'' (xr_batch_events a) (xr_batch_events b)
        @ compare_event_sets DK_BACKEND ''backend_events'' (xr_backend_events a) (xr_backend_events b)
        @ compare_event_sequence (xr_event_timeline a) (xr_event_timeline b),
      xc_original_terminal_state = to_state (xr_terminal_outcome a),
      xc_replay_terminal_state = to_state (xr_terminal_outcome b)\<rparr>"

section \<open>Reconstruction (replay/reconstruction.py)\<close>

record reconstructed_execution =
  rx_request_id :: uuid
  rx_correlation_id :: string
  rx_payload :: payload_snapshot
  rx_lifecycle_history :: "transition_snapshot list"
  rx_scheduler_decisions :: "trace_event list"
  rx_batch_history :: "trace_event list"
  rx_backend_interactions :: "trace_event list"
  rx_queue_events :: "trace_event list"
  rx_failures :: "trace_failure list"
  rx_terminal_outcome :: "terminal_outcome option"
  rx_event_timeline :: "trace_event list"
  rx_captured_at :: "datetime option"

definition infer_terminal_outcome ::
  "trace_event list \<Rightarrow> trace_failure list \<Rightarrow> terminal_outcome option" where
  "infer_terminal_outcome es fs =
     (case List.find (\<lambda>e. te_lifecycle_state e \<in>
              {Some ''completed'', Some ''failed'', Some ''rejected'', Some ''timed_out''}) (rev es) of
        None \<Rightarrow> None
      | Some e \<Rightarrow> Some
          \<lparr>to_state = the (te_lifecycle_state e),
           to_failure_reason = (if fs = [] then None else Some (tf_failure_type (last fs))),
           to_failure_message = (if fs = [] then None else Some (tf_failure_reason (last fs))),
           to_batch_id = te_batch_id e, to_backend_id = te_backend_id e\<rparr>)"

definition empty_payload :: "uuid \<Rightarrow> string \<Rightarrow> payload_snapshot" where
  "empty_payload r correlation_id =
     \<lparr>ps_inference_request = [(''request_id'', PV_Str r)],
      ps_request_context = [(''request_id'', PV_Str r), (''trace_id'', PV_Str correlation_id)]\<rparr>"

definition reconstruct_from_record :: "execution_record \<Rightarrow> reconstructed_execution" where
  "reconstruct_from_record x =
     \<lparr>rx_request_id = xr_request_id x, rx_correlation_id = xr_correlation_id x,
      rx_payload = xr_payload x, rx_lifecycle_history = xr_lifecycle_transitions x,
      rx_scheduler_decisions = xr_scheduler_events x, rx_batch_history = xr_batch_events x,
      rx_backend_interactions = xr_backend_events x, rx_queue_events = xr_queue_events x,
      rx_failures = xr_failures x, rx_terminal_outcome = Some (xr_terminal_outcome x),
      rx_event_timeline = xr_event_timeline x, rx_captured_at = Some (xr_captured_at x)\<rparr>"

definition reconstruct_from_trace ::
  "datetime \<Rightarrow> uuid \<Rightarrow> trace_store \<Rightarrow> reconstructed_execution option" where
  "reconstruct_from_trace now r st =
     (case get_request_trace r st of
        None \<Rightarrow> None
      | Some t \<Rightarrow>
          (let es = (case get_request_timeline now r st of
                       None \<Rightarrow> rt_events t | Some l \<Rightarrow> tl_events l);
               fs = get_request_failures r st;
               correlation_id = tc_correlation_id (rt_context t)
           in Some
             \<lparr>rx_request_id = r, rx_correlation_id = correlation_id,
              rx_payload = empty_payload r correlation_id,
              rx_lifecycle_history = extract_lifecycle_transitions es,
              rx_scheduler_decisions = filter_events es scheduler_event_types,
              rx_batch_history = filter_events es batch_event_types,
              rx_backend_interactions = filter_events es backend_event_types,
              rx_queue_events = filter_events es queue_event_types, rx_failures = fs,
              rx_terminal_outcome = infer_terminal_outcome es fs, rx_event_timeline = es,
              rx_captured_at = None\<rparr>))"

text \<open>\<open>found\<close> is what the execution store, if there is one, answers for the request.\<close>

definition reconstruct_request ::
  "datetime \<Rightarrow> uuid \<Rightarrow> execution_record option \<Rightarrow> trace_store option \<Rightarrow> reconstructed_execution option"
  where
  "reconstruct_request now r found inspector =
     (case found of
        Some x \<Rightarrow> Some (reconstruct_from_record x)
      | None \<Rightarrow> (case inspector of None \<Rightarrow> None | Some st \<Rightarrow> reconstruct_from_trace now r st))"

end
