(* ===== verification/Serialization.thy ===== *)
theory Serialization
  imports Execution_Records
begin

text \<open>
  The records of the database (\<open>persistence/models.py\<close>) and the dictionaries they are written as
  and read from (\<open>persistence/serialization.py\<close>). Every pair of functions is a \<open>codec\<close>.
\<close>

section \<open>What pydantic checks\<close>

text \<open>
  \<open>model_validate\<close> of the strict models is pydantic's: an argument of the functions that call it.
\<close>

record validators =
  val_completion :: "pyval \<Rightarrow> inference_completion_record decoded"
  val_stream_metrics :: "pyval \<Rightarrow> streaming_metrics_record decoded"
  val_inference_request :: "pyval \<Rightarrow> inference_request decoded"
  val_request_context :: "pyval \<Rightarrow> request_context decoded"

definition dump_completion :: "inference_completion_record \<Rightarrow> pyval" where
  "dump_completion c = PV_Dict
     [(''request_id'', PV_Uuid (ic_request_id c)), (''backend_id'', PV_Str (ic_backend_id c)),
      (''generated_text'', PV_Str (ic_generated_text c)), (''prompt_tokens'', PV_Int (ic_prompt_tokens c)),
      (''completion_tokens'', PV_Int (ic_completion_tokens c)),
      (''total_tokens'', PV_Int (ic_total_tokens c)), (''finish_reason'', opt_str (ic_finish_reason c)),
      (''completed_at'', PV_Time (ic_completed_at c)),
      (''execution_duration_ms'', opt_py PV_Float (ic_execution_duration_ms c))]"

definition dump_stream_metrics :: "streaming_metrics_record \<Rightarrow> pyval" where
  "dump_stream_metrics m = PV_Dict
     [(''stream_id'', PV_Uuid (sm_stream_id m)), (''request_id'', PV_Uuid (sm_request_id m)),
      (''ttft_ms'', opt_py PV_Float (sm_ttft_ms m)), (''itl_ms_p50'', opt_py PV_Float (sm_itl_ms_p50 m)),
      (''itl_ms_p99'', opt_py PV_Float (sm_itl_ms_p99 m)), (''token_count'', PV_Int (sm_token_count m)),
      (''generated_text'', PV_Str (sm_generated_text m)),
      (''completed_at'', opt_py PV_Time (sm_completed_at m)), (''stream_state'', PV_Str (sm_stream_state m))]"

section \<open>Events, failures and outcomes\<close>

definition trace_event_to_dict :: "trace_event \<Rightarrow> pyval" where
  "trace_event_to_dict e = PV_Dict
     [(''request_id'', PV_Str (te_request_id e)), (''correlation_id'', PV_Str (te_correlation_id e)),
      (''timestamp'', PV_Str (isoformat (te_timestamp e))),
      (''component'', PV_Str (runtime_component_value (te_component e))),
      (''event_type'', PV_Str (te_event_type e)), (''batch_id'', opt_str (te_batch_id e)),
      (''backend_id'', opt_str (te_backend_id e)), (''lifecycle_state'', opt_str (te_lifecycle_state e)),
      (''decision_reason'', opt_str (te_decision_reason e)), (''extra'', extra_to_py (te_extra e))]"

definition component_field :: "string \<Rightarrow> pyval \<Rightarrow> runtime_component decoded" where
  "component_field = enum_field runtime_component_value runtime_components"

definition trace_event_from_dict :: "pyval \<Rightarrow> trace_event decoded" where
  "trace_event_from_dict v =
     bind_result (uuid_field ''request_id'' v) (\<lambda>request_id.
     bind_result (str_field ''correlation_id'' v) (\<lambda>correlation_id.
     bind_result (time_field ''timestamp'' v) (\<lambda>timestamp.
     bind_result (component_field ''component'' v) (\<lambda>component.
     bind_result (str_field ''event_type'' v) (\<lambda>event_type.
     bind_result (opt_str_field ''batch_id'' v) (\<lambda>batch_id.
     bind_result (opt_str_field ''backend_id'' v) (\<lambda>backend_id.
     bind_result (opt_str_field ''lifecycle_state'' v) (\<lambda>lifecycle_state.
     bind_result (opt_str_field ''decision_reason'' v) (\<lambda>decision_reason.
     bind_result (extra_field ''extra'' v) (\<lambda>extra.
     Inr \<lparr>te_request_id = request_id, te_correlation_id = correlation_id, te_timestamp = timestamp,
          te_component = component, te_event_type = event_type, te_batch_id = batch_id,
          te_backend_id = backend_id, te_lifecycle_state = lifecycle_state,
          te_decision_reason = decision_reason, te_extra = extra\<rparr>))))))))))"

definition failure_record_to_dict :: "trace_failure \<Rightarrow> pyval" where
  "failure_record_to_dict f = PV_Dict
     [(''failure_type'', PV_Str (tf_failure_type f)),
      (''failure_owner'', PV_Str (runtime_component_value (tf_failure_owner f))),
      (''failure_component'', PV_Str (tf_failure_component f)),
      (''failure_timestamp'', PV_Str (isoformat (tf_failure_timestamp f))),
      (''failure_reason'', PV_Str (tf_failure_reason f)), (''failure_state'', PV_Str (tf_failure_state f)),
      (''request_id'', PV_Str (tf_request_id f)), (''correlation_id'', PV_Str (tf_correlation_id f)),
      (''batch_id'', opt_str (tf_batch_id f)), (''backend_id'', opt_str (tf_backend_id f))]"

definition failure_record_from_dict :: "pyval \<Rightarrow> trace_failure decoded" where
  "failure_record_from_dict v =
     bind_result (str_field ''failure_type'' v) (\<lambda>failure_type.
     bind_result (component_field ''failure_owner'' v) (\<lambda>failure_owner.
     bind_result (str_field ''failure_component'' v) (\<lambda>failure_component.
     bind_result (time_field ''failure_timestamp'' v) (\<lambda>failure_timestamp.
     bind_result (str_field ''failure_reason'' v) (\<lambda>failure_reason.
     bind_result (str_field ''failure_state'' v) (\<lambda>failure_state.
     bind_result (uuid_field ''request_id'' v) (\<lambda>request_id.
     bind_result (str_field ''correlation_id'' v) (\<lambda>correlation_id.
     bind_result (opt_str_field ''batch_id'' v) (\<lambda>batch_id.
     bind_result (opt_str_field ''backend_id'' v) (\<lambda>backend_id.
     Inr \<lparr>tf_failure_type = failure_type, tf_failure_owner = failure_owner,
          tf_failure_component = failure_component, tf_failure_timestamp = failure_timestamp,
          tf_failure_reason = failure_reason, tf_failure_state = failure_state,
          tf_request_id = request_id, tf_correlation_id = correlation_id, tf_batch_id = batch_id,
          tf_backend_id = backend_id\<rparr>))))))))))"

definition lifecycle_snapshot_to_dict :: "transition_snapshot \<Rightarrow> pyval" where
  "lifecycle_snapshot_to_dict t = PV_Dict
     [(''event_type'', PV_Str (ts_event_type t)), (''from_state'', opt_str (ts_from_state t)),
      (''to_state'', opt_str (ts_to_state t)), (''timestamp'', PV_Str (isoformat (ts_timestamp t)))]"

definition lifecycle_snapshot_from_dict :: "pyval \<Rightarrow> transition_snapshot decoded" where
  "lifecycle_snapshot_from_dict v =
     bind_result (str_field ''event_type'' v) (\<lambda>event_type.
     bind_result (opt_str_field ''from_state'' v) (\<lambda>from_state.
     bind_result (opt_str_field ''to_state'' v) (\<lambda>target.
     bind_result (time_field ''timestamp'' v) (\<lambda>timestamp.
     Inr \<lparr>ts_event_type = event_type, ts_from_state = from_state, ts_to_state = target,
          ts_timestamp = timestamp\<rparr>))))"

definition terminal_outcome_to_dict :: "terminal_outcome \<Rightarrow> pyval" where
  "terminal_outcome_to_dict x = PV_Dict
     [(''state'', PV_Str (to_state x)), (''failure_reason'', opt_str (to_failure_reason x)),
      (''failure_message'', opt_str (to_failure_message x)), (''batch_id'', opt_str (to_batch_id x)),
      (''backend_id'', opt_str (to_backend_id x))]"

definition terminal_outcome_from_dict :: "pyval \<Rightarrow> terminal_outcome decoded" where
  "terminal_outcome_from_dict v =
     bind_result (str_field ''state'' v) (\<lambda>st.
     bind_result (opt_str_field ''failure_reason'' v) (\<lambda>failure_reason.
     bind_result (opt_str_field ''failure_message'' v) (\<lambda>failure_message.
     bind_result (opt_str_field ''batch_id'' v) (\<lambda>batch_id.
     bind_result (opt_str_field ''backend_id'' v) (\<lambda>backend_id.
     Inr \<lparr>to_state = st, to_failure_reason = failure_reason, to_failure_message = failure_message,
          to_batch_id = batch_id, to_backend_id = backend_id\<rparr>)))))"

section \<open>Payloads\<close>

fun as_dict :: "pyval \<Rightarrow> (string, pyval) dict decoded" where
  "as_dict (PV_Dict d) = Inr d"
| "as_dict _ = Inl CE_TypeError"

definition payload_snapshot_to_dict :: "payload_snapshot \<Rightarrow> pyval" where
  "payload_snapshot_to_dict p = PV_Dict
     [(''inference_request'', PV_Dict (ps_inference_request p)),
      (''request_context'', PV_Dict (ps_request_context p))]"

definition payload_snapshot_from_dict :: "pyval \<Rightarrow> payload_snapshot decoded" where
  "payload_snapshot_from_dict v =
     bind_result (bind_result (get_item ''inference_request'' v) as_dict) (\<lambda>r.
     bind_result (bind_result (get_item ''request_context'' v) as_dict) (\<lambda>c.
     Inr \<lparr>ps_inference_request = r, ps_request_context = c\<rparr>))"

text \<open>A dictionary of a payload after it has been written and read.\<close>

definition reread_dict :: "(string, pyval) dict \<Rightarrow> (string, pyval) dict" where
  "reread_dict d = sort_key fst (map (map_prod id (\<lambda>v. reread v)) d)"

definition reread_payload :: "payload_snapshot \<Rightarrow> payload_snapshot" where
  "reread_payload p = \<lparr>ps_inference_request = reread_dict (ps_inference_request p),
                       ps_request_context = reread_dict (ps_request_context p)\<rparr>"

section \<open>Execution records\<close>

definition opt_uuid_str :: "uuid option \<Rightarrow> pyval" where
  "opt_uuid_str x = (case x of None \<Rightarrow> PV_None | Some u \<Rightarrow> PV_Str u)"

definition execution_record_to_dict :: "execution_record \<Rightarrow> pyval" where
  "execution_record_to_dict x = PV_Dict
     [(''request_id'', PV_Str (xr_request_id x)), (''correlation_id'', PV_Str (xr_correlation_id x)),
      (''captured_at'', PV_Str (isoformat (xr_captured_at x))),
      (''payload'', payload_snapshot_to_dict (xr_payload x)),
      (''lifecycle_transitions'', PV_List (map lifecycle_snapshot_to_dict (xr_lifecycle_transitions x))),
      (''queue_events'', PV_List (map trace_event_to_dict (xr_queue_events x))),
      (''scheduler_events'', PV_List (map trace_event_to_dict (xr_scheduler_events x))),
      (''batch_events'', PV_List (map trace_event_to_dict (xr_batch_events x))),
      (''backend_events'', PV_List (map trace_event_to_dict (xr_backend_events x))),
      (''failures'', PV_List (map failure_record_to_dict (xr_failures x))),
      (''terminal_outcome'', terminal_outcome_to_dict (xr_terminal_outcome x)),
      (''event_timeline'', PV_List (map trace_event_to_dict (xr_event_timeline x))),
      (''replay_id'', opt_uuid_str (xr_replay_id x)),
      (''source_request_id'', opt_uuid_str (xr_source_request_id x)),
      (''completion'', opt_py dump_completion (xr_completion x)),
      (''stream_metrics'', opt_py dump_stream_metrics (xr_stream_metrics x))]"

text \<open>\<open>_completion_from_dict\<close> and \<open>_stream_metrics_from_dict\<close>: what is false is \<open>None\<close>.\<close>

definition validated_field :: "string \<Rightarrow> (pyval \<Rightarrow> 'a decoded) \<Rightarrow> pyval \<Rightarrow> 'a option decoded" where
  "validated_field k validate v =
     bind_result (get_or_none k v) (\<lambda>x.
       if \<not> py_truthy x then Inr None else bind_result (validate x) (\<lambda>c. Inr (Some c)))"

definition execution_record_from_dict :: "validators \<Rightarrow> pyval \<Rightarrow> execution_record decoded" where
  "execution_record_from_dict py v =
     bind_result (uuid_field ''request_id'' v) (\<lambda>request_id.
     bind_result (str_field ''correlation_id'' v) (\<lambda>correlation_id.
     bind_result (time_field ''captured_at'' v) (\<lambda>captured_at.
     bind_result (bind_result (get_item ''payload'' v) payload_snapshot_from_dict) (\<lambda>payload.
     bind_result (list_field ''lifecycle_transitions'' lifecycle_snapshot_from_dict v) (\<lambda>transitions.
     bind_result (list_field ''queue_events'' trace_event_from_dict v) (\<lambda>queue_events.
     bind_result (list_field ''scheduler_events'' trace_event_from_dict v) (\<lambda>scheduler_events.
     bind_result (list_field ''batch_events'' trace_event_from_dict v) (\<lambda>batch_events.
     bind_result (list_field ''backend_events'' trace_event_from_dict v) (\<lambda>backend_events.
     bind_result (list_field ''failures'' failure_record_from_dict v) (\<lambda>failures.
     bind_result (bind_result (get_item ''terminal_outcome'' v) terminal_outcome_from_dict) (\<lambda>terminal.
     bind_result (list_field ''event_timeline'' trace_event_from_dict v) (\<lambda>timeline.
     bind_result (opt_uuid_field ''replay_id'' v) (\<lambda>replay_id.
     bind_result (opt_uuid_field ''source_request_id'' v) (\<lambda>source_request_id.
     bind_result (validated_field ''completion'' (val_completion py) v) (\<lambda>completion.
     bind_result (validated_field ''stream_metrics'' (val_stream_metrics py) v) (\<lambda>stream_metrics.
     Inr \<lparr>xr_request_id = request_id, xr_correlation_id = correlation_id,
          xr_captured_at = captured_at, xr_payload = payload,
          xr_lifecycle_transitions = transitions, xr_queue_events = queue_events,
          xr_scheduler_events = scheduler_events, xr_batch_events = batch_events,
          xr_backend_events = backend_events, xr_failures = failures,
          xr_terminal_outcome = terminal, xr_event_timeline = timeline, xr_replay_id = replay_id,
          xr_source_request_id = source_request_id, xr_completion = completion,
          xr_stream_metrics = stream_metrics\<rparr>))))))))))))))))"

section \<open>The codecs\<close>

definition event_ok :: "trace_event \<Rightarrow> bool" where
  "event_ok e \<longleftrightarrow> uuid_text (te_request_id e) \<and> date_ok (te_timestamp e)"

definition stored_event :: "trace_event \<Rightarrow> trace_event" where
  "stored_event e = e\<lparr>te_extra := sort_dict (te_extra e)\<rparr>"

definition failure_ok :: "trace_failure \<Rightarrow> bool" where
  "failure_ok f \<longleftrightarrow> uuid_text (tf_request_id f) \<and> date_ok (tf_failure_timestamp f)"

lemma parse_uuid_ok [simp]: "uuid_text u \<Longrightarrow> parse_uuid u = Inr u"
  by (simp add: parse_uuid_def)

interpretation events: codec trace_event_to_dict trace_event_from_dict event_ok stored_event
  by unfold_locales
    (simp add: trace_event_to_dict_def trace_event_from_dict_def event_ok_def stored_event_def
      component_field_def field_defs get_item_reread get_or_none_reread extra_field_def)

interpretation failures: codec failure_record_to_dict failure_record_from_dict failure_ok "\<lambda>f. f"
  by unfold_locales
    (simp add: failure_record_to_dict_def failure_record_from_dict_def failure_ok_def
      component_field_def field_defs get_item_reread get_or_none_reread)

interpretation transitions: codec lifecycle_snapshot_to_dict lifecycle_snapshot_from_dict
    "\<lambda>t. date_ok (ts_timestamp t)" "\<lambda>t. t"
  by unfold_locales
    (simp add: lifecycle_snapshot_to_dict_def lifecycle_snapshot_from_dict_def
      field_defs get_item_reread get_or_none_reread)

interpretation outcomes: codec terminal_outcome_to_dict terminal_outcome_from_dict "\<lambda>x. True" "\<lambda>x. x"
  by unfold_locales
    (simp add: terminal_outcome_to_dict_def terminal_outcome_from_dict_def
      field_defs get_item_reread get_or_none_reread)

lemma as_dict_reread [simp]: "as_dict (reread (PV_Dict d)) = Inr (reread_dict d)"
  by (simp add: reread_Dict reread_dict_def)

interpretation payloads: codec payload_snapshot_to_dict payload_snapshot_from_dict "\<lambda>p. True" reread_payload
  by unfold_locales
    (simp add: payload_snapshot_to_dict_def payload_snapshot_from_dict_def get_item_reread
      reread_payload_def)

lemmas codec_rounds = events.round failures.round transitions.round outcomes.round payloads.round
  events.rounds failures.rounds transitions.rounds

definition opt_uuid_ok :: "uuid option \<Rightarrow> bool" where
  "opt_uuid_ok x \<longleftrightarrow> (case x of None \<Rightarrow> True | Some u \<Rightarrow> uuid_text u)"

text \<open>
  The records whose ids and dates are well-formed and that carry no completion or stream metrics.
\<close>

definition storable :: "execution_record \<Rightarrow> bool" where
  "storable x \<longleftrightarrow>
     uuid_text (xr_request_id x) \<and> date_ok (xr_captured_at x) \<and>
     list_all (\<lambda>t. date_ok (ts_timestamp t)) (xr_lifecycle_transitions x) \<and>
     list_all event_ok (xr_queue_events x) \<and> list_all event_ok (xr_scheduler_events x) \<and>
     list_all event_ok (xr_batch_events x) \<and> list_all event_ok (xr_backend_events x) \<and>
     list_all failure_ok (xr_failures x) \<and> list_all event_ok (xr_event_timeline x) \<and>
     opt_uuid_ok (xr_replay_id x) \<and> opt_uuid_ok (xr_source_request_id x)"

definition stored_record :: "execution_record \<Rightarrow> execution_record" where
  "stored_record x =
     x\<lparr>xr_payload := reread_payload (xr_payload x),
       xr_queue_events := map stored_event (xr_queue_events x),
       xr_scheduler_events := map stored_event (xr_scheduler_events x),
       xr_batch_events := map stored_event (xr_batch_events x),
       xr_backend_events := map stored_event (xr_backend_events x),
       xr_event_timeline := map stored_event (xr_event_timeline x)\<rparr>"

lemma opt_uuid_str_reread [simp]: "reread (opt_uuid_str x) = opt_uuid_str x"
  by (cases x) (simp_all add: opt_uuid_str_def)

lemma opt_uuid_round:
  "opt_uuid_ok x \<Longrightarrow>
     (if py_truthy (opt_uuid_str x)
      then bind_result (as_str (opt_uuid_str x)) (\<lambda>s. bind_result (parse_uuid s) (\<lambda>u. Inr (Some u)))
      else Inr None) = Inr x"
  by (cases x) (auto simp: opt_uuid_str_def opt_uuid_ok_def uuid_text_def parse_uuid_def)

interpretation records: codec execution_record_to_dict "execution_record_from_dict py"
    "\<lambda>x. storable x \<and> xr_completion x = None \<and> xr_stream_metrics x = None" stored_record
  for py
proof unfold_locales
  fix x
  assume ok: "storable x \<and> xr_completion x = None \<and> xr_stream_metrics x = None"
  show "execution_record_from_dict py (reread (execution_record_to_dict x)) = Inr (stored_record x)"
    using ok unfolding execution_record_from_dict_def execution_record_to_dict_def storable_def
    by (simp add: field_defs validated_field_def opt_py_def get_item_reread get_or_none_reread
        codec_rounds comp_def opt_uuid_round stored_record_def)
qed

end
