(* ===== verification/Persistence_Models.thy ===== *)
theory Persistence_Models
  imports Serialization
begin

text \<open>
  The records of the tables (\<open>persistence/models.py\<close>), how they are made from an execution record,
  a replay and a comparison, and their dictionaries (\<open>persistence/serialization.py\<close>).
\<close>

section \<open>Records\<close>

datatype persisted_category =
    FC_ADMISSION | FC_QUEUE | FC_SCHEDULER | FC_BATCH | FC_BACKEND | FC_LIFECYCLE | FC_REPLAY | FC_UNKNOWN

fun persisted_category_value :: "persisted_category \<Rightarrow> string" where
  "persisted_category_value FC_ADMISSION = ''admission''"
| "persisted_category_value FC_QUEUE = ''queue''"
| "persisted_category_value FC_SCHEDULER = ''scheduler''"
| "persisted_category_value FC_BATCH = ''batch''"
| "persisted_category_value FC_BACKEND = ''backend''"
| "persisted_category_value FC_LIFECYCLE = ''lifecycle''"
| "persisted_category_value FC_REPLAY = ''replay''"
| "persisted_category_value FC_UNKNOWN = ''unknown''"

definition persisted_categories :: "persisted_category list" where
  "persisted_categories =
     [FC_ADMISSION, FC_QUEUE, FC_SCHEDULER, FC_BATCH, FC_BACKEND, FC_LIFECYCLE, FC_REPLAY, FC_UNKNOWN]"

lemma persisted_category_of [simp]:
  "enum_of persisted_category_value persisted_categories (persisted_category_value c) = Inr c"
  by (cases c) (simp_all add: enum_of_def persisted_categories_def)

datatype replay_outcome = RO_COMPLETED | RO_FAILED | RO_REJECTED | RO_TIMED_OUT | RO_ERROR

fun replay_outcome_value :: "replay_outcome \<Rightarrow> string" where
  "replay_outcome_value RO_COMPLETED = ''completed''"
| "replay_outcome_value RO_FAILED = ''failed''"
| "replay_outcome_value RO_REJECTED = ''rejected''"
| "replay_outcome_value RO_TIMED_OUT = ''timed_out''"
| "replay_outcome_value RO_ERROR = ''error''"

definition replay_outcomes :: "replay_outcome list" where
  "replay_outcomes = [RO_COMPLETED, RO_FAILED, RO_REJECTED, RO_TIMED_OUT, RO_ERROR]"

lemma replay_outcome_of [simp]:
  "enum_of replay_outcome_value replay_outcomes (replay_outcome_value c) = Inr c"
  by (cases c) (simp_all add: enum_of_def replay_outcomes_def)

definition replay_outcome_from_state :: "string \<Rightarrow> replay_outcome" where
  "replay_outcome_from_state s =
     (if s = ''completed'' then RO_COMPLETED
      else if s = ''rejected'' then RO_REJECTED
      else if s = ''timed_out'' then RO_TIMED_OUT
      else if s = ''failed'' then RO_FAILED
      else RO_ERROR)"

record request_metadata =
  rm_request_id :: uuid
  rm_correlation_id :: string
  rm_model :: "string option"
  rm_terminal_state :: string
  rm_captured_at :: datetime
  rm_payload :: payload_snapshot
  rm_terminal_outcome :: terminal_outcome

record lifecycle_transition =
  lt_request_id :: uuid
  lt_sequence_num :: nat
  lt_event_type :: string
  lt_from_state :: "string option"
  lt_to_state :: "string option"
  lt_timestamp :: datetime

record scheduler_decision_row =
  sdr_request_id :: uuid
  sdr_sequence_num :: nat
  sdr_event_type :: string
  sdr_decision_reason :: "string option"
  sdr_scheduler_cycle_id :: "string option"
  sdr_batch_id :: "string option"
  sdr_timestamp :: datetime
  sdr_details :: extra

record batch_decision_row =
  bdr_request_id :: uuid
  bdr_sequence_num :: nat
  bdr_event_type :: string
  bdr_batch_id :: "string option"
  bdr_decision_reason :: "string option"
  bdr_timestamp :: datetime
  bdr_details :: extra

record persisted_failure =
  pf_failure_id :: uuid
  pf_failure_category :: persisted_category
  pf_failure :: trace_failure

record span_metadata =
  sp_span_name :: string
  sp_component :: string
  sp_started_at :: "datetime option"
  sp_ended_at :: "datetime option"
  sp_attributes :: extra

record trace_summary =
  tsm_request_id :: uuid
  tsm_correlation_id :: string
  tsm_event_count :: nat
  tsm_failure_count :: nat
  tsm_stage_durations_ms :: "(string, rat option) dict"
  tsm_span_metadata :: "span_metadata list"
  tsm_captured_at :: datetime

record replay_execution =
  rpx_replay_id :: uuid
  rpx_source_request_id :: "uuid option"
  rpx_replay_request_id :: uuid
  rpx_outcome :: replay_outcome
  rpx_terminal_state :: string
  rpx_failure_reason :: "string option"
  rpx_failure_message :: "string option"
  rpx_started_at :: datetime
  rpx_completed_at :: datetime
  rpx_replay_events :: "string list"

record replay_comparison =
  rcp_comparison_id :: uuid
  rcp_original_request_id :: uuid
  rcp_replay_request_id :: uuid
  rcp_generated_at :: datetime
  rcp_terminal_state_match :: bool
  rcp_matches :: bool
  rcp_differences :: "(string, string option) dict list"

section \<open>How they are made\<close>

definition failure_category_from_record :: "trace_failure \<Rightarrow> persisted_category" where
  "failure_category_from_record f =
     (case tf_failure_owner f of
        RT_CONTROL_PLANE \<Rightarrow>
          if tf_failure_type f \<in> {''queue_full'', ''queue_timeout''} then FC_QUEUE
          else if tf_failure_type f \<in> {''admission_policy_failed'', ''request_rejected''} then FC_ADMISSION
          else FC_LIFECYCLE
      | RT_SCHEDULER \<Rightarrow> FC_SCHEDULER
      | RT_ADAPTER \<Rightarrow> FC_BACKEND
      | RT_BACKEND \<Rightarrow> FC_BACKEND
      | RT_REPLAY \<Rightarrow> FC_REPLAY
      | RT_GATEWAY \<Rightarrow> FC_UNKNOWN)"

definition lifecycle_transition_from_snapshot :: "uuid \<Rightarrow> nat \<Rightarrow> transition_snapshot \<Rightarrow> lifecycle_transition"
  where
  "lifecycle_transition_from_snapshot r i t =
     \<lparr>lt_request_id = r, lt_sequence_num = i, lt_event_type = ts_event_type t,
      lt_from_state = ts_from_state t, lt_to_state = ts_to_state t, lt_timestamp = ts_timestamp t\<rparr>"

definition scheduler_decision_from_event :: "uuid \<Rightarrow> nat \<Rightarrow> trace_event \<Rightarrow> scheduler_decision_row" where
  "scheduler_decision_from_event r i e =
     \<lparr>sdr_request_id = r, sdr_sequence_num = i, sdr_event_type = te_event_type e,
      sdr_decision_reason = te_decision_reason e,
      sdr_scheduler_cycle_id = extra_text ''scheduler_cycle_id'' (te_extra e),
      sdr_batch_id = te_batch_id e, sdr_timestamp = te_timestamp e, sdr_details = te_extra e\<rparr>"

definition batch_decision_from_event :: "uuid \<Rightarrow> nat \<Rightarrow> trace_event \<Rightarrow> batch_decision_row" where
  "batch_decision_from_event r i e =
     \<lparr>bdr_request_id = r, bdr_sequence_num = i, bdr_event_type = te_event_type e,
      bdr_batch_id = te_batch_id e, bdr_decision_reason = te_decision_reason e,
      bdr_timestamp = te_timestamp e, bdr_details = te_extra e\<rparr>"

definition persisted_failure_from_runtime :: "uuid \<Rightarrow> trace_failure \<Rightarrow> persisted_failure" where
  "persisted_failure_from_runtime failure_id f =
     \<lparr>pf_failure_id = failure_id, pf_failure_category = failure_category_from_record f, pf_failure = f\<rparr>"

text \<open>\<open>str(model)\<close> of the payload's model, which is a text.\<close>

definition request_metadata_from_record :: "execution_record \<Rightarrow> request_metadata" where
  "request_metadata_from_record x =
     \<lparr>rm_request_id = xr_request_id x, rm_correlation_id = xr_correlation_id x,
      rm_model = (case dict_get (ps_inference_request (xr_payload x)) ''model'' of
                    Some (PV_Str m) \<Rightarrow> Some m | _ \<Rightarrow> None),
      rm_terminal_state = to_state (xr_terminal_outcome x), rm_captured_at = xr_captured_at x,
      rm_payload = xr_payload x, rm_terminal_outcome = xr_terminal_outcome x\<rparr>"

definition replay_comparison_from_execution :: "execution_comparison \<Rightarrow> uuid \<Rightarrow> replay_comparison" where
  "replay_comparison_from_execution c i =
     \<lparr>rcp_comparison_id = i, rcp_original_request_id = xc_original_request_id c,
      rcp_replay_request_id = xc_replay_request_id c, rcp_generated_at = xc_generated_at c,
      rcp_terminal_state_match = xc_terminal_state_match c, rcp_matches = comparison_matches c,
      rcp_differences = map (\<lambda>d.
        [(''kind'', Some (difference_kind_value (xd_kind d))), (''field'', Some (xd_field d)),
         (''original'', xd_original d), (''replay'', xd_replay d), (''detail'', xd_detail d)])
        (xc_differences c)\<rparr>"

text \<open>\<open>trace_summary_from_timeline\<close> of \<open>sqlite/runtime_repository.py\<close>\<close>

definition opt_extra :: "string option \<Rightarrow> extra_value" where
  "opt_extra x = (case x of None \<Rightarrow> X_NONE | Some s \<Rightarrow> X_STR s)"

definition trace_summary_from_timeline :: "trace_timeline \<Rightarrow> nat \<Rightarrow> trace_summary" where
  "trace_summary_from_timeline l failure_count =
     \<lparr>tsm_request_id = tl_request_id l, tsm_correlation_id = tl_correlation_id l,
      tsm_event_count = length (tl_events l), tsm_failure_count = failure_count,
      tsm_stage_durations_ms = tl_stage_durations_ms l,
      tsm_span_metadata = map (\<lambda>e.
        \<lparr>sp_span_name = runtime_component_value (te_component e) @ '':'' @ te_event_type e,
         sp_component = runtime_component_value (te_component e),
         sp_started_at = Some (te_timestamp e), sp_ended_at = Some (te_timestamp e),
         sp_attributes = [(''batch_id'', opt_extra (te_batch_id e)),
           (''backend_id'', opt_extra (te_backend_id e)),
           (''lifecycle_state'', opt_extra (te_lifecycle_state e))]\<rparr>) (tl_events l),
      tsm_captured_at = tl_captured_at l\<rparr>"

section \<open>Dictionaries\<close>

definition request_metadata_to_dict :: "request_metadata \<Rightarrow> pyval" where
  "request_metadata_to_dict m = PV_Dict
     [(''request_id'', PV_Str (rm_request_id m)), (''correlation_id'', PV_Str (rm_correlation_id m)),
      (''model'', opt_str (rm_model m)), (''terminal_state'', PV_Str (rm_terminal_state m)),
      (''captured_at'', PV_Str (isoformat (rm_captured_at m))),
      (''payload'', payload_snapshot_to_dict (rm_payload m)),
      (''terminal_outcome'', terminal_outcome_to_dict (rm_terminal_outcome m))]"

definition request_metadata_from_dict :: "pyval \<Rightarrow> request_metadata decoded" where
  "request_metadata_from_dict v =
     bind_result (uuid_field ''request_id'' v) (\<lambda>request_id.
     bind_result (str_field ''correlation_id'' v) (\<lambda>correlation_id.
     bind_result (opt_str_field ''model'' v) (\<lambda>model.
     bind_result (str_field ''terminal_state'' v) (\<lambda>terminal_state.
     bind_result (time_field ''captured_at'' v) (\<lambda>captured_at.
     bind_result (bind_result (get_item ''payload'' v) payload_snapshot_from_dict) (\<lambda>payload.
     bind_result (bind_result (get_item ''terminal_outcome'' v) terminal_outcome_from_dict) (\<lambda>outcome.
     Inr \<lparr>rm_request_id = request_id, rm_correlation_id = correlation_id, rm_model = model,
          rm_terminal_state = terminal_state, rm_captured_at = captured_at, rm_payload = payload,
          rm_terminal_outcome = outcome\<rparr>)))))))"

text \<open>Sequence numbers and counts are never negative.\<close>

definition nat_field :: "string \<Rightarrow> pyval \<Rightarrow> nat decoded" where
  "nat_field k v = bind_result (int_field k v) (\<lambda>i. Inr (nat i))"

definition lifecycle_transition_to_dict :: "lifecycle_transition \<Rightarrow> pyval" where
  "lifecycle_transition_to_dict t = PV_Dict
     [(''request_id'', PV_Str (lt_request_id t)), (''sequence_num'', PV_Int (int (lt_sequence_num t))),
      (''event_type'', PV_Str (lt_event_type t)), (''from_state'', opt_str (lt_from_state t)),
      (''to_state'', opt_str (lt_to_state t)), (''timestamp'', PV_Str (isoformat (lt_timestamp t)))]"

definition lifecycle_transition_from_dict :: "pyval \<Rightarrow> lifecycle_transition decoded" where
  "lifecycle_transition_from_dict v =
     bind_result (uuid_field ''request_id'' v) (\<lambda>request_id.
     bind_result (nat_field ''sequence_num'' v) (\<lambda>sequence_num.
     bind_result (str_field ''event_type'' v) (\<lambda>event_type.
     bind_result (opt_str_field ''from_state'' v) (\<lambda>from_state.
     bind_result (opt_str_field ''to_state'' v) (\<lambda>target.
     bind_result (time_field ''timestamp'' v) (\<lambda>timestamp.
     Inr \<lparr>lt_request_id = request_id, lt_sequence_num = sequence_num, lt_event_type = event_type,
          lt_from_state = from_state, lt_to_state = target, lt_timestamp = timestamp\<rparr>))))))"

definition scheduler_decision_to_dict :: "scheduler_decision_row \<Rightarrow> pyval" where
  "scheduler_decision_to_dict d = PV_Dict
     [(''request_id'', PV_Str (sdr_request_id d)), (''sequence_num'', PV_Int (int (sdr_sequence_num d))),
      (''event_type'', PV_Str (sdr_event_type d)), (''decision_reason'', opt_str (sdr_decision_reason d)),
      (''scheduler_cycle_id'', opt_str (sdr_scheduler_cycle_id d)),
      (''batch_id'', opt_str (sdr_batch_id d)), (''timestamp'', PV_Str (isoformat (sdr_timestamp d))),
      (''details'', extra_to_py (sdr_details d))]"

definition scheduler_decision_from_dict :: "pyval \<Rightarrow> scheduler_decision_row decoded" where
  "scheduler_decision_from_dict v =
     bind_result (uuid_field ''request_id'' v) (\<lambda>request_id.
     bind_result (nat_field ''sequence_num'' v) (\<lambda>sequence_num.
     bind_result (str_field ''event_type'' v) (\<lambda>event_type.
     bind_result (opt_str_field ''decision_reason'' v) (\<lambda>decision_reason.
     bind_result (opt_str_field ''scheduler_cycle_id'' v) (\<lambda>cycle_id.
     bind_result (opt_str_field ''batch_id'' v) (\<lambda>batch_id.
     bind_result (time_field ''timestamp'' v) (\<lambda>timestamp.
     bind_result (extra_field ''details'' v) (\<lambda>details.
     Inr \<lparr>sdr_request_id = request_id, sdr_sequence_num = sequence_num, sdr_event_type = event_type,
          sdr_decision_reason = decision_reason, sdr_scheduler_cycle_id = cycle_id,
          sdr_batch_id = batch_id, sdr_timestamp = timestamp, sdr_details = details\<rparr>))))))))"

definition batch_decision_to_dict :: "batch_decision_row \<Rightarrow> pyval" where
  "batch_decision_to_dict d = PV_Dict
     [(''request_id'', PV_Str (bdr_request_id d)), (''sequence_num'', PV_Int (int (bdr_sequence_num d))),
      (''event_type'', PV_Str (bdr_event_type d)), (''batch_id'', opt_str (bdr_batch_id d)),
      (''decision_reason'', opt_str (bdr_decision_reason d)),
      (''timestamp'', PV_Str (isoformat (bdr_timestamp d))), (''details'', extra_to_py (bdr_details d))]"

definition batch_decision_from_dict :: "pyval \<Rightarrow> batch_decision_row decoded" where
  "batch_decision_from_dict v =
     bind_result (uuid_field ''request_id'' v) (\<lambda>request_id.
     bind_result (nat_field ''sequence_num'' v) (\<lambda>sequence_num.
     bind_result (str_field ''event_type'' v) (\<lambda>event_type.
     bind_result (opt_str_field ''batch_id'' v) (\<lambda>batch_id.
     bind_result (opt_str_field ''decision_reason'' v) (\<lambda>decision_reason.
     bind_result (time_field ''timestamp'' v) (\<lambda>timestamp.
     bind_result (extra_field ''details'' v) (\<lambda>details.
     Inr \<lparr>bdr_request_id = request_id, bdr_sequence_num = sequence_num, bdr_event_type = event_type,
          bdr_batch_id = batch_id, bdr_decision_reason = decision_reason, bdr_timestamp = timestamp,
          bdr_details = details\<rparr>)))))))"

definition persisted_failure_to_dict :: "persisted_failure \<Rightarrow> pyval" where
  "persisted_failure_to_dict p = (let f = pf_failure p in PV_Dict
     [(''failure_id'', PV_Str (pf_failure_id p)), (''request_id'', PV_Str (tf_request_id f)),
      (''failure_type'', PV_Str (tf_failure_type f)),
      (''failure_owner'', PV_Str (runtime_component_value (tf_failure_owner f))),
      (''failure_component'', PV_Str (tf_failure_component f)),
      (''failure_category'', PV_Str (persisted_category_value (pf_failure_category p))),
      (''failure_reason'', PV_Str (tf_failure_reason f)), (''failure_state'', PV_Str (tf_failure_state f)),
      (''failure_timestamp'', PV_Str (isoformat (tf_failure_timestamp f))),
      (''correlation_id'', PV_Str (tf_correlation_id f)), (''batch_id'', opt_str (tf_batch_id f)),
      (''backend_id'', opt_str (tf_backend_id f))])"

definition persisted_failure_from_dict :: "pyval \<Rightarrow> persisted_failure decoded" where
  "persisted_failure_from_dict v =
     bind_result (uuid_field ''failure_id'' v) (\<lambda>failure_id.
     bind_result (uuid_field ''request_id'' v) (\<lambda>request_id.
     bind_result (str_field ''failure_type'' v) (\<lambda>failure_type.
     bind_result (component_field ''failure_owner'' v) (\<lambda>failure_owner.
     bind_result (str_field ''failure_component'' v) (\<lambda>failure_component.
     bind_result (enum_field persisted_category_value persisted_categories ''failure_category'' v) (\<lambda>category.
     bind_result (str_field ''failure_reason'' v) (\<lambda>failure_reason.
     bind_result (str_field ''failure_state'' v) (\<lambda>failure_state.
     bind_result (time_field ''failure_timestamp'' v) (\<lambda>failure_timestamp.
     bind_result (str_field ''correlation_id'' v) (\<lambda>correlation_id.
     bind_result (opt_str_field ''batch_id'' v) (\<lambda>batch_id.
     bind_result (opt_str_field ''backend_id'' v) (\<lambda>backend_id.
     Inr \<lparr>pf_failure_id = failure_id, pf_failure_category = category,
          pf_failure = \<lparr>tf_failure_type = failure_type, tf_failure_owner = failure_owner,
            tf_failure_component = failure_component, tf_failure_timestamp = failure_timestamp,
            tf_failure_reason = failure_reason, tf_failure_state = failure_state,
            tf_request_id = request_id, tf_correlation_id = correlation_id,
            tf_batch_id = batch_id, tf_backend_id = backend_id\<rparr>\<rparr>))))))))))))"

definition opt_time :: "datetime option \<Rightarrow> pyval" where
  "opt_time x = (case x of None \<Rightarrow> PV_None | Some t \<Rightarrow> PV_Str (isoformat t))"

definition span_to_dict :: "span_metadata \<Rightarrow> pyval" where
  "span_to_dict p = PV_Dict
     [(''span_name'', PV_Str (sp_span_name p)), (''component'', PV_Str (sp_component p)),
      (''started_at'', opt_time (sp_started_at p)), (''ended_at'', opt_time (sp_ended_at p)),
      (''attributes'', extra_to_py (sp_attributes p))]"

definition opt_time_field :: "string \<Rightarrow> pyval \<Rightarrow> datetime option decoded" where
  "opt_time_field k v =
     bind_result (get_or_none k v) (\<lambda>x.
       if py_truthy x then bind_result (as_str x) (\<lambda>s. bind_result (parse_time s) (\<lambda>t. Inr (Some t)))
       else Inr None)"

definition span_from_dict :: "pyval \<Rightarrow> span_metadata decoded" where
  "span_from_dict v =
     bind_result (str_field ''span_name'' v) (\<lambda>span_name.
     bind_result (str_field ''component'' v) (\<lambda>component.
     bind_result (opt_time_field ''started_at'' v) (\<lambda>started_at.
     bind_result (opt_time_field ''ended_at'' v) (\<lambda>ended_at.
     bind_result (extra_field ''attributes'' v) (\<lambda>attributes.
     Inr \<lparr>sp_span_name = span_name, sp_component = component, sp_started_at = started_at,
          sp_ended_at = ended_at, sp_attributes = attributes\<rparr>)))))"

definition durations_to_py :: "(string, rat option) dict \<Rightarrow> pyval" where
  "durations_to_py d = PV_Dict (map (map_prod id (opt_py PV_Float)) d)"

fun read_duration :: "pyval \<Rightarrow> rat option decoded" where
  "read_duration PV_None = Inr None"
| "read_duration (PV_Float x) = Inr (Some x)"
| "read_duration _ = Inl CE_TypeError"

definition dict_of_py :: "(pyval \<Rightarrow> 'a decoded) \<Rightarrow> pyval \<Rightarrow> (string, 'a) dict decoded" where
  "dict_of_py f v =
     bind_result (as_dict v) (map_results (\<lambda>(k, y). bind_result (f y) (\<lambda>z. Inr (k, z))))"

definition trace_summary_to_dict :: "trace_summary \<Rightarrow> pyval" where
  "trace_summary_to_dict s = PV_Dict
     [(''request_id'', PV_Str (tsm_request_id s)), (''correlation_id'', PV_Str (tsm_correlation_id s)),
      (''event_count'', PV_Int (int (tsm_event_count s))),
      (''failure_count'', PV_Int (int (tsm_failure_count s))),
      (''stage_durations_ms'', durations_to_py (tsm_stage_durations_ms s)),
      (''span_metadata'', PV_List (map span_to_dict (tsm_span_metadata s))),
      (''captured_at'', PV_Str (isoformat (tsm_captured_at s)))]"

definition trace_summary_from_dict :: "pyval \<Rightarrow> trace_summary decoded" where
  "trace_summary_from_dict v =
     bind_result (list_field ''span_metadata'' span_from_dict v) (\<lambda>spans.
     bind_result (uuid_field ''request_id'' v) (\<lambda>request_id.
     bind_result (str_field ''correlation_id'' v) (\<lambda>correlation_id.
     bind_result (nat_field ''event_count'' v) (\<lambda>event_count.
     bind_result (nat_field ''failure_count'' v) (\<lambda>failure_count.
     bind_result (bind_result (get_item ''stage_durations_ms'' v) (dict_of_py read_duration)) (\<lambda>durations.
     bind_result (time_field ''captured_at'' v) (\<lambda>captured_at.
     Inr \<lparr>tsm_request_id = request_id, tsm_correlation_id = correlation_id,
          tsm_event_count = event_count, tsm_failure_count = failure_count,
          tsm_stage_durations_ms = durations, tsm_span_metadata = spans,
          tsm_captured_at = captured_at\<rparr>)))))))"

definition replay_execution_to_dict :: "replay_execution \<Rightarrow> pyval" where
  "replay_execution_to_dict x = PV_Dict
     [(''replay_id'', PV_Str (rpx_replay_id x)),
      (''source_request_id'', opt_uuid_str (rpx_source_request_id x)),
      (''replay_request_id'', PV_Str (rpx_replay_request_id x)),
      (''outcome'', PV_Str (replay_outcome_value (rpx_outcome x))),
      (''terminal_state'', PV_Str (rpx_terminal_state x)),
      (''failure_reason'', opt_str (rpx_failure_reason x)),
      (''failure_message'', opt_str (rpx_failure_message x)),
      (''started_at'', PV_Str (isoformat (rpx_started_at x))),
      (''completed_at'', PV_Str (isoformat (rpx_completed_at x))),
      (''replay_events'', PV_List (map PV_Str (rpx_replay_events x)))]"

text \<open>\<open>tuple(data.get(k) or ())\<close>\<close>

definition opt_list_field :: "string \<Rightarrow> (pyval \<Rightarrow> 'a decoded) \<Rightarrow> pyval \<Rightarrow> 'a list decoded" where
  "opt_list_field k f v =
     bind_result (get_or_none k v) (\<lambda>x.
       if \<not> py_truthy x then Inr [] else bind_result (as_list x) (map_results f))"

definition replay_execution_from_dict :: "pyval \<Rightarrow> replay_execution decoded" where
  "replay_execution_from_dict v =
     bind_result (uuid_field ''replay_id'' v) (\<lambda>replay_id.
     bind_result (opt_uuid_field ''source_request_id'' v) (\<lambda>source_request_id.
     bind_result (uuid_field ''replay_request_id'' v) (\<lambda>replay_request_id.
     bind_result (enum_field replay_outcome_value replay_outcomes ''outcome'' v) (\<lambda>outcome.
     bind_result (str_field ''terminal_state'' v) (\<lambda>terminal_state.
     bind_result (opt_str_field ''failure_reason'' v) (\<lambda>failure_reason.
     bind_result (opt_str_field ''failure_message'' v) (\<lambda>failure_message.
     bind_result (time_field ''started_at'' v) (\<lambda>started_at.
     bind_result (time_field ''completed_at'' v) (\<lambda>completed_at.
     bind_result (opt_list_field ''replay_events'' as_str v) (\<lambda>replay_events.
     Inr \<lparr>rpx_replay_id = replay_id, rpx_source_request_id = source_request_id,
          rpx_replay_request_id = replay_request_id, rpx_outcome = outcome,
          rpx_terminal_state = terminal_state, rpx_failure_reason = failure_reason,
          rpx_failure_message = failure_message, rpx_started_at = started_at,
          rpx_completed_at = completed_at, rpx_replay_events = replay_events\<rparr>))))))))))"

definition difference_entry_to_py :: "(string, string option) dict \<Rightarrow> pyval" where
  "difference_entry_to_py d = PV_Dict (map (map_prod id opt_str) d)"

definition replay_comparison_to_dict :: "replay_comparison \<Rightarrow> pyval" where
  "replay_comparison_to_dict c = PV_Dict
     [(''comparison_id'', PV_Str (rcp_comparison_id c)),
      (''original_request_id'', PV_Str (rcp_original_request_id c)),
      (''replay_request_id'', PV_Str (rcp_replay_request_id c)),
      (''generated_at'', PV_Str (isoformat (rcp_generated_at c))),
      (''terminal_state_match'', PV_Bool (rcp_terminal_state_match c)),
      (''matches'', PV_Bool (rcp_matches c)),
      (''differences'', PV_List (map difference_entry_to_py (rcp_differences c)))]"

text \<open>\<open>bool(data[k])\<close>\<close>

definition truth_field :: "string \<Rightarrow> pyval \<Rightarrow> bool decoded" where
  "truth_field k v = bind_result (get_item k v) (\<lambda>x. Inr (py_truthy x))"

definition replay_comparison_from_dict :: "pyval \<Rightarrow> replay_comparison decoded" where
  "replay_comparison_from_dict v =
     bind_result (uuid_field ''comparison_id'' v) (\<lambda>comparison_id.
     bind_result (uuid_field ''original_request_id'' v) (\<lambda>original_request_id.
     bind_result (uuid_field ''replay_request_id'' v) (\<lambda>replay_request_id.
     bind_result (time_field ''generated_at'' v) (\<lambda>generated_at.
     bind_result (truth_field ''terminal_state_match'' v) (\<lambda>terminal_state_match.
     bind_result (truth_field ''matches'' v) (\<lambda>matches.
     bind_result (opt_list_field ''differences'' (dict_of_py as_opt_str) v) (\<lambda>differences.
     Inr \<lparr>rcp_comparison_id = comparison_id, rcp_original_request_id = original_request_id,
          rcp_replay_request_id = replay_request_id, rcp_generated_at = generated_at,
          rcp_terminal_state_match = terminal_state_match, rcp_matches = matches,
          rcp_differences = differences\<rparr>)))))))"

end
