(* ===== verification/Repository.thy ===== *)
theory Repository
  imports Persistence_Models
begin

text \<open>
  The SQLite repository (\<open>persistence/sqlite/runtime_repository.py\<close>, \<open>schema.py\<close>,
  \<open>connection.py\<close>) and its events (\<open>persistence/events.py\<close>). A table is the list of its rows in
  the order they were inserted, a row has a cell per column, and a JSON column holds a JSON value.
  Rows with equal sort keys come in the order of insertion. What is not committed is lost when
  the process ends.
\<close>

section \<open>Cells, rows and tables (sqlite/schema.py)\<close>

datatype cell = C_Null | C_Int int | C_Text string | C_Json json

type_synonym row = "(string, cell) dict"

definition column :: "string \<Rightarrow> row \<Rightarrow> cell" where
  "column k r = (case dict_get r k of None \<Rightarrow> C_Null | Some c \<Rightarrow> c)"

definition opt_cell :: "string option \<Rightarrow> cell" where
  "opt_cell x = (case x of None \<Rightarrow> C_Null | Some s \<Rightarrow> C_Text s)"

text \<open>What \<open>row[k]\<close> is in Python; a JSON column goes through \<open>loads\<close>.\<close>

fun cell_value :: "cell \<Rightarrow> pyval" where
  "cell_value C_Null = PV_None"
| "cell_value (C_Int i) = PV_Int i"
| "cell_value (C_Text s) = PV_Str s"
| "cell_value (C_Json j) = loads j"

definition row_dict :: "(string \<times> string) list \<Rightarrow> row \<Rightarrow> pyval" where
  "row_dict ks r = PV_Dict (map (map_prod id (\<lambda>c. cell_value (column c r))) ks)"

record tables =
  tb_requests :: "row list"
  tb_lifecycle_transitions :: "row list"
  tb_scheduler_decisions :: "row list"
  tb_batch_decisions :: "row list"
  tb_execution_records :: "row list"
  tb_failures :: "row list"
  tb_replay_executions :: "row list"
  tb_replay_comparisons :: "row list"
  tb_trace_summaries :: "row list"

definition empty_tables :: tables where
  "empty_tables =
     \<lparr>tb_requests = [], tb_lifecycle_transitions = [], tb_scheduler_decisions = [],
      tb_batch_decisions = [], tb_execution_records = [], tb_failures = [],
      tb_replay_executions = [], tb_replay_comparisons = [], tb_trace_summaries = []\<rparr>"

section \<open>Statements\<close>

text \<open>\<open>INSERT OR REPLACE\<close> removes the row with the same primary key and inserts the new one.\<close>

definition insert_or_replace :: "string \<Rightarrow> row \<Rightarrow> row list \<Rightarrow> row list" where
  "insert_or_replace k r rows = filter (\<lambda>q. column k q \<noteq> column k r) rows @ [r]"

definition delete_where :: "string \<Rightarrow> string \<Rightarrow> row list \<Rightarrow> row list" where
  "delete_where k v rows = filter (\<lambda>q. column k q \<noteq> C_Text v) rows"

definition select_where :: "string \<Rightarrow> string \<Rightarrow> row list \<Rightarrow> row list" where
  "select_where k v rows = filter (\<lambda>q. column k q = C_Text v) rows"

definition fetch_one :: "string \<Rightarrow> string \<Rightarrow> row list \<Rightarrow> row option" where
  "fetch_one k v rows = (case select_where k v rows of [] \<Rightarrow> None | q # _ \<Rightarrow> Some q)"

definition text_of :: "cell \<Rightarrow> string" where
  "text_of c = (case c of C_Text s \<Rightarrow> s | _ \<Rightarrow> [])"

definition int_of :: "cell \<Rightarrow> int" where
  "int_of c = (case c of C_Int i \<Rightarrow> i | _ \<Rightarrow> 0)"

definition order_by_text :: "string \<Rightarrow> row list \<Rightarrow> row list" where
  "order_by_text k rows = sort_key (\<lambda>q. text_of (column k q)) rows"

definition order_by_text_desc :: "string \<Rightarrow> row list \<Rightarrow> row list" where
  "order_by_text_desc k rows = rev (sort_key (\<lambda>q. text_of (column k q)) (rev rows))"

definition order_by_int :: "string \<Rightarrow> row list \<Rightarrow> row list" where
  "order_by_int k rows = sort_key (\<lambda>q. int_of (column k q)) rows"

section \<open>State and events (sqlite/connection.py, persistence/events.py)\<close>

text \<open>\<open>RX_Database\<close>: any other exception of SQLite, with its text.\<close>

datatype repo_exn = RX_Integrity | RX_Codec codec_exn | RX_Database string

text \<open>\<open>rp_events\<close> tells whether an emitter is attached; it records into the trace store.\<close>

record repository =
  rp_tables :: tables
  rp_committed :: tables
  rp_events :: bool
  rp_traces :: trace_store

type_synonym ('x, 'a) repo = "('x repository_scheme, repo_exn, 'a) op"

datatype persistence_event_type = PE_WRITE | PE_READ | PE_FAILURE | PE_RECOVERY

fun persistence_event_value :: "persistence_event_type \<Rightarrow> string" where
  "persistence_event_value PE_WRITE = ''persistence_write''"
| "persistence_event_value PE_READ = ''persistence_read''"
| "persistence_event_value PE_FAILURE = ''persistence_failure''"
| "persistence_event_value PE_RECOVERY = ''persistence_recovery''"

definition emit_persistence ::
  "datetime \<Rightarrow> persistence_event_type \<Rightarrow> string \<Rightarrow> string \<Rightarrow> uuid option \<Rightarrow> extra \<Rightarrow> ('x, unit) repo" where
  "emit_persistence now ev entity_type entity_id request_id extra =
     modify_op (\<lambda>s.
       case request_id of
         None \<Rightarrow> s
       | Some r \<Rightarrow>
           if rp_events s
           then s\<lparr>rp_traces := append_event
                  \<lparr>te_request_id = r, te_correlation_id = r, te_timestamp = now,
                   te_component = RT_CONTROL_PLANE, te_event_type = persistence_event_value ev,
                   te_batch_id = None, te_backend_id = None, te_lifecycle_state = None,
                   te_decision_reason = None,
                   te_extra = dict_update
                     [(''entity_type'', X_STR entity_type), (''entity_id'', X_STR entity_id)] extra\<rparr>
                  (rp_traces s)\<rparr>
           else s)"

definition write_event :: "datetime \<Rightarrow> string \<Rightarrow> string \<Rightarrow> uuid option \<Rightarrow> ('x, unit) repo" where
  "write_event now entity_type entity_id request_id =
     emit_persistence now PE_WRITE entity_type entity_id request_id []"

definition read_event :: "datetime \<Rightarrow> string \<Rightarrow> string \<Rightarrow> uuid option \<Rightarrow> ('x, unit) repo" where
  "read_event now entity_type entity_id request_id =
     emit_persistence now PE_READ entity_type entity_id request_id []"

definition on_tables :: "(tables \<Rightarrow> tables) \<Rightarrow> ('x, unit) repo" where
  "on_tables f = modify_op (\<lambda>s. s\<lparr>rp_tables := f (rp_tables s)\<rparr>)"

definition commit :: "('x, unit) repo" where
  "commit = modify_op (\<lambda>s. s\<lparr>rp_committed := rp_tables s\<rparr>)"

definition rollback :: "('x, unit) repo" where
  "rollback = modify_op (\<lambda>s. s\<lparr>rp_tables := rp_committed s\<rparr>)"

definition decoded_op :: "'a decoded \<Rightarrow> ('x, 'a) repo" where
  "decoded_op r = (case r of Inl e \<Rightarrow> raise_op (RX_Codec e) | Inr a \<Rightarrow> return_op a)"

text \<open>The database as a new process finds it.\<close>

definition reopen :: "'x repository_scheme \<Rightarrow> 'x repository_scheme" where
  "reopen s = s\<lparr>rp_tables := rp_committed s, rp_traces := []\<rparr>"

section \<open>Execution records\<close>

definition execution_row :: "execution_record \<Rightarrow> row" where
  "execution_row x =
     [(''request_id'', C_Text (xr_request_id x)),
      (''record_json'', C_Json (dumps (execution_record_to_dict x))),
      (''captured_at'', C_Text (isoformat (xr_captured_at x))),
      (''source_request_id'', opt_cell (xr_source_request_id x)),
      (''replay_id'', opt_cell (xr_replay_id x))]"

definition save_record :: "datetime \<Rightarrow> execution_record \<Rightarrow> ('x, unit) repo" where
  "save_record now x =
     then_op (on_tables (\<lambda>t. t\<lparr>tb_execution_records :=
        insert_or_replace ''request_id'' (execution_row x) (tb_execution_records t)\<rparr>))
     (write_event now ''execution_record'' (xr_request_id x) (Some (xr_request_id x)))"

definition get_record :: "validators \<Rightarrow> datetime \<Rightarrow> uuid \<Rightarrow> ('x, execution_record option) repo" where
  "get_record py now r =
     bind_op (gets_op (\<lambda>s. fetch_one ''request_id'' r (tb_execution_records (rp_tables s)))) (\<lambda>found.
       case found of
         None \<Rightarrow> return_op None
       | Some q \<Rightarrow>
           then_op (read_event now ''execution_record'' r (Some r))
           (bind_op (decoded_op (execution_record_from_dict py (cell_value (column ''record_json'' q))))
             (\<lambda>x. return_op (Some x))))"

definition list_record_ids :: "('x, uuid list) repo" where
  "list_record_ids =
     bind_op (gets_op (\<lambda>s. order_by_text ''captured_at'' (tb_execution_records (rp_tables s)))) (\<lambda>rows.
       decoded_op (map_results (\<lambda>q. parse_uuid (text_of (column ''request_id'' q))) rows))"

definition delete_record :: "uuid \<Rightarrow> ('x, bool) repo" where
  "delete_record r =
     bind_op (gets_op (\<lambda>s. select_where ''request_id'' r (tb_execution_records (rp_tables s)))) (\<lambda>rows.
       then_op (on_tables (\<lambda>t. t\<lparr>tb_execution_records :=
          delete_where ''request_id'' r (tb_execution_records t)\<rparr>))
       (return_op (rows \<noteq> [])))"

section \<open>Requests\<close>

definition request_row :: "request_metadata \<Rightarrow> row" where
  "request_row m =
     (let o' = rm_terminal_outcome m in
      [(''request_id'', C_Text (rm_request_id m)), (''correlation_id'', C_Text (rm_correlation_id m)),
       (''model'', opt_cell (rm_model m)), (''terminal_state'', C_Text (rm_terminal_state m)),
       (''failure_reason'', opt_cell (to_failure_reason o')),
       (''failure_message'', opt_cell (to_failure_message o')),
       (''batch_id'', opt_cell (to_batch_id o')), (''backend_id'', opt_cell (to_backend_id o')),
       (''captured_at'', C_Text (isoformat (rm_captured_at m))),
       (''payload_json'', C_Json (dumps (payload_snapshot_to_dict (rm_payload m)))),
       (''terminal_outcome_json'', C_Json (dumps (terminal_outcome_to_dict o')))])"

definition request_of_row :: "row \<Rightarrow> request_metadata decoded" where
  "request_of_row q =
     request_metadata_from_dict (row_dict
       [(''request_id'', ''request_id''), (''correlation_id'', ''correlation_id''),
        (''model'', ''model''), (''terminal_state'', ''terminal_state''),
        (''captured_at'', ''captured_at''), (''payload'', ''payload_json''),
        (''terminal_outcome'', ''terminal_outcome_json'')] q)"

definition save_request :: "datetime \<Rightarrow> request_metadata \<Rightarrow> ('x, unit) repo" where
  "save_request now m =
     then_op (on_tables (\<lambda>t. t\<lparr>tb_requests :=
        insert_or_replace ''request_id'' (request_row m) (tb_requests t)\<rparr>))
     (write_event now ''request'' (rm_request_id m) (Some (rm_request_id m)))"

definition get_request :: "datetime \<Rightarrow> uuid \<Rightarrow> ('x, request_metadata option) repo" where
  "get_request now r =
     bind_op (gets_op (\<lambda>s. fetch_one ''request_id'' r (tb_requests (rp_tables s)))) (\<lambda>found.
       case found of
         None \<Rightarrow> return_op None
       | Some q \<Rightarrow>
           bind_op (decoded_op (request_of_row q)) (\<lambda>m.
             then_op (read_event now ''request'' r (Some r)) (return_op (Some m))))"

definition list_requests :: "datetime \<Rightarrow> ('x, request_metadata list) repo" where
  "list_requests now =
     bind_op (gets_op (\<lambda>s. order_by_text ''captured_at'' (tb_requests (rp_tables s)))) (\<lambda>rows.
     bind_op (map_op (\<lambda>q. bind_op (decoded_op (parse_uuid (text_of (column ''request_id'' q))))
        (get_request now)) rows) (\<lambda>ms.
     return_op (List.map_filter (\<lambda>m. m) ms)))"

definition delete_request :: "uuid \<Rightarrow> ('x, bool) repo" where
  "delete_request r =
     (let del = delete_where ''request_id'' r in
      bind_op (gets_op (\<lambda>s. select_where ''request_id'' r (tb_requests (rp_tables s)))) (\<lambda>rows.
        then_op (on_tables (\<lambda>t. t
          \<lparr>tb_lifecycle_transitions := del (tb_lifecycle_transitions t),
           tb_scheduler_decisions := del (tb_scheduler_decisions t),
           tb_batch_decisions := del (tb_batch_decisions t), tb_failures := del (tb_failures t),
           tb_trace_summaries := del (tb_trace_summaries t),
           tb_execution_records := del (tb_execution_records t), tb_requests := del (tb_requests t)\<rparr>))
        (return_op (rows \<noteq> []))))"

section \<open>Life cycles and decisions\<close>

text \<open>
  The rows of a request are replaced as a whole. A plain \<open>INSERT\<close> raises when the primary key
  (the request and the sequence number) is taken.
\<close>

definition same_key :: "row \<Rightarrow> row \<Rightarrow> bool" where
  "same_key p q \<longleftrightarrow>
     column ''request_id'' p = column ''request_id'' q \<and> column ''sequence_num'' p = column ''sequence_num'' q"

fun insert_rows :: "row list \<Rightarrow> row list \<Rightarrow> row list option" where
  "insert_rows [] rows = Some rows"
| "insert_rows (r # rs) rows =
     (if list_ex (same_key r) rows then None else insert_rows rs (rows @ [r]))"

definition replace_rows ::
  "(tables \<Rightarrow> row list) \<Rightarrow> (row list \<Rightarrow> tables \<Rightarrow> tables) \<Rightarrow> uuid \<Rightarrow> row list \<Rightarrow> ('x, unit) repo" where
  "replace_rows get put r rs =
     then_op (on_tables (\<lambda>t. put (delete_where ''request_id'' r (get t)) t))
     (bind_op (gets_op (\<lambda>s. insert_rows rs (get (rp_tables s)))) (\<lambda>rows.
       case rows of
         None \<Rightarrow> raise_op RX_Integrity
       | Some rows \<Rightarrow> on_tables (put rows)))"

definition rows_of :: "uuid \<Rightarrow> row list \<Rightarrow> row list" where
  "rows_of r rows = order_by_int ''sequence_num'' (select_where ''request_id'' r rows)"

definition transition_row :: "lifecycle_transition \<Rightarrow> row" where
  "transition_row t =
     [(''request_id'', C_Text (lt_request_id t)), (''sequence_num'', C_Int (int (lt_sequence_num t))),
      (''event_type'', C_Text (lt_event_type t)), (''from_state'', opt_cell (lt_from_state t)),
      (''to_state'', opt_cell (lt_to_state t)), (''timestamp'', C_Text (isoformat (lt_timestamp t)))]"

definition transition_of_row :: "row \<Rightarrow> lifecycle_transition decoded" where
  "transition_of_row q =
     lifecycle_transition_from_dict (row_dict
       [(''request_id'', ''request_id''), (''sequence_num'', ''sequence_num''),
        (''event_type'', ''event_type''), (''from_state'', ''from_state''), (''to_state'', ''to_state''),
        (''timestamp'', ''timestamp'')] q)"

definition save_transitions :: "datetime \<Rightarrow> uuid \<Rightarrow> lifecycle_transition list \<Rightarrow> ('x, unit) repo" where
  "save_transitions now r ts =
     then_op (replace_rows tb_lifecycle_transitions (\<lambda>rows t. t\<lparr>tb_lifecycle_transitions := rows\<rparr>) r
        (map transition_row ts))
     (write_event now ''lifecycle'' r (Some r))"

definition get_transitions :: "uuid \<Rightarrow> ('x, lifecycle_transition list) repo" where
  "get_transitions r =
     bind_op (gets_op (\<lambda>s. rows_of r (tb_lifecycle_transitions (rp_tables s)))) (\<lambda>rows.
       decoded_op (map_results transition_of_row rows))"

definition scheduler_row :: "scheduler_decision_row \<Rightarrow> row" where
  "scheduler_row d =
     [(''request_id'', C_Text (sdr_request_id d)), (''sequence_num'', C_Int (int (sdr_sequence_num d))),
      (''event_type'', C_Text (sdr_event_type d)), (''decision_reason'', opt_cell (sdr_decision_reason d)),
      (''scheduler_cycle_id'', opt_cell (sdr_scheduler_cycle_id d)),
      (''batch_id'', opt_cell (sdr_batch_id d)), (''timestamp'', C_Text (isoformat (sdr_timestamp d))),
      (''details_json'', C_Json (dumps (extra_to_py (sdr_details d))))]"

definition scheduler_of_row :: "row \<Rightarrow> scheduler_decision_row decoded" where
  "scheduler_of_row q =
     scheduler_decision_from_dict (row_dict
       [(''request_id'', ''request_id''), (''sequence_num'', ''sequence_num''),
        (''event_type'', ''event_type''), (''decision_reason'', ''decision_reason''),
        (''scheduler_cycle_id'', ''scheduler_cycle_id''), (''batch_id'', ''batch_id''),
        (''timestamp'', ''timestamp''), (''details'', ''details_json'')] q)"

definition save_scheduler_decisions :: "datetime \<Rightarrow> scheduler_decision_row list \<Rightarrow> ('x, unit) repo" where
  "save_scheduler_decisions now ds =
     (case ds of
        [] \<Rightarrow> return_op ()
      | d # _ \<Rightarrow>
          then_op (replace_rows tb_scheduler_decisions (\<lambda>rows t. t\<lparr>tb_scheduler_decisions := rows\<rparr>)
             (sdr_request_id d) (map scheduler_row ds))
          (write_event now ''scheduler_decision'' (sdr_request_id d) (Some (sdr_request_id d))))"

definition get_scheduler_decisions :: "uuid \<Rightarrow> ('x, scheduler_decision_row list) repo" where
  "get_scheduler_decisions r =
     bind_op (gets_op (\<lambda>s. rows_of r (tb_scheduler_decisions (rp_tables s)))) (\<lambda>rows.
       decoded_op (map_results scheduler_of_row rows))"

definition batch_row :: "batch_decision_row \<Rightarrow> row" where
  "batch_row d =
     [(''request_id'', C_Text (bdr_request_id d)), (''sequence_num'', C_Int (int (bdr_sequence_num d))),
      (''event_type'', C_Text (bdr_event_type d)), (''batch_id'', opt_cell (bdr_batch_id d)),
      (''decision_reason'', opt_cell (bdr_decision_reason d)),
      (''timestamp'', C_Text (isoformat (bdr_timestamp d))),
      (''details_json'', C_Json (dumps (extra_to_py (bdr_details d))))]"

definition batch_of_row :: "row \<Rightarrow> batch_decision_row decoded" where
  "batch_of_row q =
     batch_decision_from_dict (row_dict
       [(''request_id'', ''request_id''), (''sequence_num'', ''sequence_num''),
        (''event_type'', ''event_type''), (''batch_id'', ''batch_id''),
        (''decision_reason'', ''decision_reason''), (''timestamp'', ''timestamp''),
        (''details'', ''details_json'')] q)"

definition save_batch_decisions :: "datetime \<Rightarrow> batch_decision_row list \<Rightarrow> ('x, unit) repo" where
  "save_batch_decisions now ds =
     (case ds of
        [] \<Rightarrow> return_op ()
      | d # _ \<Rightarrow>
          then_op (replace_rows tb_batch_decisions (\<lambda>rows t. t\<lparr>tb_batch_decisions := rows\<rparr>)
             (bdr_request_id d) (map batch_row ds))
          (write_event now ''batch_decision'' (bdr_request_id d) (Some (bdr_request_id d))))"

definition get_batch_decisions :: "uuid \<Rightarrow> ('x, batch_decision_row list) repo" where
  "get_batch_decisions r =
     bind_op (gets_op (\<lambda>s. rows_of r (tb_batch_decisions (rp_tables s)))) (\<lambda>rows.
       decoded_op (map_results batch_of_row rows))"

section \<open>Failures\<close>

definition failure_row :: "persisted_failure \<Rightarrow> row" where
  "failure_row p =
     (let f = pf_failure p in
      [(''failure_id'', C_Text (pf_failure_id p)), (''request_id'', C_Text (tf_request_id f)),
       (''failure_type'', C_Text (tf_failure_type f)),
       (''failure_owner'', C_Text (runtime_component_value (tf_failure_owner f))),
       (''failure_component'', C_Text (tf_failure_component f)),
       (''failure_category'', C_Text (persisted_category_value (pf_failure_category p))),
       (''failure_reason'', C_Text (tf_failure_reason f)), (''failure_state'', C_Text (tf_failure_state f)),
       (''failure_timestamp'', C_Text (isoformat (tf_failure_timestamp f))),
       (''correlation_id'', C_Text (tf_correlation_id f)), (''batch_id'', opt_cell (tf_batch_id f)),
       (''backend_id'', opt_cell (tf_backend_id f))])"

definition failure_of_row :: "row \<Rightarrow> persisted_failure decoded" where
  "failure_of_row q =
     persisted_failure_from_dict (row_dict
       [(''failure_id'', ''failure_id''), (''request_id'', ''request_id''),
        (''failure_type'', ''failure_type''), (''failure_owner'', ''failure_owner''),
        (''failure_component'', ''failure_component''), (''failure_category'', ''failure_category''),
        (''failure_reason'', ''failure_reason''), (''failure_state'', ''failure_state''),
        (''failure_timestamp'', ''failure_timestamp''), (''correlation_id'', ''correlation_id''),
        (''batch_id'', ''batch_id''), (''backend_id'', ''backend_id'')] q)"

definition save_failures :: "datetime \<Rightarrow> persisted_failure list \<Rightarrow> ('x, unit) repo" where
  "save_failures now ps =
     iter_op (\<lambda>p.
       then_op (on_tables (\<lambda>t. t\<lparr>tb_failures :=
          insert_or_replace ''failure_id'' (failure_row p) (tb_failures t)\<rparr>))
       (write_event now ''failure'' (pf_failure_id p) (Some (tf_request_id (pf_failure p))))) ps"

definition query_failures :: "nat \<Rightarrow> ('x, persisted_failure list) repo" where
  "query_failures limit =
     bind_op (gets_op (\<lambda>s. take limit (order_by_text_desc ''failure_timestamp''
        (tb_failures (rp_tables s))))) (\<lambda>rows. decoded_op (map_results failure_of_row rows))"

definition query_failures_by_request :: "uuid \<Rightarrow> ('x, persisted_failure list) repo" where
  "query_failures_by_request r =
     bind_op (gets_op (\<lambda>s. order_by_text ''failure_timestamp''
        (select_where ''request_id'' r (tb_failures (rp_tables s))))) (\<lambda>rows.
       decoded_op (map_results failure_of_row rows))"

definition query_failures_by_component :: "runtime_component \<Rightarrow> ('x, persisted_failure list) repo" where
  "query_failures_by_component c =
     bind_op (gets_op (\<lambda>s. order_by_text_desc ''failure_timestamp''
        (select_where ''failure_owner'' (runtime_component_value c) (tb_failures (rp_tables s))))) (\<lambda>rows.
       decoded_op (map_results failure_of_row rows))"

section \<open>Replays and comparisons\<close>

definition replay_row :: "replay_execution \<Rightarrow> row" where
  "replay_row x =
     [(''replay_id'', C_Text (rpx_replay_id x)),
      (''source_request_id'', opt_cell (rpx_source_request_id x)),
      (''replay_request_id'', C_Text (rpx_replay_request_id x)),
      (''outcome'', C_Text (replay_outcome_value (rpx_outcome x))),
      (''terminal_state'', C_Text (rpx_terminal_state x)),
      (''failure_reason'', opt_cell (rpx_failure_reason x)),
      (''failure_message'', opt_cell (rpx_failure_message x)),
      (''started_at'', C_Text (isoformat (rpx_started_at x))),
      (''completed_at'', C_Text (isoformat (rpx_completed_at x))),
      (''replay_events_json'', C_Json (dumps (PV_List (map PV_Str (rpx_replay_events x)))))]"

definition replay_of_row :: "row \<Rightarrow> replay_execution decoded" where
  "replay_of_row q =
     replay_execution_from_dict (row_dict
       [(''replay_id'', ''replay_id''), (''source_request_id'', ''source_request_id''),
        (''replay_request_id'', ''replay_request_id''), (''outcome'', ''outcome''),
        (''terminal_state'', ''terminal_state''), (''failure_reason'', ''failure_reason''),
        (''failure_message'', ''failure_message''), (''started_at'', ''started_at''),
        (''completed_at'', ''completed_at''), (''replay_events'', ''replay_events_json'')] q)"

definition save_replay :: "datetime \<Rightarrow> replay_execution \<Rightarrow> ('x, unit) repo" where
  "save_replay now x =
     then_op (on_tables (\<lambda>t. t\<lparr>tb_replay_executions :=
        insert_or_replace ''replay_id'' (replay_row x) (tb_replay_executions t)\<rparr>))
     (write_event now ''replay'' (rpx_replay_id x) (rpx_source_request_id x))"

definition get_replay :: "uuid \<Rightarrow> ('x, replay_execution option) repo" where
  "get_replay i =
     bind_op (gets_op (\<lambda>s. fetch_one ''replay_id'' i (tb_replay_executions (rp_tables s)))) (\<lambda>found.
       case found of
         None \<Rightarrow> return_op None
       | Some q \<Rightarrow> bind_op (decoded_op (replay_of_row q)) (\<lambda>x. return_op (Some x)))"

definition list_replays :: "uuid option \<Rightarrow> ('x, replay_execution list) repo" where
  "list_replays source =
     bind_op (gets_op (\<lambda>s.
       let rows = tb_replay_executions (rp_tables s)
       in order_by_text ''completed_at''
            (case source of None \<Rightarrow> rows | Some r \<Rightarrow> select_where ''source_request_id'' r rows))) (\<lambda>rows.
     bind_op (map_op (\<lambda>q. bind_op (decoded_op (parse_uuid (text_of (column ''replay_id'' q)))) get_replay)
        rows) (\<lambda>xs.
     return_op (List.map_filter (\<lambda>x. x) xs)))"

definition comparison_row :: "replay_comparison \<Rightarrow> row" where
  "comparison_row c =
     [(''comparison_id'', C_Text (rcp_comparison_id c)),
      (''original_request_id'', C_Text (rcp_original_request_id c)),
      (''replay_request_id'', C_Text (rcp_replay_request_id c)),
      (''generated_at'', C_Text (isoformat (rcp_generated_at c))),
      (''terminal_state_match'', C_Int (of_bool (rcp_terminal_state_match c))),
      (''matches'', C_Int (of_bool (rcp_matches c))),
      (''differences_json'', C_Json (dumps (PV_List (map difference_entry_to_py (rcp_differences c)))))]"

definition comparison_of_row :: "row \<Rightarrow> replay_comparison decoded" where
  "comparison_of_row q =
     replay_comparison_from_dict (row_dict
       [(''comparison_id'', ''comparison_id''), (''original_request_id'', ''original_request_id''),
        (''replay_request_id'', ''replay_request_id''), (''generated_at'', ''generated_at''),
        (''terminal_state_match'', ''terminal_state_match''), (''matches'', ''matches''),
        (''differences'', ''differences_json'')] q)"

definition save_comparison :: "datetime \<Rightarrow> replay_comparison \<Rightarrow> ('x, unit) repo" where
  "save_comparison now c =
     then_op (on_tables (\<lambda>t. t\<lparr>tb_replay_comparisons :=
        insert_or_replace ''comparison_id'' (comparison_row c) (tb_replay_comparisons t)\<rparr>))
     (write_event now ''replay_comparison'' (rcp_comparison_id c) None)"

definition get_comparison :: "uuid \<Rightarrow> ('x, replay_comparison option) repo" where
  "get_comparison i =
     bind_op (gets_op (\<lambda>s. fetch_one ''comparison_id'' i (tb_replay_comparisons (rp_tables s)))) (\<lambda>found.
       case found of
         None \<Rightarrow> return_op None
       | Some q \<Rightarrow> bind_op (decoded_op (comparison_of_row q)) (\<lambda>c. return_op (Some c)))"

section \<open>Trace summaries\<close>

definition summary_row :: "trace_summary \<Rightarrow> row" where
  "summary_row s =
     [(''request_id'', C_Text (tsm_request_id s)), (''correlation_id'', C_Text (tsm_correlation_id s)),
      (''event_count'', C_Int (int (tsm_event_count s))),
      (''failure_count'', C_Int (int (tsm_failure_count s))),
      (''stage_durations_json'', C_Json (dumps (durations_to_py (tsm_stage_durations_ms s)))),
      (''span_metadata_json'', C_Json (dumps (PV_List (map span_to_dict (tsm_span_metadata s))))),
      (''captured_at'', C_Text (isoformat (tsm_captured_at s)))]"

definition summary_of_row :: "row \<Rightarrow> trace_summary decoded" where
  "summary_of_row q =
     trace_summary_from_dict (row_dict
       [(''request_id'', ''request_id''), (''correlation_id'', ''correlation_id''),
        (''event_count'', ''event_count''), (''failure_count'', ''failure_count''),
        (''stage_durations_ms'', ''stage_durations_json''), (''span_metadata'', ''span_metadata_json''),
        (''captured_at'', ''captured_at'')] q)"

definition save_summary :: "datetime \<Rightarrow> trace_summary \<Rightarrow> ('x, unit) repo" where
  "save_summary now s =
     then_op (on_tables (\<lambda>t. t\<lparr>tb_trace_summaries :=
        insert_or_replace ''request_id'' (summary_row s) (tb_trace_summaries t)\<rparr>))
     (write_event now ''trace_summary'' (tsm_request_id s) (Some (tsm_request_id s)))"

definition get_summary :: "uuid \<Rightarrow> ('x, trace_summary option) repo" where
  "get_summary r =
     bind_op (gets_op (\<lambda>s. fetch_one ''request_id'' r (tb_trace_summaries (rp_tables s)))) (\<lambda>found.
       case found of
         None \<Rightarrow> return_op None
       | Some q \<Rightarrow> bind_op (decoded_op (summary_of_row q)) (\<lambda>x. return_op (Some x)))"

section \<open>The facade\<close>

text \<open>
  Writing a record is a list of steps, each the statements of one row or of one group of rows, and
  the commit. What SQLite does in them is a parameter: \<open>db k\<close> is \<open>None\<close> when the \<open>k\<close>-th step goes
  through, and otherwise what the statements of the step that did run have changed in the open
  transaction, and the text of the exception that the next one raises.
\<close>

type_synonym fault = "(tables \<Rightarrow> tables) \<times> string"

definition step_on :: "fault option \<Rightarrow> ('x, unit) repo \<Rightarrow> ('x, unit) repo" where
  "step_on fault m =
     (case fault of
        None \<Rightarrow> m
      | Some (f, message) \<Rightarrow> then_op (on_tables f) (raise_op (RX_Database message)))"

primrec run_steps :: "(nat \<Rightarrow> fault option) \<Rightarrow> nat \<Rightarrow> ('x, unit) repo list \<Rightarrow> ('x, unit) repo" where
  "run_steps db k [] = return_op ()"
| "run_steps db k (m # ms) = then_op (step_on (db k) m) (run_steps db (Suc k) ms)"

text \<open>\<open>ids i\<close> is the id \<open>uuid4\<close> gives to the \<open>i\<close>-th failure.\<close>

definition save_steps ::
  "datetime \<Rightarrow> (nat \<Rightarrow> uuid) \<Rightarrow> execution_record \<Rightarrow> trace_timeline option \<Rightarrow> ('x, unit) repo list" where
  "save_steps now ids x timeline =
     (let r = xr_request_id x in
      [save_request now (request_metadata_from_record x),
       save_transitions now r
         (map (\<lambda>(i, t). lifecycle_transition_from_snapshot r i t) (enumerate 0 (xr_lifecycle_transitions x))),
       save_scheduler_decisions now
         (map (\<lambda>(i, e). scheduler_decision_from_event r i e) (enumerate 0 (xr_scheduler_events x))),
       save_batch_decisions now
         (map (\<lambda>(i, e). batch_decision_from_event r i e) (enumerate 0 (xr_batch_events x)))]
      @ map (\<lambda>(i, f). save_failures now [persisted_failure_from_runtime (ids i) f]) (enumerate 0 (xr_failures x))
      @ [save_record now x]
      @ (case timeline of
           None \<Rightarrow> []
         | Some l \<Rightarrow> [save_summary now (trace_summary_from_timeline l (length (xr_failures x)))]))"

definition write_record ::
  "(nat \<Rightarrow> fault option) \<Rightarrow> datetime \<Rightarrow> (nat \<Rightarrow> uuid) \<Rightarrow> execution_record \<Rightarrow> trace_timeline option \<Rightarrow>
   ('x, unit) repo" where
  "write_record db now ids x timeline = run_steps db 0 (save_steps now ids x timeline @ [commit])"

text \<open>\<open>describe\<close> is \<open>str\<close> of an exception. The rollback itself is taken to go through.\<close>

definition persist_record_on ::
  "(nat \<Rightarrow> fault option) \<Rightarrow> datetime \<Rightarrow> (nat \<Rightarrow> uuid) \<Rightarrow> (repo_exn \<Rightarrow> string) \<Rightarrow> execution_record \<Rightarrow>
   trace_timeline option \<Rightarrow> ('x, unit) repo" where
  "persist_record_on db now ids describe x timeline =
     catch_op (write_record db now ids x timeline) (\<lambda>e.
       then_op rollback
       (then_op (emit_persistence now PE_FAILURE ''execution_record'' (xr_request_id x)
          (Some (xr_request_id x)) [(''error'', X_STR (describe e))])
       (raise_op e)))"

text \<open>On a database whose statements all go through.\<close>

definition persist_execution_record ::
  "datetime \<Rightarrow> (nat \<Rightarrow> uuid) \<Rightarrow> (repo_exn \<Rightarrow> string) \<Rightarrow> execution_record \<Rightarrow> trace_timeline option \<Rightarrow>
   ('x, unit) repo" where
  "persist_execution_record = persist_record_on (\<lambda>_. None)"

definition persist_replay_result ::
  "datetime \<Rightarrow> replay_execution \<Rightarrow> (execution_comparison \<times> uuid) option \<Rightarrow> ('x, unit) repo" where
  "persist_replay_result now x comparison =
     then_op (save_replay now x)
     (then_op (case comparison of
                 None \<Rightarrow> return_op ()
               | Some (c, i) \<Rightarrow> save_comparison now (replay_comparison_from_execution c i))
     commit)"

end
