(* ===== verification/Replay.thy ===== *)
theory Replay
  imports Repository
begin

text \<open>
  The stores of execution records (\<open>replay/store.py\<close>, \<open>persistence/durable_store.py\<close>), the replay
  engine with its events and its debugging interface (\<open>replay/engine.py\<close>, \<open>events.py\<close>,
  \<open>debugging.py\<close>) and the submission a payload is turned into (the gateway's \<open>runtime/replay.py\<close>).
  The state is the repository's with the records in memory. How a request is executed is an argument
  of \<open>replay\<close>, as it is in the code.
\<close>

section \<open>Submissions from payloads (gateway, runtime/replay.py)\<close>

text \<open>What a value is where the code asks \<open>isinstance(v, str)\<close>: members of \<open>StrEnum\<close> are texts.\<close>

fun py_str :: "pyval \<Rightarrow> string option" where
  "py_str (PV_Str s) = Some s"
| "py_str (PV_Role r) = Some (message_role_value r)"
| "py_str (PV_Priority c) = Some (priority_class_value c)"
| "py_str _ = None"

text \<open>\<open>if isinstance(data.get(k), str): data[k] = f(data[k])\<close>\<close>

definition coerce_key ::
  "string \<Rightarrow> (string \<Rightarrow> pyval decoded) \<Rightarrow> (string, pyval) dict \<Rightarrow> (string, pyval) dict decoded" where
  "coerce_key k f d =
     (case dict_get d k of
        None \<Rightarrow> Inr d
      | Some v \<Rightarrow> (case py_str v of
          None \<Rightarrow> Inr d
        | Some s \<Rightarrow> bind_result (f s) (\<lambda>x. Inr (dict_set k x d))))"

definition py_uuid :: "string \<Rightarrow> pyval decoded" where
  "py_uuid s = bind_result (parse_uuid s) (\<lambda>u. Inr (PV_Uuid u))"

definition py_role :: "string \<Rightarrow> pyval decoded" where
  "py_role s = bind_result (enum_of message_role_value message_roles s) (\<lambda>r. Inr (PV_Role r))"

definition py_priority :: "string \<Rightarrow> pyval decoded" where
  "py_priority s = bind_result (enum_of priority_class_value priority_classes s) (\<lambda>c. Inr (PV_Priority c))"

definition py_datetime :: "string \<Rightarrow> pyval decoded" where
  "py_datetime s = bind_result (parse_time s) (\<lambda>t. Inr (PV_Time t))"

definition coerce_message :: "pyval \<Rightarrow> pyval decoded" where
  "coerce_message m =
     bind_result (as_dict m) (\<lambda>d. bind_result (coerce_key ''role'' py_role d) (\<lambda>e. Inr (PV_Dict e)))"

definition coerce_messages :: "(string, pyval) dict \<Rightarrow> (string, pyval) dict decoded" where
  "coerce_messages d =
     (case dict_get d ''messages'' of
        None \<Rightarrow> Inr d
      | Some v \<Rightarrow>
          if \<not> py_truthy v then Inr d
          else bind_result (bind_result (as_list v) (map_results coerce_message)) (\<lambda>ms.
               Inr (dict_set ''messages'' (PV_List ms) d)))"

definition coerce_inference_request :: "(string, pyval) dict \<Rightarrow> (string, pyval) dict decoded" where
  "coerce_inference_request d =
     bind_result (coerce_key ''request_id'' py_uuid d) (\<lambda>d1.
     bind_result (coerce_messages d1) (coerce_key ''priority_class'' py_priority))"

definition coerce_request_context :: "(string, pyval) dict \<Rightarrow> (string, pyval) dict decoded" where
  "coerce_request_context d =
     bind_result (coerce_key ''request_id'' py_uuid d) (coerce_key ''arrival_time'' py_datetime)"

definition normalize_payload_snapshot :: "payload_snapshot \<Rightarrow> payload_snapshot decoded" where
  "normalize_payload_snapshot p =
     bind_result (coerce_inference_request (ps_inference_request p)) (\<lambda>r.
     bind_result (coerce_request_context (ps_request_context p)) (\<lambda>c.
     Inr \<lparr>ps_inference_request = r, ps_request_context = c\<rparr>))"

definition validated_submit ::
  "validators \<Rightarrow> (string, pyval) dict \<Rightarrow> (string, pyval) dict \<Rightarrow> submit_request decoded" where
  "validated_submit py r c =
     bind_result (val_inference_request py (PV_Dict r)) (\<lambda>request.
     bind_result (val_request_context py (PV_Dict c)) (\<lambda>context.
     Inr \<lparr>sr_inference_request = request, sr_request_context = context\<rparr>))"

definition submit_from_payload :: "validators \<Rightarrow> payload_snapshot \<Rightarrow> submit_request decoded" where
  "submit_from_payload py p =
     bind_result (normalize_payload_snapshot p) (\<lambda>q.
       validated_submit py (ps_inference_request q) (ps_request_context q))"

definition replay_ids :: "uuid \<Rightarrow> (string, pyval) dict \<Rightarrow> (string, pyval) dict" where
  "replay_ids replay_id c =
     dict_set ''span_id'' (PV_Str (''replay-span-'' @ replay_id))
       (dict_set ''trace_id'' (PV_Str (''replay-'' @ replay_id))
         (dict_set ''request_id'' (PV_Uuid replay_id) c))"

definition submit_from_payload_with_replay_id ::
  "validators \<Rightarrow> datetime \<Rightarrow> payload_snapshot \<Rightarrow> uuid \<Rightarrow> submit_request decoded" where
  "submit_from_payload_with_replay_id py now p replay_id =
     bind_result (submit_from_payload py p) (\<lambda>submit.
       validated_submit py
         (dict_set ''request_id'' (PV_Uuid replay_id) (dump_inference_request (sr_inference_request submit)))
         (dict_set ''arrival_time'' (PV_Time now)
           (replay_ids replay_id (dump_request_context (sr_request_context submit)))))"

definition clone_payload_for_replay :: "payload_snapshot \<Rightarrow> uuid \<Rightarrow> payload_snapshot" where
  "clone_payload_for_replay p replay_id =
     \<lparr>ps_inference_request = dict_set ''request_id'' (PV_Uuid replay_id) (ps_inference_request p),
      ps_request_context = replay_ids replay_id (ps_request_context p)\<rparr>"

section \<open>The stores (replay/store.py, persistence/durable_store.py)\<close>

text \<open>
  \<open>rv_durable\<close>: the store is a \<open>DurableExecutionRecordStore\<close>; \<open>rv_repository\<close>: the engine has a
  repository of its own. The gateway's stack sets both or neither.
\<close>

record replay_state = repository +
  rv_records :: "(uuid, execution_record) dict"
  rv_durable :: bool
  rv_repository :: bool

datatype replay_exn = RP_Repository repo_exn | RP_Codec codec_exn | RP_Runtime string | RP_KeyError string

type_synonym ('x, 'a) rep = "('x replay_state_scheme, replay_exn, 'a) op"

definition on_repository :: "('x replay_state_scheme, repo_exn, 'a) op \<Rightarrow> ('x, 'a) rep" where
  "on_repository m s = (case m s of (Inl e, t) \<Rightarrow> (Inl (RP_Repository e), t) | (Inr a, t) \<Rightarrow> (Inr a, t))"

definition cache_put :: "execution_record \<Rightarrow> ('x replay_state_scheme, 'e, unit) op" where
  "cache_put x = modify_op (\<lambda>s. s\<lparr>rv_records := dict_set (xr_request_id x) x (rv_records s)\<rparr>)"

definition cache_get :: "uuid \<Rightarrow> ('x replay_state_scheme, 'e, execution_record option) op" where
  "cache_get r = gets_op (\<lambda>s. dict_get (rv_records s) r)"

definition cache_clear :: "('x replay_state_scheme, 'e, unit) op" where
  "cache_clear = modify_op (\<lambda>s. s\<lparr>rv_records := []\<rparr>)"

text \<open>
  What the stores and the engine read from clocks, from \<open>uuid4\<close> and from \<open>str\<close> of an exception.
\<close>

record replay_env =
  en_now :: datetime
  en_captured :: datetime
  en_ids :: "nat \<Rightarrow> uuid"
  en_describe :: "repo_exn \<Rightarrow> string"

definition durable_put ::
  "replay_env \<Rightarrow> execution_record \<Rightarrow> trace_timeline option \<Rightarrow>
   ('x replay_state_scheme, repo_exn, unit) op" where
  "durable_put env x timeline =
     then_op (cache_put x)
       (persist_execution_record (en_now env) (en_ids env) (en_describe env) x timeline)"

definition durable_get ::
  "validators \<Rightarrow> datetime \<Rightarrow> uuid \<Rightarrow> ('x replay_state_scheme, repo_exn, execution_record option) op" where
  "durable_get py now r =
     bind_op (cache_get r) (\<lambda>cached.
       if cached \<noteq> None then return_op cached
       else bind_op (get_record py now r) (\<lambda>loaded.
         case loaded of
           None \<Rightarrow> return_op None
         | Some x \<Rightarrow> then_op (cache_put x) (return_op (Some x))))"

definition durable_list_ids :: "('x replay_state_scheme, repo_exn, uuid list) op" where
  "durable_list_ids =
     bind_op list_record_ids (\<lambda>persisted.
     bind_op (gets_op (\<lambda>s. dict_keys (rv_records s))) (\<lambda>cached.
     return_op (map snd (fold (\<lambda>i. dict_set i i) cached (fold (\<lambda>i. dict_set i i) persisted [])))))"

text \<open>The event of a recovery has no request, so that the trace store does not see it.\<close>

definition recover_one ::
  "validators \<Rightarrow> datetime \<Rightarrow> uuid \<Rightarrow> ('x replay_state_scheme, repo_exn, nat) op" where
  "recover_one py now r =
     bind_op (get_record py now r) (\<lambda>loaded.
       case loaded of
         None \<Rightarrow> return_op 0
       | Some x \<Rightarrow> then_op (cache_put x) (return_op 1))"

definition recover :: "validators \<Rightarrow> datetime \<Rightarrow> ('x replay_state_scheme, repo_exn, nat) op" where
  "recover py now =
     bind_op list_record_ids (\<lambda>ids.
     bind_op (map_op (recover_one py now) ids) (\<lambda>counts.
     then_op (if sum_list counts > 0
        then emit_persistence now PE_RECOVERY ''execution_record'' ''startup'' None
          [(''recovered_count'', X_INT (int (sum_list counts)))]
        else return_op ())
     (return_op (sum_list counts))))"

definition store_get :: "validators \<Rightarrow> datetime \<Rightarrow> uuid \<Rightarrow> ('x, execution_record option) rep" where
  "store_get py now r =
     bind_op (gets_op rv_durable) (\<lambda>durable.
       on_repository (if durable then durable_get py now r else cache_get r))"

section \<open>Events (replay/events.py)\<close>

datatype replay_event_type =
    RV_REQUEST_REPLAYED | RV_STARTED | RV_COMPLETED | RV_FAILED | RV_COMPARISON_GENERATED

fun replay_event_value :: "replay_event_type \<Rightarrow> string" where
  "replay_event_value RV_REQUEST_REPLAYED = ''request_replayed''"
| "replay_event_value RV_STARTED = ''replay_started''"
| "replay_event_value RV_COMPLETED = ''replay_completed''"
| "replay_event_value RV_FAILED = ''replay_failed''"
| "replay_event_value RV_COMPARISON_GENERATED = ''comparison_generated''"

definition emit_replay ::
  "datetime \<Rightarrow> replay_event_type \<Rightarrow> uuid \<Rightarrow> uuid option \<Rightarrow> uuid option \<Rightarrow> extra \<Rightarrow>
   ('x replay_state_scheme, 'e, unit) op" where
  "emit_replay now ev r replay_id source extra =
     modify_op (\<lambda>s. s\<lparr>rp_traces := append_event
       \<lparr>te_request_id = r, te_correlation_id = (case source of None \<Rightarrow> r | Some i \<Rightarrow> i),
        te_timestamp = now, te_component = RT_REPLAY, te_event_type = replay_event_value ev,
        te_batch_id = None, te_backend_id = None, te_lifecycle_state = None,
        te_decision_reason = None,
        te_extra = dict_update
          [(''replay_id'', opt_extra replay_id), (''source_request_id'', opt_extra source)] extra\<rparr>
       (rp_traces s)\<rparr>)"

section \<open>The engine (replay/engine.py)\<close>

definition store_record :: "replay_env \<Rightarrow> execution_record \<Rightarrow> ('x replay_state_scheme, repo_exn, unit) op" where
  "store_record env x =
     bind_op (gets_op (\<lambda>s. get_request_timeline (en_now env) (xr_request_id x) (rp_traces s))) (\<lambda>timeline.
     bind_op (gets_op (\<lambda>s. (rv_durable s, rv_repository s))) (\<lambda>(durable, has_repository).
     if durable then durable_put env x timeline
     else then_op (cache_put x)
       (if has_repository
        then persist_execution_record (en_now env) (en_ids env) (en_describe env) x timeline
        else return_op ())))"

definition capture_execution ::
  "replay_env \<Rightarrow> capture_args \<Rightarrow> ('x replay_state_scheme, repo_exn, execution_record) op" where
  "capture_execution env a =
     bind_op (gets_op (\<lambda>s. capture_execution_record (en_now env) (en_captured env) a (rp_traces s))) (\<lambda>x.
     then_op (store_record env x) (return_op x))"

definition capture_from_entry ::
  "replay_env \<Rightarrow> registered_request \<Rightarrow> ('x replay_state_scheme, repo_exn, execution_record) op" where
  "capture_from_entry env e = capture_execution env (terminal_of_entry e)"

record replay_request =
  rq_replay_id :: uuid
  rq_payload :: payload_snapshot
  rq_source_request_id :: "uuid option"
  rq_source_record :: "execution_record option"

record replay_result =
  rr_replay_id :: uuid
  rr_source_request_id :: "uuid option"
  rr_replay_request_id :: uuid
  rr_outcome :: replay_outcome
  rr_terminal_state :: string
  rr_failure_reason :: "string option"
  rr_failure_message :: "string option"
  rr_execution_record :: "execution_record option"
  rr_replay_events :: "string list"
  rr_error :: "string option"

text \<open>\<open>replay_execution_from_result\<close> of \<open>persistence/models.py\<close>\<close>

definition replay_execution_from_result :: "replay_result \<Rightarrow> datetime \<Rightarrow> datetime \<Rightarrow> replay_execution" where
  "replay_execution_from_result r started completed =
     \<lparr>rpx_replay_id = rr_replay_id r, rpx_source_request_id = rr_source_request_id r,
      rpx_replay_request_id = rr_replay_request_id r, rpx_outcome = rr_outcome r,
      rpx_terminal_state = rr_terminal_state r, rpx_failure_reason = rr_failure_reason r,
      rpx_failure_message = rr_failure_message r, rpx_started_at = started,
      rpx_completed_at = completed, rpx_replay_events = rr_replay_events r\<rparr>"

definition replayed_args :: "replay_request \<Rightarrow> registered_request \<Rightarrow> capture_args" where
  "replayed_args q e = (terminal_of_entry e)
     \<lparr>ca_source_request_id := rq_source_request_id q, ca_replay_id := Some (rq_replay_id q),
      ca_completion := None, ca_stream_metrics := None\<rparr>"

definition completion_events :: "replay_request \<Rightarrow> replay_outcome \<Rightarrow> replay_event_type list" where
  "completion_events q x =
     [if x = RO_COMPLETED then RV_COMPLETED else RV_FAILED]
     @ (if rq_source_request_id q \<noteq> None then [RV_REQUEST_REPLAYED] else [])"

text \<open>What is emitted after the execution, and the result.\<close>

definition emit_completion ::
  "replay_env \<Rightarrow> replay_request \<Rightarrow> registered_request \<Rightarrow> replay_outcome \<Rightarrow>
   ('x replay_state_scheme, 'e, unit) op" where
  "emit_completion env q e x =
     (let i = rq_replay_id q; source = rq_source_request_id q in
      then_op (emit_replay (en_now env) (if x = RO_COMPLETED then RV_COMPLETED else RV_FAILED)
         (re_request_id e) (Some i) source
         [(''terminal_state'', X_STR (request_state_value (re_state e)))])
      (case source of
         None \<Rightarrow> return_op ()
       | Some r \<Rightarrow> emit_replay (en_now env) RV_REQUEST_REPLAYED r (Some i) (Some r)
           [(''replay_request_id'', X_STR (re_request_id e))]))"

definition finished_result ::
  "replay_request \<Rightarrow> registered_request \<Rightarrow> replay_outcome \<Rightarrow> execution_record \<Rightarrow> replay_result" where
  "finished_result q e x rec =
     \<lparr>rr_replay_id = rq_replay_id q, rr_source_request_id = rq_source_request_id q,
      rr_replay_request_id = re_request_id e, rr_outcome = x,
      rr_terminal_state = request_state_value (re_state e),
      rr_failure_reason = map_option failure_reason_value (re_failure_reason e),
      rr_failure_message = re_failure_message e, rr_execution_record = Some rec,
      rr_replay_events = map replay_event_value (RV_STARTED # completion_events q x), rr_error = None\<rparr>"

definition error_result :: "replay_request \<Rightarrow> string list \<Rightarrow> string \<Rightarrow> replay_result" where
  "error_result q evs message =
     \<lparr>rr_replay_id = rq_replay_id q, rr_source_request_id = rq_source_request_id q,
      rr_replay_request_id = rq_replay_id q, rr_outcome = RO_ERROR, rr_terminal_state = ''error'',
      rr_failure_reason = Some ''replay_error'', rr_failure_message = Some message,
      rr_execution_record = None, rr_replay_events = evs @ [replay_event_value RV_FAILED],
      rr_error = Some message\<rparr>"

text \<open>\<open>builder\<close> is \<open>submit_from_payload\<close> in the gateway's stack; \<open>describe\<close> is \<open>str\<close> of an exception.\<close>

definition run_replay ::
  "replay_env \<Rightarrow> (payload_snapshot \<Rightarrow> submit_request decoded) option \<Rightarrow>
   (submit_request \<Rightarrow> ('x, registered_request) rep) \<Rightarrow> replay_request \<Rightarrow>
   ('x, registered_request \<times> execution_record) rep" where
  "run_replay env builder execute q =
     bind_op (case builder of
         None \<Rightarrow> raise_op (RP_Runtime ''submit_builder is required for replay execution'')
       | Some f \<Rightarrow> (case f (clone_payload_for_replay (rq_payload q) (rq_replay_id q)) of
           Inl x \<Rightarrow> raise_op (RP_Codec x) | Inr submit \<Rightarrow> return_op submit)) (\<lambda>submit.
     bind_op (execute submit) (\<lambda>e.
     bind_op (on_repository (capture_execution env (replayed_args q e))) (\<lambda>x.
     return_op (e, x))))"

definition persist_result ::
  "replay_env \<Rightarrow> datetime \<Rightarrow> replay_result \<Rightarrow> ('x replay_state_scheme, repo_exn, unit) op" where
  "persist_result env started r =
     bind_op (gets_op rv_repository) (\<lambda>has_repository.
       if has_repository
       then persist_replay_result (en_now env) (replay_execution_from_result r started (en_captured env)) None
       else return_op ())"

definition replay_failed ::
  "replay_env \<Rightarrow> (replay_exn \<Rightarrow> string) \<Rightarrow> replay_request \<Rightarrow> string list \<Rightarrow> replay_exn \<Rightarrow>
   ('x, replay_result) rep" where
  "replay_failed env describe q evs x =
     then_op (emit_replay (en_now env) RV_FAILED (rq_replay_id q) (Some (rq_replay_id q))
        (rq_source_request_id q) [(''error'', X_STR (describe x))])
     (return_op (error_result q evs (describe x)))"

definition replay ::
  "replay_env \<Rightarrow> (replay_exn \<Rightarrow> string) \<Rightarrow> datetime \<Rightarrow>
   (payload_snapshot \<Rightarrow> submit_request decoded) option \<Rightarrow>
   (submit_request \<Rightarrow> ('x, registered_request) rep) \<Rightarrow> replay_request \<Rightarrow> ('x, replay_result) rep" where
  "replay env describe started builder execute q =
     then_op (emit_replay (en_now env) RV_STARTED (rq_replay_id q) (Some (rq_replay_id q))
        (rq_source_request_id q) [])
     (\<lambda>s. case run_replay env builder execute q s of
        (Inl x, t) \<Rightarrow> replay_failed env describe q [replay_event_value RV_STARTED] x t
      | (Inr (e, rec), t) \<Rightarrow>
          (let outcome = replay_outcome_from_state (request_state_value (re_state e));
               r = finished_result q e outcome rec
           in then_op (emit_completion env q e outcome)
                (catch_op (then_op (on_repository (persist_result env started r)) (return_op r))
                  (replay_failed env describe q (rr_replay_events r))) t))"

definition compare ::
  "datetime \<Rightarrow> uuid \<Rightarrow> execution_record \<Rightarrow> execution_record \<Rightarrow>
   ('x replay_state_scheme, repo_exn, execution_comparison) op" where
  "compare now i a b =
     (let c = compare_executions now a b in
      bind_op (gets_op rv_repository) (\<lambda>has_repository.
      then_op (if has_repository
         then then_op (save_comparison now (replay_comparison_from_execution c i)) commit
         else return_op ())
      (then_op (emit_replay now RV_COMPARISON_GENERATED (xr_request_id a) (xr_replay_id b)
         (Some (xr_request_id a))
         [(''replay_request_id'', X_STR (xr_request_id b)),
          (''difference_count'', X_INT (int (length (xc_differences c)))),
          (''matches'', X_BOOL (comparison_matches c))])
      (return_op c))))"

definition replay_request_from_record :: "uuid option \<Rightarrow> uuid \<Rightarrow> execution_record \<Rightarrow> replay_request" where
  "replay_request_from_record replay_id fresh x =
     \<lparr>rq_replay_id = (case replay_id of None \<Rightarrow> fresh | Some i \<Rightarrow> i), rq_payload = xr_payload x,
      rq_source_request_id = Some (xr_request_id x), rq_source_record = Some x\<rparr>"

section \<open>The debugging interface (replay/debugging.py)\<close>

datatype replay_source = RS_Id uuid | RS_Record execution_record | RS_Payload payload_snapshot

definition required_record ::
  "validators \<Rightarrow> datetime \<Rightarrow> string \<Rightarrow> uuid \<Rightarrow> ('x, execution_record) rep" where
  "required_record py now what r =
     bind_op (store_get py now r) (\<lambda>found.
       case found of None \<Rightarrow> raise_op (RP_KeyError (what @ r)) | Some x \<Rightarrow> return_op x)"

definition reconstruct_execution ::
  "validators \<Rightarrow> datetime \<Rightarrow> uuid \<Rightarrow> ('x, reconstructed_execution option) rep" where
  "reconstruct_execution py now r =
     bind_op (store_get py now r) (\<lambda>found.
     gets_op (\<lambda>s. reconstruct_request now r found (Some (rp_traces s))))"

definition replay_request_of ::
  "validators \<Rightarrow> datetime \<Rightarrow> uuid option \<Rightarrow> uuid \<Rightarrow> replay_source \<Rightarrow> ('x, replay_request) rep" where
  "replay_request_of py now replay_id fresh source =
     (case source of
        RS_Id r \<Rightarrow>
          bind_op (required_record py now ''no execution record for request_id='' r) (\<lambda>x.
            return_op (replay_request_from_record replay_id fresh x))
      | RS_Record x \<Rightarrow> return_op (replay_request_from_record replay_id fresh x)
      | RS_Payload p \<Rightarrow> return_op
          \<lparr>rq_replay_id = (case replay_id of None \<Rightarrow> fresh | Some i \<Rightarrow> i), rq_payload = p,
           rq_source_request_id = None, rq_source_record = None\<rparr>)"

definition debug_replay_request ::
  "validators \<Rightarrow> replay_env \<Rightarrow> (replay_exn \<Rightarrow> string) \<Rightarrow> datetime \<Rightarrow>
   (payload_snapshot \<Rightarrow> submit_request decoded) option \<Rightarrow>
   (submit_request \<Rightarrow> ('x, registered_request) rep) \<Rightarrow> uuid option \<Rightarrow> uuid \<Rightarrow> replay_source \<Rightarrow>
   ('x, replay_result) rep" where
  "debug_replay_request py env describe started builder execute replay_id fresh source =
     bind_op (replay_request_of py (en_now env) replay_id fresh source)
       (replay env describe started builder execute)"

definition compare_execution ::
  "validators \<Rightarrow> datetime \<Rightarrow> uuid \<Rightarrow> uuid \<Rightarrow> uuid \<Rightarrow> ('x, execution_comparison) rep" where
  "compare_execution py now i original again =
     bind_op (store_get py now original) (\<lambda>a.
     bind_op (store_get py now again) (\<lambda>b.
     case a of
       None \<Rightarrow> raise_op (RP_KeyError (''no execution record for original request_id='' @ original))
     | Some x \<Rightarrow> (case b of
         None \<Rightarrow> raise_op (RP_KeyError (''no execution record for replay request_id='' @ again))
       | Some y \<Rightarrow> on_repository (compare now i x y))))"

text \<open>The store a process starts with: what the database holds is read once.\<close>

definition start_store :: "validators \<Rightarrow> datetime \<Rightarrow> 'x replay_state_scheme \<Rightarrow>
    (repo_exn + nat) \<times> 'x replay_state_scheme" where
  "start_store py now s = recover py now (reopen s\<lparr>rv_records := []\<rparr>)"

end
