(* ===== verification/Persistence_Properties.thy ===== *)
theory Persistence_Properties
  imports Replay
begin

text \<open>
  What the database holds after a record has been written, and what a process finds in it when it
  starts: the writes of one record as a function on the tables (\<open>recorded\<close>), the execution records
  as a list (\<open>puts\<close>), and the durable store after a restart.
\<close>

section \<open>Operations that only write\<close>

text \<open>The operation returns, changes the tables by \<open>f\<close> and otherwise only the traces.\<close>

definition writes :: "(tables \<Rightarrow> tables) \<Rightarrow> ('x, unit) repo \<Rightarrow> bool" where
  "writes f m \<longleftrightarrow> (\<forall>s. \<exists>tr. m s = (Inr (), s\<lparr>rp_tables := f (rp_tables s), rp_traces := tr\<rparr>))"

named_theorems writes_intros \<open>one rule per writing operation\<close>

lemma writesI:
  "(\<And>s. m s = (Inr (), s\<lparr>rp_tables := f (rp_tables s), rp_traces := tr s\<rparr>)) \<Longrightarrow> writes f m"
  by (auto simp: writes_def)

lemma writes_on_tables [writes_intros]: "writes f (on_tables f)"
  by (rule writesI [where tr = rp_traces]) (simp add: on_tables_def op_defs)

lemma writes_return [writes_intros]: "writes (\<lambda>t. t) (return_op ())"
  by (rule writesI [where tr = rp_traces]) (simp add: op_defs)

lemma writes_event [writes_intros]: "writes (\<lambda>t. t) (write_event now entity i r)"
  by (rule writesI [where tr = "\<lambda>s. rp_traces (snd (write_event now entity i r s))"])
    (simp add: write_event_def emit_persistence_def op_defs split: option.split)

lemma writes_then [writes_intros]:
  assumes "writes f m" "writes g n"
  shows "writes (\<lambda>t. g (f t)) (then_op m n)"
  unfolding writes_def
proof
  fix s
  obtain tr where m: "m s = (Inr (), s\<lparr>rp_tables := f (rp_tables s), rp_traces := tr\<rparr>)"
    using assms(1) unfolding writes_def by blast
  obtain tr' where "n (s\<lparr>rp_tables := f (rp_tables s), rp_traces := tr\<rparr>) =
      (Inr (), s\<lparr>rp_tables := f (rp_tables s), rp_traces := tr\<rparr>
        \<lparr>rp_tables := g (f (rp_tables s)), rp_traces := tr'\<rparr>)"
    using assms(2) unfolding writes_def by (metis repository.select_convs(1) repository.surjective
        repository.update_convs(1) repository.update_convs(4))
  then show "\<exists>tr. then_op m n s = (Inr (), s\<lparr>rp_tables := g (f (rp_tables s)), rp_traces := tr\<rparr>)"
    using m by (auto simp: then_op_def bind_op_def)
qed

lemma writes_iter [writes_intros]:
  "(\<And>x. writes (f x) (m x)) \<Longrightarrow> writes (\<lambda>t. fold f xs t) (iter_op m xs)"
proof (induction xs)
  case Nil
  then show ?case by (simp add: writes_return)
next
  case (Cons x xs)
  then show ?case using writes_then [of "f x" "m x" "fold f xs"] by simp
qed

text \<open>A table whose rows for a request are replaced together.\<close>

locale decision_table =
  fixes get :: "tables \<Rightarrow> row list" and put :: "row list \<Rightarrow> tables \<Rightarrow> tables"
  assumes get_put: "get (put rows t) = rows"
    and put_put: "put rows (put rows' t) = put rows t"

lemma insert_rows_distinct:
  assumes "\<forall>q \<in> set rs. \<not> list_ex (same_key q) rows"
    and "distinct (map (\<lambda>q. (column ''request_id'' q, column ''sequence_num'' q)) rs)"
  shows "insert_rows rs rows = Some (rows @ rs)"
  using assms
proof (induction rs arbitrary: rows)
  case (Cons a rs)
  have "insert_rows rs (rows @ [a]) = Some ((rows @ [a]) @ rs)"
    by (rule Cons.IH) (use Cons.prems in \<open>auto simp: list_ex_iff same_key_def image_iff\<close>)
  with Cons.prems show ?case by simp
qed simp

definition rows_for :: "uuid \<Rightarrow> row list \<Rightarrow> bool" where
  "rows_for r rs \<longleftrightarrow> (\<forall>q \<in> set rs. column ''request_id'' q = C_Text r)
     \<and> distinct (map (column ''sequence_num'') rs)"

lemma insert_rows_for:
  assumes "rows_for r rs"
  shows "insert_rows rs (delete_where ''request_id'' r rows) = Some (delete_where ''request_id'' r rows @ rs)"
proof (rule insert_rows_distinct)
  show "\<forall>q \<in> set rs. \<not> list_ex (same_key q) (delete_where ''request_id'' r rows)"
    using assms by (auto simp: rows_for_def list_ex_iff same_key_def delete_where_def)
  show "distinct (map (\<lambda>q. (column ''request_id'' q, column ''sequence_num'' q)) rs)"
    using assms unfolding rows_for_def distinct_map by (auto simp: inj_on_def)
qed

context decision_table
begin

lemma writes_replace:
  assumes "rows_for r rs"
  shows "writes (\<lambda>t. put (delete_where ''request_id'' r (get t) @ rs) t) (replace_rows get put r rs)"
  by (rule writesI [where tr = rp_traces])
    (simp add: replace_rows_def on_tables_def op_defs get_put put_put insert_rows_for [OF assms])

end

interpretation lifecycle_rows: decision_table tb_lifecycle_transitions
    "\<lambda>rows t. t\<lparr>tb_lifecycle_transitions := rows\<rparr>"
  by unfold_locales simp_all

interpretation scheduler_rows: decision_table tb_scheduler_decisions
    "\<lambda>rows t. t\<lparr>tb_scheduler_decisions := rows\<rparr>"
  by unfold_locales simp_all

interpretation batch_rows: decision_table tb_batch_decisions
    "\<lambda>rows t. t\<lparr>tb_batch_decisions := rows\<rparr>"
  by unfold_locales simp_all

section \<open>The writes of one record\<close>

definition transition_rows :: "execution_record \<Rightarrow> row list" where
  "transition_rows x =
     map transition_row (map (\<lambda>(i, t). lifecycle_transition_from_snapshot (xr_request_id x) i t)
       (enumerate 0 (xr_lifecycle_transitions x)))"

definition scheduler_rows_of :: "execution_record \<Rightarrow> row list" where
  "scheduler_rows_of x =
     map scheduler_row (map (\<lambda>(i, e). scheduler_decision_from_event (xr_request_id x) i e)
       (enumerate 0 (xr_scheduler_events x)))"

definition batch_rows_of :: "execution_record \<Rightarrow> row list" where
  "batch_rows_of x =
     map batch_row (map (\<lambda>(i, e). batch_decision_from_event (xr_request_id x) i e)
       (enumerate 0 (xr_batch_events x)))"

definition failure_rows_of :: "(nat \<Rightarrow> uuid) \<Rightarrow> execution_record \<Rightarrow> row list" where
  "failure_rows_of ids x =
     map failure_row (map (\<lambda>(i, f). persisted_failure_from_runtime (ids i) f)
       (enumerate 0 (xr_failures x)))"

text \<open>Rows that are replaced only when there are new ones.\<close>

definition replaced_unless_empty :: "uuid \<Rightarrow> row list \<Rightarrow> row list \<Rightarrow> row list" where
  "replaced_unless_empty r rs rows = (if rs = [] then rows else delete_where ''request_id'' r rows @ rs)"

definition recorded ::
  "(nat \<Rightarrow> uuid) \<Rightarrow> execution_record \<Rightarrow> trace_timeline option \<Rightarrow> tables \<Rightarrow> tables" where
  "recorded ids x timeline t =
     t\<lparr>tb_requests := insert_or_replace ''request_id'' (request_row (request_metadata_from_record x)) (tb_requests t),
       tb_lifecycle_transitions := delete_where ''request_id'' (xr_request_id x) (tb_lifecycle_transitions t)
         @ transition_rows x,
       tb_scheduler_decisions := replaced_unless_empty (xr_request_id x) (scheduler_rows_of x)
         (tb_scheduler_decisions t),
       tb_batch_decisions := replaced_unless_empty (xr_request_id x) (batch_rows_of x)
         (tb_batch_decisions t),
       tb_failures := fold (insert_or_replace ''failure_id'') (failure_rows_of ids x) (tb_failures t),
       tb_execution_records := insert_or_replace ''request_id'' (execution_row x) (tb_execution_records t),
       tb_trace_summaries := (case timeline of
           None \<Rightarrow> tb_trace_summaries t
         | Some l \<Rightarrow> insert_or_replace ''request_id''
             (summary_row (trace_summary_from_timeline l (length (xr_failures x)))) (tb_trace_summaries t))\<rparr>"

lemma rows_for_enumerate:
  assumes "\<And>i a. column ''request_id'' (g i a) = C_Text r" "\<And>i a. column ''sequence_num'' (g i a) = C_Int (int i)"
  shows "rows_for r (map (\<lambda>(i, a). g i a) (enumerate 0 as))"
proof -
  have "map (column ''sequence_num'') (map (\<lambda>(i, a). g i a) (enumerate 0 as)) =
      map (\<lambda>i. C_Int (int i)) (map fst (enumerate 0 as))"
    by (simp add: assms split_beta comp_def del: map_fst_enumerate)
  then have "distinct (map (column ''sequence_num'') (map (\<lambda>(i, a). g i a) (enumerate 0 as)))"
    by (simp add: distinct_map inj_on_def)
  then show ?thesis by (auto simp: rows_for_def assms)
qed

lemma column_Cons [simp]: "column k ((k', c) # q) = (if k = k' then c else column k q)"
  by (simp add: column_def)

lemma rows_for_transitions: "rows_for (xr_request_id x) (transition_rows x)"
proof -
  have "transition_rows x = map (\<lambda>(i, t). transition_row (lifecycle_transition_from_snapshot (xr_request_id x) i t))
      (enumerate 0 (xr_lifecycle_transitions x))"
    by (simp add: transition_rows_def split_beta comp_def)
  then show ?thesis
    by (simp only:) (rule rows_for_enumerate; simp add: transition_row_def lifecycle_transition_from_snapshot_def)
qed

lemma rows_for_scheduler: "rows_for (xr_request_id x) (scheduler_rows_of x)"
proof -
  have "scheduler_rows_of x = map (\<lambda>(i, e). scheduler_row (scheduler_decision_from_event (xr_request_id x) i e))
      (enumerate 0 (xr_scheduler_events x))"
    by (simp add: scheduler_rows_of_def split_beta comp_def)
  then show ?thesis
    by (simp only:) (rule rows_for_enumerate; simp add: scheduler_row_def scheduler_decision_from_event_def)
qed

lemma rows_for_batch: "rows_for (xr_request_id x) (batch_rows_of x)"
proof -
  have "batch_rows_of x = map (\<lambda>(i, e). batch_row (batch_decision_from_event (xr_request_id x) i e))
      (enumerate 0 (xr_batch_events x))"
    by (simp add: batch_rows_of_def split_beta comp_def)
  then show ?thesis
    by (simp only:) (rule rows_for_enumerate; simp add: batch_row_def batch_decision_from_event_def)
qed

subsection \<open>Each statement of \<open>write_record\<close>\<close>

lemma writes_request:
  "writes (\<lambda>t. t\<lparr>tb_requests := insert_or_replace ''request_id'' (request_row m) (tb_requests t)\<rparr>)
     (save_request now m)"
  unfolding save_request_def by (rule writes_then [OF writes_on_tables writes_event])

lemma writes_transitions:
  "writes (\<lambda>t. t\<lparr>tb_lifecycle_transitions :=
       delete_where ''request_id'' (xr_request_id x) (tb_lifecycle_transitions t) @ transition_rows x\<rparr>)
     (save_transitions now (xr_request_id x)
       (map (\<lambda>(i, t). lifecycle_transition_from_snapshot (xr_request_id x) i t)
         (enumerate 0 (xr_lifecycle_transitions x))))"
  unfolding save_transitions_def transition_rows_def [symmetric]
  by (rule writes_then [OF lifecycle_rows.writes_replace [OF rows_for_transitions] writes_event])

lemma writes_scheduler_decisions:
  "writes (\<lambda>t. t\<lparr>tb_scheduler_decisions := replaced_unless_empty (xr_request_id x) (scheduler_rows_of x)
       (tb_scheduler_decisions t)\<rparr>)
     (save_scheduler_decisions now (map (\<lambda>(i, e). scheduler_decision_from_event (xr_request_id x) i e)
       (enumerate 0 (xr_scheduler_events x))))"
proof (cases "xr_scheduler_events x")
  case Nil
  then show ?thesis
    by (simp add: save_scheduler_decisions_def scheduler_rows_of_def replaced_unless_empty_def writes_return)
next
  case (Cons e es)
  define ds where "ds = map (\<lambda>(i, e). scheduler_decision_from_event (xr_request_id x) i e)
      (enumerate 0 (xr_scheduler_events x))"
  obtain d ds' where ds: "ds = d # ds'" and d: "sdr_request_id d = xr_request_id x"
    using Cons by (cases ds) (auto simp: ds_def scheduler_decision_from_event_def)
  have rows: "scheduler_rows_of x = map scheduler_row ds"
    by (simp add: scheduler_rows_of_def ds_def)
  have main: "writes (\<lambda>t. t\<lparr>tb_scheduler_decisions :=
       delete_where ''request_id'' (xr_request_id x) (tb_scheduler_decisions t) @ scheduler_rows_of x\<rparr>)
     (save_scheduler_decisions now ds)"
    unfolding save_scheduler_decisions_def ds list.case d rows [unfolded ds, symmetric]
    by (rule writes_then [OF scheduler_rows.writes_replace [OF rows_for_scheduler] writes_event])
  have "scheduler_rows_of x \<noteq> []" using rows ds by simp
  with main show ?thesis by (simp only: replaced_unless_empty_def ds_def if_False)
qed

lemma writes_batch_decisions:
  "writes (\<lambda>t. t\<lparr>tb_batch_decisions := replaced_unless_empty (xr_request_id x) (batch_rows_of x)
       (tb_batch_decisions t)\<rparr>)
     (save_batch_decisions now (map (\<lambda>(i, e). batch_decision_from_event (xr_request_id x) i e)
       (enumerate 0 (xr_batch_events x))))"
proof (cases "xr_batch_events x")
  case Nil
  then show ?thesis
    by (simp add: save_batch_decisions_def batch_rows_of_def replaced_unless_empty_def writes_return)
next
  case (Cons e es)
  define ds where "ds = map (\<lambda>(i, e). batch_decision_from_event (xr_request_id x) i e)
      (enumerate 0 (xr_batch_events x))"
  obtain d ds' where ds: "ds = d # ds'" and d: "bdr_request_id d = xr_request_id x"
    using Cons by (cases ds) (auto simp: ds_def batch_decision_from_event_def)
  have rows: "batch_rows_of x = map batch_row ds"
    by (simp add: batch_rows_of_def ds_def)
  have main: "writes (\<lambda>t. t\<lparr>tb_batch_decisions :=
       delete_where ''request_id'' (xr_request_id x) (tb_batch_decisions t) @ batch_rows_of x\<rparr>)
     (save_batch_decisions now ds)"
    unfolding save_batch_decisions_def ds list.case d rows [unfolded ds, symmetric]
    by (rule writes_then [OF batch_rows.writes_replace [OF rows_for_batch] writes_event])
  have "batch_rows_of x \<noteq> []" using rows ds by simp
  with main show ?thesis by (simp only: replaced_unless_empty_def ds_def if_False)
qed

lemma fold_failures:
  "fold (\<lambda>p t. t\<lparr>tb_failures := insert_or_replace ''failure_id'' (failure_row p) (tb_failures t)\<rparr>) ps t =
   t\<lparr>tb_failures := fold (insert_or_replace ''failure_id'') (map failure_row ps) (tb_failures t)\<rparr>"
  by (induction ps arbitrary: t) simp_all

lemma writes_failures:
  "writes (\<lambda>t. t\<lparr>tb_failures := fold (insert_or_replace ''failure_id'') (map failure_row ps) (tb_failures t)\<rparr>)
     (save_failures now ps)"
  unfolding save_failures_def fold_failures [symmetric]
  by (rule writes_iter) (rule writes_then [OF writes_on_tables writes_event])

lemma writes_execution_record:
  "writes (\<lambda>t. t\<lparr>tb_execution_records := insert_or_replace ''request_id'' (execution_row x) (tb_execution_records t)\<rparr>)
     (save_record now x)"
  unfolding save_record_def by (rule writes_then [OF writes_on_tables writes_event])

lemma writes_summary:
  "writes (\<lambda>t. t\<lparr>tb_trace_summaries := (case timeline of
         None \<Rightarrow> tb_trace_summaries t
       | Some l \<Rightarrow> insert_or_replace ''request_id'' (summary_row (trace_summary_from_timeline l n))
           (tb_trace_summaries t))\<rparr>)
     (case timeline of None \<Rightarrow> return_op () | Some l \<Rightarrow> save_summary now (trace_summary_from_timeline l n))"
proof (cases timeline)
  case None
  then show ?thesis by (simp add: writes_return)
next
  case (Some l)
  then show ?thesis
    by (simp add: save_summary_def) (rule writes_then [OF writes_on_tables writes_event])
qed

lemma then_commit:
  assumes "writes f m"
  shows "\<exists>tr. then_op m commit s =
    (Inr (), s\<lparr>rp_tables := f (rp_tables s), rp_committed := f (rp_tables s), rp_traces := tr\<rparr>)"
proof -
  obtain tr where "m s = (Inr (), s\<lparr>rp_tables := f (rp_tables s), rp_traces := tr\<rparr>)"
    using assms unfolding writes_def by blast
  then have "then_op m commit s =
      (Inr (), s\<lparr>rp_tables := f (rp_tables s), rp_committed := f (rp_tables s), rp_traces := tr\<rparr>)"
    by (cases s) (simp add: then_op_def bind_op_def commit_def modify_op_def)
  then show ?thesis by blast
qed

subsection \<open>The steps of a write and their faults\<close>

definition chain :: "('x, unit) repo list \<Rightarrow> ('x, unit) repo \<Rightarrow> ('x, unit) repo" where
  "chain ms n = foldr then_op ms n"

lemma chain_simps [simp]:
  "chain [] n = n" "chain (m # ms) n = then_op m (chain ms n)" "chain (ms @ ms') n = chain ms (chain ms' n)"
  by (simp_all add: chain_def)

lemma run_steps_append:
  "run_steps db k (ms @ ms') = then_op (run_steps db k ms) (run_steps db (k + length ms) ms')"
  by (induction ms arbitrary: k) (simp_all add: then_op_def bind_assoc)

lemma run_steps_fine:
  "(\<forall>j < length ms. db (k + j) = None) \<Longrightarrow> run_steps db k ms = chain ms (return_op ())"
proof (induction ms arbitrary: k)
  case (Cons m ms)
  have "db k = None" "\<forall>j < length ms. db (Suc k + j) = None"
    using Cons.prems by (auto dest: spec [of _ 0] spec [of _ "Suc j" for j])
  with Cons.IH [of "Suc k"] show ?case by (simp add: step_on_def)
qed simp

lemma then_return_unit: "then_op m (return_op ()) = m"
  by (rule ext) (simp add: op_defs split: prod.split sum.split)

lemma chain_then: "chain (ms @ [m]) (return_op ()) = then_op (chain ms (return_op ())) m"
  by (induction ms) (simp_all add: then_return_unit then_assoc then_op_def [of "return_op _"])

lemma chain_failures:
  "chain (map (\<lambda>(i, f). save_failures now [g i f]) fs) n =
   then_op (save_failures now (map (\<lambda>(i, f). g i f) fs)) n"
  by (induction fs) (auto simp: save_failures_def then_return_unit then_assoc then_op_def [of "return_op _"])

lemma writes_saves: "writes (recorded ids x timeline) (chain (save_steps now ids x timeline) (return_op ()))"
proof -
  let ?m = "then_op (save_request now (request_metadata_from_record x))
      (then_op (save_transitions now (xr_request_id x)
         (map (\<lambda>(i, t). lifecycle_transition_from_snapshot (xr_request_id x) i t)
           (enumerate 0 (xr_lifecycle_transitions x))))
      (then_op (save_scheduler_decisions now
         (map (\<lambda>(i, e). scheduler_decision_from_event (xr_request_id x) i e) (enumerate 0 (xr_scheduler_events x))))
      (then_op (save_batch_decisions now
         (map (\<lambda>(i, e). batch_decision_from_event (xr_request_id x) i e) (enumerate 0 (xr_batch_events x))))
      (then_op (save_failures now
         (map (\<lambda>(i, f). persisted_failure_from_runtime (ids i) f) (enumerate 0 (xr_failures x))))
      (then_op (save_record now x)
      (case timeline of
         None \<Rightarrow> return_op ()
       | Some l \<Rightarrow> save_summary now (trace_summary_from_timeline l (length (xr_failures x)))))))))"
  have m: "chain (save_steps now ids x timeline) (return_op ()) = ?m"
    by (cases timeline) (simp_all add: save_steps_def Let_def chain_failures then_return_unit)
  note w = writes_then [OF writes_request writes_then [OF writes_transitions
      writes_then [OF writes_scheduler_decisions writes_then [OF writes_batch_decisions
      writes_then [OF writes_failures writes_then [OF writes_execution_record writes_summary]]]]]]
  show ?thesis unfolding m
    by (rule back_subst [where P = "\<lambda>f. writes f ?m"], rule w)
      (rule ext, cases timeline, simp_all add: recorded_def failure_rows_of_def)
qed

text \<open>Every save writes, also with a fault of a later step.\<close>

lemma writes_some: "writes f m \<Longrightarrow> \<exists>f. writes f m"
  by blast

lemma writes_one_summary: "\<exists>f. writes f (save_summary now t)"
  unfolding save_summary_def by (rule writes_some [OF writes_then [OF writes_on_tables writes_event]])

lemma saves_write: "m \<in> set (save_steps now ids x timeline) \<Longrightarrow> \<exists>f. writes f m"
  unfolding save_steps_def Let_def
  by (auto intro: writes_some [OF writes_request] writes_some [OF writes_transitions]
      writes_some [OF writes_scheduler_decisions] writes_some [OF writes_batch_decisions]
      writes_some [OF writes_failures] writes_some [OF writes_execution_record] writes_one_summary
      split: option.splits)

lemma run_steps_fault:
  assumes "k < length ms" and "\<forall>m \<in> set (take k ms). \<exists>f. writes f m"
    and "\<forall>j < k. db (i + j) = None" and "db (i + k) = Some (g, message)"
  shows "\<exists>t tr. run_steps db i ms s = (Inl (RX_Database message), s\<lparr>rp_tables := t, rp_traces := tr\<rparr>)"
  using assms
proof (induction ms arbitrary: i k s)
  case (Cons m ms)
  show ?case
  proof (cases k)
    case 0
    with Cons.prems(4) show ?thesis
      by (cases s) (auto simp: step_on_def on_tables_def op_defs)
  next
    case (Suc k')
    with Cons.prems obtain f where "writes f m" by auto
    then obtain tr where m: "m s = (Inr (), s\<lparr>rp_tables := f (rp_tables s), rp_traces := tr\<rparr>)"
      unfolding writes_def by blast
    let ?u = "s\<lparr>rp_tables := f (rp_tables s), rp_traces := tr\<rparr>"
    have "db i = None" using Cons.prems(3) Suc by (auto dest: spec [of _ 0])
    moreover have "\<exists>t tr'. run_steps db (Suc i) ms ?u =
        (Inl (RX_Database message), ?u\<lparr>rp_tables := t, rp_traces := tr'\<rparr>)"
      using Cons.prems Suc by (intro Cons.IH [of k']) (auto dest: spec [of _ "Suc j" for j])
    ultimately show ?thesis
      using m by (auto simp: step_on_def then_op_def bind_op_def)
  qed
qed simp

lemma write_record_fine:
  assumes "\<forall>k \<le> length (save_steps now ids x timeline :: ('x, unit) repo list). db k = None"
  shows "\<exists>tr. write_record db now ids x timeline (s :: 'x repository_scheme) =
     (Inr (), s\<lparr>rp_tables := recorded ids x timeline (rp_tables s),
               rp_committed := recorded ids x timeline (rp_tables s), rp_traces := tr\<rparr>)"
proof -
  let ?ms = "save_steps now ids x timeline :: ('x, unit) repo list"
  have "run_steps db 0 (?ms @ [commit]) = chain (?ms @ [commit]) (return_op ())"
    by (rule run_steps_fine) (use assms in auto)
  also have "\<dots> = then_op (chain ?ms (return_op ())) commit"
    by (rule chain_then)
  finally show ?thesis unfolding write_record_def using then_commit [OF writes_saves] by simp
qed

lemma write_record_fault:
  assumes "k \<le> length (save_steps now ids x timeline :: ('x, unit) repo list)"
    and "\<forall>j < k. db j = None" and "db k = Some (g, message)"
  shows "\<exists>t tr. write_record db now ids x timeline (s :: 'x repository_scheme) =
     (Inl (RX_Database message), s\<lparr>rp_tables := t, rp_traces := tr\<rparr>)"
  unfolding write_record_def
  by (rule run_steps_fault [where k = k and g = g])
    (use assms in \<open>auto dest!: in_set_takeD intro: saves_write\<close>)

lemma persist_run:
  "\<exists>tr. persist_execution_record now ids describe x timeline s =
     (Inr (), s\<lparr>rp_tables := recorded ids x timeline (rp_tables s),
               rp_committed := recorded ids x timeline (rp_tables s), rp_traces := tr\<rparr>)"
proof -
  obtain tr where "write_record (\<lambda>_. None) now ids x timeline s =
     (Inr (), s\<lparr>rp_tables := recorded ids x timeline (rp_tables s),
               rp_committed := recorded ids x timeline (rp_tables s), rp_traces := tr\<rparr>)"
    using write_record_fine [of now ids x timeline "\<lambda>_. None" s] by auto
  then show ?thesis unfolding persist_execution_record_def persist_record_on_def catch_op_def by auto
qed

section \<open>The table of execution records as a list of records\<close>

text \<open>The newest record of a request replaces the older one and goes to the end.\<close>

definition puts :: "execution_record \<Rightarrow> execution_record list \<Rightarrow> execution_record list" where
  "puts x ys = filter (\<lambda>y. xr_request_id y \<noteq> xr_request_id x) ys @ [x]"

definition with_id :: "uuid \<Rightarrow> execution_record list \<Rightarrow> execution_record option" where
  "with_id r ys = List.find (\<lambda>y. xr_request_id y = r) ys"

lemma execution_columns [simp]:
  "column ''request_id'' (execution_row x) = C_Text (xr_request_id x)"
  "column ''captured_at'' (execution_row x) = C_Text (isoformat (xr_captured_at x))"
  "column ''record_json'' (execution_row x) = C_Json (dumps (execution_record_to_dict x))"
  by (simp_all add: execution_row_def)

lemma recorded_executions:
  "tb_execution_records t = map execution_row ys \<Longrightarrow>
   tb_execution_records (recorded ids x timeline t) = map execution_row (puts x ys)"
  by (simp add: recorded_def insert_or_replace_def puts_def filter_map comp_def)

lemma find_append: "List.find P (xs @ ys) = (case List.find P xs of None \<Rightarrow> List.find P ys | Some x \<Rightarrow> Some x)"
  by (induction xs) auto

lemma find_filter_weaker: "(\<And>y. P y \<Longrightarrow> Q y) \<Longrightarrow> List.find P (filter Q ys) = List.find P ys"
  by (induction ys) auto

lemma with_id_puts: "with_id r (puts x ys) = (if xr_request_id x = r then Some x else with_id r ys)"
proof (cases "xr_request_id x = r")
  case True
  have "List.find (\<lambda>y. xr_request_id y = r) (filter (\<lambda>y. xr_request_id y \<noteq> r) ys) = None"
    by (auto simp: find_None_iff)
  with True show ?thesis by (simp add: with_id_def puts_def find_append)
next
  case False
  then show ?thesis
    by (auto simp: with_id_def puts_def find_append find_filter_weaker split: option.split)
qed

lemma with_id_fold:
  "with_id r (fold puts xs ys) = (case with_id r (rev xs) of None \<Rightarrow> with_id r ys | Some x \<Rightarrow> Some x)"
proof (induction xs arbitrary: ys)
  case (Cons x xs)
  have "with_id r (rev (x # xs)) =
      (case with_id r (rev xs) of None \<Rightarrow> if xr_request_id x = r then Some x else None | Some z \<Rightarrow> Some z)"
    by (simp add: with_id_def find_append split: option.split)
  then show ?case by (simp add: Cons with_id_puts split: option.split)
qed (simp add: with_id_def)

lemma set_puts: "set (puts x ys) \<subseteq> insert x (set ys)"
  by (auto simp: puts_def)

lemma set_fold_puts: "set (fold puts xs ys) \<subseteq> set xs \<union> set ys"
proof (induction xs arbitrary: ys)
  case (Cons x xs)
  show ?case using Cons [of "puts x ys"] set_puts [of x ys] by auto
qed simp

lemma distinct_puts:
  "distinct (map xr_request_id ys) \<Longrightarrow> distinct (map xr_request_id (puts x ys))"
  by (auto simp: puts_def distinct_map_filter)

lemma distinct_fold_puts:
  "distinct (map xr_request_id ys) \<Longrightarrow> distinct (map xr_request_id (fold puts xs ys))"
  by (induction xs arbitrary: ys) (simp_all add: distinct_puts)

lemma ids_fold_puts: "xr_request_id ` set (fold puts xs ys) = xr_request_id ` (set xs \<union> set ys)"
proof (induction xs arbitrary: ys)
  case (Cons x xs)
  have "xr_request_id ` set (puts x ys) = xr_request_id ` insert x (set ys)" by (auto simp: puts_def)
  with Cons show ?case by (simp add: image_Un)
qed simp

section \<open>The durable store\<close>

text \<open>The records of a process, one after the other.\<close>

definition put_all ::
  "replay_env \<Rightarrow> (execution_record \<times> trace_timeline option) list \<Rightarrow>
   ('x replay_state_scheme, repo_exn, unit) op" where
  "put_all env xs = iter_op (\<lambda>(x, timeline). durable_put env x timeline) xs"

lemma durable_put_run:
  "\<exists>tr. durable_put env x timeline s =
     (Inr (), s\<lparr>rv_records := dict_set (xr_request_id x) x (rv_records s),
               rp_tables := recorded (en_ids env) x timeline (rp_tables s),
               rp_committed := recorded (en_ids env) x timeline (rp_tables s), rp_traces := tr\<rparr>)"
proof -
  let ?s = "s\<lparr>rv_records := dict_set (xr_request_id x) x (rv_records s)\<rparr>"
  obtain tr where "persist_execution_record (en_now env) (en_ids env) (en_describe env) x timeline ?s =
     (Inr (), ?s\<lparr>rp_tables := recorded (en_ids env) x timeline (rp_tables ?s),
               rp_committed := recorded (en_ids env) x timeline (rp_tables ?s), rp_traces := tr\<rparr>)"
    using persist_run by blast
  then show ?thesis by (auto simp: durable_put_def cache_put_def op_defs)
qed

lemma put_all_run:
  assumes "tb_execution_records (rp_tables s) = map execution_row ys"
    and "rp_committed s = rp_tables s"
  shows "\<exists>t. put_all env xs s = (Inr (), t) \<and> rp_committed t = rp_tables t
    \<and> tb_execution_records (rp_tables t) = map execution_row (fold puts (map fst xs) ys)"
  using assms
proof (induction xs arbitrary: s ys)
  case Nil
  then show ?case by (simp add: put_all_def op_defs)
next
  case (Cons p xs)
  obtain x timeline where p: "p = (x, timeline)" by force
  obtain s1 where one: "durable_put env x timeline s = (Inr (), s1)"
    and c: "rp_committed s1 = rp_tables s1"
    and rows: "tb_execution_records (rp_tables s1) = map execution_row (puts x ys)"
    using durable_put_run [of env x timeline s] recorded_executions [OF Cons.prems(1)] by auto
  from Cons.IH [OF rows c] show ?case
    using one p by (simp add: put_all_def then_op_def bind_op_def)
qed

section \<open>Recovery\<close>

definition decodable :: "validators \<Rightarrow> execution_record \<Rightarrow> bool" where
  "decodable py x \<longleftrightarrow>
     (case execution_record_from_dict py (reread (execution_record_to_dict x)) of
        Inl e \<Rightarrow> False | Inr y \<Rightarrow> xr_request_id y = xr_request_id x)"

text \<open>The record as it comes back, where it does.\<close>

definition read_back :: "validators \<Rightarrow> execution_record \<Rightarrow> execution_record" where
  "read_back py x =
     (case execution_record_from_dict py (reread (execution_record_to_dict x)) of Inl e \<Rightarrow> x | Inr y \<Rightarrow> y)"

lemma read_back_id: "decodable py x \<Longrightarrow> xr_request_id (read_back py x) = xr_request_id x"
  by (auto simp: decodable_def read_back_def split: sum.splits)

lemma fetch_execution:
  "fetch_one ''request_id'' r (map execution_row ys) = map_option execution_row (with_id r ys)"
proof -
  have "select_where ''request_id'' r (map execution_row ys) =
      map execution_row (filter (\<lambda>y. xr_request_id y = r) ys)"
    by (simp add: select_where_def filter_map comp_def)
  moreover have "with_id r ys = (case filter (\<lambda>y. xr_request_id y = r) ys of [] \<Rightarrow> None | y # _ \<Rightarrow> Some y)"
    unfolding with_id_def by (induction ys) auto
  ultimately show ?thesis by (simp add: fetch_one_def split: list.split)
qed

lemma with_id_member:
  "distinct (map xr_request_id ys) \<Longrightarrow> y \<in> set ys \<Longrightarrow> with_id (xr_request_id y) ys = Some y"
  unfolding with_id_def by (induction ys) (auto simp: image_iff)

lemma read_event_run:
  "read_event now entity i r s = (Inr (), s\<lparr>rp_traces := rp_traces (snd (read_event now entity i r s))\<rparr>)"
  by (simp add: read_event_def emit_persistence_def modify_op_def split: option.split)

lemma get_record_run:
  assumes rows: "tb_execution_records (rp_tables s) = map execution_row ys"
  shows "\<exists>tr. get_record py now r s =
    ((case with_id r ys of
        None \<Rightarrow> Inr None
      | Some y \<Rightarrow> (case execution_record_from_dict py (reread (execution_record_to_dict y)) of
          Inl e \<Rightarrow> Inl (RX_Codec e) | Inr z \<Rightarrow> Inr (Some z))),
     s\<lparr>rp_traces := tr\<rparr>)"
proof (cases "with_id r ys")
  case None
  then show ?thesis
    by (intro exI [of _ "rp_traces s"]) (simp add: get_record_def rows fetch_execution op_defs)
next
  case (Some y)
  obtain tr where "read_event now ''execution_record'' r (Some r) s = (Inr (), s\<lparr>rp_traces := tr\<rparr>)"
    using read_event_run by blast
  with Some show ?thesis
    by (auto simp: get_record_def rows fetch_execution op_defs decoded_op_def split: sum.split)
qed

lemma recover_one_run:
  assumes rows: "tb_execution_records (rp_tables s) = map execution_row ys"
    and dist: "distinct (map xr_request_id ys)" and y: "y \<in> set ys"
  shows "decodable py y \<Longrightarrow> \<exists>tr. recover_one py now (xr_request_id y) s =
      (Inr 1, s\<lparr>rv_records := dict_set (xr_request_id y) (read_back py y) (rv_records s), rp_traces := tr\<rparr>)"
    and "execution_record_from_dict py (reread (execution_record_to_dict y)) = Inl e \<Longrightarrow>
      fst (recover_one py now (xr_request_id y) s) = Inl (RX_Codec e)"
proof -
  obtain tr where get: "get_record py now (xr_request_id y) s =
    ((case execution_record_from_dict py (reread (execution_record_to_dict y)) of
        Inl e \<Rightarrow> Inl (RX_Codec e) | Inr z \<Rightarrow> Inr (Some z)), s\<lparr>rp_traces := tr\<rparr>)"
    using get_record_run [OF rows, of py now "xr_request_id y"] with_id_member [OF dist y] by auto
  show "\<exists>tr. recover_one py now (xr_request_id y) s =
      (Inr 1, s\<lparr>rv_records := dict_set (xr_request_id y) (read_back py y) (rv_records s), rp_traces := tr\<rparr>)"
    if "decodable py y"
    using that get by (cases s)
      (auto simp: decodable_def recover_one_def read_back_def cache_put_def op_defs split: sum.splits)
  show "fst (recover_one py now (xr_request_id y) s) = Inl (RX_Codec e)"
    if "execution_record_from_dict py (reread (execution_record_to_dict y)) = Inl e"
    using that get by (simp add: recover_one_def op_defs)
qed

lemma recover_all_run:
  assumes "tb_execution_records (rp_tables s) = map execution_row ys" "distinct (map xr_request_id ys)"
    and "set zs \<subseteq> set ys" "\<forall>z \<in> set zs. decodable py z"
  shows "\<exists>tr. map_op (recover_one py now) (map xr_request_id zs) s =
    (Inr (replicate (length zs) 1),
     s\<lparr>rv_records := fold (\<lambda>z. dict_set (xr_request_id z) (read_back py z)) zs (rv_records s),
       rp_traces := tr\<rparr>)"
  using assms(1,3,4)
proof (induction zs arbitrary: s)
  case Nil
  show ?case by (rule exI [of _ "rp_traces s"]) (simp add: op_defs)
next
  case (Cons z zs)
  obtain tr where one: "recover_one py now (xr_request_id z) s =
      (Inr 1, s\<lparr>rv_records := dict_set (xr_request_id z) (read_back py z) (rv_records s), rp_traces := tr\<rparr>)"
    using recover_one_run(1) [OF Cons.prems(1) assms(2), of z] Cons.prems(2,3) by (meson list.set_intros(1) subsetD)
  let ?s = "s\<lparr>rv_records := dict_set (xr_request_id z) (read_back py z) (rv_records s), rp_traces := tr\<rparr>"
  obtain tr' where rest: "map_op (recover_one py now) (map xr_request_id zs) ?s =
    (Inr (replicate (length zs) 1),
     ?s\<lparr>rv_records := fold (\<lambda>z. dict_set (xr_request_id z) (read_back py z)) zs (rv_records ?s),
       rp_traces := tr'\<rparr>)"
    using Cons.IH [of ?s] Cons.prems by auto
  show ?case by (rule exI [of _ tr'], cases s) (use one rest in \<open>simp add: op_defs\<close>)
qed

lemma recover_all_fails:
  assumes "tb_execution_records (rp_tables s) = map execution_row ys" "distinct (map xr_request_id ys)"
    and "set zs \<subseteq> set ys" "\<forall>z \<in> set zs. \<not> decodable py z \<longrightarrow>
      (\<exists>e. execution_record_from_dict py (reread (execution_record_to_dict z)) = Inl e)"
    and "\<exists>z \<in> set zs. \<not> decodable py z"
  shows "\<exists>e. fst (map_op (recover_one py now) (map xr_request_id zs) s) = Inl (RX_Codec e)"
  using assms(1,3-5)
proof (induction zs arbitrary: s)
  case (Cons z zs)
  have z: "z \<in> set ys" using Cons.prems by simp
  show ?case
  proof (cases "decodable py z")
    case True
    obtain tr where one: "recover_one py now (xr_request_id z) s =
        (Inr 1, s\<lparr>rv_records := dict_set (xr_request_id z) (read_back py z) (rv_records s), rp_traces := tr\<rparr>)"
      using recover_one_run(1) [OF Cons.prems(1) assms(2) z True] by blast
    obtain e where "fst (map_op (recover_one py now) (map xr_request_id zs)
        (s\<lparr>rv_records := dict_set (xr_request_id z) (read_back py z) (rv_records s), rp_traces := tr\<rparr>)) =
          Inl (RX_Codec e)"
      using Cons.IH [of "s\<lparr>rv_records := dict_set (xr_request_id z) (read_back py z) (rv_records s),
        rp_traces := tr\<rparr>"] Cons.prems True by auto
    then show ?thesis using one by (auto simp: op_defs split: prod.splits sum.splits)
  next
    case False
    obtain e where "execution_record_from_dict py (reread (execution_record_to_dict z)) = Inl e"
      using False Cons.prems by auto
    then have "fst (recover_one py now (xr_request_id z) s) = Inl (RX_Codec e)"
      by (rule recover_one_run(2) [OF Cons.prems(1) assms(2) z])
    then show ?thesis by (cases "recover_one py now (xr_request_id z) s") (simp add: op_defs)
  qed
qed simp

lemma insort_key_map: "insort_key g (f x) (map f xs) = map f (insort_key (\<lambda>x. g (f x)) x xs)"
  by (induction xs) auto

lemma sort_key_map: "sort_key g (map f xs) = map f (sort_key (\<lambda>x. g (f x)) xs)"
  by (induction xs) (simp_all add: insort_key_map)

lemma find_SomeD: "List.find P xs = Some x \<Longrightarrow> P x \<and> x \<in> set xs"
  by (induction xs) (auto split: if_splits)

lemma list_ids_run:
  assumes "tb_execution_records (rp_tables s) = map execution_row ys" "\<forall>y \<in> set ys. uuid_text (xr_request_id y)"
  shows "\<exists>zs. set zs = set ys \<and> length zs = length ys \<and>
    list_record_ids s = (Inr (map xr_request_id zs), s)"
proof -
  let ?zs = "sort_key (\<lambda>y. isoformat (xr_captured_at y)) ys"
  have sorted: "order_by_text ''captured_at'' (map execution_row ys) = map execution_row ?zs"
    by (simp add: order_by_text_def sort_key_map text_of_def)
  have "\<forall>z \<in> set zs. uuid_text (xr_request_id z) \<Longrightarrow>
      map_results (\<lambda>q. parse_uuid (text_of (column ''request_id'' q))) (map execution_row zs) =
        Inr (map xr_request_id zs)" for zs
    by (induction zs) (simp_all add: text_of_def)
  with assms(2) have "map_results (\<lambda>q. parse_uuid (text_of (column ''request_id'' q))) (map execution_row ?zs) =
      Inr (map xr_request_id ?zs)"
    by simp
  then show ?thesis
    by (intro exI [of _ ?zs])
      (simp add: list_record_ids_def assms(1) sorted op_defs decoded_op_def del: map_map)
qed

lemma fold_dict_set:
  "distinct (map f zs) \<Longrightarrow> dict_get (fold (\<lambda>z. dict_set (f z) (g z)) zs d) r =
     (case List.find (\<lambda>z. f z = r) zs of None \<Rightarrow> dict_get d r | Some z \<Rightarrow> Some (g z))"
proof (induction zs arbitrary: d)
  case (Cons z zs)
  have "f z = r \<Longrightarrow> List.find (\<lambda>y. f y = r) zs = None"
    using Cons.prems unfolding find_None_iff by (auto simp: rev_image_eqI)
  with Cons show ?case by (auto split: option.splits)
qed simp

lemma find_unique:
  assumes "distinct (map f ys)" "set zs = set ys"
  shows "List.find (\<lambda>z. f z = r) zs = List.find (\<lambda>z. f z = r) ys"
proof -
  have inj: "inj_on f (set ys)" using assms(1) by (simp add: distinct_map)
  show ?thesis
  proof (cases "\<exists>z \<in> set ys. f z = r")
    case True
    then obtain z where z: "z \<in> set ys" "f z = r" by blast
    have "List.find (\<lambda>z. f z = r) ws = Some z" if same: "set ws = set ys" for ws
    proof -
      obtain w where w: "List.find (\<lambda>z. f z = r) ws = Some w"
        using z same by (cases "List.find (\<lambda>z. f z = r) ws") (auto simp: find_None_iff)
      from find_SomeD [OF w]
      have "w = z" using z inj same by (auto dest: inj_onD)
      with w show ?thesis by simp
    qed
    then show ?thesis using assms(2) by simp
  next
    case False
    then have "List.find (\<lambda>z. f z = r) ws = None" if "set ws = set ys" for ws
      using that by (auto simp: find_None_iff)
    then show ?thesis using assms(2) by simp
  qed
qed

lemma recover_run:
  assumes rows: "tb_execution_records (rp_tables s) = map execution_row ys"
    and dist: "distinct (map xr_request_id ys)"
    and ids: "\<forall>y \<in> set ys. uuid_text (xr_request_id y)"
    and ok: "\<forall>y \<in> set ys. decodable py y" and empty: "rv_records s = []"
  shows "\<exists>t. recover py now s = (Inr (length ys), t) \<and>
    (\<forall>r. dict_get (rv_records t) r = map_option (read_back py) (with_id r ys))"
proof -
  obtain zs where zs: "set zs = set ys" "length zs = length ys"
    and list: "list_record_ids s = (Inr (map xr_request_id zs), s)"
    using list_ids_run [OF rows ids] by blast
  have dz: "distinct (map xr_request_id zs)"
    using zs dist by (metis card_distinct distinct_card length_map set_map)
  have sub: "set zs \<subseteq> set ys" "\<forall>z \<in> set zs. decodable py z" using zs ok by auto
  obtain tr where run: "map_op (recover_one py now) (map xr_request_id zs) s =
    (Inr (replicate (length zs) 1),
     s\<lparr>rv_records := fold (\<lambda>z. dict_set (xr_request_id z) (read_back py z)) zs (rv_records s),
       rp_traces := tr\<rparr>)"
    using recover_all_run [OF rows dist sub] by blast
  have get: "dict_get (fold (\<lambda>z. dict_set (xr_request_id z) (read_back py z)) zs []) r =
      map_option (read_back py) (with_id r ys)" for r
    by (simp add: fold_dict_set [OF dz] with_id_def find_unique [OF dist zs(1)] split: option.split)
  define t where "t = s\<lparr>rv_records := fold (\<lambda>z. dict_set (xr_request_id z) (read_back py z)) zs [],
    rp_traces := tr\<rparr>"
  have all: "map_op (recover_one py now) (map xr_request_id zs) s = (Inr (replicate (length ys) 1), t)"
    using run by (simp only: t_def empty zs(2))
  have total: "sum_list (replicate (length ys) (1::nat)) = length ys" by (simp add: sum_list_replicate)
  have "recover py now s = (Inr (length ys), t)"
    unfolding recover_def bind_op_def list prod.case sum.case all total
    by (simp add: then_op_def bind_op_def return_op_def emit_persistence_def modify_op_def)
  then show ?thesis using get by (simp add: t_def)
qed

lemma recover_fails:
  assumes rows: "tb_execution_records (rp_tables s) = map execution_row ys"
    and dist: "distinct (map xr_request_id ys)"
    and ids: "\<forall>y \<in> set ys. uuid_text (xr_request_id y)"
    and "\<forall>y \<in> set ys. \<not> decodable py y \<longrightarrow>
      (\<exists>e. execution_record_from_dict py (reread (execution_record_to_dict y)) = Inl e)"
    and "\<exists>y \<in> set ys. \<not> decodable py y"
  shows "\<exists>e. fst (recover py now s) = Inl (RX_Codec e)"
proof -
  obtain zs where zs: "set zs = set ys" and list: "list_record_ids s = (Inr (map xr_request_id zs), s)"
    using list_ids_run [OF rows ids] by blast
  obtain e where "fst (map_op (recover_one py now) (map xr_request_id zs) s) = Inl (RX_Codec e)"
    using recover_all_fails [OF rows dist, of zs py now] assms(4,5) zs by auto
  then show ?thesis using list
    by (cases "map_op (recover_one py now) (map xr_request_id zs) s") (auto simp: recover_def op_defs)
qed

section \<open>Which records come back\<close>

text \<open>
  In strict mode, which every model of the platform is in, pydantic accepts a \<open>UUID\<close> only as an
  object of that class, so that a dictionary with a text for its \<open>request_id\<close> is refused.
\<close>

definition strict_models :: "validators \<Rightarrow> bool" where
  "strict_models py \<longleftrightarrow> (\<forall>d u. dict_get d ''request_id'' = Some (PV_Str u) \<longrightarrow>
     (\<exists>e. val_completion py (PV_Dict d) = Inl e) \<and> (\<exists>e. val_stream_metrics py (PV_Dict d) = Inl e))"

definition plain :: "execution_record \<Rightarrow> bool" where
  "plain x \<longleftrightarrow> xr_completion x = None \<and> xr_stream_metrics x = None"

lemma plain_round:
  "storable x \<Longrightarrow> plain x \<Longrightarrow>
   execution_record_from_dict py (reread (execution_record_to_dict x)) = Inr (stored_record x)"
  using records.round [of x py] by (simp add: plain_def)

lemma plain_decodable: "storable x \<Longrightarrow> plain x \<Longrightarrow> decodable py x"
  by (simp add: decodable_def plain_round stored_record_def)

lemma plain_read_back: "storable x \<Longrightarrow> plain x \<Longrightarrow> read_back py x = stored_record x"
  by (simp add: read_back_def plain_round)

lemma reread_with_id:
  assumes "dict_get d ''request_id'' = Some (PV_Uuid u)"
  obtains e where "reread (PV_Dict d) = PV_Dict e" "dict_get e ''request_id'' = Some (PV_Str u)"
    "py_truthy (PV_Dict e)"
proof -
  let ?e = "sort_key fst (map (map_prod id (\<lambda>v. reread v)) d)"
  have get: "dict_get ?e ''request_id'' = Some (PV_Str u)" using assms by simp
  then have "?e \<noteq> []" by (metis map_of.simps(1) option.distinct(1))
  then show thesis using that [of ?e] get by (simp add: reread_Dict)
qed

lemma bind_result_Inl: "(\<And>a. m = Inr a \<Longrightarrow> \<exists>e. f a = Inl e) \<Longrightarrow> \<exists>e. bind_result m f = Inl e"
  by (cases m) (auto simp: bind_result_def)

lemma validated_refuses:
  assumes "(\<exists>e. validated_field ''completion'' (val_completion py) v = Inl e) \<or>
      (\<exists>e. validated_field ''stream_metrics'' (val_stream_metrics py) v = Inl e)"
  shows "\<exists>e. execution_record_from_dict py v = Inl e"
  unfolding execution_record_from_dict_def using assms
  by (elim disjE exE) ((rule bind_result_Inl)+, simp)+

lemma validated_Inl:
  assumes "get_or_none k v = Inr x" "py_truthy x" "f x = Inl e"
  shows "validated_field k f v = Inl e"
  using assms by (simp add: validated_field_def)

lemma strict_refuses:
  assumes strict: "strict_models py" and bad: "\<not> plain x"
  shows "\<exists>e. execution_record_from_dict py (reread (execution_record_to_dict x)) = Inl e"
proof -
  let ?v = "reread (execution_record_to_dict x)"
  have "(\<exists>e. validated_field ''completion'' (val_completion py) ?v = Inl e) \<or>
      (\<exists>e. validated_field ''stream_metrics'' (val_stream_metrics py) ?v = Inl e)"
  proof (cases "xr_completion x")
    case (Some c)
    obtain d where d: "reread (dump_completion c) = PV_Dict d"
        "dict_get d ''request_id'' = Some (PV_Str (ic_request_id c))" "py_truthy (PV_Dict d)"
      unfolding dump_completion_def by (rule reread_with_id) auto
    have "get_or_none ''completion'' ?v = Inr (PV_Dict d)"
      using Some d(1) by (simp add: execution_record_to_dict_def get_or_none_reread opt_py_def)
    moreover obtain e where "val_completion py (PV_Dict d) = Inl e"
      using strict d(2) unfolding strict_models_def by blast
    ultimately show ?thesis using d(3) validated_Inl by blast
  next
    case None
    then obtain m where m: "xr_stream_metrics x = Some m" using bad by (auto simp: plain_def)
    obtain d where d: "reread (dump_stream_metrics m) = PV_Dict d"
        "dict_get d ''request_id'' = Some (PV_Str (sm_request_id m))" "py_truthy (PV_Dict d)"
      unfolding dump_stream_metrics_def by (rule reread_with_id) auto
    have "get_or_none ''stream_metrics'' ?v = Inr (PV_Dict d)"
      using m d(1) by (simp add: execution_record_to_dict_def get_or_none_reread opt_py_def)
    moreover obtain e where "val_stream_metrics py (PV_Dict d) = Inl e"
      using strict d(2) unfolding strict_models_def by blast
    ultimately show ?thesis using d(3) validated_Inl by blast
  qed
  then show ?thesis by (rule validated_refuses)
qed

definition sample_payload :: payload_snapshot where
  "sample_payload = \<lparr>ps_inference_request = [], ps_request_context = []\<rparr>"

definition sample_record :: "inference_completion_record option \<Rightarrow> execution_record" where
  "sample_record completion =
     \<lparr>xr_request_id = ''00000000-0000-0000-0000-000000000001'', xr_correlation_id = ''trace'',
      xr_captured_at = 0, xr_payload = sample_payload, xr_lifecycle_transitions = [],
      xr_queue_events = [], xr_scheduler_events = [], xr_batch_events = [], xr_backend_events = [],
      xr_failures = [],
      xr_terminal_outcome = \<lparr>to_state = ''completed'', to_failure_reason = None,
        to_failure_message = None, to_batch_id = None, to_backend_id = Some ''mock''\<rparr>,
      xr_event_timeline = [], xr_replay_id = None, xr_source_request_id = None,
      xr_completion = completion, xr_stream_metrics = None\<rparr>"

definition sample_completion :: inference_completion_record where
  "sample_completion =
     \<lparr>ic_request_id = ''00000000-0000-0000-0000-000000000001'', ic_backend_id = ''mock'',
      ic_generated_text = ''text'', ic_prompt_tokens = 1, ic_completion_tokens = 1, ic_total_tokens = 2,
      ic_finish_reason = Some ''stop'', ic_completed_at = 0, ic_execution_duration_ms = None\<rparr>"

text \<open>Models that refuse everything are strict; they serve as an instance.\<close>

definition refusing_models :: validators where
  "refusing_models =
     \<lparr>val_completion = \<lambda>v. Inl CE_TypeError, val_stream_metrics = \<lambda>v. Inl CE_TypeError,
      val_inference_request = \<lambda>v. Inl CE_TypeError, val_request_context = \<lambda>v. Inl CE_TypeError\<rparr>"

definition sample_env :: replay_env where
  "sample_env = \<lparr>en_now = 0, en_captured = 0, en_ids = (\<lambda>i. []), en_describe = (\<lambda>e. [])\<rparr>"

definition sample_store :: replay_state where
  "sample_store = \<lparr>rp_tables = empty_tables, rp_committed = empty_tables, rp_events = True,
     rp_traces = [], rv_records = [], rv_durable = True, rv_repository = True\<rparr>"

lemma sample_storable: "storable (sample_record c)"
proof -
  have "uuid_text ''00000000-0000-0000-0000-000000000001''" by code_simp
  moreover have "date_ok 0" by (simp add: date_ok_def max_time_def day_us_def days_before_year_def)
  ultimately show ?thesis by (simp add: storable_def sample_record_def opt_uuid_ok_def)
qed

section \<open>What a write keeps and what a failed write leaves\<close>

definition others_kept :: "uuid \<Rightarrow> tables \<Rightarrow> tables \<Rightarrow> bool" where
  "others_kept r t u \<longleftrightarrow>
     (\<forall>q. q \<noteq> r \<longrightarrow>
        select_where ''request_id'' q (tb_requests u) = select_where ''request_id'' q (tb_requests t) \<and>
        select_where ''request_id'' q (tb_lifecycle_transitions u) =
          select_where ''request_id'' q (tb_lifecycle_transitions t) \<and>
        select_where ''request_id'' q (tb_scheduler_decisions u) =
          select_where ''request_id'' q (tb_scheduler_decisions t) \<and>
        select_where ''request_id'' q (tb_batch_decisions u) =
          select_where ''request_id'' q (tb_batch_decisions t) \<and>
        select_where ''request_id'' q (tb_execution_records u) =
          select_where ''request_id'' q (tb_execution_records t)) \<and>
     tb_replay_executions u = tb_replay_executions t \<and> tb_replay_comparisons u = tb_replay_comparisons t"

definition failures_kept :: "row list \<Rightarrow> tables \<Rightarrow> tables \<Rightarrow> bool" where
  "failures_kept rows t u \<longleftrightarrow>
     (\<forall>q \<in> set (tb_failures t). column ''failure_id'' q \<notin> column ''failure_id'' ` set rows \<longrightarrow>
        q \<in> set (tb_failures u))"

text \<open>The steps of a write: one for each group of rows, one for each failure, and the commit.\<close>

definition step_count :: "execution_record \<Rightarrow> trace_timeline option \<Rightarrow> nat" where
  "step_count x timeline = 6 + length (xr_failures x) + (if timeline = None then 0 else 1)"

definition last_event :: "uuid \<Rightarrow> trace_store \<Rightarrow> trace_event option" where
  "last_event r st =
     (case dict_get st r of
        None \<Rightarrow> None
      | Some t \<Rightarrow> if rt_events t = [] then None else Some (last (rt_events t)))"

lemma last_event_append: "last_event (te_request_id e) (append_event e st) = Some e"
  by (simp add: last_event_def append_event_def Let_def retag_def split: prod.split option.split)

lemma select_replaced:
  "column k r \<noteq> C_Text q \<Longrightarrow> select_where k q (insert_or_replace k r rows) = select_where k q rows"
  by (auto simp: select_where_def insert_or_replace_def intro: filter_cong)

lemma select_rewritten:
  assumes "rows_for r rs" and "q \<noteq> r"
  shows "select_where ''request_id'' q (delete_where ''request_id'' r rows @ rs) =
    select_where ''request_id'' q rows"
proof -
  have "filter (\<lambda>p. column ''request_id'' p = C_Text q) rs = []"
    using assms by (auto simp: rows_for_def filter_empty_conv)
  moreover have "filter (\<lambda>p. column ''request_id'' p = C_Text q) (delete_where ''request_id'' r rows) =
      filter (\<lambda>p. column ''request_id'' p = C_Text q) rows"
    using assms(2) by (auto simp: delete_where_def intro: filter_cong)
  ultimately show ?thesis by (simp add: select_where_def)
qed

lemma kept_failures:
  assumes "q \<in> set rows" and "column k q \<notin> column k ` set rs"
  shows "q \<in> set (fold (insert_or_replace k) rs rows)"
  using assms by (induction rs arbitrary: rows) (auto simp: insert_or_replace_def)

lemma recorded_keeps:
  "others_kept (xr_request_id x) t (recorded ids x timeline t)"
  "failures_kept (failure_rows_of ids x) t (recorded ids x timeline t)"
proof -
  have "column ''request_id'' (request_row (request_metadata_from_record x)) = C_Text (xr_request_id x)"
    by (simp add: request_row_def request_metadata_from_record_def Let_def)
  then show "others_kept (xr_request_id x) t (recorded ids x timeline t)"
    by (simp add: others_kept_def recorded_def replaced_unless_empty_def select_replaced
        select_rewritten [OF rows_for_transitions] select_rewritten [OF rows_for_scheduler]
        select_rewritten [OF rows_for_batch])
  show "failures_kept (failure_rows_of ids x) t (recorded ids x timeline t)"
    by (simp add: failures_kept_def recorded_def kept_failures)
qed

lemma length_saves:
  "length (save_steps now ids x timeline) = 5 + length (xr_failures x) + (if timeline = None then 0 else 1)"
  by (simp add: save_steps_def Let_def split: option.split)

text \<open>The handler: the tables are the committed ones, and the failure is on the trace.\<close>

lemma failed_write:
  fixes s :: "'x repository_scheme"
  shows "\<exists>tr'. then_op rollback
       (then_op (emit_persistence now PE_FAILURE ''execution_record'' r (Some r)
          [(''error'', X_STR (describe e))]) (raise_op e)) (s\<lparr>rp_tables := t, rp_traces := tr\<rparr>) =
      (Inl e, s\<lparr>rp_tables := rp_committed s, rp_traces := tr'\<rparr>) \<and>
    (rp_events s \<longrightarrow> (\<exists>ev. last_event r tr' = Some ev \<and> te_event_type ev = ''persistence_failure'' \<and>
       dict_get (te_extra ev) ''error'' = Some (X_STR (describe e))))"
proof -
  let ?ev = "\<lparr>te_request_id = r, te_correlation_id = r, te_timestamp = now,
     te_component = RT_CONTROL_PLANE, te_event_type = ''persistence_failure'', te_batch_id = None,
     te_backend_id = None, te_lifecycle_state = None, te_decision_reason = None,
     te_extra = dict_update [(''entity_type'', X_STR ''execution_record''), (''entity_id'', X_STR r)]
       [(''error'', X_STR (describe e))]\<rparr>"
  have last: "last_event r (append_event ?ev tr) = Some ?ev"
    using last_event_append [of ?ev tr] by simp
  show ?thesis
    by (cases s, cases "rp_events s")
      (use last in \<open>auto simp: op_defs rollback_def emit_persistence_def dict_update_def\<close>)
qed

section \<open>The properties\<close>

text \<open>C33: Writing an execution record is all or nothing, whatever the statements of the database do.
  If they all go through, it returns, and the tables, committed, hold what the function \<open>recorded\<close>
  makes of them: no row of another request is touched, and no failure already there is lost unless its
  id is drawn again. If one of them raises, or the commit does, the exception of the first one is
  raised again; the tables are those of the last commit, with nothing of this write nor of another
  uncommitted one; what was committed stays; and when an emitter is attached the last event of the
  request is the persistence failure with that exception.\<close>

theorem persist_atomic:
  fixes s :: "'x repository_scheme"
  shows "case persist_record_on db now ids describe x timeline s of
      (Inr _, t) \<Rightarrow>
        (\<forall>k < step_count x timeline. db k = None) \<and> rp_tables t = recorded ids x timeline (rp_tables s) \<and>
        rp_committed t = rp_tables t \<and> others_kept (xr_request_id x) (rp_tables s) (rp_tables t) \<and>
        failures_kept (failure_rows_of ids x) (rp_tables s) (rp_tables t)
    | (Inl e, t) \<Rightarrow>
        (\<exists>k < step_count x timeline. \<exists>g m. db k = Some (g, m) \<and> (\<forall>j < k. db j = None) \<and> e = RX_Database m) \<and>
        rp_tables t = rp_committed s \<and> rp_committed t = rp_committed s \<and>
        (rp_events s \<longrightarrow> (\<exists>ev. last_event (xr_request_id x) (rp_traces t) = Some ev \<and>
           te_event_type ev = ''persistence_failure'' \<and>
           dict_get (te_extra ev) ''error'' = Some (X_STR (describe e))))"
proof (cases "\<forall>k < step_count x timeline. db k = None")
  case True
  then obtain tr where "write_record db now ids x timeline s =
      (Inr (), s\<lparr>rp_tables := recorded ids x timeline (rp_tables s),
                rp_committed := recorded ids x timeline (rp_tables s), rp_traces := tr\<rparr>)"
    using write_record_fine [where db = db and s = s and ids = ids and x = x and timeline = timeline and now = now]
    by (auto simp: step_count_def length_saves)
  with True show ?thesis
    by (simp add: persist_record_on_def catch_op_def recorded_keeps)
next
  case False
  then obtain i where i: "i < step_count x timeline" "db i \<noteq> None" by auto
  obtain k where k: "db k \<noteq> None" "k < step_count x timeline" "\<forall>j < k. db j = None"
  proof
    show "db (LEAST k. db k \<noteq> None) \<noteq> None" by (rule LeastI [of "\<lambda>k. db k \<noteq> None", OF i(2)])
    show "(LEAST k. db k \<noteq> None) < step_count x timeline"
      using Least_le [of "\<lambda>k. db k \<noteq> None", OF i(2)] i(1) by simp
    show "\<forall>j < (LEAST k. db k \<noteq> None). db j = None"
      using not_less_Least [of _ "\<lambda>k. db k \<noteq> None"] by blast
  qed
  then obtain g m where g: "db k = Some (g, m)" by auto
  obtain t tr where "write_record db now ids x timeline s =
      (Inl (RX_Database m), s\<lparr>rp_tables := t, rp_traces := tr\<rparr>)"
    using write_record_fault [where k = k and db = db and g = g and message = m and s = s and ids = ids
      and x = x and timeline = timeline and now = now] k g
    by (auto simp: step_count_def length_saves)
  moreover obtain tr' where "then_op rollback
       (then_op (emit_persistence now PE_FAILURE ''execution_record'' (xr_request_id x) (Some (xr_request_id x))
          [(''error'', X_STR (describe (RX_Database m)))])
          (raise_op (RX_Database m) :: ('x, unit) repo))
      (s\<lparr>rp_tables := t, rp_traces := tr\<rparr>) =
      (Inl (RX_Database m), s\<lparr>rp_tables := rp_committed s, rp_traces := tr'\<rparr>)"
    and "rp_events s \<longrightarrow> (\<exists>ev. last_event (xr_request_id x) tr' = Some ev \<and>
       te_event_type ev = ''persistence_failure'' \<and>
       dict_get (te_extra ev) ''error'' = Some (X_STR (describe (RX_Database m))))"
    using failed_write [where s = s and t = t and tr = tr and now = now and r = "xr_request_id x"
        and describe = describe and e = "RX_Database m"] by blast
  ultimately show ?thesis
    using k(2,3) g by (simp add: persist_record_on_def catch_op_def) blast
qed

text \<open>The insert of the execution record finds the disk full: nothing of the write stays.\<close>

theorem persist_atomic_witness:
  "case persist_record_on (\<lambda>k. if k = 4 then Some (\<lambda>t. t, ''database or disk is full'') else None) 0 (\<lambda>i. [])
      (\<lambda>e. ''error'') (sample_record None) None sample_store of
     (Inr _, t) \<Rightarrow> False
   | (Inl e, t) \<Rightarrow> e = RX_Database ''database or disk is full'' \<and> rp_tables t = empty_tables \<and>
       rp_committed t = empty_tables \<and>
       (\<exists>ev. last_event (xr_request_id (sample_record None)) (rp_traces t) = Some ev \<and>
          te_event_type ev = ''persistence_failure'')"
proof -
  let ?db = "\<lambda>k :: nat. if k = 4 then Some (\<lambda>t :: tables. t, ''database or disk is full'') else None"
  have "\<not> (\<forall>k < step_count (sample_record None) None. ?db k = None)"
    by (auto simp: step_count_def intro: exI [of _ 4])
  moreover have "rp_committed sample_store = empty_tables" "rp_events sample_store"
    by (simp_all add: sample_store_def)
  ultimately show ?thesis
    using persist_atomic [where db = ?db and now = 0 and ids = "\<lambda>i. []" and describe = "\<lambda>e. ''error''"
        and x = "sample_record None" and timeline = None and s = sample_store]
    by (auto split: prod.splits sum.splits if_splits)
qed

lemma put_all_reopened:
  fixes s :: "'x replay_state_scheme" and xs :: "(execution_record \<times> trace_timeline option) list"
  assumes "tb_execution_records (rp_tables s) = []" "rp_committed s = rp_tables s"
  defines "ys \<equiv> fold puts (map fst xs) []"
  shows "tb_execution_records (rp_tables (reopen (snd (put_all env xs s))\<lparr>rv_records := []\<rparr>)) = map execution_row ys"
    and "distinct (map xr_request_id ys)"
    and "set ys \<subseteq> fst ` set xs"
    and "with_id r ys = with_id r (rev (map fst xs))"
    and "length ys = card (xr_request_id ` fst ` set xs)"
proof -
  show "tb_execution_records (rp_tables (reopen (snd (put_all env xs s))\<lparr>rv_records := []\<rparr>)) = map execution_row ys"
    using put_all_run [of s "[]" env xs] assms(1,2) by (auto simp: ys_def reopen_def)
  show d: "distinct (map xr_request_id ys)" unfolding ys_def by (rule distinct_fold_puts) simp
  show "set ys \<subseteq> fst ` set xs" using set_fold_puts [of "map fst xs" "[]"] by (simp add: ys_def)
  show "with_id r ys = with_id r (rev (map fst xs))"
    unfolding ys_def with_id_fold by (simp add: with_id_def split: option.split)
  show "length ys = card (xr_request_id ` fst ` set xs)"
    using distinct_card [OF d] ids_fold_puts [of "map fst xs" "[]"] by (simp add: ys_def)
qed

text \<open>C19: What the durable store is given survives a restart. After any sequence of records has been
  put into it, starting from an empty database, a process that finds only the committed tables
  recovers exactly one record for each request: the last one put for it, with every field as it
  was, except that ids and dates inside the payload are texts and dictionaries have their keys
  sorted. The records are those with well-formed ids and dates and no completion or stream
  metrics.\<close>

theorem restart_restores:
  fixes s :: "'x replay_state_scheme"
  assumes "tb_execution_records (rp_tables s) = []" "rp_committed s = rp_tables s"
    and ok: "\<forall>x \<in> fst ` set xs. storable x \<and> plain x"
  shows "\<exists>t. start_store py now (snd (put_all env xs s)) = (Inr (card (xr_request_id ` fst ` set xs)), t) \<and>
    (\<forall>r. dict_get (rv_records t) r = map_option stored_record (with_id r (rev (map fst xs))))"
proof -
  let ?s = "reopen (snd (put_all env xs s))\<lparr>rv_records := []\<rparr>"
  note re = put_all_reopened [OF assms(1,2)]
  let ?ys = "fold puts (map fst xs) []"
  have ys: "\<forall>y \<in> set ?ys. storable y \<and> plain y" using re(3) [where xs = xs] ok by blast
  then have ids: "\<forall>y \<in> set ?ys. uuid_text (xr_request_id y)" and dec: "\<forall>y \<in> set ?ys. decodable py y"
    by (simp_all add: storable_def plain_decodable)
  then obtain t where t: "recover py now ?s = (Inr (length ?ys), t)"
    "\<And>r. dict_get (rv_records t) r = map_option (read_back py) (with_id r ?ys)"
    using recover_run [OF re(1,2) ids dec _, of env now] by (simp add: reopen_def) blast
  have "dict_get (rv_records t) r = map_option stored_record (with_id r (rev (map fst xs)))" for r
  proof (cases "with_id r ?ys")
    case None
    then show ?thesis using t(2) re(4) [where r = r and xs = xs] by simp
  next
    case (Some y)
    then have "y \<in> set ?ys" unfolding with_id_def by (blast dest: find_SomeD)
    then have "read_back py y = stored_record y" using ys by (simp add: plain_read_back)
    moreover have "with_id r (rev (map fst xs)) = Some y"
      using re(4) [where r = r and xs = xs] Some by simp
    ultimately show ?thesis by (simp add: t(2) Some)
  qed
  then show ?thesis using t(1) re(5) [where xs = xs] by (auto simp: start_store_def)
qed

theorem restart_restores_witness:
  "\<exists>t. start_store refusing_models 0 (snd (put_all sample_env [(sample_record None, None)] sample_store)) = (Inr 1, t) \<and>
    dict_get (rv_records t) (xr_request_id (sample_record None)) = Some (stored_record (sample_record None))"
proof -
  have "plain (sample_record None)" by (simp add: plain_def sample_record_def)
  then show ?thesis
    using restart_restores [of sample_store "[(sample_record None, None)]" refusing_models 0 sample_env]
    by (auto simp: sample_storable sample_store_def empty_tables_def with_id_def)
qed

text \<open>C21: A durable store that was given a record with a completion or with stream metrics cannot be
  opened again: \<open>recover\<close> raises, because the models are strict and refuse the texts that their
  ids and dates are stored as. Completions are what every answered request is recorded with, so
  that after a restart the gateway does not come up.\<close>

theorem restart_fails:
  fixes s :: "'x replay_state_scheme"
  assumes "tb_execution_records (rp_tables s) = []" "rp_committed s = rp_tables s"
    and strict: "strict_models py"
    and ok: "\<forall>x \<in> fst ` set xs. storable x"
    and bad: "with_id r (rev (map fst xs)) = Some x" "\<not> plain x"
  shows "\<exists>e. fst (start_store py now (snd (put_all env xs s))) = Inl (RX_Codec e)"
proof -
  let ?s = "reopen (snd (put_all env xs s))\<lparr>rv_records := []\<rparr>"
  note re = put_all_reopened [OF assms(1,2)]
  let ?ys = "fold puts (map fst xs) []"
  have ys: "\<forall>y \<in> set ?ys. storable y" using re(3) [where xs = xs] ok by blast
  have "with_id r ?ys = Some x" using re(4) [where r = r and xs = xs] bad by simp
  then have x: "x \<in> set ?ys" unfolding with_id_def by (blast dest: find_SomeD)
  have ids: "\<forall>y \<in> set ?ys. uuid_text (xr_request_id y)" using ys by (simp add: storable_def)
  have undecodable: "\<not> decodable py y \<and>
      (\<exists>e. execution_record_from_dict py (reread (execution_record_to_dict y)) = Inl e)" if "\<not> plain y" for y
    using strict_refuses [OF strict that] by (auto simp: decodable_def)
  have "\<forall>y \<in> set ?ys. \<not> decodable py y \<longrightarrow>
      (\<exists>e. execution_record_from_dict py (reread (execution_record_to_dict y)) = Inl e)"
    using undecodable plain_decodable ys by blast
  moreover have "\<exists>y \<in> set ?ys. \<not> decodable py y" using x undecodable bad(2) by blast
  ultimately show ?thesis
    unfolding start_store_def by (rule recover_fails [OF re(1,2) ids])
qed

theorem restart_fails_witness:
  "\<exists>e. fst (start_store refusing_models 0
      (snd (put_all sample_env [(sample_record (Some sample_completion), None)] sample_store))) = Inl (RX_Codec e)"
proof (rule restart_fails)
  show "tb_execution_records (rp_tables sample_store) = []" "rp_committed sample_store = rp_tables sample_store"
    by (simp_all add: sample_store_def empty_tables_def)
  show "strict_models refusing_models" by (simp add: strict_models_def refusing_models_def)
  show "\<forall>x \<in> fst ` set [(sample_record (Some sample_completion), None)]. storable x"
    by (simp add: sample_storable)
  show "with_id (xr_request_id (sample_record (Some sample_completion)))
      (rev (map fst [(sample_record (Some sample_completion), None)])) = Some (sample_record (Some sample_completion))"
    by (simp add: with_id_def)
  show "\<not> plain (sample_record (Some sample_completion))" by (simp add: plain_def sample_record_def)
qed

end
