(* ===== verification/Replay_Properties.thy ===== *)
theory Replay_Properties
  imports Persistence_Properties
begin

text \<open>
  Properties of replay: the comparison of executions is an equivalence that a restart does not
  disturb, a payload replays as the request it was taken from, and a replay always ends in a result.
\<close>

section \<open>Comparison\<close>

text \<open>What two executions are compared by.\<close>

definition run_view ::
  "execution_record \<Rightarrow> (string \<times> string option \<times> string option) \<times> string list \<times>
   (string list \<times> string list \<times> string list) \<times> string list" where
  "run_view x =
     (let o' = xr_terminal_outcome x in
      ((to_state o', to_failure_reason o', to_backend_id o'), transition_path x,
       (map te_event_type (xr_scheduler_events x), map te_event_type (xr_batch_events x),
        map te_event_type (xr_backend_events x)),
       execution_event_signature (xr_event_timeline x)))"

lemma matches_iff_view: "comparison_matches (compare_executions now a b) \<longleftrightarrow> run_view a = run_view b"
  by (auto simp: comparison_matches_def compare_executions_def run_view_def Let_def compare_terminal_def
      compare_lifecycle_def compare_event_sets_def compare_event_sequence_def difference_def)

lemma signature_stored [simp]: "execution_event_signature (map stored_event es) = execution_event_signature es"
  by (induction es) (simp_all add: execution_event_signature_def stored_event_def)

lemma types_stored [simp]: "map te_event_type (map stored_event es) = map te_event_type es"
  by (simp add: stored_event_def)

lemma compare_stored:
  "compare_executions now (stored_record a) b = compare_executions now a b"
  "compare_executions now a (stored_record b) = compare_executions now a b"
proof -
  have "compare_event_sets k f (map stored_event es) fs = compare_event_sets k f es fs"
    "compare_event_sets k f es (map stored_event fs) = compare_event_sets k f es fs" for k f es fs
    by (simp_all only: compare_event_sets_def types_stored)
  moreover have "transition_path (stored_record x) = transition_path x" for x
    by (simp add: transition_path_def stored_record_def)
  ultimately show "compare_executions now (stored_record a) b = compare_executions now a b"
    "compare_executions now a (stored_record b) = compare_executions now a b"
    by (simp_all add: compare_executions_def compare_terminal_def compare_lifecycle_def
        compare_event_sequence_def stored_record_def)
qed

text \<open>What a comparison looks at, with the kind and the field a difference is reported under.\<close>

definition aspects :: "execution_record \<Rightarrow> ((difference_kind \<times> string) \<times> string option list) list" where
  "aspects x =
     (let o' = xr_terminal_outcome x in
      [((DK_TERMINAL, ''state''), [Some (to_state o')]),
       ((DK_TERMINAL, ''failure_reason''), [to_failure_reason o']),
       ((DK_TERMINAL, ''backend_id''), [to_backend_id o']),
       ((DK_LIFECYCLE, ''transition_path''), map Some (transition_path x)),
       ((DK_SCHEDULER, ''scheduler_events''), map (Some \<circ> te_event_type) (xr_scheduler_events x)),
       ((DK_BATCH, ''batch_events''), map (Some \<circ> te_event_type) (xr_batch_events x)),
       ((DK_BACKEND, ''backend_events''), map (Some \<circ> te_event_type) (xr_backend_events x)),
       ((DK_EVENT_SEQUENCE, ''execution_timeline''), map Some (execution_event_signature (xr_event_timeline x)))])"

definition reported :: "execution_comparison \<Rightarrow> (difference_kind \<times> string) list" where
  "reported c = map (\<lambda>d. (xd_kind d, xd_field d)) (xc_differences c)"

lemma map_Some_inject: "map Some xs = map Some ys \<longleftrightarrow> xs = ys"
  by (rule inj_map_eq_map) simp

lemma reported_aspects:
  "reported (compare_executions now a b) =
     map (fst \<circ> fst) (filter (\<lambda>(p, q). snd p \<noteq> snd q) (zip (aspects a) (aspects b)))"
  by (simp add: reported_def aspects_def Let_def compare_executions_def compare_terminal_def
      compare_lifecycle_def compare_event_sets_def compare_event_sequence_def difference_def
      map_Some_inject flip: map_map)

lemma matches_iff_aspects: "comparison_matches (compare_executions now a b) \<longleftrightarrow> aspects a = aspects b"
  unfolding matches_iff_view
  by (auto simp: run_view_def aspects_def Let_def map_Some_inject simp flip: map_map)

text \<open>C39: A comparison reports exactly what differs. The state, the failure reason and the backend of the
  outcome, the path through the life cycle, the events of the scheduler, of the batches and of the
  backend, and the sequence of the execution are each reported once, in this order, if and only if
  the two executions differ in it; so two executions match exactly when they agree in all eight,
  which is an equivalence. An execution that was written to the database and read back gives the
  same comparison, field by field, as the one in memory.\<close>

theorem comparison_equivalence:
  "reported (compare_executions now a b) =
     map (fst \<circ> fst) (filter (\<lambda>(p, q). snd p \<noteq> snd q) (zip (aspects a) (aspects b))) \<and>
   (comparison_matches (compare_executions now a b) \<longleftrightarrow> aspects a = aspects b) \<and>
   equivp (\<lambda>a b. comparison_matches (compare_executions now a b)) \<and>
   compare_executions now (stored_record a) (stored_record b) = compare_executions now a b"
proof (intro conjI)
  show "reported (compare_executions now a b) =
      map (fst \<circ> fst) (filter (\<lambda>(p, q). snd p \<noteq> snd q) (zip (aspects a) (aspects b)))"
    by (rule reported_aspects)
  show "comparison_matches (compare_executions now a b) \<longleftrightarrow> aspects a = aspects b"
    by (rule matches_iff_aspects)
  show "equivp (\<lambda>a b. comparison_matches (compare_executions now a b))"
    unfolding matches_iff_view by (rule equivpI) (auto intro: reflpI sympI transpI)
  show "compare_executions now (stored_record a) (stored_record b) = compare_executions now a b"
    by (simp add: compare_stored)
qed

section \<open>Payloads\<close>

text \<open>
  Python compares dictionaries without regard to the order of their keys: two values are equal when
  they are the same with all keys sorted. pydantic reads its input by key.
\<close>

primrec canonical :: "pyval \<Rightarrow> pyval" where
  "canonical PV_None = PV_None"
| "canonical (PV_Bool b) = PV_Bool b"
| "canonical (PV_Int i) = PV_Int i"
| "canonical (PV_Float x) = PV_Float x"
| "canonical (PV_Str s) = PV_Str s"
| "canonical (PV_Uuid u) = PV_Uuid u"
| "canonical (PV_Time t) = PV_Time t"
| "canonical (PV_Role r) = PV_Role r"
| "canonical (PV_Priority c) = PV_Priority c"
| "canonical (PV_List xs) = PV_List (map canonical xs)"
| "canonical (PV_Dict d) = PV_Dict (sort_key fst (map (map_prod id canonical) d))"

lemma sorted_dict_unique:
  assumes "distinct (map fst d)" "distinct (map fst e)" "\<And>k. dict_get d k = dict_get e k"
  shows "sort_key fst d = sort_key fst e"
proof -
  have "map_of d = map_of e" using assms(3) by (rule ext)
  then have "set d = set e" using map_of_inject_set [OF assms(1,2)] by simp
  then have "mset d = mset e"
    using assms(1,2) by (metis distinct_map set_eq_iff_mset_eq_distinct)
  moreover have "inj_on fst (set d)" using assms(1) by (simp add: distinct_map)
  ultimately show ?thesis by (metis properties_for_sort_key mset_sort sorted_sort_key sort_key_inj_key_eq)
qed

lemma canonical_Dict:
  assumes "distinct (map fst d)" "distinct (map fst e)"
    and "\<And>k. map_option canonical (dict_get d k) = map_option canonical (dict_get e k)"
  shows "canonical (PV_Dict d) = canonical (PV_Dict e)"
proof -
  have "map fst (map (map_prod id canonical) f) = map fst f" for f :: "(string \<times> pyval) list"
    by (simp add: comp_def)
  then have "sort_key fst (map (map_prod id canonical) d) = sort_key fst (map (map_prod id canonical) e)"
    using assms by (intro sorted_dict_unique) (simp_all only: dict_get_map_prod)
  then show ?thesis by simp
qed

text \<open>
  A dictionary that \<open>coerce_inference_request\<close> turns into the dump of \<open>r\<close>, up to the order of keys
  and to the request's id.
\<close>

definition message_dicts :: "pyval list \<Rightarrow> message list \<Rightarrow> bool" where
  "message_dicts vs ms \<longleftrightarrow> (\<exists>ws. map_results coerce_message vs = Inr ws \<and>
     map canonical ws = map (\<lambda>m. canonical (dump_message m)) ms)"

definition dumped_request :: "(string, pyval) dict \<Rightarrow> inference_request \<Rightarrow> bool" where
  "dumped_request d r \<longleftrightarrow>
     wf_dict d \<and>
     (\<forall>k. k \<notin> {''request_id'', ''messages'', ''priority_class''} \<longrightarrow>
        dict_get d k = dict_get (dump_inference_request r) k) \<and>
     (\<exists>vs. dict_get d ''messages'' = Some (PV_List vs) \<and> message_dicts vs (ir_messages r)) \<and>
     (\<exists>v. dict_get d ''priority_class'' = Some v \<and> py_str v = map_option priority_class_value (ir_priority_class r)
        \<and> (ir_priority_class r = None \<longrightarrow> v = PV_None))"

definition dumped_context :: "(string, pyval) dict \<Rightarrow> request_context \<Rightarrow> bool" where
  "dumped_context d c \<longleftrightarrow>
     wf_dict d \<and>
     (\<forall>k. k \<notin> {''request_id'', ''arrival_time''} \<longrightarrow> dict_get d k = dict_get (dump_request_context c) k) \<and>
     (\<exists>v. dict_get d ''arrival_time'' = Some v \<and>
        (v = PV_Time (rc_arrival_time c) \<or> v = PV_Str (isoformat (rc_arrival_time c))))"

lemma coerce_message_dump: "coerce_message (dump_message m) = Inr (dump_message m)"
  by (simp add: coerce_message_def dump_message_def coerce_key_def py_role_def)

lemma coerce_message_reread:
  "\<exists>w. coerce_message (reread (dump_message m)) = Inr w \<and> canonical w = canonical (dump_message m)"
  by (simp add: coerce_message_def dump_message_def coerce_key_def py_role_def reread_Dict)

lemma message_dicts_dump: "message_dicts (map dump_message ms) ms"
proof -
  have "map_results coerce_message (map dump_message ms) = Inr (map dump_message ms)"
    by (induction ms) (simp_all add: coerce_message_dump)
  then show ?thesis by (auto simp: message_dicts_def comp_def)
qed

lemma message_dicts_reread: "message_dicts (map (\<lambda>m. reread (dump_message m)) ms) ms"
  unfolding message_dicts_def
proof (induction ms)
  case (Cons m ms)
  then obtain ws where "map_results coerce_message (map (\<lambda>m. reread (dump_message m)) ms) = Inr ws"
    "map canonical ws = map (\<lambda>m. canonical (dump_message m)) ms" by blast
  moreover obtain w where "coerce_message (reread (dump_message m)) = Inr w" "canonical w = canonical (dump_message m)"
    using coerce_message_reread by blast
  ultimately show ?case by (intro exI [of _ "w # ws"]) simp
qed simp

lemma wf_dumps: "wf_dict (dump_inference_request r)" "wf_dict (dump_request_context c)"
  by (simp_all add: wf_dict_def dump_inference_request_def dump_request_context_def)

lemma wf_reread_dict: "wf_dict d \<Longrightarrow> wf_dict (reread_dict d)"
proof -
  have "mset (map fst (reread_dict d)) = mset (map fst d)"
    by (simp add: reread_dict_def image_mset.compositionality comp_def)
  then show "wf_dict d \<Longrightarrow> wf_dict (reread_dict d)"
    unfolding wf_dict_def by (metis mset_eq_imp_distinct_iff)
qed

lemma reread_dict_get [simp]: "dict_get (reread_dict d) k = map_option (\<lambda>v. reread v) (dict_get d k)"
  by (simp add: reread_dict_def)

lemma reread_opt_float [simp]: "reread (opt_py PV_Float x) = opt_py PV_Float x"
  by (cases x) (simp_all add: opt_py_def)

lemma dumped_request_dump: "dumped_request (dump_inference_request r) r"
  unfolding dumped_request_def
  by (cases "ir_priority_class r")
    (simp_all add: wf_dumps, simp_all add: dump_inference_request_def message_dicts_dump opt_py_def)

lemma dumped_request_reread: "dumped_request (reread_dict (dump_inference_request r)) r"
  unfolding dumped_request_def
proof (intro conjI allI impI)
  show "wf_dict (reread_dict (dump_inference_request r))" by (simp add: wf_reread_dict wf_dumps)
  show "dict_get (reread_dict (dump_inference_request r)) k = dict_get (dump_inference_request r) k"
    if "k \<notin> {''request_id'', ''messages'', ''priority_class''}" for k
    using that by (simp add: dump_inference_request_def)
  show "\<exists>vs. dict_get (reread_dict (dump_inference_request r)) ''messages'' = Some (PV_List vs) \<and>
      message_dicts vs (ir_messages r)"
    using message_dicts_reread [of "ir_messages r"] by (simp add: dump_inference_request_def comp_def)
  show "\<exists>v. dict_get (reread_dict (dump_inference_request r)) ''priority_class'' = Some v \<and>
      py_str v = map_option priority_class_value (ir_priority_class r) \<and> (ir_priority_class r = None \<longrightarrow> v = PV_None)"
    by (cases "ir_priority_class r") (simp_all add: dump_inference_request_def opt_py_def)
qed

lemma dumped_context_dump: "dumped_context (dump_request_context c) c"
  unfolding dumped_context_def by (simp add: wf_dumps) (simp add: dump_request_context_def)

lemma dumped_context_reread: "dumped_context (reread_dict (dump_request_context c)) c"
  unfolding dumped_context_def
  by (simp add: wf_dumps wf_reread_dict) (simp add: dump_request_context_def)

lemma dumped_with_id:
  "dumped_request d r \<Longrightarrow> dumped_request (dict_set ''request_id'' (PV_Uuid i) d) (r\<lparr>ir_request_id := i\<rparr>)"
proof -
  assume d: "dumped_request d r"
  have "dict_get (dump_inference_request (r\<lparr>ir_request_id := i\<rparr>)) k = dict_get (dump_inference_request r) k"
    if "k \<noteq> ''request_id''" for k
    using that by (simp add: dump_inference_request_def)
  then show ?thesis using d unfolding dumped_request_def by simp
qed

lemma coerce_key_text:
  "dict_get d k = Some v \<Longrightarrow> py_str v = Some s \<Longrightarrow> f s = Inr x \<Longrightarrow> coerce_key k f d = Inr (dict_set k x d)"
  by (simp add: coerce_key_def)

lemma coerce_key_other: "dict_get d k = Some v \<Longrightarrow> py_str v = None \<Longrightarrow> coerce_key k f d = Inr d"
  by (simp add: coerce_key_def)

lemma coerce_dumped_request:
  assumes dumped: "dumped_request d r" and id: "dict_get d ''request_id'' = Some (PV_Uuid (ir_request_id r))"
  shows "\<exists>e. coerce_inference_request d = Inr e \<and>
    canonical (PV_Dict e) = canonical (PV_Dict (dump_inference_request r))"
proof -
  obtain vs where vs: "dict_get d ''messages'' = Some (PV_List vs)" "message_dicts vs (ir_messages r)"
    using dumped unfolding dumped_request_def by blast
  obtain ws where ws: "map_results coerce_message vs = Inr ws"
    "map canonical ws = map (\<lambda>m. canonical (dump_message m)) (ir_messages r)"
    using vs(2) unfolding message_dicts_def by blast
  have "\<exists>v. dict_get d ''priority_class'' = Some v \<and> py_str v = map_option priority_class_value (ir_priority_class r)
        \<and> (ir_priority_class r = None \<longrightarrow> v = PV_None)"
    using dumped by (simp add: dumped_request_def)
  then obtain v where v: "dict_get d ''priority_class'' = Some v"
    "py_str v = map_option priority_class_value (ir_priority_class r)" "ir_priority_class r = None \<longrightarrow> v = PV_None"
    by (elim exE conjE)
  have wf: "wf_dict d" using dumped by (simp add: dumped_request_def)
  define d1 where "d1 = (if vs = [] then d else dict_set ''messages'' (PV_List ws) d)"
  define e where "e = (case ir_priority_class r of None \<Rightarrow> d1 | Some c \<Rightarrow> dict_set ''priority_class'' (PV_Priority c) d1)"
  have m: "coerce_messages d = Inr d1"
    using vs(1) ws(1) by (auto simp: coerce_messages_def d1_def)
  have "dict_get d1 ''priority_class'' = Some v" using v(1) by (simp add: d1_def)
  then have "coerce_key ''priority_class'' py_priority d1 = Inr e"
    using v(2) by (cases "ir_priority_class r") (simp_all add: e_def coerce_key_def py_priority_def)
  then have run: "coerce_inference_request d = Inr e"
    using m id by (simp add: coerce_inference_request_def coerce_key_other [of d _ "PV_Uuid (ir_request_id r)"])
  have nil: "ws = []" if "vs = []" using that ws(1) by simp
  have "canonical (PV_Dict e) = canonical (PV_Dict (dump_inference_request r))"
  proof (rule canonical_Dict)
    show "distinct (map fst e)" using wf by (auto simp: e_def d1_def wf_dict_def [symmetric] split: option.split)
    show "distinct (map fst (dump_inference_request r))" using wf_dumps(1) by (simp add: wf_dict_def)
    show "map_option canonical (dict_get e k) = map_option canonical (dict_get (dump_inference_request r) k)" for k
    proof (cases "k \<in> {''request_id'', ''messages'', ''priority_class''}")
      case True
      have e1: "dict_get e ''messages'' = Some (PV_List ws)"
        using vs(1) nil by (auto simp: e_def d1_def split: option.split)
      have e2: "dict_get e ''request_id'' = Some (PV_Uuid (ir_request_id r))"
        using id by (auto simp: e_def d1_def split: option.split)
      have e3: "dict_get e ''priority_class'' = Some (opt_py PV_Priority (ir_priority_class r))"
        using v(1,3) by (auto simp: e_def d1_def opt_py_def split: option.split)
      have dump: "dict_get (dump_inference_request r) ''messages'' = Some (PV_List (map dump_message (ir_messages r)))"
        "dict_get (dump_inference_request r) ''request_id'' = Some (PV_Uuid (ir_request_id r))"
        "dict_get (dump_inference_request r) ''priority_class'' = Some (opt_py PV_Priority (ir_priority_class r))"
        by (simp_all add: dump_inference_request_def)
      have "canonical (PV_List ws) = canonical (PV_List (map dump_message (ir_messages r)))"
        using ws(2) by (simp add: comp_def)
      with True show ?thesis
        by (elim insertE emptyE) (simp_all only: e1 e2 e3 dump option.map)
    next
      case False
      then have "dict_get e k = dict_get d k" by (auto simp: e_def d1_def split: option.split)
      also have "\<dots> = dict_get (dump_inference_request r) k"
        using dumped False unfolding dumped_request_def by blast
      finally show ?thesis by simp
    qed
  qed
  with run show ?thesis by blast
qed

definition replayed_context :: "uuid \<Rightarrow> request_context \<Rightarrow> request_context" where
  "replayed_context i c = c\<lparr>rc_request_id := i, rc_trace_id := ''replay-'' @ i, rc_span_id := ''replay-span-'' @ i\<rparr>"

lemma coerce_replayed_context:
  assumes dumped: "dumped_context d c" and date: "date_ok (rc_arrival_time c)"
  shows "\<exists>e. coerce_request_context (replay_ids i d) = Inr e \<and>
    canonical (PV_Dict e) = canonical (PV_Dict (dump_request_context (replayed_context i c)))"
proof -
  let ?d = "replay_ids i d"
  obtain v where v: "dict_get d ''arrival_time'' = Some v"
    "v = PV_Time (rc_arrival_time c) \<or> v = PV_Str (isoformat (rc_arrival_time c))"
    using dumped unfolding dumped_context_def by blast
  have wf: "wf_dict d" using dumped by (simp add: dumped_context_def)
  define e where "e = (if py_str v = None then ?d else dict_set ''arrival_time'' (PV_Time (rc_arrival_time c)) ?d)"
  have id: "coerce_key ''request_id'' py_uuid ?d = Inr ?d"
    by (simp add: coerce_key_def replay_ids_def)
  have "dict_get ?d ''arrival_time'' = Some v" using v(1) by (simp add: replay_ids_def)
  then have run: "coerce_request_context ?d = Inr e"
    using v(2) date unfolding coerce_request_context_def id
    by (auto simp: e_def coerce_key_def py_datetime_def)
  have get: "dict_get e k = dict_get (dump_request_context (replayed_context i c)) k" for k
  proof (cases "k = ''arrival_time''")
    case True
    then show ?thesis
      using v by (auto simp: e_def replay_ids_def dump_request_context_def replayed_context_def)
  next
    case False
    then have "dict_get e k = dict_get ?d k" by (simp add: e_def)
    moreover have "dict_get d k = dict_get (dump_request_context c) k" if "k \<noteq> ''request_id''"
      using dumped False that unfolding dumped_context_def by blast
    ultimately show ?thesis
      using False by (simp add: replay_ids_def dump_request_context_def replayed_context_def)
  qed
  have "canonical (PV_Dict e) = canonical (PV_Dict (dump_request_context (replayed_context i c)))"
  proof (rule canonical_Dict)
    show "distinct (map fst e)" using wf by (auto simp: e_def replay_ids_def wf_dict_def [symmetric])
    show "distinct (map fst (dump_request_context (replayed_context i c)))"
      using wf_dumps(2) by (simp add: wf_dict_def)
  qed (simp add: get)
  with run show ?thesis by blast
qed

text \<open>C23: A captured payload replays as the request it was taken from. Let a submission be captured,
  its payload kept in memory or written to the database and read back, cloned for a replay and
  turned into a submission again. The result is the original with the replay's id in the request
  and the context and with the replay's trace and span ids: the model, messages, sampling
  parameters, priority, keys and arrival time are those of the original. pydantic is assumed to
  give the two models back from their own dumps, whatever the order of the keys.\<close>

theorem payload_replays:
  fixes submit :: submit_request and replay_id :: uuid
  defines "r \<equiv> (sr_inference_request submit)\<lparr>ir_request_id := replay_id\<rparr>"
    and "c \<equiv> replayed_context replay_id (sr_request_context submit)"
  assumes request: "\<And>d. canonical (PV_Dict d) = canonical (PV_Dict (dump_inference_request r)) \<Longrightarrow>
      val_inference_request py (PV_Dict d) = Inr r"
    and ctx_ok: "\<And>d. canonical (PV_Dict d) = canonical (PV_Dict (dump_request_context c)) \<Longrightarrow>
      val_request_context py (PV_Dict d) = Inr c"
    and date: "date_ok (rc_arrival_time (sr_request_context submit))"
    and p: "p \<in> {from_submit submit, reread_payload (from_submit submit)}"
  shows "submit_from_payload py (clone_payload_for_replay p replay_id) =
    Inr \<lparr>sr_inference_request = r, sr_request_context = c\<rparr>"
proof -
  have "dumped_request (ps_inference_request p) (sr_inference_request submit)"
    and ctx: "dumped_context (ps_request_context p) (sr_request_context submit)"
    using p by (auto simp: from_submit_def reread_payload_def dumped_request_dump dumped_request_reread
        dumped_context_dump dumped_context_reread)
  then have d: "dumped_request (dict_set ''request_id'' (PV_Uuid replay_id) (ps_inference_request p)) r"
    unfolding r_def by (intro dumped_with_id)
  have "dict_get (dict_set ''request_id'' (PV_Uuid replay_id) (ps_inference_request p)) ''request_id'' =
      Some (PV_Uuid (ir_request_id r))"
    by (simp add: r_def)
  from coerce_dumped_request [OF d this] obtain e
    where e: "coerce_inference_request (dict_set ''request_id'' (PV_Uuid replay_id) (ps_inference_request p)) = Inr e"
      "canonical (PV_Dict e) = canonical (PV_Dict (dump_inference_request r))" by (elim exE conjE)
  from coerce_replayed_context [OF ctx date, of replay_id] obtain f
    where f: "coerce_request_context (replay_ids replay_id (ps_request_context p)) = Inr f"
      "canonical (PV_Dict f) = canonical (PV_Dict (dump_request_context c))"
    unfolding c_def by (elim exE conjE)
  show ?thesis
    by (simp add: submit_from_payload_def normalize_payload_snapshot_def clone_payload_for_replay_def
        e(1) f(1) validated_submit_def request [OF e(2)] ctx_ok [OF f(2)])
qed

definition sample_submit :: submit_request where
  "sample_submit =
     \<lparr>sr_inference_request = \<lparr>ir_request_id = ''a'', ir_model = ''m'',
        ir_messages = [\<lparr>m_role = ROLE_USER, m_content = ''hello''\<rparr>], ir_stream = False, ir_max_tokens = 16,
        ir_temperature = None, ir_top_p = None, ir_priority_class = Some PC_ELEVATED,
        ir_api_key_id = None, ir_client_request_id = None\<rparr>,
      sr_request_context = \<lparr>rc_request_id = ''a'', rc_trace_id = ''t'', rc_span_id = ''s'',
        rc_arrival_time = 0, rc_model = ''m'', rc_stream = False, rc_gateway_instance_id = ''g''\<rparr>\<rparr>"

definition accepting_models :: "submit_request \<Rightarrow> uuid \<Rightarrow> validators" where
  "accepting_models submit i =
     \<lparr>val_completion = \<lambda>v. Inl CE_TypeError, val_stream_metrics = \<lambda>v. Inl CE_TypeError,
      val_inference_request = \<lambda>v. Inr ((sr_inference_request submit)\<lparr>ir_request_id := i\<rparr>),
      val_request_context = \<lambda>v. Inr (replayed_context i (sr_request_context submit))\<rparr>"

theorem payload_replays_witness:
  "submit_from_payload (accepting_models sample_submit ''b'')
     (clone_payload_for_replay (reread_payload (from_submit sample_submit)) ''b'') =
   Inr \<lparr>sr_inference_request = (sr_inference_request sample_submit)\<lparr>ir_request_id := ''b''\<rparr>,
        sr_request_context = replayed_context ''b'' (sr_request_context sample_submit)\<rparr>"
proof (rule payload_replays)
  show "date_ok (rc_arrival_time (sr_request_context sample_submit))"
    by (simp add: sample_submit_def date_ok_def max_time_def day_us_def days_before_year_def)
qed (simp_all add: accepting_models_def)

section \<open>Every replay has a result\<close>

lemma emit_replay_run:
  "\<exists>tr. emit_replay now ev r i source extra s = (Inr (), s\<lparr>rp_traces := tr\<rparr>)"
  by (auto simp: emit_replay_def modify_op_def)

lemma emit_completion_run:
  "\<exists>tr. emit_completion env q e x s = (Inr (), s\<lparr>rp_traces := tr\<rparr>)"
  by (auto simp: emit_completion_def emit_replay_def Let_def op_defs split: option.split)

lemma replay_failed_run:
  "\<exists>tr. replay_failed env describe q evs x s = (Inr (error_result q evs (describe x)), s\<lparr>rp_traces := tr\<rparr>)"
  by (auto simp: replay_failed_def emit_replay_def op_defs)

definition replay_recorded :: "replay_env \<Rightarrow> datetime \<Rightarrow> replay_result \<Rightarrow> tables \<Rightarrow> tables" where
  "replay_recorded env started r t =
     t\<lparr>tb_replay_executions := insert_or_replace ''replay_id''
         (replay_row (replay_execution_from_result r started (en_captured env))) (tb_replay_executions t)\<rparr>"

lemma persist_result_run:
  "\<exists>tr. persist_result env started r s = (Inr (),
     if rv_repository s
     then s\<lparr>rp_tables := replay_recorded env started r (rp_tables s),
            rp_committed := replay_recorded env started r (rp_tables s), rp_traces := tr\<rparr>
     else s)"
proof (cases "rv_repository s")
  case True
  have "writes (\<lambda>t. t\<lparr>tb_replay_executions := insert_or_replace ''replay_id'' (replay_row y) (tb_replay_executions t)\<rparr>)
      (then_op (save_replay now y) (return_op ()))" for now y
    unfolding save_replay_def by (rule writes_then [OF writes_then [OF writes_on_tables writes_event] writes_return])
  from then_commit [OF this]
  obtain tr where "then_op (then_op (save_replay (en_now env) (replay_execution_from_result r started (en_captured env)))
      (return_op ())) commit s =
    (Inr (), s\<lparr>rp_tables := replay_recorded env started r (rp_tables s),
               rp_committed := replay_recorded env started r (rp_tables s), rp_traces := tr\<rparr>)"
    unfolding replay_recorded_def by blast
  then show ?thesis
    using True unfolding persist_result_def persist_replay_result_def then_assoc option.case
    by (auto simp: bind_op_def gets_op_def)
next
  case False
  then show ?thesis by (simp add: persist_result_def op_defs)
qed

definition after_start :: "replay_env \<Rightarrow> replay_request \<Rightarrow> 'x replay_state_scheme \<Rightarrow> 'x replay_state_scheme" where
  "after_start env q s =
     snd ((emit_replay (en_now env) RV_STARTED (rq_replay_id q) (Some (rq_replay_id q))
       (rq_source_request_id q) [] :: ('x, unit) rep) s)"

text \<open>C25: A replay never raises: it always ends in a result. When building the submission, executing
  it or capturing it raises, the result is an error with that message, its events are the start
  and a failure, and no replay is written to the database. Otherwise the result has the state, the
  failure and the record of the execution, the outcome that belongs to that state, and the events
  of the completion, and the database, if there is one, holds and has committed the replay.\<close>

theorem replay_total:
  fixes s :: "'x replay_state_scheme"
  shows "case run_replay env builder execute q (after_start env q s) of
     (Inl x, t) \<Rightarrow>
       (\<exists>u. replay env describe started builder execute q s =
              (Inr (error_result q [''replay_started''] (describe x)), u) \<and>
            rp_tables u = rp_tables t \<and> rp_committed u = rp_committed t)
   | (Inr (e, rec), t) \<Rightarrow>
       (let r = finished_result q e (replay_outcome_from_state (request_state_value (re_state e))) rec in
        \<exists>u. replay env describe started builder execute q s = (Inr r, u) \<and>
            (if rv_repository t
             then rp_tables u = replay_recorded env started r (rp_tables t) \<and> rp_committed u = rp_tables u
             else rp_tables u = rp_tables t \<and> rp_committed u = rp_committed t))"
proof -
  obtain tr where start: "(emit_replay (en_now env) RV_STARTED (rq_replay_id q) (Some (rq_replay_id q))
      (rq_source_request_id q) [] :: ('x, unit) rep) s = (Inr (), s\<lparr>rp_traces := tr\<rparr>)"
    using emit_replay_run by blast
  then have after: "after_start env q s = s\<lparr>rp_traces := tr\<rparr>" by (simp add: after_start_def)
  obtain y t where run: "run_replay env builder execute q (s\<lparr>rp_traces := tr\<rparr>) = (y, t)" by force
  show ?thesis
  proof (cases y)
    case (Inl x)
    obtain tr' where "replay_failed env describe q [''replay_started''] x t =
        (Inr (error_result q [''replay_started''] (describe x)), t\<lparr>rp_traces := tr'\<rparr>)"
      using replay_failed_run by blast
    then show ?thesis using start run Inl by (simp add: after replay_def then_op_def bind_op_def)
  next
    case (Inr p)
    obtain e rec where p: "p = (e, rec)" by force
    let ?x = "replay_outcome_from_state (request_state_value (re_state e))"
    let ?r = "finished_result q e ?x rec"
    obtain tr1 where completion: "(emit_completion env q e ?x :: ('x, unit) rep) t = (Inr (), t\<lparr>rp_traces := tr1\<rparr>)"
      using emit_completion_run by blast
    let ?t = "t\<lparr>rp_traces := tr1\<rparr>"
    obtain tr2 where persist: "persist_result env started ?r ?t = (Inr (),
       if rv_repository ?t
       then ?t\<lparr>rp_tables := replay_recorded env started ?r (rp_tables ?t),
              rp_committed := replay_recorded env started ?r (rp_tables ?t), rp_traces := tr2\<rparr>
       else ?t)"
      using persist_result_run [of env started ?r ?t] by blast
    show ?thesis
      using start run Inr p
      by (simp add: after replay_def then_op_def bind_op_def completion catch_op_def on_repository_def
          persist Let_def return_op_def)
  qed
qed

end
