(* ===== verification/Row_Codecs.thy ===== *)
theory Row_Codecs
  imports Persistence_Models
begin

text \<open>
  The records of \<open>persistence/models.py\<close> and the comparison of two executions as dictionaries: what
  is written is read back. Every pair of functions is an interpretation of the interface \<open>codec\<close>.
\<close>

section \<open>Comparisons (persistence/serialization.py)\<close>

definition difference_kinds :: "difference_kind list" where
  "difference_kinds = [DK_LIFECYCLE, DK_SCHEDULER, DK_BATCH, DK_BACKEND, DK_TERMINAL, DK_EVENT_SEQUENCE]"

lemma difference_kind_of [simp]:
  "enum_of difference_kind_value difference_kinds (difference_kind_value k) = Inr k"
  by (cases k) (simp_all add: enum_of_def difference_kinds_def)

definition difference_to_dict :: "execution_difference \<Rightarrow> pyval" where
  "difference_to_dict d = PV_Dict
     [(''kind'', PV_Str (difference_kind_value (xd_kind d))), (''field'', PV_Str (xd_field d)),
      (''original'', opt_str (xd_original d)), (''replay'', opt_str (xd_replay d)),
      (''detail'', opt_str (xd_detail d))]"

definition difference_from_dict :: "pyval \<Rightarrow> execution_difference decoded" where
  "difference_from_dict v =
     bind_result (enum_field difference_kind_value difference_kinds ''kind'' v) (\<lambda>kind.
     bind_result (str_field ''field'' v) (\<lambda>field.
     bind_result (opt_str_field ''original'' v) (\<lambda>original.
     bind_result (opt_str_field ''replay'' v) (\<lambda>replay.
     bind_result (opt_str_field ''detail'' v) (\<lambda>detail.
     Inr \<lparr>xd_kind = kind, xd_field = field, xd_original = original, xd_replay = replay, xd_detail = detail\<rparr>)))))"

definition execution_comparison_to_dict :: "execution_comparison \<Rightarrow> pyval" where
  "execution_comparison_to_dict c = PV_Dict
     [(''original_request_id'', PV_Str (xc_original_request_id c)),
      (''replay_request_id'', PV_Str (xc_replay_request_id c)),
      (''generated_at'', PV_Str (isoformat (xc_generated_at c))),
      (''terminal_state_match'', PV_Bool (xc_terminal_state_match c)),
      (''matches'', PV_Bool (comparison_matches c)),
      (''differences'', PV_List (map difference_to_dict (xc_differences c))),
      (''original_terminal_state'', PV_Str (xc_original_terminal_state c)),
      (''replay_terminal_state'', PV_Str (xc_replay_terminal_state c))]"

definition execution_comparison_from_dict :: "pyval \<Rightarrow> execution_comparison decoded" where
  "execution_comparison_from_dict v =
     bind_result (list_field ''differences'' difference_from_dict v) (\<lambda>differences.
     bind_result (uuid_field ''original_request_id'' v) (\<lambda>original_request_id.
     bind_result (uuid_field ''replay_request_id'' v) (\<lambda>replay_request_id.
     bind_result (time_field ''generated_at'' v) (\<lambda>generated_at.
     bind_result (truth_field ''terminal_state_match'' v) (\<lambda>terminal_state_match.
     bind_result (str_field ''original_terminal_state'' v) (\<lambda>original_terminal_state.
     bind_result (str_field ''replay_terminal_state'' v) (\<lambda>replay_terminal_state.
     Inr \<lparr>xc_original_request_id = original_request_id, xc_replay_request_id = replay_request_id,
          xc_generated_at = generated_at, xc_terminal_state_match = terminal_state_match,
          xc_differences = differences, xc_original_terminal_state = original_terminal_state,
          xc_replay_terminal_state = replay_terminal_state\<rparr>)))))))"

section \<open>Fields that are read back\<close>

lemmas reading = field_defs get_item_reread get_or_none_reread nat_field_def truth_field_def

definition opt_time_ok :: "datetime option \<Rightarrow> bool" where
  "opt_time_ok x \<longleftrightarrow> (case x of None \<Rightarrow> True | Some t \<Rightarrow> date_ok t)"

lemma isoformat_not_empty [simp]: "isoformat t \<noteq> []"
  by (simp add: isoformat_def Let_def split: prod.split)

lemma opt_time_round:
  "opt_time_ok x \<Longrightarrow>
     (if py_truthy (opt_time x)
      then bind_result (as_str (opt_time x)) (\<lambda>s. bind_result (parse_time s) (\<lambda>t. Inr (Some t)))
      else Inr None) = Inr x"
  by (cases x) (auto simp: opt_time_def opt_time_ok_def)

lemma opt_time_reread [simp]: "reread (opt_time x) = opt_time x"
  by (cases x) (simp_all add: opt_time_def)

lemma as_dict_round: "as_dict (reread (PV_Dict d)) = Inr (sort_dict (map (map_prod id (\<lambda>v. reread v)) d))"
  by (simp add: reread_Dict sort_dict_def)

text \<open>A dictionary whose values are read back one by one comes back with its keys sorted.\<close>

lemma dict_round:
  assumes "\<And>x. f (reread (g x)) = Inr x"
  shows "dict_of_py f (reread (PV_Dict (map (map_prod id g) d))) = Inr (sort_dict d)"
proof -
  have "map_results (\<lambda>(k, y). bind_result (f y) (\<lambda>z. Inr (k, z))) (map (map_prod id (\<lambda>v. reread (g v))) e) = Inr e" for e
    by (induction e) (auto simp: assms)
  moreover have "sort_dict (map (map_prod id (\<lambda>v. reread v)) (map (map_prod id g) d)) = map (map_prod id (\<lambda>v. reread (g v))) (sort_dict d)"
    by (simp add: sort_dict_def sort_key_map_prod [unfolded id_def] prod.map_comp comp_def id_def)
  ultimately show ?thesis by (simp only: dict_of_py_def as_dict_round bind_result_simps)
qed

lemma duration_round: "read_duration (reread (opt_py PV_Float x)) = Inr x"
  by (cases x) (simp_all add: opt_py_def)

lemma durations_round: "dict_of_py read_duration (reread (durations_to_py d)) = Inr (sort_dict d)"
  unfolding durations_to_py_def by (rule dict_round) (rule duration_round)

lemma entry_round: "dict_of_py as_opt_str (reread (difference_entry_to_py d)) = Inr (sort_dict d)"
  unfolding difference_entry_to_py_def by (rule dict_round) simp

lemma entries_round: "map_results (dict_of_py as_opt_str) (map (\<lambda>d. reread (difference_entry_to_py d)) ds) = Inr (map sort_dict ds)"
  by (induction ds) (simp_all add: entry_round)

section \<open>The codecs\<close>

definition metadata_ok :: "request_metadata \<Rightarrow> bool" where
  "metadata_ok m \<longleftrightarrow> uuid_text (rm_request_id m) \<and> date_ok (rm_captured_at m)"

definition stored_metadata :: "request_metadata \<Rightarrow> request_metadata" where
  "stored_metadata m = m\<lparr>rm_payload := reread_payload (rm_payload m)\<rparr>"

interpretation metadata_rows: codec request_metadata_to_dict request_metadata_from_dict metadata_ok stored_metadata
  by unfold_locales
    (simp add: request_metadata_to_dict_def request_metadata_from_dict_def metadata_ok_def stored_metadata_def
      reading payloads.round outcomes.round)

interpretation lifecycle_rows: codec lifecycle_transition_to_dict lifecycle_transition_from_dict
    "\<lambda>t. uuid_text (lt_request_id t) \<and> date_ok (lt_timestamp t)" "\<lambda>t. t"
  by unfold_locales (simp add: lifecycle_transition_to_dict_def lifecycle_transition_from_dict_def reading)

interpretation scheduler_rows: codec scheduler_decision_to_dict scheduler_decision_from_dict
    "\<lambda>d. uuid_text (sdr_request_id d) \<and> date_ok (sdr_timestamp d)" "\<lambda>d. d\<lparr>sdr_details := sort_dict (sdr_details d)\<rparr>"
  by unfold_locales
    (simp add: scheduler_decision_to_dict_def scheduler_decision_from_dict_def reading extra_field_def)

interpretation batch_rows: codec batch_decision_to_dict batch_decision_from_dict
    "\<lambda>d. uuid_text (bdr_request_id d) \<and> date_ok (bdr_timestamp d)" "\<lambda>d. d\<lparr>bdr_details := sort_dict (bdr_details d)\<rparr>"
  by unfold_locales (simp add: batch_decision_to_dict_def batch_decision_from_dict_def reading extra_field_def)

interpretation failure_rows: codec persisted_failure_to_dict persisted_failure_from_dict
    "\<lambda>p. uuid_text (pf_failure_id p) \<and> failure_ok (pf_failure p)" "\<lambda>p. p"
  by unfold_locales
    (simp add: persisted_failure_to_dict_def persisted_failure_from_dict_def reading Let_def component_field_def
      failure_ok_def)

interpretation spans: codec span_to_dict span_from_dict
    "\<lambda>p. opt_time_ok (sp_started_at p) \<and> opt_time_ok (sp_ended_at p)"
    "\<lambda>p. p\<lparr>sp_attributes := sort_dict (sp_attributes p)\<rparr>"
  by unfold_locales
    (simp add: span_to_dict_def span_from_dict_def reading extra_field_def opt_time_field_def opt_time_round)

definition summary_ok :: "trace_summary \<Rightarrow> bool" where
  "summary_ok s \<longleftrightarrow> uuid_text (tsm_request_id s) \<and> date_ok (tsm_captured_at s) \<and>
     list_all (\<lambda>p. opt_time_ok (sp_started_at p) \<and> opt_time_ok (sp_ended_at p)) (tsm_span_metadata s)"

definition stored_summary :: "trace_summary \<Rightarrow> trace_summary" where
  "stored_summary s = s\<lparr>tsm_stage_durations_ms := sort_dict (tsm_stage_durations_ms s),
     tsm_span_metadata := map (\<lambda>p. p\<lparr>sp_attributes := sort_dict (sp_attributes p)\<rparr>) (tsm_span_metadata s)\<rparr>"

interpretation summaries: codec trace_summary_to_dict trace_summary_from_dict summary_ok stored_summary
  by unfold_locales
    (simp add: trace_summary_to_dict_def trace_summary_from_dict_def reading summary_ok_def stored_summary_def
      comp_def spans.rounds durations_round)

definition replay_ok :: "replay_execution \<Rightarrow> bool" where
  "replay_ok x \<longleftrightarrow> uuid_text (rpx_replay_id x) \<and> opt_uuid_ok (rpx_source_request_id x) \<and>
     uuid_text (rpx_replay_request_id x) \<and> date_ok (rpx_started_at x) \<and> date_ok (rpx_completed_at x)"

interpretation replays: codec replay_execution_to_dict replay_execution_from_dict replay_ok "\<lambda>x. x"
proof unfold_locales
  fix x assume "replay_ok x"
  then show "replay_execution_from_dict (reread (replay_execution_to_dict x)) = Inr x"
    by (cases "rpx_replay_events x = []")
      (simp_all add: replay_execution_to_dict_def replay_execution_from_dict_def reading replay_ok_def
        opt_list_field_def opt_uuid_round comp_def strs_round)
qed

definition comparison_ok :: "replay_comparison \<Rightarrow> bool" where
  "comparison_ok c \<longleftrightarrow> uuid_text (rcp_comparison_id c) \<and> uuid_text (rcp_original_request_id c) \<and>
     uuid_text (rcp_replay_request_id c) \<and> date_ok (rcp_generated_at c)"

interpretation comparisons: codec replay_comparison_to_dict replay_comparison_from_dict comparison_ok
    "\<lambda>c. c\<lparr>rcp_differences := map sort_dict (rcp_differences c)\<rparr>"
proof unfold_locales
  fix c assume "comparison_ok c"
  then show "replay_comparison_from_dict (reread (replay_comparison_to_dict c)) =
      Inr (c\<lparr>rcp_differences := map sort_dict (rcp_differences c)\<rparr>)"
    by (cases "rcp_differences c = []")
      (simp_all add: replay_comparison_to_dict_def replay_comparison_from_dict_def reading comparison_ok_def
        opt_list_field_def comp_def entries_round)
qed

interpretation differences: codec difference_to_dict difference_from_dict "\<lambda>d. True" "\<lambda>d. d"
  by unfold_locales (simp add: difference_to_dict_def difference_from_dict_def reading)

definition execution_comparison_ok :: "execution_comparison \<Rightarrow> bool" where
  "execution_comparison_ok c \<longleftrightarrow> uuid_text (xc_original_request_id c) \<and> uuid_text (xc_replay_request_id c) \<and>
     date_ok (xc_generated_at c)"

interpretation execution_comparisons: codec execution_comparison_to_dict execution_comparison_from_dict
    execution_comparison_ok "\<lambda>c. c"
  by unfold_locales
    (simp add: execution_comparison_to_dict_def execution_comparison_from_dict_def reading
      execution_comparison_ok_def comp_def differences.rounds list_all_iff)

text \<open>The other records of the database survive a write and a read: the metadata of a request, a
  transition, a scheduler and a batch decision, a failure, a trace summary, a replay, its comparison
  and the comparison of two executions come back from their JSON as they were, except that
  dictionaries have their keys sorted and that ids and dates inside a payload are texts. Whether a
  comparison matches is not read but follows from its differences.\<close>

theorem rows_survive:
  "(metadata_ok m \<longrightarrow> request_metadata_from_dict (reread (request_metadata_to_dict m)) = Inr (stored_metadata m)) \<and>
   (uuid_text (lt_request_id t) \<and> date_ok (lt_timestamp t) \<longrightarrow>
      lifecycle_transition_from_dict (reread (lifecycle_transition_to_dict t)) = Inr t) \<and>
   (uuid_text (sdr_request_id d) \<and> date_ok (sdr_timestamp d) \<longrightarrow>
      scheduler_decision_from_dict (reread (scheduler_decision_to_dict d)) = Inr (d\<lparr>sdr_details := sort_dict (sdr_details d)\<rparr>)) \<and>
   (uuid_text (bdr_request_id b) \<and> date_ok (bdr_timestamp b) \<longrightarrow>
      batch_decision_from_dict (reread (batch_decision_to_dict b)) = Inr (b\<lparr>bdr_details := sort_dict (bdr_details b)\<rparr>)) \<and>
   (uuid_text (pf_failure_id p) \<and> failure_ok (pf_failure p) \<longrightarrow>
      persisted_failure_from_dict (reread (persisted_failure_to_dict p)) = Inr p) \<and>
   (summary_ok s \<longrightarrow> trace_summary_from_dict (reread (trace_summary_to_dict s)) = Inr (stored_summary s)) \<and>
   (replay_ok r \<longrightarrow> replay_execution_from_dict (reread (replay_execution_to_dict r)) = Inr r) \<and>
   (comparison_ok c \<longrightarrow> replay_comparison_from_dict (reread (replay_comparison_to_dict c)) =
      Inr (c\<lparr>rcp_differences := map sort_dict (rcp_differences c)\<rparr>)) \<and>
   (execution_comparison_ok x \<longrightarrow>
      execution_comparison_from_dict (reread (execution_comparison_to_dict x)) = Inr x)"
  by (simp add: metadata_rows.round lifecycle_rows.round scheduler_rows.round batch_rows.round failure_rows.round
      summaries.round replays.round comparisons.round execution_comparisons.round)

definition sample_id :: uuid where
  "sample_id = ''00000000-0000-0000-0000-000000000001''"

definition sample_failure :: trace_failure where
  "sample_failure =
     \<lparr>tf_failure_type = ''queue_timeout'', tf_failure_owner = RT_CONTROL_PLANE, tf_failure_component = ''queue'',
      tf_failure_timestamp = 0, tf_failure_reason = ''queue_timeout'', tf_failure_state = ''queued'',
      tf_request_id = sample_id, tf_correlation_id = ''trace'', tf_batch_id = None, tf_backend_id = None\<rparr>"

definition sample_summary :: trace_summary where
  "sample_summary =
     \<lparr>tsm_request_id = sample_id, tsm_correlation_id = ''trace'', tsm_event_count = 1, tsm_failure_count = 0,
      tsm_stage_durations_ms = [(''queue_ms'', Some (3 / 2)), (''batch_ms'', None)],
      tsm_span_metadata = [\<lparr>sp_span_name = ''queue'', sp_component = ''queue'', sp_started_at = Some 0, sp_ended_at = None,
        sp_attributes = [(''queue_ms'', X_NUM (3 / 2))]\<rparr>], tsm_captured_at = 0\<rparr>"

definition sample_replay :: replay_execution where
  "sample_replay =
     \<lparr>rpx_replay_id = sample_id, rpx_source_request_id = Some sample_id, rpx_replay_request_id = sample_id,
      rpx_outcome = RO_COMPLETED, rpx_terminal_state = ''completed'', rpx_failure_reason = None,
      rpx_failure_message = None, rpx_started_at = 0, rpx_completed_at = 0, rpx_replay_events = [''replay_started'']\<rparr>"

definition sample_comparison :: execution_comparison where
  "sample_comparison =
     \<lparr>xc_original_request_id = sample_id, xc_replay_request_id = sample_id, xc_generated_at = 0,
      xc_terminal_state_match = False,
      xc_differences = [\<lparr>xd_kind = DK_TERMINAL, xd_field = ''state'', xd_original = Some ''completed'',
        xd_replay = Some ''failed'', xd_detail = None\<rparr>],
      xc_original_terminal_state = ''completed'', xc_replay_terminal_state = ''failed''\<rparr>"

lemma sample_fields: "uuid_text sample_id" "date_ok 0"
proof -
  show "uuid_text sample_id" by code_simp
  show "date_ok 0" by (simp add: date_ok_def max_time_def day_us_def days_before_year_def)
qed

theorem rows_survive_witness:
  "persisted_failure_from_dict (reread (persisted_failure_to_dict (persisted_failure_from_runtime sample_id sample_failure))) =
     Inr (persisted_failure_from_runtime sample_id sample_failure) \<and>
   trace_summary_from_dict (reread (trace_summary_to_dict sample_summary)) = Inr (stored_summary sample_summary) \<and>
   replay_execution_from_dict (reread (replay_execution_to_dict sample_replay)) = Inr sample_replay \<and>
   execution_comparison_from_dict (reread (execution_comparison_to_dict sample_comparison)) = Inr sample_comparison"
proof -
  have "uuid_text (pf_failure_id (persisted_failure_from_runtime sample_id sample_failure)) \<and>
      failure_ok (pf_failure (persisted_failure_from_runtime sample_id sample_failure))"
    by (simp add: persisted_failure_from_runtime_def failure_ok_def sample_failure_def sample_fields)
  moreover have "summary_ok sample_summary" "replay_ok sample_replay" "execution_comparison_ok sample_comparison"
    by (simp_all add: summary_ok_def sample_summary_def replay_ok_def sample_replay_def opt_uuid_ok_def opt_time_ok_def
        execution_comparison_ok_def sample_comparison_def sample_fields)
  ultimately show ?thesis using rows_survive by blast
qed

end
