(* ===== verification/Row_Properties.thy ===== *)
theory Row_Properties
  imports Persistence_Properties
begin

text \<open>
  What the tables answer after a record has been written: the request, its life cycle and the
  decisions made for it come back as they were, in their order.
\<close>

section \<open>Rows come back\<close>

lemma row_item:
  "get_item k (row_dict ks q) =
     (case map_of ks k of None \<Rightarrow> Inl (CE_KeyError k) | Some c \<Rightarrow> Inr (cell_value (column c q)))"
proof -
  have "dict_get (map (map_prod id (\<lambda>c. cell_value (column c q))) ks) k =
      map_option (\<lambda>c. cell_value (column c q)) (map_of ks k)"
    by (induction ks) auto
  then show ?thesis by (simp add: row_dict_def get_item_def split: option.split)
qed

lemma row_or_none:
  "get_or_none k (row_dict ks q) =
     (case map_of ks k of None \<Rightarrow> Inr PV_None | Some c \<Rightarrow> Inr (cell_value (column c q)))"
proof -
  have "dict_get (map (map_prod id (\<lambda>c. cell_value (column c q))) ks) k =
      map_option (\<lambda>c. cell_value (column c q)) (map_of ks k)"
    by (induction ks) auto
  then show ?thesis by (simp add: row_dict_def get_or_none_def split: option.split)
qed

lemma cell_opt [simp]: "cell_value (opt_cell x) = opt_str x"
  by (cases x) (simp_all add: opt_cell_def opt_str_def)

lemmas row_fields = field_defs nat_field_def row_item row_or_none

lemma transition_round:
  "uuid_text (lt_request_id t) \<Longrightarrow> date_ok (lt_timestamp t) \<Longrightarrow> transition_of_row (transition_row t) = Inr t"
  by (simp add: transition_of_row_def transition_row_def lifecycle_transition_from_dict_def row_fields)

lemma scheduler_round:
  "uuid_text (sdr_request_id d) \<Longrightarrow> date_ok (sdr_timestamp d) \<Longrightarrow>
   scheduler_of_row (scheduler_row d) = Inr (d\<lparr>sdr_details := sort_dict (sdr_details d)\<rparr>)"
  by (simp add: scheduler_of_row_def scheduler_row_def scheduler_decision_from_dict_def row_fields extra_field_def)

lemma batch_round:
  "uuid_text (bdr_request_id d) \<Longrightarrow> date_ok (bdr_timestamp d) \<Longrightarrow>
   batch_of_row (batch_row d) = Inr (d\<lparr>bdr_details := sort_dict (bdr_details d)\<rparr>)"
  by (simp add: batch_of_row_def batch_row_def batch_decision_from_dict_def row_fields extra_field_def)

lemma failure_round:
  "uuid_text (pf_failure_id p) \<Longrightarrow> failure_ok (pf_failure p) \<Longrightarrow> failure_of_row (failure_row p) = Inr p"
  by (simp add: failure_of_row_def failure_row_def persisted_failure_from_dict_def row_fields Let_def
      component_field_def failure_ok_def)

lemma replay_round:
  assumes "uuid_text (rpx_replay_id x)" "opt_uuid_ok (rpx_source_request_id x)" "uuid_text (rpx_replay_request_id x)"
    and "date_ok (rpx_started_at x)" "date_ok (rpx_completed_at x)"
  shows "replay_of_row (replay_row x) = Inr x"
proof -
  have "map_results as_str (map PV_Str xs) = Inr xs" for xs by (induction xs) simp_all
  moreover have "opt_str (rpx_source_request_id x) = opt_uuid_str (rpx_source_request_id x)"
    by (simp add: opt_str_def opt_uuid_str_def)
  ultimately show ?thesis
    using assms by (simp add: replay_of_row_def replay_row_def replay_execution_from_dict_def row_fields
        opt_list_field_def opt_uuid_round comp_def)
qed

lemma request_round:
  "uuid_text (rm_request_id m) \<Longrightarrow> date_ok (rm_captured_at m) \<Longrightarrow>
   request_of_row (request_row m) = Inr (m\<lparr>rm_payload := reread_payload (rm_payload m)\<rparr>)"
  by (simp add: request_of_row_def request_row_def request_metadata_from_dict_def row_fields Let_def codec_rounds
      payloads.round)

section \<open>The rows of a request\<close>

lemma map_results_map:
  "(\<And>x. x \<in> set xs \<Longrightarrow> f (g x) = Inr (h x)) \<Longrightarrow> map_results f (map g xs) = Inr (map h xs)"
  by (induction xs) auto

lemma rows_of_replaced:
  assumes "\<And>i a. column ''request_id'' (g i a) = C_Text r" "\<And>i a. column ''sequence_num'' (g i a) = C_Int (int i)"
  shows "rows_of r (delete_where ''request_id'' r rows @ map (\<lambda>(i, a). g i a) (enumerate 0 as)) =
    map (\<lambda>(i, a). g i a) (enumerate 0 as)"
proof -
  have "select_where ''request_id'' r (delete_where ''request_id'' r rows) = []"
    by (simp add: select_where_def delete_where_def filter_empty_conv)
  moreover have "select_where ''request_id'' r (map (\<lambda>(i, a). g i a) (enumerate 0 as)) =
      map (\<lambda>(i, a). g i a) (enumerate 0 as)"
    unfolding select_where_def by (rule filter_True) (auto simp: assms)
  ultimately have select: "select_where ''request_id'' r
      (delete_where ''request_id'' r rows @ map (\<lambda>(i, a). g i a) (enumerate 0 as)) = map (\<lambda>(i, a). g i a) (enumerate 0 as)"
    by (simp add: select_where_def)
  have "map (\<lambda>q. int_of (column ''sequence_num'' q)) (map (\<lambda>(i, a). g i a) (enumerate 0 as)) =
      map int (map fst (enumerate 0 as))"
    by (simp add: split_beta assms int_of_def comp_def del: map_fst_enumerate)
  then have "sorted (map (\<lambda>q. int_of (column ''sequence_num'' q)) (map (\<lambda>(i, a). g i a) (enumerate 0 as)))"
    by (simp add: sorted_map)
  then show ?thesis
    unfolding rows_of_def select order_by_int_def by (rule sort_key_sorted)
qed

section \<open>After a record has been written\<close>

definition written_metadata :: "execution_record \<Rightarrow> request_metadata" where
  "written_metadata x = (request_metadata_from_record x)\<lparr>rm_payload := reread_payload (xr_payload x)\<rparr>"

definition written_transitions :: "execution_record \<Rightarrow> lifecycle_transition list" where
  "written_transitions x =
     map (\<lambda>(i, t). lifecycle_transition_from_snapshot (xr_request_id x) i t) (enumerate 0 (xr_lifecycle_transitions x))"

definition written_scheduler_decisions :: "execution_record \<Rightarrow> scheduler_decision_row list" where
  "written_scheduler_decisions x =
     map (\<lambda>(i, e). scheduler_decision_from_event (xr_request_id x) i (stored_event e)) (enumerate 0 (xr_scheduler_events x))"

definition written_batch_decisions :: "execution_record \<Rightarrow> batch_decision_row list" where
  "written_batch_decisions x =
     map (\<lambda>(i, e). batch_decision_from_event (xr_request_id x) i (stored_event e)) (enumerate 0 (xr_batch_events x))"

lemma read_transitions:
  assumes "storable x"
    and "tb_lifecycle_transitions (rp_tables s) = delete_where ''request_id'' (xr_request_id x) rows @ transition_rows x"
  shows "fst (get_transitions (xr_request_id x) s) = Inr (written_transitions x)"
proof -
  let ?f = "\<lambda>(i, t). lifecycle_transition_from_snapshot (xr_request_id x) i t"
  have rows: "transition_rows x = map (\<lambda>(i, t). transition_row (lifecycle_transition_from_snapshot (xr_request_id x) i t))
      (enumerate 0 (xr_lifecycle_transitions x))"
    by (simp add: transition_rows_def split_beta comp_def)
  have "rows_of (xr_request_id x) (tb_lifecycle_transitions (rp_tables s)) = transition_rows x"
    unfolding assms(2) rows
    by (rule rows_of_replaced) (simp_all add: transition_row_def lifecycle_transition_from_snapshot_def)
  moreover have "map_results transition_of_row (transition_rows x) = Inr (written_transitions x)"
    unfolding transition_rows_def map_map comp_def written_transitions_def
    by (rule map_results_map)
      (use assms(1) in \<open>auto simp: storable_def list_all_iff in_set_enumerate_eq transition_round
        lifecycle_transition_from_snapshot_def\<close>)
  ultimately show ?thesis by (simp add: get_transitions_def op_defs decoded_op_def)
qed

lemma read_scheduler_decisions:
  assumes "storable x"
    and "tb_scheduler_decisions (rp_tables s) = delete_where ''request_id'' (xr_request_id x) rows @ scheduler_rows_of x"
  shows "fst (get_scheduler_decisions (xr_request_id x) s) = Inr (written_scheduler_decisions x)"
proof -
  have rows: "scheduler_rows_of x = map (\<lambda>(i, e). scheduler_row (scheduler_decision_from_event (xr_request_id x) i e))
      (enumerate 0 (xr_scheduler_events x))"
    by (simp add: scheduler_rows_of_def split_beta comp_def)
  have "rows_of (xr_request_id x) (tb_scheduler_decisions (rp_tables s)) = scheduler_rows_of x"
    unfolding assms(2) rows
    by (rule rows_of_replaced) (simp_all add: scheduler_row_def scheduler_decision_from_event_def)
  moreover have "map_results scheduler_of_row (scheduler_rows_of x) = Inr (written_scheduler_decisions x)"
    unfolding scheduler_rows_of_def map_map comp_def written_scheduler_decisions_def
    by (rule map_results_map)
      (use assms(1) in \<open>auto simp: storable_def list_all_iff in_set_enumerate_eq scheduler_round event_ok_def
        scheduler_decision_from_event_def stored_event_def extra_text_def\<close>)
  ultimately show ?thesis by (simp add: get_scheduler_decisions_def op_defs decoded_op_def)
qed

lemma read_batch_decisions:
  assumes "storable x"
    and "tb_batch_decisions (rp_tables s) = delete_where ''request_id'' (xr_request_id x) rows @ batch_rows_of x"
  shows "fst (get_batch_decisions (xr_request_id x) s) = Inr (written_batch_decisions x)"
proof -
  have rows: "batch_rows_of x = map (\<lambda>(i, e). batch_row (batch_decision_from_event (xr_request_id x) i e))
      (enumerate 0 (xr_batch_events x))"
    by (simp add: batch_rows_of_def split_beta comp_def)
  have "rows_of (xr_request_id x) (tb_batch_decisions (rp_tables s)) = batch_rows_of x"
    unfolding assms(2) rows
    by (rule rows_of_replaced) (simp_all add: batch_row_def batch_decision_from_event_def)
  moreover have "map_results batch_of_row (batch_rows_of x) = Inr (written_batch_decisions x)"
    unfolding batch_rows_of_def map_map comp_def written_batch_decisions_def
    by (rule map_results_map)
      (use assms(1) in \<open>auto simp: storable_def list_all_iff in_set_enumerate_eq batch_round event_ok_def
        batch_decision_from_event_def stored_event_def\<close>)
  ultimately show ?thesis by (simp add: get_batch_decisions_def op_defs decoded_op_def)
qed

lemma read_request:
  assumes "storable x" and "tb_requests (rp_tables s) =
    insert_or_replace ''request_id'' (request_row (request_metadata_from_record x)) rows"
  shows "fst (get_request now (xr_request_id x) s) = Inr (Some (written_metadata x))"
proof -
  let ?row = "request_row (request_metadata_from_record x)"
  have key: "column ''request_id'' ?row = C_Text (xr_request_id x)"
    by (simp add: request_row_def request_metadata_from_record_def Let_def)
  have "fetch_one ''request_id'' (xr_request_id x) (tb_requests (rp_tables s)) = Some ?row"
    by (simp add: assms(2) insert_or_replace_def fetch_one_def select_where_def key)
  moreover have "request_of_row ?row = Inr (written_metadata x)"
    unfolding written_metadata_def
    using request_round [of "request_metadata_from_record x"] assms(1)
    by (simp add: storable_def request_metadata_from_record_def)
  ultimately show ?thesis
    by (simp add: get_request_def op_defs decoded_op_def read_event_def emit_persistence_def)
qed

text \<open>C34: What a record was written from can be read from the tables of the database: the request
  with its outcome, and its life cycle, its scheduler decisions and its batch decisions, each in the
  order of the events, whatever the tables held before. A request whose new record has no decisions
  of a kind is the exception: the older ones stay.\<close>

theorem persisted_views:
  assumes "storable x"
  shows "let t = snd (persist_execution_record now ids describe x timeline s) in
    fst (get_request now' (xr_request_id x) t) = Inr (Some (written_metadata x)) \<and>
    fst (get_transitions (xr_request_id x) t) = Inr (written_transitions x) \<and>
    fst (get_scheduler_decisions (xr_request_id x) t) =
      (if xr_scheduler_events x = [] then fst (get_scheduler_decisions (xr_request_id x) s)
       else Inr (written_scheduler_decisions x)) \<and>
    fst (get_batch_decisions (xr_request_id x) t) =
      (if xr_batch_events x = [] then fst (get_batch_decisions (xr_request_id x) s)
       else Inr (written_batch_decisions x))"
proof -
  define t where "t = snd (persist_execution_record now ids describe x timeline s)"
  have tables: "rp_tables t = recorded ids x timeline (rp_tables s)"
    using persist_run [of now ids describe x timeline s] by (auto simp: t_def)
  have empty: "scheduler_rows_of x = [] \<longleftrightarrow> xr_scheduler_events x = []" "batch_rows_of x = [] \<longleftrightarrow> xr_batch_events x = []"
    by (simp_all add: scheduler_rows_of_def batch_rows_of_def flip: length_0_conv)
  have request: "fst (get_request now' (xr_request_id x) t) = Inr (Some (written_metadata x))"
    by (rule read_request [OF assms(1)]) (simp add: tables recorded_def)
  have transitions: "fst (get_transitions (xr_request_id x) t) = Inr (written_transitions x)"
    by (rule read_transitions [OF assms(1)]) (simp add: tables recorded_def)
  have scheduler: "fst (get_scheduler_decisions (xr_request_id x) t) =
      (if xr_scheduler_events x = [] then fst (get_scheduler_decisions (xr_request_id x) s)
       else Inr (written_scheduler_decisions x))"
  proof (cases "xr_scheduler_events x = []")
    case True
    then have "tb_scheduler_decisions (rp_tables t) = tb_scheduler_decisions (rp_tables s)"
      by (simp add: tables recorded_def replaced_unless_empty_def empty)
    with True show ?thesis by (simp add: get_scheduler_decisions_def op_defs decoded_op_def split: sum.split)
  next
    case False
    then have "fst (get_scheduler_decisions (xr_request_id x) t) = Inr (written_scheduler_decisions x)"
      by (intro read_scheduler_decisions [OF assms(1)]) (simp add: tables recorded_def replaced_unless_empty_def empty)
    with False show ?thesis by simp
  qed
  have batch: "fst (get_batch_decisions (xr_request_id x) t) =
      (if xr_batch_events x = [] then fst (get_batch_decisions (xr_request_id x) s)
       else Inr (written_batch_decisions x))"
  proof (cases "xr_batch_events x = []")
    case True
    then have "tb_batch_decisions (rp_tables t) = tb_batch_decisions (rp_tables s)"
      by (simp add: tables recorded_def replaced_unless_empty_def empty)
    with True show ?thesis by (simp add: get_batch_decisions_def op_defs decoded_op_def split: sum.split)
  next
    case False
    then have "fst (get_batch_decisions (xr_request_id x) t) = Inr (written_batch_decisions x)"
      by (intro read_batch_decisions [OF assms(1)]) (simp add: tables recorded_def replaced_unless_empty_def empty)
    with False show ?thesis by simp
  qed
  show ?thesis unfolding Let_def t_def [symmetric] using request transitions scheduler batch by (intro conjI)
qed

theorem persisted_views_witness:
  "fst (get_request 0 (xr_request_id (sample_record None))
     (snd (persist_execution_record 0 (\<lambda>i. []) (\<lambda>e. []) (sample_record None) None sample_store))) =
   Inr (Some (written_metadata (sample_record None)))"
  using persisted_views 
      [OF sample_storable, where now = 0 and ids = "\<lambda>i. []" and describe = "\<lambda>e. []" and timeline = None
        and s = sample_store and now' = 0]
  unfolding Let_def by (rule conjunct1)

end
