(* ===== verification/Streams.thy ===== *)
theory Streams
  imports Backends Lifecycle_Events
begin

text \<open>
  Streams: the session of a stream with its timing (\<open>streaming/models.py\<close>), its events
  (\<open>streaming/events.py\<close>), the stream of a backend without one of its own (\<open>streaming/bridge.py\<close>)
  and the server-sent events the client reads (\<open>api_gateway/streaming/sse.py\<close>), down to their text.
\<close>

section \<open>Sessions (streaming/models.py)\<close>

datatype stream_lifecycle_state = SS_CREATED | SS_ACTIVE | SS_COMPLETED | SS_CANCELLED | SS_FAILED

fun stream_lifecycle_value :: "stream_lifecycle_state \<Rightarrow> string" where
  "stream_lifecycle_value SS_CREATED = ''stream_created''"
| "stream_lifecycle_value SS_ACTIVE = ''stream_active''"
| "stream_lifecycle_value SS_COMPLETED = ''stream_completed''"
| "stream_lifecycle_value SS_CANCELLED = ''stream_cancelled''"
| "stream_lifecycle_value SS_FAILED = ''stream_failed''"

record stream_context =
  sx_stream_id :: uuid
  sx_request_id :: uuid
  sx_correlation_id :: string
  sx_model :: string
  sx_backend_id :: "string option"
  sx_batch_id :: "uuid option"
  sx_request_received_time :: datetime
  sx_stream :: bool

record stream_timing =
  tm_request_received_time :: datetime
  tm_first_token_time :: "datetime option"
  tm_completion_time :: "datetime option"
  tm_token_timestamps :: "datetime list"

definition timing_ttft_ms :: "stream_timing \<Rightarrow> rat option" where
  "timing_ttft_ms t = map_option (\<lambda>f. elapsed_ms f (tm_request_received_time t)) (tm_first_token_time t)"

definition record_token :: "datetime \<Rightarrow> stream_timing \<Rightarrow> stream_timing" where
  "record_token ts t =
     t\<lparr>tm_first_token_time := (if tm_first_token_time t = None then Some ts else tm_first_token_time t),
       tm_token_timestamps := tm_token_timestamps t @ [ts]\<rparr>"

fun latencies_ms :: "datetime \<Rightarrow> datetime list \<Rightarrow> rat list" where
  "latencies_ms previous [] = []"
| "latencies_ms previous (current # ts) = elapsed_ms current previous # latencies_ms current ts"

definition inter_token_latencies_ms :: "stream_timing \<Rightarrow> rat list" where
  "inter_token_latencies_ms t =
     (case tm_token_timestamps t of [] \<Rightarrow> [] | previous # ts \<Rightarrow> latencies_ms previous ts)"

text \<open>Python's \<open>round\<close>: to the nearest integer, and half-way cases to the even one.\<close>

definition py_round :: "rat \<Rightarrow> int" where
  "py_round x =
     (let f = \<lfloor>x\<rfloor>; d = x - of_int f in
      if d < 1 / 2 \<or> (d = 1 / 2 \<and> even f) then f else f + 1)"

definition percentile :: "rat list \<Rightarrow> rat \<Rightarrow> rat option" where
  "percentile vs pct =
     (if vs = [] then None
      else let ordered = sort vs; n = int (length ordered);
               index = py_round ((pct / 100) * of_int (n - 1))
           in Some (ordered ! nat (max 0 (min index (n - 1)))))"

definition itl_ms_p50 :: "stream_timing \<Rightarrow> rat option" where
  "itl_ms_p50 t = percentile (inter_token_latencies_ms t) 50"

definition itl_ms_p99 :: "stream_timing \<Rightarrow> rat option" where
  "itl_ms_p99 t = percentile (inter_token_latencies_ms t) 99"

record stream_session =
  sn_context :: stream_context
  sn_state :: stream_lifecycle_state
  sn_timing :: stream_timing
  sn_generated_text :: string
  sn_token_count :: nat
  sn_error :: "string option"

definition session_create :: "uuid \<Rightarrow> uuid \<Rightarrow> string \<Rightarrow> string \<Rightarrow> datetime \<Rightarrow> stream_session" where
  "session_create stream_id request_id correlation_id model received =
     \<lparr>sn_context =
        \<lparr>sx_stream_id = stream_id, sx_request_id = request_id, sx_correlation_id = correlation_id,
         sx_model = model, sx_backend_id = None, sx_batch_id = None, sx_request_received_time = received,
         sx_stream = True\<rparr>,
      sn_state = SS_CREATED,
      sn_timing =
        \<lparr>tm_request_received_time = received, tm_first_token_time = None, tm_completion_time = None,
         tm_token_timestamps = []\<rparr>,
      sn_generated_text = [], sn_token_count = 0, sn_error = None\<rparr>"

abbreviation sn_stream_id :: "stream_session \<Rightarrow> uuid" where
  "sn_stream_id s \<equiv> sx_stream_id (sn_context s)"

abbreviation sn_request_id :: "stream_session \<Rightarrow> uuid" where
  "sn_request_id s \<equiv> sx_request_id (sn_context s)"

record stream_result =
  st_stream_id :: uuid
  st_request_id :: uuid
  st_state :: stream_lifecycle_state
  st_generated_text :: string
  st_token_count :: nat
  st_ttft_ms :: "rat option"
  st_itl_ms_samples :: "rat list"
  st_itl_ms_p50 :: "rat option"
  st_itl_ms_p99 :: "rat option"
  st_completion_time :: "datetime option"
  st_finish_reason :: "string option"
  st_error :: "string option"

definition result_from_session :: "stream_session \<Rightarrow> stream_result" where
  "result_from_session s =
     \<lparr>st_stream_id = sn_stream_id s, st_request_id = sn_request_id s, st_state = sn_state s,
      st_generated_text = sn_generated_text s, st_token_count = sn_token_count s,
      st_ttft_ms = timing_ttft_ms (sn_timing s),
      st_itl_ms_samples = inter_token_latencies_ms (sn_timing s),
      st_itl_ms_p50 = itl_ms_p50 (sn_timing s), st_itl_ms_p99 = itl_ms_p99 (sn_timing s),
      st_completion_time = tm_completion_time (sn_timing s),
      st_finish_reason = (if sn_state s = SS_COMPLETED then Some ''stop'' else None),
      st_error = sn_error s\<rparr>"

section \<open>Events (streaming/events.py)\<close>

datatype stream_event_type =
    SV_CREATED | SV_FIRST_TOKEN | SV_TOKEN | SV_COMPLETED | SV_FAILED | SV_CANCELLED

fun stream_event_value :: "stream_event_type \<Rightarrow> string" where
  "stream_event_value SV_CREATED = ''stream_created''"
| "stream_event_value SV_FIRST_TOKEN = ''first_token_emitted''"
| "stream_event_value SV_TOKEN = ''token_emitted''"
| "stream_event_value SV_COMPLETED = ''stream_completed''"
| "stream_event_value SV_FAILED = ''stream_failed''"
| "stream_event_value SV_CANCELLED = ''stream_cancelled''"

text \<open>The names in \<open>x\<close> differ from the two that come first.\<close>

definition emit_stream ::
  "datetime \<Rightarrow> stream_event_type \<Rightarrow> uuid \<Rightarrow> uuid \<Rightarrow> extra \<Rightarrow> observers \<Rightarrow> observers" where
  "emit_stream now ev r stream_id x =
     on_trace (append_event
       \<lparr>te_request_id = r, te_correlation_id = r, te_timestamp = now, te_component = RT_GATEWAY,
        te_event_type = stream_event_value ev, te_batch_id = None, te_backend_id = None,
        te_lifecycle_state = None, te_decision_reason = None,
        te_extra = [(''stream_id'', X_STR stream_id), (''stream_event'', X_BOOL True)] @ x\<rparr>)"

section \<open>A stream for backends without one (streaming/bridge.py)\<close>

fun fallback_tokens :: "(nat \<Rightarrow> datetime) \<Rightarrow> uuid \<Rightarrow> uuid \<Rightarrow> nat \<Rightarrow> string list \<Rightarrow> stream_chunk list" where
  "fallback_tokens now r sid i [] = [mk_chunk (now i) sid r i [] (Some ''stop'') False]"
| "fallback_tokens now r sid i (t # ts) =
     mk_chunk (now i) sid r i (if i = 0 then t else '' '' @ t) None (i = 0)
       # fallback_tokens now r sid (Suc i) ts"

definition fallback_stream :: "(nat \<Rightarrow> datetime) \<Rightarrow> uuid \<Rightarrow> uuid \<Rightarrow> stream_chunk list" where
  "fallback_stream now r sid = fallback_tokens now r sid 0 [''mock'', ''stream'', ''token'']"

section \<open>Server-sent events (api_gateway/streaming/sse.py)\<close>

text \<open>
  The JSON values of a payload, and their text as \<open>json.dumps\<close> writes it without blanks: in ASCII,
  with the characters outside the printable ones, the quote and the backslash escaped. A character
  stands for a code point below 256.
\<close>

datatype payload =
    PL_Null | PL_Int int | PL_Str string | PL_Array "payload list" | PL_Object "(string \<times> payload) list"

definition hex_char :: "nat \<Rightarrow> char" where
  "hex_char n = (if n < 10 then char_of (48 + n) else char_of (87 + n))"

definition json_char :: "char \<Rightarrow> string" where
  "json_char c =
     (if c = CHR 34 then [CHR 92, CHR 34]
      else if c = CHR 92 then [CHR 92, CHR 92]
      else if c = CHR 10 then [CHR 92, CHR ''n'']
      else if c = CHR 13 then [CHR 92, CHR ''r'']
      else if c = CHR 9 then [CHR 92, CHR ''t'']
      else if c = CHR 12 then [CHR 92, CHR ''f'']
      else if c = CHR 8 then [CHR 92, CHR ''b'']
      else if CHR '' '' \<le> c \<and> c \<le> CHR ''~'' then [c]
      else [CHR 92, CHR ''u'', CHR ''0'', CHR ''0'', hex_char (of_char c div 16), hex_char (of_char c mod 16)])"

definition json_string :: "string \<Rightarrow> string" where
  "json_string s = CHR 34 # concat (map json_char s) @ [CHR 34]"

fun comma_separated :: "string list \<Rightarrow> string" where
  "comma_separated [] = []"
| "comma_separated [x] = x"
| "comma_separated (x # y # zs) = x @ '','' @ comma_separated (y # zs)"

primrec json_text :: "payload \<Rightarrow> string" where
  "json_text PL_Null = ''null''"
| "json_text (PL_Int i) = show_int i"
| "json_text (PL_Str s) = json_string s"
| "json_text (PL_Array xs) = ''['' @ comma_separated (map json_text xs) @ '']''"
| "json_text (PL_Object d) =
     ''{'' @ comma_separated (map (\<lambda>(k, v). json_string k @ '':'' @ v) (map (map_prod id json_text) d)) @ ''}''"

definition format_sse_data :: "payload \<Rightarrow> string" where
  "format_sse_data p = ''data: '' @ json_text p @ [CHR 10, CHR 10]"

definition format_sse_done :: string where
  "format_sse_done = ''data: [DONE]'' @ [CHR 10, CHR 10]"

text \<open>\<open>int(t.timestamp())\<close>: the seconds since 1970, which is 719162 days after the first day of year 1.\<close>

definition unix_seconds :: "datetime \<Rightarrow> int" where
  "unix_seconds t = (let d = t - 719162 * 24 * 60 * 60 * 1000000 in if d \<ge> 0 then d div 1000000 else - (- d div 1000000))"

definition chunk_delta :: "bool \<Rightarrow> stream_chunk \<Rightarrow> (string \<times> payload) list" where
  "chunk_delta include_role c =
     (if include_role \<and> ch_is_first c then [(''role'', PL_Str ''assistant'')] else [])
       @ (if ch_delta_text c \<noteq> [] then [(''content'', PL_Str (ch_delta_text c))] else [])"

definition chunk_payload :: "string \<Rightarrow> int \<Rightarrow> bool \<Rightarrow> stream_chunk \<Rightarrow> payload" where
  "chunk_payload model created include_role c = PL_Object
     [(''id'', PL_Str (ch_request_id c)), (''object'', PL_Str ''chat.completion.chunk''),
      (''created'', PL_Int (if created \<noteq> 0 then created else unix_seconds (ch_timestamp c))),
      (''model'', PL_Str model),
      (''choices'', PL_Array [PL_Object
         [(''index'', PL_Int 0), (''delta'', PL_Object (chunk_delta include_role c)),
          (''finish_reason'', (case ch_finish_reason c of None \<Rightarrow> PL_Null | Some f \<Rightarrow> PL_Str f))]])]"

definition chunk_to_openai_sse :: "string \<Rightarrow> int \<Rightarrow> bool \<Rightarrow> stream_chunk \<Rightarrow> string" where
  "chunk_to_openai_sse model created include_role c =
     format_sse_data (chunk_payload model created include_role c)"

definition stream_error_payload :: "datetime \<Rightarrow> string \<Rightarrow> uuid \<Rightarrow> string \<Rightarrow> payload" where
  "stream_error_payload now message request_id model = PL_Object
     [(''id'', PL_Str request_id), (''object'', PL_Str ''chat.completion.chunk''),
      (''created'', PL_Int (unix_seconds now)), (''model'', PL_Str model),
      (''choices'', PL_Array [PL_Object
         [(''index'', PL_Int 0), (''delta'', PL_Object [(''content'', PL_Str [])]),
          (''finish_reason'', PL_Str ''error'')]]),
      (''error'', PL_Str message)]"

definition format_stream_error_sse :: "datetime \<Rightarrow> string \<Rightarrow> uuid \<Rightarrow> string \<Rightarrow> string" where
  "format_stream_error_sse now message request_id model =
     format_sse_data (stream_error_payload now message request_id model)"

end
