(* ===== verification/Stream_Engine.thy ===== *)
theory Stream_Engine
  imports Platform Streams
begin

text \<open>
  The stream engine of the gateway (\<open>api_gateway/streaming/engine.py\<close>) and the streaming path of the
  orchestrator (\<open>runtime/orchestrator.py\<close>): a request is queued, scheduled and dispatched, then the
  chunks of its backend are sent one by one until the backend ends, the stream is cancelled or its
  client is gone.

  The generator of a backend is the list of its chunks, the exception it ends with if any, and the
  backend after its last resumption; a stream that stops early does not resume it again. Other
  requests do not run between two chunks, but they may cancel this one: the environment says which
  streams were cancelled, whether the client was gone and whether the backend was told to stop.
\<close>

section \<open>State\<close>

text \<open>
  \<open>se_out\<close> is what the client has been sent and \<open>se_captured\<close> the entries given to the replay engine.
\<close>

record stream_engine =
  se_platform :: platform
  se_observers :: observers
  se_cancelled :: "uuid list"
  se_session :: stream_session
  se_out :: "string list"
  se_captured :: "registered_request list"

datatype stream_exn =
    SE_Platform platform_exn | SE_Backend adapter_exn | SE_Validation | SE_Runtime string | SE_Capture string

type_synonym 'a streaming = "(stream_engine, stream_exn, 'a) op"

text \<open>
  \<open>sv_capture e\<close> is what capturing entry \<open>e\<close> raises, if anything; \<open>sv_replay\<close>: there is a replay engine.
  \<open>sv_describe\<close> is \<open>str\<close> of an exception.
\<close>

record stream_env =
  sv_path :: path_env
  sv_now :: datetime
  sv_chunk_now :: "nat \<Rightarrow> datetime"
  sv_cancels :: "nat \<Rightarrow> uuid list"
  sv_disconnected :: "nat \<Rightarrow> bool"
  sv_backend_cancelled :: "nat \<Rightarrow> bool"
  sv_http :: http_env
  sv_replay :: bool
  sv_capture :: "registered_request \<Rightarrow> string option"
  sv_describe :: "stream_exn \<Rightarrow> string"

definition on_platform :: "'a plat \<Rightarrow> 'a streaming" where
  "on_platform m = map_exn SE_Platform (zoom_op se_platform (\<lambda>p s. s\<lparr>se_platform := p\<rparr>) m)"

definition on_session :: "(stream_session \<Rightarrow> stream_session) \<Rightarrow> stream_engine \<Rightarrow> stream_engine" where
  "on_session f s = s\<lparr>se_session := f (se_session s)\<rparr>"

definition set_stream_state :: "stream_lifecycle_state \<Rightarrow> stream_engine \<Rightarrow> stream_engine" where
  "set_stream_state st = on_session (\<lambda>x. x\<lparr>sn_state := st\<rparr>)"

definition set_completion :: "datetime \<Rightarrow> stream_engine \<Rightarrow> stream_engine" where
  "set_completion t = on_session (\<lambda>x. x\<lparr>sn_timing := (sn_timing x)\<lparr>tm_completion_time := Some t\<rparr>\<rparr>)"

definition emit_session :: "datetime \<Rightarrow> stream_event_type \<Rightarrow> extra \<Rightarrow> stream_engine \<Rightarrow> stream_engine" where
  "emit_session now ev x s =
     s\<lparr>se_observers := emit_stream now ev (sn_request_id (se_session s)) (sn_stream_id (se_session s)) x
         (se_observers s)\<rparr>"

definition stream_metric :: "(metrics_state \<Rightarrow> metrics_state) \<Rightarrow> stream_engine \<Rightarrow> stream_engine" where
  "stream_metric f s = s\<lparr>se_observers := on_metrics f (se_observers s)\<rparr>"

definition send :: "string \<Rightarrow> stream_engine \<Rightarrow> stream_engine" where
  "send x s = s\<lparr>se_out := se_out s @ [x]\<rparr>"

definition cancel_stream :: "uuid \<Rightarrow> stream_engine \<Rightarrow> stream_engine" where
  "cancel_stream i s = s\<lparr>se_cancelled := List.insert i (se_cancelled s)\<rparr>"

definition stream_id_cancelled :: "stream_session \<Rightarrow> uuid list \<Rightarrow> bool" where
  "stream_id_cancelled x cancelled \<longleftrightarrow> sn_stream_id x \<in> set cancelled"

section \<open>The streaming path (runtime/orchestrator.py)\<close>

definition queue_again :: "admission_framework \<Rightarrow> stream_env \<Rightarrow> submit_request \<Rightarrow> ref streaming" where
  "queue_again af env submit =
     on_platform (on_control (process_through_queued af (pe_sweep (sv_path env)) (pe_admit (sv_path env)) submit))"

text \<open>\<open>get_entry\<close> raises only when the registry does not have the request.\<close>

definition ensure_queued :: "admission_framework \<Rightarrow> stream_env \<Rightarrow> submit_request \<Rightarrow> ref streaming" where
  "ensure_queued af env submit =
     bind_op
       (bind_op (gets_op (\<lambda>s. fst (get_entry (submit_id submit) (pf_control (se_platform s))))) (\<lambda>found.
        case found of
          Inl x \<Rightarrow> queue_again af env submit
        | Inr e \<Rightarrow>
            bind_op (gets_op (\<lambda>s. entry_state (se_platform s) e)) (\<lambda>st.
              if st = QUEUED then return_op e
              else if is_terminal_request_state st
              then raise_op (SE_Runtime (''request terminated before streaming: '' @ request_state_value st))
              else if st \<notin> {RECEIVED, VALIDATED, ADMITTED}
              then raise_op (SE_Runtime (''unexpected pre-stream state: '' @ request_state_value st))
              else queue_again af env submit)))
       (\<lambda>e.
        bind_op (gets_op (\<lambda>s. entry_state (se_platform s) e)) (\<lambda>st.
          if is_terminal_request_state st
          then raise_op (SE_Runtime (''request terminated before streaming: '' @ request_state_value st))
          else if st \<noteq> QUEUED
          then raise_op (SE_Runtime (''unexpected pre-stream state: '' @ request_state_value st))
          else return_op e))"

definition refuse :: "stream_env \<Rightarrow> uuid \<Rightarrow> failure_reason \<Rightarrow> string \<Rightarrow> uuid option \<Rightarrow> 'a streaming" where
  "refuse env r reason message batch =
     bind_op (on_platform (fail_request (sv_path env) r reason message batch)) (\<lambda>_. raise_op (SE_Runtime message))"

definition stream_transition :: "stream_env \<Rightarrow> uuid \<Rightarrow> request_state \<Rightarrow> uuid option \<Rightarrow> string option \<Rightarrow> ref streaming" where
  "stream_transition env r st batch backend =
     on_platform (on_control (transition (pe_finish (sv_path env)) r st batch backend))"

definition enter_backend :: "stream_env \<Rightarrow> uuid \<Rightarrow> uuid \<Rightarrow> string \<Rightarrow> (string \<times> backend) streaming" where
  "enter_backend env r batch i =
     then_op (modify_op (on_session (\<lambda>x. x\<lparr>sn_context := (sn_context x)\<lparr>sx_batch_id := Some batch, sx_backend_id := Some i\<rparr>\<rparr>)))
     (bind_op (stream_transition env r SUBMITTED None (Some i)) (\<lambda>_.
      bind_op (stream_transition env r STREAMING None None) (\<lambda>_.
      bind_op (gets_op (\<lambda>s. get_backend i (dw_adapter (pf_world (se_platform s))))) (\<lambda>found.
        case found of
          None \<Rightarrow> raise_op (SE_Runtime (''backend not found: '' @ i))
        | Some b \<Rightarrow> return_op (i, rb_backend b)))))"

definition begin_stream ::
  "stream_env \<Rightarrow> uuid \<Rightarrow> scheduling_result \<Rightarrow> batch_dispatch_result list \<Rightarrow> (string \<times> backend) streaming" where
  "begin_stream env r res ds =
     (case find_batch_rejection (sr_rejection_decisions res) r of
        Some j \<Rightarrow> refuse env r ADAPTER_ERROR (bj_decision_reason j) None
      | None \<Rightarrow>
          (case find_placement (sr_placement_decisions res) r of
             None \<Rightarrow> refuse env r INTERNAL_ERROR ''scheduler_did_not_select_request'' None
           | Some p \<Rightarrow>
               bind_op (stream_transition env r SCHEDULED (Some (bp_batch_id p)) None) (\<lambda>_.
               bind_op (stream_transition env r BATCHED None None) (\<lambda>_.
               case find_dispatch ds (bp_batch_id p) of
                 None \<Rightarrow> refuse env r ADAPTER_ERROR ''batch_not_dispatched'' (Some (bp_batch_id p))
               | Some d \<Rightarrow>
                   if bd_accepted d then enter_backend env r (bp_batch_id p) (bd_backend_id d)
                   else refuse env r ADAPTER_ERROR (bd_reason d) (Some (bp_batch_id p))))))"

text \<open>As in \<open>execute_full_path\<close>, an exception of the cycle passes on, here to the stream.\<close>

definition open_stream ::
  "admission_framework \<Rightarrow> stream_env \<Rightarrow> submit_request \<Rightarrow> stream_engine \<Rightarrow>
   ((stream_exn + string \<times> backend) \<times> stream_engine) option" where
  "open_stream af env submit s =
     (case ensure_queued af env submit s of
        (Inl x, t) \<Rightarrow> Some (Inl x, t)
      | (Inr e, t) \<Rightarrow>
          map_option (\<lambda>((res, ds), p).
              case res of
                Inl x \<Rightarrow> (Inl (SE_Platform (PX_Runtime [])), t\<lparr>se_platform := p\<rparr>)
              | Inr r \<Rightarrow> begin_stream env (submit_id submit) r ds (t\<lparr>se_platform := p\<rparr>))
            (run_scheduling_cycle (sv_path env) (se_platform t)))"

section \<open>The stream of a backend (inference_adapter/streaming/bridge.py)\<close>

definition stream_inference_request ::
  "stream_env \<Rightarrow> uuid \<Rightarrow> uuid \<Rightarrow> inference_request \<Rightarrow> backend \<Rightarrow> stream_chunk list \<times> adapter_exn option \<times> backend" where
  "stream_inference_request env r sid req b =
     (case b of
        Mock k \<Rightarrow>
          (case mock_stream_request (sv_chunk_now env) r sid (sv_backend_cancelled env) k of
             (Inl x, k') \<Rightarrow> ([], Some x, Mock k')
           | (Inr cs, k') \<Rightarrow> (cs, None, Mock k'))
      | VLLM k \<Rightarrow>
          (case vllm_stream_request (sv_http env) (sv_chunk_now env) r sid req (ir_model req) k of
             (cs, failure, k') \<Rightarrow> (cs, failure, VLLM k')))"

text \<open>What the path does when its consumer asks for more than the last chunk.\<close>

definition close_stream :: "stream_env \<Rightarrow> uuid \<Rightarrow> string \<Rightarrow> backend \<Rightarrow> unit streaming" where
  "close_stream env r i b =
     then_op (on_platform (on_adapter (modify_op (write_backend i b))))
     (bind_op (on_platform (on_batches (complete_request_in_batch (fst (pe_finish (sv_path env))) (pe_retire_id (sv_path env)) r))) (\<lambda>_.
      bind_op (on_platform (on_control (complete_request (pe_finish (sv_path env)) r None))) (\<lambda>_.
      return_op ())))"

section \<open>Keeping what was measured (streaming/engine.py)\<close>

definition not_negative :: "rat option \<Rightarrow> bool" where
  "not_negative x \<longleftrightarrow> (case x of None \<Rightarrow> True | Some v \<Rightarrow> 0 \<le> v)"

definition metrics_record :: "stream_result \<Rightarrow> streaming_metrics_record" where
  "metrics_record x =
     \<lparr>sm_stream_id = st_stream_id x, sm_request_id = st_request_id x, sm_ttft_ms = st_ttft_ms x,
      sm_itl_ms_p50 = st_itl_ms_p50 x, sm_itl_ms_p99 = st_itl_ms_p99 x,
      sm_token_count = int (st_token_count x), sm_generated_text = st_generated_text x,
      sm_completed_at = st_completion_time x, sm_stream_state = stream_lifecycle_value (st_state x)\<rparr>"

definition metrics_record_valid :: "streaming_metrics_record \<Rightarrow> bool" where
  "metrics_record_valid m \<longleftrightarrow>
     not_negative (sm_ttft_ms m) \<and> not_negative (sm_itl_ms_p50 m) \<and> not_negative (sm_itl_ms_p99 m) \<and>
     0 \<le> sm_token_count m"

definition capture_entry :: "stream_env \<Rightarrow> ref \<Rightarrow> unit streaming" where
  "capture_entry env e =
     (if sv_replay env
      then bind_op (gets_op (\<lambda>s. entry_at (pf_control (se_platform s)) e)) (\<lambda>x.
             case sv_capture env x of
               None \<Rightarrow> modify_op (\<lambda>s. s\<lparr>se_captured := se_captured s @ [x]\<rparr>)
             | Some m \<Rightarrow> raise_op (SE_Capture m))
      else return_op ())"

definition persist_stream_metrics :: "stream_env \<Rightarrow> unit streaming" where
  "persist_stream_metrics env =
     bind_op (gets_op (\<lambda>s. metrics_record (result_from_session (se_session s)))) (\<lambda>m.
     if \<not> metrics_record_valid m then raise_op SE_Validation
     else
       bind_op (on_platform (on_control (get_entry (sm_request_id m)))) (\<lambda>e.
       then_op (on_platform (on_control (modify_op (modify_entry e (\<lambda>x. x\<lparr>re_stream_metrics := Some m\<rparr>)))))
       (capture_entry env e)))"

definition persist_stream_failure :: "stream_env \<Rightarrow> string \<Rightarrow> unit streaming" where
  "persist_stream_failure env message =
     bind_op (gets_op (\<lambda>s. sn_request_id (se_session s))) (\<lambda>r.
     bind_op (on_platform (on_control (get_entry r))) (\<lambda>e.
     bind_op (gets_op (\<lambda>s. entry_state (se_platform s) e)) (\<lambda>st.
     bind_op
       (if st \<notin> {FAILED, CANCELLED}
        then bind_op (on_platform (on_control (mark_failed (pe_finish (sv_path env)) r ADAPTER_ERROR message None None))) (\<lambda>_.
             on_platform (on_control (get_entry r)))
        else return_op e)
       (capture_entry env))))"

section \<open>Chunks\<close>

definition cancel_backend_request :: "uuid \<Rightarrow> string option \<Rightarrow> unit streaming" where
  "cancel_backend_request r backend =
     (case backend of
        None \<Rightarrow> return_op ()
      | Some i \<Rightarrow> bind_op (on_platform (on_adapter (adapter_cancel_request r (Some i)))) (\<lambda>_. return_op ()))"

definition cancelled_stream :: "stream_env \<Rightarrow> stream_engine \<Rightarrow> stream_engine" where
  "cancelled_stream env s =
     stream_metric record_stream_cancelled
       (emit_session (sv_now env) SV_CANCELLED [] (set_completion (sv_now env) (set_stream_state SS_CANCELLED s)))"

definition cancel_request_of_stream :: "stream_env \<Rightarrow> unit streaming" where
  "cancel_request_of_stream env =
     bind_op (gets_op (\<lambda>s. (sn_request_id (se_session s), sx_backend_id (sn_context (se_session s))))) (\<lambda>(r, backend).
     then_op (cancel_backend_request r backend)
     (bind_op (on_platform (on_control (get_entry r))) (\<lambda>e.
      bind_op (gets_op (\<lambda>s. entry_state (se_platform s) e)) (\<lambda>st.
      if st \<in> {STREAMING, SUBMITTED}
      then bind_op (stream_transition env r CANCELLED None None) (\<lambda>_. return_op ())
      else return_op ()))))"

definition handle_cancel :: "stream_env \<Rightarrow> unit streaming" where
  "handle_cancel env =
     then_op (modify_op (cancelled_stream env))
     (then_op (cancel_request_of_stream env) (persist_stream_metrics env))"

text \<open>The first chunk with text, or the one that says it is the first, starts the clock of the tokens.\<close>

definition first_token :: "stream_env \<Rightarrow> stream_chunk \<Rightarrow> stream_engine \<Rightarrow> stream_engine" where
  "first_token env c s =
     (let t = emit_session (sv_now env) SV_FIRST_TOKEN [(''index'', X_INT (int (ch_index c)))]
                (set_stream_state SS_ACTIVE
                  (on_session (\<lambda>x. x\<lparr>sn_timing := record_token (ch_timestamp c) (sn_timing x)\<rparr>) s))
      in case timing_ttft_ms (sn_timing (se_session t)) of
           None \<Rightarrow> t
         | Some ms \<Rightarrow> stream_metric (record_ttft (ms / 1000)) t)"

definition next_token :: "stream_env \<Rightarrow> stream_chunk \<Rightarrow> datetime option \<Rightarrow> stream_engine \<Rightarrow> stream_engine" where
  "next_token env c previous s =
     emit_session (sv_now env) SV_TOKEN
       [(''index'', X_INT (int (ch_index c))), (''delta_length'', X_INT (int (length (ch_delta_text c))))]
       ((case previous of
           None \<Rightarrow> (\<lambda>t. t)
         | Some p \<Rightarrow> stream_metric (record_itl (elapsed_ms (ch_timestamp c) p / 1000)))
          (on_session (\<lambda>x. x\<lparr>sn_timing := record_token (ch_timestamp c) (sn_timing x)\<rparr>) s))"

definition observe_token :: "stream_env \<Rightarrow> stream_chunk \<Rightarrow> datetime option \<Rightarrow> stream_engine \<Rightarrow> stream_engine" where
  "observe_token env c previous s =
     (if ch_is_first c \<or> (ch_delta_text c \<noteq> [] \<and> sn_token_count (se_session s) = 0) then first_token env c s
      else if ch_delta_text c \<noteq> [] then next_token env c previous s
      else s)"

definition collect_text :: "stream_chunk \<Rightarrow> stream_engine \<Rightarrow> stream_engine" where
  "collect_text c s =
     (if ch_delta_text c \<noteq> []
      then on_session (\<lambda>x. x\<lparr>sn_generated_text := sn_generated_text x @ ch_delta_text c,
                             sn_token_count := Suc (sn_token_count x)\<rparr>) s
      else s)"

definition finishes :: "stream_chunk \<Rightarrow> bool" where
  "finishes c \<longleftrightarrow> (case ch_finish_reason c of None \<Rightarrow> False | Some f \<Rightarrow> f \<noteq> [])"

definition observe_finish :: "stream_env \<Rightarrow> stream_chunk \<Rightarrow> stream_engine \<Rightarrow> stream_engine" where
  "observe_finish env c s =
     (if finishes c
      then stream_metric record_stream_completed
             (emit_session (sv_now env) SV_COMPLETED []
               (set_stream_state SS_COMPLETED (set_completion (ch_timestamp c) s)))
      else s)"

definition deliver ::
  "stream_env \<Rightarrow> string \<Rightarrow> int \<Rightarrow> bool \<Rightarrow> datetime option \<Rightarrow> stream_chunk \<Rightarrow> stream_engine \<Rightarrow> stream_engine" where
  "deliver env model created role_sent previous c s =
     observe_finish env c (collect_text c (observe_token env c previous
       (send (chunk_to_openai_sse model created (\<not> role_sent \<and> ch_is_first c) c) s)))"

text \<open>The loop over the chunks; it returns whether the generator was exhausted.\<close>

fun deliver_chunks ::
  "stream_env \<Rightarrow> string \<Rightarrow> int \<Rightarrow> nat \<Rightarrow> bool \<Rightarrow> datetime option \<Rightarrow> stream_chunk list \<Rightarrow> bool streaming" where
  "deliver_chunks env model created n role_sent previous [] = return_op True"
| "deliver_chunks env model created n role_sent previous (c # cs) =
     then_op (modify_op (fold cancel_stream (sv_cancels env n)))
     (bind_op (gets_op (\<lambda>s. stream_id_cancelled (se_session s) (se_cancelled s) \<or> sv_disconnected env n)) (\<lambda>stop.
        if stop then then_op (handle_cancel env) (return_op False)
        else
          then_op (modify_op (deliver env model created role_sent previous c))
          (deliver_chunks env model created (Suc n) (role_sent \<or> ch_is_first c)
            (if ch_delta_text c \<noteq> [] then Some (ch_timestamp c) else previous) cs)))"

section \<open>The engine (streaming/engine.py)\<close>

definition stream_chunks :: "stream_env \<Rightarrow> submit_request \<Rightarrow> string \<times> backend \<Rightarrow> bool streaming" where
  "stream_chunks env submit = (\<lambda>(i, b).
     bind_op (gets_op se_session) (\<lambda>x.
     case stream_inference_request env (submit_id submit) (sn_stream_id x) (sr_inference_request submit) b of
       (cs, failure, b') \<Rightarrow>
         bind_op (deliver_chunks env (ir_model (sr_inference_request submit))
                    (unix_seconds (sx_request_received_time (sn_context x))) 0 False None cs) (\<lambda>exhausted.
         if \<not> exhausted then return_op False
         else
           (case failure of
              Some e \<Rightarrow> raise_op (SE_Backend e)
            | None \<Rightarrow> then_op (close_stream env (submit_id submit) i b') (return_op True)))))"

definition finish_stream :: "stream_env \<Rightarrow> bool \<Rightarrow> unit streaming" where
  "finish_stream env exhausted =
     (if exhausted then then_op (modify_op (send format_sse_done)) (persist_stream_metrics env) else return_op ())"

definition stream_failed :: "stream_env \<Rightarrow> string \<Rightarrow> stream_exn \<Rightarrow> unit streaming" where
  "stream_failed env model x =
     (let message = sv_describe env x in
      then_op (modify_op (\<lambda>s.
        send format_sse_done
          (send (format_stream_error_sse (sv_now env) message (sn_request_id (se_session s)) model)
            (stream_metric record_stream_failed
              (emit_session (sv_now env) SV_FAILED [(''error'', X_STR message)]
                (set_completion (sv_now env)
                  (on_session (\<lambda>y. y\<lparr>sn_state := SS_FAILED, sn_error := Some message\<rparr>) s)))))))
      (persist_stream_failure env message))"

definition created_stream :: "stream_env \<Rightarrow> stream_engine \<Rightarrow> stream_engine" where
  "created_stream env s =
     set_stream_state SS_CREATED (emit_session (sv_now env) SV_CREATED [] (stream_metric record_stream_created s))"

text \<open>
  The body of the \<open>try\<close>, from where the path has opened the stream or raised, and its handler.
\<close>

definition run_opened ::
  "stream_env \<Rightarrow> submit_request \<Rightarrow> (stream_exn + string \<times> backend) \<times> stream_engine \<Rightarrow>
   (stream_exn + unit) \<times> stream_engine" where
  "run_opened env submit = (\<lambda>(opened, s).
     catch_op
       (bind_op (\<lambda>t. (opened, t)) (\<lambda>b. bind_op (stream_chunks env submit b) (finish_stream env)))
       (stream_failed env (ir_model (sr_inference_request submit))) s)"

definition stream_sse ::
  "admission_framework \<Rightarrow> stream_env \<Rightarrow> submit_request \<Rightarrow> stream_engine \<Rightarrow>
   ((stream_exn + unit) \<times> stream_engine) option" where
  "stream_sse af env submit s =
     map_option (run_opened env submit) (open_stream af env submit (created_stream env s))"

end
