(* ===== verification/Stream_Text.thy ===== *)
theory Stream_Text
  imports Streams
begin

text \<open>
  What a client reads from the text of a stream: it splits the text at blank lines into frames, and
  reads the JSON strings of a frame back. The percentiles of the token latencies.
\<close>

section \<open>Frames\<close>

text \<open>
  The data of the frames of a text: a frame ends at a blank line and its data follow the six
  characters of its field name.
\<close>

fun sse_frames :: "string \<Rightarrow> string \<Rightarrow> string list" where
  "sse_frames acc (c # d # s) =
     (if c = CHR 10 \<and> d = CHR 10 then drop 6 acc # sse_frames [] s else sse_frames (acc @ [c]) (d # s))"
| "sse_frames acc _ = []"

definition one_line :: "string \<Rightarrow> bool" where
  "one_line s \<longleftrightarrow> CHR 10 \<notin> set s"

lemma one_line_append [simp]: "one_line (s @ t) \<longleftrightarrow> one_line s \<and> one_line t"
  by (auto simp: one_line_def)

lemma one_line_Cons [simp]: "one_line (c # s) \<longleftrightarrow> c \<noteq> CHR 10 \<and> one_line s"
  by (auto simp: one_line_def)

lemma one_line_Nil [simp]: "one_line []"
  by (simp add: one_line_def)

lemma sse_frames_line: "one_line s \<Longrightarrow> sse_frames acc (s @ [CHR 10, CHR 10] @ t) = drop 6 (acc @ s) # sse_frames [] t"
proof (induction s arbitrary: acc)
  case (Cons c s)
  then show ?case by (cases s) (auto simp del: drop_append)
qed simp

lemma one_line_digits: "one_line (show_nat n)"
proof (induction n rule: show_nat.induct)
  case (1 n)
  have "char_of (48 + m) \<noteq> (CHR 10)" if "m < 10" for m :: nat
  proof
    assume "char_of (48 + m) = (CHR 10)"
    then have "of_char (char_of (48 + m) :: char) = (of_char (CHR 10) :: nat)" by simp
    with that show False by simp
  qed
  with 1 show ?case by (subst show_nat.simps) simp
qed

lemma hex_char_code: "n < 16 \<Longrightarrow> of_char (hex_char n) = (if n < 10 then 48 + n else 87 + n)"
  by (simp add: hex_char_def)

lemma hex_char_line: "n < 16 \<Longrightarrow> hex_char n \<noteq> (CHR 10)"
proof
  assume n: "n < 16" and "hex_char n = (CHR 10)"
  then have "of_char (hex_char n) = (of_char (CHR 10) :: nat)" by simp
  with hex_char_code [OF n] show False by (simp split: if_splits)
qed

lemma char_nibbles: "of_char c div 16 < (16 :: nat)" "of_char c mod 16 < (16 :: nat)" for c :: char
  by (simp_all add: less_mult_imp_div_less)

lemma one_line_char: "one_line (json_char c)"
  by (simp add: json_char_def hex_char_line char_nibbles)

lemma one_line_string [simp]: "one_line (json_string s)"
  by (induction s) (auto simp: json_string_def one_line_char)

lemma one_line_commas: "(\<And>x. x \<in> set xs \<Longrightarrow> one_line x) \<Longrightarrow> one_line (comma_separated xs)"
  by (induction xs rule: comma_separated.induct) auto

lemma one_line_json [simp]: "one_line (json_text p)"
proof (induction p)
  case (PL_Int i)
  then show ?case by (simp add: show_int_def one_line_digits)
next
  case (PL_Array xs)
  then show ?case by (auto intro!: one_line_commas)
next
  case (PL_Object d)
  then show ?case by (auto intro!: one_line_commas)
qed simp_all

text \<open>The stream of the gateway is read as the payloads that were sent, one frame each.\<close>

lemma frame_of_payload: "sse_frames [] (format_sse_data p @ t) = json_text p # sse_frames [] t"
proof -
  have "format_sse_data p @ t = (''data: '' @ json_text p) @ [CHR 10, CHR 10] @ t"
    by (simp add: format_sse_data_def)
  moreover have "one_line (''data: '' @ json_text p)" by simp
  ultimately show ?thesis by (simp only: sse_frames_line) simp
qed

lemma frames_of_payloads:
  "sse_frames [] (concat (map format_sse_data ps) @ t) = map json_text ps @ sse_frames [] t"
  by (induction ps) (simp_all add: frame_of_payload)

lemma frame_of_done: "sse_frames [] (format_sse_done @ t) = ''[DONE]'' # sse_frames [] t"
proof -
  have "format_sse_done @ t = ''data: [DONE]'' @ [CHR 10, CHR 10] @ t" by (simp add: format_sse_done_def)
  moreover have "one_line ''data: [DONE]''" by simp
  ultimately show ?thesis by (simp only: sse_frames_line) simp
qed

section \<open>Strings\<close>

definition hex_value :: "char \<Rightarrow> nat" where
  "hex_value c = (if c \<le> CHR ''9'' then of_char c - 48 else of_char c - 87)"

definition escape_value :: "char \<Rightarrow> char" where
  "escape_value e =
     (if e = CHR ''n'' then CHR 10 else if e = CHR ''r'' then CHR 13 else if e = CHR ''t'' then CHR 9
      else if e = CHR ''f'' then CHR 12 else if e = CHR ''b'' then CHR 8 else e)"

text \<open>The string after an opening quote, and the rest of the text.\<close>

fun read_json_string :: "string \<Rightarrow> (string \<times> string) option" where
  "read_json_string [] = None"
| "read_json_string (c # s) =
     (if c = CHR 34 then Some ([], s)
      else if c = CHR 92
      then (case s of
              [] \<Rightarrow> None
            | e # s' \<Rightarrow>
                if e = CHR ''u''
                then (case s' of
                        a # b # x # y # s'' \<Rightarrow>
                          map_option (\<lambda>(w, t). (char_of (16 * hex_value x + hex_value y) # w, t)) (read_json_string s'')
                      | _ \<Rightarrow> None)
                else map_option (\<lambda>(w, t). (escape_value e # w, t)) (read_json_string s'))
      else map_option (\<lambda>(w, t). (c # w, t)) (read_json_string s))"

lemma hex_value_char: "n < 16 \<Longrightarrow> hex_value (hex_char n) = n"
  by (simp add: hex_value_def hex_char_def less_eq_char_def)

lemma read_escaped: "read_json_string (json_char c @ s) = map_option (\<lambda>(w, t). (c # w, t)) (read_json_string s)"
proof -
  have "16 * (of_char c div 16) + of_char c mod 16 = (of_char c :: nat)" by simp
  then have "char_of (16 * hex_value (hex_char (of_char c div 16)) + hex_value (hex_char (of_char c mod 16))) = c"
    by (simp only: hex_value_char char_nibbles char_of_char)
  then show ?thesis by (auto simp: json_char_def escape_value_def)
qed

lemma read_string: "read_json_string (concat (map json_char s) @ CHR 34 # t) = Some (s, t)"
  by (induction s) (simp_all add: read_escaped)

text \<open>C30: A client reads the stream as it was sent. Whatever the payloads hold (line breaks, quotes, any
  character of the generated text), splitting the text of the stream at blank lines gives one frame
  per payload, with its JSON and nothing else, and then \<open>[DONE]\<close>; and a string of a payload is read
  back from its JSON text exactly.\<close>

theorem sse_text_read_back:
  "sse_frames [] (concat (map format_sse_data ps) @ format_sse_done) = map json_text ps @ [''[DONE]''] \<and>
   read_json_string (tl (json_string s) @ t) = Some (s, t)"
proof
  show "sse_frames [] (concat (map format_sse_data ps) @ format_sse_done) = map json_text ps @ [''[DONE]'']"
    using frame_of_done [of "[]"] by (simp add: frames_of_payloads)
  show "read_json_string (tl (json_string s) @ t) = Some (s, t)"
    by (simp add: json_string_def read_string)
qed

section \<open>Percentiles\<close>

lemma py_round_mono:
  assumes "x \<le> y"
  shows "py_round x \<le> py_round y"
proof -
  let ?f = "\<lfloor>x\<rfloor>" and ?g = "\<lfloor>y\<rfloor>"
  have floors: "?f \<le> ?g" using assms by (rule floor_mono)
  show ?thesis
  proof (cases "?f = ?g")
    case True
    then have "x - of_int ?f \<le> y - of_int ?g" using assms by simp
    with True show ?thesis by (auto simp: py_round_def Let_def)
  next
    case False
    with floors have "?f + 1 \<le> ?g" by simp
    moreover have "py_round x \<le> ?f + 1" "?g \<le> py_round y" by (simp_all add: py_round_def Let_def)
    ultimately show ?thesis by linarith
  qed
qed

lemma py_round_int [simp]: "py_round (of_int i) = i"
  by (simp add: py_round_def)

definition rank :: "rat \<Rightarrow> nat \<Rightarrow> nat" where
  "rank pct n = nat (max 0 (min (py_round (pct / 100 * of_int (int n - 1))) (int n - 1)))"

lemma percentile_rank: "vs \<noteq> [] \<Longrightarrow> percentile vs pct = Some (sort vs ! rank pct (length vs))"
  by (simp add: percentile_def rank_def Let_def)

lemma rank_less: "0 < n \<Longrightarrow> rank pct n < n"
  by (simp add: rank_def)

lemma rank_mono: "p \<le> q \<Longrightarrow> 0 < n \<Longrightarrow> rank p n \<le> rank q n"
proof -
  assume "p \<le> q" "0 < n"
  then have "p / 100 * of_int (int n - 1) \<le> q / 100 * of_int (int n - 1)"
    by (intro mult_right_mono) (simp_all add: divide_right_mono)
  then have "py_round (p / 100 * of_int (int n - 1)) \<le> py_round (q / 100 * of_int (int n - 1))"
    by (rule py_round_mono)
  then show "rank p n \<le> rank q n" by (simp add: rank_def)
qed

lemma rank_ends: "rank 0 n = 0" "rank 100 n = n - 1"
proof -
  show "rank 0 n = 0" using py_round_int [of 0] by (simp add: rank_def)
  have "(100 / 100) * of_int (int n - 1) = (of_int (int n - 1) :: rat)" by simp
  then have "py_round ((100 / 100) * of_int (int n - 1)) = int n - 1" by (simp only: py_round_int)
  then show "rank 100 n = n - 1" by (simp add: rank_def)
qed

lemma latencies_not_negative: "sorted (t # ts) \<Longrightarrow> x \<in> set (latencies_ms t ts) \<Longrightarrow> 0 \<le> x"
proof (induction ts arbitrary: t)
  case (Cons u us)
  then show ?case by (auto simp: elapsed_ms_def)
qed simp

lemma length_latencies [simp]: "length (latencies_ms t ts) = length ts"
  by (induction ts arbitrary: t) simp_all

lemma percentile_mem:
  assumes "vs \<noteq> []"
  obtains x where "percentile vs p = Some x" "x \<in> set vs"
proof
  show "percentile vs p = Some (sort vs ! rank p (length vs))" by (rule percentile_rank [OF assms])
  have "sort vs ! rank p (length vs) \<in> set (sort vs)" using assms by (intro nth_mem) (simp add: rank_less)
  then show "sort vs ! rank p (length vs) \<in> set vs" by simp
qed

lemma percentile_mono:
  assumes "percentile vs p = Some x" "percentile vs q = Some y" "p \<le> q"
  shows "x \<le> y"
proof -
  have ne: "vs \<noteq> []" using assms(1) by (auto simp: percentile_def)
  then have "sort vs ! rank p (length vs) \<le> sort vs ! rank q (length vs)"
    using assms(3) by (intro sorted_nth_mono) (simp_all add: rank_mono rank_less)
  with ne assms(1,2) show ?thesis by (simp add: percentile_rank)
qed

lemma percentile_ends:
  assumes "vs \<noteq> []"
  shows "percentile vs 0 = Some (Min (set vs))" and "percentile vs 100 = Some (Max (set vs))"
proof -
  let ?s = "sort vs" and ?n = "length vs"
  have mem: "?s ! 0 \<in> set vs" "?s ! (?n - 1) \<in> set vs"
    using nth_mem [of 0 ?s] nth_mem [of "?n - 1" ?s] assms by simp_all
  have "?s ! 0 \<le> v \<and> v \<le> ?s ! (?n - 1)" if "v \<in> set vs" for v
  proof -
    from that obtain i where "i < ?n" "v = ?s ! i" by (metis in_set_conv_nth length_sort set_sort)
    then show ?thesis by (auto intro: sorted_nth_mono)
  qed
  with mem have "Min (set vs) = ?s ! 0" "Max (set vs) = ?s ! (?n - 1)"
    by (auto intro!: Min_eqI Max_eqI)
  with assms show "percentile vs 0 = Some (Min (set vs))" "percentile vs 100 = Some (Max (set vs))"
    by (simp_all add: percentile_rank rank_ends)
qed

text \<open>The latency percentiles of a stream with at least two tokens and a clock that does not run
  backwards. Both exist and are among the measured latencies, of which there is one less than there
  are tokens; none is negative, as the metrics record demands; the median is at most the 99th
  percentile; percentiles grow with their rank from the least latency to the greatest.\<close>

theorem latency_percentiles:
  assumes "sorted (tm_token_timestamps t)" "2 \<le> length (tm_token_timestamps t)"
  shows "let ls = inter_token_latencies_ms t in
    \<exists>a b. itl_ms_p50 t = Some a \<and> itl_ms_p99 t = Some b \<and> 0 \<le> a \<and> a \<le> b \<and> {a, b} \<subseteq> set ls \<and>
      length ls = length (tm_token_timestamps t) - 1 \<and>
      percentile ls 0 = Some (Min (set ls)) \<and> percentile ls 100 = Some (Max (set ls)) \<and>
      mono (\<lambda>p. the (percentile ls p))"
proof -
  obtain u us where ts: "tm_token_timestamps t = u # us" "us \<noteq> []"
    using assms(2) by (cases "tm_token_timestamps t"; cases "tl (tm_token_timestamps t)") auto
  define ls where "ls = inter_token_latencies_ms t"
  have ls: "ls = latencies_ms u us" by (simp add: ls_def inter_token_latencies_ms_def ts)
  then have ne: "ls \<noteq> []" using ts(2) by (metis length_0_conv length_latencies)
  obtain a where a: "percentile ls 50 = Some a" "a \<in> set ls" by (rule percentile_mem [OF ne])
  obtain b where b: "percentile ls 99 = Some b" "b \<in> set ls" by (rule percentile_mem [OF ne])
  have "0 \<le> a" using a(2) assms(1) unfolding ts(1) ls by (rule latencies_not_negative [rotated])
  moreover have "a \<le> b" by (rule percentile_mono [OF a(1) b(1)]) simp
  moreover have "mono (\<lambda>p. the (percentile ls p))"
  proof (rule monoI)
    fix p q :: rat
    assume "p \<le> q"
    moreover obtain x where "percentile ls p = Some x" by (rule percentile_mem [OF ne])
    moreover obtain y where "percentile ls q = Some y" by (rule percentile_mem [OF ne])
    ultimately show "the (percentile ls p) \<le> the (percentile ls q)" using percentile_mono by simp
  qed
  moreover have "length ls = length (tm_token_timestamps t) - 1" by (simp add: ls ts(1))
  ultimately show ?thesis
    using a b percentile_ends [OF ne]
    by (auto simp: ls_def [symmetric] itl_ms_p50_def itl_ms_p99_def Let_def)
qed

theorem latency_percentiles_witness:
  "let t = \<lparr>tm_request_received_time = 0, tm_first_token_time = Some 1000, tm_completion_time = None,
            tm_token_timestamps = [1000, 3000, 4000]\<rparr> in
   \<exists>a b. itl_ms_p50 t = Some a \<and> itl_ms_p99 t = Some b \<and> 0 \<le> a \<and> a \<le> b"
  using latency_percentiles [of "\<lparr>tm_request_received_time = 0, tm_first_token_time = Some 1000,
      tm_completion_time = None, tm_token_timestamps = [1000, 3000, 4000]\<rparr>"]
  unfolding Let_def by (auto simp del: insert_subset)

end
