(* ===== verification/Stream_Properties.thy ===== *)
theory Stream_Properties
  imports Stream_Engine Stream_Text
begin

text \<open>
  What a stream sends and what it leaves behind: the chunks that were delivered, the frames that end
  a stream, and the slot of its request.
\<close>

section \<open>Operations that do not touch the transport\<close>

text \<open>Most operations leave the session alone; opening the stream writes its context only.\<close>

definition keeps_session :: "stream_engine \<Rightarrow> stream_engine \<Rightarrow> bool" where
  "keeps_session s t \<longleftrightarrow> se_out t = se_out s \<and> se_session t = se_session s"

definition transport :: "stream_engine \<Rightarrow> string list \<times> string \<times> nat" where
  "transport s = (se_out s, sn_generated_text (se_session s), sn_token_count (se_session s))"

interpretation qt: step_relation keeps_session
  by unfold_locales (simp_all add: keeps_session_def)

interpretation tp: step_relation "\<lambda>s t. transport t = transport s"
  by unfold_locales simp_all

lemma quiet_transport: "within_rel keeps_session m \<Longrightarrow> within_rel (\<lambda>s t. transport t = transport s) m"
  by (simp add: within_rel_def keeps_session_def transport_def)

lemma platform_quiet: "within_rel keeps_session (on_platform m)"
  by (rule within_relI)
    (simp add: on_platform_def map_exn_def zoom_op_def keeps_session_def split: prod.split sum.split)

lemma control_quiet:
  "within_rel keeps_session (stream_transition env r st b i)"
  "within_rel keeps_session (refuse env r reason message b)"
  "within_rel keeps_session (queue_again af env submit)"
  by (auto simp: stream_transition_def refuse_def queue_again_def intro: qt.within_intros platform_quiet)

lemma capture_quiet: "within_rel keeps_session (capture_entry env e)"
proof -
  have "within_rel keeps_session (modify_op (\<lambda>s. s\<lparr>se_captured := se_captured s @ [x]\<rparr>) :: unit streaming)" for x
    by (simp add: within_rel_def op_defs keeps_session_def)
  then show ?thesis unfolding capture_entry_def by (intro qt.within_intros)
qed

lemmas session_ops =
  on_session_def set_stream_state_def set_completion_def emit_session_def stream_metric_def send_def cancel_stream_def

lemma ensure_quiet: "within_rel keeps_session (ensure_queued af env submit)"
  unfolding ensure_queued_def by (intro qt.within_intros control_quiet)

lemma persist_quiet: "within_rel keeps_session (persist_stream_metrics env)" "within_rel keeps_session (persist_stream_failure env m)"
  unfolding persist_stream_metrics_def persist_stream_failure_def
  by (intro qt.within_intros platform_quiet capture_quiet)+

lemma close_quiet: "within_rel keeps_session (close_stream env r i b)"
  unfolding close_stream_def by (intro qt.within_intros platform_quiet)

lemma cancel_quiet: "within_rel keeps_session (cancel_backend_request r b)"
  unfolding cancel_backend_request_def by (intro qt.within_intros platform_quiet)

lemma begin_transport: "within_rel (\<lambda>s t. transport t = transport s) (begin_stream env r res ds)"
proof -
  have "within_rel (\<lambda>s t. transport t = transport s)
      (modify_op (on_session (\<lambda>x. x\<lparr>sn_context := c x\<rparr>)) :: unit streaming)" for c
    by (simp add: within_rel_def op_defs transport_def on_session_def)
  then show ?thesis unfolding begin_stream_def enter_backend_def
    by (intro tp.within_intros control_quiet [THEN quiet_transport])
qed

text \<open>A cancelled stream is marked as such before anything that may raise.\<close>

lemma cancel_session:
  "transport (snd (handle_cancel env s)) = transport s \<and> sn_state (se_session (snd (handle_cancel env s))) = SS_CANCELLED"
proof -
  have rest: "within_rel keeps_session (then_op (cancel_request_of_stream env) (persist_stream_metrics env))"
    unfolding cancel_request_of_stream_def
    by (intro qt.within_intros platform_quiet control_quiet persist_quiet cancel_quiet)
  have "transport (cancelled_stream env s) = transport s" "sn_state (se_session (cancelled_stream env s)) = SS_CANCELLED"
    by (simp_all add: cancelled_stream_def transport_def session_ops)
  with within_relD [OF rest, of "cancelled_stream env s"] show ?thesis
    by (simp add: handle_cancel_def then_op_def [of "modify_op _"] bind_op_def [of "modify_op _"] modify_op_def
        keeps_session_def transport_def)
qed

lemma platform_replaced: "transport (u\<lparr>se_platform := p\<rparr>) = transport u"
  by (simp add: transport_def)

lemma open_transport:
  assumes "open_stream af env submit s = Some (opened, t)"
  shows "transport t = transport s"
proof -
  obtain q u where e: "ensure_queued af env submit s = (q, u)" by (cases "ensure_queued af env submit s")
  then have u: "transport u = transport s"
    using within_relD [OF ensure_quiet [THEN quiet_transport], where s = s] by (metis snd_conv)
  have b: "transport (snd (begin_stream env r res ds (u\<lparr>se_platform := p\<rparr>))) = transport u" for r res ds p
    by (simp only: within_relD [OF begin_transport] platform_replaced)
  show ?thesis
  proof (cases q)
    case (Inl x)
    with assms e u show ?thesis by (simp add: open_stream_def)
  next
    case (Inr r)
    then obtain res :: "cycle_exn + scheduling_result" and ds p where
      "(case res of Inl x \<Rightarrow> (Inl (SE_Platform (PX_Runtime [])), u\<lparr>se_platform := p\<rparr>)
         | Inr z \<Rightarrow> begin_stream env (submit_id submit) z ds (u\<lparr>se_platform := p\<rparr>)) = (opened, t)"
      using assms e by (auto simp: open_stream_def)
    with b [where ds = ds and p = p] u show ?thesis by (cases res) (auto simp: platform_replaced, metis snd_conv)
  qed
qed

section \<open>What a client reads in a payload\<close>

fun payload_field :: "string \<Rightarrow> payload \<Rightarrow> payload option" where
  "payload_field k (PL_Object d) = map_of d k"
| "payload_field k _ = None"

definition payload_delta :: "payload \<Rightarrow> payload option" where
  "payload_delta p =
     (case payload_field ''choices'' p of
        Some (PL_Array (c # _)) \<Rightarrow> payload_field ''delta'' c
      | _ \<Rightarrow> None)"

definition payload_content :: "payload \<Rightarrow> string" where
  "payload_content p =
     (case Option.bind (payload_delta p) (payload_field ''content'') of Some (PL_Str s) \<Rightarrow> s | _ \<Rightarrow> [])"

definition has_role :: "payload \<Rightarrow> bool" where
  "has_role p \<longleftrightarrow> Option.bind (payload_delta p) (payload_field ''role'') \<noteq> None"

lemma chunk_payload_read [simp]:
  "payload_content (chunk_payload model created b c) = ch_delta_text c"
  "has_role (chunk_payload model created b c) \<longleftrightarrow> b \<and> ch_is_first c"
  by (simp_all add: payload_content_def has_role_def payload_delta_def chunk_payload_def chunk_delta_def)

fun chunk_payloads :: "string \<Rightarrow> int \<Rightarrow> bool \<Rightarrow> stream_chunk list \<Rightarrow> payload list" where
  "chunk_payloads model created role_sent [] = []"
| "chunk_payloads model created role_sent (c # cs) =
     chunk_payload model created (\<not> role_sent \<and> ch_is_first c) c
       # chunk_payloads model created (role_sent \<or> ch_is_first c) cs"

lemma one_role: "length (filter has_role (chunk_payloads model created role_sent cs)) \<le> (if role_sent then 0 else 1)"
proof (induction cs arbitrary: role_sent)
  case (Cons c cs)
  from Cons.IH [of "role_sent \<or> ch_is_first c"] show ?case by (auto split: if_splits)
qed simp

text \<open>What a sequence of payloads adds to the transport.\<close>

definition sent :: "payload list \<Rightarrow> string list \<times> string \<times> nat \<Rightarrow> string list \<times> string \<times> nat" where
  "sent ps = (\<lambda>(out, text, tokens).
     (out @ map format_sse_data ps, text @ concat (map payload_content ps),
      tokens + length (filter (\<lambda>p. payload_content p \<noteq> []) ps)))"

lemma sent_Nil [simp]: "sent [] x = x"
  by (simp add: sent_def split: prod.split)

lemma sent_Cons: "sent (p # ps) x = sent ps (sent [p] x)"
  by (simp add: sent_def split: prod.split)

lemma deliver_transport:
  "transport (deliver env model created role_sent previous c s) =
     sent [chunk_payload model created (\<not> role_sent \<and> ch_is_first c) c] (transport s)"
  by (simp add: deliver_def observe_finish_def collect_text_def observe_token_def first_token_def next_token_def
      session_ops sent_def transport_def chunk_to_openai_sse_def Let_def split: option.split)

lemma cancels_transport: "transport (fold cancel_stream is s) = transport s"
  by (induction "is" arbitrary: s) (simp_all add: cancel_stream_def transport_def)

lemma deliver_chunks_sent:
  assumes "deliver_chunks env model created n role_sent previous cs s = (res, t)"
  shows "\<exists>k \<le> length cs. transport t = sent (chunk_payloads model created role_sent (take k cs)) (transport s) \<and>
    (res = Inr True \<longrightarrow> k = length cs) \<and> (res = Inr False \<longrightarrow> sn_state (se_session t) = SS_CANCELLED)"
  using assms
proof (induction cs arbitrary: n role_sent previous s)
  case Nil
  then show ?case by (auto simp: return_op_def)
next
  case (Cons c cs)
  define u where "u = fold cancel_stream (sv_cancels env n) s"
  have u: "transport u = transport s" by (simp add: u_def cancels_transport)
  show ?case
  proof (cases "stream_id_cancelled (se_session u) (se_cancelled u) \<or> sv_disconnected env n")
    case True
    then have "t = snd (handle_cancel env u)"
      using Cons.prems by (auto simp: u_def [symmetric] op_defs split: prod.splits sum.splits)
    with cancel_session [of env u] u True Cons.prems show ?thesis
      by (intro exI [of _ 0]) (auto simp: u_def [symmetric] op_defs split: prod.splits sum.splits)
  next
    case False
    define v where "v = deliver env model created role_sent previous c u"
    have "deliver_chunks env model created (Suc n) (role_sent \<or> ch_is_first c)
        (if ch_delta_text c \<noteq> [] then Some (ch_timestamp c) else previous) cs v = (res, t)"
      using Cons.prems False by (simp add: u_def [symmetric] v_def op_defs)
    from Cons.IH [OF this] obtain k where k: "k \<le> length cs"
      "transport t = sent (chunk_payloads model created (role_sent \<or> ch_is_first c) (take k cs)) (transport v)"
      "(res = Inr True \<longrightarrow> k = length cs) \<and> (res = Inr False \<longrightarrow> sn_state (se_session t) = SS_CANCELLED)"
      by blast
    have "transport t = sent (chunk_payloads model created role_sent (take (Suc k) (c # cs))) (transport s)"
      using k(2) by (simp add: v_def deliver_transport u) (subst sent_Cons, simp)
    with k(1,3) show ?thesis by (intro exI [of _ "Suc k"]) auto
  qed
qed

section \<open>How a stream ends\<close>

definition error_frame :: "stream_env \<Rightarrow> submit_request \<Rightarrow> stream_engine \<Rightarrow> string \<Rightarrow> string" where
  "error_frame env submit s m =
     format_stream_error_sse (sv_now env) m (sn_request_id (se_session s)) (ir_model (sr_inference_request submit))"

lemma failed_transport:
  assumes "stream_failed env (ir_model (sr_inference_request submit)) x s = (res, t)"
  shows "se_out t = se_out s @ [error_frame env submit t (sv_describe env x), format_sse_done]"
    and "sn_generated_text (se_session t) = sn_generated_text (se_session s)"
    and "sn_token_count (se_session t) = sn_token_count (se_session s)"
    and "sn_state (se_session t) = SS_FAILED" and "sn_error (se_session t) = Some (sv_describe env x)"
proof -
  let ?m = "sv_describe env x" and ?model = "ir_model (sr_inference_request submit)"
  obtain u where u: "keeps_session u t" and out: "se_out u = se_out s @ [error_frame env submit u ?m, format_sse_done]"
    and same: "sn_generated_text (se_session u) = sn_generated_text (se_session s)"
      "sn_token_count (se_session u) = sn_token_count (se_session s)"
      "sn_state (se_session u) = SS_FAILED" "sn_error (se_session u) = Some ?m"
  proof
    define u where "u = send format_sse_done
      (send (format_stream_error_sse (sv_now env) ?m (sn_request_id (se_session s)) ?model)
        (stream_metric record_stream_failed
          (emit_session (sv_now env) SV_FAILED [(''error'', X_STR ?m)]
            (set_completion (sv_now env) (on_session (\<lambda>y. y\<lparr>sn_state := SS_FAILED, sn_error := Some ?m\<rparr>) s)))))"
    have "t = snd (persist_stream_failure env ?m u)"
      using assms by (simp add: stream_failed_def Let_def then_op_def bind_op_def [of "modify_op _"] modify_op_def u_def)
    then show "keeps_session u t" using within_relD [OF persist_quiet(2), of u] by simp
    show "se_out u = se_out s @ [error_frame env submit u ?m, format_sse_done]"
      and "sn_generated_text (se_session u) = sn_generated_text (se_session s)"
      and "sn_token_count (se_session u) = sn_token_count (se_session s)"
      and "sn_state (se_session u) = SS_FAILED" and "sn_error (se_session u) = Some ?m"
      by (simp_all add: u_def session_ops error_frame_def)
  qed
  then show "se_out t = se_out s @ [error_frame env submit t ?m, format_sse_done]"
    and "sn_generated_text (se_session t) = sn_generated_text (se_session s)"
    and "sn_token_count (se_session t) = sn_token_count (se_session s)"
    and "sn_state (se_session t) = SS_FAILED" and "sn_error (se_session t) = Some ?m"
    by (simp_all add: keeps_session_def error_frame_def)
qed

text \<open>
  The chunks of an open stream: what was sent, and that a stream which is neither exhausted nor
  failed was cancelled.
\<close>

lemma stream_chunks_sent:
  assumes "stream_chunks env submit b s = (res, t)"
  shows "\<exists>cs model created. transport t = sent (chunk_payloads model created False cs) (transport s) \<and>
    (res = Inr False \<longrightarrow> sn_state (se_session t) = SS_CANCELLED)"
proof -
  obtain i k where b: "b = (i, k)" by (cases b)
  obtain cs failure k' where g: "stream_inference_request env (submit_id submit) (sn_stream_id (se_session s))
      (sr_inference_request submit) k = (cs, failure, k')" by (metis prod_cases3)
  let ?model = "ir_model (sr_inference_request submit)"
  let ?created = "unix_seconds (sx_request_received_time (sn_context (se_session s)))"
  obtain r u where d: "deliver_chunks env ?model ?created 0 False None cs s = (r, u)"
    by (cases "deliver_chunks env ?model ?created 0 False None cs s")
  from deliver_chunks_sent [OF d] obtain n where n:
    "transport u = sent (chunk_payloads ?model ?created False (take n cs)) (transport s)"
    "r = Inr False \<longrightarrow> sn_state (se_session u) = SS_CANCELLED" by blast
  have close: "transport (snd (close_stream env (submit_id submit) i k' u)) = transport u"
    by (rule within_relD [OF close_quiet [THEN quiet_transport]])
  have run: "stream_chunks env submit b s = (case r of
      Inl e \<Rightarrow> (Inl e, u)
    | Inr False \<Rightarrow> (Inr False, u)
    | Inr True \<Rightarrow> (case failure of Some e \<Rightarrow> (Inl (SE_Backend e), u)
        | None \<Rightarrow> then_op (close_stream env (submit_id submit) i k') (return_op True) u))"
    by (simp add: stream_chunks_def b g gets_op_def bind_op_def d return_op_def raise_op_def then_op_def
        split: sum.split bool.split option.split prod.split)
  have "transport t = transport u \<and> (res = Inr False \<longrightarrow> r = Inr False \<and> t = u)"
    using close assms unfolding run
    by (auto simp: then_op_def bind_op_def return_op_def split: sum.splits bool.splits option.splits prod.splits)
  with n show ?thesis by (metis)
qed

lemma finish_cases:
  assumes "finish_stream env exhausted s = (res, t)"
  shows "if exhausted
    then se_out t = se_out s @ [format_sse_done] \<and> se_session t = se_session s
    else t = s \<and> res = Inr ()"
proof (cases exhausted)
  case True
  then have "t = snd (persist_stream_metrics env (send format_sse_done s))"
    using assms by (simp add: finish_stream_def then_op_def bind_op_def [of "modify_op _"] modify_op_def)
  with within_relD [OF persist_quiet(1), of "send format_sse_done s"] True show ?thesis
    by (simp add: keeps_session_def send_def)
next
  case False
  with assms show ?thesis by (simp add: finish_stream_def return_op_def)
qed

text \<open>What follows the chunks of a stream.\<close>

definition stream_ends :: "string list \<Rightarrow> (stream_exn + unit) \<Rightarrow> stream_session \<Rightarrow> bool" where
  "stream_ends tail res x \<longleftrightarrow>
     tail = [] \<and> res = Inr () \<and> sn_state x = SS_CANCELLED \<or>
     tail = [format_sse_done] \<and> res = Inr () \<or>
     (\<exists>now m model. sn_state x = SS_FAILED \<and> sn_error x = Some m \<and>
        (tail = [format_stream_error_sse now m (sn_request_id x) model, format_sse_done] \<or>
         tail = [format_sse_done, format_stream_error_sse now m (sn_request_id x) model, format_sse_done]))"

lemma run_opened_sent:
  assumes "run_opened env submit (opened, s) = (res, t)"
  shows "\<exists>ps tail. se_out t = se_out s @ map format_sse_data ps @ tail \<and>
    sn_generated_text (se_session t) = sn_generated_text (se_session s) @ concat (map payload_content ps) \<and>
    sn_token_count (se_session t) = sn_token_count (se_session s) + length (filter (\<lambda>p. payload_content p \<noteq> []) ps) \<and>
    length (filter has_role ps) \<le> 1 \<and> stream_ends tail res (se_session t)"
proof -
  define fail where "fail = stream_failed env (ir_model (sr_inference_request submit))"
  define try_body where "try_body = bind_op (\<lambda>t. (opened, t)) (\<lambda>b. bind_op (stream_chunks env submit b) (finish_stream env))"
  obtain r u where body: "try_body s = (r, u)" by (cases "try_body s")
  have run: "(res, t) = (case r of Inl x \<Rightarrow> fail x u | Inr y \<Rightarrow> (Inr y, u))"
    using assms body by (cases r) (auto simp: run_opened_def catch_op_def try_body_def fail_def)
  have sent: "\<exists>ps tail. se_out u = se_out s @ map format_sse_data ps @ tail \<and>
      sn_generated_text (se_session u) = sn_generated_text (se_session s) @ concat (map payload_content ps) \<and>
      sn_token_count (se_session u) = sn_token_count (se_session s) + length (filter (\<lambda>p. payload_content p \<noteq> []) ps) \<and>
      length (filter has_role ps) \<le> 1 \<and> (tail = [] \<or> tail = [format_sse_done]) \<and>
      (r = Inr () \<longrightarrow> stream_ends tail r (se_session u))"
  proof (cases opened)
    case (Inl x)
    with body show ?thesis
      by (intro exI [of _ "[]"]) (auto simp: try_body_def bind_op_def)
  next
    case (Inr b)
    obtain q v where v: "stream_chunks env submit b s = (q, v)" by (cases "stream_chunks env submit b s")
    from stream_chunks_sent [OF v] obtain cs model created where cs:
      "transport v = sent (chunk_payloads model created False cs) (transport s)"
      "q = Inr False \<longrightarrow> sn_state (se_session v) = SS_CANCELLED" by blast
    have r: "(r, u) = (case q of Inl e \<Rightarrow> (Inl e, v) | Inr x \<Rightarrow> finish_stream env x v)"
      using body v Inr by (simp add: try_body_def bind_op_def split: sum.split)
    define ps where "ps = chunk_payloads model created False cs"
    have roles: "length (filter has_role ps) \<le> 1" unfolding ps_def using one_role [of model created False cs] by simp
    have tr: "se_out v = se_out s @ map format_sse_data ps"
      "sn_generated_text (se_session v) = sn_generated_text (se_session s) @ concat (map payload_content ps)"
      "sn_token_count (se_session v) = sn_token_count (se_session s) + length (filter (\<lambda>p. payload_content p \<noteq> []) ps)"
      using cs(1) by (simp_all add: transport_def sent_def ps_def)
    show ?thesis
    proof (cases q)
      case (Inl e)
      with r tr roles show ?thesis by (intro exI [of _ ps] exI [of _ "[]"]) simp
    next
      case (Inr x)
      then have "finish_stream env x v = (r, u)" using r by simp
      from finish_cases [OF this] show ?thesis
        using Inr cs(2) tr roles
        by (intro exI [of _ ps] exI [of _ "if x then [format_sse_done] else []"]) (auto simp: stream_ends_def split: if_splits)
    qed
  qed
  then obtain ps tail where ps: "se_out u = se_out s @ map format_sse_data ps @ tail"
    "sn_generated_text (se_session u) = sn_generated_text (se_session s) @ concat (map payload_content ps)"
    "sn_token_count (se_session u) = sn_token_count (se_session s) + length (filter (\<lambda>p. payload_content p \<noteq> []) ps)"
    "length (filter has_role ps) \<le> 1" "tail = [] \<or> tail = [format_sse_done]"
    "r = Inr () \<longrightarrow> stream_ends tail r (se_session u)" by blast
  show ?thesis
  proof (cases r)
    case (Inr y)
    with run ps show ?thesis by (intro exI [of _ ps] exI [of _ tail]) simp
  next
    case (Inl x)
    then have f: "fail x u = (res, t)" using run by simp
    note failed = failed_transport [OF f [unfolded fail_def]]
    show ?thesis
      by (intro exI [of _ ps] exI [of _ "tail @ [error_frame env submit t (sv_describe env x), format_sse_done]"])
        (use ps failed in \<open>auto simp: stream_ends_def error_frame_def\<close>)
  qed
qed

text \<open>C15: What a stream sends. Whatever the request, its backend, the clients and the other services do,
  the text the client receives is a sequence of chunk frames and then one of four endings: none when
  the stream was cancelled, \<open>[DONE]\<close> when its chunks were exhausted, an error and \<open>[DONE]\<close> when
  something raised, and \<open>[DONE]\<close>, an error and a second \<open>[DONE]\<close> when what raised was the recording
  of a finished stream. The contents of the chunk frames, put together, are the text the session
  recorded; its token count is the number of frames with content; at most one frame names the role.\<close>

theorem stream_protocol:
  "case stream_sse af env submit s of
     None \<Rightarrow> True
   | Some (res, t) \<Rightarrow>
       \<exists>ps tail. se_out t = se_out s @ map format_sse_data ps @ tail \<and>
         sn_generated_text (se_session t) = sn_generated_text (se_session s) @ concat (map payload_content ps) \<and>
         sn_token_count (se_session t) =
           sn_token_count (se_session s) + length (filter (\<lambda>p. payload_content p \<noteq> []) ps) \<and>
         length (filter has_role ps) \<le> 1 \<and> stream_ends tail res (se_session t)"
proof (cases "open_stream af env submit (created_stream env s)")
  case None
  then show ?thesis by (simp add: stream_sse_def)
next
  case (Some p)
  obtain opened u where p: "p = (opened, u)" by (cases p)
  have "transport u = transport s"
    using open_transport [OF Some [unfolded p]] by (simp add: created_stream_def transport_def session_ops)
  moreover obtain res t where t: "run_opened env submit (opened, u) = (res, t)" by (cases "run_opened env submit (opened, u)")
  ultimately show ?thesis
    using run_opened_sent [OF t] by (simp add: stream_sse_def Some p transport_def)
qed

section \<open>The slot of a stream\<close>

definition same_slots :: "stream_engine \<Rightarrow> stream_engine \<Rightarrow> bool" where
  "same_slots s t \<longleftrightarrow> pf_engine (se_platform t) = pf_engine (se_platform s)"

interpretation sl: step_relation same_slots
  by unfold_locales (simp_all add: same_slots_def)

lemma control_slots: "within_rel same_slots (on_platform (on_control m))"
  by (rule within_relI)
    (simp add: on_platform_def on_control_def map_exn_def zoom_op_def same_slots_def split: prod.split sum.split)

lemma adapter_slots: "within_rel same_slots (on_platform (on_adapter m))"
  by (rule within_relI)
    (simp add: on_platform_def on_adapter_def map_exn_def zoom_op_def same_slots_def split: prod.split sum.split)

lemma session_slots: "(\<And>s. se_platform (f s) = se_platform s) \<Longrightarrow> within_rel same_slots (modify_op f :: unit streaming)"
  by (simp add: within_rel_def op_defs same_slots_def)

lemma capture_slots: "within_rel same_slots (capture_entry env e)"
  unfolding capture_entry_def by (intro sl.within_intros session_slots) simp

lemma transition_slots: "within_rel same_slots (stream_transition env r st b i)"
  unfolding stream_transition_def by (rule control_slots)

lemma refuse_slots: "within_rel same_slots (refuse env r reason message b)"
  unfolding refuse_def fail_request_def by (intro sl.within_intros control_slots)

lemma persist_slots: "within_rel same_slots (persist_stream_metrics env)" "within_rel same_slots (persist_stream_failure env m)"
  unfolding persist_stream_metrics_def persist_stream_failure_def
  by (intro sl.within_intros control_slots capture_slots)+

lemma cancels_platform [simp]: "se_platform (fold cancel_stream is s) = se_platform s"
  by (induction "is" arbitrary: s) (simp_all add: cancel_stream_def)

lemma deliver_platform [simp]: "se_platform (deliver env model created role_sent previous c s) = se_platform s"
  by (simp add: deliver_def observe_finish_def collect_text_def observe_token_def first_token_def next_token_def
      session_ops Let_def split: option.split)

lemma cancel_slots: "within_rel same_slots (handle_cancel env)"
  unfolding handle_cancel_def cancel_request_of_stream_def cancel_backend_request_def
  by (intro sl.within_intros control_slots adapter_slots transition_slots persist_slots session_slots)
    (simp add: cancelled_stream_def session_ops)

lemma chunks_slots: "within_rel same_slots (deliver_chunks env model created n role_sent previous cs)"
  by (induction cs arbitrary: n role_sent previous)
    (auto intro!: sl.within_intros session_slots cancel_slots)

lemma failed_slots: "within_rel same_slots (stream_failed env model x)"
  unfolding stream_failed_def Let_def
  by (intro sl.within_intros session_slots persist_slots) (simp add: session_ops)

lemma begin_slots: "within_rel same_slots (begin_stream env r res ds)"
  unfolding begin_stream_def enter_backend_def
  by (intro sl.within_intros session_slots transition_slots refuse_slots) (simp add: session_ops)

lemma finish_slots: "within_rel same_slots (finish_stream env exhausted)"
  unfolding finish_stream_def by (intro sl.within_intros session_slots persist_slots) (simp add: session_ops)

text \<open>C28: Only an exhausted stream gives its slot back. Everything else the engine does with a stream whose
  request has been placed (refusing it, delivering its chunks, cancelling it for its client, failing
  it) leaves the batches as they are: the request stays an active member of its batch, and counts
  against the batch size and the active requests, although its entry is CANCELLED or FAILED.\<close>

theorem stopped_stream_keeps_slot:
  "pf_engine (se_platform (snd (begin_stream env r decisions ds s))) = pf_engine (se_platform s) \<and>
   pf_engine (se_platform (snd (deliver_chunks env model created n role_sent previous cs s))) = pf_engine (se_platform s) \<and>
   pf_engine (se_platform (snd (handle_cancel env s))) = pf_engine (se_platform s) \<and>
   pf_engine (se_platform (snd (stream_failed env model x s))) = pf_engine (se_platform s) \<and>
   pf_engine (se_platform (snd (finish_stream env exhausted s))) = pf_engine (se_platform s)"
  using within_relD [OF begin_slots] within_relD [OF chunks_slots] within_relD [OF cancel_slots]
    within_relD [OF failed_slots] within_relD [OF finish_slots]
  by (simp add: same_slots_def)

end
