(* ===== verification/Stream_Completion.thy ===== *)
theory Stream_Completion
  imports Stream_Properties Control_Plane_Properties
begin

text \<open>
  A stream that nobody disturbs: its chunks are delivered in order, its request completes, and what
  was measured is kept with the request.
\<close>

section \<open>An undisturbed stream\<close>

definition undisturbed :: "stream_env \<Rightarrow> stream_engine \<Rightarrow> bool" where
  "undisturbed env s \<longleftrightarrow>
     (\<forall>n. sv_cancels env n = [] \<and> \<not> sv_disconnected env n) \<and> sn_stream_id (se_session s) \<notin> set (se_cancelled s)"

text \<open>What a chunk does to the session.\<close>

definition chunk_session :: "stream_chunk \<Rightarrow> stream_session \<Rightarrow> stream_session" where
  "chunk_session c x =
     (let starts = ch_is_first c \<or> (ch_delta_text c \<noteq> [] \<and> sn_token_count x = 0);
          y = (if starts \<or> ch_delta_text c \<noteq> [] then x\<lparr>sn_timing := record_token (ch_timestamp c) (sn_timing x)\<rparr> else x);
          y' = (if starts then y\<lparr>sn_state := SS_ACTIVE\<rparr> else y);
          z = (if ch_delta_text c \<noteq> []
               then y'\<lparr>sn_generated_text := sn_generated_text y' @ ch_delta_text c, sn_token_count := Suc (sn_token_count y')\<rparr>
               else y')
      in if finishes c
         then z\<lparr>sn_timing := (sn_timing z)\<lparr>tm_completion_time := Some (ch_timestamp c)\<rparr>, sn_state := SS_COMPLETED\<rparr>
         else z)"

lemma deliver_session:
  "se_session (deliver env model created role_sent previous c s) = chunk_session c (se_session s)"
  "se_cancelled (deliver env model created role_sent previous c s) = se_cancelled s"
  "se_captured (deliver env model created role_sent previous c s) = se_captured s"
  by (simp_all add: deliver_def observe_finish_def collect_text_def observe_token_def first_token_def next_token_def
      chunk_session_def session_ops Let_def split: option.split)

lemma chunk_session_context [simp]: "sn_context (chunk_session c x) = sn_context x"
  by (simp add: chunk_session_def Let_def)

lemma undisturbed_chunks:
  assumes "undisturbed env s"
  shows "\<exists>t. deliver_chunks env model created n role_sent previous cs s = (Inr True, t) \<and>
    se_platform t = se_platform s \<and> se_captured t = se_captured s \<and>
    se_session t = fold chunk_session cs (se_session s) \<and>
    transport t = sent (chunk_payloads model created role_sent cs) (transport s)"
  using assms
proof (induction cs arbitrary: n role_sent previous s)
  case Nil
  then show ?case by (simp add: return_op_def)
next
  case (Cons c cs)
  define v where "v = deliver env model created role_sent previous c s"
  have "undisturbed env v" using Cons.prems by (simp add: undisturbed_def v_def deliver_session)
  from Cons.IH [OF this] obtain t where
    "deliver_chunks env model created (Suc n) (role_sent \<or> ch_is_first c)
       (if ch_delta_text c \<noteq> [] then Some (ch_timestamp c) else previous) cs v = (Inr True, t)"
    "se_platform t = se_platform v" "se_captured t = se_captured v"
    "se_session t = fold chunk_session cs (se_session v)"
    "transport t = sent (chunk_payloads model created (role_sent \<or> ch_is_first c) cs) (transport v)" by blast
  with Cons.prems show ?case
    by (intro exI [of _ t])
      (simp add: op_defs v_def undisturbed_def stream_id_cancelled_def deliver_session deliver_transport,
        subst sent_Cons, simp)
qed

section \<open>Closing it\<close>

lemma complete_run:
  assumes "dict_get (rs_entries s) i = Some e" "e < length (rs_heap s)" "re_state (entry_at s e) = STREAMING"
  shows "\<exists>t. complete_request ck i None s = (Inr e, t) \<and> rs_entries t = rs_entries s \<and>
    length (rs_heap t) = length (rs_heap s) \<and> re_state (entry_at t e) = COMPLETED"
proof -
  obtain obs where "transition ck i COMPLETED None None s =
      (Inr e, (modify_entry e (\<lambda>x. (with_ids None None x)\<lparr>re_state := COMPLETED, re_updated_at := fst ck\<rparr>) s)
        \<lparr>em_observers := obs\<rparr>)"
    using transition_run [OF assms(1,2), of ck COMPLETED None None] assms(3)
    by (auto simp: is_allowed_transition_def)
  with assms show ?thesis
    by (simp add: complete_request_def op_basic registry_get_def emit_state_event_run entry_modify_if)
qed

lemma platform_control:
  "on_platform (on_control m) s =
     (case m (pf_control (se_platform s)) of
        (res, q) \<Rightarrow>
          (case res of Inl x \<Rightarrow> Inl (SE_Platform (PX_Control x)) | Inr a \<Rightarrow> Inr a,
           s\<lparr>se_platform := (se_platform s)\<lparr>pf_scheduler := (pf_scheduler (se_platform s))\<lparr>sa_queue := q\<rparr>\<rparr>\<rparr>))"
  by (simp add: on_platform_def on_control_def map_exn_def zoom_op_def split: prod.split sum.split)

lemma platform_batches:
  "on_platform (on_batches m) s =
     (case m (pf_engine (se_platform s)) of
        (res, q) \<Rightarrow>
          (case res of Inl x \<Rightarrow> Inl (SE_Platform (PX_Batch x)) | Inr a \<Rightarrow> Inr a,
           s\<lparr>se_platform := (se_platform s)\<lparr>pf_scheduler := (pf_scheduler (se_platform s))\<lparr>sa_engine := q\<rparr>\<rparr>\<rparr>))"
  by (simp add: on_platform_def on_batches_def map_exn_def zoom_op_def split: prod.split sum.split)

lemma platform_adapter:
  "on_platform (on_adapter m) s =
     (case m (dw_adapter (pf_world (se_platform s))) of
        (res, q) \<Rightarrow>
          (case res of Inl x \<Rightarrow> Inl (SE_Platform (PX_Adapter x)) | Inr a \<Rightarrow> Inr a,
           s\<lparr>se_platform := (se_platform s)\<lparr>pf_world := (pf_world (se_platform s))\<lparr>dw_adapter := q\<rparr>\<rparr>\<rparr>))"
  by (simp add: on_platform_def on_adapter_def map_exn_def zoom_op_def split: prod.split sum.split)

lemma complete_member_returns:
  assumes "engine_reachable s"
  shows "\<exists>x. fst (complete_request_in_batch now fresh r s) = Inr x"
proof -
  have "engine_ok s" "MS_COMPLETED \<noteq> MS_ACTIVE" using assms by (simp_all add: reachable_ok)
  then show ?thesis unfolding complete_request_in_batch_def
    by (rule retire_request_cases [of s MS_COMPLETED r now fresh "''request_completed''"]) simp_all
qed

definition streaming_entry :: "uuid \<Rightarrow> ref \<Rightarrow> queue_state \<Rightarrow> bool" where
  "streaming_entry r e q \<longleftrightarrow>
     dict_get (rs_entries q) r = Some e \<and> e < length (rs_heap q) \<and> re_state (entry_at q e) = STREAMING"

lemma close_run:
  assumes "streaming_entry r e (pf_control (se_platform s))" "engine_reachable (pf_engine (se_platform s))"
  shows "\<exists>t. close_stream env r i b s = (Inr (), t) \<and> keeps_session s t \<and> se_captured t = se_captured s \<and>
    dict_get (rs_entries (pf_control (se_platform t))) r = Some e \<and>
    e < length (rs_heap (pf_control (se_platform t))) \<and>
    re_state (entry_at (pf_control (se_platform t)) e) = COMPLETED \<and>
    pf_engine (se_platform t) =
      snd (complete_request_in_batch (fst (pe_finish (sv_path env))) (pe_retire_id (sv_path env)) r (pf_engine (se_platform s)))"
proof -
  obtain x where x: "fst (complete_request_in_batch (fst (pe_finish (sv_path env))) (pe_retire_id (sv_path env)) r
      (pf_engine (se_platform s))) = Inr x"
    using complete_member_returns [OF assms(2)] by blast
  obtain q where q: "complete_request (pe_finish (sv_path env)) r None (pf_control (se_platform s)) = (Inr e, q)"
    "rs_entries q = rs_entries (pf_control (se_platform s))" "length (rs_heap q) = length (rs_heap (pf_control (se_platform s)))"
    "re_state (entry_at q e) = COMPLETED"
    using complete_run assms(1) unfolding streaming_entry_def by blast
  obtain en where en: "complete_request_in_batch (fst (pe_finish (sv_path env))) (pe_retire_id (sv_path env)) r
      (pf_engine (se_platform s)) = (Inr x, en)"
    using x by (metis prod.collapse)
  show ?thesis
    using assms(1) q en
    by (simp add: close_stream_def then_op_def bind_op_def platform_adapter platform_batches platform_control
        modify_op_def return_op_def keeps_session_def streaming_entry_def)
qed

section \<open>Recording it\<close>

definition recorded_metrics :: "stream_session \<Rightarrow> streaming_metrics_record" where
  "recorded_metrics x = metrics_record (result_from_session x)"

text \<open>A session whose clock did not run backwards has a valid metrics record.\<close>

definition clocked :: "stream_timing \<Rightarrow> bool" where
  "clocked t \<longleftrightarrow> sorted (tm_request_received_time t # tm_token_timestamps t) \<and>
     (tm_first_token_time t \<noteq> None \<longrightarrow> tm_request_received_time t \<le> the (tm_first_token_time t))"

lemma clocked_valid:
  assumes "clocked (sn_timing x)"
  shows "metrics_record_valid (recorded_metrics x)"
proof -
  let ?ls = "inter_token_latencies_ms (sn_timing x)"
  have "0 \<le> v" if "v \<in> set ?ls" for v
  proof (cases "tm_token_timestamps (sn_timing x)")
    case (Cons u us)
    with assms have "sorted (u # us)" by (simp add: clocked_def)
    then show ?thesis using that Cons
      by (intro latencies_not_negative [of u us v]) (simp_all add: inter_token_latencies_ms_def)
  qed (use that in \<open>simp add: inter_token_latencies_ms_def\<close>)
  then have "not_negative (percentile ?ls p)" for p
    by (cases "?ls = []") (auto simp: not_negative_def percentile_def [of "[]"] elim: percentile_mem [of ?ls p] split: option.split)
  moreover have "not_negative (timing_ttft_ms (sn_timing x))"
    using assms by (auto simp: not_negative_def timing_ttft_ms_def elapsed_ms_def clocked_def split: option.split)
  ultimately show ?thesis
    by (simp add: metrics_record_valid_def recorded_metrics_def metrics_record_def result_from_session_def
        itl_ms_p50_def itl_ms_p99_def)
qed

lemma persist_run_ok:
  assumes "metrics_record_valid (recorded_metrics (se_session s))"
    and "dict_get (rs_entries (pf_control (se_platform s))) (sn_request_id (se_session s)) = Some e"
    and "e < length (rs_heap (pf_control (se_platform s)))"
    and "\<forall>x. sv_capture env x = None"
  shows "\<exists>t. persist_stream_metrics env s = (Inr (), t) \<and> keeps_session s t \<and> same_slots s t \<and>
    entry_at (pf_control (se_platform t)) e =
      (entry_at (pf_control (se_platform s)) e)\<lparr>re_stream_metrics := Some (recorded_metrics (se_session s))\<rparr> \<and>
    se_captured t = se_captured s @ (if sv_replay env then [entry_at (pf_control (se_platform t)) e] else [])"
proof -
  have id: "sm_request_id (recorded_metrics (se_session s)) = sn_request_id (se_session s)"
    by (simp add: recorded_metrics_def metrics_record_def result_from_session_def)
  show ?thesis
    using assms id
    by (cases "sv_replay env")
      (simp_all add: persist_stream_metrics_def recorded_metrics_def [symmetric] op_basic platform_control get_entry_def
        registry_get_def capture_entry_def entry_modify_if keeps_session_def same_slots_def)
qed

text \<open>C17: A stream that nobody cancels, whose client stays and whose backend ends without an exception,
  completes. The client is sent every chunk in order and then \<open>[DONE]\<close>; the request, which was
  STREAMING, is COMPLETED and carries the metrics of the session; its batch slot is given back; the
  entry is captured for replay once, as completed. This holds whatever the last chunk says: a
  backend that never names a finish reason leaves the session active, and the metrics of the
  completed request then say so.\<close>

theorem exhausted_stream_completes:
  fixes s :: stream_engine
  defines "r \<equiv> sn_request_id (se_session s)"
  assumes quiet: "undisturbed env s" "\<forall>x. sv_capture env x = None" and id: "r = submit_id submit"
    and entry: "streaming_entry r e (pf_control (se_platform s))"
    and engine: "engine_reachable (pf_engine (se_platform s))"
    and chunks: "stream_inference_request env r (sn_stream_id (se_session s)) (sr_inference_request submit) b = (cs, None, b')"
    and clock: "clocked (sn_timing (fold chunk_session cs (se_session s)))"
  shows "\<exists>t. run_opened env submit (Inr (i, b), s) = (Inr (), t) \<and>
    se_out t = se_out s @ map format_sse_data (chunk_payloads (ir_model (sr_inference_request submit))
      (unix_seconds (sx_request_received_time (sn_context (se_session s)))) False cs) @ [format_sse_done] \<and>
    se_session t = fold chunk_session cs (se_session s) \<and>
    re_state (entry_at (pf_control (se_platform t)) e) = COMPLETED \<and>
    re_stream_metrics (entry_at (pf_control (se_platform t)) e) = Some (recorded_metrics (se_session t)) \<and>
    pf_engine (se_platform t) =
      snd (complete_request_in_batch (fst (pe_finish (sv_path env))) (pe_retire_id (sv_path env)) r (pf_engine (se_platform s))) \<and>
    se_captured t = se_captured s @ (if sv_replay env then [entry_at (pf_control (se_platform t)) e] else [])"
proof -
  let ?model = "ir_model (sr_inference_request submit)"
  let ?created = "unix_seconds (sx_request_received_time (sn_context (se_session s)))"
  let ?x = "fold chunk_session cs (se_session s)"
  obtain u where u: "deliver_chunks env ?model ?created 0 False None cs s = (Inr True, u)"
    "se_platform u = se_platform s" "se_captured u = se_captured s" "se_session u = ?x"
    "transport u = sent (chunk_payloads ?model ?created False cs) (transport s)"
    using undisturbed_chunks [OF quiet(1)] by blast
  have context_kept: "sn_context ?x = sn_context (se_session s)"
    by (induction cs rule: rev_induct) simp_all
  obtain v where v: "close_stream env r i b' u = (Inr (), v)" "keeps_session u v" "se_captured v = se_captured u"
    "dict_get (rs_entries (pf_control (se_platform v))) r = Some e" "e < length (rs_heap (pf_control (se_platform v)))"
    "re_state (entry_at (pf_control (se_platform v)) e) = COMPLETED"
    "pf_engine (se_platform v) = snd (complete_request_in_batch (fst (pe_finish (sv_path env))) (pe_retire_id (sv_path env)) r
       (pf_engine (se_platform s)))"
    using close_run [of r e u env i b'] entry engine by (auto simp: u(2))
  define w where "w = send format_sse_done v"
  have w: "se_session w = ?x" "se_platform w = se_platform v" "se_captured w = se_captured s"
    "se_out w = se_out u @ [format_sse_done]"
    using v(2,3) u(3,4) by (simp_all add: w_def send_def keeps_session_def)
  obtain t where t: "persist_stream_metrics env w = (Inr (), t)" "keeps_session w t" "same_slots w t"
    "entry_at (pf_control (se_platform t)) e =
      (entry_at (pf_control (se_platform w)) e)\<lparr>re_stream_metrics := Some (recorded_metrics (se_session w))\<rparr>"
    "se_captured t = se_captured w @ (if sv_replay env then [entry_at (pf_control (se_platform t)) e] else [])"
    using persist_run_ok [of w e env] clocked_valid [OF clock] v(4,5) quiet(2)
    by (auto simp: w context_kept r_def)
  have "stream_chunks env submit (i, b) s = (Inr True, v)"
    using u(1) v(1) chunks
    by (simp add: stream_chunks_def op_basic id [symmetric] r_def)
  moreover have "finish_stream env True v = (Inr (), t)"
    using t(1) by (simp add: finish_stream_def op_basic w_def)
  ultimately have "run_opened env submit (Inr (i, b), s) = (Inr (), t)"
    by (simp add: run_opened_def catch_op_def bind_op_def)
  moreover have "se_out u = se_out s @ map format_sse_data (chunk_payloads ?model ?created False cs)"
    using u(5) by (simp add: transport_def sent_def)
  ultimately show ?thesis
    using t w v by (intro exI [of _ t]) (simp add: keeps_session_def same_slots_def)
qed

text \<open>A stream of the mock backend for a placed request.\<close>

definition sample_http :: http_env where
  "sample_http =
     \<lparr>he_health = Inr 200, he_models = Inr (200, Inr []), he_chat = (\<lambda>i p. Inl (HttpRequestError [])),
      he_stream = (\<lambda>i p. Inl (HttpRequestError [])), he_parse_line = (\<lambda>l. Inl []), he_show_float = (\<lambda>x. [])\<rparr>"

definition sample_stream_env :: stream_env where
  "sample_stream_env =
     \<lparr>sv_path = \<lparr>pe_received = 10, pe_sweep = (10, 0), pe_admit = (10, 0), pe_cycle_now = 10, pe_cycle_id = ''cycle'', pe_batch_ids = show_nat,
        pe_round = \<lparr>rn_now = 10, rn_envs = (\<lambda>i k. \<lparr>ce_http = sample_http, ce_now = 10, ce_duration = (\<lambda>i. 0)\<rparr>),
          rn_durations = (\<lambda>i k. 0), rn_fresh = ''f''\<rparr>, pe_finish = (30, 0), pe_retire_id = ''f''\<rparr>,
      sv_now = 20, sv_chunk_now = (\<lambda>n. 20 + int n), sv_cancels = (\<lambda>n. []), sv_disconnected = (\<lambda>n. False),
      sv_backend_cancelled = (\<lambda>n. False), sv_http = sample_http, sv_replay = True, sv_capture = (\<lambda>x. None),
      sv_describe = (\<lambda>x. [])\<rparr>"

definition sample_stream :: stream_engine where
  "sample_stream =
     \<lparr>se_platform =
        \<lparr>pf_scheduler =
           \<lparr>sa_settings = \<lparr>cs_max_candidate_requests = 8, cs_queue_scan_limit = 8\<rparr>, sa_policy = FIFOSchedulerPolicy,
            sa_queue = modify_entry 0 (re_state_update (\<lambda>_. STREAMING)) sample_queued, sa_engine = sample_filling,
            sa_process_mode = SM_ACCEPTING, sa_loop_running = True, sa_current_cycle = None, sa_last_completed_cycle = None,
            sa_total_cycles = 1\<rparr>,
         pf_dispatch = None, pf_dispatch_enabled = True, pf_world = sample_world\<rparr>,
      se_observers = \<lparr>ob_trace = None, ob_metrics = None\<rparr>, se_cancelled = [],
      se_session = session_create ''s'' ''a'' ''trace'' ''demo'' 10, se_out = [], se_captured = []\<rparr>"

theorem exhausted_stream_completes_witness:
  "\<exists>t. run_opened sample_stream_env (sample_submit ''a'') (Inr (''mock'', Mock (new_mock ''mock'' [''demo''] 8 False)), sample_stream) =
     (Inr (), t) \<and>
   length (se_out t) = 5 \<and> last (se_out t) = format_sse_done \<and>
   sn_generated_text (se_session t) = ''mock stream output'' \<and> sn_token_count (se_session t) = 3 \<and>
   re_state (entry_at (pf_control (se_platform t)) 0) = COMPLETED \<and> length (se_captured t) = 1"
proof -
  let ?k = "new_mock ''mock'' [''demo''] 8 False"
  define c where "c = (\<lambda>n. mk_chunk (20 + int n) ''s'' ''a'' n)"
  let ?cs = "[c 0 ''mock'' None True, c 1 '' stream'' None False, c 2 '' output'' None False, c 3 [] (Some ''stop'') False]"
  have chunks: "stream_inference_request sample_stream_env ''a'' ''s'' (sample_request ''a'') (Mock ?k) =
      (?cs, None, Mock (?k\<lparr>mk_request_status := [(''a'', XS_COMPLETED)]\<rparr>))"
    by (simp add: stream_inference_request_def mock_stream_request_def mock_tokens_def sample_stream_env_def new_mock_def
        c_def numeral_2_eq_2 numeral_3_eq_3)
  define x where "x = fold chunk_session ?cs (se_session sample_stream)"
  have x: "sn_generated_text x = ''mock stream output''" "sn_token_count x = 3" "clocked (sn_timing x)"
    by (simp_all add: x_def c_def chunk_session_def mk_chunk_def sample_stream_def session_create_def finishes_def
        record_token_def clocked_def Let_def)
  have s: "undisturbed sample_stream_env sample_stream" "\<forall>x. sv_capture sample_stream_env x = None"
    "sv_replay sample_stream_env" "sn_request_id (se_session sample_stream) = submit_id (sample_submit ''a'')"
    "sn_request_id (se_session sample_stream) = ''a''" "sn_stream_id (se_session sample_stream) = ''s''"
    "sr_inference_request (sample_submit ''a'') = sample_request ''a''"
    "engine_reachable (pf_engine (se_platform sample_stream))" "se_captured sample_stream = []" "se_out sample_stream = []"
    by (simp_all add: undisturbed_def sample_stream_env_def sample_stream_def session_create_def submit_id_def
        sample_submit_def sample_request_def sample_filling_reachable)
  have entry: "streaming_entry ''a'' 0 (pf_control (se_platform sample_stream))"
    by (simp add: streaming_entry_def sample_stream_def sample_defs entry_at_def modify_entry_def)
  obtain t where t: "run_opened sample_stream_env (sample_submit ''a'') (Inr (''mock'', Mock ?k), sample_stream) = (Inr (), t)"
    "se_out t = map format_sse_data (chunk_payloads (ir_model (sample_request ''a''))
      (unix_seconds (sx_request_received_time (sn_context (se_session sample_stream)))) False ?cs) @ [format_sse_done]"
    "se_session t = x" "re_state (entry_at (pf_control (se_platform t)) 0) = COMPLETED"
    "se_captured t = [entry_at (pf_control (se_platform t)) 0]"
    using exhausted_stream_completes [of sample_stream_env sample_stream "sample_submit ''a''" 0 "Mock ?k" ?cs _ "''mock''"]
      s entry chunks x(3) unfolding x_def s(5-7,9,10) by auto
  then show ?thesis using x by (intro exI [of _ t]) simp
qed

end
