(* ===== verification/Gateway.thy ===== *)
theory Gateway
  imports Stream_Engine Codecs
begin

text \<open>
  The gateway's request handling: the request schemas (\<open>schemas/openai.py\<close>), validation
  (\<open>validation.py\<close>), the request context (\<open>context.py\<close>), the pipeline (\<open>pipeline.py\<close>) and the two
  routes (\<open>routers/completions.py\<close>).

  A body is a list of bytes. Its JSON value, the digest of a key, the messages of pydantic's errors
  and what is drawn at random are given by the environment; what pydantic checks of a field is
  modelled: strict types, lengths and ranges, fields in the order of their declaration, of whose
  errors the code reads the first.
\<close>

section \<open>Environment and settings (config.py)\<close>

text \<open>
  \<open>json.loads\<close>: a value, a \<open>JSONDecodeError\<close> with its text, or one of the exceptions that are none:
  \<open>UnicodeDecodeError\<close> for bytes that are not text, \<open>ValueError\<close> for an integer of more than 4300
  digits, \<open>RecursionError\<close> for values nested too deeply. \<open>NaN\<close> and the infinities, which it reads too,
  are no values here: no field accepts them.
\<close>

datatype load_exn = LX_Unicode | LX_Digits | LX_Recursion

datatype json_outcome = Parsed json | Decode_Error string | Load_Error load_exn

record gateway_settings =
  gs_gateway_instance_id :: string
  gs_max_body_bytes :: int
  gs_default_max_tokens :: int
  gs_api_keys :: string
  gs_full_path_integrated :: bool

record gateway_env =
  gv_loads :: "string \<Rightarrow> json_outcome"
  gv_digest :: "string \<Rightarrow> string"
  gv_message :: "(string, json) dict \<Rightarrow> string list \<Rightarrow> string"
  gv_request_id :: uuid
  gv_trace_id :: string
  gv_span_id :: string
  gv_stream_id :: uuid
  gv_now :: datetime

text \<open>Exceptions of a route; those that are no \<open>GatewayError\<close> are answered by the handler for all others.\<close>

datatype gateway_exn = GX_Gateway gateway_error | GX_Unhandled

type_synonym 'a validated = "gateway_exn + 'a"

definition invalid :: "string \<Rightarrow> string \<Rightarrow> 'a validated" where
  "invalid message param = Inl (GX_Gateway (validation_error message (Some param)))"

definition unhandled_error_handler :: "gateway_exn \<Rightarrow> gateway_error" where
  "unhandled_error_handler x =
     (case x of GX_Gateway e \<Rightarrow> e | GX_Unhandled \<Rightarrow> gateway_error INTERNAL_ERROR ''internal gateway error'' 500)"

section \<open>Request schemas (schemas/openai.py)\<close>

definition allowed_chat_fields :: "string list" where
  "allowed_chat_fields = [''model'', ''messages'', ''stream'', ''max_tokens'', ''temperature'', ''top_p'']"

definition allowed_completion_fields :: "string list" where
  "allowed_completion_fields = [''model'', ''prompt'', ''stream'', ''max_tokens'', ''temperature'', ''top_p'']"

definition unsupported_chat_fields :: "string list" where
  "unsupported_chat_fields =
     [''tools'', ''tool_choice'', ''functions'', ''function_call'', ''response_format'', ''logprobs'',
      ''top_logprobs'', ''n'', ''presence_penalty'', ''frequency_penalty'', ''seed'', ''user'',
      ''stream_options'', ''parallel_tool_calls'', ''suffix'', ''echo'', ''best_of'', ''logit_bias'', ''stop'']"

record chat_message_in =
  cm_role :: message_role
  cm_content :: string

record chat_request =
  cq_model :: string
  cq_messages :: "chat_message_in list"
  cq_stream :: bool
  cq_max_tokens :: "int option"
  cq_temperature :: "rat option"
  cq_top_p :: "rat option"

fun check_unsupported_keys :: "string list \<Rightarrow> string list \<Rightarrow> unit validated" where
  "check_unsupported_keys allowed [] = Inr ()"
| "check_unsupported_keys allowed (k # ks) =
     (if k \<in> set unsupported_chat_fields then Inl (GX_Gateway (unsupported_field k))
      else if k \<notin> set allowed then Inl (GX_Gateway (unsupported_field k))
      else check_unsupported_keys allowed ks)"

definition check_unsupported_fields :: "(string, json) dict \<Rightarrow> string list \<Rightarrow> unit validated" where
  "check_unsupported_fields body allowed =
     bind_result (check_unsupported_keys allowed (dict_keys body)) (\<lambda>_.
       if (case dict_get body ''n'' of None \<Rightarrow> True | Some v \<Rightarrow> v \<in> {J_Null, J_Int 1, J_Float 1, J_Bool True})
       then Inr () else Inl (GX_Gateway (unsupported_field ''n'')))"

text \<open>A pydantic error is the location of the first field that fails.\<close>

type_synonym 'a pydantic = "string list + 'a"

definition required :: "(string, json) dict \<Rightarrow> string \<Rightarrow> (json \<Rightarrow> 'a pydantic) \<Rightarrow> 'a pydantic" where
  "required d k f = (case dict_get d k of None \<Rightarrow> Inl [k] | Some v \<Rightarrow> f v)"

definition defaulted :: "(string, json) dict \<Rightarrow> string \<Rightarrow> 'a \<Rightarrow> (json \<Rightarrow> 'a pydantic) \<Rightarrow> 'a pydantic" where
  "defaulted d k fallback f = (case dict_get d k of None \<Rightarrow> Inr fallback | Some v \<Rightarrow> f v)"

fun strict_text :: "string \<Rightarrow> json \<Rightarrow> string pydantic" where
  "strict_text k (J_Str s) = Inr s"
| "strict_text k _ = Inl [k]"

definition non_empty_text :: "string \<Rightarrow> json \<Rightarrow> string pydantic" where
  "non_empty_text k v = bind_result (strict_text k v) (\<lambda>s. if s = [] then Inl [k] else Inr s)"

fun strict_bool :: "string \<Rightarrow> json \<Rightarrow> bool pydantic" where
  "strict_bool k (J_Bool b) = Inr b"
| "strict_bool k _ = Inl [k]"

fun strict_tokens :: "string \<Rightarrow> json \<Rightarrow> int option pydantic" where
  "strict_tokens k J_Null = Inr None"
| "strict_tokens k (J_Int i) = (if 1 \<le> i \<and> i \<le> 32768 then Inr (Some i) else Inl [k])"
| "strict_tokens k _ = Inl [k]"

text \<open>A strict float field takes integers too.\<close>

fun strict_float :: "string \<Rightarrow> rat \<Rightarrow> json \<Rightarrow> rat option pydantic" where
  "strict_float k hi J_Null = Inr None"
| "strict_float k hi (J_Int i) = (if 0 \<le> i \<and> of_int i \<le> hi then Inr (Some (of_int i)) else Inl [k])"
| "strict_float k hi (J_Float x) = (if 0 \<le> x \<and> x \<le> hi then Inr (Some x) else Inl [k])"
| "strict_float k hi _ = Inl [k]"

fun coerce_role :: "json \<Rightarrow> message_role pydantic" where
  "coerce_role (J_Str s) =
     (case enum_of message_role_value message_roles s of Inl e \<Rightarrow> Inl [''role''] | Inr r \<Rightarrow> Inr r)"
| "coerce_role _ = Inl [''role'']"

fun message_of_json :: "json \<Rightarrow> chat_message_in pydantic" where
  "message_of_json (J_Object d) =
     bind_result (required d ''role'' coerce_role) (\<lambda>role.
     bind_result (required d ''content'' (strict_text ''content'')) (\<lambda>content.
     case filter (\<lambda>k. k \<notin> {''role'', ''content''}) (dict_keys d) of
       [] \<Rightarrow> Inr \<lparr>cm_role = role, cm_content = content\<rparr>
     | k # ks \<Rightarrow> Inl [k]))"
| "message_of_json _ = Inl []"

fun messages_from :: "nat \<Rightarrow> json list \<Rightarrow> chat_message_in list pydantic" where
  "messages_from i [] = Inr []"
| "messages_from i (v # vs) =
     (case message_of_json v of
        Inl loc \<Rightarrow> Inl ([''messages'', show_nat i] @ loc)
      | Inr m \<Rightarrow> bind_result (messages_from (Suc i) vs) (\<lambda>ms. Inr (m # ms)))"

fun messages_of_json :: "json \<Rightarrow> chat_message_in list pydantic" where
  "messages_of_json (J_Array vs) =
     (if length vs > 128 \<or> vs = [] then Inl [''messages''] else messages_from 0 vs)"
| "messages_of_json _ = Inl [''messages'']"

definition sampling_fields ::
  "(string, json) dict \<Rightarrow> (bool \<Rightarrow> int option \<Rightarrow> rat option \<Rightarrow> rat option \<Rightarrow> 'a pydantic) \<Rightarrow> 'a pydantic" where
  "sampling_fields d f =
     bind_result (defaulted d ''stream'' False (strict_bool ''stream'')) (\<lambda>stream.
     bind_result (defaulted d ''max_tokens'' None (strict_tokens ''max_tokens'')) (\<lambda>max_tokens.
     bind_result (defaulted d ''temperature'' None (strict_float ''temperature'' 2)) (\<lambda>temperature.
     bind_result (defaulted d ''top_p'' None (strict_float ''top_p'' 1)) (\<lambda>top_p.
     f stream max_tokens temperature top_p))))"

definition chat_request_of_json :: "(string, json) dict \<Rightarrow> chat_request pydantic" where
  "chat_request_of_json d =
     bind_result (required d ''model'' (non_empty_text ''model'')) (\<lambda>model.
     bind_result (required d ''messages'' messages_of_json) (\<lambda>messages.
     sampling_fields d (\<lambda>stream max_tokens temperature top_p.
     Inr \<lparr>cq_model = model, cq_messages = messages, cq_stream = stream, cq_max_tokens = max_tokens,
          cq_temperature = temperature, cq_top_p = top_p\<rparr>)))"

definition prompt_of_json :: "json \<Rightarrow> string pydantic" where
  "prompt_of_json v =
     bind_result (non_empty_text ''prompt'' v) (\<lambda>s. if strip s = [] then Inl [''prompt''] else Inr s)"

text \<open>A completion request is a chat request with the prompt as its one message.\<close>

definition completion_request_of_json :: "(string, json) dict \<Rightarrow> chat_request pydantic" where
  "completion_request_of_json d =
     bind_result (required d ''model'' (non_empty_text ''model'')) (\<lambda>model.
     bind_result (required d ''prompt'' prompt_of_json) (\<lambda>prompt.
     sampling_fields d (\<lambda>stream max_tokens temperature top_p.
     Inr \<lparr>cq_model = model, cq_messages = [\<lparr>cm_role = ROLE_USER, cm_content = prompt\<rparr>], cq_stream = stream,
          cq_max_tokens = max_tokens, cq_temperature = temperature, cq_top_p = top_p\<rparr>)))"

section \<open>Validation (validation.py)\<close>

fun join_dots :: "string list \<Rightarrow> string" where
  "join_dots [] = []"
| "join_dots [x] = x"
| "join_dots (x # y # zs) = x @ ''.'' @ join_dots (y # zs)"

definition pydantic_to_gateway :: "gateway_env \<Rightarrow> (string, json) dict \<Rightarrow> string list \<Rightarrow> gateway_exn" where
  "pydantic_to_gateway env body loc =
     GX_Gateway (validation_error (gv_message env body loc) (if loc = [] then None else Some (join_dots loc)))"

definition parse_json_body :: "gateway_env \<Rightarrow> string \<Rightarrow> int \<Rightarrow> (string, json) dict validated" where
  "parse_json_body env raw max_bytes =
     (if int (length raw) > max_bytes
      then invalid (''request body exceeds maximum size of '' @ show_int max_bytes @ '' bytes'') ''body''
      else if raw = [] then invalid ''request body is required'' ''body''
      else case gv_loads env raw of
        Decode_Error m \<Rightarrow> invalid (''invalid JSON: '' @ m) ''body''
      | Load_Error x \<Rightarrow> Inl GX_Unhandled
      | Parsed (J_Object d) \<Rightarrow> Inr d
      | Parsed _ \<Rightarrow> invalid ''request body must be a JSON object'' ''body'')"

fun split_commas :: "string \<Rightarrow> string list" where
  "split_commas [] = [[]]"
| "split_commas (c # s) =
     (if c = CHR '','' then [] # split_commas s
      else case split_commas s of [] \<Rightarrow> [[c]] | w # ws \<Rightarrow> (c # w) # ws)"

definition allowed_keys :: "gateway_settings \<Rightarrow> string list" where
  "allowed_keys s = filter (\<lambda>k. k \<noteq> []) (map strip (split_commas (gs_api_keys s)))"

definition validate_api_key :: "string option \<Rightarrow> gateway_settings \<Rightarrow> string validated" where
  "validate_api_key authorization s =
     (case authorization of
        None \<Rightarrow> Inl (GX_Gateway authentication_error)
      | Some a \<Rightarrow>
          if take 7 a \<noteq> ''Bearer '' then Inl (GX_Gateway authentication_error)
          else let token = strip (drop 7 a)
               in if token = [] then Inl (GX_Gateway authentication_error)
                  else if gs_api_keys s \<noteq> [] \<and> token \<notin> set (allowed_keys s)
                  then Inl (GX_Gateway authentication_error)
                  else Inr token)"

definition prompt_length :: "message list \<Rightarrow> int" where
  "prompt_length ms = sum_list (map (\<lambda>m. int (length (m_content m))) ms)"

definition validate_prompt_length :: "message list \<Rightarrow> int \<Rightarrow> unit validated" where
  "validate_prompt_length ms max_chars =
     (if prompt_length ms > max_chars
      then invalid (''total prompt length '' @ show_int (prompt_length ms) @ '' exceeds limit '' @ show_int max_chars) ''messages''
      else Inr ())"

definition parsed_or_invalid ::
  "gateway_env \<Rightarrow> (string, json) dict \<Rightarrow> string list \<Rightarrow> ((string, json) dict \<Rightarrow> chat_request pydantic) \<Rightarrow> chat_request validated" where
  "parsed_or_invalid env body allowed f =
     bind_result (check_unsupported_fields body allowed) (\<lambda>_.
       case f body of Inl loc \<Rightarrow> Inl (pydantic_to_gateway env body loc) | Inr q \<Rightarrow> Inr q)"

definition parse_chat_request :: "gateway_env \<Rightarrow> (string, json) dict \<Rightarrow> chat_request validated" where
  "parse_chat_request env body = parsed_or_invalid env body allowed_chat_fields chat_request_of_json"

definition parse_completion_request :: "gateway_env \<Rightarrow> (string, json) dict \<Rightarrow> chat_request validated" where
  "parse_completion_request env body =
     parsed_or_invalid env body allowed_completion_fields completion_request_of_json"

definition resolve_model_record :: "string \<Rightarrow> model_record option \<Rightarrow> model_record validated" where
  "resolve_model_record model_id m =
     (case m of None \<Rightarrow> Inl (GX_Gateway (unknown_model model_id)) | Some x \<Rightarrow> Inr x)"

text \<open>
  \<open>max_tokens or min(...)\<close>: a parsed value is never 0. The model's token limit of the prompt is
  compared with its characters.
\<close>

definition effective_max_tokens :: "chat_request \<Rightarrow> model_record \<Rightarrow> gateway_settings \<Rightarrow> int" where
  "effective_max_tokens q m s =
     (case cq_max_tokens q of
        Some n \<Rightarrow> if n \<noteq> 0 then n else min (gs_default_max_tokens s) (mr_max_output_tokens m)
      | None \<Rightarrow> min (gs_default_max_tokens s) (mr_max_output_tokens m))"

text \<open>\<open>InferenceRequest\<close> checks its fields again; what it raises is no \<open>GatewayError\<close>.\<close>

definition build_inference_request ::
  "chat_request \<Rightarrow> uuid \<Rightarrow> model_record \<Rightarrow> gateway_settings \<Rightarrow> string \<Rightarrow> string option \<Rightarrow>
   inference_request validated" where
  "build_inference_request q request_id m s api_key_id client_request_id =
     (let max_tokens = effective_max_tokens q m s;
          messages = map (\<lambda>x. \<lparr>m_role = cm_role x, m_content = cm_content x\<rparr>) (cq_messages q);
          r = \<lparr>ir_request_id = request_id, ir_model = mr_model_id m, ir_messages = messages,
               ir_stream = cq_stream q, ir_max_tokens = max_tokens, ir_temperature = cq_temperature q,
               ir_top_p = cq_top_p q, ir_priority_class = None, ir_api_key_id = Some api_key_id,
               ir_client_request_id = client_request_id\<rparr>
      in if max_tokens > mr_max_output_tokens m
         then invalid (''max_tokens exceeds model limit '' @ show_int (mr_max_output_tokens m)) ''max_tokens''
         else bind_result (validate_prompt_length messages (mr_max_prompt_tokens m)) (\<lambda>_.
           if valid_inference_request r then Inr r else Inl GX_Unhandled))"

section \<open>The request context (context.py)\<close>

record gateway_context =
  gc_request_context :: request_context
  gc_inference_request :: inference_request
  gc_correlation_id :: string
  gc_received_timestamp :: datetime
  gc_requested_model :: string
  gc_lifecycle_state :: request_state
  gc_registered :: "registered_request option"

definition build_request_context ::
  "gateway_env \<Rightarrow> inference_request \<Rightarrow> gateway_settings \<Rightarrow> string \<Rightarrow> gateway_context" where
  "build_request_context env r s correlation_id =
     (let correlation = (if correlation_id \<noteq> [] then correlation_id else gv_trace_id env)
      in \<lparr>gc_request_context =
            \<lparr>rc_request_id = ir_request_id r, rc_trace_id = correlation, rc_span_id = gv_span_id env,
             rc_arrival_time = gv_now env, rc_model = ir_model r, rc_stream = ir_stream r,
             rc_gateway_instance_id = gs_gateway_instance_id s\<rparr>,
          gc_inference_request = r, gc_correlation_id = correlation, gc_received_timestamp = gv_now env,
          gc_requested_model = ir_model r, gc_lifecycle_state = VALIDATED, gc_registered = None\<rparr>)"

section \<open>The pipeline (pipeline.py)\<close>

record http_request =
  hr_raw_body :: string
  hr_authorization :: "string option"
  hr_correlation_header :: "string option"
  hr_client_request_header :: "string option"

definition api_key_id :: "gateway_env \<Rightarrow> string \<Rightarrow> string" where
  "api_key_id env token = take 16 (gv_digest env token)"

text \<open>\<open>(correlation_header or client_request_header or "").strip()\<close>\<close>

definition requested_correlation :: "http_request \<Rightarrow> string" where
  "requested_correlation q =
     strip (str_or (hr_correlation_header q) (str_or (hr_client_request_header q) []))"

definition prepare_chat_request ::
  "gateway_env \<Rightarrow> gateway_settings \<Rightarrow> (string \<Rightarrow> model_record option) \<Rightarrow> bool \<Rightarrow> http_request \<Rightarrow>
   (gateway_context \<times> submit_request) validated" where
  "prepare_chat_request env s model_of is_legacy_completion q =
     bind_result (validate_api_key (hr_authorization q) s) (\<lambda>token.
     bind_result (parse_json_body env (hr_raw_body q) (gs_max_body_bytes s)) (\<lambda>body.
     bind_result (if is_legacy_completion then parse_completion_request env body else parse_chat_request env body) (\<lambda>parsed.
     bind_result (resolve_model_record (cq_model parsed) (model_of (cq_model parsed))) (\<lambda>m.
     bind_result (build_inference_request parsed (gv_request_id env) m s (api_key_id env token) (hr_client_request_header q)) (\<lambda>r.
     let ctx = build_request_context env r s (requested_correlation q)
     in Inr (ctx\<lparr>gc_lifecycle_state := RECEIVED\<rparr>,
             \<lparr>sr_inference_request = gc_inference_request ctx, sr_request_context = gc_request_context ctx\<rparr>))))))"

text \<open>
  \<open>accept\<close> is the client's \<open>accept_request\<close>; what it answers is an entry of the registry of the
  state it leaves.
\<close>

type_synonym accepting = "submit_request \<Rightarrow> platform \<Rightarrow> ((gateway_error + ref) \<times> platform) option"

definition accepted_context :: "gateway_context \<Rightarrow> registered_request \<Rightarrow> gateway_context" where
  "accepted_context ctx e = ctx\<lparr>gc_lifecycle_state := re_state e, gc_registered := Some e\<rparr>"

definition accept_prepared ::
  "accepting \<Rightarrow> gateway_context \<Rightarrow> submit_request \<Rightarrow> platform \<Rightarrow> (gateway_context validated \<times> platform) option" where
  "accept_prepared accept ctx submit p =
     map_option (\<lambda>(res, t).
         (case res of Inl e \<Rightarrow> Inl (GX_Gateway e) | Inr r \<Rightarrow> Inr (accepted_context ctx (entry_at (pf_control t) r)), t))
       (accept submit p)"

definition process_chat_completion ::
  "gateway_env \<Rightarrow> gateway_settings \<Rightarrow> (string \<Rightarrow> model_record option) \<Rightarrow> accepting \<Rightarrow> bool \<Rightarrow> http_request \<Rightarrow> platform \<Rightarrow>
   (gateway_context validated \<times> platform) option" where
  "process_chat_completion env s model_of accept is_legacy_completion q p =
     (case prepare_chat_request env s model_of is_legacy_completion q of
        Inl x \<Rightarrow> Some (Inl x, p)
      | Inr (ctx, submit) \<Rightarrow>
          if ir_stream (sr_inference_request submit)
          then Some (Inl (GX_Gateway (not_implemented ''use streaming endpoint for stream=true requests'')), p)
          else accept_prepared accept ctx submit p)"

definition process_streaming_chat_completion ::
  "gateway_env \<Rightarrow> gateway_settings \<Rightarrow> (string \<Rightarrow> model_record option) \<Rightarrow> accepting \<Rightarrow> http_request \<Rightarrow> platform \<Rightarrow>
   ((gateway_context \<times> submit_request \<times> stream_session) validated \<times> platform) option" where
  "process_streaming_chat_completion env s model_of accept q p =
     (case prepare_chat_request env s model_of False q of
        Inl x \<Rightarrow> Some (Inl x, p)
      | Inr (ctx, submit) \<Rightarrow>
          if \<not> ir_stream (sr_inference_request submit)
          then Some (invalid ''stream=true required for streaming endpoint'' ''stream'', p)
          else
            map_option (\<lambda>(res, t).
                (bind_result res (\<lambda>c. Inr (c, submit,
                   session_create (gv_stream_id env) (ir_request_id (sr_inference_request submit)) (gc_correlation_id ctx)
                     (ir_model (sr_inference_request submit)) (gc_received_timestamp ctx))), t))
              (accept_prepared accept ctx submit p))"

section \<open>Answers (pipeline.py)\<close>

definition usage_payload :: "int \<Rightarrow> int \<Rightarrow> int \<Rightarrow> payload" where
  "usage_payload prompt completion tokens = PL_Object
     [(''prompt_tokens'', PL_Int prompt), (''completion_tokens'', PL_Int completion), (''total_tokens'', PL_Int tokens)]"

definition no_tokens_text :: "request_state \<Rightarrow> string" where
  "no_tokens_text st =
     ''Request completed via mock backend (lifecycle_state='' @ request_state_value st @ ''). No model tokens generated.''"

definition chat_answer ::
  "gateway_context \<Rightarrow> string \<Rightarrow> string \<Rightarrow> payload \<Rightarrow> payload" where
  "chat_answer ctx content finish usage = PL_Object
     [(''id'', PL_Str (rc_request_id (gc_request_context ctx))), (''object'', PL_Str ''chat.completion''),
      (''created'', PL_Int (unix_seconds (gc_received_timestamp ctx))),
      (''model'', PL_Str (ir_model (gc_inference_request ctx))),
      (''choices'', PL_Array [PL_Object
         [(''index'', PL_Int 0),
          (''message'', PL_Object [(''role'', PL_Str ''assistant''), (''content'', PL_Str content)]),
          (''finish_reason'', PL_Str finish)]]),
      (''usage'', usage)]"

definition placeholder_chat_response :: "gateway_context \<Rightarrow> payload" where
  "placeholder_chat_response ctx =
     (case Option.bind (gc_registered ctx) re_completion of
        Some c \<Rightarrow>
          if ic_generated_text c \<noteq> []
          then chat_answer ctx (ic_generated_text c) (str_or (ic_finish_reason c) ''stop'')
                 (usage_payload (ic_prompt_tokens c) (ic_completion_tokens c) (ic_total_tokens c))
          else chat_answer ctx (no_tokens_text (gc_lifecycle_state ctx)) ''stop'' (usage_payload 0 0 0)
      | None \<Rightarrow> chat_answer ctx (no_tokens_text (gc_lifecycle_state ctx)) ''stop'' (usage_payload 0 0 0))"

definition placeholder_text_completion_response :: "gateway_context \<Rightarrow> payload" where
  "placeholder_text_completion_response ctx = PL_Object
     [(''id'', PL_Str (rc_request_id (gc_request_context ctx))), (''object'', PL_Str ''text_completion''),
      (''created'', PL_Int (unix_seconds (gc_received_timestamp ctx))),
      (''model'', PL_Str (ir_model (gc_inference_request ctx))),
      (''choices'', PL_Array [PL_Object
         [(''index'', PL_Int 0), (''text'', PL_Str (no_tokens_text (gc_lifecycle_state ctx))),
          (''finish_reason'', PL_Str ''stop'')]]),
      (''usage'', usage_payload 0 0 0)]"

section \<open>Routes (routers/completions.py)\<close>

text \<open>
  An answer with its headers, the start of a stream, or the error body that the handlers make of an
  exception.
\<close>

datatype http_answer =
    HA_Answer "(string \<times> string) list" payload
  | HA_Stream "(string \<times> string) list" submit_request stream_session
  | HA_Error "int \<times> error_body \<times> int option"

definition failed_answer :: "gateway_exn \<Rightarrow> http_answer" where
  "failed_answer x = HA_Error (error_response (unhandled_error_handler x))"

definition id_headers :: "gateway_context \<Rightarrow> (string \<times> string) list" where
  "id_headers ctx =
     [(''X-Request-Id'', rc_request_id (gc_request_context ctx)), (''X-Correlation-Id'', gc_correlation_id ctx)]"

fun json_truthy :: "json \<Rightarrow> bool" where
  "json_truthy J_Null = False"
| "json_truthy (J_Bool b) = b"
| "json_truthy (J_Int i) = (i \<noteq> 0)"
| "json_truthy (J_Float x) = (x \<noteq> 0)"
| "json_truthy (J_Str s) = (s \<noteq> [])"
| "json_truthy (J_Array xs) = (xs \<noteq> [])"
| "json_truthy (J_Object d) = (d \<noteq> [])"

text \<open>A value without \<open>get\<close> raises an \<open>AttributeError\<close>.\<close>

definition request_wants_stream :: "gateway_env \<Rightarrow> string \<Rightarrow> bool validated" where
  "request_wants_stream env raw =
     (case gv_loads env raw of
        Decode_Error m \<Rightarrow> Inr False
      | Load_Error x \<Rightarrow> Inl GX_Unhandled
      | Parsed (J_Object d) \<Rightarrow> Inr (case dict_get d ''stream'' of None \<Rightarrow> False | Some v \<Rightarrow> json_truthy v)
      | Parsed _ \<Rightarrow> Inl GX_Unhandled)"

definition answer_completion ::
  "(gateway_context \<Rightarrow> payload) \<Rightarrow> gateway_context validated \<times> platform \<Rightarrow> http_answer \<times> platform" where
  "answer_completion respond =
     map_prod (\<lambda>res. case res of Inl x \<Rightarrow> failed_answer x | Inr ctx \<Rightarrow> HA_Answer (id_headers ctx) (respond ctx)) (\<lambda>p. p)"

definition answer_stream ::
  "(gateway_context \<times> submit_request \<times> stream_session) validated \<times> platform \<Rightarrow> http_answer \<times> platform" where
  "answer_stream =
     map_prod (\<lambda>res. case res of
         Inl x \<Rightarrow> failed_answer x
       | Inr (ctx, submit, session) \<Rightarrow>
           HA_Stream (id_headers ctx @ [(''X-Stream-Id'', sn_stream_id session), (''Cache-Control'', ''no-cache''),
               (''Connection'', ''keep-alive'')]) submit session) (\<lambda>p. p)"

text \<open>There is a stack whenever the full path is integrated.\<close>

definition create_chat_completion ::
  "gateway_env \<Rightarrow> gateway_settings \<Rightarrow> (string \<Rightarrow> model_record option) \<Rightarrow> accepting \<Rightarrow> http_request \<Rightarrow> platform \<Rightarrow>
   (http_answer \<times> platform) option" where
  "create_chat_completion env s model_of accept q p =
     (case request_wants_stream env (hr_raw_body q) of
        Inl x \<Rightarrow> Some (failed_answer x, p)
      | Inr wants \<Rightarrow>
          if wants \<and> gs_full_path_integrated s
          then map_option answer_stream (process_streaming_chat_completion env s model_of accept q p)
          else map_option (answer_completion placeholder_chat_response)
                 (process_chat_completion env s model_of accept False q p))"

definition create_completion ::
  "gateway_env \<Rightarrow> gateway_settings \<Rightarrow> (string \<Rightarrow> model_record option) \<Rightarrow> accepting \<Rightarrow> http_request \<Rightarrow> platform \<Rightarrow>
   (http_answer \<times> platform) option" where
  "create_completion env s model_of accept q p =
     map_option (answer_completion placeholder_text_completion_response)
       (process_chat_completion env s model_of accept True q p)"

end
