(* ===== verification/Gateway_Properties.thy ===== *)
theory Gateway_Properties
  imports Gateway
begin

text \<open>
  What the gateway lets through, and in which order and with which answers it refuses the rest.
\<close>

section \<open>Parsed requests\<close>

definition parsed_ok :: "chat_request \<Rightarrow> bool" where
  "parsed_ok q \<longleftrightarrow> cq_model q \<noteq> [] \<and> 1 \<le> length (cq_messages q) \<and> length (cq_messages q) \<le> 128 \<and>
     (case cq_max_tokens q of None \<Rightarrow> True | Some n \<Rightarrow> 1 \<le> n \<and> n \<le> 32768) \<and>
     in_range 0 2 (cq_temperature q) \<and> in_range 0 1 (cq_top_p q)"

lemma bind_result_Inr: "bind_result m f = Inr b \<longleftrightarrow> (\<exists>a. m = Inr a \<and> f a = Inr b)"
  by (cases m) auto

lemma strict_tokens_range: "strict_tokens k v = Inr x \<Longrightarrow> (case x of None \<Rightarrow> True | Some n \<Rightarrow> 1 \<le> n \<and> n \<le> 32768)"
  by (cases v) (auto split: if_splits)

lemma strict_float_range: "strict_float k hi v = Inr x \<Longrightarrow> in_range 0 hi x"
  by (cases v) (auto simp: in_range_def split: if_splits)

lemma messages_from_length: "messages_from i vs = Inr ms \<Longrightarrow> length ms = length vs"
  by (induction vs arbitrary: i ms) (auto simp: bind_result_Inr split: sum.splits)

lemma messages_length: "messages_of_json v = Inr ms \<Longrightarrow> 1 \<le> length ms \<and> length ms \<le> 128"
  by (cases v) (auto split: if_splits dest!: messages_from_length simp: Suc_le_eq)

lemma tokens_field: "defaulted d k None (strict_tokens k) = Inr x \<Longrightarrow> (case x of None \<Rightarrow> True | Some n \<Rightarrow> 1 \<le> n \<and> n \<le> 32768)"
  by (auto simp: defaulted_def split: option.splits dest: strict_tokens_range)

lemma float_field: "defaulted d k None (strict_float k hi) = Inr x \<Longrightarrow> in_range 0 hi x"
  by (auto simp: defaulted_def in_range_def split: option.splits dest: strict_float_range)

lemma sampling_ok:
  assumes "sampling_fields d f = Inr x"
  shows "\<exists>st n t p. f st n t p = Inr x \<and> (case n of None \<Rightarrow> True | Some n \<Rightarrow> 1 \<le> n \<and> n \<le> 32768) \<and>
    in_range 0 2 t \<and> in_range 0 1 p"
proof -
  from assms obtain st n t p where fields:
    "defaulted d ''max_tokens'' None (strict_tokens ''max_tokens'') = Inr n"
    "defaulted d ''temperature'' None (strict_float ''temperature'' 2) = Inr t"
    "defaulted d ''top_p'' None (strict_float ''top_p'' 1) = Inr p" "f st n t p = Inr x"
    by (auto simp: sampling_fields_def bind_result_Inr)
  from fields(4) tokens_field [OF fields(1)] float_field [OF fields(2)] float_field [OF fields(3)]
  show ?thesis by blast
qed

lemma chat_parsed_ok: "chat_request_of_json d = Inr q \<Longrightarrow> parsed_ok q"
  by (auto simp: chat_request_of_json_def bind_result_Inr required_def parsed_ok_def non_empty_text_def
      split: option.splits if_splits dest!: sampling_ok messages_length)

lemma completion_parsed_ok: "completion_request_of_json d = Inr q \<Longrightarrow> parsed_ok q"
  by (auto simp: completion_request_of_json_def bind_result_Inr required_def parsed_ok_def non_empty_text_def
      split: option.splits if_splits dest!: sampling_ok)

section \<open>How a request is refused\<close>

definition refused_with :: "int set \<Rightarrow> gateway_exn \<Rightarrow> bool" where
  "refused_with codes x \<longleftrightarrow> (case x of GX_Gateway e \<Rightarrow> ge_status_code e \<in> codes | GX_Unhandled \<Rightarrow> False)"

lemma refused_simps [simp]:
  "refused_with codes (GX_Gateway (validation_error m k)) \<longleftrightarrow> 400 \<in> codes"
  "refused_with codes (GX_Gateway (unsupported_field field)) \<longleftrightarrow> 400 \<in> codes"
  "refused_with codes (GX_Gateway authentication_error) \<longleftrightarrow> 401 \<in> codes"
  "refused_with codes (GX_Gateway (unknown_model m)) \<longleftrightarrow> 404 \<in> codes"
  by (simp_all add: refused_with_def validation_error_def unsupported_field_def authentication_error_def
      unknown_model_def gateway_error_def)

lemma key_refused: "validate_api_key a s = Inl x \<Longrightarrow> x = GX_Gateway authentication_error"
  by (auto simp: validate_api_key_def Let_def split: option.splits if_splits)

text \<open>A body of an allowed size that \<open>json.loads\<close> gives up on with another exception than its own.\<close>

definition unreadable :: "gateway_env \<Rightarrow> string \<Rightarrow> int \<Rightarrow> bool" where
  "unreadable env raw max_bytes \<longleftrightarrow>
     raw \<noteq> [] \<and> int (length raw) \<le> max_bytes \<and>
     (case gv_loads env raw of Load_Error x \<Rightarrow> True | _ \<Rightarrow> False)"

lemma unreadable_raises: "unreadable env raw n \<Longrightarrow> parse_json_body env raw n = Inl GX_Unhandled"
  by (auto simp: unreadable_def parse_json_body_def split: json_outcome.splits)

lemma body_refused:
  "parse_json_body env raw n = Inl x \<Longrightarrow>
   if unreadable env raw n then x = GX_Unhandled else refused_with {400} x"
  by (auto simp: parse_json_body_def unreadable_def invalid_def split: if_splits json_outcome.splits json.splits)

lemma unsupported_refused: "check_unsupported_keys allowed ks = Inl x \<Longrightarrow> refused_with {400} x"
  by (induction ks) (auto split: if_splits)

lemma fields_refused: "check_unsupported_fields body allowed = Inl x \<Longrightarrow> refused_with {400} x"
  by (auto simp: check_unsupported_fields_def bind_result_def split: sum.splits if_splits dest: unsupported_refused)

lemma parsed_refused: "parsed_or_invalid env body allowed f = Inl x \<Longrightarrow> refused_with {400} x"
  by (auto simp: parsed_or_invalid_def pydantic_to_gateway_def bind_result_def split: sum.splits dest: fields_refused)

lemma parsed_fine: "parsed_or_invalid env body allowed f = Inr q \<Longrightarrow> f body = Inr q"
  by (auto simp: parsed_or_invalid_def bind_result_Inr split: sum.splits)

definition model_ok :: "model_record \<Rightarrow> bool" where
  "model_ok m \<longleftrightarrow> mr_model_id m \<noteq> [] \<and> 1 \<le> mr_max_output_tokens m"

lemma built:
  assumes "parsed_ok q" "model_ok m" "1 \<le> gs_default_max_tokens s" "gs_default_max_tokens s \<le> 32768"
  shows "case build_inference_request q i m s key client of
      Inl x \<Rightarrow> refused_with {400} x
    | Inr r \<Rightarrow> valid_inference_request r \<and> ir_request_id r = i \<and> ir_model r = mr_model_id m \<and> ir_stream r = cq_stream q \<and>
        ir_max_tokens r \<le> mr_max_output_tokens m \<and> prompt_length (ir_messages r) \<le> mr_max_prompt_tokens m"
  using assms
  by (auto simp: build_inference_request_def Let_def invalid_def validate_prompt_length_def effective_max_tokens_def
      parsed_ok_def model_ok_def valid_inference_request_def bind_result_def split: option.splits sum.splits)

section \<open>The properties\<close>

text \<open>C12: Only well-formed requests reach the control plane. A prepared request satisfies every constraint
  of the internal schema, so that building it never raises; its model is registered, its token limit
  and its prompt are within the model's; its id is fresh, the submitted context carries the same id
  and correlation, and a request arrives as RECEIVED. A request that is not prepared raises an
  exception that is no gateway error exactly when its key is accepted and \<open>json.loads\<close> gives up on
  its body with another exception than its own; every other one is refused with 400, 401 or 404.\<close>

theorem prepared_request:
  assumes "1 \<le> gs_default_max_tokens s" "gs_default_max_tokens s \<le> 32768"
    and models: "\<forall>name m. model_of name = Some m \<longrightarrow> model_ok m"
  shows "case prepare_chat_request env s model_of legacy q of
      Inl x \<Rightarrow>
        if (\<exists>token. validate_api_key (hr_authorization q) s = Inr token) \<and>
           unreadable env (hr_raw_body q) (gs_max_body_bytes s)
        then x = GX_Unhandled else refused_with {400, 401, 404} x
    | Inr (ctx, submit) \<Rightarrow>
        \<not> unreadable env (hr_raw_body q) (gs_max_body_bytes s) \<and>
        (let r = sr_inference_request submit; c = sr_request_context submit in
         valid_inference_request r \<and> ir_request_id r = gv_request_id env \<and> rc_request_id c = gv_request_id env \<and>
         rc_trace_id c = gc_correlation_id ctx \<and> rc_model c = ir_model r \<and> rc_stream c = ir_stream r \<and>
         gc_inference_request ctx = r \<and> gc_request_context ctx = c \<and> gc_lifecycle_state ctx = RECEIVED \<and>
         (\<exists>name m. model_of name = Some m \<and> ir_model r = mr_model_id m \<and>
            ir_max_tokens r \<le> mr_max_output_tokens m \<and> prompt_length (ir_messages r) \<le> mr_max_prompt_tokens m))"
proof -
  consider (key) x where "validate_api_key (hr_authorization q) s = Inl x"
    | (body) token x where "validate_api_key (hr_authorization q) s = Inr token"
        "parse_json_body env (hr_raw_body q) (gs_max_body_bytes s) = Inl x"
    | (parsed) token d where "validate_api_key (hr_authorization q) s = Inr token"
        "parse_json_body env (hr_raw_body q) (gs_max_body_bytes s) = Inr d"
    by (metis old.sum.exhaust)
  then show ?thesis
  proof cases
    case key
    then show ?thesis using key_refused [OF key] by (simp add: prepare_chat_request_def)
  next
    case body
    have "refused_with {400, 401, 404} x" if "refused_with {400} x"
      using that by (auto simp: refused_with_def split: gateway_exn.splits)
    then show ?thesis using body body_refused [OF body(2)]
      by (auto simp: prepare_chat_request_def split: if_splits)
  next
    case parsed
    then have readable: "\<not> unreadable env (hr_raw_body q) (gs_max_body_bytes s)"
      using unreadable_raises by fastforce
    define f where "f = (if legacy then parse_completion_request env d else parse_chat_request env d)"
    have widen: "refused_with {400, 401, 404} x" if "refused_with {400} x" for x
      using that by (auto simp: refused_with_def split: gateway_exn.splits)
    show ?thesis
    proof (cases f)
      case (Inl x)
      then have "refused_with {400} x"
        by (auto simp: f_def parse_completion_request_def parse_chat_request_def split: if_splits dest: parsed_refused)
      with Inl parsed widen readable show ?thesis by (simp add: prepare_chat_request_def f_def)
    next
      case (Inr p)
      then have ok: "parsed_ok p"
        by (auto simp: f_def parse_completion_request_def parse_chat_request_def split: if_splits
            dest!: parsed_fine intro: chat_parsed_ok completion_parsed_ok)
      show ?thesis
      proof (cases "model_of (cq_model p)")
        case None
        then show ?thesis using parsed Inr readable
          by (simp add: prepare_chat_request_def f_def resolve_model_record_def)
      next
        case (Some m)
        define b where "b = build_inference_request p (gv_request_id env) m s (api_key_id env token) (hr_client_request_header q)"
        have "model_ok m" using models Some by blast
        note built = built [OF ok this assms(1,2), of "gv_request_id env" "api_key_id env token" "hr_client_request_header q"]
        have run: "prepare_chat_request env s model_of legacy q = bind_result b (\<lambda>r.
            let ctx = build_request_context env r s (requested_correlation q)
            in Inr (ctx\<lparr>gc_lifecycle_state := RECEIVED\<rparr>,
               \<lparr>sr_inference_request = gc_inference_request ctx, sr_request_context = gc_request_context ctx\<rparr>))"
          using parsed Inr Some by (simp add: prepare_chat_request_def f_def resolve_model_record_def b_def)
        show ?thesis
        proof (cases b)
          case (Inl x)
          then show ?thesis using built widen readable unfolding run by (simp add: b_def)
        next
          case (Inr r)
          then show ?thesis using built Some readable unfolding run
            by (simp add: b_def build_request_context_def Let_def) metis
        qed
      qed
    qed
  qed
qed

definition sample_body :: "(string, json) dict" where
  "sample_body =
     [(''model'', J_Str ''demo''),
      (''messages'', J_Array [J_Object [(''role'', J_Str ''user''), (''content'', J_Str ''hi'')]]),
      (''temperature'', J_Int 1)]"

definition sample_gateway :: gateway_env where
  "sample_gateway =
     \<lparr>gv_loads = (\<lambda>raw. Parsed (J_Object sample_body)), gv_digest = (\<lambda>k. k), gv_message = (\<lambda>b l. ''invalid''),
      gv_request_id = ''r'', gv_trace_id = ''trace'', gv_span_id = ''span'', gv_stream_id = ''s'', gv_now = 5\<rparr>"

definition sample_settings :: gateway_settings where
  "sample_settings =
     \<lparr>gs_gateway_instance_id = ''g'', gs_max_body_bytes = 1000, gs_default_max_tokens = 256, gs_api_keys = '' k1, k2 '',
      gs_full_path_integrated = True\<rparr>"

definition sample_http_request :: http_request where
  "sample_http_request =
     \<lparr>hr_raw_body = ''{}'', hr_authorization = Some ''Bearer k2'', hr_correlation_header = None,
      hr_client_request_header = Some '' c ''\<rparr>"

definition sample_gateway_model :: "string \<Rightarrow> model_record option" where
  "sample_gateway_model name =
     (if name = ''demo''
      then Some \<lparr>mr_model_id = ''demo'', mr_backend = ''mock'', mr_pool_id = ''pool'', mr_max_output_tokens = 64,
             mr_max_prompt_tokens = 100, mr_default_temperature = None, mr_capabilities = default_capabilities,
             mr_routing_policy = RP_EXPLICIT, mr_fallback_backend = None, mr_metadata = []\<rparr>
      else None)"

lemmas gateway_samples = sample_body_def sample_gateway_def sample_settings_def sample_http_request_def sample_gateway_model_def

lemma sample_prepared:
  "\<exists>ctx submit. prepare_chat_request sample_gateway sample_settings sample_gateway_model False sample_http_request = Inr (ctx, submit) \<and>
     gc_correlation_id ctx = ''c'' \<and> ir_max_tokens (sr_inference_request submit) = 64 \<and> \<not> ir_stream (sr_inference_request submit)"
proof -
  have key: "validate_api_key (hr_authorization sample_http_request) sample_settings = Inr ''k2''" by code_simp
  have chat: "parse_chat_request sample_gateway sample_body =
      Inr \<lparr>cq_model = ''demo'', cq_messages = [\<lparr>cm_role = ROLE_USER, cm_content = ''hi''\<rparr>], cq_stream = False,
           cq_max_tokens = None, cq_temperature = Some 1, cq_top_p = None\<rparr>"
    by (simp add: parse_chat_request_def parsed_or_invalid_def check_unsupported_fields_def sample_body_def
        unsupported_chat_fields_def allowed_chat_fields_def chat_request_of_json_def required_def non_empty_text_def
        sampling_fields_def defaulted_def enum_of_def message_roles_def)
  have "strip '' c '' = ''c''" by code_simp
  with key chat show ?thesis
    by (simp add: prepare_chat_request_def parse_json_body_def resolve_model_record_def build_inference_request_def
        effective_max_tokens_def validate_prompt_length_def prompt_length_def valid_inference_request_def in_range_def
        build_request_context_def requested_correlation_def str_or_def Let_def gateway_samples)
qed

theorem prepared_request_witness:
  "\<exists>ctx submit. prepare_chat_request sample_gateway sample_settings sample_gateway_model False sample_http_request = Inr (ctx, submit) \<and>
     valid_inference_request (sr_inference_request submit) \<and> ir_request_id (sr_inference_request submit) = ''r'' \<and>
     rc_trace_id (sr_request_context submit) = ''c''"
proof -
  obtain ctx submit where prepared:
    "prepare_chat_request sample_gateway sample_settings sample_gateway_model False sample_http_request = Inr (ctx, submit)"
    "gc_correlation_id ctx = ''c''" using sample_prepared by blast
  have "1 \<le> gs_default_max_tokens sample_settings" "gs_default_max_tokens sample_settings \<le> 32768"
    "\<forall>name m. sample_gateway_model name = Some m \<longrightarrow> model_ok m"
    by (auto simp: gateway_samples model_ok_def)
  from prepared_request [OF this, where env = sample_gateway and legacy = False and q = sample_http_request] prepared show ?thesis
    by (simp add: Let_def sample_gateway_def)
qed

text \<open>C35: Without an acceptable key nothing happens. When the authorization header is missing, is not a
  bearer token, or names a key that is not configured, both routes answer with 401 and the platform
  is as it was, whatever the body holds. The exception is a body of the chat route that is no JSON
  object, or that \<open>json.loads\<close> gives up on with another exception than its own: the route reads the
  body before the key, and answers 500.\<close>

theorem unauthenticated_refused:
  "case validate_api_key (hr_authorization q) s of
     Inr token \<Rightarrow> True
   | Inl x \<Rightarrow>
       error_response (unhandled_error_handler x) = error_response authentication_error \<and>
       create_completion env s model_of accept q p = Some (HA_Error (error_response authentication_error), p) \<and>
       create_chat_completion env s model_of accept q p =
         Some (HA_Error (error_response
           (case gv_loads env (hr_raw_body q) of
              Parsed (J_Object d) \<Rightarrow> authentication_error
            | Decode_Error m \<Rightarrow> authentication_error
            | _ \<Rightarrow> gateway_error INTERNAL_ERROR ''internal gateway error'' 500)), p)"
proof (cases "validate_api_key (hr_authorization q) s")
  case (Inl x)
  then have x: "x = GX_Gateway authentication_error" by (rule key_refused)
  have "prepare_chat_request env s model_of legacy q = Inl x" for legacy
    by (simp add: prepare_chat_request_def Inl)
  then show ?thesis
    by (simp add: Inl x create_completion_def create_chat_completion_def process_chat_completion_def
        process_streaming_chat_completion_def answer_completion_def answer_stream_def failed_answer_def
        unhandled_error_handler_def request_wants_stream_def split: json_outcome.split json.split)
qed simp

lemma built_stream: "build_inference_request p i m s key client = Inr r \<Longrightarrow> ir_stream r = cq_stream p"
  by (auto simp: build_inference_request_def Let_def invalid_def bind_result_Inr split: if_splits)

lemma prepared_stream:
  assumes "prepare_chat_request env s model_of False q = Inr (ctx, submit)"
  shows "request_wants_stream env (hr_raw_body q) = Inr (ir_stream (sr_inference_request submit))"
proof -
  obtain d p m k where d: "parse_json_body env (hr_raw_body q) (gs_max_body_bytes s) = Inr d"
    and p: "parse_chat_request env d = Inr p"
    and b: "build_inference_request p (gv_request_id env) m s k (hr_client_request_header q) = Inr (sr_inference_request submit)"
    using assms by (auto simp: prepare_chat_request_def bind_result_Inr Let_def build_request_context_def)
  have body: "gv_loads env (hr_raw_body q) = Parsed (J_Object d)"
    using d by (auto simp: parse_json_body_def invalid_def split: if_splits json_outcome.splits json.splits)
  have stream: "ir_stream (sr_inference_request submit) = cq_stream p"
    using b by (rule built_stream)
  have "chat_request_of_json d = Inr p" using p by (auto simp: parse_chat_request_def dest: parsed_fine)
  then have field: "defaulted d ''stream'' False (strict_bool ''stream'') = Inr (cq_stream p)"
    by (auto simp: chat_request_of_json_def sampling_fields_def bind_result_Inr)
  have "(case dict_get d ''stream'' of None \<Rightarrow> False | Some v \<Rightarrow> json_truthy v) = cq_stream p"
  proof (cases "dict_get d ''stream''")
    case (Some v)
    with field show ?thesis by (cases v) (auto simp: defaulted_def)
  qed (use field in \<open>simp add: defaulted_def\<close>)
  with body stream show ?thesis by (simp add: request_wants_stream_def)
qed

text \<open>C32: What the chat route makes of a prepared request. The two readings of the field \<open>stream\<close>, before
  and after validation, agree. A streaming request without the integrated platform is answered with
  501 and goes no further. Every other one is accepted exactly once, and the platform the answer
  leaves is the one the client left: an error of the client is answered as it is, a stream starts a
  session of the request, and otherwise the completion recorded with the entry is answered.\<close>

theorem chat_route:
  assumes "prepare_chat_request env s model_of False q = Inr (ctx, submit)"
  shows "let r = sr_inference_request submit in
    request_wants_stream env (hr_raw_body q) = Inr (ir_stream r) \<and>
    create_chat_completion env s model_of accept q p =
      (if ir_stream r \<and> \<not> gs_full_path_integrated s
       then Some (HA_Error (error_response (not_implemented ''use streaming endpoint for stream=true requests'')), p)
       else map_option (\<lambda>(res, t).
           (case res of
              Inl e \<Rightarrow> HA_Error (error_response e)
            | Inr e \<Rightarrow>
                (let c = accepted_context ctx (entry_at (pf_control t) e) in
                 if ir_stream r
                 then HA_Stream (id_headers c @ [(''X-Stream-Id'', gv_stream_id env), (''Cache-Control'', ''no-cache''),
                        (''Connection'', ''keep-alive'')]) submit
                        (session_create (gv_stream_id env) (ir_request_id r) (gc_correlation_id ctx) (ir_model r)
                          (gc_received_timestamp ctx))
                 else HA_Answer (id_headers c) (placeholder_chat_response c)), t)) (accept submit p))"
proof -
  note wants = prepared_stream [OF assms]
  have answers: "map_option (answer_completion f) (map_option g x) = map_option (\<lambda>y. answer_completion f (g y)) x"
    "map_option answer_stream (map_option h z) = map_option (\<lambda>y. answer_stream (h y)) z" 
    for f and g :: "'y \<Rightarrow> gateway_context validated \<times> platform" and x h and z :: "'z option"
    by (simp_all add: option.map_comp comp_def)
  show ?thesis
    unfolding Let_def
    by (intro conjI wants)
      (auto simp: create_chat_completion_def wants process_chat_completion_def process_streaming_chat_completion_def
        assms accept_prepared_def answers option.map_comp comp_def answer_completion_def answer_stream_def failed_answer_def
        unhandled_error_handler_def session_create_def id_headers_def accepted_context_def intro!: option.map_cong0
        split: prod.split sum.split)
qed

theorem chat_route_witness:
  "\<forall>p :: platform. create_chat_completion sample_gateway sample_settings sample_gateway_model (\<lambda>submit p. Some (Inl stub_accept, p)) sample_http_request p = Some (HA_Error (error_response stub_accept), p)"
proof
  fix p :: platform
  obtain ctx submit where
    "prepare_chat_request sample_gateway sample_settings sample_gateway_model False sample_http_request = Inr (ctx, submit)"
    "\<not> ir_stream (sr_inference_request submit)" using sample_prepared by blast
  with chat_route [of sample_gateway sample_settings sample_gateway_model sample_http_request ctx submit
      "\<lambda>submit p. Some (Inl stub_accept, p)" p]
  show "create_chat_completion sample_gateway sample_settings sample_gateway_model
      (\<lambda>submit p. Some (Inl stub_accept, p)) sample_http_request p =
    Some (HA_Error (error_response stub_accept), p)" by (simp add: Let_def)
qed

end
