(* ===== verification/Gpu_Metrics.thy ===== *)
theory Gpu_Metrics
  imports Platform
begin

text \<open>
  Telemetry of the devices (\<open>gpu_inference_observability/gpu\<close>): the probes, the estimates of the KV
  cache and of memory, the capacity that remains, the events of crossed thresholds and the
  collector, with the numbers of the embedded platform it reads (\<open>runtime/gpu_context.py\<close>).

  NVML is a library outside the repository: what its calls answer is an argument. A threshold
  of the code is a decimal literal, here the rational it denotes.
\<close>

section \<open>Metrics of devices (gpu/models.py)\<close>

datatype gpu_metrics_source = GS_NVML | GS_FALLBACK | GS_SIMULATED

record gpu_device_metrics =
  gd_device_id :: nat
  gd_utilization_percent :: rat
  gd_memory_used_bytes :: int
  gd_memory_free_bytes :: int
  gd_memory_total_bytes :: int
  gd_source :: gpu_metrics_source

record kv_cache_metrics =
  kv_cache_entries :: int
  kv_active_sequences :: int
  kv_cache_occupancy_ratio :: rat
  kv_estimated_bytes :: int
  kv_estimation_method :: string
  kv_bytes_per_sequence :: int

record memory_breakdown =
  mb_model_weights_bytes :: int
  mb_kv_cache_bytes :: int
  mb_runtime_overhead_bytes :: int
  mb_active_request_bytes :: int
  mb_total_estimated_bytes :: int
  mb_methodology :: string

record capacity_snapshot =
  cp_active_requests :: int
  cp_active_sequences :: int
  cp_active_batches :: int
  cp_max_concurrent_sequences :: int
  cp_capacity_remaining :: int
  cp_limiting_resource :: string
  cp_captured_at :: datetime

record gpu_snapshot =
  gsn_devices :: "gpu_device_metrics list"
  gsn_kv_cache :: kv_cache_metrics
  gsn_memory :: memory_breakdown
  gsn_capacity :: capacity_snapshot
  gsn_captured_at :: datetime

section \<open>Probes (gpu/probes.py)\<close>

definition fallback_collect :: "gpu_device_metrics list" where
  "fallback_collect =
     [\<lparr>gd_device_id = 0, gd_utilization_percent = 0, gd_memory_used_bytes = 0,
       gd_memory_free_bytes = 0, gd_memory_total_bytes = 0, gd_source = GS_FALLBACK\<rparr>]"

text \<open>
  What the three NVML calls for a device answer: the utilization and the used, free and total
  bytes, or \<open>None\<close> when one of them raises.
\<close>

type_synonym nvml_reads = "nat \<Rightarrow> (rat \<times> int \<times> int \<times> int) option"

fun read_devices :: "nvml_reads \<Rightarrow> nat list \<Rightarrow> gpu_device_metrics list option" where
  "read_devices nv [] = Some []"
| "read_devices nv (i # is) =
     (case nv i of
        None \<Rightarrow> None
      | Some (util, used, free, capacity) \<Rightarrow>
          map_option (Cons
            \<lparr>gd_device_id = i, gd_utilization_percent = util, gd_memory_used_bytes = used,
             gd_memory_free_bytes = free, gd_memory_total_bytes = capacity, gd_source = GS_NVML\<rparr>)
            (read_devices nv is))"

text \<open>The devices NVML counted, or the error of its import or initialisation.\<close>

type_synonym nvml_probe = "string + nat"

definition nvml_collect :: "nvml_reads \<Rightarrow> nvml_probe \<Rightarrow> gpu_device_metrics list" where
  "nvml_collect nv p =
     (case p of
        Inl e \<Rightarrow> fallback_collect
      | Inr n \<Rightarrow>
          (case read_devices nv [0..<n] of
             None \<Rightarrow> fallback_collect
           | Some ds \<Rightarrow> if ds \<noteq> [] then ds else fallback_collect))"

record simulated_probe =
  sp_utilization :: rat
  sp_memory_used :: int
  sp_memory_total :: int

definition new_simulated_probe :: simulated_probe where
  "new_simulated_probe =
     \<lparr>sp_utilization = 0, sp_memory_used = 0, sp_memory_total = 16 * 1024 * 1024 * 1024\<rparr>"

definition set_probe_state :: "rat \<Rightarrow> int \<Rightarrow> int option \<Rightarrow> simulated_probe \<Rightarrow> simulated_probe" where
  "set_probe_state utilization used capacity p =
     p\<lparr>sp_utilization := utilization, sp_memory_used := used,
       sp_memory_total := (case capacity of None \<Rightarrow> sp_memory_total p | Some c \<Rightarrow> c)\<rparr>"

definition simulated_collect :: "simulated_probe \<Rightarrow> gpu_device_metrics list" where
  "simulated_collect p =
     [\<lparr>gd_device_id = 0, gd_utilization_percent = sp_utilization p,
       gd_memory_used_bytes = sp_memory_used p,
       gd_memory_free_bytes = max 0 (sp_memory_total p - sp_memory_used p),
       gd_memory_total_bytes = sp_memory_total p, gd_source = GS_SIMULATED\<rparr>]"

datatype gpu_probe = GP_Fallback | GP_Nvml nvml_probe | GP_Simulated simulated_probe

fun probe_collect :: "nvml_reads \<Rightarrow> gpu_probe \<Rightarrow> gpu_device_metrics list" where
  "probe_collect nv GP_Fallback = fallback_collect"
| "probe_collect nv (GP_Nvml p) = nvml_collect nv p"
| "probe_collect nv (GP_Simulated p) = simulated_collect p"

text \<open>\<open>p\<close> is the NVML probe as its initialisation leaves it.\<close>

definition create_gpu_probe :: "nvml_reads \<Rightarrow> nvml_probe \<Rightarrow> gpu_probe option \<Rightarrow> gpu_probe" where
  "create_gpu_probe nv p simulated =
     (case simulated of
        Some q \<Rightarrow> q
      | None \<Rightarrow>
          (case nvml_collect nv p of
             [] \<Rightarrow> GP_Fallback
           | d # ds \<Rightarrow> if gd_source d = GS_NVML then GP_Nvml p else GP_Fallback))"

section \<open>Estimates (gpu/kv_cache.py, gpu/memory.py, gpu/capacity.py)\<close>

definition default_bytes_per_sequence :: int where
  "default_bytes_per_sequence = 64 * 1024"

record kv_cache_inputs =
  ki_active_sequences :: int
  ki_max_concurrent_sequences :: int
  ki_bytes_per_sequence :: int
  ki_cache_entries :: "int option"

definition estimate_kv_cache_metrics :: "kv_cache_inputs \<Rightarrow> kv_cache_metrics" where
  "estimate_kv_cache_metrics i =
     (let active = max 0 (ki_active_sequences i);
          max_seq = max 1 (ki_max_concurrent_sequences i);
          per_seq = max 1 (ki_bytes_per_sequence i)
      in \<lparr>kv_cache_entries = (case ki_cache_entries i of Some n \<Rightarrow> n | None \<Rightarrow> active),
          kv_active_sequences = active,
          kv_cache_occupancy_ratio = min 1 (of_int active / of_int max_seq),
          kv_estimated_bytes = active * per_seq,
          kv_estimation_method = ''active_sequences * bytes_per_sequence'', kv_bytes_per_sequence = per_seq\<rparr>)"

record memory_accounting_inputs =
  mi_gpu_devices :: "gpu_device_metrics list"
  mi_kv_cache_bytes :: int
  mi_active_requests :: int
  mi_model_weights_bytes :: int
  mi_runtime_overhead_bytes :: int
  mi_bytes_per_active_request :: int

definition memory_inputs :: "gpu_device_metrics list \<Rightarrow> int \<Rightarrow> int \<Rightarrow> memory_accounting_inputs" where
  "memory_inputs devices kv_bytes requests =
     \<lparr>mi_gpu_devices = devices, mi_kv_cache_bytes = kv_bytes, mi_active_requests = requests,
      mi_model_weights_bytes = 4 * 1024 * 1024 * 1024,
      mi_runtime_overhead_bytes = 512 * 1024 * 1024, mi_bytes_per_active_request = 256 * 1024\<rparr>"

definition build_memory_breakdown :: "memory_accounting_inputs \<Rightarrow> memory_breakdown" where
  "build_memory_breakdown i =
     (let gpu_used = sum_list (map gd_memory_used_bytes (mi_gpu_devices i));
          active_bytes = max 0 (mi_active_requests i) * mi_bytes_per_active_request i;
          kv = max 0 (mi_kv_cache_bytes i);
          estimated = mi_model_weights_bytes i + kv + mi_runtime_overhead_bytes i + active_bytes
      in \<lparr>mb_model_weights_bytes = mi_model_weights_bytes i, mb_kv_cache_bytes = kv,
          mb_runtime_overhead_bytes = mi_runtime_overhead_bytes i,
          mb_active_request_bytes = active_bytes,
          mb_total_estimated_bytes = (if gpu_used > 0 then max estimated gpu_used else estimated),
          mb_methodology =
            ''model_weights + kv_cache + runtime_overhead + active_request_bytes; '' @
            ''total_estimated=max(sum, gpu_memory_used) when NVML available''\<rparr>)"

record capacity_inputs =
  ci_active_requests :: int
  ci_active_sequences :: int
  ci_active_batches :: int
  ci_max_concurrent_sequences :: int
  ci_kv_cache :: kv_cache_metrics
  ci_gpu_devices :: "gpu_device_metrics list"
  ci_max_batch_slots :: int

text \<open>The used share of the first device's memory, when it reports any memory.\<close>

definition memory_ratio :: "gpu_device_metrics list \<Rightarrow> rat option" where
  "memory_ratio devices =
     (case devices of
        [] \<Rightarrow> None
      | d # ds \<Rightarrow>
          if gd_memory_total_bytes d > 0
          then Some (of_int (gd_memory_used_bytes d) / of_int (gd_memory_total_bytes d)) else None)"

definition under_memory_pressure :: "rat \<Rightarrow> gpu_device_metrics list \<Rightarrow> bool" where
  "under_memory_pressure threshold devices =
     (case memory_ratio devices of None \<Rightarrow> False | Some r \<Rightarrow> r \<ge> threshold)"

definition limiting_resource :: "capacity_inputs \<Rightarrow> string" where
  "limiting_resource i =
     (if max 0 (ci_max_concurrent_sequences i - ci_active_sequences i) \<le> 0
         \<or> kv_cache_occupancy_ratio (ci_kv_cache i) \<ge> 85 / 100 then ''kv_cache''
      else if max 0 (ci_max_batch_slots i - ci_active_batches i) \<le> 0 then ''batch_slots''
      else if under_memory_pressure (9 / 10) (ci_gpu_devices i) then ''gpu_memory''
      else ''none'')"

definition build_capacity_snapshot :: "datetime \<Rightarrow> capacity_inputs \<Rightarrow> capacity_snapshot" where
  "build_capacity_snapshot now i =
     (let remaining_sequences = max 0 (ci_max_concurrent_sequences i - ci_active_sequences i);
          remaining_batch = max 0 (ci_max_batch_slots i - ci_active_batches i)
      in \<lparr>cp_active_requests = max 0 (ci_active_requests i),
          cp_active_sequences = max 0 (ci_active_sequences i),
          cp_active_batches = max 0 (ci_active_batches i),
          cp_max_concurrent_sequences = max 1 (ci_max_concurrent_sequences i),
          cp_capacity_remaining = min remaining_sequences remaining_batch,
          cp_limiting_resource = limiting_resource i, cp_captured_at = now\<rparr>)"

section \<open>Events (gpu/events.py)\<close>

definition platform_gpu_event_id :: uuid where
  "platform_gpu_event_id = ''00000000-0000-4000-8000-000000000021''"

datatype capacity_event_type = CE_Warning | CE_KvPressure | CE_MemoryThreshold | CE_Exhausted

fun capacity_event_value :: "capacity_event_type \<Rightarrow> string" where
  "capacity_event_value CE_Warning = ''gpu_capacity_warning''"
| "capacity_event_value CE_KvPressure = ''kv_cache_pressure_detected''"
| "capacity_event_value CE_MemoryThreshold = ''memory_threshold_crossed''"
| "capacity_event_value CE_Exhausted = ''capacity_exhausted''"

text \<open>The names in \<open>x\<close> differ from the one that comes first.\<close>

definition emit_capacity ::
  "datetime \<Rightarrow> uuid option \<Rightarrow> capacity_event_type \<Rightarrow> extra \<Rightarrow> observers \<Rightarrow> observers" where
  "emit_capacity now request ev x =
     (let rid = (case request of Some r \<Rightarrow> r | None \<Rightarrow> platform_gpu_event_id) in
      on_trace (append_event
        \<lparr>te_request_id = rid, te_correlation_id = ''gpu_observability'', te_timestamp = now,
         te_component = RT_ADAPTER, te_event_type = capacity_event_value ev, te_batch_id = None,
         te_backend_id = None, te_lifecycle_state = None, te_decision_reason = None,
         te_extra = (''capacity_event'', X_BOOL True) # x\<rparr>))"

section \<open>The collector (gpu/collector.py)\<close>

record gpu_collector_config =
  gcf_kv_cache_pressure_ratio :: rat
  gcf_gpu_memory_threshold_ratio :: rat
  gcf_capacity_warning_remaining :: int

definition default_collector_config :: gpu_collector_config where
  "default_collector_config =
     \<lparr>gcf_kv_cache_pressure_ratio = 85 / 100, gcf_gpu_memory_threshold_ratio = 9 / 10,
      gcf_capacity_warning_remaining = 2\<rparr>"

text \<open>What the provider answers to one collection.\<close>

record runtime_numbers =
  rn_active_requests :: int
  rn_active_sequences :: int
  rn_active_batches :: int
  rn_max_concurrent_sequences :: int
  rn_max_batch_slots :: int

definition no_provider :: runtime_numbers where
  "no_provider = \<lparr>rn_active_requests = 0, rn_active_sequences = 0, rn_active_batches = 0,
     rn_max_concurrent_sequences = 32, rn_max_batch_slots = 32\<rparr>"

record pressure_flags =
  pr_last_kv :: bool
  pr_last_gpu :: bool
  pr_last_exhausted :: bool

text \<open>\<open>gc_events\<close>: whether it has an emitter; its recorder is the trace of the observers.\<close>

record gpu_collector =
  gc_observers :: observers
  gc_events :: bool
  gc_probe :: gpu_probe
  gc_config :: gpu_collector_config
  gc_flags :: pressure_flags

definition new_gpu_collector :: "observers \<Rightarrow> bool \<Rightarrow> gpu_probe \<Rightarrow> gpu_collector_config option \<Rightarrow> gpu_collector" where
  "new_gpu_collector obs events probe cfg =
     \<lparr>gc_observers = obs, gc_events = events, gc_probe = probe,
      gc_config = (case cfg of None \<Rightarrow> default_collector_config | Some c \<Rightarrow> c),
      gc_flags = \<lparr>pr_last_kv = False, pr_last_gpu = False, pr_last_exhausted = False\<rparr>\<rparr>"

definition export_device :: "gpu_device_metrics \<Rightarrow> metrics_state \<Rightarrow> metrics_state" where
  "export_device d =
     set_gpu_device_metrics (show_int (int (gd_device_id d))) (gd_utilization_percent d)
       (gd_memory_used_bytes d) (gd_memory_free_bytes d) (gd_memory_total_bytes d)"

definition export_metrics ::
  "gpu_device_metrics list \<Rightarrow> kv_cache_metrics \<Rightarrow> capacity_snapshot \<Rightarrow> metrics_state \<Rightarrow> metrics_state" where
  "export_metrics devices kv cap m =
     set_capacity_remaining (cp_capacity_remaining cap)
       (set_active_sequences (kv_active_sequences kv)
         (set_kv_cache_estimated_bytes (kv_estimated_bytes kv) (fold export_device devices m)))"

type_synonym capacity_event = "capacity_event_type \<times> extra"

definition kv_events ::
  "gpu_collector_config \<Rightarrow> kv_cache_metrics \<Rightarrow> bool \<Rightarrow> capacity_event list \<times> bool" where
  "kv_events cfg kv last_pressure =
     (let pressure = kv_cache_occupancy_ratio kv \<ge> gcf_kv_cache_pressure_ratio cfg in
      (if pressure \<and> \<not> last_pressure
       then [(CE_KvPressure, [(''occupancy_ratio'', X_NUM (kv_cache_occupancy_ratio kv)),
                              (''active_sequences'', X_INT (kv_active_sequences kv))])] else [],
       pressure))"

definition memory_events ::
  "gpu_collector_config \<Rightarrow> gpu_device_metrics list \<Rightarrow> bool \<Rightarrow> capacity_event list \<times> bool" where
  "memory_events cfg devices last_pressure =
     (let pressure = under_memory_pressure (gcf_gpu_memory_threshold_ratio cfg) devices in
      (case devices of
         [] \<Rightarrow> []
       | d # ds \<Rightarrow>
           if pressure \<and> \<not> last_pressure
           then [(CE_MemoryThreshold,
                  [(''memory_used_bytes'', X_INT (gd_memory_used_bytes d)),
                   (''memory_total_bytes'', X_INT (gd_memory_total_bytes d)),
                   (''threshold_ratio'', X_NUM (gcf_gpu_memory_threshold_ratio cfg))]),
                 (CE_Warning, [(''utilization_percent'', X_NUM (gd_utilization_percent d))])]
           else [],
       pressure))"

definition capacity_events ::
  "gpu_collector_config \<Rightarrow> capacity_snapshot \<Rightarrow> bool \<Rightarrow> capacity_event list \<times> bool" where
  "capacity_events cfg cap last_exhausted =
     (let exhausted = cp_capacity_remaining cap \<le> 0 in
      (if exhausted \<and> \<not> last_exhausted
       then [(CE_Exhausted, [(''limiting_resource'', X_STR (cp_limiting_resource cap)),
                             (''active_sequences'', X_INT (cp_active_sequences cap))])]
       else if \<not> exhausted \<and> cp_capacity_remaining cap \<le> gcf_capacity_warning_remaining cfg
            \<and> cp_limiting_resource cap \<noteq> ''none''
       then [(CE_Warning, [(''capacity_remaining'', X_INT (cp_capacity_remaining cap)),
                           (''limiting_resource'', X_STR (cp_limiting_resource cap))])]
       else [],
       exhausted))"

definition threshold_events ::
  "gpu_collector_config \<Rightarrow> gpu_device_metrics list \<Rightarrow> kv_cache_metrics \<Rightarrow> capacity_snapshot \<Rightarrow>
   pressure_flags \<Rightarrow> capacity_event list \<times> pressure_flags" where
  "threshold_events cfg devices kv cap fl =
     (let (e1, k) = kv_events cfg kv (pr_last_kv fl);
          (e2, g) = memory_events cfg devices (pr_last_gpu fl);
          (e3, x) = capacity_events cfg cap (pr_last_exhausted fl)
      in (e1 @ e2 @ e3, \<lparr>pr_last_kv = k, pr_last_gpu = g, pr_last_exhausted = x\<rparr>))"

text \<open>\<open>ck\<close> is read once per event.\<close>

fun emit_all :: "(nat \<Rightarrow> datetime) \<Rightarrow> nat \<Rightarrow> capacity_event list \<Rightarrow> observers \<Rightarrow> observers" where
  "emit_all ck n [] obs = obs"
| "emit_all ck n ((ev, x) # es) obs = emit_all ck (Suc n) es (emit_capacity (ck n) None ev x obs)"

definition emit_threshold_events ::
  "(nat \<Rightarrow> datetime) \<Rightarrow> gpu_device_metrics list \<Rightarrow> kv_cache_metrics \<Rightarrow> capacity_snapshot \<Rightarrow>
   gpu_collector \<Rightarrow> gpu_collector" where
  "emit_threshold_events ck devices kv cap c =
     (if \<not> gc_events c then c
      else (case threshold_events (gc_config c) devices kv cap (gc_flags c) of
              (es, fl) \<Rightarrow> c\<lparr>gc_observers := emit_all ck 0 es (gc_observers c), gc_flags := fl\<rparr>))"

text \<open>What one collection reads: the clock, NVML and the provider, if there is one.\<close>

record collect_env =
  ce_capacity_time :: datetime
  ce_event_times :: "nat \<Rightarrow> datetime"
  ce_snapshot_time :: datetime
  ce_nvml :: nvml_reads
  ce_numbers :: "runtime_numbers option"

definition take_snapshot :: "collect_env \<Rightarrow> gpu_probe \<Rightarrow> gpu_snapshot" where
  "take_snapshot env probe =
     (let devices = probe_collect (ce_nvml env) probe;
          n = (case ce_numbers env of None \<Rightarrow> no_provider | Some n \<Rightarrow> n);
          kv = estimate_kv_cache_metrics
            \<lparr>ki_active_sequences = rn_active_sequences n,
             ki_max_concurrent_sequences = rn_max_concurrent_sequences n,
             ki_bytes_per_sequence = default_bytes_per_sequence, ki_cache_entries = None\<rparr>;
          memory = build_memory_breakdown
            (memory_inputs devices (kv_estimated_bytes kv) (rn_active_requests n));
          cap = build_capacity_snapshot (ce_capacity_time env)
            \<lparr>ci_active_requests = rn_active_requests n, ci_active_sequences = rn_active_sequences n,
             ci_active_batches = rn_active_batches n,
             ci_max_concurrent_sequences = rn_max_concurrent_sequences n, ci_kv_cache = kv,
             ci_gpu_devices = devices, ci_max_batch_slots = rn_max_batch_slots n\<rparr>
      in \<lparr>gsn_devices = devices, gsn_kv_cache = kv, gsn_memory = memory, gsn_capacity = cap,
          gsn_captured_at = ce_snapshot_time env\<rparr>)"

definition collect :: "collect_env \<Rightarrow> gpu_collector \<Rightarrow> gpu_snapshot \<times> gpu_collector" where
  "collect env c =
     (let g = take_snapshot env (gc_probe c);
          c1 = c\<lparr>gc_observers := on_metrics
                 (export_metrics (gsn_devices g) (gsn_kv_cache g) (gsn_capacity g)) (gc_observers c)\<rparr>
      in (g, emit_threshold_events (ce_event_times env) (gsn_devices g) (gsn_kv_cache g)
               (gsn_capacity g) c1))"

section \<open>The numbers of the platform (runtime/gpu_context.py)\<close>

definition platform_runtime_numbers :: "datetime \<Rightarrow> int \<Rightarrow> int \<Rightarrow> platform \<Rightarrow> runtime_numbers" where
  "platform_runtime_numbers now max_sequences max_batch_slot_limit s =
     (let stats = get_batch_statistics now (pf_engine s) in
      \<lparr>rn_active_requests = int (length (queries_list_active (pf_control s))),
       rn_active_sequences = int (bst_total_active_requests stats),
       rn_active_batches = int (bst_active_batches stats),
       rn_max_concurrent_sequences = max_sequences, rn_max_batch_slots = max_batch_slot_limit\<rparr>)"

end
