(* ===== verification/Gpu_Properties.thy ===== *)
theory Gpu_Properties
  imports Gpu_Metrics
begin

text \<open>
  What the collector reports over any run of collections: one event for every crossing of a
  threshold from below, and none while it stays crossed.
\<close>

section \<open>The events of a trace\<close>

definition events_of :: "uuid \<Rightarrow> trace_store \<Rightarrow> trace_event list" where
  "events_of i st = (case dict_get st i of None \<Rightarrow> [] | Some t \<Rightarrow> rt_events t)"

lemma events_of_append [simp]:
  "events_of (te_request_id e) (append_event e st) = events_of (te_request_id e) st @ [e]"
  by (cases "dict_get st (te_request_id e)")
    (auto simp: events_of_def append_event_def ensure_def new_trace_def Let_def split: option.split)

definition platform_gpu_events :: "observers \<Rightarrow> string list" where
  "platform_gpu_events obs =
     (case ob_trace obs of
        None \<Rightarrow> [] | Some st \<Rightarrow> map te_event_type (events_of platform_gpu_event_id st))"

lemma emit_capacity_trace:
  assumes "ob_trace obs = Some st"
  shows "platform_gpu_events (emit_capacity now None ev x obs) =
      platform_gpu_events obs @ [capacity_event_value ev]"
    and "ob_trace (emit_capacity now None ev x obs) \<noteq> None"
proof -
  let ?e = "\<lparr>te_request_id = platform_gpu_event_id, te_correlation_id = ''gpu_observability'',
      te_timestamp = now, te_component = RT_ADAPTER, te_event_type = capacity_event_value ev,
      te_batch_id = None, te_backend_id = None, te_lifecycle_state = None,
      te_decision_reason = None, te_extra = (''capacity_event'', X_BOOL True) # x\<rparr>"
  from assms show "platform_gpu_events (emit_capacity now None ev x obs) =
      platform_gpu_events obs @ [capacity_event_value ev]"
    using events_of_append [of ?e st] by (simp add: platform_gpu_events_def emit_capacity_def on_trace_def)
  from assms show "ob_trace (emit_capacity now None ev x obs) \<noteq> None"
    by (simp add: emit_capacity_def on_trace_def)
qed

lemma emit_all_trace:
  assumes "ob_trace obs \<noteq> None"
  shows "platform_gpu_events (emit_all ck n es obs) =
      platform_gpu_events obs @ map (capacity_event_value \<circ> fst) es \<and>
    ob_trace (emit_all ck n es obs) \<noteq> None"
  using assms
proof (induction ck n es obs rule: emit_all.induct)
  case (1 ck n obs)
  then show ?case by simp
next
  case (2 ck n ev x es obs)
  from \<open>ob_trace obs \<noteq> None\<close> obtain st where "ob_trace obs = Some st" by blast
  then show ?case using 2(1) emit_capacity_trace [of obs st "ck n" ev x] by simp
qed

section \<open>Runs of the collector\<close>

definition collect_all :: "collect_env list \<Rightarrow> gpu_collector \<Rightarrow> gpu_collector" where
  "collect_all envs c = fold (\<lambda>env c. snd (collect env c)) envs c"

text \<open>How often a condition becomes true along its values, after the value \<open>last\<close>.\<close>

fun crossings :: "bool \<Rightarrow> bool list \<Rightarrow> nat" where
  "crossings last_value [] = 0"
| "crossings last_value (b # bs) = (if b \<and> \<not> last_value then 1 else 0) + crossings b bs"

definition kv_pressure :: "gpu_collector_config \<Rightarrow> gpu_snapshot \<Rightarrow> bool" where
  "kv_pressure cfg g \<longleftrightarrow> kv_cache_occupancy_ratio (gsn_kv_cache g) \<ge> gcf_kv_cache_pressure_ratio cfg"

definition memory_pressure :: "gpu_collector_config \<Rightarrow> gpu_snapshot \<Rightarrow> bool" where
  "memory_pressure cfg g \<longleftrightarrow> under_memory_pressure (gcf_gpu_memory_threshold_ratio cfg) (gsn_devices g)"

definition no_capacity :: "gpu_snapshot \<Rightarrow> bool" where
  "no_capacity g \<longleftrightarrow> cp_capacity_remaining (gsn_capacity g) = 0"

lemma capacity_not_negative: "0 \<le> cp_capacity_remaining (gsn_capacity (take_snapshot env p))"
  by (simp add: take_snapshot_def build_capacity_snapshot_def Let_def)

definition snapshot_events :: "gpu_collector \<Rightarrow> gpu_snapshot \<Rightarrow> capacity_event list \<times> pressure_flags" where
  "snapshot_events c g =
     threshold_events (gc_config c) (gsn_devices g) (gsn_kv_cache g) (gsn_capacity g) (gc_flags c)"

lemma collect_keeps:
  "gc_events (snd (collect env c)) = gc_events c" "gc_probe (snd (collect env c)) = gc_probe c"
  "gc_config (snd (collect env c)) = gc_config c"
  by (simp_all add: collect_def emit_threshold_events_def Let_def split: prod.split)

lemma on_metrics_trace [simp]:
  "ob_trace (on_metrics f obs) = ob_trace obs"
  "platform_gpu_events (on_metrics f obs) = platform_gpu_events obs"
  by (simp_all add: on_metrics_def platform_gpu_events_def)

lemma collect_events:
  fixes c :: gpu_collector and env :: collect_env
  assumes "gc_events c" and "ob_trace (gc_observers c) \<noteq> None"
  defines "ev \<equiv> snapshot_events c (take_snapshot env (gc_probe c))"
  shows "platform_gpu_events (gc_observers (snd (collect env c))) =
      platform_gpu_events (gc_observers c) @ map (capacity_event_value \<circ> fst) (fst ev)"
    and "ob_trace (gc_observers (snd (collect env c))) \<noteq> None"
    and "gc_flags (snd (collect env c)) = snd ev"
proof -
  obtain es fl where ev: "ev = (es, fl)" by force
  have run: "snd (collect env c) =
      c\<lparr>gc_observers := emit_all (ce_event_times env) 0 es (on_metrics (export_metrics
          (gsn_devices (take_snapshot env (gc_probe c))) (gsn_kv_cache (take_snapshot env (gc_probe c)))
          (gsn_capacity (take_snapshot env (gc_probe c)))) (gc_observers c)), gc_flags := fl\<rparr>"
    using ev assms(1)
    by (simp add: collect_def emit_threshold_events_def Let_def ev_def snapshot_events_def)
  show "platform_gpu_events (gc_observers (snd (collect env c))) =
      platform_gpu_events (gc_observers c) @ map (capacity_event_value \<circ> fst) (fst ev)"
    "ob_trace (gc_observers (snd (collect env c))) \<noteq> None"
    using assms(2) by (simp_all add: run ev emit_all_trace)
  show "gc_flags (snd (collect env c)) = snd ev" by (simp add: run ev)
qed

text \<open>The events of one snapshot, counted by their name.\<close>

lemma snapshot_event_counts:
  fixes c :: gpu_collector and env :: collect_env and p :: gpu_probe
  defines "g \<equiv> take_snapshot env p"
  defines "names \<equiv> map (capacity_event_value \<circ> fst) (fst (snapshot_events c g))"
  shows "count_list names ''kv_cache_pressure_detected'' =
      (if kv_pressure (gc_config c) g \<and> \<not> pr_last_kv (gc_flags c) then 1 else 0)"
    and "count_list names ''memory_threshold_crossed'' =
      (if memory_pressure (gc_config c) g \<and> \<not> pr_last_gpu (gc_flags c) then 1 else 0)"
    and "count_list names ''capacity_exhausted'' =
      (if no_capacity g \<and> \<not> pr_last_exhausted (gc_flags c) then 1 else 0)"
    and "snd (snapshot_events c g) = \<lparr>pr_last_kv = kv_pressure (gc_config c) g,
        pr_last_gpu = memory_pressure (gc_config c) g, pr_last_exhausted = no_capacity g\<rparr>"
proof -
  have none: "\<not> under_memory_pressure r []" for r
    by (simp add: under_memory_pressure_def memory_ratio_def)
  have x: "cp_capacity_remaining (gsn_capacity g) \<le> 0 \<longleftrightarrow> no_capacity g"
    using capacity_not_negative [of env p] by (auto simp: g_def no_capacity_def)
  note defs = names_def snapshot_events_def threshold_events_def kv_events_def memory_events_def
    capacity_events_def Let_def x kv_pressure_def memory_pressure_def
  show "count_list names ''kv_cache_pressure_detected'' =
      (if kv_pressure (gc_config c) g \<and> \<not> pr_last_kv (gc_flags c) then 1 else 0)"
    "count_list names ''memory_threshold_crossed'' =
      (if memory_pressure (gc_config c) g \<and> \<not> pr_last_gpu (gc_flags c) then 1 else 0)"
    "count_list names ''capacity_exhausted'' =
      (if no_capacity g \<and> \<not> pr_last_exhausted (gc_flags c) then 1 else 0)"
    "snd (snapshot_events c g) = \<lparr>pr_last_kv = kv_pressure (gc_config c) g,
        pr_last_gpu = memory_pressure (gc_config c) g, pr_last_exhausted = no_capacity g\<rparr>"
    by (auto simp: defs none split: list.split)
qed

definition reported :: "string \<Rightarrow> gpu_collector \<Rightarrow> nat" where
  "reported name c = count_list (platform_gpu_events (gc_observers c)) name"

lemma collect_all_crossings:
  fixes c :: gpu_collector and envs :: "collect_env list"
  assumes "gc_events c" and "ob_trace (gc_observers c) \<noteq> None"
  shows "let snaps = map (\<lambda>env. take_snapshot env (gc_probe c)) envs in
    reported ''kv_cache_pressure_detected'' (collect_all envs c) =
      reported ''kv_cache_pressure_detected'' c +
      crossings (pr_last_kv (gc_flags c)) (map (kv_pressure (gc_config c)) snaps) \<and>
    reported ''memory_threshold_crossed'' (collect_all envs c) =
      reported ''memory_threshold_crossed'' c +
      crossings (pr_last_gpu (gc_flags c)) (map (memory_pressure (gc_config c)) snaps) \<and>
    reported ''capacity_exhausted'' (collect_all envs c) =
      reported ''capacity_exhausted'' c +
      crossings (pr_last_exhausted (gc_flags c)) (map no_capacity snaps)"
  using assms
proof (induction envs arbitrary: c)
  case Nil
  then show ?case by (simp add: collect_all_def)
next
  case (Cons env envs)
  let ?c = "snd (collect env c)"
  note one = collect_events [OF Cons.prems(1,2), of env]
  have ok: "gc_events ?c" "ob_trace (gc_observers ?c) \<noteq> None"
    using Cons.prems(1) one(2) by (simp_all add: collect_keeps)
  have all: "collect_all (env # envs) c = collect_all envs ?c" by (simp add: collect_all_def)
  show ?case
    using Cons.IH [OF ok] one(1)
    by (simp add: all Let_def reported_def one(3) snapshot_event_counts collect_keeps)
qed

section \<open>Property\<close>

text \<open>C36: A new collector with an event emitter and a trace recorder, over any sequence of
  collections (whatever the probe and the platform report at each), records a pressure event of
  the KV cache, a crossed memory threshold and exhausted capacity exactly as often as the
  condition becomes true in its snapshots after not having been true in the one before: no crossing
  is missed, and a condition that stays true is not reported again.\<close>

theorem threshold_crossings_reported:
  "let c = new_gpu_collector (obs\<lparr>ob_trace := Some st\<rparr>) True probe cfg;
       t = collect_all envs c;
       snaps = map (\<lambda>env. take_snapshot env probe) envs
   in reported ''kv_cache_pressure_detected'' t =
        reported ''kv_cache_pressure_detected'' c +
        crossings False (map (kv_pressure (gc_config c)) snaps) \<and>
      reported ''memory_threshold_crossed'' t =
        reported ''memory_threshold_crossed'' c +
        crossings False (map (memory_pressure (gc_config c)) snaps) \<and>
      reported ''capacity_exhausted'' t =
        reported ''capacity_exhausted'' c + crossings False (map no_capacity snaps)"
  using collect_all_crossings [of "new_gpu_collector (obs\<lparr>ob_trace := Some st\<rparr>) True probe cfg" envs]
  by (simp add: Let_def new_gpu_collector_def)

end
