(* ===== verification/Stack.thy ===== *)
theory Stack
  imports Gpu_Metrics
begin

text \<open>
  The embedded stack of the gateway (\<open>api_gateway/runtime/stack.py\<close>): the settings of the three
  services, how their applications are built and wired, and the start and the stop of the whole.

  Settings come from the environment through pydantic, so they are arguments; the bounds pydantic
  checks are \<open>scheduler_settings_ok\<close>. The observers of the components are built by their callers:
  every component takes its own. What \<open>SchedulerState()\<close> starts as is not in the repository: its
  mode is an argument. The database, the replay engine and the stream engine have models of their
  own (Repository, Replay, Stream\_Engine) and no state here.
\<close>

section \<open>Settings (config.py of the services)\<close>

record control_plane_settings =
  cps_registry_max_entries :: int
  cps_max_queue_size :: int
  cps_queue_timeout_ms :: int

definition default_control_plane_settings :: control_plane_settings where
  "default_control_plane_settings =
     \<lparr>cps_registry_max_entries = 10000, cps_max_queue_size = 1000, cps_queue_timeout_ms = 300000\<rparr>"

record scheduler_settings =
  ss_cycle :: cycle_settings
  ss_tick_interval_ms :: int
  ss_max_batch_size :: int
  ss_max_active_requests :: int
  ss_batch_admission_window_ms :: int
  ss_default_backend_id :: string
  ss_dispatch_enabled :: bool
  ss_policy :: policy_settings

definition default_policy_settings :: policy_settings where
  "default_policy_settings =
     \<lparr>ps_scheduler_policy_id = ''fifo'', ps_latency_queue_objective_ms = 100,
      ps_latency_request_age_objective_ms = 5000, ps_fairness_elevated_weight = 3,
      ps_fairness_default_weight = 2, ps_fairness_background_weight = 1\<rparr>"

definition default_scheduler_settings :: scheduler_settings where
  "default_scheduler_settings =
     \<lparr>ss_cycle = \<lparr>cs_max_candidate_requests = 10, cs_queue_scan_limit = 100\<rparr>,
      ss_tick_interval_ms = 1000, ss_max_batch_size = 8, ss_max_active_requests = 32,
      ss_batch_admission_window_ms = 5000, ss_default_backend_id = ''mock'',
      ss_dispatch_enabled = True, ss_policy = default_policy_settings\<rparr>"

definition scheduler_settings_ok :: "scheduler_settings \<Rightarrow> bool" where
  "scheduler_settings_ok st \<longleftrightarrow>
     1 \<le> cs_max_candidate_requests (ss_cycle st) \<and> 100 \<le> ss_tick_interval_ms st \<and>
     1 \<le> cs_queue_scan_limit (ss_cycle st) \<and> 1 \<le> ss_max_batch_size st \<and>
     1 \<le> ss_max_active_requests st \<and> 1 \<le> ss_batch_admission_window_ms st \<and>
     0 < ps_latency_queue_objective_ms (ss_policy st) \<and>
     0 < ps_latency_request_age_objective_ms (ss_policy st) \<and>
     0 < ps_fairness_elevated_weight (ss_policy st) \<and>
     0 < ps_fairness_default_weight (ss_policy st) \<and> 0 < ps_fairness_background_weight (ss_policy st)"

record adapter_settings =
  as_default_backend_id :: string
  as_register_mock_backend :: bool
  as_register_vllm_backend :: bool
  as_vllm_base_url :: string
  as_vllm_model :: string
  as_vllm_supported_models :: string
  as_vllm_max_batch_size :: int
  as_vllm_request_timeout_seconds :: rat
  as_vllm_health_timeout_seconds :: rat
  as_vllm_api_key :: "string option"
  as_vllm_tensor_parallel_size :: "int option"
  as_vllm_gpu_memory_utilization :: "rat option"

definition default_adapter_settings :: adapter_settings where
  "default_adapter_settings =
     \<lparr>as_default_backend_id = ''mock'', as_register_mock_backend = True,
      as_register_vllm_backend = False, as_vllm_base_url = ''http://127.0.0.1:8000'',
      as_vllm_model = [], as_vllm_supported_models = [], as_vllm_max_batch_size = 8,
      as_vllm_request_timeout_seconds = 120, as_vllm_health_timeout_seconds = 5,
      as_vllm_api_key = None, as_vllm_tensor_parallel_size = None,
      as_vllm_gpu_memory_utilization = None\<rparr>"

text \<open>\<open>str.split(',')\<close>\<close>

fun split_at_commas :: "string \<Rightarrow> string \<Rightarrow> string list" where
  "split_at_commas acc [] = [rev acc]"
| "split_at_commas acc (c # cs) =
     (if c = CHR '','' then rev acc # split_at_commas [] cs else split_at_commas (c # acc) cs)"

definition parsed_vllm_supported_models :: "adapter_settings \<Rightarrow> string list" where
  "parsed_vllm_supported_models st =
     (if strip (as_vllm_supported_models st) = []
      then (if strip (as_vllm_model st) \<noteq> [] then [strip (as_vllm_model st)] else [])
      else map strip
             (filter (\<lambda>x. strip x \<noteq> []) (split_at_commas [] (as_vllm_supported_models st))))"

section \<open>The applications (application.py of the services)\<close>

definition create_control_plane :: "control_plane_settings \<Rightarrow> observers \<Rightarrow> cp_exn + queue_state" where
  "create_control_plane st obs =
     new_control_plane (cps_registry_max_entries st)
       \<lparr>qc_max_queue_size = cps_max_queue_size st, qc_queue_timeout_ms = cps_queue_timeout_ms st\<rparr> obs"

datatype stack_exn =
    SX_Control cp_exn | SX_Batch scheduler_exn | SX_Policy policy_exn | SX_Adapter adapter_exn

text \<open>The scheduler over a control plane's queue; it has a dispatch service when it has an adapter client.\<close>

definition create_scheduler ::
  "scheduler_settings \<Rightarrow> failure_injection_config option \<Rightarrow> observers \<Rightarrow> scheduler_mode \<Rightarrow> queue_state \<Rightarrow>
   stack_exn + scheduler_app" where
  "create_scheduler st fi obs mode q =
     (case new_engine \<lparr>bac_max_batch_size = ss_max_batch_size st,
             bac_max_active_requests = ss_max_active_requests st,
             bac_batch_admission_window_ms = ss_batch_admission_window_ms st\<rparr> fi obs of
        Inl x \<Rightarrow> Inl (SX_Batch x)
      | Inr e \<Rightarrow>
          (case build_policy (ss_policy st) of
             Inl x \<Rightarrow> Inl (SX_Policy x)
           | Inr p \<Rightarrow> Inr
               \<lparr>sa_settings = ss_cycle st, sa_policy = p, sa_queue = q, sa_engine = e,
                sa_process_mode = mode, sa_loop_running = False, sa_current_cycle = None,
                sa_last_completed_cycle = None, sa_total_cycles = 0\<rparr>))"

definition create_dispatch :: "scheduler_settings \<Rightarrow> nat option \<Rightarrow> dispatch_state" where
  "create_dispatch st min_members =
     \<lparr>dp_default_backend_id = ss_default_backend_id st, dp_min_dispatch_members = min_members,
      dp_submitted_batch_ids = []\<rparr>"

definition vllm_of_settings :: "adapter_settings \<Rightarrow> backend" where
  "vllm_of_settings st = VLLM (new_vllm (vllm_config_from_values (as_default_backend_id st)
     (as_vllm_base_url st) (as_vllm_model st) (Some (parsed_vllm_supported_models st))
     (as_vllm_max_batch_size st) (as_vllm_request_timeout_seconds st)
     (as_vllm_health_timeout_seconds st) (as_vllm_api_key st) (as_vllm_tensor_parallel_size st)
     (as_vllm_gpu_memory_utilization st)))"

definition create_adapter :: "datetime \<Rightarrow> adapter_settings \<Rightarrow> observers \<Rightarrow> adapter_exn + adapter_state" where
  "create_adapter now st obs =
     (case then_op
         (if as_register_mock_backend st
          then register_backend now (Mock (new_mock (as_default_backend_id st) [''demo''] 32 False))
                 BK_STARTING None None None None
          else return_op ())
         (if as_register_vllm_backend st
          then register_backend now (vllm_of_settings st) BK_STARTING None None None None
          else return_op ())
         (new_adapter (as_default_backend_id st) obs) of
        (Inl x, _) \<Rightarrow> Inl x
      | (Inr _, a) \<Rightarrow> Inr a)"

section \<open>The stack (runtime/stack.py)\<close>

record stack_settings =
  st_control :: control_plane_settings
  st_scheduler :: scheduler_settings
  st_adapter :: adapter_settings

record stack_env =
  se_now :: datetime
  se_mode :: scheduler_mode
  se_route_ids :: "nat \<Rightarrow> uuid"
  se_init_nvml :: nvml_reads
  se_init_nvml_probe :: nvml_probe
  se_control_observers :: observers
  se_scheduler_observers :: observers
  se_adapter_observers :: observers
  se_route_observers :: observers
  se_gpu_observers :: observers

record platform_stack =
  ps_platform :: platform
  ps_control_running :: bool
  ps_gpu_collector :: gpu_collector

definition create_platform_stack :: "stack_settings \<Rightarrow> stack_env \<Rightarrow> stack_exn + platform_stack" where
  "create_platform_stack st env =
     (case create_control_plane (st_control st) (se_control_observers env) of
        Inl x \<Rightarrow> Inl (SX_Control x)
      | Inr q \<Rightarrow>
     (case create_adapter (se_now env) ((st_adapter st)\<lparr>as_register_mock_backend := False\<rparr>)
             (se_adapter_observers env) of
        Inl x \<Rightarrow> Inl (SX_Adapter x)
      | Inr a \<Rightarrow>
     (case register_routing_backends (se_now env) a of
        (Inl x, _) \<Rightarrow> Inl (SX_Adapter x)
      | (Inr _, a') \<Rightarrow>
     (case create_scheduler (st_scheduler st) None (se_scheduler_observers env) (se_mode env) q of
        Inl x \<Rightarrow> Inl x
      | Inr sched \<Rightarrow> Inr
          \<lparr>ps_platform =
             \<lparr>pf_scheduler = sched, pf_dispatch = Some (create_dispatch (st_scheduler st) None),
              pf_dispatch_enabled = ss_dispatch_enabled (st_scheduler st),
              pf_world = \<lparr>dw_models = default_model_registry, dw_adapter = a',
                dw_route_observers = se_route_observers env, dw_ids = se_route_ids env, dw_drawn = 0\<rparr>\<rparr>,
           ps_control_running = False,
           ps_gpu_collector = new_gpu_collector (se_gpu_observers env) True
             (create_gpu_probe (se_init_nvml env) (se_init_nvml_probe env) None) None\<rparr>))))"

text \<open>The numbers a collection of the stack reads from it.\<close>

definition stack_numbers :: "datetime \<Rightarrow> platform \<Rightarrow> runtime_numbers" where
  "stack_numbers now p = platform_runtime_numbers now 32 4 p"

definition collect_stack :: "datetime \<Rightarrow> collect_env \<Rightarrow> platform_stack \<Rightarrow> gpu_snapshot \<times> platform_stack" where
  "collect_stack now env s =
     (case collect (env\<lparr>ce_numbers := Some (stack_numbers now (ps_platform s))\<rparr>) (ps_gpu_collector s) of
        (g, c) \<Rightarrow> (g, s\<lparr>ps_gpu_collector := c\<rparr>))"

definition on_stack_platform :: "(platform \<Rightarrow> platform) \<Rightarrow> platform_stack \<Rightarrow> platform_stack" where
  "on_stack_platform f s = s\<lparr>ps_platform := f (ps_platform s)\<rparr>"

definition stack_startup ::
  "(string \<Rightarrow> call_env) \<Rightarrow> datetime \<Rightarrow> collect_env \<Rightarrow> platform_stack \<Rightarrow>
   (platform_exn + gpu_snapshot) \<times> platform_stack" where
  "stack_startup envs now env s =
     (let s1 = s\<lparr>ps_control_running := True\<rparr> in
      case on_adapter (adapter_startup envs) (ps_platform s1) of
        (Inl x, p) \<Rightarrow> (Inl x, s1\<lparr>ps_platform := p\<rparr>)
      | (Inr _, p) \<Rightarrow>
          (case collect_stack now env
                  (s1\<lparr>ps_platform := p\<lparr>pf_scheduler := scheduler_startup (pf_scheduler p)\<rparr>\<rparr>) of
             (g, s2) \<Rightarrow> (Inr g, s2)))"

text \<open>The repository is closed last; that has no effect on the state here.\<close>

definition stack_shutdown :: "datetime \<Rightarrow> platform_stack \<Rightarrow> (platform_exn + unit) \<times> platform_stack" where
  "stack_shutdown now s =
     (let s1 = on_stack_platform (\<lambda>p. p\<lparr>pf_scheduler := scheduler_shutdown (pf_scheduler p)\<rparr>) s in
      case on_adapter (adapter_shutdown now) (ps_platform s1) of
        (Inl x, p) \<Rightarrow> (Inl x, s1\<lparr>ps_platform := p\<rparr>)
      | (Inr _, p) \<Rightarrow> (Inr (), s1\<lparr>ps_platform := p, ps_control_running := False\<rparr>))"

end
