(* ===== verification/Registry_Growth.thy ===== *)
theory Registry_Growth
  imports Control_Plane Op_Rules
begin

text \<open>
  The registry over the operations of the control plane: registering is the only one that writes
  it, and none takes an entry out, so that it only grows. \<open>registry_remove\<close> and
  \<open>remove_if_terminal\<close> have no caller in the services.
\<close>

section \<open>Operations that leave the registry\<close>

definition same_registry :: "'x queue_state_scheme \<Rightarrow> 'x queue_state_scheme \<Rightarrow> bool" where
  "same_registry s t \<longleftrightarrow>
     rs_entries t = rs_entries s \<and> rs_max_entries t = rs_max_entries s \<and> qs_config t = qs_config s"

interpretation unregistering: step_relation same_registry
  by unfold_locales (auto simp: same_registry_def)

named_theorems registry_intros \<open>operations that leave the registry\<close>

lemma same_registryI:
  "(\<And>s. rs_entries (snd (m s)) = rs_entries s \<and> rs_max_entries (snd (m s)) = rs_max_entries s \<and>
      qs_config (snd (m s)) = qs_config s) \<Longrightarrow> within_rel same_registry m"
  by (rule within_relI) (simp add: same_registry_def)

lemma registry_modify [registry_intros]: "within_rel same_registry (modify_op (modify_entry r f))"
  by (rule same_registryI) (simp add: modify_op_def)

lemma registry_emit [registry_intros]: "within_rel same_registry (emit_op ck ev i a)"
  by (rule same_registryI) (simp add: emit_op_def modify_op_def)

lemma registry_emit_queue [registry_intros]: "within_rel same_registry (emit_queue_op ck ev i c p x)"
  by (rule same_registryI) (simp add: emit_queue_op_def modify_op_def)

lemma registry_depth [registry_intros]: "within_rel same_registry set_depth_op"
  by (rule same_registryI) (simp add: set_depth_run)

lemma registry_get_same [registry_intros]: "within_rel same_registry (registry_get i)"
  by (rule same_registryI) (simp add: registry_get_def split: option.split)

lemma registry_expire [registry_intros]: "within_rel same_registry (expire_timeouts now)"
  by (rule same_registryI) (simp add: expire_timeouts_def)

lemma registry_dequeue [registry_intros]: "within_rel same_registry (dequeue now)"
  by (rule same_registryI) (auto simp: dequeue_def expire_run expire_timeouts_def split: list.split)

lemma registry_queue_remove [registry_intros]: "within_rel same_registry (queue_remove i)"
  by (rule same_registryI) (auto simp: queue_remove_def split: list.split)

lemma registry_update [registry_intros]: "within_rel same_registry (update_state now i st)"
  unfolding update_state_def by (intro unregistering.within_intros registry_intros)

lemma registry_emit_state [registry_intros]: "within_rel same_registry (emit_state_event ck r ev x)"
  unfolding emit_state_event_def by (intro unregistering.within_intros registry_intros)

lemma registry_transition [registry_intros]: "within_rel same_registry (transition ck i st b k)"
  unfolding transition_def assign_ids_def emit_for_transition_def
  by (intro unregistering.within_intros registry_intros)

lemma registry_mark_failed [registry_intros]: "within_rel same_registry (mark_failed ck i reason m b k)"
  unfolding mark_failed_def assign_ids_def Let_def
  by (intro unregistering.within_intros registry_intros)

lemma registry_complete [registry_intros]: "within_rel same_registry (complete_request ck i c)"
  unfolding complete_request_def by (intro unregistering.within_intros registry_intros)

lemma registry_timeouts [registry_intros]: "within_rel same_registry (process_timeouts ck)"
  unfolding process_timeouts_def time_out_item_def
  by (intro unregistering.within_intros registry_intros)

lemma registry_dequeue_next [registry_intros]: "within_rel same_registry (dequeue_next ck)"
  unfolding dequeue_next_def by (intro unregistering.within_intros registry_intros)

lemma registry_service_remove [registry_intros]: "within_rel same_registry (service_remove ck i)"
  unfolding service_remove_def by (intro unregistering.within_intros registry_intros)

lemma registry_snapshot [registry_intros]: "within_rel same_registry (get_queue_snapshot now n)"
  unfolding get_queue_snapshot_def list_items_def Let_def
  by (intro unregistering.within_intros registry_intros)

lemma registry_run_admission [registry_intros]: "within_rel same_registry (run_admission af ck i)"
  unfolding run_admission_def reject_admission_def Let_def
  by (intro unregistering.within_intros registry_intros)

lemma registry_enqueue: "same_registry s (snd (enqueue sweep now r s))"
  by (simp add: same_registry_def enqueue_run Let_def append_queued_def expire_timeouts_def)

lemma registry_enqueue_from_admitted [registry_intros]:
  "within_rel same_registry (enqueue_from_admitted sweep ck i)"
proof (rule within_relI)
  fix s :: "'x queue_state_scheme"
  have reject: "within_rel same_registry (reject_full ck i r reason :: ('x queue_state_scheme, cp_exn, ref) op)"
    for r reason
    unfolding reject_full_def by (intro unregistering.within_intros registry_intros)
  have after: "within_rel same_registry (after_enqueue ck i r q :: ('x queue_state_scheme, cp_exn, ref) op)" for r q
    unfolding after_enqueue_def by (intro unregistering.within_intros registry_intros)
  show "same_registry s (snd (enqueue_from_admitted sweep ck i s))"
  proof (cases "dict_get (rs_entries s) i")
    case None
    then show ?thesis
      by (simp add: enqueue_from_admitted_def bind_op_def registry_get_def unregistering.R_refl)
  next
    case (Some r)
    obtain x s1 where e: "enqueue sweep (fst ck) r s = (x, s1)" by force
    then have s1: "same_registry s s1" using registry_enqueue [of s sweep "fst ck" r] by simp
    have "same_registry s1 (snd (reject_full ck i r reason s1))" for reason
      by (rule within_relD [OF reject])
    moreover have "same_registry s1 (snd (after_enqueue ck i r q s1))" for q
      by (rule within_relD [OF after])
    ultimately show ?thesis
      using Some e s1 unregistering.R_trans [OF s1] unregistering.R_refl [of s]
      by (auto simp: enqueue_from_admitted_def bind_op_def registry_get_def
          split: sum.split cp_exn.split)
  qed
qed

section \<open>The registry only grows\<close>

definition registry_grows :: "'x queue_state_scheme \<Rightarrow> 'x queue_state_scheme \<Rightarrow> bool" where
  "registry_grows s t \<longleftrightarrow>
     set (dict_keys (rs_entries s)) \<subseteq> set (dict_keys (rs_entries t)) \<and>
     length (rs_entries s) \<le> length (rs_entries t) \<and>
     rs_max_entries t = rs_max_entries s \<and> qs_config t = qs_config s"

interpretation growing: step_relation registry_grows
  by unfold_locales (auto simp: registry_grows_def)

named_theorems grow_intros \<open>operations under which the registry grows\<close>

lemma within_grows: "within_rel same_registry m \<Longrightarrow> within_rel registry_grows m"
  by (auto simp: within_rel_def same_registry_def registry_grows_def)

lemmas quiet_grow [grow_intros] = registry_intros [THEN within_grows]

lemma grow_register [grow_intros]: "within_rel registry_grows (register ck submit st)"
proof -
  have "within_rel registry_grows (alloc_entry e)" for e
    by (rule within_relI) (simp add: registry_grows_def alloc_entry_def)
  moreover have "within_rel registry_grows (registry_register r)" for r
    by (rule within_relI) (auto simp: registry_grows_def registry_register_def length_dict_set AList.dom_update)
  ultimately show ?thesis
    unfolding register_def by (intro growing.within_intros grow_intros)
qed

lemma grow_process [grow_intros]: "within_rel registry_grows (process_through_queued af sweep ck submit)"
  unfolding process_through_queued_def through_body_def Let_def
  by (intro growing.within_intros grow_intros)

lemma cp_step_grows: "cp_step s t \<Longrightarrow> registry_grows s t"
  by (induction rule: cp_step.induct) (rule within_relD, rule grow_intros)+

section \<open>A full registry\<close>

definition registry_full :: "'x queue_state_scheme \<Rightarrow> bool" where
  "registry_full s \<longleftrightarrow> rs_max_entries s \<le> int (length (rs_entries s))"

lemma registry_full_grows: "registry_full s \<Longrightarrow> registry_grows s t \<Longrightarrow> registry_full t"
  by (simp add: registry_full_def registry_grows_def)

lemma registry_full_same: "same_registry s t \<Longrightarrow> registry_full t = registry_full s"
  by (simp add: registry_full_def same_registry_def)

text \<open>The sweep raises nothing but a missing entry.\<close>

definition missing_entry :: "cp_exn \<Rightarrow> bool" where
  "missing_entry x = (case x of RequestNotFoundError i \<Rightarrow> True | _ \<Rightarrow> False)"

lemma process_timeouts_raises: "raises_only missing_entry (process_timeouts ck)"
proof -
  have "raises_only missing_entry (registry_get i)" for i
    by (rule raises_onlyI) (auto simp: registry_get_def missing_entry_def split: option.splits)
  moreover have "raises_only missing_entry (emit_queue_op ck ev i c p x)" for ev i c p x
    by (simp add: emit_queue_op_def raises_modify)
  moreover have "raises_only missing_entry (expire_timeouts now)" for now
    by (rule raises_onlyI) (simp add: expire_timeouts_def)
  moreover have "raises_only missing_entry set_depth_op"
    by (rule raises_onlyI) (simp add: set_depth_run)
  ultimately show ?thesis
    unfolding process_timeouts_def time_out_item_def update_state_def by (intro raises_intros)
qed

lemma submit_when_full:
  assumes full: "registry_full s" and new: "dict_get (rs_entries s) (submit_id submit) = None"
  shows "fst (process_through_queued af sweep ck submit s) = Inl (RequestNotFoundError (submit_id submit))
    \<and> same_registry s (snd (process_through_queued af sweep ck submit s))"
proof -
  obtain res s1 where p: "process_timeouts sweep s = (res, s1)" by force
  have same: "same_registry s s1"
    using within_relD [OF registry_timeouts, of s sweep] p by simp
  have raised: "\<exists>x t. through_body af sweep ck submit s = (Inl x, t) \<and> \<not> passes_on x \<and> same_registry s t"
  proof (cases res)
    case (Inl x)
    then show ?thesis
      using raises_onlyD [OF process_timeouts_raises, of sweep s x s1] p same
      by (intro exI [of _ x] exI [of _ s1])
        (auto simp: through_body_def Let_def bind_op_def missing_entry_def split: cp_exn.splits)
  next
    case (Inr rs)
    let ?s2 = "s1\<lparr>rs_heap := rs_heap s1 @ [new_registered_request (fst ck) submit RECEIVED]\<rparr>"
    have "rs_max_entries s1 \<le> int (length (rs_entries s1))"
      using full same by (simp add: registry_full_def same_registry_def)
    then have "through_body af sweep ck submit s = (Inl (RuntimeError ''request registry at capacity''), ?s2)"
      using p Inr by (simp add: through_body_def Let_def bind_op_def register_def alloc_entry_def registry_register_def)
    with same show ?thesis by (auto simp: same_registry_def)
  qed
  then obtain x t where t: "through_body af sweep ck submit s = (Inl x, t)" "\<not> passes_on x" "same_registry s t"
    by blast
  then have "dict_get (rs_entries t) (ir_request_id (sr_inference_request submit)) = None"
    using new by (simp add: same_registry_def submit_id_def)
  then show ?thesis
    using t by (simp add: process_through_queued_def catch_op_def mark_failed_def bind_op_def
        registry_get_def submit_id_def)
qed

end
