(* ===== verification/Platform_Invariant.thy ===== *)
theory Platform_Invariant
  imports Stack Stream_Engine Registry_Growth
begin

text \<open>
  The platform as a whole: what its operations leave true of the control plane and of the batches,
  from the scheduling cycle up to the path of a request and to a stream.
\<close>

section \<open>The scheduling cycle\<close>

text \<open>On the queue and the registry: what the queue's snapshot does to them.\<close>

definition cycle_step :: "scheduler_app \<Rightarrow> scheduler_app \<Rightarrow> bool" where
  "cycle_step s t \<longleftrightarrow>
     evolves (sa_queue s) (sa_queue t) \<and> registry_grows (sa_queue s) (sa_queue t)"

interpretation cycling: step_relation cycle_step
  by unfold_locales
    (auto simp: cycle_step_def intro: evolve.R_refl growing.R_refl evolve.R_trans growing.R_trans)

named_theorems cycle_intros \<open>the steps of a cycle\<close>

lemma same_queue_cycle:
  "(\<And>s. sa_queue (snd (m s)) = sa_queue s) \<Longrightarrow> within_rel cycle_step m"
  by (simp add: within_rel_def cycle_step_def evolve.R_refl growing.R_refl)

lemma on_queue_cycle:
  assumes "within_rel evolves m" and "within_rel registry_grows m"
  shows "within_rel cycle_step (on_queue m)"
proof (rule within_relI)
  fix s
  show "cycle_step s (snd (on_queue m s))"
    using within_relD [OF assms(1), of "sa_queue s"] within_relD [OF assms(2), of "sa_queue s"]
    by (cases "m (sa_queue s)"; cases "fst (m (sa_queue s))")
      (simp_all add: on_queue_def map_exn_def zoom_op_def cycle_step_def)
qed

lemma on_engine_cycle [cycle_intros]: "within_rel cycle_step (on_engine m)"
  by (rule same_queue_cycle)
    (simp add: on_engine_def map_exn_def zoom_op_def split: prod.split sum.split)

lemma on_observers_cycle [cycle_intros]: "within_rel cycle_step (on_observers f)"
  by (rule same_queue_cycle) (simp add: on_observers_def op_defs)

lemma evaluate_cycle [cycle_intros]: "within_rel cycle_step (evaluate_policy cs n)"
  by (rule same_queue_cycle) (simp add: evaluate_policy_def split: prod.split)

lemma list_items_cycle [cycle_intros]: "within_rel cycle_step (list_queue_items now n)"
  unfolding list_queue_items_def
  by (intro cycling.within_intros on_queue_cycle evolve_intros grow_intros)

lemma inject_cycle [cycle_intros]: "within_rel cycle_step inject_cycle_failures"
  unfolding inject_cycle_failures_def by (intro cycling.within_intros)

lemma record_cycle [cycle_intros]: "within_rel cycle_step (record_decision pid cs d)"
  unfolding record_decision_def by (intro cycling.within_intros cycle_intros)

lemma emit_cycle [cycle_intros]: "within_rel cycle_step (emit_decision now cid pid cs d)"
  unfolding emit_decision_def Let_def by (intro cycling.within_intros cycle_intros)

lemma within_placement:
  "(\<And>p. within_rel R (f p)) \<Longrightarrow> (\<And>j. within_rel R (g j)) \<Longrightarrow>
   within_rel R (case x of Placed p \<Rightarrow> f p | Rejected j \<Rightarrow> g j)"
  by (cases x) simp_all

lemma place_one_cycle [cycle_intros]: "within_rel cycle_step (place_one now fresh items acc r)"
  unfolding place_one_def by (intro cycling.within_intros cycle_intros within_placement)

lemma place_all_cycle [cycle_intros]: "within_rel cycle_step (place_all now ids k items acc rs)"
proof (induction now ids k items acc rs rule: place_all.induct)
  case (1 now ids k items acc)
  then show ?case by (simp add: cycling.within_return)
next
  case (2 now ids k items acc r rs)
  have "within_rel cycle_step (place_all now ids (Suc k) items acc' rs)" for acc'
    by (rule 2)
  then show ?case by (auto intro: cycling.within_bind cycle_intros)
qed

lemma run_cycle_queue: "within_rel cycle_step (run_cycle now cid ids)"
proof -
  have modify: "within_rel cycle_step (modify_op f)" if "\<And>s. sa_queue (f s) = sa_queue s" for f
    by (rule same_queue_cycle) (simp add: op_defs that)
  have finish: "within_rel cycle_step (finish_cycle now cid cs ev acc)" for cs ev acc
    unfolding finish_cycle_def Let_def
    by (intro cycling.within_intros cycle_intros modify) simp_all
  show ?thesis
    unfolding run_cycle_def begin_cycle_def end_cycle_def cycle_body_def fail_cycle_def Let_def
    by (intro cycling.within_intros cycle_intros modify finish) simp_all
qed

text \<open>
  On the batches: placements keep the invariant as long as \<open>uuid4\<close> answers with new ids;
  \<open>unplaced_from k\<close>: the ids from the \<open>k\<close>-th on are not those of a batch.
\<close>

definition engine_kept :: "batch_admission_config \<Rightarrow> engine_state \<Rightarrow> bool" where
  "engine_kept c s \<longleftrightarrow> engine_ok s \<and> eg_config s = c"

definition unplaced_from :: "(nat \<Rightarrow> uuid) \<Rightarrow> nat \<Rightarrow> engine_state \<Rightarrow> bool" where
  "unplaced_from ids k s \<longleftrightarrow> (\<forall>j \<ge> k. dict_get (eg_batches s) (ids j) = None)"

lemma same_engine_kept: "same_engine s t \<Longrightarrow> engine_kept c s \<Longrightarrow> engine_kept c t"
  using same_engine_ok [of s t] by (auto simp: engine_kept_def same_engine_def engine_view_def)

lemma same_engine_unplaced: "same_engine s t \<Longrightarrow> unplaced_from ids k s \<Longrightarrow> unplaced_from ids k t"
  by (simp add: unplaced_from_def same_engine_def engine_view_def)

lemma place_keeps:
  fixes now :: datetime and item :: queue_item
  assumes "inj ids" and "engine_kept c s" and "unplaced_from ids k s"
  defines "t \<equiv> snd (place_selected now (ids k) item s)"
  shows "engine_kept c t" and "unplaced_from ids (Suc k) t"
proof -
  have ok: "engine_ok s" "dict_get (eg_batches s) (ids k) = None"
    using assms(2,3) by (simp_all add: engine_kept_def unplaced_from_def)
  obtain r where run: "place_selected now (ids k) item s = (r, t)"
    unfolding t_def by (cases "place_selected now (ids k) item s") simp
  consider "same_engine s t" | "took (ids k) item s (r, t)"
    using place_selected_outcome [OF ok, of now item] run by (auto simp: declined_def)
  then show "engine_kept c t"
    using assms(2) same_engine_kept by cases (auto simp: took_def engine_kept_def)
  show "unplaced_from ids (Suc k) t"
  proof (cases "same_engine s t")
    case True
    then show ?thesis
      using assms(3) same_engine_unplaced [of s t ids k] by (simp add: unplaced_from_def)
  next
    case False
    then have "took (ids k) item s (r, t)"
      using place_selected_outcome [OF ok, of now item] run by (auto simp: declined_def)
    then obtain i where i: "\<And>j. j \<noteq> i \<Longrightarrow> get_batch j t = get_batch j s"
      "case get_batch i s of None \<Rightarrow> i = ids k | Some b \<Rightarrow> b_model b = item_model item"
      by (auto simp: took_def)
    have "get_batch (ids j) t = None" if "Suc k \<le> j" for j
    proof -
      have none: "get_batch (ids j) s = None"
        using assms(3) that by (simp add: unplaced_from_def get_batch_def)
      have "ids j \<noteq> ids k" using that inj_eq [OF assms(1)] by auto
      with i(2) none have "ids j \<noteq> i" by auto
      with i(1) none show ?thesis by simp
    qed
    then show ?thesis by (simp add: unplaced_from_def get_batch_def)
  qed
qed

section \<open>A cycle keeps the batches' invariant\<close>

definition same_batches :: "scheduler_app \<Rightarrow> scheduler_app \<Rightarrow> bool" where
  "same_batches s t \<longleftrightarrow> same_engine (sa_engine s) (sa_engine t)"

interpretation batch_quiet: step_relation same_batches
  by unfold_locales (auto simp: same_batches_def same_engine_def)

named_theorems batch_quiet_intros \<open>steps of a cycle that leave the batches\<close>

lemma same_batchesI:
  "(\<And>s. same_engine (sa_engine s) (sa_engine (snd (m s)))) \<Longrightarrow> within_rel same_batches m"
  by (simp add: within_rel_def same_batches_def)

lemma batches_on_queue [batch_quiet_intros]: "within_rel same_batches (on_queue m)"
  by (rule same_batchesI) (simp add: on_queue_def map_exn_def zoom_op_def split: prod.split sum.split)

lemma batches_observers [batch_quiet_intros]: "within_rel same_batches (on_observers f)"
  by (rule same_batchesI) (simp add: on_observers_def op_defs)

lemma batches_evaluate [batch_quiet_intros]: "within_rel same_batches (evaluate_policy cs n)"
  by (rule same_batchesI) (simp add: evaluate_policy_def split: prod.split)

lemma batches_modify:
  "(\<And>s. sa_engine (f s) = sa_engine s) \<Longrightarrow> within_rel same_batches (modify_op f)"
  by (rule same_batchesI) (simp add: op_defs)

lemma batches_list [batch_quiet_intros]: "within_rel same_batches (list_queue_items now n)"
  unfolding list_queue_items_def by (intro batch_quiet.within_intros batch_quiet_intros)

lemma batches_inject [batch_quiet_intros]: "within_rel same_batches inject_cycle_failures"
  unfolding inject_cycle_failures_def by (intro batch_quiet.within_intros)

lemma batches_record [batch_quiet_intros]: "within_rel same_batches (record_decision pid cs d)"
  unfolding record_decision_def by (intro batch_quiet.within_intros batch_quiet_intros)

lemma batches_finish [batch_quiet_intros]: "within_rel same_batches (finish_cycle now cid cs ev acc)"
  unfolding finish_cycle_def emit_decision_def Let_def
  by (intro batch_quiet.within_intros batch_quiet_intros batches_modify) simp_all

lemma batches_fail [batch_quiet_intros]: "within_rel same_batches (fail_cycle now cid e)"
  unfolding fail_cycle_def by (intro batch_quiet.within_intros batch_quiet_intros batches_modify) simp_all

lemma batches_begin [batch_quiet_intros]: "within_rel same_batches (begin_cycle now cid)"
  unfolding begin_cycle_def by (intro batch_quiet.within_intros batch_quiet_intros batches_modify) simp_all

lemma batches_end [batch_quiet_intros]: "within_rel same_batches end_cycle"
  unfolding end_cycle_def by (intro batches_modify) simp_all

definition cycle_kept :: "batch_admission_config \<Rightarrow> scheduler_app \<Rightarrow> bool" where
  "cycle_kept c s \<longleftrightarrow> engine_kept c (sa_engine s)"

definition cycle_ready :: "batch_admission_config \<Rightarrow> (nat \<Rightarrow> uuid) \<Rightarrow> nat \<Rightarrow> scheduler_app \<Rightarrow> bool" where
  "cycle_ready c ids k s \<longleftrightarrow> engine_kept c (sa_engine s) \<and> unplaced_from ids k (sa_engine s)"

lemma ready_kept: "cycle_ready c ids k s \<Longrightarrow> cycle_kept c s"
  by (simp add: cycle_ready_def cycle_kept_def)

lemma quiet_kept: "within_rel same_batches m \<Longrightarrow> ensures (cycle_kept c) m (\<lambda>_. cycle_kept c) (cycle_kept c)"
  by (rule ensures_preserves)
    (auto simp: preserves_def within_rel_def same_batches_def cycle_kept_def intro: same_engine_kept)

lemma quiet_ready:
  assumes "within_rel same_batches m"
  shows "ensures (cycle_ready c ids k) m (\<lambda>_. cycle_ready c ids k) (cycle_kept c)"
proof (rule ensures_conseq [OF ensures_preserves [of "cycle_ready c ids k"]])
  show "preserves (cycle_ready c ids k) m"
    using assms
    by (auto simp: preserves_def within_rel_def same_batches_def cycle_ready_def
        intro: same_engine_kept same_engine_unplaced)
qed (simp_all add: ready_kept)

lemma place_one_ready:
  assumes "inj ids"
  shows "ensures (cycle_ready c ids k) (place_one now (ids k) items acc r)
    (\<lambda>_. cycle_ready c ids (Suc k)) (cycle_kept c)"
proof -
  have next_ready: "cycle_ready c ids (Suc k) (snd (place_one now (ids k) items acc r s))"
    if s: "cycle_ready c ids k s" for s
  proof (cases "dict_get items r")
    case None
    with s show ?thesis by (simp add: place_one_def op_defs cycle_ready_def unplaced_from_def)
  next
    case (Some item)
    have "snd (place_one now (ids k) items acc r s) =
        s\<lparr>sa_engine := snd (place_selected now (ids k) item (sa_engine s))\<rparr>"
      using Some
      by (simp add: place_one_def on_engine_def map_exn_def zoom_op_def bind_op_def return_op_def
          split: prod.split sum.split placement.split)
    then show ?thesis
      using place_keeps [OF assms, of c "sa_engine s" k now item] s by (simp add: cycle_ready_def)
  qed
  show ?thesis
  proof (rule ensuresI)
    fix s e t assume "cycle_ready c ids k s" "place_one now (ids k) items acc r s = (Inl e, t)"
    then show "cycle_kept c t" using next_ready [of s] by (simp add: ready_kept)
  next
    fix s a t assume "cycle_ready c ids k s" "place_one now (ids k) items acc r s = (Inr a, t)"
    then show "cycle_ready c ids (Suc k) t" using next_ready [of s] by simp
  qed
qed

lemma place_all_kept:
  "inj ids \<Longrightarrow>
   ensures (cycle_ready c ids k) (place_all now ids k items acc rs) (\<lambda>_. cycle_kept c) (cycle_kept c)"
proof (induction now ids k items acc rs rule: place_all.induct)
  case (1 now ids k items acc)
  then show ?case by (simp add: ensures_return ready_kept)
next
  case (2 now ids k items acc r rs)
  show ?case
    unfolding place_all.simps by (rule ensures_bind [OF place_one_ready [OF 2(2)] 2(1) [OF 2(2)]])
qed

lemma cycle_body_kept:
  assumes "inj ids"
  shows "ensures (cycle_ready c ids 0) (cycle_body now cid ids) (\<lambda>_. cycle_kept c) (cycle_kept c)"
proof -
  note quiet = quiet_ready [where c = c and ids = ids and k = 0]
  show ?thesis
    unfolding cycle_body_def Let_def
    by (rule ensures_then [OF quiet] ensures_bind [OF quiet] ensures_bind [OF place_all_kept [OF assms]]
        quiet_kept batch_quiet_intros batch_quiet.within_gets batch_quiet.within_iter)+
qed

lemma run_cycle_kept:
  assumes "inj ids" and "cycle_ready c ids 0 s"
  shows "cycle_kept c (snd (run_cycle now cid ids s))"
proof -
  have "ensures (cycle_ready c ids 0) (run_cycle now cid ids) (\<lambda>_. cycle_kept c) (cycle_kept c)"
    unfolding run_cycle_def
    by (rule ensures_then [OF quiet_ready [OF batches_begin]] ensures_bind
        ensures_catch [OF cycle_body_kept [OF assms(1)] quiet_kept [OF batches_fail]]
        quiet_kept batch_quiet.within_then batches_end batch_quiet.within_return)+
  then show ?thesis
    using assms(2) ensures_raised ensures_result
    by (cases "run_cycle now cid ids s"; cases "fst (run_cycle now cid ids s)") fastforce+
qed

end
