(* ===== verification/Platform_Properties.thy ===== *)
theory Platform_Properties
  imports Platform_Invariant Stream_Properties Control_Plane_Properties
begin

text \<open>
  Every state the embedded platform reaches, whatever sequence of requests, streams, background
  cycles and operations of its parts it runs: the invariants of the control plane and of the
  batches together, and what becomes of a registry that nothing is ever taken out of.
\<close>

section \<open>What every operation leaves true\<close>

definition platform_evolves :: "platform \<Rightarrow> platform \<Rightarrow> bool" where
  "platform_evolves s t \<longleftrightarrow>
     evolves (pf_control s) (pf_control t) \<and> registry_grows (pf_control s) (pf_control t) \<and>
     (\<forall>c. engine_kept c (pf_engine s) \<longrightarrow> engine_kept c (pf_engine t))"

interpretation whole: step_relation platform_evolves
  by unfold_locales
    (auto simp: platform_evolves_def intro: evolve.R_refl growing.R_refl evolve.R_trans growing.R_trans)

named_theorems whole_intros \<open>operations of the platform that keep its invariants\<close>

lemma on_control_whole:
  assumes "within_rel evolves m" and "within_rel registry_grows m"
  shows "within_rel platform_evolves (on_control m)"
proof (rule within_relI)
  fix s
  show "platform_evolves s (snd (on_control m s))"
    using within_relD [OF assms(1), of "pf_control s"] within_relD [OF assms(2), of "pf_control s"]
    by (cases "m (pf_control s)"; cases "fst (m (pf_control s))")
      (simp_all add: on_control_def map_exn_def zoom_op_def platform_evolves_def)
qed

lemma on_adapter_whole [whole_intros]: "within_rel platform_evolves (on_adapter m)"
  by (rule within_relI)
    (simp add: on_adapter_def map_exn_def zoom_op_def platform_evolves_def evolve.R_refl
      growing.R_refl split: prod.split sum.split)

lemma complete_keeps:
  "engine_kept c s \<Longrightarrow> engine_kept c (snd (complete_request_in_batch now fresh r s))"
  unfolding engine_kept_def complete_request_in_batch_def
  by (elim conjE, rule retire_request_cases [where s = s and st = MS_COMPLETED and r = r and now = now
        and fresh = fresh and reason = "''request_completed''"]) auto

lemma complete_whole [whole_intros]:
  "within_rel platform_evolves (on_batches (complete_request_in_batch now fresh r))"
proof (rule within_relI)
  fix s
  show "platform_evolves s (snd (on_batches (complete_request_in_batch now fresh r) s))"
    using complete_keeps [of _ "pf_engine s" now fresh r]
    by (cases "complete_request_in_batch now fresh r (pf_engine s)";
        cases "fst (complete_request_in_batch now fresh r (pf_engine s))")
      (simp_all add: on_batches_def map_exn_def zoom_op_def platform_evolves_def evolve.R_refl
        growing.R_refl)
qed

lemma transition_whole [whole_intros]: "within_rel platform_evolves (on_control (transition ck r st b k))"
  by (intro on_control_whole evolve_intros grow_intros)

lemma get_entry_whole [whole_intros]: "within_rel platform_evolves (on_control (get_entry r))"
  unfolding get_entry_def by (intro on_control_whole evolve_intros grow_intros)

lemma queued_whole [whole_intros]:
  "within_rel platform_evolves (on_control (process_through_queued af sweep ck submit))"
  by (intro on_control_whole evolve_intros grow_intros)

lemma completed_whole [whole_intros]: "within_rel platform_evolves (on_control (complete_request ck r c))"
  by (intro on_control_whole evolve_intros grow_intros)

lemma failed_whole [whole_intros]:
  "within_rel platform_evolves (on_control (mark_failed ck r reason m b k))"
  by (intro on_control_whole evolve_intros grow_intros)

lemma fail_request_whole [whole_intros]:
  "within_rel platform_evolves (fail_request env r reason message batch)"
  unfolding fail_request_def by (intro whole_intros)

lemma complete_submitted_whole [whole_intros]: "within_rel platform_evolves (complete_submitted env r i)"
  unfolding complete_submitted_def by (intro whole.within_intros whole_intros)

lemma finalize_whole [whole_intros]: "within_rel platform_evolves (finalize_request env r res ds)"
  unfolding finalize_request_def by (intro whole.within_intros whole_intros)

text \<open>\<open>uuid4\<close> gives every new batch an id of its own.\<close>

definition ids_unused :: "path_env \<Rightarrow> platform \<Rightarrow> bool" where
  "ids_unused env s \<longleftrightarrow> inj (pe_batch_ids env) \<and> unplaced_from (pe_batch_ids env) 0 (pf_engine s)"

lemma cycle_whole:
  fixes now :: datetime and cid :: string
  assumes "inj ids" and "unplaced_from ids 0 (pf_engine s)"
  defines "u \<equiv> snd (run_cycle now cid ids (pf_scheduler s))"
  shows "evolves (pf_control s) (sa_queue u)" "registry_grows (pf_control s) (sa_queue u)"
    and "engine_kept c (pf_engine s) \<Longrightarrow> engine_kept c (sa_engine u)"
  using within_relD [OF run_cycle_queue, of "pf_scheduler s" now cid ids]
    run_cycle_kept [OF assms(1), of c "pf_scheduler s" now cid] assms(2)
  by (simp_all add: cycle_step_def u_def cycle_ready_def cycle_kept_def)

lemma scheduled_whole:
  assumes run: "run_scheduling_cycle env s = Some (x, t)" and ids: "ids_unused env s"
  shows "platform_evolves s t"
proof -
  have "pf_scheduler t = snd (run_cycle (pe_cycle_now env) (pe_cycle_id env) (pe_batch_ids env) (pf_scheduler s))"
    using run unfolding run_scheduling_cycle_def
    by (auto split: prod.splits sum.splits option.splits if_splits)
  then show ?thesis
    using cycle_whole [where ids = "pe_batch_ids env" and s = s and now = "pe_cycle_now env"
        and cid = "pe_cycle_id env"] ids
    by (simp add: platform_evolves_def ids_unused_def)
qed

lemma on_control_engine: "pf_engine (snd (on_control m s)) = pf_engine s"
  by (simp add: on_control_def map_exn_def zoom_op_def split: prod.split sum.split)

lemma full_path_whole:
  assumes run: "execute_full_path af env submit s = Some (x, t)" and ids: "ids_unused env s"
  shows "platform_evolves s t"
proof -
  obtain q s1 where q: "on_control (process_through_queued af (pe_sweep env) (pe_admit env) submit) s = (q, s1)"
    by force
  have s1: "platform_evolves s s1"
    using within_relD [OF queued_whole, of s af "pe_sweep env" "pe_admit env" submit] q by simp
  have ids1: "ids_unused env s1"
    using ids on_control_engine [of "process_through_queued af (pe_sweep env) (pe_admit env) submit" s] q
    by (simp add: ids_unused_def)
  show ?thesis
  proof (cases "t = s1")
    case True
    with s1 show ?thesis by simp
  next
    case False
    then obtain res ds s2 where cycle: "run_scheduling_cycle env s1 = Some ((res, ds), s2)"
      and ended: "(case res of Inl x \<Rightarrow> (Inl (PX_Runtime []), s2)
        | Inr r \<Rightarrow> finalize_request env (submit_id submit) r ds s2) = (x, t)"
      using run q unfolding execute_full_path_def by (cases q) (auto split: if_splits)
    have t: "t = s2 \<or> (\<exists>r. t = snd (finalize_request env (submit_id submit) r ds s2))"
      using ended by (cases res) (auto simp: prod_eq_iff)
    from cycle ids1 have "platform_evolves s1 s2" by (rule scheduled_whole)
    moreover have "platform_evolves s2 (snd (finalize_request env (submit_id submit) r ds s2))" for r
      by (rule within_relD [OF finalize_whole])
    ultimately show ?thesis using s1 t by (auto intro: whole.R_trans)
  qed
qed

text \<open>The note of the gateway changes the traces only.\<close>

lemma note_evolves: "within_rel evolves (modify_op (\<lambda>q. q\<lparr>em_observers := f (em_observers q)\<rparr>))"
  by (rule within_relI) (simp add: op_defs evolves_def wf_cp_observers)

lemma note_grows: "within_rel registry_grows (modify_op (\<lambda>q. q\<lparr>em_observers := f (em_observers q)\<rparr>))"
  by (rule within_relI) (simp add: op_defs registry_grows_def)

lemma received_whole: "platform_evolves s (gateway_received now submit s)"
  unfolding gateway_received_def
  by (rule within_relD [OF on_control_whole]) (rule note_evolves, rule note_grows)

lemma received_same: "same_registry (pf_control s) (pf_control (gateway_received now submit s))"
  by (simp add: same_registry_def gateway_received_def on_control_def map_exn_def zoom_op_def op_defs)

lemma received_ids: "ids_unused env (gateway_received now submit s) = ids_unused env s"
  by (simp add: ids_unused_def gateway_received_def on_control_engine)

lemma accept_whole:
  assumes run: "accept_request af env describe captured submit s = Some (x, t)" and ids: "ids_unused env s"
  shows "platform_evolves s t"
proof -
  let ?s = "gateway_received (pe_received env) submit s"
  have "platform_evolves ?s t"
  proof (cases "ir_stream (sr_inference_request submit)")
    case True
    then have "t = snd (on_control (process_through_queued af (pe_sweep env) (pe_admit env) submit) ?s)"
      using run by (auto simp: accept_request_def Let_def answered_def split: prod.splits)
    then show ?thesis using within_relD [OF queued_whole] by simp
  next
    case False
    then obtain y where "execute_full_path af env submit ?s = Some (y, t)"
      using run by (auto simp: accept_request_def Let_def answered_def split: prod.splits)
    then show ?thesis using ids by (intro full_path_whole) (simp_all add: received_ids)
  qed
  with received_whole show ?thesis by (rule whole.R_trans)
qed

section \<open>Streams\<close>

definition stream_evolves :: "stream_engine \<Rightarrow> stream_engine \<Rightarrow> bool" where
  "stream_evolves x y \<longleftrightarrow> platform_evolves (se_platform x) (se_platform y)"

interpretation streaming: step_relation stream_evolves
  by unfold_locales (auto simp: stream_evolves_def intro: whole.R_refl whole.R_trans)

named_theorems stream_whole_intros \<open>steps of a stream that keep the platform's invariants\<close>

lemma on_platform_stream:
  assumes "within_rel platform_evolves m"
  shows "within_rel stream_evolves (on_platform m)"
proof (rule within_relI)
  fix s
  show "stream_evolves s (snd (on_platform m s))"
    using within_relD [OF assms, of "se_platform s"]
    by (cases "m (se_platform s)"; cases "fst (m (se_platform s))")
      (simp_all add: on_platform_def map_exn_def zoom_op_def stream_evolves_def)
qed

lemmas platform_stream [stream_whole_intros] = whole_intros [THEN on_platform_stream]

lemma modify_stream [stream_whole_intros]:
  "(\<And>s. se_platform (f s) = se_platform s) \<Longrightarrow> within_rel stream_evolves (modify_op f)"
  by (simp add: within_rel_def op_defs stream_evolves_def whole.R_refl)

lemma stream_transition_whole [stream_whole_intros]:
  "within_rel stream_evolves (stream_transition env r st b k)"
  unfolding stream_transition_def by (intro stream_whole_intros)

lemma queue_again_whole [stream_whole_intros]: "within_rel stream_evolves (queue_again af env submit)"
  unfolding queue_again_def by (intro stream_whole_intros)

lemma ensure_queued_whole: "within_rel stream_evolves (ensure_queued af env submit)"
  unfolding ensure_queued_def by (intro streaming.within_intros stream_whole_intros)

lemma refuse_whole [stream_whole_intros]: "within_rel stream_evolves (refuse env r reason m b)"
  unfolding refuse_def by (intro streaming.within_intros stream_whole_intros)

lemma begin_stream_whole [stream_whole_intros]: "within_rel stream_evolves (begin_stream env r res ds)"
  unfolding begin_stream_def enter_backend_def
  by (intro streaming.within_intros stream_whole_intros) (simp_all add: on_session_def)

lemma ensure_queued_slots: "within_rel same_slots (ensure_queued af env submit)"
  unfolding ensure_queued_def queue_again_def by (intro sl.within_intros control_slots)

lemma open_stream_whole:
  assumes run: "open_stream af env submit x = Some (res, y)" and ids: "ids_unused (sv_path env) (se_platform x)"
  shows "stream_evolves x y"
proof -
  obtain q t where q: "ensure_queued af env submit x = (q, t)" by force
  have t: "stream_evolves x t" using within_relD [OF ensure_queued_whole, of x af env submit] q by simp
  have idst: "ids_unused (sv_path env) (se_platform t)"
    using within_relD [OF ensure_queued_slots, of x af env submit] q ids
    by (simp add: same_slots_def ids_unused_def)
  show ?thesis
  proof (cases q)
    case (Inl e)
    with run q t show ?thesis by (simp add: open_stream_def)
  next
    case (Inr e)
    then obtain r ds p where cycle: "run_scheduling_cycle (sv_path env) (se_platform t) = Some ((r, ds), p)"
      and ended: "(case r of Inl x \<Rightarrow> (Inl (SE_Platform (PX_Runtime [])), t\<lparr>se_platform := p\<rparr>)
        | Inr r' \<Rightarrow> begin_stream env (submit_id submit) r' ds (t\<lparr>se_platform := p\<rparr>)) = (res, y)"
      using run q by (auto simp: open_stream_def)
    have y: "y = t\<lparr>se_platform := p\<rparr> \<or>
        (\<exists>r'. y = snd (begin_stream env (submit_id submit) r' ds (t\<lparr>se_platform := p\<rparr>)))"
      using ended by (cases r) (auto simp: prod_eq_iff)
    have p: "stream_evolves t (t\<lparr>se_platform := p\<rparr>)"
      using scheduled_whole [OF cycle idst] by (simp add: stream_evolves_def)
    have "stream_evolves (t\<lparr>se_platform := p\<rparr>)
        (snd (begin_stream env (submit_id submit) r' ds (t\<lparr>se_platform := p\<rparr>)))" for r'
      by (rule within_relD [OF begin_stream_whole])
    with t p y show ?thesis by (auto intro: streaming.R_trans)
  qed
qed

lemma modify_metrics_whole [stream_whole_intros]:
  "within_rel stream_evolves (on_platform (on_control
     (modify_op (modify_entry e (\<lambda>x. x\<lparr>re_stream_metrics := Some m\<rparr>)))))"
  by (intro on_platform_stream on_control_whole evolve_intros grow_intros)
    (simp_all add: keeps_place_def keeps_id_def re_request_id_def)

lemma capture_whole [stream_whole_intros]: "within_rel stream_evolves (capture_entry env e)"
  unfolding capture_entry_def by (intro streaming.within_intros stream_whole_intros) simp_all

lemma persist_whole [stream_whole_intros]: "within_rel stream_evolves (persist_stream_metrics env)"
  unfolding persist_stream_metrics_def by (intro streaming.within_intros stream_whole_intros)

lemma persist_failure_whole [stream_whole_intros]:
  "within_rel stream_evolves (persist_stream_failure env m)"
  unfolding persist_stream_failure_def by (intro streaming.within_intros stream_whole_intros)

lemma stream_updates [simp]:
  "se_platform (on_session f s) = se_platform s" "se_platform (set_stream_state st s) = se_platform s"
  "se_platform (set_completion t s) = se_platform s" "se_platform (emit_session now ev x s) = se_platform s"
  "se_platform (stream_metric g s) = se_platform s" "se_platform (send o1 s) = se_platform s"
  "se_platform (cancel_stream i s) = se_platform s"
  by (simp_all add: on_session_def set_stream_state_def set_completion_def emit_session_def
      stream_metric_def send_def cancel_stream_def)

lemma handle_cancel_whole [stream_whole_intros]: "within_rel stream_evolves (handle_cancel env)"
  unfolding handle_cancel_def cancel_request_of_stream_def cancel_backend_request_def
  by (intro streaming.within_intros stream_whole_intros) (simp_all add: cancelled_stream_def)

lemma deliver_whole: "within_rel stream_evolves (deliver_chunks env model created n b p cs)"
  by (induction env model created n b p cs rule: deliver_chunks.induct)
    (auto intro!: streaming.within_intros stream_whole_intros)

lemma close_whole [stream_whole_intros]: "within_rel stream_evolves (close_stream env r i b)"
  unfolding close_stream_def by (intro streaming.within_intros stream_whole_intros)

lemma run_opened_whole: "stream_evolves s (snd (run_opened env submit (opened, s)))"
proof -
  have opened: "within_rel stream_evolves (\<lambda>t. (opened, t))"
    by (simp add: within_rel_def streaming.R_refl)
  have chunks: "within_rel stream_evolves (stream_chunks env submit b)" for b
    unfolding stream_chunks_def
    by (intro streaming.within_intros stream_whole_intros deliver_whole)
  have finish: "within_rel stream_evolves (finish_stream env b)" for b
    unfolding finish_stream_def by (intro streaming.within_intros stream_whole_intros) simp_all
  have failed: "within_rel stream_evolves (stream_failed env m x)" for m x
    unfolding stream_failed_def Let_def
    by (intro streaming.within_intros stream_whole_intros) simp_all
  show ?thesis
    unfolding run_opened_def prod.case
    by (rule within_relD) (intro streaming.within_intros opened chunks finish failed)
qed

lemma stream_whole:
  assumes run: "stream_sse af env submit x = Some (res, y)" and ids: "ids_unused (sv_path env) (se_platform x)"
  shows "platform_evolves (se_platform x) (se_platform y)"
proof -
  have created: "se_platform (created_stream env x) = se_platform x" by (simp add: created_stream_def)
  obtain opened u where u: "open_stream af env submit (created_stream env x) = Some (opened, u)"
    "y = snd (run_opened env submit (opened, u))"
    using run by (auto simp: stream_sse_def)
  have "stream_evolves (created_stream env x) u"
    using open_stream_whole [OF u(1)] ids created by simp
  then have "stream_evolves (created_stream env x) y"
    unfolding u(2) by (rule streaming.R_trans) (rule run_opened_whole)
  then show ?thesis by (simp add: stream_evolves_def created)
qed

section \<open>Reachable states\<close>

text \<open>
  One step: a request of a client, a stream, a cycle of the background loop (which does not
  dispatch) or of the application, an operation of the control plane (a sweep, say), a call of the
  adapter, the retirement of a request, and the start or the stop of the scheduler.
\<close>

inductive platform_step :: "platform \<Rightarrow> platform \<Rightarrow> bool" where
  accepted: "ids_unused env s \<Longrightarrow>
    accept_request af env describe captured submit s = Some (x, t) \<Longrightarrow> platform_step s t"
| streamed: "ids_unused (sv_path senv) (se_platform u) \<Longrightarrow>
    stream_sse af senv submit u = Some (y, v) \<Longrightarrow> platform_step (se_platform u) (se_platform v)"
| ticked: "inj ids \<Longrightarrow> unplaced_from ids 0 (pf_engine s) \<Longrightarrow>
    platform_step s (s\<lparr>pf_scheduler := snd (run_cycle now cid ids (pf_scheduler s))\<rparr>)"
| scheduled: "ids_unused env s \<Longrightarrow> run_scheduling_cycle env s = Some (z, t) \<Longrightarrow> platform_step s t"
| controlled: "cp_step (pf_control s) q \<Longrightarrow>
    platform_step s (s\<lparr>pf_scheduler := (pf_scheduler s)\<lparr>sa_queue := q\<rparr>\<rparr>)"
| adapted: "platform_step s (snd (on_adapter (m :: unit adapt) s))"
| retired: "platform_step s (snd (on_batches (complete_request_in_batch now fresh r) s))"
| started: "platform_step s (s\<lparr>pf_scheduler := scheduler_startup (pf_scheduler s)\<rparr>)"
| stopped: "platform_step s (s\<lparr>pf_scheduler := scheduler_shutdown (pf_scheduler s)\<rparr>)"

lemma platform_step_evolves: "platform_step s t \<Longrightarrow> platform_evolves s t"
proof (induction rule: platform_step.induct)
  case (accepted env s af describe captured submit x t)
  then show ?case by (intro accept_whole)
next
  case (streamed senv u af submit y v)
  then show ?case by (intro stream_whole)
next
  case (ticked ids s now cid)
  then show ?case using cycle_whole [of ids s] by (simp add: platform_evolves_def)
next
  case (scheduled env s z t)
  then show ?case by (intro scheduled_whole)
next
  case (controlled s q)
  then show ?case by (simp add: platform_evolves_def cp_step_evolves cp_step_grows)
next
  case (adapted s m)
  show ?case by (rule within_relD [OF on_adapter_whole])
next
  case (retired s now fresh r)
  show ?case by (rule within_relD [OF complete_whole])
next
  case (started s)
  show ?case
    by (simp add: platform_evolves_def scheduler_startup_def evolve.R_refl growing.R_refl)
next
  case (stopped s)
  show ?case
    by (simp add: platform_evolves_def scheduler_shutdown_def evolve.R_refl growing.R_refl)
qed

lemma platform_run_evolves: "platform_step\<^sup>*\<^sup>* s t \<Longrightarrow> platform_evolves s t"
  by (induction rule: rtranclp.induct) (auto intro: whole.R_refl whole.R_trans platform_step_evolves)

lemma new_engine_kept: "new_engine c fi obs = Inr s \<Longrightarrow> engine_kept c s"
  using new_engine_ok [of c fi obs s] by (auto simp: engine_kept_def new_engine_def split: sum.splits)

lemma new_stack_ok:
  assumes "create_platform_stack st env = Inr k"
  shows "wf_cp (pf_control (ps_platform k))"
    and "rs_max_entries (pf_control (ps_platform k)) = cps_registry_max_entries (st_control st)"
    and "qc_max_queue_size (qs_config (pf_control (ps_platform k))) = cps_max_queue_size (st_control st)"
    and "engine_kept \<lparr>bac_max_batch_size = ss_max_batch_size (st_scheduler st),
      bac_max_active_requests = ss_max_active_requests (st_scheduler st),
      bac_batch_admission_window_ms = ss_batch_admission_window_ms (st_scheduler st)\<rparr>
      (pf_engine (ps_platform k))"
proof -
  obtain q sched where q: "create_control_plane (st_control st) (se_control_observers env) = Inr q"
    and sched: "create_scheduler (st_scheduler st) None (se_scheduler_observers env) (se_mode env) q = Inr sched"
    and k: "pf_scheduler (ps_platform k) = sched"
    using assms unfolding create_platform_stack_def by (auto split: sum.splits prod.splits)
  have "sa_queue sched = q"
    using sched by (auto simp: create_scheduler_def split: sum.splits)
  with k have queue: "pf_control (ps_platform k) = q" by simp
  show "wf_cp (pf_control (ps_platform k))"
    using q new_control_plane_wf queue by (simp add: create_control_plane_def)
  have "rs_max_entries q = cps_registry_max_entries (st_control st)"
    "qc_max_queue_size (qs_config q) = cps_max_queue_size (st_control st)"
    using q by (auto simp: create_control_plane_def new_control_plane_def split: sum.splits)
  then show "rs_max_entries (pf_control (ps_platform k)) = cps_registry_max_entries (st_control st)"
    "qc_max_queue_size (qs_config (pf_control (ps_platform k))) = cps_max_queue_size (st_control st)"
    by (simp_all add: queue)
  have "new_engine \<lparr>bac_max_batch_size = ss_max_batch_size (st_scheduler st),
      bac_max_active_requests = ss_max_active_requests (st_scheduler st),
      bac_batch_admission_window_ms = ss_batch_admission_window_ms (st_scheduler st)\<rparr>
      None (se_scheduler_observers env) = Inr (sa_engine sched)"
    using sched by (auto simp: create_scheduler_def split: sum.splits)
  then show "engine_kept \<lparr>bac_max_batch_size = ss_max_batch_size (st_scheduler st),
      bac_max_active_requests = ss_max_active_requests (st_scheduler st),
      bac_batch_admission_window_ms = ss_batch_admission_window_ms (st_scheduler st)\<rparr>
      (pf_engine (ps_platform k))"
    unfolding k by (rule new_engine_kept)
qed

section \<open>Concrete instances\<close>

definition no_observers :: observers where
  "no_observers = \<lparr>ob_trace = None, ob_metrics = None\<rparr>"

definition sample_stack_settings :: stack_settings where
  "sample_stack_settings =
     \<lparr>st_control = default_control_plane_settings, st_scheduler = default_scheduler_settings,
      st_adapter = default_adapter_settings\<rparr>"

definition sample_stack_env :: stack_env where
  "sample_stack_env =
     \<lparr>se_now = 0, se_mode = SM_ACCEPTING, se_route_ids = (\<lambda>_. ''route''), se_init_nvml = (\<lambda>_. None),
      se_init_nvml_probe = Inl ''no NVML'', se_control_observers = no_observers,
      se_scheduler_observers = no_observers, se_adapter_observers = no_observers,
      se_route_observers = no_observers, se_gpu_observers = no_observers\<rparr>"

lemma sample_stack: "\<exists>k. create_platform_stack sample_stack_settings sample_stack_env = Inr k"
proof -
  have "case create_platform_stack sample_stack_settings sample_stack_env of Inl x \<Rightarrow> False | Inr k \<Rightarrow> True"
    by code_simp
  then show ?thesis by (simp split: sum.splits)
qed

section \<open>Properties\<close>

text \<open>C3: In every state the embedded stack reaches from its start, through requests, streams,
  background cycles and operations of its parts in any order (with new ids for new batches): the
  registry holds distinct requests within its capacity, the waiting queue is within its capacity
  with positions 1, 2, ..., at most \<open>max_active_requests\<close> requests are active in batches, and
  every batch has at most \<open>max_batch_size\<close> active members, in different slots.\<close>

theorem platform_reachable_ok:
  assumes "create_platform_stack st env = Inr k" and "platform_step\<^sup>*\<^sup>* (ps_platform k) p"
  shows "distinct (dict_keys (rs_entries (pf_control p))) \<and>
    int (length (rs_entries (pf_control p))) \<le> max 0 (cps_registry_max_entries (st_control st)) \<and>
    int (length (qs_items (pf_control p))) \<le> max 0 (cps_max_queue_size (st_control st)) \<and>
    map q_position (qs_items (pf_control p)) = [1..<Suc (length (qs_items (pf_control p)))] \<and>
    int (global_active_count (pf_engine p)) \<le> ss_max_active_requests (st_scheduler st) \<and>
    (\<forall>b \<in> set (list_batches (pf_engine p)).
       int (active_member_count b) \<le> ss_max_batch_size (st_scheduler st) \<and>
       distinct (map bm_slot_index (active_members b)))"
proof -
  note new = new_stack_ok [OF assms(1)]
  have run: "platform_evolves (ps_platform k) p" using assms(2) by (rule platform_run_evolves)
  have cp: "wf_cp (pf_control p)" using run new(1) by (simp add: platform_evolves_def evolves_def)
  have caps: "rs_max_entries (pf_control p) = cps_registry_max_entries (st_control st)"
    "qc_max_queue_size (qs_config (pf_control p)) = cps_max_queue_size (st_control st)"
    using run new(2,3) by (simp_all add: platform_evolves_def registry_grows_def)
  have engine: "engine_ok (pf_engine p)"
    "bac_max_batch_size (eg_config (pf_engine p)) = ss_max_batch_size (st_scheduler st)"
    "bac_max_active_requests (eg_config (pf_engine p)) = ss_max_active_requests (st_scheduler st)"
    using run new(4) by (auto simp: platform_evolves_def engine_kept_def)
  have "slots_ok (eg_config (pf_engine p)) b" if "b \<in> set (list_batches (pf_engine p))" for b
    using listed_ok(2) [OF engine(1) that] by (simp add: batch_ok_def)
  then show ?thesis
    using cp engine_okD(6) [OF engine(1)]
    by (simp add: caps [symmetric] engine(2,3) [symmetric] slots_ok_def wf_cp_def wf_registry_def
        wf_dict_def within_capacity_def wf_queue_def pre_queue_def del: upt_Suc)
qed

theorem platform_reachable_ok_witness:
  "\<exists>k. create_platform_stack sample_stack_settings sample_stack_env = Inr k \<and>
     int (global_active_count (pf_engine ((ps_platform k)
       \<lparr>pf_scheduler := scheduler_startup (pf_scheduler (ps_platform k))\<rparr>))) \<le> 32"
proof -
  obtain k where k: "create_platform_stack sample_stack_settings sample_stack_env = Inr k"
    using sample_stack by blast
  have "platform_step\<^sup>*\<^sup>* (ps_platform k)
      ((ps_platform k)\<lparr>pf_scheduler := scheduler_startup (pf_scheduler (ps_platform k))\<rparr>)"
    by (rule r_into_rtranclp, rule started)
  from platform_reachable_ok [OF k this] k show ?thesis
    by (simp add: sample_stack_settings_def default_scheduler_settings_def)
qed

text \<open>C10: The registry is never emptied: once it is full it stays full in every later state of the
  platform, whatever becomes of its requests, and every request with a new id, streaming or not, is
  answered with an internal error 500 that says it was not found, and is not registered.\<close>

theorem full_registry_refuses_for_ever:
  assumes "registry_full (pf_control p)" and "platform_step\<^sup>*\<^sup>* p q"
    and "dict_get (rs_entries (pf_control q)) (submit_id submit) = None"
  shows "\<exists>t. accept_request af env describe captured submit q = Some (Inl (gateway_error INTERNAL_ERROR
      (''platform failure: '' @ exn_message (RequestNotFoundError (submit_id submit))) 500), t) \<and>
    rs_entries (pf_control t) = rs_entries (pf_control q) \<and> registry_full (pf_control t)"
proof -
  have full: "registry_full (pf_control q)"
    using platform_run_evolves [OF assms(2)] registry_full_grows [OF assms(1)]
    by (simp add: platform_evolves_def)
  let ?m = "process_through_queued af (pe_sweep env) (pe_admit env) submit"
  let ?r = "gateway_received (pe_received env) submit q"
  have same_r: "same_registry (pf_control q) (pf_control ?r)" by (rule received_same)
  then have full_r: "registry_full (pf_control ?r)" using full registry_full_same by blast
  have new: "dict_get (rs_entries (pf_control ?r)) (submit_id submit) = None"
    using same_r assms(3) by (simp add: same_registry_def)
  obtain c where run: "?m (pf_control ?r) = (Inl (RequestNotFoundError (submit_id submit)), c)"
    and same: "same_registry (pf_control ?r) c"
    using submit_when_full [OF full_r new, of af "pe_sweep env" "pe_admit env"]
    by (cases "?m (pf_control ?r)") auto
  let ?t = "?r\<lparr>pf_scheduler := (pf_scheduler ?r)\<lparr>sa_queue := c\<rparr>\<rparr>"
  have "on_control ?m ?r = (Inl (PX_Control (RequestNotFoundError (submit_id submit))), ?t)"
    by (simp add: on_control_def map_exn_def zoom_op_def run)
  then have "accept_request af env describe captured submit q = Some (Inl (gateway_error INTERNAL_ERROR
      (''platform failure: '' @ exn_message (RequestNotFoundError (submit_id submit))) 500), ?t)"
    by (simp add: accept_request_def Let_def execute_full_path_def answered_def control_error_def)
  moreover have "rs_entries (pf_control ?t) = rs_entries (pf_control q)" "registry_full (pf_control ?t)"
    using same same_r full_r registry_full_same [OF same] by (simp_all add: same_registry_def)
  ultimately show ?thesis by blast
qed

definition sample_full :: platform where
  "sample_full =
     \<lparr>pf_scheduler =
        \<lparr>sa_settings = \<lparr>cs_max_candidate_requests = 10, cs_queue_scan_limit = 100\<rparr>,
         sa_policy = FIFOSchedulerPolicy, sa_queue = sample_queued\<lparr>rs_max_entries := 1\<rparr>,
         sa_engine = sample_engine, sa_process_mode = SM_ACCEPTING, sa_loop_running = False,
         sa_current_cycle = None, sa_last_completed_cycle = None, sa_total_cycles = 0\<rparr>,
      pf_dispatch = None, pf_dispatch_enabled = False, pf_world = sample_world\<rparr>"

theorem full_registry_refuses_for_ever_witness:
  "\<forall>env. \<exists>t. accept_request no_checks env (\<lambda>_. []) None (sample_submit ''b'') sample_full =
     Some (Inl (gateway_error INTERNAL_ERROR
       (''platform failure: '' @ exn_message (RequestNotFoundError ''b'')) 500), t)"
proof
  fix env
  have "registry_full (pf_control sample_full)"
    "dict_get (rs_entries (pf_control sample_full)) (submit_id (sample_submit ''b'')) = None"
    by (simp_all add: registry_full_def sample_full_def sample_defs submit_id_def)
  then show "\<exists>t. accept_request no_checks env (\<lambda>_. []) None (sample_submit ''b'') sample_full =
     Some (Inl (gateway_error INTERNAL_ERROR
       (''platform failure: '' @ exn_message (RequestNotFoundError ''b'')) 500), t)"
    using full_registry_refuses_for_ever [of sample_full sample_full "sample_submit ''b''" no_checks env
        "\<lambda>_. []" None]
    by (auto simp: submit_id_def sample_submit_def sample_request_def)
qed

end
