(* ===== verification/Benchmark_Models.thy ===== *)
theory Benchmark_Models
  imports Platform_Properties Execution_Records
begin

text \<open>
  The data of the benchmarks (\<open>benchmarks/runner\<close>): results, summaries and runs (\<open>models.py\<close>), the
  workload profiles (\<open>profiles.py\<close>, \<open>tokens.py\<close>), the batching modes (\<open>batching_modes.py\<close>), the
  scheduling policies that are compared (\<open>scheduler_policies.py\<close>), the levels of concurrency
  (\<open>scaling_levels.py\<close>) and the environment that is written down (\<open>environment.py\<close>).

  What is read from files, from the operating system and from the process environment is an
  argument. The dictionaries \<open>dict[str, Any]\<close> are those of the trace events (\<open>extra\<close>).
\<close>

section \<open>Records (models.py)\<close>

record hardware_metadata =
  hw_platform :: string
  hw_python_version :: string
  hw_cpu_model :: "string option"
  hw_ram_bytes :: "int option"
  hw_gpu_model :: "string option"
  hw_gpu_memory_total_bytes :: "int option"
  hw_gpu_count :: nat
  hw_gpu_source :: string
  hw_hostname :: "string option"
  hw_os_name :: "string option"
  hw_os_version :: "string option"

record model_metadata =
  md_model_id :: string
  md_backend_id :: "string option"
  md_max_output_tokens :: "int option"
  md_stream :: bool
  md_model_size :: "string option"
  md_vllm_version :: "string option"
  md_configuration :: extra

record benchmark_environment =
  be_gpu_model :: "string option"
  be_gpu_memory_total_bytes :: "int option"
  be_gpu_count :: nat
  be_gpu_source :: string
  be_cpu_model :: "string option"
  be_ram_bytes :: "int option"
  be_os :: string
  be_platform :: string
  be_python_version :: string
  be_vllm_version :: "string option"
  be_model_name :: string
  be_model_size :: "string option"
  be_backend_id :: string
  be_hostname :: "string option"
  be_captured_at :: datetime

record benchmark_scenario =
  sc_scenario_id :: string
  sc_name :: string
  sc_description :: string
  sc_concurrency :: int
  sc_request_count :: int
  sc_workload_profile :: string
  sc_stream :: bool
  sc_mixed_stream_ratio :: "rat option"

definition scenario_valid :: "benchmark_scenario \<Rightarrow> bool" where
  "scenario_valid s \<longleftrightarrow> 1 \<le> sc_concurrency s \<and> 1 \<le> sc_request_count s \<and>
     in_range 0 1 (sc_mixed_stream_ratio s)"

record benchmark_result =
  bn_request_index :: nat
  bn_request_id :: "string option"
  bn_success :: bool
  bn_error :: "string option"
  bn_latency_ms :: "rat option"
  bn_ttft_ms :: "rat option"
  bn_itl_ms_samples :: "rat list"
  bn_queue_wait_ms :: "rat option"
  bn_scheduler_latency_ms :: "rat option"
  bn_batch_latency_ms :: "rat option"
  bn_queue_depth_at_schedule :: "int option"
  bn_request_age_ms :: "rat option"
  bn_scheduling_delay_ms :: "rat option"
  bn_batch_member_count :: "int option"
  bn_stream :: bool
  bn_prompt_chars :: int
  bn_max_tokens :: int
  bn_estimated_input_tokens :: int
  bn_tokens_generated :: "int option"
  bn_gpu_utilization_percent :: "rat option"
  bn_gpu_memory_used_bytes :: "int option"
  bn_gpu_metrics_source :: "string option"
  bn_kv_cache_occupancy_ratio :: "rat option"
  bn_active_sequences :: "int option"

text \<open>A result with the defaults of the fields that have one.\<close>

definition plain_result :: "nat \<Rightarrow> bool \<Rightarrow> benchmark_result" where
  "plain_result i ok =
     \<lparr>bn_request_index = i, bn_request_id = None, bn_success = ok, bn_error = None,
      bn_latency_ms = None, bn_ttft_ms = None, bn_itl_ms_samples = [], bn_queue_wait_ms = None,
      bn_scheduler_latency_ms = None, bn_batch_latency_ms = None, bn_queue_depth_at_schedule = None,
      bn_request_age_ms = None, bn_scheduling_delay_ms = None, bn_batch_member_count = None,
      bn_stream = False, bn_prompt_chars = 0, bn_max_tokens = 0, bn_estimated_input_tokens = 0,
      bn_tokens_generated = None, bn_gpu_utilization_percent = None, bn_gpu_memory_used_bytes = None,
      bn_gpu_metrics_source = None, bn_kv_cache_occupancy_ratio = None, bn_active_sequences = None\<rparr>"

text \<open>The bounds pydantic checks when a result is built (a copy with updates is not checked).\<close>

definition result_valid :: "benchmark_result \<Rightarrow> bool" where
  "result_valid r \<longleftrightarrow>
     list_all not_negative
       [bn_latency_ms r, bn_ttft_ms r, bn_queue_wait_ms r, bn_scheduler_latency_ms r, bn_batch_latency_ms r,
        bn_request_age_ms r, bn_scheduling_delay_ms r, bn_gpu_utilization_percent r,
        bn_kv_cache_occupancy_ratio r] \<and>
     list_all (\<lambda>x. not_negative (map_option of_int x))
       [bn_queue_depth_at_schedule r, bn_batch_member_count r, bn_tokens_generated r,
        bn_gpu_memory_used_bytes r, bn_active_sequences r]"

record telemetry_sample =
  ts_captured_at :: datetime
  ts_queue_depth :: int
  ts_active_requests :: int
  ts_active_sequences :: int
  ts_kv_cache_occupancy_ratio :: rat
  ts_estimated_kv_bytes :: int
  ts_gpu_utilization_percent :: "rat option"
  ts_gpu_memory_used_bytes :: "int option"
  ts_scheduler_total_cycles :: int

record bottleneck_analysis =
  ba_primary_bottleneck :: string
  ba_classifications :: "(string, bool) dict"
  ba_evidence :: "string list"

record benchmark_summary =
  su_total_requests :: nat
  su_successful_requests :: nat
  su_failed_requests :: nat
  su_throughput_rps :: "rat option"
  su_latency_ms_p50 :: "rat option"
  su_latency_ms_p95 :: "rat option"
  su_latency_ms_p99 :: "rat option"
  su_ttft_ms_p50 :: "rat option"
  su_ttft_ms_p95 :: "rat option"
  su_ttft_ms_p99 :: "rat option"
  su_itl_ms_p50 :: "rat option"
  su_itl_ms_p95 :: "rat option"
  su_queue_wait_ms_p50 :: "rat option"
  su_gpu_utilization_percent_p50 :: "rat option"
  su_gpu_memory_used_bytes_p50 :: "int option"
  su_tokens_per_second :: "rat option"
  su_kv_cache_occupancy_ratio_p50 :: "rat option"
  su_active_sequences_p50 :: "rat option"
  su_duration_seconds :: rat

record benchmark_run =
  run_run_id :: uuid
  run_scenario :: benchmark_scenario
  run_environment :: "benchmark_environment option"
  run_hardware :: hardware_metadata
  run_model :: model_metadata
  run_started_at :: datetime
  run_completed_at :: "datetime option"
  run_results :: "benchmark_result list"
  run_summary :: "benchmark_summary option"
  run_metrics_snapshot :: "(string, rat) dict"
  run_runner :: string
  run_scheduler_policy :: "string option"
  run_scheduler_policy_config :: extra
  run_batching_mode :: "string option"
  run_batching_config :: extra
  run_runtime_snapshot :: extra
  run_telemetry_samples :: "telemetry_sample list"
  run_bottleneck :: "bottleneck_analysis option"

section \<open>Token estimates and workload profiles (tokens.py, profiles.py)\<close>

definition estimate_input_tokens :: "string \<Rightarrow> int" where
  "estimate_input_tokens text =
     (let stripped = strip text in
      if stripped = [] then 0 else max 1 (int (length stripped) div 4))"

definition estimation_method :: string where
  "estimation_method = ''chars_div_4''"

record workload_profile =
  wp_profile_id :: string
  wp_prompt_key :: string
  wp_max_tokens :: int
  wp_stream :: bool
  wp_input_size_label :: string
  wp_output_size_label :: string
  wp_expected_behavior :: string
  wp_target_output_tokens :: int
  wp_rationale :: string
  wp_token_estimation_method :: string

text \<open>\<open>_load_prompts\<close>: the file \<open>prompts.json\<close> as it was read, or nothing.\<close>

definition load_prompts :: "(string, string) dict option \<Rightarrow> (string, string) dict" where
  "load_prompts file =
     (case file of
        None \<Rightarrow>
          [(''short'', ''Hello''), (''medium'', ''Explain batching.''),
           (''long'', ''Write a long technical overview of inference serving.'')]
      | Some prompts \<Rightarrow> prompts)"

definition short_prompt_profile :: workload_profile where
  "short_prompt_profile =
     \<lparr>wp_profile_id = ''short_prompt'', wp_prompt_key = ''short'', wp_max_tokens = 32, wp_stream = False,
      wp_input_size_label = ''~10 words'', wp_output_size_label = ''<=32 tokens'',
      wp_expected_behavior = ''Minimal prompt; measures platform overhead on short requests'',
      wp_target_output_tokens = 32,
      wp_rationale = ''Reference point for low input volume and bounded output'',
      wp_token_estimation_method = estimation_method\<rparr>"

definition medium_prompt_profile :: workload_profile where
  "medium_prompt_profile =
     \<lparr>wp_profile_id = ''medium_prompt'', wp_prompt_key = ''medium'', wp_max_tokens = 128, wp_stream = False,
      wp_input_size_label = ''~80 words'', wp_output_size_label = ''<=128 tokens'',
      wp_expected_behavior = ''Moderate prompt length; default concurrency baseline workload'',
      wp_target_output_tokens = 128,
      wp_rationale = ''Represents typical interactive query length'',
      wp_token_estimation_method = estimation_method\<rparr>"

definition long_prompt_profile :: workload_profile where
  "long_prompt_profile =
     \<lparr>wp_profile_id = ''long_prompt'', wp_prompt_key = ''long'', wp_max_tokens = 256, wp_stream = False,
      wp_input_size_label = ''~400 words'', wp_output_size_label = ''<=256 tokens'',
      wp_expected_behavior = ''Long prompt; exercises admission and batch placement'',
      wp_target_output_tokens = 256,
      wp_rationale = ''Stress input-side token volume without changing backend'',
      wp_token_estimation_method = estimation_method\<rparr>"

definition streaming_profile :: workload_profile where
  "streaming_profile =
     \<lparr>wp_profile_id = ''streaming'', wp_prompt_key = ''short'', wp_max_tokens = 64, wp_stream = True,
      wp_input_size_label = ''~10 words'', wp_output_size_label = ''<=64 streamed tokens'',
      wp_expected_behavior = ''Streaming path with TTFT and ITL measurement'',
      wp_target_output_tokens = 64,
      wp_rationale = ''Baseline for token delivery latency independent of sync completion path'',
      wp_token_estimation_method = estimation_method\<rparr>"

definition mixed_profile :: workload_profile where
  "mixed_profile =
     \<lparr>wp_profile_id = ''mixed'', wp_prompt_key = ''medium'', wp_max_tokens = 64, wp_stream = False,
      wp_input_size_label = ''~80 words'', wp_output_size_label = ''<=64 tokens'',
      wp_expected_behavior = ''Scenario alternates sync and stream requests'',
      wp_target_output_tokens = 64,
      wp_rationale = ''Mixed-mode reference for future comparison runs'',
      wp_token_estimation_method = estimation_method\<rparr>"

definition mixed_job_sizes_profile :: workload_profile where
  "mixed_job_sizes_profile =
     \<lparr>wp_profile_id = ''mixed_job_sizes'', wp_prompt_key = ''short'', wp_max_tokens = 64, wp_stream = True,
      wp_input_size_label = ''alternating short/long max_tokens'',
      wp_output_size_label = ''32 or 256 per request index'',
      wp_expected_behavior = ''Alternates short and long job estimates for policy comparison'',
      wp_target_output_tokens = 64,
      wp_rationale = ''Expose scheduler ordering differences under identical batching configuration'',
      wp_token_estimation_method = estimation_method\<rparr>"

definition profiles :: "(string, workload_profile) dict" where
  "profiles = map (\<lambda>p. (wp_profile_id p, p))
     [short_prompt_profile, medium_prompt_profile, long_prompt_profile, streaming_profile,
      mixed_profile, mixed_job_sizes_profile]"

text \<open>A look-up raises \<open>KeyError\<close> with its message.\<close>

definition get_profile :: "string \<Rightarrow> string + workload_profile" where
  "get_profile i =
     (case dict_get profiles i of
        None \<Rightarrow> Inl (''unknown workload profile: '' @ i)
      | Some p \<Rightarrow> Inr p)"

definition prompt_for_profile :: "(string, string) dict option \<Rightarrow> workload_profile \<Rightarrow> string" where
  "prompt_for_profile file p =
     (case dict_get (load_prompts file) (wp_prompt_key p) of
        None \<Rightarrow> wp_prompt_key p
      | Some text \<Rightarrow> text)"

definition estimated_input_tokens_for_profile ::
  "(string, string) dict option \<Rightarrow> workload_profile \<Rightarrow> int" where
  "estimated_input_tokens_for_profile file p = estimate_input_tokens (prompt_for_profile file p)"

section \<open>Batching modes (batching_modes.py)\<close>

record batching_mode =
  mo_mode_id :: string
  mo_name :: string
  mo_max_batch_size :: int
  mo_batch_admission_window_ms :: int
  mo_min_dispatch_members :: "int option"
  mo_description :: string

text \<open>\<open>base\<close> is what \<open>Settings\<close> reads of its other fields from the process environment.\<close>

definition mode_settings :: "scheduler_settings \<Rightarrow> int \<Rightarrow> batching_mode \<Rightarrow> scheduler_settings" where
  "mode_settings base concurrency m =
     base\<lparr>ss_cycle := (ss_cycle base)\<lparr>cs_max_candidate_requests := nat (max concurrency 1)\<rparr>,
          ss_max_batch_size := mo_max_batch_size m,
          ss_batch_admission_window_ms := mo_batch_admission_window_ms m,
          ss_max_active_requests := max (concurrency * 2) 32,
          ss_tick_interval_ms := 60000\<rparr>"

definition mode_config :: "batching_mode \<Rightarrow> extra" where
  "mode_config m =
     [(''mode_id'', X_STR (mo_mode_id m)), (''name'', X_STR (mo_name m)),
      (''max_batch_size'', X_INT (mo_max_batch_size m)),
      (''batch_admission_window_ms'', X_INT (mo_batch_admission_window_ms m)),
      (''min_dispatch_members'',
        (case mo_min_dispatch_members m of None \<Rightarrow> X_NONE | Some n \<Rightarrow> X_INT n)),
      (''description'', X_STR (mo_description m))]"

definition effective_min_dispatch_members :: "int \<Rightarrow> batching_mode \<Rightarrow> int option" where
  "effective_min_dispatch_members concurrency m =
     map_option (\<lambda>n. min (min n concurrency) (mo_max_batch_size m)) (mo_min_dispatch_members m)"

definition no_batching_mode :: batching_mode where
  "no_batching_mode =
     \<lparr>mo_mode_id = ''no_batching'', mo_name = ''NoBatchingMode'', mo_max_batch_size = 1,
      mo_batch_admission_window_ms = 1, mo_min_dispatch_members = Some 1,
      mo_description = ''One request per batch; immediate dispatch when batch has one member''\<rparr>"

definition static_batching_mode :: batching_mode where
  "static_batching_mode =
     \<lparr>mo_mode_id = ''static_batching'', mo_name = ''StaticBatchingMode'', mo_max_batch_size = 4,
      mo_batch_admission_window_ms = 3600000, mo_min_dispatch_members = Some 4,
      mo_description = ''Dispatch only when batch reaches max_batch_size; long admission window''\<rparr>"

definition continuous_batching_mode :: batching_mode where
  "continuous_batching_mode =
     \<lparr>mo_mode_id = ''continuous_batching'', mo_name = ''ContinuousBatchingMode'', mo_max_batch_size = 4,
      mo_batch_admission_window_ms = 50, mo_min_dispatch_members = Some 1,
      mo_description =
        ''Short admission window; dispatch partial batches; allow join to active batches''\<rparr>"

definition batching_modes :: "(string, batching_mode) dict" where
  "batching_modes = map (\<lambda>m. (mo_mode_id m, m))
     [no_batching_mode, static_batching_mode, continuous_batching_mode]"

definition get_batching_mode :: "string \<Rightarrow> string + batching_mode" where
  "get_batching_mode i =
     (case dict_get batching_modes i of
        None \<Rightarrow> Inl (''unknown batching mode: '' @ i)
      | Some m \<Rightarrow> Inr m)"

definition all_batching_mode_ids :: "string list" where
  "all_batching_mode_ids = dict_keys batching_modes"

section \<open>Scheduling policies (scheduler_policies.py)\<close>

record policy_mode =
  po_policy_id :: string
  po_name :: string
  po_description :: string

text \<open>A copy with updates: the settings of the caller, or those of the process environment.\<close>

definition policy_settings_of ::
  "scheduler_settings \<Rightarrow> int \<Rightarrow> scheduler_settings option \<Rightarrow> policy_mode \<Rightarrow> scheduler_settings" where
  "policy_settings_of from_env concurrency base p =
     (let b = (case base of None \<Rightarrow> from_env | Some s \<Rightarrow> s) in
      b\<lparr>ss_policy := (ss_policy b)\<lparr>ps_scheduler_policy_id := po_policy_id p\<rparr>,
        ss_cycle := (ss_cycle b)\<lparr>cs_max_candidate_requests := nat (max concurrency 1)\<rparr>\<rparr>)"

definition policy_config :: "policy_mode \<Rightarrow> extra" where
  "policy_config p =
     [(''policy_id'', X_STR (po_policy_id p)), (''name'', X_STR (po_name p)),
      (''description'', X_STR (po_description p))]"

definition fifo_mode :: policy_mode where
  "fifo_mode = \<lparr>po_policy_id = ''fifo'', po_name = ''FIFOSchedulerPolicy'',
     po_description = ''Oldest queued request first; baseline ordering''\<rparr>"

definition shortest_job_first_mode :: policy_mode where
  "shortest_job_first_mode = \<lparr>po_policy_id = ''shortest_job_first'', po_name = ''ShortestJobFirstPolicy'',
     po_description = ''Smallest estimated_job_tokens first (input estimate + max_tokens)''\<rparr>"

definition latency_aware_mode :: policy_mode where
  "latency_aware_mode = \<lparr>po_policy_id = ''latency_aware'', po_name = ''LatencyAwarePolicy'',
     po_description = ''Highest queue_wait/age pressure relative to static objectives''\<rparr>"

definition fairness_mode :: policy_mode where
  "fairness_mode = \<lparr>po_policy_id = ''fairness'', po_name = ''FairnessPolicy'',
     po_description = ''Deficit fairness across priority_class weights''\<rparr>"

definition scheduler_policies :: "(string, policy_mode) dict" where
  "scheduler_policies = map (\<lambda>p. (po_policy_id p, p))
     [fifo_mode, shortest_job_first_mode, latency_aware_mode, fairness_mode]"

definition get_scheduler_policy :: "string \<Rightarrow> string + policy_mode" where
  "get_scheduler_policy i =
     (case dict_get scheduler_policies i of
        None \<Rightarrow> Inl (''unknown scheduler policy: '' @ i)
      | Some p \<Rightarrow> Inr p)"

definition all_scheduler_policy_ids :: "string list" where
  "all_scheduler_policy_ids = dict_keys scheduler_policies"

section \<open>Levels of concurrency (scaling_levels.py)\<close>

definition scaling_levels :: "int list" where
  "scaling_levels = [1, 2, 4, 8, 16, 32, 64, 128]"

definition scaling_scenario :: "int \<Rightarrow> benchmark_scenario" where
  "scaling_scenario c =
     \<lparr>sc_scenario_id = ''scaling_c'' @ show_int c, sc_name = ''scaling_c'' @ show_int c,
      sc_description = ''Concurrency scaling experiment at concurrency '' @ show_int c,
      sc_concurrency = c, sc_request_count = c, sc_workload_profile = ''streaming'',
      sc_stream = True, sc_mixed_stream_ratio = None\<rparr>"

definition scaling_scenario_ids :: "int list \<Rightarrow> string list" where
  "scaling_scenario_ids levels = map (\<lambda>c. ''scaling_c'' @ show_int c) levels"

section \<open>Environment (environment.py)\<close>

text \<open>What the capture reads of the machine and of the process.\<close>

record machine =
  mc_platform :: string
  mc_python_version :: string
  mc_processor :: string
  mc_machine :: string
  mc_ram_bytes :: "int option"
  mc_hostname :: string
  mc_system :: string
  mc_release :: string
  mc_model_size :: "string option"
  mc_vllm_version :: "string option"
  mc_init_nvml :: nvml_reads
  mc_nvml_probe :: nvml_probe
  mc_nvml :: nvml_reads

fun gpu_source_value :: "gpu_metrics_source \<Rightarrow> string" where
  "gpu_source_value GS_NVML = ''nvml''"
| "gpu_source_value GS_FALLBACK = ''fallback''"
| "gpu_source_value GS_SIMULATED = ''simulated''"

definition capture_gpu_fields :: "machine \<Rightarrow> string option \<times> int option \<times> nat \<times> string" where
  "capture_gpu_fields mc =
     (case probe_collect (mc_nvml mc) (create_gpu_probe (mc_init_nvml mc) (mc_nvml_probe mc) None) of
        [] \<Rightarrow> (None, None, 0, ''unavailable'')
      | d # ds \<Rightarrow>
          (if 0 < gd_memory_total_bytes d then Some (''device_'' @ show_nat (gd_device_id d)) else None,
           Some (gd_memory_total_bytes d), Suc (length ds), gpu_source_value (gd_source d)))"

definition capture_hardware_metadata :: "machine \<Rightarrow> hardware_metadata" where
  "capture_hardware_metadata mc =
     (case capture_gpu_fields mc of
        (gpu_model, gpu_memory_total, gpu_count, gpu_source) \<Rightarrow>
          \<lparr>hw_platform = mc_platform mc, hw_python_version = mc_python_version mc,
           hw_cpu_model = Some (if mc_processor mc \<noteq> [] then mc_processor mc else mc_machine mc),
           hw_ram_bytes = mc_ram_bytes mc, hw_gpu_model = gpu_model,
           hw_gpu_memory_total_bytes = gpu_memory_total, hw_gpu_count = gpu_count,
           hw_gpu_source = gpu_source, hw_hostname = Some (mc_hostname mc),
           hw_os_name = Some (mc_system mc), hw_os_version = Some (mc_release mc)\<rparr>)"

definition capture_model_metadata :: "machine \<Rightarrow> string \<Rightarrow> string \<Rightarrow> bool \<Rightarrow> model_metadata" where
  "capture_model_metadata mc model backend stream =
     \<lparr>md_model_id = model, md_backend_id = Some backend, md_max_output_tokens = None, md_stream = stream,
      md_model_size = mc_model_size mc, md_vllm_version = mc_vllm_version mc,
      md_configuration = [(''source'', X_STR ''benchmark_runner''), (''model_name'', X_STR model)]\<rparr>"

definition capture_benchmark_environment ::
  "machine \<Rightarrow> datetime \<Rightarrow> string \<Rightarrow> string \<Rightarrow> bool \<Rightarrow> benchmark_environment" where
  "capture_benchmark_environment mc now model backend stream =
     (let h = capture_hardware_metadata mc; m = capture_model_metadata mc model backend stream in
      \<lparr>be_gpu_model = hw_gpu_model h, be_gpu_memory_total_bytes = hw_gpu_memory_total_bytes h,
       be_gpu_count = hw_gpu_count h, be_gpu_source = hw_gpu_source h, be_cpu_model = hw_cpu_model h,
       be_ram_bytes = hw_ram_bytes h, be_os = strip (mc_system mc @ '' '' @ mc_release mc),
       be_platform = hw_platform h, be_python_version = hw_python_version h,
       be_vllm_version = md_vllm_version m, be_model_name = md_model_id m,
       be_model_size = md_model_size m,
       be_backend_id =
         (case md_backend_id m of Some b \<Rightarrow> if b \<noteq> [] then b else backend | None \<Rightarrow> backend),
       be_hostname = hw_hostname h, be_captured_at = now\<rparr>)"

section \<open>What the definitions agree on\<close>

text \<open>
  Every mode gives settings the scheduler accepts, at any concurrency, and a least number of
  members that a batch can reach: at least one, and no more than its size or the requests there are.
\<close>

theorem modes_runnable:
  assumes "get_batching_mode i = Inr m" and "1 \<le> concurrency" and "scheduler_settings_ok base"
  shows "scheduler_settings_ok (mode_settings base concurrency m) \<and>
    (\<exists>n. effective_min_dispatch_members concurrency m = Some n \<and> 1 \<le> n \<and> n \<le> concurrency \<and>
      n \<le> ss_max_batch_size (mode_settings base concurrency m))"
proof -
  from assms(1) have "m \<in> {no_batching_mode, static_batching_mode, continuous_batching_mode}"
    by (auto simp: get_batching_mode_def batching_modes_def split: option.splits if_splits)
  with assms(2,3) show ?thesis
    by (auto simp: scheduler_settings_ok_def mode_settings_def effective_min_dispatch_members_def
        no_batching_mode_def static_batching_mode_def continuous_batching_mode_def)
qed

lemma build_policy_known:
  assumes "ps_scheduler_policy_id st \<in> set all_scheduler_policy_ids"
    and "0 < ps_latency_queue_objective_ms st" "0 < ps_latency_request_age_objective_ms st"
    and "0 < ps_fairness_elevated_weight st" "0 < ps_fairness_default_weight st"
    and "0 < ps_fairness_background_weight st"
  shows "\<exists>q. build_policy st = Inr q"
proof -
  from assms(1) have "ps_scheduler_policy_id st
      \<in> {''fifo'', ''shortest_job_first'', ''latency_aware'', ''fairness''}"
    by (simp add: all_scheduler_policy_ids_def scheduler_policies_def fifo_mode_def
        shortest_job_first_mode_def latency_aware_mode_def fairness_mode_def)
  with assms(2-) show ?thesis
    by (auto simp: build_policy_def default_factories_def register_policy_def create_policy_def
        lift_factory_def new_latency_policy_def new_fairness_policy_def)
qed

text \<open>Every policy of the comparison is one the scheduler can build, over any settings it accepts.\<close>

theorem policies_buildable:
  assumes "get_scheduler_policy i = Inr p" and "scheduler_settings_ok env"
    and "\<forall>b. base = Some b \<longrightarrow> scheduler_settings_ok b"
  shows "scheduler_settings_ok (policy_settings_of env concurrency base p) \<and>
    (\<exists>q. build_policy (ss_policy (policy_settings_of env concurrency base p)) = Inr q)"
proof
  from assms(1) have "(i, p) \<in> set scheduler_policies"
    by (auto simp: get_scheduler_policy_def split: option.splits dest: map_of_SomeD)
  then have p: "po_policy_id p \<in> set all_scheduler_policy_ids"
    by (force simp: all_scheduler_policy_ids_def scheduler_policies_def)
  show ok: "scheduler_settings_ok (policy_settings_of env concurrency base p)"
    using assms(2,3) by (cases base) (auto simp: scheduler_settings_ok_def policy_settings_of_def Let_def)
  show "\<exists>q. build_policy (ss_policy (policy_settings_of env concurrency base p)) = Inr q"
    by (rule build_policy_known)
      (use p ok in \<open>auto simp: scheduler_settings_ok_def policy_settings_of_def Let_def\<close>)
qed

lemma scaling_scenarios_valid: "c \<in> set scaling_levels \<Longrightarrow> scenario_valid (scaling_scenario c)"
  by (auto simp: scaling_levels_def scenario_valid_def scaling_scenario_def in_range_def)

end
