(* ===== verification/Benchmark_Analysis.thy ===== *)
theory Benchmark_Analysis
  imports Benchmark_Models
begin

text \<open>
  What the benchmarks compute from their results: the summary of a run and the counters read back
  from the Prometheus text (\<open>benchmarks/runner/metrics.py\<close>), the bottleneck of a run
  (\<open>bottleneck.py\<close>), and the measurements of a scaling run (\<open>scaling_runner.py\<close>).
\<close>

section \<open>Summaries (metrics.py)\<close>

text \<open>\<open>int\<close> of a float.\<close>

definition truncate_rat :: "rat \<Rightarrow> int" where
  "truncate_rat x = (if 0 \<le> x then \<lfloor>x\<rfloor> else \<lceil>x\<rceil>)"

definition build_summary :: "benchmark_result list \<Rightarrow> rat \<Rightarrow> benchmark_summary" where
  "build_summary results duration =
     (let successes = filter bn_success results;
          failures = filter (\<lambda>r. \<not> bn_success r) results;
          latencies = List.map_filter bn_latency_ms successes;
          ttfts = List.map_filter bn_ttft_ms successes;
          itls = concat (map bn_itl_ms_samples successes);
          queue_waits = List.map_filter bn_queue_wait_ms successes;
          gpu_utils = List.map_filter bn_gpu_utilization_percent successes;
          gpu_mem = List.map_filter bn_gpu_memory_used_bytes successes;
          kv_ratios = List.map_filter bn_kv_cache_occupancy_ratio successes;
          active_seq = List.map_filter bn_active_sequences successes;
          total_tokens = sum_list (map (\<lambda>r. case bn_tokens_generated r of None \<Rightarrow> 0 | Some n \<Rightarrow> n) successes);
          timed = 0 < duration \<and> successes \<noteq> []
      in \<lparr>su_total_requests = length results, su_successful_requests = length successes,
          su_failed_requests = length failures,
          su_throughput_rps = (if timed then Some (of_nat (length successes) / duration) else None),
          su_latency_ms_p50 = percentile latencies 50, su_latency_ms_p95 = percentile latencies 95,
          su_latency_ms_p99 = percentile latencies 99,
          su_ttft_ms_p50 = percentile ttfts 50, su_ttft_ms_p95 = percentile ttfts 95,
          su_ttft_ms_p99 = percentile ttfts 99,
          su_itl_ms_p50 = percentile itls 50, su_itl_ms_p95 = percentile itls 95,
          su_queue_wait_ms_p50 = percentile queue_waits 50,
          su_gpu_utilization_percent_p50 = percentile gpu_utils 50,
          su_gpu_memory_used_bytes_p50 =
            (if gpu_mem = [] then None else map_option truncate_rat (percentile (map of_int gpu_mem) 50)),
          su_tokens_per_second =
            (if timed \<and> 0 < total_tokens then Some (of_int total_tokens / duration) else None),
          su_kv_cache_occupancy_ratio_p50 = percentile kv_ratios 50,
          su_active_sequences_p50 = percentile (map of_int active_seq) 50,
          su_duration_seconds = duration\<rparr>)"

section \<open>The Prometheus text (metrics.py)\<close>

text \<open>
  \<open>float\<close> of a decimal text: a sign, digits, a fraction and an exponent. \<open>inf\<close> and \<open>nan\<close> are no
  rationals; they are refused like a text that is no number (\<open>ValueError\<close>).
\<close>

definition split_sign :: "string \<Rightarrow> bool \<times> string" where
  "split_sign s =
     (case s of
        c # cs \<Rightarrow> if c = CHR ''-'' then (True, cs) else if c = CHR ''+'' then (False, cs) else (False, s)
      | [] \<Rightarrow> (False, []))"

definition is_digit :: "char \<Rightarrow> bool" where
  "is_digit c \<longleftrightarrow> digit_value c \<noteq> None"

definition power_of_ten :: "int \<Rightarrow> rat" where
  "power_of_ten e = (if 0 \<le> e then 10 ^ nat e else 1 / 10 ^ nat (- e))"

definition read_exponent :: "string \<Rightarrow> int option" where
  "read_exponent s =
     (case s of
        [] \<Rightarrow> Some 0
      | c # cs \<Rightarrow>
          if c \<in> {CHR ''e'', CHR ''E''}
          then (case split_sign cs of (neg, ds) \<Rightarrow>
                  if ds = [] then None
                  else map_option (\<lambda>n. if neg then - int n else int n) (read_digits 0 ds))
          else None)"

definition read_fraction :: "string \<Rightarrow> string \<times> string" where
  "read_fraction s =
     (case s of
        c # cs \<Rightarrow> if c = CHR ''.'' then (takeWhile is_digit cs, dropWhile is_digit cs) else ([], s)
      | [] \<Rightarrow> ([], []))"

definition read_float :: "string \<Rightarrow> rat option" where
  "read_float text =
     (case split_sign text of (neg, s) \<Rightarrow>
        (let whole = takeWhile is_digit s in
         case read_fraction (dropWhile is_digit s) of (decimals, rest) \<Rightarrow>
           if whole @ decimals = [] then None
           else (case (read_digits 0 (whole @ decimals), read_exponent rest) of
                   (Some n, Some e) \<Rightarrow>
                     Some ((if neg then - 1 else 1) * of_nat n * power_of_ten (e - int (length decimals)))
                 | _ \<Rightarrow> None)))"

definition line_end :: "char \<Rightarrow> bool" where
  "line_end c \<longleftrightarrow> c \<in> {CHR 10, CHR 11, CHR 12, CHR 13, CHR 28, CHR 29, CHR 30, CHR 133}"

text \<open>\<open>str.splitlines\<close>: a carriage return with a line feed ends one line, and the end of the text none.\<close>

fun split_lines :: "string \<Rightarrow> string \<Rightarrow> string list" where
  "split_lines acc [] = (if acc = [] then [] else [rev acc])"
| "split_lines acc (c # d # cs) =
     (if c = CHR 13 \<and> d = CHR 10 then rev acc # split_lines [] cs
      else if line_end c then rev acc # split_lines [] (d # cs)
      else split_lines (c # acc) (d # cs))"
| "split_lines acc [c] = (if line_end c then [rev acc] else [rev (c # acc)])"

fun starts_with :: "string \<Rightarrow> string \<Rightarrow> bool" where
  "starts_with [] s = True"
| "starts_with (p # ps) [] = False"
| "starts_with (p # ps) (c # cs) = (p = c \<and> starts_with ps cs)"

text \<open>The last word of a line, \<open>line.split()[-1]\<close>; a blank line has none (\<open>IndexError\<close>).\<close>

definition last_word :: "string \<Rightarrow> string" where
  "last_word line = rev (takeWhile (\<lambda>c. \<not> is_space c) (dropWhile is_space (rev line)))"

definition last_value :: "string \<Rightarrow> rat option" where
  "last_value line = (if last_word line = [] then None else read_float (last_word line))"

text \<open>One line: it is added to the total of every name it starts with. \<open>None\<close> is an exception.\<close>

fun add_line :: "string list \<Rightarrow> string \<Rightarrow> (string, rat) dict \<Rightarrow> (string, rat) dict option" where
  "add_line [] line totals = Some totals"
| "add_line (n # ns) line totals =
     (if starts_with n line
      then (case last_value line of
              None \<Rightarrow> None
            | Some x \<Rightarrow>
                add_line ns line
                  (dict_set n ((case dict_get totals n of None \<Rightarrow> 0 | Some y \<Rightarrow> y) + x) totals))
      else add_line ns line totals)"

fun add_lines :: "string list \<Rightarrow> string list \<Rightarrow> (string, rat) dict \<Rightarrow> (string, rat) dict option" where
  "add_lines names [] totals = Some totals"
| "add_lines names (line # lines) totals =
     (if starts_with ''#'' line then add_lines names lines totals
      else (case add_line names line totals of
              None \<Rightarrow> None
            | Some t \<Rightarrow> add_lines names lines t))"

definition snapshot_prometheus_metrics :: "string \<Rightarrow> string list \<Rightarrow> (string, rat) dict option" where
  "snapshot_prometheus_metrics export names = add_lines names (split_lines [] export) []"

section \<open>Bottlenecks (bottleneck.py)\<close>

datatype bottleneck_type =
    GPU_BOUND | MEMORY_BOUND | KV_CACHE_BOUND | QUEUE_BOUND | SCHEDULER_BOUND | BACKEND_BOUND | NONE_OBSERVED

fun bottleneck_value :: "bottleneck_type \<Rightarrow> string" where
  "bottleneck_value GPU_BOUND = ''gpu_bound''"
| "bottleneck_value MEMORY_BOUND = ''memory_bound''"
| "bottleneck_value KV_CACHE_BOUND = ''kv_cache_bound''"
| "bottleneck_value QUEUE_BOUND = ''queue_bound''"
| "bottleneck_value SCHEDULER_BOUND = ''scheduler_bound''"
| "bottleneck_value BACKEND_BOUND = ''backend_bound''"
| "bottleneck_value NONE_OBSERVED = ''none_observed''"

definition upper_median :: "rat list \<Rightarrow> rat option" where
  "upper_median vs = (if vs = [] then None else Some (sort vs ! (length vs div 2)))"

text \<open>\<open>str.lower\<close> on the letters the categories are made of, and \<open>in\<close> on texts.\<close>

definition lower_char :: "char \<Rightarrow> char" where
  "lower_char c = (if CHR ''A'' \<le> c \<and> c \<le> CHR ''Z'' then char_of ((of_char c :: nat) + 32) else c)"

fun contains :: "string \<Rightarrow> string \<Rightarrow> bool" where
  "contains p [] = (p = [])"
| "contains p (c # cs) = (starts_with p (c # cs) \<or> contains p cs)"

definition failure_category :: "benchmark_result \<Rightarrow> string" where
  "failure_category r =
     (let err = map lower_char (case bn_error r of None \<Rightarrow> [] | Some e \<Rightarrow> e) in
      if contains ''queue'' err \<or> contains ''admission'' err then ''queue''
      else if contains ''batch'' err then ''scheduler''
      else if contains ''backend'' err then ''backend''
      else if contains ''not_placed'' err then ''scheduler''
      else ''unknown'')"

fun failure_categories :: "benchmark_result list \<Rightarrow> (string, nat) dict \<Rightarrow> (string, nat) dict" where
  "failure_categories [] counts = counts"
| "failure_categories (r # rs) counts =
     failure_categories rs
       (if bn_success r then counts
        else (let key = failure_category r in
              dict_set key (case dict_get counts key of None \<Rightarrow> 1 | Some n \<Rightarrow> Suc n) counts))"

definition category_count :: "string \<Rightarrow> benchmark_run \<Rightarrow> nat" where
  "category_count key run =
     (case dict_get (failure_categories (run_results run) []) key of None \<Rightarrow> 0 | Some n \<Rightarrow> n)"

text \<open>A format with a fixed number of decimals.\<close>

definition padded :: "nat \<Rightarrow> nat \<Rightarrow> string" where
  "padded n m = (let s = show_nat m in replicate (n - length s) (CHR ''0'') @ s)"

definition show_fixed :: "nat \<Rightarrow> rat \<Rightarrow> string" where
  "show_fixed n x =
     (let k = nat \<bar>py_round (x * 10 ^ n)\<bar> in
      (if x < 0 then ''-'' else []) @ show_nat (k div 10 ^ n) @ ''.'' @ padded n (k mod 10 ^ n))"

text \<open>What the snapshot has for a key, and the summary where it has nothing.\<close>

definition runtime_get :: "benchmark_run \<Rightarrow> string \<Rightarrow> extra_value" where
  "runtime_get run k = (case dict_get (run_runtime_snapshot run) k of None \<Rightarrow> X_NONE | Some v \<Rightarrow> v)"

definition measured :: "benchmark_run \<Rightarrow> string \<Rightarrow> (benchmark_summary \<Rightarrow> rat option) \<Rightarrow> extra_value" where
  "measured run k f =
     (if runtime_get run k \<noteq> X_NONE then runtime_get run k
      else (case run_summary run of
              None \<Rightarrow> X_NONE
            | Some s \<Rightarrow> (case f s of None \<Rightarrow> X_NONE | Some x \<Rightarrow> X_NUM x)))"

fun number_of :: "extra_value \<Rightarrow> rat option" where
  "number_of (X_INT i) = Some (of_int i)"
| "number_of (X_NUM x) = Some x"
| "number_of (X_BOOL b) = Some (if b then 1 else 0)"
| "number_of _ = None"

definition reaches :: "extra_value \<Rightarrow> rat \<Rightarrow> bool" where
  "reaches v t \<longleftrightarrow> (case number_of v of None \<Rightarrow> False | Some x \<Rightarrow> t \<le> x)"

definition positive :: "extra_value \<Rightarrow> bool" where
  "positive v \<longleftrightarrow> (case number_of v of None \<Rightarrow> False | Some x \<Rightarrow> 0 < x)"

text \<open>A value that is neither missing nor a number cannot be compared (\<open>TypeError\<close>).\<close>

definition comparable :: "extra_value \<Rightarrow> bool" where
  "comparable v \<longleftrightarrow> v = X_NONE \<or> number_of v \<noteq> None"

definition peak_kv :: "benchmark_run \<Rightarrow> extra_value" where
  "peak_kv run = measured run ''peak_kv_cache_occupancy_ratio'' su_kv_cache_occupancy_ratio_p50"

definition gpu_util :: "benchmark_run \<Rightarrow> extra_value" where
  "gpu_util run = measured run ''peak_gpu_utilization_percent'' su_gpu_utilization_percent_p50"

definition reading :: "string \<Rightarrow> nat \<Rightarrow> extra_value \<Rightarrow> string" where
  "reading name n v = name @ ''='' @ (case number_of v of None \<Rightarrow> [] | Some x \<Rightarrow> show_fixed n x)"

definition queue_wait_median :: "benchmark_run \<Rightarrow> rat option" where
  "queue_wait_median run = upper_median (List.map_filter bn_queue_wait_ms (run_results run))"

definition latency_median :: "benchmark_run \<Rightarrow> rat option" where
  "latency_median run = upper_median (List.map_filter bn_latency_ms (filter bn_success (run_results run)))"

definition scheduling_delay_median :: "benchmark_run \<Rightarrow> rat option" where
  "scheduling_delay_median run = upper_median (List.map_filter bn_scheduling_delay_ms (run_results run))"

definition queue_wait_dominates :: "benchmark_run \<Rightarrow> bool" where
  "queue_wait_dominates run \<longleftrightarrow>
     positive (runtime_get run ''peak_queue_depth'') \<and>
     (case (queue_wait_median run, latency_median run) of
        (Some w, Some l) \<Rightarrow> 0 < l \<and> 1 / 2 \<le> w / l
      | _ \<Rightarrow> False)"

text \<open>
  The tests of \<open>analyze_bottleneck\<close> in their order: when each fires, the class it sets, if any, and
  its evidence.
\<close>

definition bottleneck_tests :: "benchmark_run \<Rightarrow> (bool \<times> bottleneck_type option \<times> string list) list" where
  "bottleneck_tests run =
     (let opt = (\<lambda>name x. name @ ''='' @ (case x of None \<Rightarrow> [] | Some y \<Rightarrow> show_fixed 3 y));
          kv_events = runtime_get run ''kv_cache_pressure_events'';
          mem = runtime_get run ''peak_gpu_memory_ratio'';
          cycle = runtime_get run ''scheduler_cycle_duration_ms_p50'';
          failed = (\<lambda>name n. name @ ''='' @ show_nat n)
      in [(reaches (peak_kv run) (85 / 100), Some KV_CACHE_BOUND,
             [reading ''peak_kv_cache_occupancy_ratio'' 3 (peak_kv run)]),
          (positive kv_events, Some KV_CACHE_BOUND,
             [''kv_cache_pressure_events='' @
                (case number_of kv_events of None \<Rightarrow> [] | Some x \<Rightarrow> show_int (truncate_rat x))]),
          (reaches (gpu_util run) 80, Some GPU_BOUND,
             [reading ''peak_gpu_utilization_percent'' 1 (gpu_util run)]),
          (reaches mem (90 / 100), Some MEMORY_BOUND, [reading ''peak_gpu_memory_ratio'' 3 mem]),
          (queue_wait_dominates run, Some QUEUE_BOUND,
             [opt ''queue_wait_p50_ms'' (queue_wait_median run), opt ''latency_p50_ms'' (latency_median run)]),
          ((case scheduling_delay_median run of None \<Rightarrow> False | Some x \<Rightarrow> 1 \<le> x), Some SCHEDULER_BOUND,
             [opt ''scheduling_delay_p50_ms'' (scheduling_delay_median run)]),
          (reaches cycle 1, Some SCHEDULER_BOUND, [reading ''scheduler_cycle_duration_ms_p50'' 3 cycle]),
          (0 < category_count ''queue'' run, Some QUEUE_BOUND,
             [failed ''queue_related_failures'' (category_count ''queue'' run)]),
          (0 < category_count ''scheduler'' run, Some SCHEDULER_BOUND,
             [failed ''scheduler_related_failures'' (category_count ''scheduler'' run)]),
          (0 < category_count ''backend'' run, Some BACKEND_BOUND,
             [failed ''backend_related_failures'' (category_count ''backend'' run)]),
          ((case run_summary run of None \<Rightarrow> False | Some s \<Rightarrow> 0 < su_failed_requests s), None,
             [failed ''failed_requests''
                (case run_summary run of None \<Rightarrow> 0 | Some s \<Rightarrow> su_failed_requests s)])])"

definition unclassified :: "(string, bool) dict" where
  "unclassified = map (\<lambda>t. (bottleneck_value t, False))
     [GPU_BOUND, MEMORY_BOUND, KV_CACHE_BOUND, QUEUE_BOUND, SCHEDULER_BOUND, BACKEND_BOUND]"

fun apply_tests ::
  "(bool \<times> bottleneck_type option \<times> string list) list \<Rightarrow> (string, bool) dict \<times> string list \<Rightarrow>
   (string, bool) dict \<times> string list" where
  "apply_tests [] acc = acc"
| "apply_tests ((fires, t, es) # tests) (cls, evidence) =
     apply_tests tests
       (if fires
        then ((case t of None \<Rightarrow> cls | Some b \<Rightarrow> dict_set (bottleneck_value b) True cls), evidence @ es)
        else (cls, evidence))"

definition bottleneck_priority :: "bottleneck_type list" where
  "bottleneck_priority =
     [QUEUE_BOUND, SCHEDULER_BOUND, KV_CACHE_BOUND, MEMORY_BOUND, GPU_BOUND, BACKEND_BOUND]"

definition classified :: "(string, bool) dict \<Rightarrow> bottleneck_type \<Rightarrow> bool" where
  "classified cls t \<longleftrightarrow> dict_get cls (bottleneck_value t) = Some True"

definition primary_of :: "(string, bool) dict \<Rightarrow> bottleneck_type" where
  "primary_of cls =
     (case List.find (classified cls) bottleneck_priority of None \<Rightarrow> NONE_OBSERVED | Some t \<Rightarrow> t)"

text \<open>\<open>None\<close> is the exception of a comparison.\<close>

definition analyze_bottleneck :: "benchmark_run \<Rightarrow> bottleneck_analysis option" where
  "analyze_bottleneck run =
     (if \<not> (comparable (peak_kv run) \<and> comparable (gpu_util run) \<and>
             comparable (runtime_get run ''peak_gpu_memory_ratio''))
      then None
      else (case apply_tests (bottleneck_tests run) (unclassified, []) of (cls, evidence) \<Rightarrow>
        Some \<lparr>ba_primary_bottleneck = bottleneck_value (primary_of cls), ba_classifications = cls,
              ba_evidence =
                (if evidence = [] \<and> primary_of cls = NONE_OBSERVED
                 then [''no bottleneck signals above configured thresholds''] else evidence)\<rparr>))"

definition max_sustainable_concurrency :: "benchmark_run list \<Rightarrow> int option" where
  "max_sustainable_concurrency runs =
     (let sustainable = List.map_filter
            (\<lambda>r. case run_summary r of
                   None \<Rightarrow> None
                 | Some s \<Rightarrow> if su_failed_requests s = 0 then Some (sc_concurrency (run_scenario r)) else None)
            runs
      in if sustainable = [] then None else Some (Max (set sustainable)))"

section \<open>Measurements of a scaling run (scaling_runner.py)\<close>

text \<open>The two sums over the lines of a histogram, and their quotient in milliseconds.\<close>

fun histogram_sums :: "string \<Rightarrow> string list \<Rightarrow> rat \<times> rat \<Rightarrow> (rat \<times> rat) option" where
  "histogram_sums metric [] acc = Some acc"
| "histogram_sums metric (line # lines) (s, c) =
     (if starts_with ''#'' line then histogram_sums metric lines (s, c)
      else if starts_with (metric @ ''_sum'') line
      then (case last_value line of None \<Rightarrow> None | Some x \<Rightarrow> histogram_sums metric lines (s + x, c))
      else if starts_with (metric @ ''_count'') line
      then (case last_value line of None \<Rightarrow> None | Some x \<Rightarrow> histogram_sums metric lines (s, c + x))
      else histogram_sums metric lines (s, c))"

text \<open>\<open>Some None\<close>: there was no observation.\<close>

definition metric_histogram_avg_ms :: "string \<Rightarrow> string \<Rightarrow> rat option option" where
  "metric_histogram_avg_ms export metric =
     map_option (\<lambda>(s, c). if c \<le> 0 then None else Some (s / c * 1000))
       (histogram_sums metric (split_lines [] export) (0, 0))"

fun truthy_value :: "extra_value \<Rightarrow> bool" where
  "truthy_value X_NONE = False"
| "truthy_value (X_STR s) = (s \<noteq> [])"
| "truthy_value (X_INT i) = (i \<noteq> 0)"
| "truthy_value (X_NUM x) = (x \<noteq> 0)"
| "truthy_value (X_BOOL b) = b"
| "truthy_value (X_STRS ss) = (ss \<noteq> [])"

definition is_capacity_event :: "trace_event \<Rightarrow> bool" where
  "is_capacity_event e \<longleftrightarrow>
     (case dict_get (te_extra e) ''capacity_event'' of None \<Rightarrow> False | Some v \<Rightarrow> truthy_value v) \<and>
     te_event_type e = ''kv_cache_pressure_detected''"

definition count_capacity_events :: "datetime \<Rightarrow> trace_store \<Rightarrow> uuid list \<Rightarrow> nat" where
  "count_capacity_events now traces ids =
     sum_list (map (\<lambda>r. case get_request_timeline now r traces of
                          None \<Rightarrow> 0
                        | Some t \<Rightarrow> length (filter is_capacity_event (tl_events t))) ids)"

definition telemetry_sample_of :: "datetime \<Rightarrow> gpu_snapshot \<Rightarrow> platform \<Rightarrow> telemetry_sample" where
  "telemetry_sample_of now g p =
     (let device = (case gsn_devices g of [] \<Rightarrow> None | d # _ \<Rightarrow> Some d) in
      \<lparr>ts_captured_at = now, ts_queue_depth = int (queue_size (pf_control p)),
       ts_active_requests = int (length (queries_list_active (pf_control p))),
       ts_active_sequences = kv_active_sequences (gsn_kv_cache g),
       ts_kv_cache_occupancy_ratio = kv_cache_occupancy_ratio (gsn_kv_cache g),
       ts_estimated_kv_bytes = kv_estimated_bytes (gsn_kv_cache g),
       ts_gpu_utilization_percent = map_option gd_utilization_percent device,
       ts_gpu_memory_used_bytes = map_option gd_memory_used_bytes device,
       ts_scheduler_total_cycles = int (sa_total_cycles (pf_scheduler p))\<rparr>)"

definition collect_sample ::
  "datetime \<Rightarrow> collect_env \<Rightarrow> platform \<Rightarrow> gpu_collector \<Rightarrow> telemetry_sample \<times> gpu_collector" where
  "collect_sample now env p c =
     (case collect env c of (g, c') \<Rightarrow> (telemetry_sample_of now g p, c'))"

definition peak :: "'a :: linorder \<Rightarrow> 'a list \<Rightarrow> 'a" where
  "peak d xs = (if xs = [] then d else Max (set xs))"

definition gpu_prefix :: string where
  "gpu_prefix = ''gpu_inference''"

definition build_runtime_snapshot ::
  "telemetry_sample list \<Rightarrow> (string, rat) dict \<Rightarrow> rat option \<Rightarrow> nat \<Rightarrow> int option \<Rightarrow> extra" where
  "build_runtime_snapshot samples delta cycle_avg pressure_events memory_total =
     (let peak_gpu_mem = peak 0 (map (\<lambda>s. case ts_gpu_memory_used_bytes s of None \<Rightarrow> 0 | Some m \<Rightarrow> m) samples)
      in [(''peak_queue_depth'', X_INT (peak 0 (map ts_queue_depth samples))),
          (''peak_kv_cache_occupancy_ratio'', X_NUM (peak 0 (map ts_kv_cache_occupancy_ratio samples))),
          (''peak_active_sequences'', X_INT (peak 0 (map ts_active_sequences samples))),
          (''peak_gpu_utilization_percent'',
            X_NUM (peak 0 (map (\<lambda>s. case ts_gpu_utilization_percent s of None \<Rightarrow> 0 | Some u \<Rightarrow> u) samples))),
          (''peak_gpu_memory_used_bytes'', X_INT peak_gpu_mem),
          (''peak_gpu_memory_ratio'',
            (case memory_total of
               None \<Rightarrow> X_NONE
             | Some t \<Rightarrow> if 0 < t then X_NUM (of_int peak_gpu_mem / of_int t) else X_NONE)),
          (''scheduler_total_cycles'',
            X_NUM (case dict_get delta (gpu_prefix @ ''_scheduler_cycles_total'') of None \<Rightarrow> 0 | Some n \<Rightarrow> n)),
          (''scheduler_cycle_duration_ms_p50'', (case cycle_avg of None \<Rightarrow> X_NONE | Some x \<Rightarrow> X_NUM x)),
          (''kv_cache_pressure_events'', X_INT (int pressure_events)),
          (''telemetry_sample_count'', X_INT (int (length samples)))])"

text \<open>The same over the exported text and the traces; \<open>None\<close> when a line of the text is no number.\<close>

definition scaling_snapshot ::
  "datetime \<Rightarrow> telemetry_sample list \<Rightarrow> (string, rat) dict \<Rightarrow> string \<Rightarrow> trace_store \<Rightarrow> hardware_metadata \<Rightarrow>
   uuid list \<Rightarrow> extra option" where
  "scaling_snapshot now samples delta export traces hardware ids =
     map_option
       (\<lambda>avg. build_runtime_snapshot samples delta avg (count_capacity_events now traces ids)
                (hw_gpu_memory_total_bytes hardware))
       (metric_histogram_avg_ms export (gpu_prefix @ ''_scheduler_cycle_duration_seconds''))"

definition metrics_delta :: "string list \<Rightarrow> (string, rat) dict \<Rightarrow> (string, rat) dict \<Rightarrow> (string, rat) dict" where
  "metrics_delta names before after =
     (let value = (\<lambda>d k. case dict_get d k of None \<Rightarrow> 0 | Some x \<Rightarrow> x) in
      fold (\<lambda>k. dict_set k (value after k - value before k)) names [])"

section \<open>Starvation (policy_comparison.py)\<close>

definition opt_num :: "rat option \<Rightarrow> extra_value" where
  "opt_num x = (case x of None \<Rightarrow> X_NONE | Some v \<Rightarrow> X_NUM v)"

definition greatest :: "rat list \<Rightarrow> rat option" where
  "greatest xs = (if xs = [] then None else Some (Max (set xs)))"

definition starvation_snapshot :: "benchmark_result list \<Rightarrow> extra" where
  "starvation_snapshot results =
     [(''max_scheduling_delay_ms'', opt_num (greatest (List.map_filter bn_scheduling_delay_ms results))),
      (''max_long_job_scheduling_delay_ms'',
        opt_num (greatest (List.map_filter bn_scheduling_delay_ms
          (filter (\<lambda>r. 128 \<le> bn_max_tokens r) results)))),
      (''max_queue_wait_ms'', opt_num (greatest (List.map_filter bn_queue_wait_ms results))),
      (''long_job_count'', X_INT (int (length (filter (\<lambda>r. 128 \<le> bn_max_tokens r) results))))]"

end
