(* ===== verification/Benchmark_Runner.thy ===== *)
theory Benchmark_Runner
  imports Benchmark_Analysis
begin

text \<open>
  The runs of the benchmarks over the embedded stack (\<open>benchmarks/runner\<close>): the requests they submit
  (\<open>embedded.py\<close>, \<open>policy_comparison.py\<close>), one request through the synchronous or the streaming path
  (\<open>embedded.py\<close>), and the loop that schedules a set of queued requests and completes each once it is
  in a batch (\<open>batching_comparison.py\<close>).

  A run reads clocks, \<open>uuid4\<close> and NVML: they are arguments, \<open>time.perf_counter\<close> in seconds. The
  exports of the Prometheus library are arguments of the run that reads them. The stack is that of
  the gateway; the loop takes the cycle of its scheduler as an argument, so that it also runs over a
  stack without a routing engine, as the validation scripts build it.
\<close>

section \<open>State\<close>

text \<open>
  The stack as the runs use it, the collector if there is one, the settings of the scheduler and
  the samples taken so far.
\<close>

record bench_state =
  bh_platform :: platform
  bh_collector :: "gpu_collector option"
  bh_settings :: scheduler_settings
  bh_samples :: "telemetry_sample list"

datatype bench_exn =
    BX_Platform platform_exn | BX_Stream stream_exn | BX_Backend adapter_exn | BX_Cycle cycle_exn
  | BX_Runtime string | BX_Validation | BX_Missing nat | BX_Key string

type_synonym 'a bench = "(bench_state, bench_exn, 'a) op"

definition on_stack :: "'a plat \<Rightarrow> 'a bench" where
  "on_stack m = map_exn BX_Platform (zoom_op bh_platform (\<lambda>p s. s\<lparr>bh_platform := p\<rparr>) m)"

definition stack_lifecycle :: "(queue_state, cp_exn, 'a) op \<Rightarrow> 'a bench" where
  "stack_lifecycle m = on_stack (on_control m)"

definition state_of :: "ref \<Rightarrow> bench_state \<Rightarrow> request_state" where
  "state_of e s = entry_state (bh_platform s) e"

section \<open>The numbers a collection reads (context.py)\<close>

definition stack_context :: "datetime \<Rightarrow> bench_state \<Rightarrow> runtime_numbers" where
  "stack_context now s =
     platform_runtime_numbers now (int (cs_max_candidate_requests (ss_cycle (bh_settings s))))
       (ss_max_batch_size (bh_settings s)) (bh_platform s)"

definition collect_bench :: "datetime \<Rightarrow> collect_env \<Rightarrow> gpu_snapshot option bench" where
  "collect_bench now env s =
     (case bh_collector s of
        None \<Rightarrow> (Inr None, s)
      | Some c \<Rightarrow>
          (case collect (env\<lparr>ce_numbers := Some (stack_context now s)\<rparr>) c of
             (g, c') \<Rightarrow> (Inr (Some g), s\<lparr>bh_collector := Some c'\<rparr>)))"

definition take_sample :: "datetime \<Rightarrow> collect_env \<Rightarrow> unit bench" where
  "take_sample now env =
     bind_op (collect_bench now env) (\<lambda>g.
     case g of
       None \<Rightarrow> return_op ()
     | Some g \<Rightarrow> modify_op (\<lambda>s.
         s\<lparr>bh_samples := bh_samples s @ [telemetry_sample_of now g (bh_platform s)]\<rparr>))"

section \<open>Requests\<close>

definition build_submit ::
  "uuid \<Rightarrow> datetime \<Rightarrow> string \<Rightarrow> string \<Rightarrow> int \<Rightarrow> bool \<Rightarrow> submit_request" where
  "build_submit rid now model prompt max_tokens stream =
     \<lparr>sr_inference_request =
        \<lparr>ir_request_id = rid, ir_model = model, ir_messages = [\<lparr>m_role = ROLE_USER, m_content = prompt\<rparr>],
         ir_stream = stream, ir_max_tokens = max_tokens, ir_temperature = None, ir_top_p = None,
         ir_priority_class = None, ir_api_key_id = None, ir_client_request_id = None\<rparr>,
      sr_request_context =
        \<lparr>rc_request_id = rid, rc_trace_id = ''bench-'' @ rid, rc_span_id = ''bench'', rc_arrival_time = now,
         rc_model = model, rc_stream = stream, rc_gateway_instance_id = ''benchmark''\<rparr>\<rparr>"

definition priority_cycle :: "priority_class list" where
  "priority_cycle = [PC_DEFAULT, PC_BACKGROUND, PC_ELEVATED]"

definition build_policy_submit ::
  "uuid \<Rightarrow> datetime \<Rightarrow> string \<Rightarrow> string \<Rightarrow> int \<Rightarrow> bool \<Rightarrow> priority_class \<Rightarrow> nat \<Rightarrow> submit_request" where
  "build_policy_submit rid now model prompt max_tokens stream priority index =
     \<lparr>sr_inference_request =
        \<lparr>ir_request_id = rid, ir_model = model, ir_messages = [\<lparr>m_role = ROLE_USER, m_content = prompt\<rparr>],
         ir_stream = stream, ir_max_tokens = max_tokens, ir_temperature = None, ir_top_p = None,
         ir_priority_class = Some priority, ir_api_key_id = None, ir_client_request_id = None\<rparr>,
      sr_request_context =
        \<lparr>rc_request_id = rid, rc_trace_id = ''policy-'' @ rid, rc_span_id = ''policy'',
         rc_arrival_time = now - int index * 25000, rc_model = model, rc_stream = stream,
         rc_gateway_instance_id = ''benchmark''\<rparr>\<rparr>"

text \<open>Short and long jobs in turn, over the three priorities in turn.\<close>

definition build_policy_submits ::
  "(string, string) dict option \<Rightarrow> (nat \<Rightarrow> uuid) \<Rightarrow> (nat \<Rightarrow> datetime) \<Rightarrow> benchmark_scenario \<Rightarrow> submit_request list" where
  "build_policy_submits file ids now scenario =
     map (\<lambda>i. let p = (if even i then short_prompt_profile else long_prompt_profile) in
            build_policy_submit (ids i) (now i) ''demo'' (prompt_for_profile file p) (wp_max_tokens p)
              (sc_stream scenario) (priority_cycle ! (i mod length priority_cycle)) i)
       [0..<nat (sc_request_count scenario)]"

section \<open>What is read from traces and entries\<close>

definition stack_traces :: "platform \<Rightarrow> trace_store" where
  "stack_traces p = (case ob_trace (em_observers (pf_control p)) of None \<Rightarrow> [] | Some t \<Rightarrow> t)"

definition last_time :: "string \<Rightarrow> trace_event list \<Rightarrow> datetime option" where
  "last_time ev es = fold (\<lambda>e t. if te_event_type e = ev then Some (te_timestamp e) else t) es None"

definition between_events :: "string \<Rightarrow> string \<Rightarrow> datetime \<Rightarrow> uuid \<Rightarrow> trace_store \<Rightarrow> rat option" where
  "between_events first second now r traces =
     (case get_request_timeline now r traces of
        None \<Rightarrow> None
      | Some t \<Rightarrow>
          (case (last_time first (tl_events t), last_time second (tl_events t)) of
             (Some a, Some b) \<Rightarrow> Some (elapsed_ms b a)
           | _ \<Rightarrow> None))"

definition queue_wait_from_trace :: "datetime \<Rightarrow> uuid \<Rightarrow> trace_store \<Rightarrow> rat option" where
  "queue_wait_from_trace = between_events ''request_enqueued'' ''request_dequeued''"

definition scheduling_delay_from_trace :: "datetime \<Rightarrow> uuid \<Rightarrow> trace_store \<Rightarrow> rat option" where
  "scheduling_delay_from_trace = between_events ''request_enqueued'' ''request_scheduled''"

definition base_fields ::
  "(string, string) dict option \<Rightarrow> workload_profile \<Rightarrow> bool \<Rightarrow> benchmark_result \<Rightarrow> benchmark_result" where
  "base_fields file p stream r =
     r\<lparr>bn_stream := stream, bn_prompt_chars := int (length (prompt_for_profile file p)),
       bn_max_tokens := wp_max_tokens p,
       bn_estimated_input_tokens := estimated_input_tokens_for_profile file p\<rparr>"

definition tokens_from_entry :: "registered_request \<Rightarrow> int option" where
  "tokens_from_entry e =
     (case re_completion e of
        Some c \<Rightarrow> Some (ic_completion_tokens c)
      | None \<Rightarrow> map_option sm_token_count (re_stream_metrics e))"

definition apply_gpu_metrics :: "gpu_snapshot \<Rightarrow> benchmark_result \<Rightarrow> benchmark_result" where
  "apply_gpu_metrics g r =
     (case gsn_devices g of
        [] \<Rightarrow> r
      | d # _ \<Rightarrow>
          r\<lparr>bn_gpu_utilization_percent := Some (gd_utilization_percent d),
            bn_gpu_memory_used_bytes := Some (gd_memory_used_bytes d),
            bn_gpu_metrics_source := Some (gpu_source_value (gd_source d))\<rparr>)"

text \<open>Building a result checks its bounds.\<close>

definition built :: "benchmark_result \<Rightarrow> benchmark_result bench" where
  "built r = (if result_valid r then return_op r else raise_op BX_Validation)"

definition find_batch_for_request :: "uuid \<Rightarrow> platform \<Rightarrow> batch option" where
  "find_batch_for_request r p =
     List.find (\<lambda>b. \<exists>m \<in> set (b_members b). bm_request_id m = r) (list_batches (pf_engine p))"

definition is_placed_in_batch :: "uuid \<Rightarrow> platform \<Rightarrow> bool" where
  "is_placed_in_batch r p \<longleftrightarrow> find_batch_for_request r p \<noteq> None"

definition request_age_ms :: "datetime \<Rightarrow> uuid \<Rightarrow> platform \<Rightarrow> rat option" where
  "request_age_ms now r p =
     (case fst (get_entry r (pf_control p)) of
        Inl x \<Rightarrow> None
      | Inr e \<Rightarrow> Some (elapsed_ms now (re_created_at (entry_at (pf_control p) e))))"

section \<open>One request of a batching comparison\<close>

text \<open>What one request reads; \<open>qv_stream\<close> has the clock of its transitions and its backend's answers.\<close>

record request_env =
  qv_now :: datetime
  qv_stream :: stream_env
  qv_stream_id :: uuid
  qv_started :: rat
  qv_token_at :: "nat \<Rightarrow> rat"
  qv_finished :: rat
  qv_collect :: collect_env
  qv_describe :: "bench_exn \<Rightarrow> string"

definition elapsed_perf :: "request_env \<Rightarrow> rat" where
  "elapsed_perf env = (qv_finished env - qv_started env) * 1000"

fun gaps_ms :: "rat \<Rightarrow> rat list \<Rightarrow> rat list" where
  "gaps_ms previous [] = []"
| "gaps_ms previous (t # ts) = ((t - previous) * 1000) # gaps_ms t ts"

definition first_token_ms :: "request_env \<Rightarrow> nat \<Rightarrow> rat option" where
  "first_token_ms env n = (if n = 0 then None else Some ((qv_token_at env 0 - qv_started env) * 1000))"

definition token_gaps_ms :: "request_env \<Rightarrow> nat \<Rightarrow> rat list" where
  "token_gaps_ms env n = (case map (qv_token_at env) [0..<n] of [] \<Rightarrow> [] | t # ts \<Rightarrow> gaps_ms t ts)"

definition bench_transition ::
  "request_env \<Rightarrow> uuid \<Rightarrow> request_state \<Rightarrow> uuid option \<Rightarrow> string option \<Rightarrow> ref bench" where
  "bench_transition env r st batch backend =
     stack_lifecycle (transition (pe_finish (sv_path (qv_stream env))) r st batch backend)"

definition walk_to_submitted :: "request_env \<Rightarrow> uuid \<Rightarrow> batch option \<Rightarrow> string \<Rightarrow> unit bench" where
  "walk_to_submitted env r found backend =
     bind_op (stack_lifecycle (get_entry r)) (\<lambda>e.
     bind_op (gets_op (state_of e)) (\<lambda>st.
       if st = QUEUED
       then (case found of
               None \<Rightarrow> raise_op (BX_Runtime ''request_not_placed_in_batch'')
             | Some b \<Rightarrow>
                 bind_op (bench_transition env r SCHEDULED (Some (b_id b)) None) (\<lambda>_.
                 bind_op (bench_transition env r BATCHED None None) (\<lambda>_.
                 bind_op (bench_transition env r SUBMITTED None (Some backend)) (\<lambda>_. return_op ()))))
       else if st = BATCHED
       then bind_op (bench_transition env r SUBMITTED None (Some backend)) (\<lambda>_. return_op ())
       else if st \<notin> {SUBMITTED, STREAMING, COMPLETED}
       then raise_op (BX_Runtime (''unexpected_state:'' @ request_state_value st))
       else return_op ()))"

definition walk_to_streaming :: "request_env \<Rightarrow> uuid \<Rightarrow> unit bench" where
  "walk_to_streaming env r =
     bind_op (stack_lifecycle (get_entry r)) (\<lambda>e.
     bind_op (gets_op (state_of e)) (\<lambda>st.
       if st = SUBMITTED
       then bind_op (bench_transition env r STREAMING None None) (\<lambda>_. return_op ())
       else return_op ()))"

text \<open>The chunks of the backend; their number is what the run keeps of them.\<close>

definition stream_from_backend :: "request_env \<Rightarrow> submit_request \<Rightarrow> string \<Rightarrow> nat bench" where
  "stream_from_backend env submit backend =
     bind_op (gets_op (\<lambda>s. get_backend backend (dw_adapter (pf_world (bh_platform s))))) (\<lambda>found.
     case found of
       None \<Rightarrow> raise_op (BX_Runtime (''backend_not_found:'' @ backend))
     | Some b \<Rightarrow>
         (case stream_inference_request (qv_stream env) (submit_id submit) (qv_stream_id env)
                 (sr_inference_request submit) (rb_backend b) of
            (cs, failure, b') \<Rightarrow>
              then_op (on_stack (on_adapter (modify_op (write_backend backend b'))))
                (case failure of
                   Some x \<Rightarrow> raise_op (BX_Backend x)
                 | None \<Rightarrow> return_op (length cs))))"

definition finish_request :: "request_env \<Rightarrow> uuid \<Rightarrow> ref bench" where
  "finish_request env r =
     bind_op (on_stack (on_batches (complete_request_in_batch (fst (pe_finish (sv_path (qv_stream env))))
                (pe_retire_id (sv_path (qv_stream env))) r))) (\<lambda>_.
     bind_op (stack_lifecycle (complete_request (pe_finish (sv_path (qv_stream env))) r None)) (\<lambda>_.
     stack_lifecycle (get_entry r)))"

text \<open>What is known before the request runs, kept by its result and by that of its failure.\<close>

definition known_fields ::
  "(string, string) dict option \<Rightarrow> workload_profile \<Rightarrow> nat \<Rightarrow> uuid \<Rightarrow> bool \<Rightarrow> int \<Rightarrow> rat option \<Rightarrow>
   rat option \<Rightarrow> nat option \<Rightarrow> benchmark_result" where
  "known_fields file p i r ok depth age delay members =
     base_fields file p True
       ((plain_result i ok)\<lparr>bn_request_id := Some r, bn_queue_depth_at_schedule := Some depth,
          bn_request_age_ms := age, bn_scheduling_delay_ms := delay,
          bn_batch_member_count := map_option int members\<rparr>)"

definition gpu_fields :: "request_env \<Rightarrow> benchmark_result \<Rightarrow> benchmark_result bench" where
  "gpu_fields env r =
     bind_op (collect_bench (qv_now env) (qv_collect env)) (\<lambda>g.
     return_op (case g of
        None \<Rightarrow> r
      | Some g \<Rightarrow> (apply_gpu_metrics g r)
          \<lparr>bn_kv_cache_occupancy_ratio := Some (kv_cache_occupancy_ratio (gsn_kv_cache g)),
           bn_active_sequences := Some (kv_active_sequences (gsn_kv_cache g))\<rparr>))"

definition measured_result :: "request_env \<Rightarrow> nat \<Rightarrow> ref \<Rightarrow> benchmark_result \<Rightarrow> bench_state \<Rightarrow> benchmark_result" where
  "measured_result env n e known s =
     (let x = entry_at (pf_control (bh_platform s)) e in
      known\<lparr>bn_success := (re_state x = COMPLETED), bn_latency_ms := Some (elapsed_perf env),
        bn_ttft_ms := first_token_ms env n, bn_itl_ms_samples := token_gaps_ms env n,
        bn_queue_wait_ms := queue_wait_from_trace (qv_now env) (re_request_id x) (stack_traces (bh_platform s)),
        bn_scheduler_latency_ms := bn_scheduling_delay_ms known,
        bn_batch_latency_ms := Some (elapsed_perf env),
        bn_tokens_generated :=
          (case tokens_from_entry x of
             Some k \<Rightarrow> Some k
           | None \<Rightarrow> if n = 0 then None else Some (int n))\<rparr>)"

definition stream_placed ::
  "request_env \<Rightarrow> submit_request \<Rightarrow> batch option \<Rightarrow> benchmark_result \<Rightarrow> benchmark_result bench" where
  "stream_placed env submit found known =
     bind_op (gets_op (\<lambda>s. ss_default_backend_id (bh_settings s))) (\<lambda>backend.
     then_op (walk_to_submitted env (submit_id submit) found backend)
     (then_op (walk_to_streaming env (submit_id submit))
     (bind_op (stream_from_backend env submit backend) (\<lambda>n.
      bind_op (finish_request env (submit_id submit)) (\<lambda>e.
      bind_op (gets_op (measured_result env n e known)) (\<lambda>r.
      bind_op (built r) (gpu_fields env)))))))"

definition transition_and_stream ::
  "(string, string) dict option \<Rightarrow> workload_profile \<Rightarrow> request_env \<Rightarrow> nat \<Rightarrow> submit_request \<Rightarrow> nat option \<Rightarrow>
   benchmark_result bench" where
  "transition_and_stream file p env i submit members_at_dispatch =
     bind_op (gets_op bh_platform) (\<lambda>stack.
       let r = submit_id submit;
           found = find_batch_for_request r stack;
           known = (\<lambda>ok. known_fields file p i r ok (int (queue_size (pf_control stack)))
             (request_age_ms (qv_now env) r stack)
             (scheduling_delay_from_trace (qv_now env) r (stack_traces stack))
             (case members_at_dispatch of
                Some n \<Rightarrow> Some n
              | None \<Rightarrow> map_option active_member_count found))
       in catch_op (stream_placed env submit found (known True))
            (\<lambda>x. built ((known False)\<lparr>bn_error := Some (qv_describe env x),
                                      bn_latency_ms := Some (elapsed_perf env)\<rparr>)))"

section \<open>Scheduling and completing a set of requests\<close>

text \<open>\<open>None\<close>: the dispatch of a cycle does not return.\<close>

type_synonym 'a bench_run = "bench_state \<Rightarrow> ((bench_exn + 'a) \<times> bench_state) option"

text \<open>The cycle of the stack's scheduler: that of the gateway's stack is \<open>run_scheduling_cycle\<close>.\<close>

type_synonym cycle_fun =
  "path_env \<Rightarrow> platform \<Rightarrow> (((cycle_exn + scheduling_result) \<times> batch_dispatch_result list) \<times> platform) option"

fun schedule_queued_requests :: "cycle_fun \<Rightarrow> path_env list \<Rightarrow> unit bench_run" where
  "schedule_queued_requests run [] s = Some (Inr (), s)"
| "schedule_queued_requests run (env # envs) s =
     (if list_by_state QUEUED (pf_control (bh_platform s)) = [] then Some (Inr (), s)
      else (case run env (bh_platform s) of
              None \<Rightarrow> None
            | Some ((Inl x, ds), p) \<Rightarrow> Some (Inl (BX_Cycle x), s\<lparr>bh_platform := p\<rparr>)
            | Some ((Inr _, ds), p) \<Rightarrow> schedule_queued_requests run envs (s\<lparr>bh_platform := p\<rparr>)))"

type_synonym pending = "(nat \<times> submit_request) list"

fun note_dispatch_sizes :: "platform \<Rightarrow> pending \<Rightarrow> (nat, nat) dict \<Rightarrow> (nat, nat) dict" where
  "note_dispatch_sizes stack [] sizes = sizes"
| "note_dispatch_sizes stack ((i, submit) # ps) sizes =
     note_dispatch_sizes stack ps
       (if dict_get sizes i = None
        then (case find_batch_for_request (submit_id submit) stack of
                None \<Rightarrow> sizes
              | Some b \<Rightarrow> dict_set i (active_member_count b) sizes)
        else sizes)"

text \<open>
  One pass over the pending requests: the completed are skipped, those without a batch stay
  pending, the others run. \<open>sampling\<close>: the caller takes a sample after each.
\<close>

record run_config =
  rf_file :: "(string, string) dict option"
  rf_profile :: workload_profile
  rf_sampling :: bool
  rf_env :: "nat \<Rightarrow> nat \<Rightarrow> request_env"
  rf_sample :: "nat \<Rightarrow> nat \<Rightarrow> datetime \<times> collect_env"
  rf_run_cycle :: cycle_fun
  rf_cycle :: "nat \<Rightarrow> path_env"

type_synonym results = "(nat, benchmark_result) dict"

fun complete_placed ::
  "run_config \<Rightarrow> nat \<Rightarrow> (nat, nat) dict \<Rightarrow> pending \<Rightarrow> results \<Rightarrow> pending \<Rightarrow> (results \<times> pending) bench" where
  "complete_placed cfg k sizes [] done waiting = return_op (done, waiting)"
| "complete_placed cfg k sizes ((i, submit) # ps) done waiting =
     bind_op (stack_lifecycle (get_entry (submit_id submit))) (\<lambda>e.
     bind_op (gets_op (\<lambda>s. (state_of e s, is_placed_in_batch (submit_id submit) (bh_platform s)))) (\<lambda>(st, placed).
       if st = COMPLETED then complete_placed cfg k sizes ps done waiting
       else if \<not> placed then complete_placed cfg k sizes ps done (waiting @ [(i, submit)])
       else
         bind_op (transition_and_stream (rf_file cfg) (rf_profile cfg) (rf_env cfg k i) i submit (dict_get sizes i)) (\<lambda>r.
         then_op (if rf_sampling cfg then take_sample (fst (rf_sample cfg k i)) (snd (rf_sample cfg k i))
                  else return_op ())
           (complete_placed cfg k sizes ps (dict_set i r done) waiting))))"

text \<open>At most \<open>n\<close> rounds, from round \<open>k\<close>.\<close>

fun completion_rounds ::
  "run_config \<Rightarrow> nat \<Rightarrow> nat \<Rightarrow> (nat, nat) dict \<Rightarrow> pending \<Rightarrow> results \<Rightarrow> (results \<times> pending) bench_run" where
  "completion_rounds cfg 0 k sizes ps done s = Some (Inr (done, ps), s)"
| "completion_rounds cfg (Suc n) k sizes ps done s =
     (if ps = [] then Some (Inr (done, ps), s)
      else (case schedule_queued_requests (rf_run_cycle cfg) [rf_cycle cfg k] s of
              None \<Rightarrow> None
            | Some (Inl x, t) \<Rightarrow> Some (Inl x, t)
            | Some (Inr _, t) \<Rightarrow>
                (let sizes' = note_dispatch_sizes (bh_platform t) ps sizes in
                 case complete_placed cfg k sizes' ps done [] t of
                   (Inl x, u) \<Rightarrow> Some (Inl x, u)
                 | (Inr (done', ps'), u) \<Rightarrow> completion_rounds cfg n (Suc k) sizes' ps' done' u)))"

definition never_placed :: "run_config \<Rightarrow> nat \<times> submit_request \<Rightarrow> benchmark_result" where
  "never_placed cfg = (\<lambda>(i, submit).
     base_fields (rf_file cfg) (rf_profile cfg) True
       ((plain_result i False)\<lparr>bn_request_id := Some (submit_id submit),
          bn_error := Some ''request_not_placed_in_batch''\<rparr>))"

definition add_never_placed :: "run_config \<Rightarrow> pending \<Rightarrow> results \<Rightarrow> results" where
  "add_never_placed cfg ps done = fold (\<lambda>q. dict_set (fst q) (never_placed cfg q)) ps done"

fun gather :: "results \<Rightarrow> nat list \<Rightarrow> bench_exn + benchmark_result list" where
  "gather done [] = Inr []"
| "gather done (i # is) =
     (case dict_get done i of
        None \<Rightarrow> Inl (BX_Missing i)
      | Some r \<Rightarrow> (case gather done is of Inl x \<Rightarrow> Inl x | Inr rs \<Rightarrow> Inr (r # rs)))"

definition schedule_and_complete_all ::
  "run_config \<Rightarrow> submit_request list \<Rightarrow> benchmark_result list bench_run" where
  "schedule_and_complete_all cfg submits s =
     map_option (\<lambda>(res, t).
         (case res of
            Inl x \<Rightarrow> Inl x
          | Inr (done, ps) \<Rightarrow> gather (add_never_placed cfg ps done) [0..<length submits], t))
       (completion_rounds cfg (length submits * 4) 0 [] (enumerate 0 submits) [] s)"

section \<open>One request of an embedded run (embedded.py)\<close>

definition sync_result ::
  "(string, string) dict option \<Rightarrow> workload_profile \<Rightarrow> request_env \<Rightarrow> nat \<Rightarrow> submit_request \<Rightarrow> ref \<Rightarrow> bench_state \<Rightarrow>
   benchmark_result" where
  "sync_result file p env i submit e s =
     (let x = entry_at (pf_control (bh_platform s)) e;
          ok = (re_state x = COMPLETED);
          wait = queue_wait_from_trace (qv_now env) (submit_id submit) (stack_traces (bh_platform s))
      in base_fields file p False
           ((plain_result i ok)\<lparr>bn_request_id := Some (submit_id submit),
              bn_error := (if ok then None else re_failure_message x),
              bn_latency_ms := Some (elapsed_perf env), bn_queue_wait_ms := wait,
              bn_scheduler_latency_ms := wait, bn_batch_latency_ms := Some (elapsed_perf env),
              bn_tokens_generated :=
                (if ok then Some (case tokens_from_entry x of None \<Rightarrow> 0 | Some n \<Rightarrow> n)
                 else tokens_from_entry x)\<rparr>))"

definition failed_result ::
  "(string, string) dict option \<Rightarrow> workload_profile \<Rightarrow> bool \<Rightarrow> request_env \<Rightarrow> nat \<Rightarrow> submit_request \<Rightarrow> bench_exn \<Rightarrow>
   benchmark_result" where
  "failed_result file p stream env i submit x =
     base_fields file p stream
       ((plain_result i False)\<lparr>bn_request_id := Some (submit_id submit),
          bn_error := Some (qv_describe env x), bn_latency_ms := Some (elapsed_perf env)\<rparr>)"

definition device_fields :: "request_env \<Rightarrow> benchmark_result \<Rightarrow> benchmark_result bench" where
  "device_fields env r =
     bind_op (collect_bench (qv_now env) (qv_collect env)) (\<lambda>g.
     return_op (case g of None \<Rightarrow> r | Some g \<Rightarrow> apply_gpu_metrics g r))"

definition run_sync_request ::
  "admission_framework \<Rightarrow> (string, string) dict option \<Rightarrow> workload_profile \<Rightarrow> request_env \<Rightarrow> nat \<Rightarrow> submit_request \<Rightarrow>
   benchmark_result bench_run" where
  "run_sync_request af file p env i submit s =
     map_option (\<lambda>(res, stack).
         catch_op
           (bind_op (\<lambda>t. (case res of Inl x \<Rightarrow> Inl (BX_Platform x) | Inr e \<Rightarrow> Inr e, t)) (\<lambda>e.
            bind_op (gets_op (sync_result file p env i submit e)) (\<lambda>r.
            bind_op (built r) (device_fields env))))
           (\<lambda>x. built (failed_result file p False env i submit x))
           (s\<lparr>bh_platform := stack\<rparr>))
       (execute_full_path af (sv_path (qv_stream env)) submit (bh_platform s))"

text \<open>
  The streaming path: the request is queued, then the engine of the gateway sends it; the engine
  has its own observers and starts with no cancelled stream.
\<close>

definition bench_session :: "request_env \<Rightarrow> submit_request \<Rightarrow> datetime \<Rightarrow> stream_session" where
  "bench_session env submit received =
     session_create (qv_stream_id env) (submit_id submit) (rc_trace_id (sr_request_context submit))
       (ir_model (sr_inference_request submit)) received"

definition stream_result_of ::
  "(string, string) dict option \<Rightarrow> workload_profile \<Rightarrow> request_env \<Rightarrow> nat \<Rightarrow> submit_request \<Rightarrow> stream_session \<Rightarrow>
   ref \<Rightarrow> bench_state \<Rightarrow> benchmark_result" where
  "stream_result_of file p env i submit session e s =
     (let x = entry_at (pf_control (bh_platform s)) e;
          itl = inter_token_latencies_ms (sn_timing session);
          wait = queue_wait_from_trace (qv_now env) (submit_id submit) (stack_traces (bh_platform s))
      in base_fields file p True
           ((plain_result i (re_state x = COMPLETED))\<lparr>bn_request_id := Some (submit_id submit),
              bn_latency_ms := Some (elapsed_perf env), bn_ttft_ms := timing_ttft_ms (sn_timing session),
              bn_itl_ms_samples := itl, bn_queue_wait_ms := wait, bn_scheduler_latency_ms := wait,
              bn_batch_latency_ms := Some (elapsed_perf env),
              bn_tokens_generated :=
                (case tokens_from_entry x of
                   Some n \<Rightarrow> Some n
                 | None \<Rightarrow> if itl = [] then None else Some (int (length itl)))\<rparr>))"

definition bench_engine :: "observers \<Rightarrow> stream_session \<Rightarrow> platform \<Rightarrow> stream_engine" where
  "bench_engine obs session stack =
     \<lparr>se_platform = stack, se_observers = obs, se_cancelled = [], se_session = session, se_out = [],
      se_captured = []\<rparr>"

definition run_stream_request ::
  "admission_framework \<Rightarrow> observers \<Rightarrow> (string, string) dict option \<Rightarrow> workload_profile \<Rightarrow> request_env \<Rightarrow> nat \<Rightarrow>
   datetime \<Rightarrow> submit_request \<Rightarrow> benchmark_result bench_run" where
  "run_stream_request af obs file p env i received submit s =
     (let failed = (\<lambda>x. built (failed_result file p True env i submit x)) in
      case stack_lifecycle (process_through_queued af (pe_sweep (sv_path (qv_stream env)))
             (pe_admit (sv_path (qv_stream env))) submit) s of
        (Inl x, t) \<Rightarrow> Some (failed x t)
      | (Inr _, t) \<Rightarrow>
          map_option (\<lambda>(res, eng).
              catch_op
                (then_op (\<lambda>u. (case res of Inl x \<Rightarrow> Inl (BX_Stream x) | Inr _ \<Rightarrow> Inr (), u))
                (bind_op (stack_lifecycle (get_entry (submit_id submit))) (\<lambda>e.
                 bind_op (gets_op (stream_result_of file p env i submit (se_session eng) e)) (\<lambda>r.
                 bind_op (built r) (device_fields env)))))
                failed (t\<lparr>bh_platform := se_platform eng\<rparr>))
            (stream_sse af (qv_stream env) submit
              (bench_engine obs (bench_session env submit received) (bh_platform t))))"

text \<open>Which path a request of a scenario takes, and with which profile.\<close>

definition uses_stream :: "benchmark_scenario \<Rightarrow> nat \<Rightarrow> bool" where
  "uses_stream scenario i =
     (if sc_workload_profile scenario = ''mixed''
      then (case sc_mixed_stream_ratio scenario of
              None \<Rightarrow> sc_stream scenario
            | Some q \<Rightarrow> if 1 / 2 \<le> q then odd i else even i)
      else sc_stream scenario)"

definition active_profile :: "bool \<Rightarrow> workload_profile \<Rightarrow> workload_profile" where
  "active_profile stream p =
     (if stream \<and> wp_profile_id p \<noteq> ''streaming'' then streaming_profile else p)"

definition run_one ::
  "admission_framework \<Rightarrow> observers \<Rightarrow> (string, string) dict option \<Rightarrow> request_env \<Rightarrow> uuid \<Rightarrow> datetime \<Rightarrow>
   benchmark_scenario \<Rightarrow> workload_profile \<Rightarrow> nat \<Rightarrow> benchmark_result bench_run" where
  "run_one af obs file env rid now scenario p i =
     (let stream = uses_stream scenario i;
          q = active_profile stream p;
          prompt = prompt_for_profile file (if stream then streaming_profile else q);
          submit = build_submit rid now ''demo'' prompt (wp_max_tokens q) stream
      in if stream then run_stream_request af obs file q env i now submit
         else run_sync_request af file q env i submit)"

section \<open>Experiments\<close>

text \<open>
  What every experiment does with the stack (\<open>batching_comparison.py\<close>, \<open>policy_comparison.py\<close>,
  \<open>scaling_runner.py\<close>): start it, queue all requests, complete them, read the GPU once more and stop
  it. A scaling run takes samples, before the first request and after the last too.
\<close>

definition start_stack :: "(string \<Rightarrow> call_env) \<Rightarrow> unit bench" where
  "start_stack envs =
     bind_op (on_stack (on_adapter (adapter_startup envs))) (\<lambda>_.
     modify_op (\<lambda>s. s\<lparr>bh_platform := (bh_platform s)
       \<lparr>pf_scheduler := scheduler_startup (pf_scheduler (bh_platform s))\<rparr>\<rparr>))"

definition stop_stack :: "datetime \<Rightarrow> unit bench" where
  "stop_stack now =
     then_op (modify_op (\<lambda>s. s\<lparr>bh_platform := (bh_platform s)
       \<lparr>pf_scheduler := scheduler_shutdown (pf_scheduler (bh_platform s))\<rparr>\<rparr>))
     (bind_op (on_stack (on_adapter (adapter_shutdown now))) (\<lambda>_. return_op ()))"

record experiment_env =
  xe_admission :: admission_framework
  xe_start :: "string \<Rightarrow> call_env"
  xe_queue :: "nat \<Rightarrow> clock \<times> clock"
  xe_first_sample :: "datetime \<times> collect_env"
  xe_last_sample :: "datetime \<times> collect_env"
  xe_stop :: datetime

definition queue_all :: "experiment_env \<Rightarrow> submit_request list \<Rightarrow> unit bench" where
  "queue_all xe submits =
     iter_op (\<lambda>(i, submit).
        bind_op (stack_lifecycle (process_through_queued (xe_admission xe) (fst (xe_queue xe i))
          (snd (xe_queue xe i)) submit)) (\<lambda>_. return_op ())) (enumerate 0 submits)"

definition prepare_experiment :: "run_config \<Rightarrow> experiment_env \<Rightarrow> submit_request list \<Rightarrow> unit bench" where
  "prepare_experiment cfg xe submits =
     then_op (start_stack (xe_start xe))
     (then_op (if rf_sampling cfg then take_sample (fst (xe_first_sample xe)) (snd (xe_first_sample xe))
               else return_op ())
       (queue_all xe submits))"

definition close_experiment ::
  "run_config \<Rightarrow> experiment_env \<Rightarrow> benchmark_result list \<Rightarrow> (benchmark_result list \<times> gpu_snapshot option) bench" where
  "close_experiment cfg xe rs =
     bind_op
       (if rf_sampling cfg
        then then_op (take_sample (fst (xe_last_sample xe)) (snd (xe_last_sample xe))) (return_op None)
        else collect_bench (fst (xe_last_sample xe)) (snd (xe_last_sample xe))) (\<lambda>g.
     then_op (stop_stack (xe_stop xe)) (return_op (rs, g)))"

definition run_experiment ::
  "run_config \<Rightarrow> experiment_env \<Rightarrow> submit_request list \<Rightarrow> (benchmark_result list \<times> gpu_snapshot option) bench_run" where
  "run_experiment cfg xe submits s =
     (case prepare_experiment cfg xe submits s of
        (Inl x, t) \<Rightarrow> Some (Inl x, t)
      | (Inr _, t) \<Rightarrow>
          map_option (\<lambda>(res, u).
              (case res of Inl x \<Rightarrow> (Inl x, u) | Inr rs \<Rightarrow> close_experiment cfg xe rs u))
            (schedule_and_complete_all cfg submits t))"

section \<open>The record of an experiment\<close>

datatype benchmark_kind = EX_Batching batching_mode | EX_Policy policy_mode | EX_Scaling | EX_Embedded

fun experiment_runner :: "benchmark_kind \<Rightarrow> string" where
  "experiment_runner (EX_Batching m) = ''batching_comparison''"
| "experiment_runner (EX_Policy p) = ''policy_comparison''"
| "experiment_runner EX_Scaling = ''scaling''"
| "experiment_runner EX_Embedded = ''embedded''"

text \<open>The names whose difference before and after is kept.\<close>

fun experiment_metrics :: "benchmark_kind \<Rightarrow> string list" where
  "experiment_metrics (EX_Batching m) =
     map ((@) gpu_prefix) [''_requests_completed_total'', ''_scheduler_cycles_total'']"
| "experiment_metrics (EX_Policy p) =
     map ((@) gpu_prefix) [''_requests_completed_total'', ''_scheduler_cycles_total'',
       ''_scheduler_policy_decisions_total'']"
| "experiment_metrics EX_Scaling =
     map ((@) gpu_prefix) [''_requests_completed_total'', ''_requests_failed_total'',
       ''_scheduler_cycles_total'', ''_queue_depth'']"
| "experiment_metrics EX_Embedded =
     map ((@) gpu_prefix) [''_requests_completed_total'', ''_requests_failed_total'',
       ''_scheduler_cycles_total'', ''_request_ttft_seconds'']"

definition final_gpu_fields :: "gpu_snapshot option \<Rightarrow> extra" where
  "final_gpu_fields final =
     (case final of
        None \<Rightarrow> []
      | Some g \<Rightarrow>
          (let device = (\<lambda>f. case gsn_devices g of [] \<Rightarrow> X_NONE | d # _ \<Rightarrow> f d) in
           [(''kv_cache_occupancy_ratio'', X_NUM (kv_cache_occupancy_ratio (gsn_kv_cache g))),
            (''active_sequences'', X_INT (kv_active_sequences (gsn_kv_cache g))),
            (''gpu_utilization_percent'', device (\<lambda>d. X_NUM (gd_utilization_percent d))),
            (''gpu_memory_used_bytes'', device (\<lambda>d. X_INT (gd_memory_used_bytes d))),
            (''gpu_source'', device (\<lambda>d. X_STR (gpu_source_value (gd_source d))))]))"

record run_facts =
  fa_run_id :: uuid
  fa_machine :: machine
  fa_environment_time :: datetime
  fa_started_at :: datetime
  fa_completed_at :: datetime
  fa_duration :: rat
  fa_before :: string
  fa_after :: string
  fa_traces :: trace_store
  fa_snapshot_time :: datetime

definition counters_delta :: "benchmark_kind \<Rightarrow> run_facts \<Rightarrow> (string, rat) dict option" where
  "counters_delta kind f =
     (case (snapshot_prometheus_metrics (fa_before f) (experiment_metrics kind),
            snapshot_prometheus_metrics (fa_after f) (experiment_metrics kind)) of
        (Some a, Some b) \<Rightarrow> Some (metrics_delta (experiment_metrics kind) a b)
      | _ \<Rightarrow> None)"

definition runtime_snapshot_of ::
  "benchmark_kind \<Rightarrow> run_facts \<Rightarrow> benchmark_result list \<Rightarrow> uuid list \<Rightarrow> gpu_snapshot option \<Rightarrow>
   telemetry_sample list \<Rightarrow> (string, rat) dict \<Rightarrow> extra option" where
  "runtime_snapshot_of kind f results ids final samples delta =
     (case kind of
        EX_Batching m \<Rightarrow> Some (final_gpu_fields final)
      | EX_Policy p \<Rightarrow> Some (dict_update (final_gpu_fields final @ [(''scheduler_policy_id'', X_STR (po_policy_id p))])
          (starvation_snapshot results))
      | EX_Scaling \<Rightarrow> scaling_snapshot (fa_snapshot_time f) samples delta (fa_after f) (fa_traces f)
          (capture_hardware_metadata (fa_machine f)) ids
      | EX_Embedded \<Rightarrow> Some [])"

definition bare_run ::
  "benchmark_kind \<Rightarrow> run_facts \<Rightarrow> benchmark_scenario \<Rightarrow> bool \<Rightarrow> benchmark_result list \<Rightarrow> telemetry_sample list \<Rightarrow>
   (string, rat) dict \<Rightarrow> extra \<Rightarrow> benchmark_run" where
  "bare_run kind f scenario stream results samples delta snapshot =
     (let ordered = sort_key bn_request_index results;
          mode = (case kind of EX_Batching m \<Rightarrow> Some m | EX_Embedded \<Rightarrow> None | _ \<Rightarrow> Some continuous_batching_mode);
          policy = (case kind of EX_Policy p \<Rightarrow> Some p | _ \<Rightarrow> None)
      in \<lparr>run_run_id = fa_run_id f, run_scenario = scenario,
          run_environment = Some (capture_benchmark_environment (fa_machine f) (fa_environment_time f) ''demo'' ''mock'' stream),
          run_hardware = capture_hardware_metadata (fa_machine f),
          run_model = capture_model_metadata (fa_machine f) ''demo'' ''mock'' stream,
          run_started_at = fa_started_at f, run_completed_at = Some (fa_completed_at f),
          run_results = ordered, run_summary = Some (build_summary ordered (fa_duration f)),
          run_metrics_snapshot = delta, run_runner = experiment_runner kind,
          run_scheduler_policy = map_option po_policy_id policy,
          run_scheduler_policy_config = (case policy of None \<Rightarrow> [] | Some p \<Rightarrow> policy_config p),
          run_batching_mode = map_option mo_mode_id mode,
          run_batching_config = (case mode of None \<Rightarrow> [] | Some m \<Rightarrow> mode_config m),
          run_runtime_snapshot = snapshot,
          run_telemetry_samples = (case kind of EX_Scaling \<Rightarrow> samples | _ \<Rightarrow> []), run_bottleneck = None\<rparr>)"

text \<open>
  \<open>None\<close> is the exception of a counter that cannot be read or of the analysis. A scaling run is
  analysed before it is written.
\<close>

definition experiment_record ::
  "benchmark_kind \<Rightarrow> run_facts \<Rightarrow> benchmark_scenario \<Rightarrow> uuid list \<Rightarrow> benchmark_result list \<Rightarrow> gpu_snapshot option \<Rightarrow>
   telemetry_sample list \<Rightarrow> benchmark_run option" where
  "experiment_record kind f scenario ids results final samples =
     Option.bind (counters_delta kind f) (\<lambda>delta.
     Option.bind (runtime_snapshot_of kind f results ids final samples delta) (\<lambda>snapshot.
       let run = bare_run kind f scenario (kind = EX_Scaling \<or> sc_stream scenario) results samples delta snapshot in
       if kind = EX_Scaling
       then map_option (\<lambda>a. run\<lparr>run_bottleneck := Some a\<rparr>) (analyze_bottleneck run)
       else Some run))"

text \<open>An embedded run adds up what each of its requests changes, every one on a stack of its own.\<close>

fun combined_metrics :: "(string \<times> string) list \<Rightarrow> (string, rat) dict \<Rightarrow> (string, rat) dict option" where
  "combined_metrics [] totals = Some totals"
| "combined_metrics ((before, after) # rest) totals =
     (let names = experiment_metrics EX_Embedded;
          value = (\<lambda>d k. case dict_get d k of None \<Rightarrow> 0 | Some x \<Rightarrow> x)
      in case (snapshot_prometheus_metrics before names, snapshot_prometheus_metrics after names) of
           (Some a, Some b) \<Rightarrow>
             combined_metrics rest
               (fold (\<lambda>k t. dict_set k (value t k + (value b k - value a k)) t) names totals)
         | _ \<Rightarrow> None)"

definition embedded_record ::
  "run_facts \<Rightarrow> benchmark_scenario \<Rightarrow> (string \<times> string) list \<Rightarrow> benchmark_result list \<Rightarrow> benchmark_run option" where
  "embedded_record f scenario exports results =
     map_option (\<lambda>delta. bare_run EX_Embedded f scenario (sc_stream scenario) results [] delta [])
       (combined_metrics exports (map (\<lambda>k. (k, 0)) (experiment_metrics EX_Embedded)))"

end
