(* ===== verification/Benchmark_Properties.thy ===== *)
theory Benchmark_Properties
  imports Benchmark_Analysis Stream_Text
begin

text \<open>
  What the analysis of the benchmarks says: a summary counts every result once and its percentiles
  are measured values in order; a bottleneck that is named is one a test found, and comes with its
  evidence; the counters read from the Prometheus text are sums over its lines.
\<close>

section \<open>Summaries\<close>

lemma length_filter_split: "length (filter P xs) + length (filter (\<lambda>x. \<not> P x) xs) = length xs"
  by (induction xs) auto

lemma map_filter_mem: "x \<in> set (List.map_filter f xs) \<longleftrightarrow> (\<exists>r \<in> set xs. f r = Some x)"
  by (force simp: List.map_filter_def)

lemma percentiles_ordered:
  assumes "percentile vs p = Some x" and "p \<le> q"
  obtains y where "percentile vs q = Some y" "y \<in> set vs" "x \<in> set vs" "x \<le> y"
proof -
  from assms(1) have ne: "vs \<noteq> []" by (auto simp: percentile_def)
  obtain y where y: "percentile vs q = Some y" "y \<in> set vs" by (rule percentile_mem [OF ne])
  moreover obtain x' where "percentile vs p = Some x'" "x' \<in> set vs" by (rule percentile_mem [OF ne])
  with assms(1) have "x \<in> set vs" by simp
  moreover have "x \<le> y" by (rule percentile_mono [OF assms(1) y(1) assms(2)])
  ultimately show thesis by (rule that)
qed

definition measured_success :: "benchmark_result list \<Rightarrow> rat \<Rightarrow> bool" where
  "measured_success rs x \<longleftrightarrow> (\<exists>r \<in> set rs. bn_success r \<and> bn_latency_ms r = Some x)"

theorem summary_of_results:
  fixes results :: "benchmark_result list" and duration :: rat
  defines "s \<equiv> build_summary results duration"
  shows "su_successful_requests s + su_failed_requests s = length results \<and>
    (\<forall>x. su_latency_ms_p50 s = Some x \<longrightarrow>
      (\<exists>y z. su_latency_ms_p95 s = Some y \<and> su_latency_ms_p99 s = Some z \<and> x \<le> y \<and> y \<le> z \<and>
        measured_success results x \<and> measured_success results y \<and> measured_success results z)) \<and>
    (su_latency_ms_p50 s = None \<longleftrightarrow> \<not> (\<exists>x. measured_success results x)) \<and>
    (\<forall>t. su_throughput_rps s = Some t \<longrightarrow> t * duration = of_nat (su_successful_requests s) \<and> 0 < t)"
proof -
  let ?ls = "List.map_filter bn_latency_ms (filter bn_success results)"
  have mem: "x \<in> set ?ls \<longleftrightarrow> measured_success results x" for x
    by (subst map_filter_mem) (auto simp: measured_success_def)
  have fields: "su_latency_ms_p50 s = percentile ?ls 50" "su_latency_ms_p95 s = percentile ?ls 95"
      "su_latency_ms_p99 s = percentile ?ls 99"
    by (simp_all add: s_def build_summary_def Let_def)
  have "\<exists>y z. su_latency_ms_p95 s = Some y \<and> su_latency_ms_p99 s = Some z \<and> x \<le> y \<and> y \<le> z \<and>
      measured_success results x \<and> measured_success results y \<and> measured_success results z"
    if "su_latency_ms_p50 s = Some x" for x
  proof -
    from that have x: "percentile ?ls 50 = Some x" by (simp add: fields)
    obtain y where y: "percentile ?ls 95 = Some y" "y \<in> set ?ls" "x \<in> set ?ls" "x \<le> y"
      by (rule percentiles_ordered [OF x, of 95]) simp
    obtain z where z: "percentile ?ls 99 = Some z" "z \<in> set ?ls" "y \<le> z"
      by (rule percentiles_ordered [OF y(1), of 99]) simp
    from y z show ?thesis by (simp add: fields mem)
  qed
  moreover have "su_latency_ms_p50 s = None \<longleftrightarrow> ?ls = []"
    by (simp add: fields percentile_def Let_def)
  then have "su_latency_ms_p50 s = None \<longleftrightarrow> \<not> (\<exists>x. measured_success results x)"
    by (metis mem ex_in_conv set_empty)
  moreover have "su_successful_requests s + su_failed_requests s = length results"
    by (simp add: s_def build_summary_def Let_def length_filter_split)
  moreover have "t * duration = of_nat (su_successful_requests s) \<and> 0 < t" if "su_throughput_rps s = Some t" for t
    using that by (auto simp: s_def build_summary_def Let_def split: if_splits)
  ultimately show ?thesis by blast
qed

section \<open>Bottlenecks\<close>

lemma bottleneck_value_inject [simp]: "bottleneck_value s = bottleneck_value t \<longleftrightarrow> s = t"
  by (cases s; cases t) simp_all

lemma bottleneck_value_none [simp]: "bottleneck_value t = ''none_observed'' \<longleftrightarrow> t = NONE_OBSERVED"
  by (cases t) simp_all

lemma classified_set [simp]:
  "classified (dict_set (bottleneck_value b) True cls) t \<longleftrightarrow> t = b \<or> classified cls t"
  by (simp add: classified_def)

lemma apply_tests_classified:
  "classified (fst (apply_tests ts (cls, ev))) t \<longleftrightarrow>
     classified cls t \<or> (\<exists>es. (True, Some t, es) \<in> set ts)"
proof (induction ts arbitrary: cls ev)
  case (Cons x ts)
  obtain f o' es where x: "x = (f, o', es)" by (cases x)
  show ?case
    by (cases f; cases o') (auto simp: x Cons)
qed simp

lemma apply_tests_evidence:
  "snd (apply_tests ts (cls, ev)) = ev @ concat (map (\<lambda>(f, t, es). if f then es else []) ts)"
  by (induction ts arbitrary: cls ev) auto

lemma tests_have_evidence: "(f, t, es) \<in> set (bottleneck_tests run) \<Longrightarrow> es \<noteq> []"
  by (auto simp: bottleneck_tests_def Let_def)

lemma not_classified_at_first: "\<not> classified unclassified t"
  by (cases t) (simp_all add: classified_def unclassified_def)

lemma tests_have_priority: "(f, Some t, es) \<in> set (bottleneck_tests run) \<Longrightarrow> t \<in> set bottleneck_priority"
  by (auto simp: bottleneck_tests_def bottleneck_priority_def Let_def)

text \<open>\<open>found run t\<close>: a test of the run found bottleneck \<open>t\<close>.\<close>

definition found :: "benchmark_run \<Rightarrow> bottleneck_type \<Rightarrow> bool" where
  "found run t \<longleftrightarrow> (\<exists>es. (True, Some t, es) \<in> set (bottleneck_tests run))"

lemma find_split:
  "List.find P xs = Some x \<Longrightarrow> \<exists>ys zs. xs = ys @ x # zs \<and> P x \<and> (\<forall>y \<in> set ys. \<not> P y)"
  by (induction xs) (force split: if_splits intro: exI [of _ "[]"] exI [of _ "_ # _"])+

lemma analysis_parts:
  assumes "analyze_bottleneck run = Some a"
  shows "classified (ba_classifications a) t \<longleftrightarrow> found run t"
    and "ba_primary_bottleneck a = bottleneck_value (primary_of (ba_classifications a))"
    and "ba_evidence a \<noteq> []"
proof -
  obtain cls ev where r: "apply_tests (bottleneck_tests run) (unclassified, []) = (cls, ev)" by force
  with assms have a: "ba_classifications a = cls"
      "ba_primary_bottleneck a = bottleneck_value (primary_of cls)"
      "ba_evidence a = (if ev = [] \<and> primary_of cls = NONE_OBSERVED
         then [''no bottleneck signals above configured thresholds''] else ev)"
    by (auto simp: analyze_bottleneck_def split: if_splits)
  have cls: "classified cls t \<longleftrightarrow> found run t" for t
    using apply_tests_classified [of "bottleneck_tests run" unclassified "[]" t]
    by (simp add: r not_classified_at_first found_def)
  then show "classified (ba_classifications a) t \<longleftrightarrow> found run t" by (simp add: a)
  show "ba_primary_bottleneck a = bottleneck_value (primary_of (ba_classifications a))" by (simp add: a)
  have "ev \<noteq> []" if "primary_of cls \<noteq> NONE_OBSERVED"
  proof -
    from that obtain t where "List.find (classified cls) bottleneck_priority = Some t"
      by (auto simp: primary_of_def split: option.splits)
    then have "found run t" using cls find_split by fastforce
    then obtain es where "(True, Some t, es) \<in> set (bottleneck_tests run)" by (auto simp: found_def)
    moreover from this have "es \<noteq> []" by (rule tests_have_evidence)
    ultimately show ?thesis
      using apply_tests_evidence [of "bottleneck_tests run" unclassified "[]"] by (force simp: r)
  qed
  then show "ba_evidence a \<noteq> []" by (auto simp: a)
qed

text \<open>
  An analysis names the first bottleneck in the order of priority that a test found, and none
  exactly when no test found one; its evidence is never empty.
\<close>

theorem bottleneck_named:
  assumes "analyze_bottleneck run = Some a"
  shows "ba_evidence a \<noteq> [] \<and>
    (\<forall>t. dict_get (ba_classifications a) (bottleneck_value t) = Some True \<longleftrightarrow> found run t) \<and>
    (ba_primary_bottleneck a = ''none_observed'' \<longleftrightarrow> \<not> (\<exists>t. found run t)) \<and>
    (\<forall>t. ba_primary_bottleneck a = bottleneck_value t \<and> t \<noteq> NONE_OBSERVED \<longrightarrow>
      (\<exists>before after. bottleneck_priority = before @ t # after \<and> found run t \<and>
        (\<forall>u \<in> set before. \<not> found run u)))"
proof -
  note parts = analysis_parts [OF assms]
  have cl: "classified (ba_classifications a) = found run" using parts(1) by blast
  have in_priority: "t \<in> set bottleneck_priority" if "found run t" for t
    using that tests_have_priority by (auto simp: found_def)
  have none: "ba_primary_bottleneck a = bottleneck_value NONE_OBSERVED \<longleftrightarrow> \<not> (\<exists>t. found run t)"
  proof -
    have "List.find (found run) bottleneck_priority = None \<longleftrightarrow> \<not> (\<exists>t. found run t)"
      using in_priority by (auto simp: find_None_iff)
    moreover have "List.find (found run) bottleneck_priority \<noteq> Some NONE_OBSERVED"
    proof
      assume "List.find (found run) bottleneck_priority = Some NONE_OBSERVED"
      then obtain ys zs where "bottleneck_priority = ys @ NONE_OBSERVED # zs" using find_split by fast
      then have "NONE_OBSERVED \<in> set bottleneck_priority" by (metis in_set_conv_decomp)
      then show False by (simp add: bottleneck_priority_def)
    qed
    ultimately show ?thesis
      by (cases "List.find (found run) bottleneck_priority") (auto simp: parts(2) primary_of_def cl)
  qed
  have first: "\<exists>before after. bottleneck_priority = before @ t # after \<and> found run t \<and>
      (\<forall>u \<in> set before. \<not> found run u)"
    if "ba_primary_bottleneck a = bottleneck_value t" "t \<noteq> NONE_OBSERVED" for t
  proof -
    from that have "List.find (found run) bottleneck_priority = Some t"
      by (auto simp: parts(2) primary_of_def cl split: option.splits)
    then show ?thesis by (rule find_split)
  qed
  show ?thesis
    using parts(3) cl none first by (auto simp: classified_def fun_eq_iff)
qed

text \<open>The snapshot that a scaling run builds can always be analysed.\<close>

theorem scaling_run_analysed:
  assumes "run_runtime_snapshot run = build_runtime_snapshot samples delta avg events memory"
  shows "analyze_bottleneck run \<noteq> None"
  using assms
  by (auto simp: analyze_bottleneck_def comparable_def peak_kv_def gpu_util_def measured_def
      runtime_get_def build_runtime_snapshot_def Let_def split: prod.splits option.splits)

text \<open>Where no wait in the queue was measured, a run is bound by its queue only through its failures.\<close>

lemma queue_bound_by_failures:
  assumes "\<forall>r \<in> set (run_results run). bn_queue_wait_ms r = None" and "found run QUEUE_BOUND"
  shows "0 < category_count ''queue'' run"
proof -
  have "queue_wait_median run = None"
    using assms(1) by (simp add: queue_wait_median_def upper_median_def List.map_filter_def)
  then have "\<not> queue_wait_dominates run" by (simp add: queue_wait_dominates_def)
  with assms(2) show ?thesis by (auto simp: found_def bottleneck_tests_def Let_def)
qed

section \<open>Sustainable concurrency\<close>

definition sustains :: "benchmark_run \<Rightarrow> bool" where
  "sustains r \<longleftrightarrow> (\<exists>s. run_summary r = Some s \<and> su_failed_requests s = 0)"

theorem sustainable_is_greatest:
  "case max_sustainable_concurrency runs of
     None \<Rightarrow> \<not> (\<exists>r \<in> set runs. sustains r)
   | Some c \<Rightarrow>
       (\<exists>r \<in> set runs. sustains r \<and> sc_concurrency (run_scenario r) = c) \<and>
       (\<forall>r \<in> set runs. sustains r \<longrightarrow> sc_concurrency (run_scenario r) \<le> c)"
proof -
  let ?f = "\<lambda>r. case run_summary r of None \<Rightarrow> None
    | Some s \<Rightarrow> if su_failed_requests s = 0 then Some (sc_concurrency (run_scenario r)) else None"
  let ?cs = "List.map_filter ?f runs"
  have f: "?f r = Some c \<longleftrightarrow> sustains r \<and> sc_concurrency (run_scenario r) = c" for r c
    by (auto simp: sustains_def split: option.splits)
  have mem: "c \<in> set ?cs \<longleftrightarrow> (\<exists>r \<in> set runs. sustains r \<and> sc_concurrency (run_scenario r) = c)" for c
    unfolding map_filter_mem f ..
  show ?thesis
  proof (cases "?cs = []")
    case True
    then have "\<not> (\<exists>r \<in> set runs. sustains r)" using mem by (metis empty_iff empty_set)
    with True show ?thesis by (simp add: max_sustainable_concurrency_def)
  next
    case False
    then have "Max (set ?cs) \<in> set ?cs" by (intro Max_in) auto
    moreover have "sc_concurrency (run_scenario r) \<le> Max (set ?cs)" if "r \<in> set runs" "sustains r" for r
      using that by (intro Max_ge) (auto simp: mem)
    ultimately show ?thesis
      using False mem by (simp add: max_sustainable_concurrency_def)
  qed
qed

section \<open>Counters\<close>

definition counted :: "string \<Rightarrow> string \<Rightarrow> bool" where
  "counted n line \<longleftrightarrow> \<not> starts_with ''#'' line \<and> starts_with n line"

definition total_of :: "(string, rat) dict \<Rightarrow> string \<Rightarrow> rat" where
  "total_of d n = (case dict_get d n of None \<Rightarrow> 0 | Some x \<Rightarrow> x)"

lemma total_of_set: "total_of (dict_set n x d) m = (if m = n then x else total_of d m)"
  by (simp add: total_of_def)

lemma add_line_total:
  assumes "add_line names line d = Some d'" and "distinct names"
  shows "total_of d' n =
    total_of d n + (if n \<in> set names \<and> starts_with n line then the (last_value line) else 0)"
  using assms
proof (induction names arbitrary: d)
  case (Cons m ms)
  show ?case
  proof (cases "starts_with m line")
    case True
    with Cons.prems(1) obtain x where x: "last_value line = Some x"
      and rest: "add_line ms line (dict_set m (total_of d m + x) d) = Some d'"
      by (auto simp: total_of_def split: option.splits)
    from Cons.IH [OF rest] Cons.prems(2) True x show ?thesis
      by (auto simp: total_of_set)
  next
    case False
    with Cons show ?thesis by auto
  qed
qed simp

text \<open>
  A name's counter is the sum of the last words of all lines that begin with it and are no comments:
  of its own samples, and of those of every metric whose name extends it.
\<close>

theorem snapshot_totals:
  assumes "snapshot_prometheus_metrics export names = Some d" and "distinct names" and "n \<in> set names"
  shows "total_of d n = sum_list (map (\<lambda>l. the (last_value l)) (filter (counted n) (split_lines [] export)))"
proof -
  have "total_of d n = total_of d0 n + sum_list (map (\<lambda>l. the (last_value l)) (filter (counted n) ls))"
    if "add_lines names ls d0 = Some d" for ls d0
    using that
  proof (induction ls arbitrary: d0)
    case (Cons l ls)
    show ?case
    proof (cases "starts_with ''#'' l")
      case True
      with Cons show ?thesis by (simp add: counted_def)
    next
      case False
      with Cons.prems obtain d1 where d1: "add_line names l d0 = Some d1" "add_lines names ls d1 = Some d"
        by (auto split: option.splits)
      from Cons.IH [OF d1(2)] add_line_total [OF d1(1) assms(2), of n] assms(3) False
      show ?thesis by (simp add: counted_def algebra_simps)
    qed
  qed simp
  from this [of "split_lines [] export" "[]"] assms(1) show ?thesis
    by (simp add: snapshot_prometheus_metrics_def total_of_def)
qed

text \<open>A histogram is no counter: its buckets, its count and its sum all begin with its name.\<close>

lemma histogram_is_added_up:
  "snapshot_prometheus_metrics
     (''ttft_seconds_bucket{le=1} 1'' @ [CHR 10] @ ''ttft_seconds_bucket{le=+Inf} 1'' @ [CHR 10] @
      ''ttft_seconds_count 1'' @ [CHR 10] @ ''ttft_seconds_sum 0.5'' @ [CHR 10]) [''ttft_seconds''] =
   Some [(''ttft_seconds'', 7 / 2)]"
  by code_simp

end
