(* ===== verification/Benchmark_Run_Properties.thy ===== *)
theory Benchmark_Run_Properties
  imports Benchmark_Runner Benchmark_Properties Stream_Completion
begin

text \<open>
  The runs of the benchmarks: whatever the platform does, every request gets one result, in the order
  of the submissions; a result that reports success is that of a request that is completed; the loop
  ends when the cycles of the scheduler do; and what one pass over the requests does to the platform
  is within what its operations may do.
\<close>

section \<open>What an operation returns\<close>

text \<open>\<open>gives Q m\<close>: from any state, if \<open>m\<close> returns, its result has \<open>Q\<close>.\<close>

definition gives :: "('a \<Rightarrow> bool) \<Rightarrow> ('s, 'e, 'a) op \<Rightarrow> bool" where
  "gives Q m \<longleftrightarrow> (\<forall>s a t. m s = (Inr a, t) \<longrightarrow> Q a)"

lemma givesI: "(\<And>s a t. m s = (Inr a, t) \<Longrightarrow> Q a) \<Longrightarrow> gives Q m"
  by (auto simp: gives_def)

lemma givesD: "gives Q m \<Longrightarrow> m s = (Inr a, t) \<Longrightarrow> Q a"
  by (auto simp: gives_def)

lemma gives_return: "Q a \<Longrightarrow> gives Q (return_op a)"
  by (simp add: gives_def op_defs)

lemma gives_raise: "gives Q (raise_op e)"
  by (simp add: gives_def op_defs)

lemma gives_any: "gives (\<lambda>_. True) m"
  by (simp add: gives_def)

lemma gives_gets: "(\<And>s. Q (f s)) \<Longrightarrow> gives Q (gets_op f)"
  by (auto simp: gives_def op_defs)

lemma gives_bind:
  assumes m: "gives Q m" and f: "\<And>a. Q a \<Longrightarrow> gives R (f a)"
  shows "gives R (bind_op m f)"
proof (rule givesI)
  fix s b t assume run: "bind_op m f s = (Inr b, t)"
  obtain x u where x: "m s = (x, u)" by force
  with run obtain a where a: "x = Inr a" "f a u = (Inr b, t)"
    by (cases x) (auto simp: bind_op_def)
  with x have "Q a" using givesD [OF m] by blast
  then show "R b" using givesD [OF f a(2)] by blast
qed

lemma gives_bind_any: "(\<And>a. gives R (f a)) \<Longrightarrow> gives R (bind_op m f)"
  by (rule gives_bind [OF gives_any])

lemma gives_then: "gives R n \<Longrightarrow> gives R (then_op m n)"
  by (simp add: then_op_def gives_bind_any)

lemma gives_catch:
  assumes m: "gives Q m" and h: "\<And>e. gives Q (h e)"
  shows "gives Q (catch_op m h)"
proof (rule givesI)
  fix s a t assume run: "catch_op m h s = (Inr a, t)"
  obtain x u where x: "m s = (x, u)" by force
  with run show "Q a" using givesD [OF m] givesD [OF h] by (cases x) (auto simp: catch_op_def)
qed

section \<open>Every request has its result\<close>

definition identified :: "nat \<Rightarrow> uuid \<Rightarrow> benchmark_result \<Rightarrow> bool" where
  "identified i r x \<longleftrightarrow> bn_request_index x = i \<and> bn_request_id x = Some r"

lemma identified_known: "identified i r (known_fields file p i r ok depth age delay members)"
  by (simp add: identified_def known_fields_def base_fields_def plain_result_def)

lemma identified_never: "identified i (submit_id submit) (never_placed cfg (i, submit))"
  by (simp add: identified_def never_placed_def base_fields_def plain_result_def)

lemma gives_built: "Q r \<Longrightarrow> gives Q (built r)"
  by (simp add: built_def gives_return gives_raise)

lemma identified_gpu: "identified i r x \<Longrightarrow> gives (identified i r) (gpu_fields env x)"
  unfolding gpu_fields_def
  by (intro gives_bind_any gives_return)
    (auto simp: identified_def apply_gpu_metrics_def split: option.split list.split)

lemma identified_measured:
  "identified i r known \<Longrightarrow> identified i r (measured_result env n e known s)"
  by (simp add: identified_def measured_result_def Let_def)

lemma identified_transition:
  "gives (identified i (submit_id submit)) (transition_and_stream file p env i submit members)"
proof -
  have main: "gives (identified i (submit_id submit)) (stream_placed env submit found known)"
    if "identified i (submit_id submit) known" for found known
    unfolding stream_placed_def
    by (intro gives_bind_any gives_then gives_bind [OF gives_gets] gives_bind [OF gives_built] identified_gpu)
      (auto intro: identified_measured that)
  have handler: "gives (identified i (submit_id submit)) (built (x\<lparr>bn_error := a, bn_latency_ms := b\<rparr>))"
    if "identified i (submit_id submit) x" for x a b
    using that by (intro gives_built) (simp add: identified_def)
  show ?thesis
    unfolding transition_and_stream_def Let_def
    by (intro gives_bind_any gives_catch main handler identified_known)
qed

definition results_of :: "submit_request list \<Rightarrow> results \<Rightarrow> bool" where
  "results_of submits acc \<longleftrightarrow> (\<forall>i x. dict_get acc i = Some x \<longrightarrow>
     i < length submits \<and> identified i (submit_id (submits ! i)) x)"

definition pending_of :: "submit_request list \<Rightarrow> pending \<Rightarrow> bool" where
  "pending_of submits ps \<longleftrightarrow> (\<forall>(i, submit) \<in> set ps. i < length submits \<and> submits ! i = submit)"

lemma results_of_set:
  "results_of submits acc \<Longrightarrow> i < length submits \<Longrightarrow> identified i (submit_id (submits ! i)) x \<Longrightarrow>
   results_of submits (dict_set i x acc)"
  by (auto simp: results_of_def)

lemma complete_placed_results:
  assumes "results_of submits acc" and "pending_of submits ps" and "pending_of submits waiting"
  shows "gives (\<lambda>(d, w). results_of submits d \<and> pending_of submits w)
    (complete_placed cfg k sizes ps acc waiting)"
  using assms
proof (induction ps arbitrary: acc waiting)
  case Nil
  then show ?case by (auto intro: gives_return)
next
  case (Cons p ps)
  obtain i submit where p: "p = (i, submit)" by force
  with Cons.prems have i: "i < length submits" "submits ! i = submit" and ps: "pending_of submits ps"
    by (auto simp: pending_of_def)
  have waiting: "pending_of submits (waiting @ [(i, submit)])"
    using Cons.prems(3) i by (auto simp: pending_of_def)
  have done_i: "results_of submits (dict_set i x acc)" if "identified i (submit_id submit) x" for x
    using Cons.prems(1) i that by (simp add: results_of_set)
  show ?case
    unfolding p complete_placed.simps
    by (intro gives_bind_any)
      (auto split: prod.split intro!: gives_then gives_bind [OF identified_transition]
        Cons.IH Cons.prems(1,3) ps waiting done_i)
qed

lemma completion_rounds_results:
  assumes "completion_rounds cfg n k sizes ps acc s = Some (Inr (d, w), t)"
    and "results_of submits acc" and "pending_of submits ps"
  shows "results_of submits d \<and> pending_of submits w"
  using assms
proof (induction n arbitrary: k sizes ps acc s)
  case (Suc n)
  show ?case
  proof (cases "ps = []")
    case False
    with Suc.prems(1) obtain t1 sizes' d1 w1 u where
      pass: "complete_placed cfg k sizes' ps acc [] t1 = (Inr (d1, w1), u)"
      and rest: "completion_rounds cfg n (Suc k) sizes' w1 d1 u = Some (Inr (d, w), t)"
      by (auto simp: Let_def split: option.splits prod.splits sum.splits)
    from givesD [OF complete_placed_results pass, of submits] Suc.prems(2,3)
    have "results_of submits d1" "pending_of submits w1" by (auto simp: pending_of_def)
    then show ?thesis by (rule Suc.IH [OF rest])
  qed (use Suc.prems in auto)
qed auto

lemma add_never_placed_results:
  "results_of submits acc \<Longrightarrow> pending_of submits ps \<Longrightarrow> results_of submits (add_never_placed cfg ps acc)"
proof (induction ps arbitrary: acc)
  case (Cons p ps)
  obtain i submit where p: "p = (i, submit)" by force
  with Cons.prems have "i < length submits" "submits ! i = submit" "pending_of submits ps"
    by (auto simp: pending_of_def)
  with Cons p show ?case
    by (auto simp: add_never_placed_def intro!: results_of_set identified_never)
qed (simp add: add_never_placed_def)

lemma gather_results:
  "gather acc is = Inr rs \<Longrightarrow> length rs = length is \<and> (\<forall>j < length is. dict_get acc (is ! j) = Some (rs ! j))"
  by (induction "is" arbitrary: rs)
    (auto split: option.splits sum.splits simp: nth_Cons split: nat.splits)

text \<open>
  If the loop returns results at all, they are one per submission, in order, each with the index
  and the id of its request.
\<close>

theorem results_in_order:
  assumes "schedule_and_complete_all cfg submits s = Some (Inr rs, t)"
  shows "length rs = length submits \<and>
    (\<forall>i < length submits. bn_request_index (rs ! i) = i \<and>
       bn_request_id (rs ! i) = Some (submit_id (submits ! i)))"
proof -
  from assms obtain res where
    r: "completion_rounds cfg (length submits * 4) 0 [] (enumerate 0 submits) [] s = Some (res, t)"
      "(case res of Inl x \<Rightarrow> Inl x
        | Inr (d, w) \<Rightarrow> gather (add_never_placed cfg w d) [0..<length submits]) = Inr rs"
    by (auto simp: schedule_and_complete_all_def)
  from r(2) obtain d w where res: "res = Inr (d, w)"
    and g: "gather (add_never_placed cfg w d) [0..<length submits] = Inr rs"
    by (cases res) auto
  note run = r(1) [unfolded res]
  have "pending_of submits (enumerate 0 submits)"
    by (auto simp: pending_of_def in_set_enumerate_eq)
  with completion_rounds_results [OF run, of submits]
  have "results_of submits d" "pending_of submits w" by (auto simp: results_of_def)
  then have "results_of submits (add_never_placed cfg w d)" by (rule add_never_placed_results)
  with gather_results [OF g] show ?thesis
    by (auto simp: results_of_def identified_def)
qed

text \<open>Sorting the results by their index changes nothing, so a run keeps them as they are.\<close>

lemma ordered_results:
  assumes "\<forall>i < length rs. bn_request_index (rs ! i) = i"
  shows "sort_key bn_request_index rs = rs"
proof (rule sort_key_sorted)
  have "map bn_request_index rs = [0..<length rs]"
    using assms by (intro nth_equalityI) auto
  then show "sorted (map bn_request_index rs)" by simp
qed

section \<open>A success is a completed request\<close>

definition completed_request :: "uuid \<Rightarrow> bench_state \<Rightarrow> bool" where
  "completed_request r s \<longleftrightarrow>
     (\<exists>e. dict_get (rs_entries (pf_control (bh_platform s))) r = Some e \<and> state_of e s = COMPLETED)"

lemma stack_get_entry:
  "ensures (\<lambda>_. True) (stack_lifecycle (get_entry r))
     (\<lambda>e s. dict_get (rs_entries (pf_control (bh_platform s))) r = Some e) (\<lambda>_. True)"
  by (rule ensuresI)
    (auto simp: stack_lifecycle_def on_stack_def on_control_def map_exn_def zoom_op_def get_entry_def
      registry_get_def split: option.splits)

lemma ensures_first: "ensures (\<lambda>_. True) m (\<lambda>_ _. True) (\<lambda>_. True)"
  by (rule ensuresI) simp_all

lemma ensures_bind_any:
  "(\<And>a. ensures (\<lambda>_. True) (f a) R (\<lambda>_. True)) \<Longrightarrow> ensures (\<lambda>_. True) (bind_op m f) R (\<lambda>_. True)"
  by (rule ensures_bind [OF ensures_first])

lemma ensures_then_any:
  "ensures (\<lambda>_. True) n R (\<lambda>_. True) \<Longrightarrow> ensures (\<lambda>_. True) (then_op m n) R (\<lambda>_. True)"
  by (simp add: then_op_def ensures_bind_any)

lemma finish_request_entry:
  "ensures (\<lambda>_. True) (finish_request env r)
     (\<lambda>e s. dict_get (rs_entries (pf_control (bh_platform s))) r = Some e) (\<lambda>_. True)"
  unfolding finish_request_def by (intro ensures_bind_any stack_get_entry)

lemma collect_bench_completed:
  "collect_bench now env s = (a, t) \<Longrightarrow> completed_request r t \<longleftrightarrow> completed_request r s"
  by (auto simp: collect_bench_def completed_request_def state_of_def split: option.splits prod.splits)

lemma gpu_fields_success:
  "ensures (\<lambda>s. bn_success x \<longrightarrow> completed_request r s) (gpu_fields env x)
     (\<lambda>y s. bn_success y \<longrightarrow> completed_request r s) (\<lambda>_. True)"
proof -
  have "ensures (\<lambda>s. bn_success x \<longrightarrow> completed_request r s) (collect_bench now c)
      (\<lambda>_ s. bn_success x \<longrightarrow> completed_request r s) (\<lambda>_. True)" for now c
    by (rule ensuresI) (auto simp: collect_bench_completed)
  then show ?thesis
    unfolding gpu_fields_def
    by (rule ensures_bind)
      (auto intro!: ensures_return simp: apply_gpu_metrics_def split: option.split list.split)
qed

theorem success_is_completed:
  assumes "transition_and_stream file p env i submit members s = (Inr x, t)" and "bn_success x"
  shows "completed_request (submit_id submit) t"
proof -
  let ?r = "submit_id submit"
  let ?Q = "\<lambda>y s. bn_success y \<longrightarrow> completed_request ?r s"
  have measured: "ensures (\<lambda>s. dict_get (rs_entries (pf_control (bh_platform s))) ?r = Some e)
      (gets_op (measured_result env n e known)) ?Q (\<lambda>_. True)" for n e known
    by (rule ensuresI)
      (auto simp: op_defs completed_request_def measured_result_def state_of_def entry_state_def Let_def)
  have checked: "ensures (\<lambda>s. ?Q y s) (built y) ?Q (\<lambda>_. True)" for y
    by (rule ensuresI) (auto simp: built_def op_defs split: if_splits)
  have rest: "ensures (\<lambda>s. ?Q y s) (bind_op (built y) (gpu_fields env)) ?Q (\<lambda>_. True)" for y
    by (rule ensures_bind [OF checked gpu_fields_success])
  have main: "ensures (\<lambda>_. True) (stream_placed env submit found known) ?Q (\<lambda>_. True)" for found known
    unfolding stream_placed_def
    by (intro ensures_bind_any ensures_then_any ensures_bind [OF finish_request_entry]
        ensures_bind [OF measured] rest)
  have handler: "ensures (\<lambda>_. True) (built (y\<lparr>bn_error := a, bn_latency_ms := b\<rparr>)) ?Q (\<lambda>_. True)"
    if "\<not> bn_success y" for y a b
    by (rule ensuresI) (use that in \<open>auto simp: built_def op_defs split: if_splits\<close>)
  have "ensures (\<lambda>_. True) (transition_and_stream file p env i submit members) ?Q (\<lambda>_. True)"
    unfolding transition_and_stream_def Let_def
    by (intro ensures_bind_any ensures_catch [OF main] handler)
      (simp add: known_fields_def base_fields_def plain_result_def)
  from ensures_result [OF this _ assms(1)] assms(2) show ?thesis by simp
qed

section \<open>The loop ends\<close>

theorem comparison_returns:
  assumes "\<And>env p. rf_run_cycle cfg env p \<noteq> None"
  shows "schedule_and_complete_all cfg submits s \<noteq> None"
proof -
  have cycle: "schedule_queued_requests (rf_run_cycle cfg) [env] u \<noteq> None" for env u
    using assms [of env "bh_platform u"] by (auto split: sum.splits)
  have "completion_rounds cfg n k sizes ps acc u \<noteq> None" for n k sizes ps acc u
  proof (induction n arbitrary: k sizes ps acc u)
    case (Suc n)
    obtain res v where "schedule_queued_requests (rf_run_cycle cfg) [rf_cycle cfg k] u = Some (res, v)"
      using cycle by (metis not_None_eq surj_pair)
    with Suc show ?case
      by (auto simp: Let_def split: sum.split prod.split)
  qed simp
  then show ?thesis by (simp add: schedule_and_complete_all_def)
qed

section \<open>Which requests stream\<close>

text \<open>
  In a mixed scenario every second request streams, whatever its ratio: the ratio only chooses
  between the odd and the even ones.
\<close>

lemma mixed_alternates:
  assumes "sc_workload_profile scenario = ''mixed''" and "sc_mixed_stream_ratio scenario = Some q"
  shows "uses_stream scenario (Suc i) \<longleftrightarrow> \<not> uses_stream scenario i"
  using assms by (simp add: uses_stream_def)

section \<open>A concrete run\<close>

definition sample_collect :: collect_env where
  "sample_collect =
     \<lparr>ce_capacity_time = 40, ce_event_times = (\<lambda>_. 40), ce_snapshot_time = 40, ce_nvml = (\<lambda>_. None),
      ce_numbers = None\<rparr>"

definition sample_request_env :: request_env where
  "sample_request_env =
     \<lparr>qv_now = 40, qv_stream = sample_stream_env, qv_stream_id = ''s'', qv_started = 1,
      qv_token_at = (\<lambda>n. 1 + of_nat (Suc n) / 100), qv_finished = 2, qv_collect = sample_collect,
      qv_describe = (\<lambda>_. ''failed'')\<rparr>"

definition sample_run_config :: run_config where
  "sample_run_config =
     \<lparr>rf_file = None, rf_profile = streaming_profile, rf_sampling = False,
      rf_env = (\<lambda>_ _. sample_request_env), rf_sample = (\<lambda>_ _. (40, sample_collect)),
      rf_run_cycle = run_scheduling_cycle, rf_cycle = (\<lambda>_. sv_path sample_stream_env)\<rparr>"

text \<open>One request waits in the queue of a platform with the mock backend.\<close>

definition sample_bench :: bench_state where
  "sample_bench =
     \<lparr>bh_platform = sample_full, bh_collector = None, bh_settings = default_scheduler_settings,
      bh_samples = []\<rparr>"

definition sample_machine :: machine where
  "sample_machine =
     \<lparr>mc_platform = ''Linux'', mc_python_version = ''3.12'', mc_processor = [], mc_machine = ''x86_64'',
      mc_ram_bytes = None, mc_hostname = ''host'', mc_system = ''Linux'', mc_release = ''6'',
      mc_model_size = None, mc_vllm_version = None, mc_init_nvml = (\<lambda>_. None),
      mc_nvml_probe = Inl ''no NVML'', mc_nvml = (\<lambda>_. None)\<rparr>"

definition sample_facts :: run_facts where
  "sample_facts =
     \<lparr>fa_run_id = ''run'', fa_machine = sample_machine, fa_environment_time = 0, fa_started_at = 0,
      fa_completed_at = 50, fa_duration = 1,
      fa_before = [], fa_after = [], fa_traces = [], fa_snapshot_time = 50\<rparr>"

text \<open>
  The request completes. The mock backend sends three tokens and then a chunk without text that says
  why it stopped: the run counts four tokens.
\<close>

lemma sample_run:
  "case schedule_and_complete_all sample_run_config [sample_submit ''a''] sample_bench of
     Some (Inr rs, s) \<Rightarrow>
       map bn_success rs = [True] \<and> map bn_tokens_generated rs = [Some 4] \<and> length mock_tokens = 3
   | _ \<Rightarrow> False"
  by code_simp

lemma sample_record: "\<exists>run. experiment_record EX_Scaling sample_facts scenario ids rs None [] = Some run"
proof -
  obtain delta where delta: "counters_delta EX_Scaling sample_facts = Some delta"
    by (simp add: counters_delta_def sample_facts_def snapshot_prometheus_metrics_def)
  have avg: "metric_histogram_avg_ms (fa_after sample_facts) m = Some None" for m
    by (simp add: metric_histogram_avg_ms_def sample_facts_def)
  have "analyze_bottleneck (bare_run EX_Scaling sample_facts scenario True rs [] delta
      (build_runtime_snapshot [] delta None n memory)) \<noteq> None" for n memory
    by (rule scaling_run_analysed) (simp add: bare_run_def Let_def)
  then show ?thesis
    by (simp add: experiment_record_def runtime_snapshot_of_def scaling_snapshot_def delta avg Let_def)
qed

text \<open>C40: A comparison or scaling run keeps exactly one result per submitted request, in the order of
  the submissions, each under its request's id; its summary counts every one of them, as a success or
  as a failure; and a scaling run comes with a bottleneck analysis that has evidence.\<close>

theorem experiment_counts_all:
  assumes "schedule_and_complete_all cfg submits s = Some (Inr rs, t)"
    and "experiment_record kind f scenario ids rs final samples = Some run"
  shows "run_results run = rs \<and> length rs = length submits \<and>
    (\<forall>i < length submits. bn_request_index (rs ! i) = i \<and>
       bn_request_id (rs ! i) = Some (submit_id (submits ! i))) \<and>
    (\<exists>su. run_summary run = Some su \<and> su_total_requests su = length submits \<and>
      su_successful_requests su + su_failed_requests su = length submits) \<and>
    (kind = EX_Scaling \<longrightarrow> (\<exists>a. run_bottleneck run = Some a \<and> ba_evidence a \<noteq> []))"
proof -
  note rs = results_in_order [OF assms(1)]
  then have sorted: "sort_key bn_request_index rs = rs" by (intro ordered_results) simp
  from assms(2) obtain delta snapshot stream where
    run: "run = bare_run kind f scenario stream rs samples delta snapshot \<or>
      (\<exists>a. analyze_bottleneck (bare_run kind f scenario stream rs samples delta snapshot) = Some a \<and>
        run = (bare_run kind f scenario stream rs samples delta snapshot)\<lparr>run_bottleneck := Some a\<rparr>)"
    by (auto simp: experiment_record_def Let_def split: if_splits bind_splits)
  have analysed: "\<exists>a. run_bottleneck run = Some a \<and> ba_evidence a \<noteq> []" if "kind = EX_Scaling"
    using assms(2) that analysis_parts(3)
    by (auto simp: experiment_record_def Let_def split: bind_splits)
  have "su_total_requests (build_summary rs (fa_duration f)) = length submits"
    using rs by (simp add: build_summary_def Let_def)
  moreover have "su_successful_requests (build_summary rs (fa_duration f)) +
      su_failed_requests (build_summary rs (fa_duration f)) = length submits"
    using summary_of_results [of rs "fa_duration f"] rs by simp
  ultimately show ?thesis
    using run sorted analysed rs by (auto simp: bare_run_def Let_def)
qed

theorem experiment_counts_all_witness:
  "\<exists>rs t run. schedule_and_complete_all sample_run_config [sample_submit ''a''] sample_bench = Some (Inr rs, t) \<and>
     experiment_record EX_Scaling sample_facts (scaling_scenario 1) [''a''] rs None [] = Some run \<and>
     length (run_results run) = 1 \<and> (\<exists>a. run_bottleneck run = Some a \<and> ba_evidence a \<noteq> [])"
proof -
  obtain rs t where
    "schedule_and_complete_all sample_run_config [sample_submit ''a''] sample_bench = Some (Inr rs, t)"
    using sample_run by (auto split: option.splits sum.splits prod.splits)
  moreover obtain run where
    "experiment_record EX_Scaling sample_facts (scaling_scenario 1) [''a''] rs None [] = Some run"
    using sample_record by blast
  ultimately show ?thesis using experiment_counts_all [of sample_run_config] by fastforce
qed

end
