(* ===== verification/Scheduler_Loop.thy ===== *)
theory Scheduler_Loop
  imports Stack Op_Rules
begin

text \<open>
  The tick loop of the scheduler process (\<open>scheduler/loop/runner.py\<close>) with the start and the stop of
  its application (\<open>scheduler/application.py\<close>), as a step relation: what the event loop does to the
  task, and what the threads do that \<open>asyncio.to_thread\<close> runs the cycles in.

  A cycle is four steps of its thread: the thread begins; it takes the lock of the cycle runner, when
  it is free, and runs up to the start event; it runs the body with its error path; it runs the
  \<open>finally\<close> block and lets the lock go. The event loop and the other threads may act between them. An
  exception that leaves the cycle ends it with the lock released and is raised in the task that awaits
  it, which is over then (\<open>LT_Raised\<close>).

  Stopping is two steps: \<open>stop\<close> sets the event and cancels the task, and after the await it forgets
  it. Cancelling withdraws a cycle that no thread has begun; one that has begun goes on. The await of
  a task that was over raises its exception once more, and nothing of the stop that follows is done.
  The timeout of \<open>wait_for\<close> is a step that may happen at any time.
\<close>

section \<open>The state\<close>

text \<open>\<open>LT_Ending\<close>: the task after \<open>cancel\<close>, before \<open>await self._task\<close> is back.\<close>

datatype loop_task = LT_Waiting | LT_InCycle nat | LT_Ending | LT_Raised cycle_exn

text \<open>\<open>CY_Leaving x\<close>: the body is over, and has raised \<open>x\<close> if it raised.\<close>

datatype cycle_phase = CY_Queued | CY_Entered | CY_Running datetime string | CY_Leaving "cycle_exn option"

text \<open>\<open>ll_lock\<close>: the thread that holds the lock of the cycle runner.\<close>

record loop_state =
  ll_app :: scheduler_app
  ll_running :: bool
  ll_task :: "loop_task option"
  ll_stop :: bool
  ll_threads :: "(nat, cycle_phase) dict"
  ll_lock :: "nat option"
  ll_next :: nat

definition new_loop :: "scheduler_app \<Rightarrow> loop_state" where
  "new_loop app =
     \<lparr>ll_app = app, ll_running = False, ll_task = None, ll_stop = False, ll_threads = [],
      ll_lock = None, ll_next = 0\<rparr>"

definition on_app :: "(scheduler_app \<Rightarrow> scheduler_app) \<Rightarrow> loop_state \<Rightarrow> loop_state" where
  "on_app f s = s\<lparr>ll_app := f (ll_app s)\<rparr>"

section \<open>The event loop's side\<close>

definition loop_start :: "loop_state \<Rightarrow> loop_state" where
  "loop_start s =
     (if ll_task s \<noteq> None then s
      else s\<lparr>ll_stop := False, ll_app := (ll_app s)\<lparr>sa_loop_running := True\<rparr>, ll_task := Some LT_Waiting\<rparr>)"

definition app_startup :: "loop_state \<Rightarrow> loop_state" where
  "app_startup s =
     (if ll_running s then s
      else loop_start (on_app (\<lambda>a. a\<lparr>sa_process_mode := SM_ACCEPTING\<rparr>) (s\<lparr>ll_running := True\<rparr>)))"

text \<open>The future of a cycle that no thread has begun is cancelled with the task that awaits it.\<close>

definition withdraw :: "nat \<Rightarrow> (nat, cycle_phase) dict \<Rightarrow> (nat, cycle_phase) dict" where
  "withdraw t ts = (if dict_get ts t = Some CY_Queued then dict_del t ts else ts)"

definition cancel_task :: "loop_state \<Rightarrow> loop_state" where
  "cancel_task s =
     (case ll_task s of
        None \<Rightarrow> s
      | Some (LT_InCycle t) \<Rightarrow> s\<lparr>ll_task := Some LT_Ending, ll_threads := withdraw t (ll_threads s)\<rparr>
      | Some (LT_Raised e) \<Rightarrow> s
      | Some _ \<Rightarrow> s\<lparr>ll_task := Some LT_Ending\<rparr>)"

definition stop_begin :: "loop_state \<Rightarrow> loop_state" where
  "stop_begin s = cancel_task (s\<lparr>ll_stop := True\<rparr>)"

definition stop_end :: "loop_state \<Rightarrow> loop_state" where
  "stop_end s = s\<lparr>ll_task := None, ll_app := (ll_app s)\<lparr>sa_loop_running := False\<rparr>\<rparr>"

definition shutdown_begin :: "loop_state \<Rightarrow> loop_state" where
  "shutdown_begin s = (if ll_running s then stop_begin s else s)"

definition shutdown_end :: "loop_state \<Rightarrow> loop_state" where
  "shutdown_end s = (stop_end s)\<lparr>ll_running := False,
     ll_app := (ll_app (stop_end s))\<lparr>sa_process_mode := SM_DRAINING\<rparr>\<rparr>"

text \<open>A cycle handed to a thread, and the loop's next round when the wait times out.\<close>

definition to_thread :: "loop_state \<Rightarrow> loop_state" where
  "to_thread s = s\<lparr>ll_threads := dict_set (ll_next s) CY_Queued (ll_threads s), ll_next := Suc (ll_next s)\<rparr>"

definition wait_timed_out :: "loop_state \<Rightarrow> loop_state" where
  "wait_timed_out s =
     (if ll_task s = Some LT_Waiting \<and> \<not> ll_stop s
      then (to_thread s)\<lparr>ll_task := Some (LT_InCycle (ll_next s))\<rparr>
      else s)"

section \<open>The threads' side\<close>

definition guarded_body :: "datetime \<Rightarrow> string \<Rightarrow> (nat \<Rightarrow> uuid) \<Rightarrow> scheduling_result sched" where
  "guarded_body now cid ids = catch_op (cycle_body now cid ids) (fail_cycle now cid)"

text \<open>The task that awaits a cycle goes back to waiting when it returns, and is over when it raises.\<close>

definition resume :: "nat \<Rightarrow> cycle_exn option \<Rightarrow> loop_task option \<Rightarrow> loop_task option" where
  "resume t x task =
     (if task = Some (LT_InCycle t)
      then Some (case x of None \<Rightarrow> LT_Waiting | Some e \<Rightarrow> LT_Raised e)
      else task)"

definition thread_over :: "nat \<Rightarrow> cycle_exn option \<Rightarrow> loop_state \<Rightarrow> loop_state" where
  "thread_over t x s = s\<lparr>ll_threads := dict_del t (ll_threads s), ll_task := resume t x (ll_task s)\<rparr>"

definition raised :: "cycle_exn + 'a \<Rightarrow> cycle_exn option" where
  "raised x = (case x of Inl e \<Rightarrow> Some e | Inr _ \<Rightarrow> None)"

text \<open>\<open>with self._lock\<close>: a thread that finds the lock taken waits.\<close>

definition enter_cycle :: "datetime \<Rightarrow> string \<Rightarrow> nat \<Rightarrow> loop_state \<Rightarrow> loop_state" where
  "enter_cycle now cid t s =
     (if ll_lock s \<noteq> None then s
      else case begin_cycle now cid (ll_app s) of
             (Inl e, a) \<Rightarrow> thread_over t (Some e) (s\<lparr>ll_app := a\<rparr>)
           | (Inr _, a) \<Rightarrow> s\<lparr>ll_app := a, ll_lock := Some t,
                              ll_threads := dict_set t (CY_Running now cid) (ll_threads s)\<rparr>)"

text \<open>The \<open>finally\<close> block and the release of the lock; an exception of the block replaces the body's.\<close>

definition leave_cycle :: "nat \<Rightarrow> cycle_exn option \<Rightarrow> loop_state \<Rightarrow> loop_state" where
  "leave_cycle t x s =
     (case end_cycle (ll_app s) of
        (Inl e, a) \<Rightarrow> thread_over t (Some e) (s\<lparr>ll_app := a, ll_lock := None\<rparr>)
      | (Inr _, a) \<Rightarrow> thread_over t x (s\<lparr>ll_app := a, ll_lock := None\<rparr>))"

definition thread_step :: "datetime \<Rightarrow> string \<Rightarrow> (nat \<Rightarrow> uuid) \<Rightarrow> nat \<Rightarrow> loop_state \<Rightarrow> loop_state" where
  "thread_step now cid ids t s =
     (case dict_get (ll_threads s) t of
        None \<Rightarrow> s
      | Some CY_Queued \<Rightarrow> s\<lparr>ll_threads := dict_set t CY_Entered (ll_threads s)\<rparr>
      | Some CY_Entered \<Rightarrow> enter_cycle now cid t s
      | Some (CY_Running began running) \<Rightarrow>
          (case guarded_body began running ids (ll_app s) of
             (x, a) \<Rightarrow> s\<lparr>ll_app := a, ll_threads := dict_set t (CY_Leaving (raised x)) (ll_threads s)\<rparr>)
      | Some (CY_Leaving x) \<Rightarrow> leave_cycle t x s)"

section \<open>The steps and the states they reach\<close>

text \<open>\<open>run_once\<close> hands over a cycle that no task of the loop awaits.\<close>

datatype loop_label = L_Startup | L_Timeout | L_Run_Once | L_Stop | L_Stopped
  | L_Thread datetime string "nat \<Rightarrow> uuid" nat

inductive loop_step :: "loop_state \<Rightarrow> loop_label \<Rightarrow> loop_state \<Rightarrow> bool" where
  ls_startup: "loop_step s L_Startup (app_startup s)"
| ls_timeout: "loop_step s L_Timeout (wait_timed_out s)"
| ls_run_once: "loop_step s L_Run_Once (to_thread s)"
| ls_stop: "loop_step s L_Stop (shutdown_begin s)"
| ls_stopped: "ll_task s = Some LT_Ending \<Longrightarrow> loop_step s L_Stopped (shutdown_end s)"
| ls_thread: "loop_step s (L_Thread now cid ids t) (thread_step now cid ids t s)"

inductive_simps loop_step_simps:
  "loop_step s L_Startup u" "loop_step s L_Timeout u" "loop_step s L_Run_Once u"
  "loop_step s L_Stop u" "loop_step s L_Stopped u" "loop_step s (L_Thread now cid ids t) u"

inductive loop_run :: "loop_state \<Rightarrow> loop_label list \<Rightarrow> loop_state \<Rightarrow> bool" where
  lr_nil: "loop_run s [] s"
| lr_cons: "loop_step s l u \<Longrightarrow> loop_run u ls v \<Longrightarrow> loop_run s (l # ls) v"

inductive_simps loop_run_simps [simp]: "loop_run s [] v" "loop_run s (l # ls) v"

section \<open>What the threads leave alone\<close>

text \<open>Only the start and the stop of the application write whether the loop is running.\<close>

definition same_loop :: "scheduler_app \<Rightarrow> scheduler_app \<Rightarrow> bool" where
  "same_loop a b \<longleftrightarrow> sa_loop_running b = sa_loop_running a"

interpretation loop_frame: step_relation same_loop
  by unfold_locales (simp_all add: same_loop_def)

definition same_cycle :: "scheduler_app \<Rightarrow> scheduler_app \<Rightarrow> bool" where
  "same_cycle a b \<longleftrightarrow> same_loop a b \<and> sa_current_cycle b = sa_current_cycle a"

interpretation cycle_frame: step_relation same_cycle
  by unfold_locales (simp_all add: same_cycle_def same_loop_def)

named_theorems frame_intros \<open>the steps of a cycle leave the process fields alone\<close>

lemma on_engine_frame [frame_intros]: "within_rel same_cycle (on_engine m)"
  by (rule within_relI)
    (simp add: on_engine_def map_exn_def zoom_op_def same_cycle_def same_loop_def split: prod.split sum.split)

lemma on_queue_frame [frame_intros]: "within_rel same_cycle (on_queue m)"
  by (rule within_relI)
    (simp add: on_queue_def map_exn_def zoom_op_def same_cycle_def same_loop_def split: prod.split sum.split)

lemma on_observers_frame [frame_intros]: "within_rel same_cycle (on_observers f)"
  by (rule within_relI) (simp add: on_observers_def op_defs same_cycle_def same_loop_def)

lemma evaluate_frame [frame_intros]: "within_rel same_cycle (evaluate_policy cs n)"
  by (rule within_relI) (simp add: evaluate_policy_def same_cycle_def same_loop_def split: prod.split)

lemma placement_frame:
  "(\<And>p. within_rel same_cycle (f p)) \<Longrightarrow> (\<And>j. within_rel same_cycle (g j)) \<Longrightarrow>
   within_rel same_cycle (case x of Placed p \<Rightarrow> f p | Rejected j \<Rightarrow> g j)"
  by (cases x) simp_all

lemma place_one_frame [frame_intros]: "within_rel same_cycle (place_one now fresh items acc r)"
  unfolding place_one_def by (intro cycle_frame.within_intros frame_intros placement_frame)

lemma place_all_frame [frame_intros]: "within_rel same_cycle (place_all now ids k items acc rs)"
  by (induction rs arbitrary: k acc) (auto intro: cycle_frame.within_intros frame_intros)

lemma modify_frame:
  "(\<And>s. same_cycle s (f s)) \<Longrightarrow> within_rel same_cycle (modify_op f)"
  by (rule within_relI) (simp add: op_defs)

lemma guarded_body_frame: "within_rel same_cycle (guarded_body now cid ids)"
proof -
  have parts: "within_rel same_cycle (list_queue_items now n)"
    "within_rel same_cycle inject_cycle_failures" "within_rel same_cycle (record_decision pid cs d)"
    "within_rel same_cycle (emit_decision now cid pid cs d)" for n pid cs d
    unfolding list_queue_items_def inject_cycle_failures_def record_decision_def emit_decision_def Let_def
    by (intro cycle_frame.within_intros frame_intros)+
  have finish: "within_rel same_cycle (finish_cycle now cid cs ev acc)" for cs ev acc
    unfolding finish_cycle_def Let_def
    by (intro cycle_frame.within_intros frame_intros parts modify_frame)
      (simp_all add: same_cycle_def same_loop_def)
  show ?thesis
    unfolding guarded_body_def cycle_body_def fail_cycle_def Let_def
    by (intro cycle_frame.within_intros frame_intros parts finish modify_frame)
      (simp_all add: same_cycle_def same_loop_def)
qed

section \<open>What a cycle does to the process\<close>

text \<open>
  No part of a cycle raises: the emission of an event and the record of a metric do not, and what the
  body raises is caught.
\<close>

lemma fail_cycle_returns: "raises_only (\<lambda>_. False) (fail_cycle now cid e)"
  unfolding fail_cycle_def on_observers_def by (intro raises_intros)

lemma guarded_body_returns: "raises_only (\<lambda>_. False) (guarded_body now cid ids)"
  unfolding guarded_body_def by (intro raises_intros fail_cycle_returns)

lemma guarded_body_run:
  obtains r b where "guarded_body now cid ids a = (Inr r, b)"
    and "sa_loop_running b = sa_loop_running a" and "sa_current_cycle b = sa_current_cycle a"
proof -
  obtain x b where run: "guarded_body now cid ids a = (x, b)" by force
  moreover obtain r where "x = Inr r"
    using raises_onlyD [OF guarded_body_returns, of now cid ids a _ b] run by (cases x) auto
  moreover have "same_cycle a b" using within_relD [OF guarded_body_frame, of a now cid ids] run by simp
  ultimately show ?thesis using that by (simp add: same_cycle_def same_loop_def)
qed

lemma begin_cycle_run:
  obtains b c where "begin_cycle now cid a = (Inr (), b)"
    and "sa_loop_running b = sa_loop_running a" and "sa_current_cycle b = Some c"
  by (simp add: begin_cycle_def op_defs on_observers_def)

lemma end_cycle_run:
  "end_cycle a = (Inr (), a\<lparr>sa_current_cycle := None,
     sa_process_mode := (if sa_process_mode a = SM_UNAVAILABLE then SM_UNAVAILABLE else SM_ACCEPTING)\<rparr>)"
  by (simp add: end_cycle_def op_defs)

section \<open>The lock\<close>

fun holds_lock :: "cycle_phase \<Rightarrow> bool" where
  "holds_lock (CY_Running b r) = True"
| "holds_lock (CY_Leaving x) = True"
| "holds_lock _ = False"

fun failing :: "cycle_phase \<Rightarrow> bool" where
  "failing (CY_Leaving (Some e)) = True"
| "failing _ = False"

text \<open>
  The lock is held by the one thread that is inside a cycle, the current cycle is set exactly then,
  and no cycle is leaving with an exception.
\<close>

definition lock_ok :: "loop_state \<Rightarrow> bool" where
  "lock_ok s \<longleftrightarrow>
     (\<forall>t. ll_lock s = Some t \<longleftrightarrow> (\<exists>ph. dict_get (ll_threads s) t = Some ph \<and> holds_lock ph)) \<and>
     (\<forall>t ph. dict_get (ll_threads s) t = Some ph \<longrightarrow> \<not> failing ph) \<and>
     (sa_current_cycle (ll_app s) \<noteq> None \<longleftrightarrow> ll_lock s \<noteq> None)"

section \<open>The invariant of the loop\<close>

definition loop_ok :: "loop_state \<Rightarrow> bool" where
  "loop_ok s \<longleftrightarrow>
     wf_dict (ll_threads s) \<and> list_all (\<lambda>t. t < ll_next s) (dict_keys (ll_threads s)) \<and>
     (ll_running s \<longleftrightarrow> ll_task s \<noteq> None) \<and>
     (sa_loop_running (ll_app s) \<longleftrightarrow> ll_task s \<noteq> None) \<and>
     (ll_stop s \<longrightarrow> ll_task s \<in> {None, Some LT_Ending}) \<and>
     (case ll_task s of Some (LT_InCycle t) \<Rightarrow> dict_get (ll_threads s) t \<noteq> None
        | Some (LT_Raised e) \<Rightarrow> False | _ \<Rightarrow> True) \<and> lock_ok s"

lemma keys_bound_set:
  "list_all P (dict_keys d) \<Longrightarrow> P k \<Longrightarrow> list_all P (dict_keys (dict_set k v d))"
  by (auto simp: list_all_iff dom_update dom_map_of_conv_image_fst [symmetric])

lemma keys_bound_del: "list_all P (dict_keys d) \<Longrightarrow> list_all P (dict_keys (dict_del k d))"
  by (auto simp: list_all_iff delete_keys)

lemma keys_bound_mono:
  "list_all (\<lambda>t. t < n) ks \<Longrightarrow> list_all (\<lambda>t. t < Suc n) (ks :: nat list)"
  by (auto simp: list_all_iff)

lemmas loop_defs =
  on_app_def loop_start_def app_startup_def withdraw_def cancel_task_def stop_begin_def stop_end_def
  shutdown_begin_def shutdown_end_def to_thread_def wait_timed_out_def resume_def thread_over_def
  enter_cycle_def leave_cycle_def raised_def

lemmas keys_bounds = keys_bound_set keys_bound_del keys_bound_mono

lemma key_bound: "list_all P (dict_keys d) \<Longrightarrow> dict_get d k \<noteq> None \<Longrightarrow> P k"
  by (induction d) (auto split: if_splits)

text \<open>One equation for each step of a thread.\<close>

lemma thread_waits: "dict_get (ll_threads s) t = Some CY_Queued \<Longrightarrow>
  thread_step now cid ids t s = s\<lparr>ll_threads := dict_set t CY_Entered (ll_threads s)\<rparr>"
  by (simp add: thread_step_def)

lemma thread_blocked: "dict_get (ll_threads s) t = Some CY_Entered \<Longrightarrow> ll_lock s \<noteq> None \<Longrightarrow>
  thread_step now cid ids t s = s"
  by (simp add: thread_step_def enter_cycle_def)

lemma thread_enters:
  assumes "dict_get (ll_threads s) t = Some CY_Entered" and "ll_lock s = None"
  obtains b c where "thread_step now cid ids t s = s\<lparr>ll_app := b, ll_lock := Some t,
      ll_threads := dict_set t (CY_Running now cid) (ll_threads s)\<rparr>"
    and "sa_loop_running b = sa_loop_running (ll_app s)" and "sa_current_cycle b = Some c"
proof -
  obtain b c where "begin_cycle now cid (ll_app s) = (Inr (), b)"
    "sa_loop_running b = sa_loop_running (ll_app s)" "sa_current_cycle b = Some c"
    by (rule begin_cycle_run)
  with assms that show ?thesis by (simp add: thread_step_def enter_cycle_def)
qed

lemma thread_runs:
  assumes "dict_get (ll_threads s) t = Some (CY_Running began running)"
  obtains b where "thread_step now cid ids t s =
      s\<lparr>ll_app := b, ll_threads := dict_set t (CY_Leaving None) (ll_threads s)\<rparr>"
    and "sa_loop_running b = sa_loop_running (ll_app s)"
    and "sa_current_cycle b = sa_current_cycle (ll_app s)"
proof -
  obtain r b where "guarded_body began running ids (ll_app s) = (Inr r, b)"
    "sa_loop_running b = sa_loop_running (ll_app s)"
    "sa_current_cycle b = sa_current_cycle (ll_app s)"
    by (rule guarded_body_run)
  with assms that show ?thesis by (simp add: thread_step_def raised_def)
qed

lemma thread_leaves:
  assumes "dict_get (ll_threads s) t = Some (CY_Leaving x)"
  obtains b where "thread_step now cid ids t s =
      s\<lparr>ll_app := b, ll_lock := None, ll_threads := dict_del t (ll_threads s),
        ll_task := resume t x (ll_task s)\<rparr>"
    and "sa_loop_running b = sa_loop_running (ll_app s)" and "sa_current_cycle b = None"
    and "sa_process_mode b =
      (if sa_process_mode (ll_app s) = SM_UNAVAILABLE then SM_UNAVAILABLE else SM_ACCEPTING)"
  using assms by (auto simp: thread_step_def leave_cycle_def end_cycle_run thread_over_def)

lemma holder_is: "lock_ok s \<Longrightarrow> dict_get (ll_threads s) t = Some ph \<Longrightarrow> holds_lock ph \<Longrightarrow> ll_lock s = Some t"
  by (auto simp: lock_ok_def)

lemma leaves_well: "lock_ok s \<Longrightarrow> dict_get (ll_threads s) t = Some (CY_Leaving x) \<Longrightarrow> x = None"
  unfolding lock_ok_def by (metis failing.simps(1) option.exhaust)

lemma released:
  assumes ok: "lock_ok s" and lock: "ll_lock s = Some t" and "sa_current_cycle b = None"
  shows "lock_ok (s\<lparr>ll_app := b, ll_lock := None, ll_threads := dict_del t (ll_threads s), ll_task := y\<rparr>)"
proof -
  have "\<not> holds_lock ph" if "u \<noteq> t" "dict_get (ll_threads s) u = Some ph" for u ph
    using holder_is [OF ok that(2)] lock that(1) by auto
  moreover have "\<not> failing ph" if "dict_get (ll_threads s) u = Some ph" for u ph
    using ok that by (simp add: lock_ok_def)
  ultimately show ?thesis using assms(3) by (auto simp: lock_ok_def)
qed

lemma left_ok:
  assumes ok: "loop_ok s" and at: "dict_get (ll_threads s) t = Some (CY_Leaving x)"
    and b: "sa_loop_running b = sa_loop_running (ll_app s)" "sa_current_cycle b = None"
  shows "loop_ok (s\<lparr>ll_app := b, ll_lock := None, ll_threads := dict_del t (ll_threads s),
    ll_task := resume t x (ll_task s)\<rparr>)" (is "loop_ok ?u")
proof -
  have lk: "lock_ok s" using ok by (simp add: loop_ok_def)
  have x: "x = None" by (rule leaves_well [OF lk at])
  have "lock_ok ?u"
    by (rule released [OF lk holder_is [OF lk at] b(2)]) simp
  moreover have "wf_dict (dict_del t (ll_threads s))"
    "list_all (\<lambda>t. t < ll_next s) (dict_keys (dict_del t (ll_threads s)))"
    using ok by (simp_all add: loop_ok_def keys_bounds)
  ultimately show ?thesis
  proof (cases "ll_task s")
    case (Some task)
    with ok b(1) x \<open>lock_ok ?u\<close> \<open>wf_dict _\<close> \<open>list_all _ _\<close> show ?thesis
      by (cases task) (auto simp: loop_ok_def resume_def)
  qed (use ok b(1) in \<open>simp add: loop_ok_def resume_def\<close>)
qed

lemma thread_step_ok:
  assumes "loop_ok s"
  shows "loop_ok (thread_step now cid ids t s)"
proof (cases "dict_get (ll_threads s) t")
  case None
  with assms show ?thesis by (simp add: thread_step_def)
next
  case (Some ph)
  with assms have key: "t < ll_next s" by (auto simp: loop_ok_def dest: key_bound)
  show ?thesis
  proof (cases ph)
    case CY_Queued
    with Some assms key show ?thesis
      by (auto simp: thread_waits loop_ok_def lock_ok_def keys_bounds split: option.splits loop_task.splits)
  next
    case CY_Entered
    show ?thesis
    proof (cases "ll_lock s = None")
      case True
      with Some CY_Entered obtain b c where "thread_step now cid ids t s = s\<lparr>ll_app := b,
          ll_lock := Some t, ll_threads := dict_set t (CY_Running now cid) (ll_threads s)\<rparr>"
        "sa_loop_running b = sa_loop_running (ll_app s)" "sa_current_cycle b = Some c"
        using thread_enters [of s t now cid ids] by metis
      with True assms key show ?thesis
        by (auto simp: loop_ok_def lock_ok_def keys_bounds split: option.splits loop_task.splits)
    qed (use Some CY_Entered assms in \<open>simp add: thread_blocked\<close>)
  next
    case (CY_Running began running)
    then have "ll_lock s = Some t" using Some assms by (intro holder_is) (auto simp: loop_ok_def)
    moreover obtain b where "thread_step now cid ids t s =
        s\<lparr>ll_app := b, ll_threads := dict_set t (CY_Leaving None) (ll_threads s)\<rparr>"
      "sa_loop_running b = sa_loop_running (ll_app s)" "sa_current_cycle b = sa_current_cycle (ll_app s)"
      using thread_runs [of s t began running now cid ids] Some CY_Running by metis
    ultimately show ?thesis
      using assms key
      by (auto simp: loop_ok_def lock_ok_def keys_bounds split: option.splits loop_task.splits)
  next
    case (CY_Leaving x)
    obtain b where "thread_step now cid ids t s =
        s\<lparr>ll_app := b, ll_lock := None, ll_threads := dict_del t (ll_threads s),
          ll_task := resume t x (ll_task s)\<rparr>"
      "sa_loop_running b = sa_loop_running (ll_app s)" "sa_current_cycle b = None"
      using thread_leaves [of s t x now cid ids] Some CY_Leaving by metis
    then show ?thesis using left_ok [OF assms] Some CY_Leaving by simp
  qed
qed

lemma fresh_thread: "loop_ok s \<Longrightarrow> dict_get (ll_threads s) (ll_next s) = None"
  by (rule ccontr) (auto simp: loop_ok_def dest: key_bound)

lemma to_thread_ok: "loop_ok s \<Longrightarrow> loop_ok (to_thread s)"
  using fresh_thread [of s]
  by (auto simp: loop_ok_def lock_ok_def to_thread_def keys_bounds split: option.splits loop_task.splits)

lemma lock_ok_task [simp]:
  "lock_ok (s\<lparr>ll_task := x\<rparr>) = lock_ok s" "lock_ok (s\<lparr>ll_stop := b\<rparr>) = lock_ok s"
  by (simp_all add: lock_ok_def)

lemma timeout_ok:
  assumes "loop_ok s"
  shows "loop_ok (wait_timed_out s)"
proof (cases "ll_task s = Some LT_Waiting \<and> \<not> ll_stop s")
  case True
  moreover have "dict_get (ll_threads (to_thread s)) (ll_next s) \<noteq> None"
    "ll_task (to_thread s) = ll_task s" "ll_stop (to_thread s) = ll_stop s"
    by (simp_all add: to_thread_def)
  ultimately show ?thesis
    using to_thread_ok [OF assms] by (simp add: wait_timed_out_def loop_ok_def)
qed (use assms in \<open>auto simp: wait_timed_out_def\<close>)

lemma startup_ok: "loop_ok s \<Longrightarrow> loop_ok (app_startup s)"
  by (auto simp: loop_ok_def lock_ok_def app_startup_def loop_start_def on_app_def)

text \<open>Withdrawing a cycle that has not begun does not touch the lock.\<close>

lemma withdraw_get:
  "dict_get (withdraw t ts) u = (if u = t \<and> dict_get ts t = Some CY_Queued then None else dict_get ts u)"
  by (simp add: withdraw_def)

lemma withdraw_dict:
  "wf_dict ts \<Longrightarrow> wf_dict (withdraw t ts)"
  "list_all P (dict_keys ts) \<Longrightarrow> list_all P (dict_keys (withdraw t ts))"
  by (simp_all add: withdraw_def keys_bounds)

lemma withdraw_lock: "lock_ok s \<Longrightarrow> lock_ok (s\<lparr>ll_threads := withdraw t (ll_threads s)\<rparr>)"
  by (auto simp: lock_ok_def withdraw_get)

lemma stop_ok:
  assumes "loop_ok s"
  shows "loop_ok (shutdown_begin s)"
proof -
  have "lock_ok (s\<lparr>ll_stop := True, ll_task := x\<rparr>)" for x
    using assms by (simp add: loop_ok_def lock_ok_def)
  moreover have "lock_ok (s\<lparr>ll_stop := True, ll_task := x, ll_threads := withdraw t (ll_threads s)\<rparr>)" for x t
    using assms withdraw_lock [of s t] by (simp add: loop_ok_def lock_ok_def)
  ultimately show ?thesis
    using assms
    by (auto simp: loop_ok_def shutdown_begin_def stop_begin_def cancel_task_def withdraw_dict
        split: option.splits loop_task.splits)
qed

lemma stopped_ok: "loop_ok s \<Longrightarrow> loop_ok (shutdown_end s)"
  by (auto simp: loop_ok_def lock_ok_def shutdown_end_def stop_end_def)

lemma loop_step_ok: "loop_step s l u \<Longrightarrow> loop_ok s \<Longrightarrow> loop_ok u"
  by (induction rule: loop_step.induct)
    (simp_all add: startup_ok timeout_ok to_thread_ok stop_ok stopped_ok thread_step_ok)

lemma new_loop_ok: "\<not> sa_loop_running a \<Longrightarrow> sa_current_cycle a = None \<Longrightarrow> loop_ok (new_loop a)"
  by (simp add: new_loop_def loop_ok_def lock_ok_def)

lemma loop_run_ok: "loop_run s ls u \<Longrightarrow> loop_ok s \<Longrightarrow> loop_ok u"
  by (induction rule: loop_run.induct) (auto intro: loop_step_ok)

section \<open>The loop goes on\<close>

text \<open>
  A task in a cycle is back to waiting after a few steps of its thread and, when another cycle holds
  the lock, of that cycle's thread.
\<close>

definition back_within :: "datetime \<Rightarrow> string \<Rightarrow> (nat \<Rightarrow> uuid) \<Rightarrow> nat \<Rightarrow> loop_state \<Rightarrow> bool" where
  "back_within now cid ids n s \<longleftrightarrow>
     (\<exists>ts u. length ts \<le> n \<and> loop_run s (map (L_Thread now cid ids) ts) u \<and> ll_task u = Some LT_Waiting)"

lemma back_now: "ll_task s = Some LT_Waiting \<Longrightarrow> back_within now cid ids n s"
  unfolding back_within_def by (rule exI [of _ "[]"]) simp

lemma back_step:
  assumes "back_within now cid ids n (thread_step now cid ids t s)"
  shows "back_within now cid ids (Suc n) s"
proof -
  obtain ts u where "length ts \<le> n" "ll_task u = Some LT_Waiting"
    "loop_run (thread_step now cid ids t s) (map (L_Thread now cid ids) ts) u"
    using assms by (auto simp: back_within_def)
  then show ?thesis
    unfolding back_within_def by (intro exI [of _ "t # ts"] exI [of _ u]) (auto intro: ls_thread)
qed

lemma back_more: "back_within now cid ids n s \<Longrightarrow> n \<le> k \<Longrightarrow> back_within now cid ids k s"
  unfolding back_within_def by (meson le_trans)

lemma lock_holder:
  assumes "loop_ok s" and "ll_lock s = Some h"
  obtains ph where "dict_get (ll_threads s) h = Some ph" and "holds_lock ph"
  using assms unfolding loop_ok_def lock_ok_def by blast

lemma back_leaving:
  assumes "loop_ok s" and "ll_task s = Some (LT_InCycle t)"
    and at: "dict_get (ll_threads s) t = Some (CY_Leaving x)"
  shows "back_within now cid ids 1 s"
proof -
  have "x = None" using assms by (intro leaves_well [OF _ at]) (simp add: loop_ok_def)
  with assms have "ll_task (thread_step now cid ids t s) = Some LT_Waiting"
    by (simp add: thread_step_def leave_cycle_def end_cycle_run thread_over_def resume_def)
  from back_step [OF back_now [OF this, of now cid ids 0]] show ?thesis by simp
qed

lemma back_running:
  assumes "loop_ok s" and "ll_task s = Some (LT_InCycle t)"
    and at: "dict_get (ll_threads s) t = Some (CY_Running began running)"
  shows "back_within now cid ids 2 s"
proof -
  let ?u = "thread_step now cid ids t s"
  obtain b where u: "?u = s\<lparr>ll_app := b, ll_threads := dict_set t (CY_Leaving None) (ll_threads s)\<rparr>"
    using thread_runs [OF at, of now cid ids] by metis
  have "ll_task ?u = Some (LT_InCycle t)" "dict_get (ll_threads ?u) t = Some (CY_Leaving None)"
    using assms(2) by (simp_all add: u)
  from back_step [OF back_leaving [OF thread_step_ok [OF assms(1)] this]] show ?thesis
    by (simp add: numeral_2_eq_2)
qed

lemma back_free:
  assumes "loop_ok s" and "ll_task s = Some (LT_InCycle t)"
    and at: "dict_get (ll_threads s) t = Some CY_Entered" "ll_lock s = None"
  shows "back_within now cid ids 3 s"
proof -
  let ?u = "thread_step now cid ids t s"
  obtain b where u: "?u = s\<lparr>ll_app := b, ll_lock := Some t,
      ll_threads := dict_set t (CY_Running now cid) (ll_threads s)\<rparr>"
    using thread_enters [OF at, of now cid ids] by metis
  have "ll_task ?u = Some (LT_InCycle t)" "dict_get (ll_threads ?u) t = Some (CY_Running now cid)"
    using assms(2) by (simp_all add: u)
  from back_step [OF back_running [OF thread_step_ok [OF assms(1)] this]] show ?thesis
    by (simp add: numeral_3_eq_3)
qed

text \<open>The holder of the lock is another thread; it lets go within two steps.\<close>

lemma back_holder_leaves:
  assumes "loop_ok s" and "ll_task s = Some (LT_InCycle t)" and "dict_get (ll_threads s) t = Some CY_Entered"
    and at: "dict_get (ll_threads s) h = Some (CY_Leaving x)"
  shows "back_within now cid ids 4 s"
proof -
  let ?u = "thread_step now cid ids h s"
  have "h \<noteq> t" using assms(3) at by auto
  obtain b where u: "?u = s\<lparr>ll_app := b, ll_lock := None, ll_threads := dict_del h (ll_threads s),
      ll_task := resume h x (ll_task s)\<rparr>"
    using thread_leaves [OF at, of now cid ids] by metis
  have "ll_task ?u = Some (LT_InCycle t)" "dict_get (ll_threads ?u) t = Some CY_Entered" "ll_lock ?u = None"
    using assms(2,3) \<open>h \<noteq> t\<close> by (simp_all add: u resume_def)
  from back_step [OF back_free [OF thread_step_ok [OF assms(1)] this]] show ?thesis by simp
qed

lemma back_entered:
  assumes ok: "loop_ok s" and "ll_task s = Some (LT_InCycle t)" and "dict_get (ll_threads s) t = Some CY_Entered"
  shows "back_within now cid ids 5 s"
proof (cases "ll_lock s")
  case None
  show ?thesis by (rule back_more [OF back_free [OF assms None]]) simp
next
  case (Some h)
  obtain ph where ph: "dict_get (ll_threads s) h = Some ph" "holds_lock ph"
    by (rule lock_holder [OF ok Some])
  show ?thesis
  proof (cases ph)
    case (CY_Leaving x)
    show ?thesis
      by (rule back_more [OF back_holder_leaves [OF assms]]) (use ph CY_Leaving in auto)
  next
    case (CY_Running began running)
    let ?u = "thread_step now cid ids h s"
    have "h \<noteq> t" using assms(3) ph by auto
    obtain b where u: "?u = s\<lparr>ll_app := b, ll_threads := dict_set h (CY_Leaving None) (ll_threads s)\<rparr>"
      using thread_runs [of s h began running now cid ids] ph CY_Running by metis
    have "ll_task ?u = Some (LT_InCycle t)" "dict_get (ll_threads ?u) t = Some CY_Entered"
      "dict_get (ll_threads ?u) h = Some (CY_Leaving None)"
      using assms(2,3) \<open>h \<noteq> t\<close> by (simp_all add: u)
    from back_step [OF back_holder_leaves [OF thread_step_ok [OF ok] this]] show ?thesis by simp
  qed (use ph in auto)
qed

lemma back_in_cycle:
  assumes ok: "loop_ok s" and task: "ll_task s = Some (LT_InCycle t)"
  shows "back_within now cid ids 6 s"
proof -
  obtain ph where ph: "dict_get (ll_threads s) t = Some ph"
    using assms by (auto simp: loop_ok_def)
  show ?thesis
  proof (cases ph)
    case CY_Queued
    let ?u = "thread_step now cid ids t s"
    have "ll_task ?u = Some (LT_InCycle t)" "dict_get (ll_threads ?u) t = Some CY_Entered"
      using task ph CY_Queued by (simp_all add: thread_waits)
    from back_step [OF back_entered [OF thread_step_ok [OF ok] this]] show ?thesis by simp
  next
    case CY_Entered
    show ?thesis by (rule back_more [OF back_entered [OF assms]]) (use ph CY_Entered in auto)
  next
    case (CY_Running began running)
    show ?thesis by (rule back_more [OF back_running [OF assms]]) (use ph CY_Running in auto)
  next
    case (CY_Leaving x)
    show ?thesis by (rule back_more [OF back_leaving [OF assms]]) (use ph CY_Leaving in auto)
  qed
qed

lemma back_to_waiting:
  assumes "loop_ok s" and "ll_running s" and "ll_task s \<noteq> Some LT_Ending"
  shows "back_within now cid ids 6 s"
proof -
  obtain task where "ll_task s = Some task" using assms by (auto simp: loop_ok_def)
  with assms show ?thesis
    by (cases task) (auto simp: loop_ok_def intro: back_now back_in_cycle)
qed

section \<open>One cycle at a time\<close>

definition inside_cycles :: "loop_state \<Rightarrow> nat list" where
  "inside_cycles s = map fst (filter (\<lambda>(t, ph). holds_lock ph) (ll_threads s))"

lemma inside_is_holder:
  assumes "loop_ok s"
  shows "t \<in> set (inside_cycles s) \<longleftrightarrow> ll_lock s = Some t"
proof -
  have "t \<in> set (inside_cycles s) \<longleftrightarrow> (\<exists>ph. (t, ph) \<in> set (ll_threads s) \<and> holds_lock ph)"
    by (auto simp: inside_cycles_def image_iff)
  also have "\<dots> \<longleftrightarrow> (\<exists>ph. dict_get (ll_threads s) t = Some ph \<and> holds_lock ph)"
    using dict_item_iff [of "ll_threads s" t] assms by (simp add: loop_ok_def)
  also have "\<dots> \<longleftrightarrow> ll_lock s = Some t"
    using assms unfolding loop_ok_def lock_ok_def by blast
  finally show ?thesis .
qed

lemma inside_at_most_one:
  assumes "loop_ok s"
  shows "length (inside_cycles s) \<le> 1"
proof -
  have "distinct (inside_cycles s)"
    using assms unfolding inside_cycles_def loop_ok_def wf_dict_def
    by (auto intro: distinct_map_filter)
  moreover have "set (inside_cycles s) \<subseteq> set_option (ll_lock s)"
    using inside_is_holder [OF assms] by auto
  moreover have "finite (set_option (ll_lock s))" by (cases "ll_lock s") simp_all
  ultimately have "length (inside_cycles s) \<le> card (set_option (ll_lock s))"
    by (metis card_mono distinct_card)
  then show ?thesis by (cases "ll_lock s") simp_all
qed

lemma inside_none:
  assumes "loop_ok s"
  shows "inside_cycles s = [] \<longleftrightarrow> sa_current_cycle (ll_app s) = None"
proof -
  have "inside_cycles s = [] \<longleftrightarrow> (\<forall>t. t \<notin> set (inside_cycles s))" by auto
  also have "\<dots> \<longleftrightarrow> ll_lock s = None" using inside_is_holder [OF assms] by auto
  also have "\<dots> \<longleftrightarrow> sa_current_cycle (ll_app s) = None"
    using assms unfolding loop_ok_def lock_ok_def by blast
  finally show ?thesis .
qed

lemma create_scheduler_idle:
  "create_scheduler st fi obs mode q = Inr a \<Longrightarrow> \<not> sa_loop_running a \<and> sa_current_cycle a = None"
  by (auto simp: create_scheduler_def split: sum.splits)

lemma reached_ok:
  assumes "create_scheduler st fi obs mode q = Inr a" and "loop_run (new_loop a) ls s"
  shows "loop_ok s"
  using loop_run_ok [OF assms(2)] new_loop_ok create_scheduler_idle [OF assms(1)] by blast

text \<open>C13: the tick loop survives every cycle. In every state that a scheduler built by its factory
  reaches, whatever the queue, the policy, the engine and the failure injector make the cycles raise:
  the task of the loop exists exactly while the application and the scheduler state say that it runs,
  and it has not ended with an exception; at most one thread is inside a cycle, and the snapshot names
  a cycle exactly while one is; and as long as no stop is asked for, the loop is not stuck: it is back
  to waiting for its next tick within six steps of its cycle's thread and of the thread that holds
  the lock.\<close>

theorem loop_survives:
  assumes "create_scheduler st fi obs mode q = Inr a" and "loop_run (new_loop a) ls s"
  shows "(ll_running s \<longleftrightarrow> ll_task s \<noteq> None) \<and> (sa_loop_running (ll_app s) \<longleftrightarrow> ll_running s) \<and>
    (\<forall>e. ll_task s \<noteq> Some (LT_Raised e)) \<and>
    length (inside_cycles s) \<le> 1 \<and>
    (ssn_current_cycle_id (get_scheduler_snapshot later (ll_app s)) \<noteq> None \<longleftrightarrow> inside_cycles s \<noteq> []) \<and>
    (ll_running s \<and> ll_task s \<noteq> Some LT_Ending \<longrightarrow>
       (\<exists>ts u. length ts \<le> 6 \<and> loop_run s (map (L_Thread now cid ids) ts) u \<and>
          ll_task u = Some LT_Waiting))"
proof -
  have ok: "loop_ok s" by (rule reached_ok [OF assms])
  have "ssn_current_cycle_id (get_scheduler_snapshot later (ll_app s)) \<noteq> None \<longleftrightarrow> inside_cycles s \<noteq> []"
    using inside_none [OF ok] by (simp add: get_scheduler_snapshot_def Let_def)
  moreover have "(ll_running s \<longleftrightarrow> ll_task s \<noteq> None) \<and> (sa_loop_running (ll_app s) \<longleftrightarrow> ll_running s) \<and>
      (\<forall>e. ll_task s \<noteq> Some (LT_Raised e))"
    using ok by (auto simp: loop_ok_def)
  ultimately show ?thesis
    using inside_at_most_one [OF ok] back_to_waiting [OF ok] unfolding back_within_def by blast
qed

definition sample_queue :: "cp_exn + queue_state" where
  "sample_queue = create_control_plane default_control_plane_settings \<lparr>ob_trace = None, ob_metrics = None\<rparr>"

definition sample_scheduler :: "stack_exn + scheduler_app" where
  "sample_scheduler =
     (case sample_queue of
        Inl x \<Rightarrow> Inl (SX_Control x)
      | Inr q \<Rightarrow> create_scheduler default_scheduler_settings None \<lparr>ob_trace = None, ob_metrics = None\<rparr> SM_ACCEPTING q)"

lemma sample_scheduler_built:
  "\<exists>q a. create_scheduler default_scheduler_settings None \<lparr>ob_trace = None, ob_metrics = None\<rparr> SM_ACCEPTING q = Inr a"
proof -
  have "case sample_scheduler of Inl x \<Rightarrow> False | Inr a \<Rightarrow> True"
    by code_simp
  then show ?thesis
    by (auto simp: sample_scheduler_def split: sum.splits)
qed

theorem loop_survives_witness:
  "\<exists>a s. loop_run (new_loop a) [L_Startup, L_Timeout] s \<and> ll_task s = Some (LT_InCycle 0) \<and>
     (\<exists>ts u. length ts \<le> 6 \<and> loop_run s (map (L_Thread 5 ''cycle'' (\<lambda>_. ''batch'')) ts) u \<and>
        ll_task u = Some LT_Waiting)"
proof -
  obtain q a where a: "create_scheduler default_scheduler_settings None \<lparr>ob_trace = None, ob_metrics = None\<rparr> SM_ACCEPTING q = Inr a"
    using sample_scheduler_built by blast
  define s where "s = wait_timed_out (app_startup (new_loop a))"
  have s: "loop_run (new_loop a) [L_Startup, L_Timeout] s" "ll_task s = Some (LT_InCycle 0)" "ll_running s"
    by (simp_all add: s_def loop_step_simps) (simp_all add: new_loop_def loop_defs)
  then have "ll_running s \<and> ll_task s \<noteq> Some LT_Ending" by simp
  with loop_survives [OF a s(1), of 9 5 "''cycle''" "\<lambda>_. ''batch''"]
  have "\<exists>ts u. length ts \<le> 6 \<and> loop_run s (map (L_Thread 5 ''cycle'' (\<lambda>_. ''batch'')) ts) u \<and>
      ll_task u = Some LT_Waiting" by blast
  with s(1,2) show ?thesis by blast
qed

section \<open>What a stop leaves behind\<close>

text \<open>
  The cycle that runs while the process is stopped is not waited for: its \<open>finally\<close> block puts the
  mode back to accepting after the shutdown has set it to draining.
\<close>

theorem stop_overtaken:
  "\<exists>s. loop_run (new_loop a)
     [L_Startup, L_Timeout, L_Thread now cid ids 0, L_Thread now cid ids 0, L_Thread now cid ids 0,
      L_Stop, L_Stopped, L_Thread now cid ids 0] s \<and>
     \<not> ll_running s \<and> ll_task s = None \<and> sa_process_mode (ll_app s) = SM_ACCEPTING"
proof -
  let ?T = "thread_step now cid ids 0"
  define s2 where "s2 = wait_timed_out (app_startup (new_loop a))"
  define s3 where "s3 = ?T s2"
  have s3: "ll_running s3" "ll_task s3 = Some (LT_InCycle 0)" "ll_lock s3 = None"
    "dict_get (ll_threads s3) 0 = Some CY_Entered"
    by (simp_all add: s3_def s2_def thread_step_def new_loop_def loop_defs)
  define s4 where "s4 = ?T s3"
  obtain b where "s4 = s3\<lparr>ll_app := b, ll_lock := Some 0,
      ll_threads := dict_set 0 (CY_Running now cid) (ll_threads s3)\<rparr>"
    using thread_enters [OF s3(4,3), of now cid ids] unfolding s4_def by metis
  with s3 have s4: "ll_running s4" "ll_task s4 = Some (LT_InCycle 0)"
    "dict_get (ll_threads s4) 0 = Some (CY_Running now cid)" by simp_all
  define s5 where "s5 = ?T s4"
  obtain b where "s5 = s4\<lparr>ll_app := b, ll_threads := dict_set 0 (CY_Leaving None) (ll_threads s4)\<rparr>"
    using thread_runs [OF s4(3), of now cid ids] unfolding s5_def by metis
  with s4 have s5: "ll_running s5" "ll_task s5 = Some (LT_InCycle 0)"
    "dict_get (ll_threads s5) 0 = Some (CY_Leaving None)" by simp_all
  define s7 where "s7 = shutdown_end (shutdown_begin s5)"
  have s7: "\<not> ll_running s7" "ll_task s7 = None" "sa_process_mode (ll_app s7) = SM_DRAINING"
    "dict_get (ll_threads s7) 0 = Some (CY_Leaving None)"
    and ending: "ll_task (shutdown_begin s5) = Some LT_Ending"
    using s5 by (simp_all add: s7_def loop_defs)
  have "\<not> ll_running (?T s7) \<and> ll_task (?T s7) = None \<and> sa_process_mode (ll_app (?T s7)) = SM_ACCEPTING"
    using s7 by (simp add: thread_step_def leave_cycle_def end_cycle_run thread_over_def resume_def)
  moreover have "loop_run (new_loop a)
     [L_Startup, L_Timeout, L_Thread now cid ids 0, L_Thread now cid ids 0, L_Thread now cid ids 0,
      L_Stop, L_Stopped, L_Thread now cid ids 0] (?T s7)"
    using ending by (simp add: loop_step_simps s7_def s5_def s4_def s3_def s2_def)
  ultimately show ?thesis by blast
qed

text \<open>Starting twice is starting once, and a shutdown that is through is the one of the process.\<close>

lemma startup_idempotent: "app_startup (app_startup s) = app_startup s"
  by (simp add: loop_defs)

lemma startup_refines:
  "loop_ok s \<Longrightarrow> ll_app (app_startup s) = scheduler_startup (ll_app s)"
  by (auto simp: loop_ok_def app_startup_def loop_start_def on_app_def scheduler_startup_def)

lemma shutdown_refines:
  "loop_ok s \<Longrightarrow> ll_running s \<Longrightarrow> ll_app (shutdown_end (shutdown_begin s)) = scheduler_shutdown (ll_app s)"
  by (auto simp: loop_ok_def shutdown_end_def shutdown_begin_def stop_begin_def stop_end_def
      cancel_task_def scheduler_shutdown_def split: option.splits loop_task.splits)

end
