(* ===== verification/Gateway_Process.thy ===== *)
theory Gateway_Process
  imports Stack Gateway
begin

text \<open>
  The gateway's process: the control plane application it embeds
  (\<open>control_plane/application.py\<close>), the globals that hold it or the stack and the choice of the
  client (\<open>dependencies.py\<close>), the clients (\<open>runtime/integrated_client.py\<close>,
  \<open>control_plane/integrated.py\<close>, \<open>control_plane/stub.py\<close>), the start and the stop of the process
  (\<open>app.py\<close>), the operational routes (\<open>routers/health.py\<close>, \<open>routers/metrics.py\<close>) and the
  correlation header of the middleware (\<open>middleware.py\<close>).

  The settings are read once (\<open>lru_cache\<close>) and are an argument, as is what building and starting
  the applications reads from outside.
\<close>

section \<open>The control plane application\<close>

record control_app =
  ca_queue :: queue_state
  ca_models :: model_registry
  ca_running :: bool

definition new_control_app :: "control_plane_settings \<Rightarrow> observers \<Rightarrow> stack_exn + control_app" where
  "new_control_app st obs =
     (case create_control_plane st obs of
        Inl x \<Rightarrow> Inl (SX_Control x)
      | Inr q \<Rightarrow> Inr \<lparr>ca_queue = q, ca_models = default_model_registry, ca_running = False\<rparr>)"

definition control_startup :: "control_app \<Rightarrow> control_app" where
  "control_startup a = (if ca_running a then a else a\<lparr>ca_running := True\<rparr>)"

definition control_shutdown :: "control_app \<Rightarrow> control_app" where
  "control_shutdown a = (if \<not> ca_running a then a else a\<lparr>ca_running := False\<rparr>)"

section \<open>The globals (dependencies.py)\<close>

record process_settings =
  pc_gateway :: gateway_settings
  pc_service_name :: string
  pc_control_plane_integrated :: bool
  pc_stack :: stack_settings

record process_env =
  pv_build :: stack_env
  pv_health :: "string \<Rightarrow> call_env"
  pv_now :: datetime
  pv_collect :: collect_env

record gateway_process =
  gp_stack :: "platform_stack option"
  gp_control :: "control_app option"

datatype process_exn = PE_Build stack_exn | PE_Run platform_exn

type_synonym 'a gp = "(gateway_process, process_exn, 'a) op"

definition new_process :: gateway_process where
  "new_process = \<lparr>gp_stack = None, gp_control = None\<rparr>"

definition get_control_plane_application :: "process_settings \<Rightarrow> process_env \<Rightarrow> control_app gp" where
  "get_control_plane_application st env p =
     (case gp_control p of
        Some a \<Rightarrow> (Inr a, p)
      | None \<Rightarrow>
          (case new_control_app (st_control (pc_stack st)) (se_control_observers (pv_build env)) of
             Inl x \<Rightarrow> (Inl (PE_Build x), p)
           | Inr a \<Rightarrow> (Inr a, p\<lparr>gp_control := Some a\<rparr>)))"

definition get_platform_stack :: "process_settings \<Rightarrow> process_env \<Rightarrow> platform_stack gp" where
  "get_platform_stack st env p =
     (case gp_stack p of
        Some s \<Rightarrow> (Inr s, p)
      | None \<Rightarrow>
          (case create_platform_stack (pc_stack st) (pv_build env) of
             Inl x \<Rightarrow> (Inl (PE_Build x), p)
           | Inr s \<Rightarrow> (Inr s, p\<lparr>gp_stack := Some s\<rparr>)))"

definition full_path :: "process_settings \<Rightarrow> bool" where
  "full_path st \<longleftrightarrow> gs_full_path_integrated (pc_gateway st)"

definition start_stack_of :: "process_env \<Rightarrow> platform_stack \<Rightarrow> unit gp" where
  "start_stack_of env s p =
     (case stack_startup (pv_health env) (pv_now env) (pv_collect env) s of
        (Inl x, t) \<Rightarrow> (Inl (PE_Run x), p\<lparr>gp_stack := Some t\<rparr>)
      | (Inr _, t) \<Rightarrow> (Inr (), p\<lparr>gp_stack := Some t\<rparr>))"

definition startup_control_plane :: "process_settings \<Rightarrow> process_env \<Rightarrow> unit gp" where
  "startup_control_plane st env =
     (if full_path st
      then bind_op (get_platform_stack st env) (\<lambda>s.
             if \<not> ps_control_running s then start_stack_of env s else return_op ())
      else bind_op (get_control_plane_application st env) (\<lambda>a.
             if \<not> ca_running a then modify_op (\<lambda>p. p\<lparr>gp_control := Some (control_startup a)\<rparr>)
             else return_op ()))"

definition shutdown_control_plane :: "process_settings \<Rightarrow> process_env \<Rightarrow> unit gp" where
  "shutdown_control_plane st env p =
     (case gp_stack p of
        Some s \<Rightarrow>
          if full_path st
          then (if ps_control_running s
                then (case stack_shutdown (pv_now env) s of
                        (Inl x, t) \<Rightarrow> (Inl (PE_Run x), p\<lparr>gp_stack := Some t\<rparr>)
                      | (Inr _, t) \<Rightarrow> (Inr (), p\<lparr>gp_stack := None\<rparr>))
                else (Inr (), p\<lparr>gp_stack := None\<rparr>))
          else (Inr (), p\<lparr>gp_control := map_option control_shutdown (gp_control p)\<rparr>)
      | None \<Rightarrow> (Inr (), p\<lparr>gp_control := map_option control_shutdown (gp_control p)\<rparr>))"

section \<open>The clients\<close>

datatype client = Platform_Client platform_stack | Control_Client control_app | Stub_Client

definition get_control_plane_client :: "process_settings \<Rightarrow> process_env \<Rightarrow> client gp" where
  "get_control_plane_client st env =
     (if full_path st then bind_op (get_platform_stack st env) (\<lambda>s. return_op (Platform_Client s))
      else if pc_control_plane_integrated st
      then bind_op (get_control_plane_application st env) (\<lambda>a. return_op (Control_Client a))
      else return_op Stub_Client)"

fun client_get_model :: "client \<Rightarrow> string \<Rightarrow> model_record option" where
  "client_get_model (Platform_Client s) i = get_model i (dw_models (pf_world (ps_platform s)))"
| "client_get_model (Control_Client a) i = get_model i (ca_models a)"
| "client_get_model Stub_Client i = get_model i default_model_registry"

fun client_is_ready :: "client \<Rightarrow> bool" where
  "client_is_ready (Platform_Client s) = is_ready (ps_control_running s) (ps_platform s)"
| "client_is_ready (Control_Client a) = ca_running a"
| "client_is_ready Stub_Client = True"

text \<open>What the queries of a client raise: the registry's exception, or \<open>NotImplementedError\<close>.\<close>

datatype query_exn = QX_Registry cp_exn | QX_Not_Implemented

fun client_registry :: "client \<Rightarrow> queue_state option" where
  "client_registry (Platform_Client s) = Some (pf_control (ps_platform s))"
| "client_registry (Control_Client a) = Some (ca_queue a)"
| "client_registry Stub_Client = None"

definition query :: "(queue_state \<Rightarrow> cp_exn + 'a) \<Rightarrow> client \<Rightarrow> query_exn + 'a" where
  "query f c =
     (case client_registry c of
        None \<Rightarrow> Inl QX_Not_Implemented
      | Some q \<Rightarrow> (case f q of Inl x \<Rightarrow> Inl (QX_Registry x) | Inr a \<Rightarrow> Inr a))"

definition get_request_status :: "uuid \<Rightarrow> client \<Rightarrow> query_exn + request_status_view" where
  "get_request_status r = query (\<lambda>q. fst (queries_get_status r q))"

definition queries_get_details ::
  "uuid \<Rightarrow> queue_state \<Rightarrow> (cp_exn + request_status_view \<times> registered_request) \<times> queue_state" where
  "queries_get_details request_id =
     bind_op (registry_get request_id) (\<lambda>r.
       gets_op (\<lambda>s. (to_status_view (entry_at s r), entry_at s r)))"

definition get_request_details ::
  "uuid \<Rightarrow> client \<Rightarrow> query_exn + request_status_view \<times> registered_request" where
  "get_request_details r = query (\<lambda>q. fst (queries_get_details r q))"

definition list_active_requests :: "client \<Rightarrow> query_exn + request_status_view list" where
  "list_active_requests = query (\<lambda>q. Inr (queries_list_active q))"

definition list_requests_by_state :: "request_state \<Rightarrow> client \<Rightarrow> query_exn + request_status_view list" where
  "list_requests_by_state st = query (\<lambda>q. Inr (queries_list_by_state st q))"

text \<open>
  A request given to the client of the process; \<open>None\<close> is a path that does not return.
\<close>

record accept_env =
  av_admission :: admission_framework
  av_path :: path_env
  av_describe :: "scheduler_exn \<Rightarrow> string"
  av_capture :: "string option"

fun client_accept ::
  "accept_env \<Rightarrow> submit_request \<Rightarrow> client \<Rightarrow> ((gateway_error + ref) \<times> client) option" where
  "client_accept e submit (Platform_Client s) =
     map_option (\<lambda>(res, p). (res, Platform_Client (s\<lparr>ps_platform := p\<rparr>)))
       (accept_request (av_admission e) (av_path e) (av_describe e) (av_capture e) submit (ps_platform s))"
| "client_accept e submit (Control_Client a) =
     (case accept_in_control_plane (av_admission e) (pe_sweep (av_path e)) (pe_admit (av_path e))
             submit (ca_queue a) of
        (res, q) \<Rightarrow> Some (res, Control_Client (a\<lparr>ca_queue := q\<rparr>)))"
| "client_accept e submit Stub_Client = Some (Inl stub_accept, Stub_Client)"

section \<open>Start and stop of the process (app.py)\<close>

definition lifespan_start :: "process_settings \<Rightarrow> process_env \<Rightarrow> bool gp" where
  "lifespan_start st env =
     then_op (startup_control_plane st env)
     (bind_op (get_control_plane_client st env) (\<lambda>c. return_op (client_is_ready c)))"

section \<open>Operational routes\<close>

text \<open>An answer of an operational route: status and the fields of its body.\<close>

type_synonym operational = "int \<times> (string \<times> string) list"

definition health_route :: "operational" where
  "health_route = (200, [(''status'', ''ok'')])"

definition ready_answer :: "client \<Rightarrow> operational" where
  "ready_answer c =
     (if client_is_ready c then (200, [(''status'', ''ready'')])
      else (503, [(''status'', ''not_ready''), (''reason'', ''control_plane_unavailable'')]))"

definition ready_route :: "process_settings \<Rightarrow> process_env \<Rightarrow> operational gp" where
  "ready_route st env = bind_op (get_control_plane_client st env) (\<lambda>c. return_op (ready_answer c))"

definition version_route :: "string \<Rightarrow> process_settings \<Rightarrow> operational" where
  "version_route version st =
     (200, [(''service'', pc_service_name st), (''version'', version),
            (''gateway_instance_id'', gs_gateway_instance_id (pc_gateway st))])"

text \<open>\<open>export\<close> is \<open>MetricsRegistry.export_prometheus\<close>, of the Prometheus library.\<close>

definition metrics_route ::
  "(platform_stack \<Rightarrow> string) \<Rightarrow> process_settings \<Rightarrow> process_env \<Rightarrow> string gp" where
  "metrics_route export st env =
     (if \<not> full_path st then return_op []
      else bind_op (get_platform_stack st env) (\<lambda>s. return_op (export s)))"

section \<open>The correlation header (middleware.py)\<close>

text \<open>The names of headers are compared in lower case.\<close>

definition header_correlation :: "(string, string) dict \<Rightarrow> string" where
  "header_correlation headers =
     str_or (dict_get headers ''x-correlation-id'') (str_or (dict_get headers ''x-request-id'') [])"

definition timing_dispatch :: "(string, string) dict \<Rightarrow> (string, string) dict \<Rightarrow> (string, string) dict" where
  "timing_dispatch request response =
     (if header_correlation request \<noteq> []
      then dict_set ''x-correlation-id'' (header_correlation request) response
      else response)"

end
