(* ===== verification/Gateway_Process_Properties.thy ===== *)
theory Gateway_Process_Properties
  imports Gateway_Process Platform_Properties Stream_Completion
begin

text \<open>
  The life of the gateway's process: when \<open>/ready\<close> answers 200, what a stop leaves, and a start
  that failed half way.
\<close>

section \<open>Starting and stopping the adapter\<close>

text \<open>
  What \<open>create_application\<close> leaves: every backend is stored under its own id and is starting, and
  every mock answers its health check.
\<close>

definition own_ids :: "adapter_state \<Rightarrow> bool" where
  "own_ids s \<longleftrightarrow> wf_dict (ad_backends s) \<and>
     (\<forall>i e. dict_get (ad_backends s) i = Some e \<longrightarrow> backend_id (rb_backend e) = i)"

definition is_mock :: "backend \<Rightarrow> bool" where
  "is_mock b \<longleftrightarrow> (\<exists>k. b = Mock k)"

definition fresh_mocks :: "adapter_state \<Rightarrow> bool" where
  "fresh_mocks s \<longleftrightarrow> own_ids s \<and> \<not> ad_running s \<and>
     (\<forall>i e. dict_get (ad_backends s) i = Some e \<longrightarrow> rb_state e = BK_STARTING \<and> is_mock (rb_backend e))"

lemma own_ids_list:
  assumes "own_ids s"
  shows "map (\<lambda>e. backend_id (rb_backend e)) (list_backends s) = dict_keys (ad_backends s)"
proof -
  have "backend_id (rb_backend (snd p)) = fst p" if "p \<in> set (ad_backends s)" for p
    using assms that dict_item_iff [of "ad_backends s" "fst p" "snd p"] by (simp add: own_ids_def)
  then show ?thesis by (simp add: list_backends_def)
qed

lemma health_target_reachable: "backend_can_transition BK_STARTING (health_target h)"
  by (simp add: backend_can_transition_def backend_terminal_def health_target_def)

text \<open>One refresh of a starting mock: it returns, and only its own entry changes.\<close>

lemma refresh_mock:
  assumes "dict_get (ad_backends s) i = Some e" and "rb_state e = BK_STARTING" and "is_mock (rb_backend e)"
  shows "\<exists>t e'. refresh_backend_health env i s = (Inr (), t) \<and>
    ad_backends t = dict_set i e' (ad_backends s) \<and> rb_backend e' = rb_backend e \<and> ad_running t = ad_running s"
proof -
  obtain k where k: "rb_backend e = Mock k"
    using assms(3) by (auto simp: is_mock_def)
  have "dict_set i x (dict_set i y (ad_backends s)) = dict_set i x (ad_backends s)" for x y
    by (rule update_last)
  with assms k show ?thesis
    by (auto simp: refresh_backend_health_def get_backend_def call_backend_def write_backend_def
        put_backend_def set_state_def health_target_reachable emit_backend_op_def Let_def op_defs)
qed

lemma refresh_all:
  assumes "distinct js" and "\<And>i. i \<in> set js \<Longrightarrow>
    \<exists>e. dict_get (ad_backends s) i = Some e \<and> rb_state e = BK_STARTING \<and> is_mock (rb_backend e)"
  shows "\<exists>t. iter_op (\<lambda>i. refresh_backend_health (envs i) i) js s = (Inr (), t) \<and>
    dict_keys (ad_backends t) = dict_keys (ad_backends s) \<and> ad_running t = ad_running s \<and>
    (\<forall>i. map_option rb_backend (dict_get (ad_backends t) i) = map_option rb_backend (dict_get (ad_backends s) i))"
  using assms
proof (induction js arbitrary: s)
  case Nil
  then show ?case by (simp add: op_defs)
next
  case (Cons i rest)
  obtain e where e: "dict_get (ad_backends s) i = Some e" "rb_state e = BK_STARTING" "is_mock (rb_backend e)"
    using Cons.prems(2) [of i] by auto
  obtain t e' where t: "refresh_backend_health (envs i) i s = (Inr (), t)"
    "ad_backends t = dict_set i e' (ad_backends s)" "rb_backend e' = rb_backend e" "ad_running t = ad_running s"
    using refresh_mock [OF e, of "envs i"] by blast
  have rest: "\<exists>e. dict_get (ad_backends t) j = Some e \<and> rb_state e = BK_STARTING \<and> is_mock (rb_backend e)"
    if "j \<in> set rest" for j
    using Cons.prems that by (auto simp: t(2))
  obtain u where u: "iter_op (\<lambda>i. refresh_backend_health (envs i) i) rest t = (Inr (), u)"
    "dict_keys (ad_backends u) = dict_keys (ad_backends t)" "ad_running u = ad_running t"
    "\<forall>i. map_option rb_backend (dict_get (ad_backends u) i) = map_option rb_backend (dict_get (ad_backends t) i)"
    using Cons.IH [of t] Cons.prems(1) rest by auto
  have "dict_keys (ad_backends t) = dict_keys (ad_backends s)"
    using e(1) by (simp add: t(2) update_keys image_iff) (metis fst_conv map_of_SomeD)
  with u t e(1) show ?case
    by (auto simp: then_op_def bind_op_def)
qed

lemma own_ids_kept:
  assumes "own_ids s" and "dict_keys (ad_backends t) = dict_keys (ad_backends s)"
    and "\<forall>i. map_option rb_backend (dict_get (ad_backends t) i) = map_option rb_backend (dict_get (ad_backends s) i)"
  shows "own_ids t"
  unfolding own_ids_def
proof (intro conjI allI impI)
  show "wf_dict (ad_backends t)"
    using assms(1,2) by (simp add: own_ids_def wf_dict_def)
  fix i e assume "dict_get (ad_backends t) i = Some e"
  then obtain e' where "dict_get (ad_backends s) i = Some e'" "rb_backend e' = rb_backend e"
    using assms(3) [rule_format, of i] by (cases "dict_get (ad_backends s) i") auto
  moreover have "backend_id (rb_backend e') = i" if "dict_get (ad_backends s) i = Some e'" for e'
    using assms(1) that by (auto simp: own_ids_def)
  ultimately show "backend_id (rb_backend e) = i" by metis
qed

lemma adapter_starts:
  assumes "fresh_mocks s"
  shows "\<exists>t. adapter_startup envs s = (Inr (), t) \<and> own_ids t \<and> ad_running t"
proof -
  have ok: "own_ids s" "\<not> ad_running s" using assms by (simp_all add: fresh_mocks_def)
  have keys: "\<exists>e. dict_get (ad_backends s) i = Some e \<and> rb_state e = BK_STARTING \<and> is_mock (rb_backend e)"
    if "i \<in> set (dict_keys (ad_backends s))" for i
    using assms that by (cases "dict_get (ad_backends s) i")
      (auto simp: fresh_mocks_def map_of_eq_None_iff)
  obtain t where t: "iter_op (\<lambda>i. refresh_backend_health (envs i) i) (dict_keys (ad_backends s)) s = (Inr (), t)"
    "dict_keys (ad_backends t) = dict_keys (ad_backends s)"
    "\<forall>i. map_option rb_backend (dict_get (ad_backends t) i) = map_option rb_backend (dict_get (ad_backends s) i)"
    using refresh_all [of "dict_keys (ad_backends s)" s envs] keys ok(1)
    by (auto simp: own_ids_def wf_dict_def)
  have "own_ids t" using own_ids_kept [OF ok(1) t(2,3)] .
  then have "own_ids (t\<lparr>ad_running := True\<rparr>)" by (simp add: own_ids_def)
  with t(1) ok show ?thesis
    by (simp add: adapter_startup_def own_ids_list op_defs then_op_def bind_op_def gets_op_def modify_op_def)
qed

text \<open>Every state but the last may be left for \<open>STOPPED\<close>, and the last may be entered again.\<close>

lemma stop_allowed: "backend_can_transition st BK_STOPPED"
  by (cases st) (simp_all add: backend_can_transition_def backend_terminal_def)

lemma stop_all:
  assumes "\<And>i. i \<in> set js \<Longrightarrow> dict_get (ad_backends s) i \<noteq> None"
  shows "\<exists>t. iter_op (\<lambda>i. then_op (set_state i BK_STOPPED)
      (emit_backend_op now BV_HEALTH_CHANGED i None None ''adapter_shutdown'')) js s = (Inr (), t) \<and>
    (\<forall>i \<in> set js. map_option rb_state (dict_get (ad_backends t) i) = Some BK_STOPPED) \<and>
    (\<forall>i. i \<notin> set js \<longrightarrow> dict_get (ad_backends t) i = dict_get (ad_backends s) i)"
  using assms
proof (induction js arbitrary: s)
  case Nil
  then show ?case by (simp add: op_defs)
next
  case (Cons i rest)
  obtain e where e: "dict_get (ad_backends s) i = Some e"
    using Cons.prems [of i] by auto
  define t where "t = snd (then_op (set_state i BK_STOPPED)
      (emit_backend_op now BV_HEALTH_CHANGED i None None ''adapter_shutdown'') s)"
  have t: "then_op (set_state i BK_STOPPED)
      (emit_backend_op now BV_HEALTH_CHANGED i None None ''adapter_shutdown'') s = (Inr (), t)"
    "ad_backends t = dict_set i (e\<lparr>rb_state := BK_STOPPED, rb_last_health_state := Some BK_STOPPED\<rparr>) (ad_backends s)"
    using e by (simp_all add: t_def set_state_def stop_allowed put_backend_def emit_backend_op_def Let_def op_defs)
  obtain u where u: "iter_op (\<lambda>i. then_op (set_state i BK_STOPPED)
      (emit_backend_op now BV_HEALTH_CHANGED i None None ''adapter_shutdown'')) rest t = (Inr (), u)"
    "\<forall>i \<in> set rest. map_option rb_state (dict_get (ad_backends u) i) = Some BK_STOPPED"
    "\<forall>i. i \<notin> set rest \<longrightarrow> dict_get (ad_backends u) i = dict_get (ad_backends t) i"
    using Cons.IH [of t] Cons.prems by (force simp: t(2))
  have "iter_op (\<lambda>i. then_op (set_state i BK_STOPPED)
      (emit_backend_op now BV_HEALTH_CHANGED i None None ''adapter_shutdown'')) (i # rest) s = (Inr (), u)"
    using t(1) u(1) by (simp add: then_op_def [of "then_op _ _"] bind_op_def [of "then_op _ _"])
  moreover have "\<forall>j \<in> set (i # rest). map_option rb_state (dict_get (ad_backends u) j) = Some BK_STOPPED"
    using u(2,3) by (cases "i \<in> set rest") (auto simp: t(2))
  moreover have "\<forall>j. j \<notin> set (i # rest) \<longrightarrow> dict_get (ad_backends u) j = dict_get (ad_backends s) j"
    using u(3) by (auto simp: t(2))
  ultimately show ?case by blast
qed

lemma adapter_stops:
  assumes "own_ids s" and "ad_running s"
  shows "\<exists>t. adapter_shutdown now s = (Inr (), t) \<and> \<not> ad_running t \<and>
    (\<forall>i e. dict_get (ad_backends t) i = Some e \<longrightarrow> rb_state e = BK_STOPPED)"
proof -
  have keys: "dict_get (ad_backends s) i \<noteq> None" if "i \<in> set (dict_keys (ad_backends s))" for i
    using that by (simp add: map_of_eq_None_iff)
  obtain t where t: "iter_op (\<lambda>i. then_op (set_state i BK_STOPPED)
      (emit_backend_op now BV_HEALTH_CHANGED i None None ''adapter_shutdown''))
      (dict_keys (ad_backends s)) s = (Inr (), t)"
    "\<forall>i \<in> set (dict_keys (ad_backends s)). map_option rb_state (dict_get (ad_backends t) i) = Some BK_STOPPED"
    "\<forall>i. i \<notin> set (dict_keys (ad_backends s)) \<longrightarrow> dict_get (ad_backends t) i = dict_get (ad_backends s) i"
    using stop_all [OF keys] by blast
  have "rb_state e = BK_STOPPED" if "dict_get (ad_backends t) i = Some e" for i e
  proof (cases "i \<in> set (dict_keys (ad_backends s))")
    case True
    with t(2) that show ?thesis by force
  next
    case False
    then have "dict_get (ad_backends s) i = None" by (simp add: map_of_eq_None_iff)
    with False t(3) that show ?thesis by force
  qed
  with t(1) assms show ?thesis
    by (simp add: adapter_shutdown_def own_ids_list op_defs then_op_def bind_op_def gets_op_def modify_op_def)
qed


text \<open>A stopped backend never leaves its state, so a stopped adapter cannot be started again.\<close>

lemma stopped_adapter_refuses:
  assumes "own_ids s" and "\<not> ad_running s" and "ad_backends s \<noteq> []"
    and "\<And>i e. dict_get (ad_backends s) i = Some e \<Longrightarrow> rb_state e = BK_STOPPED \<and> is_mock (rb_backend e)"
  shows "\<exists>m t. adapter_startup envs s = (Inl (AE_ValueError m), t)"
proof -
  obtain i e rest where d: "ad_backends s = (i, e) # rest"
    using assms(3) by (cases "ad_backends s") auto
  then obtain k where k: "rb_backend e = Mock k" "rb_state e = BK_STOPPED"
    using assms(4) [of i e] by (auto simp: is_mock_def)
  have "\<not> backend_can_transition BK_STOPPED (health_target h)" for h
    by (simp add: backend_can_transition_def backend_terminal_def health_target_def)
  with k d have "\<exists>m t. refresh_backend_health (envs i) i s = (Inl (AE_ValueError m), t)"
    by (auto simp: refresh_backend_health_def get_backend_def call_backend_def write_backend_def
        put_backend_def set_state_def op_defs)
  with assms(1,2) d show ?thesis
    by (auto simp: adapter_startup_def own_ids_list op_defs)
qed

section \<open>A stack that has been built\<close>

lemma register_fresh:
  assumes "fresh_mocks s" and "register_backend now (Mock k) BK_STARTING models lat qual cap s = (Inr (), t)"
  shows "fresh_mocks t"
proof -
  have new: "dict_get (ad_backends s) (backend_id (Mock k)) = None"
  proof (rule ccontr)
    assume "dict_get (ad_backends s) (backend_id (Mock k)) \<noteq> None"
    with assms(2) show False
      by (auto simp: register_backend_def registry_register_backend_def op_defs)
  qed
  obtain e where "ad_backends t = dict_set (backend_id (Mock k)) e (ad_backends s)"
    "rb_backend e = Mock k" "rb_state e = BK_STARTING" "ad_running t = ad_running s"
    using assms(2) new
    by (auto simp: register_backend_def registry_register_backend_def put_backend_def emit_backend_op_def
        Let_def op_defs)
  with assms(1) show ?thesis
    by (auto simp: fresh_mocks_def own_ids_def is_mock_def)
qed

lemma then_returns:
  assumes "then_op m n s = (Inr a, u)"
  obtains t where "m s = (Inr (), t)" and "n t = (Inr a, u)"
proof (cases "m s")
  case (Pair r t)
  with assms that show ?thesis by (cases r) (auto simp: op_defs)
qed

lemma register_then:
  assumes "fresh_mocks s" and "then_op (register_backend now (Mock k) BK_STARTING models lat qual cap) n s = (Inr a, u)"
  obtains t where "fresh_mocks t" and "n t = (Inr a, u)"
  using assms(2) by (rule then_returns) (blast intro: that register_fresh [OF assms(1)])

lemma new_adapter_fresh: "fresh_mocks (new_adapter i obs)"
  by (simp add: fresh_mocks_def own_ids_def new_adapter_def)

lemma routing_backends_fresh:
  assumes "fresh_mocks s" and "register_routing_backends now s = (Inr (), t)"
  shows "fresh_mocks t"
  using assms(2) unfolding register_routing_backends_def
  by - (erule register_then [OF assms(1)], erule (1) register_then, erule (1) register_then,
      erule (1) register_fresh)

definition built :: "platform_stack \<Rightarrow> bool" where
  "built s \<longleftrightarrow> \<not> ps_control_running s \<and> \<not> sa_loop_running (pf_scheduler (ps_platform s)) \<and>
     fresh_mocks (dw_adapter (pf_world (ps_platform s)))"

lemma create_platform_stack_built:
  assumes "create_platform_stack st env = Inr s" and "\<not> as_register_vllm_backend (st_adapter st)"
  shows "built s"
proof -
  have adapter: "fresh_mocks a"
    if "create_adapter now (as\<lparr>as_register_mock_backend := False\<rparr>) obs = Inr a" "\<not> as_register_vllm_backend as"
    for now as obs a
    using that new_adapter_fresh by (auto simp: create_adapter_def op_defs)
  have sched: "\<not> sa_loop_running x" if "create_scheduler ss fi obs mode q = Inr x" for ss fi obs mode q x
    using that by (auto simp: create_scheduler_def split: sum.splits)
  obtain q where q: "create_control_plane (st_control st) (se_control_observers env) = Inr q"
    using assms(1) by (auto simp: create_platform_stack_def split: sum.splits)
  obtain a where a: "create_adapter (se_now env) ((st_adapter st)\<lparr>as_register_mock_backend := False\<rparr>)
      (se_adapter_observers env) = Inr a"
    using assms(1) q by (auto simp: create_platform_stack_def split: sum.splits)
  obtain r a' where r: "register_routing_backends (se_now env) a = (r, a')" by force
  then have r': "r = Inr ()"
    using assms(1) q a by (cases r) (auto simp: create_platform_stack_def)
  obtain x where x: "create_scheduler (st_scheduler st) None (se_scheduler_observers env) (se_mode env) q = Inr x"
    using assms(1) q a r r' by (auto simp: create_platform_stack_def split: sum.splits)
  have "fresh_mocks a'"
    using routing_backends_fresh [OF adapter [OF a assms(2)]] r r' by blast
  then show ?thesis
    using assms(1) q a r r' x sched [OF x] by (auto simp: create_platform_stack_def built_def)
qed

definition started :: "platform_stack \<Rightarrow> bool" where
  "started s \<longleftrightarrow> ps_control_running s \<and> sa_loop_running (pf_scheduler (ps_platform s)) \<and>
     own_ids (dw_adapter (pf_world (ps_platform s))) \<and> ad_running (dw_adapter (pf_world (ps_platform s)))"

lemma on_adapter_returns:
  "m (dw_adapter (pf_world p)) = (Inr a, t) \<Longrightarrow>
   on_adapter m p = (Inr a, p\<lparr>pf_world := (pf_world p)\<lparr>dw_adapter := t\<rparr>\<rparr>)"
  by (simp add: on_adapter_def map_exn_def zoom_op_def)

lemma stack_starts:
  assumes "built s"
  shows "\<exists>g t. stack_startup envs now env s = (Inr g, t) \<and> started t"
proof -
  obtain a where "adapter_startup envs (dw_adapter (pf_world (ps_platform s))) = (Inr (), a)"
    "own_ids a" "ad_running a"
    using adapter_starts assms unfolding built_def by blast
  with assms show ?thesis
    by (auto simp: stack_startup_def on_adapter_returns collect_stack_def built_def started_def
        scheduler_startup_def split: prod.split)
qed

lemma stack_stops:
  assumes "started s"
  shows "\<exists>t. stack_shutdown now s = (Inr (), t) \<and> \<not> ps_control_running t"
proof -
  obtain a where "adapter_shutdown now (dw_adapter (pf_world (ps_platform s))) = (Inr (), a)"
    using adapter_stops assms unfolding started_def by blast
  with assms show ?thesis
    by (auto simp: stack_shutdown_def on_stack_platform_def on_adapter_returns started_def)
qed

section \<open>The process\<close>

lemmas process_defs =
  startup_control_plane_def shutdown_control_plane_def ready_route_def ready_answer_def
  get_control_plane_client_def get_platform_stack_def get_control_plane_application_def
  start_stack_of_def new_process_def op_defs

text \<open>C26: the life of the gateway process. With the full path and the built-in backends the start of a
  new process succeeds whenever the stack can be built, and from then on the readiness route answers
  200; a second start changes nothing; the stop succeeds and drops the stack, and the process
  answers 503 afterwards, because the route builds a new stack that nobody starts.\<close>

theorem process_life:
  assumes "full_path st" and "\<not> as_register_vllm_backend (st_adapter (pc_stack st))"
    and "create_platform_stack (pc_stack st) (pv_build env) = Inr s"
  shows "\<exists>p. startup_control_plane st env new_process = (Inr (), p) \<and>
    ready_route st env' p = (Inr (200, [(''status'', ''ready'')]), p) \<and>
    startup_control_plane st env' p = (Inr (), p) \<and>
    (\<exists>q. shutdown_control_plane st env' p = (Inr (), q) \<and> gp_stack q = None \<and>
       fst (ready_route st env q) =
         Inr (503, [(''status'', ''not_ready''), (''reason'', ''control_plane_unavailable'')]))"
proof -
  have "built s" using create_platform_stack_built [OF assms(3,2)] .
  then obtain g t where t: "stack_startup (pv_health env) (pv_now env) (pv_collect env) s = (Inr g, t)"
    "started t"
    using stack_starts by blast
  obtain u where u: "stack_shutdown (pv_now env') t = (Inr (), u)"
    using stack_stops [OF t(2)] by blast
  define p where "p = new_process\<lparr>gp_stack := Some t\<rparr>"
  have start: "startup_control_plane st env new_process = (Inr (), p)"
    using assms(1,3) t(1) \<open>built s\<close> by (simp add: process_defs built_def p_def)
  have running: "ready_route st env' p = (Inr (200, [(''status'', ''ready'')]), p)"
    "startup_control_plane st env' p = (Inr (), p)"
    using assms(1) t(2) by (simp_all add: process_defs p_def started_def is_ready_def)
  have stop: "shutdown_control_plane st env' p = (Inr (), p\<lparr>gp_stack := None\<rparr>)"
    using assms(1) t(2) u by (simp add: process_defs p_def started_def)
  have "fst (ready_route st env (p\<lparr>gp_stack := None\<rparr>)) =
      Inr (503, [(''status'', ''not_ready''), (''reason'', ''control_plane_unavailable'')])"
    using assms(1,3) \<open>built s\<close> by (simp add: process_defs p_def built_def is_ready_def)
  with start running stop show ?thesis by fastforce
qed

definition sample_process_settings :: process_settings where
  "sample_process_settings =
     \<lparr>pc_gateway = \<lparr>gs_gateway_instance_id = ''g'', gs_max_body_bytes = 4194304, gs_default_max_tokens = 256,
        gs_api_keys = [], gs_full_path_integrated = True\<rparr>,
      pc_service_name = ''api-gateway'', pc_control_plane_integrated = True, pc_stack = sample_stack_settings\<rparr>"

definition sample_process_env :: process_env where
  "sample_process_env =
     \<lparr>pv_build = sample_stack_env, pv_health = rn_envs (pe_round (sv_path sample_stream_env)) ''start'', pv_now = 5,
      pv_collect = \<lparr>ce_capacity_time = 5, ce_event_times = (\<lambda>_. 5), ce_snapshot_time = 5, ce_nvml = (\<lambda>_. None),
        ce_numbers = None\<rparr>\<rparr>"

theorem process_life_witness:
  "\<exists>p. startup_control_plane sample_process_settings sample_process_env new_process = (Inr (), p) \<and>
     fst (ready_route sample_process_settings sample_process_env p) = Inr (200, [(''status'', ''ready'')])"
proof -
  obtain k where k: "create_platform_stack (pc_stack sample_process_settings) (pv_build sample_process_env) = Inr k"
    using sample_stack by (auto simp: sample_process_settings_def sample_process_env_def)
  have full: "full_path sample_process_settings"
    and mocks: "\<not> as_register_vllm_backend (st_adapter (pc_stack sample_process_settings))"
    by (simp_all add: full_path_def sample_process_settings_def sample_stack_settings_def
        default_adapter_settings_def)
  from process_life [OF full mocks k, of sample_process_env] show ?thesis by force
qed

text \<open>
  A start that fails after the control plane is up is never repeated: the flag that is read before a
  start is the control plane's, which is set first.
\<close>

definition keeps_running :: "adapter_state \<Rightarrow> adapter_state \<Rightarrow> bool" where
  "keeps_running s t \<longleftrightarrow> ad_running t = ad_running s"

interpretation running_frame: step_relation keeps_running
  by unfold_locales (simp_all add: keeps_running_def)

lemma refresh_running: "within_rel keeps_running (refresh_backend_health env i)"
proof -
  have parts: "within_rel keeps_running (call_backend i f e)" "within_rel keeps_running (set_state i st)"
    "within_rel keeps_running (emit_backend_op now ev i b r reason)"
    for f :: "backend \<Rightarrow> (adapter_exn + 'a) \<times> backend" and e st now ev b r reason
    by (rule within_relI; simp add: call_backend_def write_backend_def set_state_def put_backend_def
        emit_backend_op_def Let_def op_defs keeps_running_def split: prod.split option.split)+
  have call: "within_rel keeps_running (call_backend i (backend_health_check env) e)" for e
    by (rule within_relI) (simp add: call_backend_def write_backend_def put_backend_def keeps_running_def
        split: prod.split option.split)
  show ?thesis
    unfolding refresh_backend_health_def by (intro running_frame.within_intros parts call)
qed

lemma failed_startup_stopped:
  assumes "adapter_startup envs s = (Inl x, t)"
  shows "\<not> ad_running t"
proof -
  let ?loop = "iter_op (\<lambda>i. refresh_backend_health (envs i) i)
    (map (\<lambda>e. backend_id (rb_backend e)) (list_backends s))"
  have "\<not> ad_running s" and "?loop s = (Inl x, t)"
    using assms by (auto simp: adapter_startup_def op_defs split: if_splits prod.splits sum.splits)
  moreover have "within_rel keeps_running ?loop"
    by (intro running_frame.within_intros refresh_running)
  ultimately show ?thesis
    using within_relD [of keeps_running ?loop s] by (simp add: keeps_running_def)
qed

theorem half_started_stays:
  assumes "full_path st" and "gp_stack p = Some s" and "\<not> ps_control_running s"
    and "startup_control_plane st env p = (Inl x, q)"
  shows "startup_control_plane st env' q = (Inr (), q) \<and> fst (ready_route st env' q) =
    Inr (503, [(''status'', ''not_ready''), (''reason'', ''control_plane_unavailable'')])"
proof -
  obtain r a where run: "adapter_startup (pv_health env) (dw_adapter (pf_world (ps_platform s))) = (r, a)"
    by force
  have "q = p\<lparr>gp_stack := Some (s\<lparr>ps_control_running := True, ps_platform :=
      (ps_platform s)\<lparr>pf_world := (pf_world (ps_platform s))\<lparr>dw_adapter := a\<rparr>\<rparr>\<rparr>)\<rparr> \<and> \<not> ad_running a"
    using assms run failed_startup_stopped [of "pv_health env" "dw_adapter (pf_world (ps_platform s))" _ a]
    by (auto simp: process_defs stack_startup_def Let_def on_adapter_def map_exn_def
        split: prod.splits sum.splits)
  with assms(1) show ?thesis by (simp add: process_defs is_ready_def)
qed

text \<open>Without the full path the process is ready as soon as its control plane, or nothing, runs.\<close>

lemma new_control_app_stopped: "new_control_app st obs = Inr a \<Longrightarrow> \<not> ca_running a"
  by (auto simp: new_control_app_def split: sum.splits)

theorem control_process_ready:
  assumes "\<not> full_path st" and "startup_control_plane st env new_process = (Inr (), p)"
  shows "fst (ready_route st env' p) = Inr (200, [(''status'', ''ready'')])"
proof -
  obtain a where a: "new_control_app (st_control (pc_stack st)) (se_control_observers (pv_build env)) = Inr a"
    using assms by (auto simp: process_defs split: sum.splits)
  then have "p = new_process\<lparr>gp_control := Some (a\<lparr>ca_running := True\<rparr>)\<rparr>"
    using assms new_control_app_stopped [OF a] by (simp add: process_defs control_startup_def)
  with assms(1) show ?thesis by (simp add: process_defs)
qed

text \<open>A request that arrives while the process is not ready is accepted all the same.\<close>

lemma accept_ignores_readiness:
  "client_accept e submit (Platform_Client (s\<lparr>ps_control_running := False\<rparr>)) =
   map_option (\<lambda>(res, c). (res, case c of Platform_Client t \<Rightarrow> Platform_Client (t\<lparr>ps_control_running := False\<rparr>) | _ \<Rightarrow> c))
     (client_accept e submit (Platform_Client s))"
  by (cases "accept_request (av_admission e) (av_path e) (av_describe e) (av_capture e) submit (ps_platform s)")
    (auto split: prod.split)

lemma stub_answers:
  "client_is_ready Stub_Client" "get_request_status r Stub_Client = Inl QX_Not_Implemented"
  "client_accept e submit Stub_Client = Some (Inl stub_accept, Stub_Client)"
  by (simp_all add: get_request_status_def query_def)

end
