(* ===== verification/Telemetry.thy ===== *)
theory Telemetry
  imports Streams
begin

text \<open>
  What the platform tells its operators: structured log lines (\<open>logging.py\<close>), the trace headers
  (\<open>tracing.py\<close>), the catalogue of metric names (\<open>metrics.py\<close>) and the spans (\<open>otel/\<close>).

  The loggers of the standard library are the handlers and the level of each name (names have no
  dots after the service, so none is the parent of another). The tracing library is not part of the
  repository: a span keeps the calls made on it, in order, and what the library exports is an
  argument of the inspector.
\<close>

section \<open>Log context (logging.py)\<close>

record log_context =
  lc_service :: string
  lc_request_id :: "uuid option"
  lc_trace_id :: "string option"
  lc_span_id :: "string option"
  lc_model :: "string option"
  lc_batch_id :: "uuid option"
  lc_worker_id :: "string option"
  lc_extra :: "(string, payload) dict"

definition base_context :: "string \<Rightarrow> log_context" where
  "base_context service =
     \<lparr>lc_service = service, lc_request_id = None, lc_trace_id = None, lc_span_id = None, lc_model = None,
      lc_batch_id = None, lc_worker_id = None, lc_extra = []\<rparr>"

text \<open>A field given as keyword has the type its annotation says: a text, or \<open>None\<close> where it is optional.\<close>

fun text_of :: "payload \<Rightarrow> string option" where
  "text_of (PL_Str s) = Some s"
| "text_of _ = None"

definition with_field :: "string \<times> payload \<Rightarrow> log_context \<Rightarrow> log_context" where
  "with_field kv c =
     (let (k, v) = kv in
      if k = ''service'' then c\<lparr>lc_service := (case text_of v of None \<Rightarrow> [] | Some s \<Rightarrow> s)\<rparr>
      else if k = ''request_id'' then c\<lparr>lc_request_id := text_of v\<rparr>
      else if k = ''trace_id'' then c\<lparr>lc_trace_id := text_of v\<rparr>
      else if k = ''span_id'' then c\<lparr>lc_span_id := text_of v\<rparr>
      else if k = ''model'' then c\<lparr>lc_model := text_of v\<rparr>
      else if k = ''batch_id'' then c\<lparr>lc_batch_id := text_of v\<rparr>
      else if k = ''worker_id'' then c\<lparr>lc_worker_id := text_of v\<rparr>
      else c\<lparr>lc_extra := dict_set k v (lc_extra c)\<rparr>)"

definition with_fields :: "(string, payload) dict \<Rightarrow> log_context \<Rightarrow> log_context" where
  "with_fields kwargs c = fold with_field kwargs c"

section \<open>Log records (logging.py)\<close>

definition level_name :: "int \<Rightarrow> string" where
  "level_name level =
     (case map_of [(50, ''CRITICAL''), (40, ''ERROR''), (30, ''WARNING''), (20, ''INFO''),
         (10, ''DEBUG''), (0, ''NOTSET'')] level of
        Some n \<Rightarrow> n
      | None \<Rightarrow> ''Level '' @ show_int level)"

definition present :: "string \<Rightarrow> string option \<Rightarrow> (string, payload) dict" where
  "present k x = (case x of None \<Rightarrow> [] | Some s \<Rightarrow> [(k, PL_Str s)])"

definition dict_update :: "(string, payload) dict \<Rightarrow> (string, payload) dict \<Rightarrow> (string, payload) dict" where
  "dict_update new d = fold (\<lambda>(k, v). dict_set k v) new d"

definition log_record ::
  "string \<Rightarrow> int \<Rightarrow> string \<Rightarrow> log_context \<Rightarrow> (string, payload) dict \<Rightarrow> (string, payload) dict" where
  "log_record timestamp level message ctx kwargs =
     dict_update kwargs (dict_update (lc_extra ctx)
       ([(''timestamp'', PL_Str timestamp), (''level'', PL_Str (level_name level)),
         (''service'', PL_Str (lc_service ctx)), (''message'', PL_Str message)]
        @ present ''request_id'' (lc_request_id ctx) @ present ''trace_id'' (lc_trace_id ctx)
        @ present ''span_id'' (lc_span_id ctx) @ present ''model'' (lc_model ctx)
        @ present ''batch_id'' (lc_batch_id ctx) @ present ''worker_id'' (lc_worker_id ctx)))"

text \<open>\<open>json.dumps\<close> with the separators of its default.\<close>

fun spaced :: "string list \<Rightarrow> string" where
  "spaced [] = []"
| "spaced [x] = x"
| "spaced (x # y # zs) = x @ '', '' @ spaced (y # zs)"

primrec json_line :: "payload \<Rightarrow> string" where
  "json_line PL_Null = ''null''"
| "json_line (PL_Int i) = show_int i"
| "json_line (PL_Str s) = json_string s"
| "json_line (PL_Array xs) = ''['' @ spaced (map json_line xs) @ '']''"
| "json_line (PL_Object d) =
     ''{'' @ spaced (map (\<lambda>(k, v). json_string k @ '': '' @ v) (map (map_prod id json_line) d)) @ ''}''"

section \<open>Loggers\<close>

text \<open>The level and the number of handlers of every logger, by the service's name.\<close>

type_synonym loggers = "(string, int \<times> nat) dict"

definition logger_name :: "string \<Rightarrow> string" where
  "logger_name service = ''gpu_inference.'' @ service"

definition new_logger :: "string \<Rightarrow> int \<Rightarrow> loggers \<Rightarrow> loggers" where
  "new_logger service level ls =
     dict_set (logger_name service)
       (level, case dict_get ls (logger_name service) of None \<Rightarrow> 1 | Some (_, h) \<Rightarrow> if h = 0 then 1 else h) ls"

definition log_lines ::
  "string \<Rightarrow> string \<Rightarrow> int \<Rightarrow> string \<Rightarrow> log_context option \<Rightarrow> (string, payload) dict \<Rightarrow> loggers \<Rightarrow> string list" where
  "log_lines service timestamp level message ctx kwargs ls =
     (let c = (case ctx of None \<Rightarrow> base_context service | Some c \<Rightarrow> c);
          line = json_line (PL_Object (log_record timestamp level message c kwargs))
      in case dict_get ls (logger_name service) of
           None \<Rightarrow> []
         | Some (threshold, h) \<Rightarrow> if threshold \<le> level then replicate h line else [])"

definition log_info where "log_info service timestamp = log_lines service timestamp 20"
definition log_warning where "log_warning service timestamp = log_lines service timestamp 30"
definition log_error where "log_error service timestamp = log_lines service timestamp 40"

section \<open>Trace headers (tracing.py)\<close>

datatype trace_span_name =
    TS_GATEWAY_RECEIVE | TS_GATEWAY_VALIDATE | TS_GATEWAY_STREAM | TS_CONTROL_PLANE_RESOLVE_MODEL
  | TS_SCHEDULER_ADMIT | TS_SCHEDULER_QUEUE_WAIT | TS_SCHEDULER_DISPATCH | TS_ADAPTER_PREFILL | TS_ADAPTER_DECODE

fun trace_span_value :: "trace_span_name \<Rightarrow> string" where
  "trace_span_value TS_GATEWAY_RECEIVE = ''gateway.receive''"
| "trace_span_value TS_GATEWAY_VALIDATE = ''gateway.validate''"
| "trace_span_value TS_GATEWAY_STREAM = ''gateway.stream''"
| "trace_span_value TS_CONTROL_PLANE_RESOLVE_MODEL = ''control_plane.resolve_model''"
| "trace_span_value TS_SCHEDULER_ADMIT = ''scheduler.admit''"
| "trace_span_value TS_SCHEDULER_QUEUE_WAIT = ''scheduler.queue_wait''"
| "trace_span_value TS_SCHEDULER_DISPATCH = ''scheduler.dispatch''"
| "trace_span_value TS_ADAPTER_PREFILL = ''adapter.prefill''"
| "trace_span_value TS_ADAPTER_DECODE = ''adapter.decode''"

text \<open>The hexadecimal tokens of \<open>secrets.token_hex\<close> are arguments.\<close>

record header_context =
  hx_trace_id :: string
  hx_span_id :: string
  hx_request_id :: uuid
  hx_parent_span_id :: "string option"

definition new_trace :: "string \<Rightarrow> string \<Rightarrow> uuid \<Rightarrow> header_context" where
  "new_trace token16 token8 request_id =
     \<lparr>hx_trace_id = token16, hx_span_id = token8, hx_request_id = request_id, hx_parent_span_id = None\<rparr>"

definition child_span :: "string \<Rightarrow> header_context \<Rightarrow> header_context" where
  "child_span token8 c =
     \<lparr>hx_trace_id = hx_trace_id c, hx_span_id = token8, hx_request_id = hx_request_id c,
      hx_parent_span_id = Some (hx_span_id c)\<rparr>"

definition as_headers :: "header_context \<Rightarrow> (string, string) dict" where
  "as_headers c =
     [(''X-Trace-Id'', hx_trace_id c), (''X-Span-Id'', hx_span_id c), (''X-Request-Id'', hx_request_id c)]
     @ (case hx_parent_span_id c of None \<Rightarrow> [] | Some p \<Rightarrow> [(''X-Parent-Span-Id'', p)])"

section \<open>The catalogue of metric names (metrics.py)\<close>

datatype metric_name =
    MN_REQUEST_TOTAL | MN_REQUEST_TTFT_SECONDS | MN_REQUEST_ITL_SECONDS
  | MN_REQUEST_QUEUE_WAIT_SECONDS | MN_REQUEST_SCHEDULING_SECONDS | MN_REQUEST_COMPLETION_SECONDS
  | MN_REQUEST_TOKENS_GENERATED_TOTAL | MN_REQUEST_CANCELLED_TOTAL | MN_REQUEST_FAILED_TOTAL
  | MN_BATCH_SIZE | MN_BATCH_PREFILL_SECONDS | MN_BATCH_DECODE_STEPS_TOTAL | MN_BATCH_SLOTS_ACTIVE
  | MN_BATCH_DROPPED_SEQUENCES_TOTAL | MN_SCHEDULER_QUEUE_DEPTH | MN_SCHEDULER_ADMISSION_TOTAL
  | MN_SCHEDULER_DISPATCH_TOTAL | MN_GATEWAY_REQUESTS_TOTAL | MN_CONTROL_PLANE_LOOKUP_TOTAL
  | MN_WORKER_UP | MN_WORKER_FAILURES_TOTAL | MN_SCHEDULER_STATE | MN_THROUGHPUT_TOKENS_PER_SECOND
  | MN_GPU_UTILIZATION_RATIO | MN_GPU_MEMORY_USED_BYTES | MN_GPU_MEMORY_UTILIZATION_RATIO
  | MN_INFERENCE_PREFILL_SECONDS | MN_INFERENCE_DECODE_STEP_SECONDS

fun metric_value :: "metric_name \<Rightarrow> string" where
  "metric_value MN_REQUEST_TOTAL = ''request_total''"
| "metric_value MN_REQUEST_TTFT_SECONDS = ''request_ttft_seconds''"
| "metric_value MN_REQUEST_ITL_SECONDS = ''request_itl_seconds''"
| "metric_value MN_REQUEST_QUEUE_WAIT_SECONDS = ''request_queue_wait_seconds''"
| "metric_value MN_REQUEST_SCHEDULING_SECONDS = ''request_scheduling_seconds''"
| "metric_value MN_REQUEST_COMPLETION_SECONDS = ''request_completion_seconds''"
| "metric_value MN_REQUEST_TOKENS_GENERATED_TOTAL = ''request_tokens_generated_total''"
| "metric_value MN_REQUEST_CANCELLED_TOTAL = ''request_cancelled_total''"
| "metric_value MN_REQUEST_FAILED_TOTAL = ''request_failed_total''"
| "metric_value MN_BATCH_SIZE = ''batch_size''"
| "metric_value MN_BATCH_PREFILL_SECONDS = ''batch_prefill_seconds''"
| "metric_value MN_BATCH_DECODE_STEPS_TOTAL = ''batch_decode_steps_total''"
| "metric_value MN_BATCH_SLOTS_ACTIVE = ''batch_slots_active''"
| "metric_value MN_BATCH_DROPPED_SEQUENCES_TOTAL = ''batch_dropped_sequences_total''"
| "metric_value MN_SCHEDULER_QUEUE_DEPTH = ''scheduler_queue_depth''"
| "metric_value MN_SCHEDULER_ADMISSION_TOTAL = ''scheduler_admission_total''"
| "metric_value MN_SCHEDULER_DISPATCH_TOTAL = ''scheduler_dispatch_total''"
| "metric_value MN_GATEWAY_REQUESTS_TOTAL = ''gateway_requests_total''"
| "metric_value MN_CONTROL_PLANE_LOOKUP_TOTAL = ''control_plane_lookup_total''"
| "metric_value MN_WORKER_UP = ''worker_up''"
| "metric_value MN_WORKER_FAILURES_TOTAL = ''worker_failures_total''"
| "metric_value MN_SCHEDULER_STATE = ''scheduler_state''"
| "metric_value MN_THROUGHPUT_TOKENS_PER_SECOND = ''throughput_tokens_per_second''"
| "metric_value MN_GPU_UTILIZATION_RATIO = ''gpu_utilization_ratio''"
| "metric_value MN_GPU_MEMORY_USED_BYTES = ''gpu_memory_used_bytes''"
| "metric_value MN_GPU_MEMORY_UTILIZATION_RATIO = ''gpu_memory_utilization_ratio''"
| "metric_value MN_INFERENCE_PREFILL_SECONDS = ''inference_prefill_seconds''"
| "metric_value MN_INFERENCE_DECODE_STEP_SECONDS = ''inference_decode_step_seconds''"

definition metric_definitions :: "(metric_name \<times> metric_kind) list" where
  "metric_definitions =
     [(MN_REQUEST_TOTAL, MK_COUNTER),
      (MN_REQUEST_TTFT_SECONDS, MK_HISTOGRAM),
      (MN_REQUEST_ITL_SECONDS, MK_HISTOGRAM),
      (MN_REQUEST_QUEUE_WAIT_SECONDS, MK_HISTOGRAM),
      (MN_REQUEST_SCHEDULING_SECONDS, MK_HISTOGRAM),
      (MN_REQUEST_COMPLETION_SECONDS, MK_HISTOGRAM),
      (MN_REQUEST_TOKENS_GENERATED_TOTAL, MK_COUNTER),
      (MN_REQUEST_CANCELLED_TOTAL, MK_COUNTER),
      (MN_REQUEST_FAILED_TOTAL, MK_COUNTER),
      (MN_BATCH_SIZE, MK_HISTOGRAM),
      (MN_BATCH_PREFILL_SECONDS, MK_HISTOGRAM),
      (MN_BATCH_DECODE_STEPS_TOTAL, MK_COUNTER),
      (MN_BATCH_SLOTS_ACTIVE, MK_GAUGE),
      (MN_BATCH_DROPPED_SEQUENCES_TOTAL, MK_COUNTER),
      (MN_SCHEDULER_QUEUE_DEPTH, MK_GAUGE),
      (MN_SCHEDULER_ADMISSION_TOTAL, MK_COUNTER),
      (MN_SCHEDULER_DISPATCH_TOTAL, MK_COUNTER),
      (MN_GATEWAY_REQUESTS_TOTAL, MK_COUNTER),
      (MN_CONTROL_PLANE_LOOKUP_TOTAL, MK_COUNTER),
      (MN_WORKER_UP, MK_GAUGE),
      (MN_WORKER_FAILURES_TOTAL, MK_COUNTER),
      (MN_SCHEDULER_STATE, MK_GAUGE),
      (MN_THROUGHPUT_TOKENS_PER_SECOND, MK_GAUGE),
      (MN_GPU_UTILIZATION_RATIO, MK_GAUGE),
      (MN_GPU_MEMORY_USED_BYTES, MK_GAUGE),
      (MN_GPU_MEMORY_UTILIZATION_RATIO, MK_GAUGE),
      (MN_INFERENCE_PREFILL_SECONDS, MK_HISTOGRAM),
      (MN_INFERENCE_DECODE_STEP_SECONDS, MK_HISTOGRAM)]"

definition prometheus_prefix :: string where
  "prometheus_prefix = ''gpu_inference''"

definition prometheus_name :: "metric_name \<Rightarrow> string" where
  "prometheus_name n = prometheus_prefix @ ''_'' @ metric_value n"

section \<open>Span names and attributes (otel/spans.py, otel/attributes.py)\<close>

datatype span_name =
    SP_REQUEST | SP_VALIDATION | SP_ADMISSION | SP_QUEUE | SP_SCHEDULER | SP_BATCH
  | SP_BACKEND_SUBMISSION | SP_COMPLETION

fun span_name_value :: "span_name \<Rightarrow> string" where
  "span_name_value SP_REQUEST = ''request''"
| "span_name_value SP_VALIDATION = ''validation''"
| "span_name_value SP_ADMISSION = ''admission''"
| "span_name_value SP_QUEUE = ''queue''"
| "span_name_value SP_SCHEDULER = ''scheduler''"
| "span_name_value SP_BATCH = ''batch''"
| "span_name_value SP_BACKEND_SUBMISSION = ''backend_submission''"
| "span_name_value SP_COMPLETION = ''completion''"

datatype component_name = CN_GATEWAY | CN_CONTROL_PLANE | CN_SCHEDULER | CN_ADAPTER | CN_BACKEND

fun component_value :: "component_name \<Rightarrow> string" where
  "component_value CN_GATEWAY = ''gateway''"
| "component_value CN_CONTROL_PLANE = ''control_plane''"
| "component_value CN_SCHEDULER = ''scheduler''"
| "component_value CN_ADAPTER = ''adapter''"
| "component_value CN_BACKEND = ''backend''"

type_synonym attributes = "(string, string) dict"

text \<open>What a caller may say of a span, all of it optional.\<close>

record span_context =
  xc_request_id :: "uuid option"
  xc_correlation_id :: "string option"
  xc_batch_id :: "uuid option"
  xc_backend_id :: "string option"
  xc_request_state :: "string option"
  xc_batch_state :: "string option"
  xc_model :: "string option"

definition no_span_context :: span_context where
  "no_span_context =
     \<lparr>xc_request_id = None, xc_correlation_id = None, xc_batch_id = None, xc_backend_id = None,
      xc_request_state = None, xc_batch_state = None, xc_model = None\<rparr>"

definition given :: "string \<Rightarrow> string option \<Rightarrow> attributes" where
  "given k x = (case x of None \<Rightarrow> [] | Some v \<Rightarrow> [(k, v)])"

text \<open>The attributes a span starts with (\<open>TraceManager.span\<close>).\<close>

definition span_attributes_of :: "component_name \<Rightarrow> span_context \<Rightarrow> attributes \<Rightarrow> attributes" where
  "span_attributes_of component c more_attributes =
     fold (\<lambda>(k, v). dict_set k v) more_attributes
       ((''component_name'', component_value component)
        # given ''request_id'' (xc_request_id c) @ given ''correlation_id'' (xc_correlation_id c)
        @ given ''batch_id'' (xc_batch_id c) @ given ''backend_id'' (xc_backend_id c)
        @ given ''request_state'' (xc_request_state c) @ given ''batch_state'' (xc_batch_state c)
        @ given ''model'' (xc_model c))"

section \<open>Calls on a span (otel/scope.py)\<close>

datatype span_call =
    SC_SET string string
  | SC_EVENT string attributes
  | SC_EXCEPTION string
  | SC_ERROR string
  | SC_END

definition set_calls :: "attributes \<Rightarrow> span_call list" where
  "set_calls d = map (\<lambda>(k, v). SC_SET k v) d"

definition set_request_context :: "span_context \<Rightarrow> component_name option \<Rightarrow> span_call list" where
  "set_request_context c component =
     set_calls
       (given ''request_id'' (xc_request_id c) @ given ''correlation_id'' (xc_correlation_id c)
        @ given ''batch_id'' (xc_batch_id c) @ given ''backend_id'' (xc_backend_id c)
        @ given ''request_state'' (xc_request_state c) @ given ''batch_state'' (xc_batch_state c)
        @ given ''component_name'' (map_option component_value component) @ given ''model'' (xc_model c))"

definition set_span_attribute :: "string \<Rightarrow> string option \<Rightarrow> span_call list" where
  "set_span_attribute k v = set_calls (given k v)"

definition record_span_exception :: "string \<Rightarrow> span_call list" where
  "record_span_exception x = [SC_EXCEPTION x, SC_ERROR x]"

definition record_span_failure :: "string \<Rightarrow> string \<Rightarrow> span_call list" where
  "record_span_failure failure_type reason =
     [SC_SET ''failure_type'' failure_type, SC_SET ''failure_reason'' reason,
      SC_EVENT ''failure'' [(''failure_type'', failure_type), (''failure_reason'', reason)], SC_ERROR reason]"

definition record_span_rejection :: "string \<Rightarrow> span_call list" where
  "record_span_rejection reason = record_span_failure ''rejected'' reason"

definition record_span_timeout :: "string \<Rightarrow> span_call list" where
  "record_span_timeout reason = record_span_failure ''timeout'' reason"

section \<open>Spans around an operation (otel/manager.py, otel/helpers.py)\<close>

text \<open>
  The body of a \<open>with\<close> block makes calls on its scope and returns or raises. Without a manager the
  scope ignores them; with one the span is started, told of an exception, and ended.
\<close>

record started_span =
  ss_name :: string
  ss_attributes :: attributes
  ss_calls :: "span_call list"

definition manager_span ::
  "string \<Rightarrow> attributes \<Rightarrow> span_call list \<times> (string + 'a) \<Rightarrow> started_span \<times> (string + 'a)" where
  "manager_span name attrs body =
     (let (calls, res) = body
      in (\<lparr>ss_name = name, ss_attributes = attrs,
           ss_calls = calls @ (case res of Inl x \<Rightarrow> record_span_exception x | Inr _ \<Rightarrow> []) @ [SC_END]\<rparr>, res))"

definition optional_span ::
  "bool \<Rightarrow> string \<Rightarrow> attributes \<Rightarrow> span_call list \<times> (string + 'a) \<Rightarrow> started_span option \<times> (string + 'a)" where
  "optional_span has_manager name attrs body =
     (if \<not> has_manager then (None, snd body)
      else map_prod Some id (manager_span name attrs body))"

section \<open>The shared provider (otel/manager.py, otel/config.py)\<close>

datatype trace_exporter_type = EX_NONE | EX_CONSOLE | EX_OTLP | EX_MEMORY

fun trace_exporter_value :: "trace_exporter_type \<Rightarrow> string" where
  "trace_exporter_value EX_NONE = ''none''"
| "trace_exporter_value EX_CONSOLE = ''console''"
| "trace_exporter_value EX_OTLP = ''otlp''"
| "trace_exporter_value EX_MEMORY = ''memory''"

record trace_export_config =
  tx_exporter :: trace_exporter_type
  tx_service_name :: string
  tx_otlp_endpoint :: string

definition default_export_config :: trace_export_config where
  "default_export_config =
     \<lparr>tx_exporter = EX_MEMORY, tx_service_name = ''gpu-inference-platform'',
      tx_otlp_endpoint = ''http://localhost:4318/v1/traces''\<rparr>"

text \<open>
  The class variables: the provider with the configuration it was made with, and the memory exporter
  with the spans it has collected. The console and the OTLP exporter are of the library.
\<close>

record 'span trace_globals =
  tg_provider :: "trace_export_config option"
  tg_memory :: "'span list option"

definition no_globals :: "'span trace_globals" where
  "no_globals = \<lparr>tg_provider = None, tg_memory = None\<rparr>"

definition configure_exporter :: "trace_export_config \<Rightarrow> 'span trace_globals \<Rightarrow> 'span trace_globals" where
  "configure_exporter c g = (if tx_exporter c = EX_MEMORY then g\<lparr>tg_memory := Some []\<rparr> else g)"

text \<open>A manager keeps its own configuration and whether it has the memory exporter.\<close>

definition new_trace_manager ::
  "trace_export_config option \<Rightarrow> 'span trace_globals \<Rightarrow> (trace_export_config \<times> bool) \<times> 'span trace_globals" where
  "new_trace_manager config g =
     (let c = (case config of None \<Rightarrow> default_export_config | Some c \<Rightarrow> c);
          g' = (if tg_provider g = None then configure_exporter c (g\<lparr>tg_provider := Some c\<rparr>) else g)
      in ((c, tg_memory g' \<noteq> None), g'))"

definition clear_collected_spans :: "'span trace_globals \<Rightarrow> 'span trace_globals" where
  "clear_collected_spans g = g\<lparr>tg_memory := map_option (\<lambda>_. []) (tg_memory g)\<rparr>"

text \<open>\<open>InMemorySpanExporter.export\<close>, which the library calls when spans end.\<close>

definition export_spans :: "'span list \<Rightarrow> 'span trace_globals \<Rightarrow> 'span trace_globals" where
  "export_spans xs g = g\<lparr>tg_memory := map_option (\<lambda>ys. ys @ xs) (tg_memory g)\<rparr>"

section \<open>The inspector (otel/inspector.py)\<close>

record finished_span =
  fs_name :: string
  fs_attributes :: "attributes option"
  fs_trace_id :: int
  fs_span_id :: int
  fs_parent :: "int option"

definition spans_named :: "string \<Rightarrow> finished_span list \<Rightarrow> finished_span list" where
  "spans_named name spans = filter (\<lambda>x. fs_name x = name) spans"

definition attributes_of_span :: "finished_span \<Rightarrow> attributes" where
  "attributes_of_span x = (case fs_attributes x of None \<Rightarrow> [] | Some d \<Rightarrow> d)"

definition inspected_trace_ids :: "finished_span list \<Rightarrow> int list" where
  "inspected_trace_ids spans = remdups (map fs_trace_id spans)"

text \<open>A failed assertion raises; its message is not modelled.\<close>

definition assert_single_trace :: "finished_span list \<Rightarrow> int option" where
  "assert_single_trace spans =
     (case inspected_trace_ids spans of [t] \<Rightarrow> Some t | _ \<Rightarrow> None)"

definition assert_parent_child :: "finished_span \<Rightarrow> finished_span \<Rightarrow> bool" where
  "assert_parent_child parent child \<longleftrightarrow> fs_parent child = Some (fs_span_id parent)"

definition assert_attribute :: "finished_span \<Rightarrow> string \<Rightarrow> string \<Rightarrow> bool" where
  "assert_attribute x k expected \<longleftrightarrow> dict_get (attributes_of_span x) k = Some expected"

definition assert_request_attributes :: "finished_span \<Rightarrow> string \<Rightarrow> string \<Rightarrow> bool" where
  "assert_request_attributes x request_id correlation_id \<longleftrightarrow>
     assert_attribute x ''request_id'' request_id \<and> assert_attribute x ''correlation_id'' correlation_id"

section \<open>Log lines\<close>

lemma dict_update_get: "dict_get (dict_update new d) k = (if dict_get (rev new) k \<noteq> None then dict_get (rev new) k else dict_get d k)"
  by (induction new arbitrary: d) (auto simp: dict_update_def map_add_def split: option.splits)

lemma dict_update_wf: "wf_dict d \<Longrightarrow> wf_dict (dict_update new d)"
  unfolding dict_update_def by (induction new arbitrary: d) auto

lemma dict_get_rev: "wf_dict d \<Longrightarrow> dict_get (rev d) k = dict_get d k"
  using map_of_inject_set [of "rev d" d] by (simp add: wf_dict_def rev_map [symmetric])

text \<open>
  The fields every line has are there whatever is passed, and what they say is what the call says as
  long as no field of the call or of the context has their name.
\<close>

theorem log_record_fields:
  assumes "wf_dict kwargs" and "wf_dict (lc_extra ctx)"
    and "(k, v) \<in> {(''timestamp'', timestamp), (''level'', level_name level), (''service'', lc_service ctx), (''message'', message)}"
  shows "dict_get (log_record timestamp level message ctx kwargs) k =
    (case dict_get kwargs k of Some x \<Rightarrow> Some x
     | None \<Rightarrow> (case dict_get (lc_extra ctx) k of Some x \<Rightarrow> Some x | None \<Rightarrow> Some (PL_Str v)))"
proof -
  let ?four = "[(''timestamp'', PL_Str timestamp), (''level'', PL_Str (level_name level)),
    (''service'', PL_Str (lc_service ctx)), (''message'', PL_Str message)]"
  have "dict_get ?four k = Some (PL_Str v)"
    using assms(3) by (elim insertE emptyE) simp_all
  then have "dict_get (?four @ rest) k = Some (PL_Str v)" for rest
    by (simp only: map_of_append map_add_find_right)
  then obtain base where base: "dict_get base k = Some (PL_Str v)"
    and made: "log_record timestamp level message ctx kwargs = dict_update kwargs (dict_update (lc_extra ctx) base)"
    unfolding log_record_def by blast
  show ?thesis
    unfolding made dict_update_get dict_get_rev [OF assms(1)] dict_get_rev [OF assms(2)] base
    by (cases "dict_get kwargs k"; cases "dict_get (lc_extra ctx) k") simp_all
qed

text \<open>However many loggers a service makes, a line it logs is written once, if the last one's level allows it.\<close>

definition single_handlers :: "loggers \<Rightarrow> bool" where
  "single_handlers ls \<longleftrightarrow> (\<forall>n l h. dict_get ls n = Some (l, h) \<longrightarrow> h = 1)"

lemma one_handler: "single_handlers ls \<Longrightarrow> single_handlers (new_logger service level ls)"
  by (auto simp: single_handlers_def new_logger_def split: option.splits)

lemma made_handlers:
  "single_handlers ls \<Longrightarrow> single_handlers (fold (\<lambda>(service, level). new_logger service level) made ls)"
  by (induction made arbitrary: ls) (auto intro: one_handler)

theorem logged_once:
  assumes "ls = fold (\<lambda>(service, level). new_logger service level) (made @ [(service, threshold)]) []"
  shows "log_lines service timestamp level message ctx kwargs ls =
    (if threshold \<le> level
     then [json_line (PL_Object (log_record timestamp level message
             (case ctx of None \<Rightarrow> base_context service | Some c \<Rightarrow> c) kwargs))]
     else [])"
proof -
  define before where "before = fold (\<lambda>(service, level). new_logger service level) made []"
  have "single_handlers before"
    unfolding before_def by (rule made_handlers) (simp add: single_handlers_def)
  then have "dict_get (new_logger service threshold before) (logger_name service) = Some (threshold, 1)"
    by (auto simp: new_logger_def single_handlers_def split: option.splits)
  moreover have "ls = new_logger service threshold before"
    using assms by (simp add: before_def)
  ultimately show ?thesis by (simp add: log_lines_def Let_def)
qed

section \<open>Headers, names and spans\<close>

text \<open>A chain of child spans stays in its trace, and each names the one before it.\<close>

theorem child_chain:
  assumes "chain = foldl (\<lambda>cs t. cs @ [child_span t (last cs)]) [c] tokens"
  shows "length chain = Suc (length tokens) \<and> (\<forall>x \<in> set chain. hx_trace_id x = hx_trace_id c \<and> hx_request_id x = hx_request_id c) \<and>
    (\<forall>i < length tokens. hx_parent_span_id (chain ! Suc i) = Some (hx_span_id (chain ! i)) \<and>
       hx_span_id (chain ! Suc i) = tokens ! i)"
  using assms
proof (induction tokens arbitrary: chain rule: rev_induct)
  case Nil
  then show ?case by simp
next
  case (snoc t ts)
  define before where "before = foldl (\<lambda>cs t. cs @ [child_span t (last cs)]) [c] ts"
  have chain: "chain = before @ [child_span t (last before)]"
    using snoc.prems by (simp add: before_def)
  have IH: "length before = Suc (length ts)"
    "\<forall>x \<in> set before. hx_trace_id x = hx_trace_id c \<and> hx_request_id x = hx_request_id c"
    "\<forall>i < length ts. hx_parent_span_id (before ! Suc i) = Some (hx_span_id (before ! i)) \<and> hx_span_id (before ! Suc i) = ts ! i"
    using snoc.IH [OF before_def] by simp_all
  then have "before \<noteq> []" by auto
  then have "last before \<in> set before" "last before = before ! length ts"
    using IH(1) by (simp_all add: last_conv_nth)
  with IH show ?case
    by (auto simp: chain nth_append child_span_def less_Suc_eq)
qed

definition read_headers :: "(string, string) dict \<Rightarrow> header_context option" where
  "read_headers d =
     (case (dict_get d ''X-Trace-Id'', dict_get d ''X-Span-Id'', dict_get d ''X-Request-Id'') of
        (Some t, Some x, Some r) \<Rightarrow> Some
          \<lparr>hx_trace_id = t, hx_span_id = x, hx_request_id = r, hx_parent_span_id = dict_get d ''X-Parent-Span-Id''\<rparr>
      | _ \<Rightarrow> None)"

lemma headers_carry_all: "read_headers (as_headers c) = Some c"
  by (cases c) (simp add: read_headers_def as_headers_def split: option.split)

text \<open>
  The catalogue of names is complete and free of duplicates, its counters are the names that end in
  \<open>_total\<close>, and where a runtime metric has a name of the catalogue it has its kind.
\<close>

definition ends_total :: "string \<Rightarrow> bool" where
  "ends_total s \<longleftrightarrow> rev (take 6 (rev s)) = ''_total''"

lemma metric_names_defined: "map_of metric_definitions n \<noteq> None"
  by (cases n) (simp_all add: metric_definitions_def)

lemma counters_end_in_total: "list_all (\<lambda>(n, k). k = MK_COUNTER \<longleftrightarrow> ends_total (metric_value n)) metric_definitions"
  by code_simp

lemma metric_values_distinct: "distinct (map (\<lambda>(n, k). metric_value n) metric_definitions)"
  by code_simp

lemma runtime_kinds_agree:
  "list_all (\<lambda>(n, k). case map_of metrics_catalogue (metric_value n) of None \<Rightarrow> True | Some (k', _) \<Rightarrow> k' = k)
     metric_definitions"
  by code_simp

text \<open>Which of the names a runtime metric has.\<close>

lemma implemented_names:
  "filter (\<lambda>n. map_of metrics_catalogue (metric_value n) \<noteq> None) (map fst metric_definitions) =
   [MN_REQUEST_TTFT_SECONDS, MN_REQUEST_ITL_SECONDS, MN_BATCH_SIZE, MN_GPU_MEMORY_USED_BYTES]"
  by code_simp

text \<open>A span never changes what its operation does.\<close>

lemma optional_span_result [simp]: "snd (optional_span m name attrs body) = snd body"
  by (cases body) (simp add: optional_span_def manager_span_def)

lemma failed_span_ends:
  "fst (manager_span name attrs (calls, Inl x)) =
   \<lparr>ss_name = name, ss_attributes = attrs, ss_calls = calls @ [SC_EXCEPTION x, SC_ERROR x, SC_END]\<rparr>"
  by (simp add: manager_span_def record_span_exception_def)

text \<open>
  The first manager of the process decides: whatever the later ones are configured with, the provider
  keeps the first configuration, and they collect spans in memory exactly when the first one does.
\<close>

theorem first_configuration_wins:
  fixes c :: trace_export_config and configs :: "trace_export_config option list" and g :: "'span trace_globals"
  defines "g \<equiv> snd (new_trace_manager (Some c) no_globals)"
    and "u \<equiv> fold (\<lambda>x v. snd (new_trace_manager x v)) configs (snd (new_trace_manager (Some c) no_globals) :: 'span trace_globals)"
  shows "u = g \<and> snd (fst (new_trace_manager later u)) = (tx_exporter c = EX_MEMORY)"
proof -
  have keep: "snd (new_trace_manager x v) = v" if "tg_provider v \<noteq> None" for x and v :: "'span trace_globals"
    using that by (auto simp: new_trace_manager_def Let_def)
  have g: "tg_provider g \<noteq> None" "(tg_memory g \<noteq> None) = (tx_exporter c = EX_MEMORY)"
    by (simp_all add: g_def new_trace_manager_def no_globals_def configure_exporter_def Let_def)
  have "fold (\<lambda>x v. snd (new_trace_manager x v)) configs g = g"
    by (induction configs) (simp_all add: keep g)
  then have "u = g" by (simp add: u_def g_def)
  moreover have "snd (fst (new_trace_manager later g)) = (tg_memory g \<noteq> None)"
    using g(1) by (auto simp: new_trace_manager_def Let_def)
  ultimately show ?thesis using g(2) by simp
qed

end
