(* ===== verification/Shared_Contracts.thy ===== *)
theory Shared_Contracts
  imports Batch_Model Adapter
begin

text \<open>
  What the services agree on beside the requests: the terminal and the failure states of every
  enumeration (\<open>common_schemas/states.py\<close>), the envelopes of responses
  (\<open>common_schemas/inference_response.py\<close>), the scheduler's contract with its stub
  (\<open>control_plane/scheduler\<close>), and the metadata a backend gives of itself (\<open>backends/mock.py\<close>,
  \<open>backends/vllm.py\<close>). What pydantic checks of the envelopes is a predicate.
\<close>

section \<open>Terminal and failure states (states.py)\<close>

definition dispatch_batch_terminal :: "dispatch_batch_state list" where
  "dispatch_batch_terminal = [DB_COMPLETED, DB_FAILED, DB_CANCELLED]"

definition dispatch_batch_failure :: "dispatch_batch_state list" where
  "dispatch_batch_failure = [DB_FAILED]"

datatype worker_state = WS_REGISTERING | WS_IDLE | WS_BUSY | WS_DRAINING | WS_UNHEALTHY | WS_OFFLINE

fun worker_state_value :: "worker_state \<Rightarrow> string" where
  "worker_state_value WS_REGISTERING = ''registering''"
| "worker_state_value WS_IDLE = ''idle''"
| "worker_state_value WS_BUSY = ''busy''"
| "worker_state_value WS_DRAINING = ''draining''"
| "worker_state_value WS_UNHEALTHY = ''unhealthy''"
| "worker_state_value WS_OFFLINE = ''offline''"

definition worker_terminal :: "worker_state list" where
  "worker_terminal = [WS_UNHEALTHY, WS_OFFLINE]"

definition worker_failure :: "worker_state list" where
  "worker_failure = [WS_UNHEALTHY]"

definition scheduler_terminal :: "scheduler_mode list" where
  "scheduler_terminal = [SM_UNAVAILABLE]"

definition scheduler_failure :: "scheduler_mode list" where
  "scheduler_failure = [SM_UNAVAILABLE]"

datatype finish_reason = FR_STOP | FR_LENGTH | FR_CANCELLED | FR_ERROR

fun finish_reason_value :: "finish_reason \<Rightarrow> string" where
  "finish_reason_value FR_STOP = ''stop''"
| "finish_reason_value FR_LENGTH = ''length''"
| "finish_reason_value FR_CANCELLED = ''cancelled''"
| "finish_reason_value FR_ERROR = ''error''"

datatype terminal_status = TE_COMPLETED | TE_FAILED | TE_TIMED_OUT | TE_REJECTED | TE_CANCELLED

fun terminal_status_value :: "terminal_status \<Rightarrow> string" where
  "terminal_status_value TE_COMPLETED = ''completed''"
| "terminal_status_value TE_FAILED = ''failed''"
| "terminal_status_value TE_TIMED_OUT = ''timed_out''"
| "terminal_status_value TE_REJECTED = ''rejected''"
| "terminal_status_value TE_CANCELLED = ''cancelled''"

section \<open>Envelopes of responses (inference_response.py)\<close>

record token_usage =
  tu_prompt_tokens :: int
  tu_completion_tokens :: int
  tu_total_tokens :: int

definition token_usage_valid :: "token_usage \<Rightarrow> bool" where
  "token_usage_valid u \<longleftrightarrow> 0 \<le> tu_prompt_tokens u \<and> 0 \<le> tu_completion_tokens u \<and> 0 \<le> tu_total_tokens u"

record assistant_message =
  am_role :: string
  am_content :: string

definition assistant_message :: "string \<Rightarrow> assistant_message" where
  "assistant_message content = \<lparr>am_role = ''assistant'', am_content = content\<rparr>"

record choice =
  co_message :: assistant_message
  co_finish_reason :: finish_reason

record inference_response =
  rp_request_id :: uuid
  rp_model :: string
  rp_choices :: "choice list"
  rp_usage :: "token_usage option"
  rp_finish_reason :: finish_reason

definition inference_response_valid :: "inference_response \<Rightarrow> bool" where
  "inference_response_valid r \<longleftrightarrow>
     length (rp_choices r) = 1 \<and> (case rp_usage r of None \<Rightarrow> True | Some u \<Rightarrow> token_usage_valid u)"

record streaming_chunk =
  sk_request_id :: uuid
  sk_batch_id :: uuid
  sk_index :: int
  sk_delta_text :: string
  sk_finish_reason :: "finish_reason option"
  sk_created_at :: datetime

definition streaming_chunk_valid :: "streaming_chunk \<Rightarrow> bool" where
  "streaming_chunk_valid c \<longleftrightarrow> 0 \<le> sk_index c"

record completion_result =
  cl_request_id :: uuid
  cl_status :: string
  cl_finish_reason :: finish_reason
  cl_usage :: "token_usage option"
  cl_completed_at :: datetime

definition completion_result_valid :: "completion_result \<Rightarrow> bool" where
  "completion_result_valid r \<longleftrightarrow> (case cl_usage r of None \<Rightarrow> True | Some u \<Rightarrow> token_usage_valid u)"

section \<open>The scheduler's contract and its stub (control_plane/scheduler)\<close>

datatype scheduling_status =
    SS_NOT_SUBMITTED | SS_PENDING | SS_ADMITTED | SS_REJECTED | SS_QUEUED | SS_SCHEDULED | SS_UNAVAILABLE

fun scheduling_status_value :: "scheduling_status \<Rightarrow> string" where
  "scheduling_status_value SS_NOT_SUBMITTED = ''not_submitted''"
| "scheduling_status_value SS_PENDING = ''pending''"
| "scheduling_status_value SS_ADMITTED = ''admitted''"
| "scheduling_status_value SS_REJECTED = ''rejected''"
| "scheduling_status_value SS_QUEUED = ''queued''"
| "scheduling_status_value SS_SCHEDULED = ''scheduled''"
| "scheduling_status_value SS_UNAVAILABLE = ''unavailable''"

record submit_ack =
  sa_request_id :: uuid
  sa_status :: scheduling_status
  sa_scheduler_state :: "request_state option"
  sa_message :: "string option"

record platform_scheduling_result =
  psr_request_id :: uuid
  psr_status :: scheduling_status
  psr_platform_state :: "request_state option"
  psr_message :: "string option"

definition stub_submit_request :: "submit_request \<Rightarrow> submit_ack" where
  "stub_submit_request submit =
     \<lparr>sa_request_id = ir_request_id (sr_inference_request submit), sa_status = SS_NOT_SUBMITTED,
      sa_scheduler_state = None, sa_message = Some ''scheduler not connected''\<rparr>"

definition stub_get_scheduling_status :: "uuid \<Rightarrow> scheduling_status" where
  "stub_get_scheduling_status request_id = SS_NOT_SUBMITTED"

definition stub_receive_scheduling_result :: "uuid \<Rightarrow> platform_scheduling_result option" where
  "stub_receive_scheduling_result request_id = None"

text \<open>The control plane hands a request to the stub and forgets the acknowledgement.\<close>

definition handoff_to_scheduler :: "uuid \<Rightarrow> ('x registry_state_scheme, cp_exn, ref) op" where
  "handoff_to_scheduler request_id = bind_op (registry_get request_id) (\<lambda>r. return_op r)"

section \<open>Backend metadata (backend/models.py, backends/mock.py, backends/vllm.py)\<close>

datatype metadata_value = MV_Bool bool | MV_Int int | MV_Num rat | MV_Text string | MV_Texts "string list"

record backend_metadata =
  bm_backend_id :: string
  bm_backend_type :: string
  bm_supported_models :: "string list"
  bm_max_batch_size :: "int option"
  bm_extra :: "(string, metadata_value) dict"

definition mock_metadata :: "mock_backend \<Rightarrow> backend_metadata" where
  "mock_metadata k =
     \<lparr>bm_backend_id = mk_backend_id k, bm_backend_type = ''mock'', bm_supported_models = mk_supported_models k,
      bm_max_batch_size = Some (mk_max_batch_size k), bm_extra = [(''deterministic'', MV_Bool True)]\<rparr>"

definition vllm_metadata_of :: "health_check_result \<Rightarrow> vllm_backend \<Rightarrow> backend_metadata" where
  "vllm_metadata_of h k =
     \<lparr>bm_backend_id = vc_backend_id (vb_config k), bm_backend_type = ''vllm'',
      bm_supported_models = (if vc_supported_models (vb_config k) \<noteq> [] then vc_supported_models (vb_config k)
        else vb_loaded_models k),
      bm_max_batch_size = Some (vc_max_batch_size (vb_config k)),
      bm_extra =
        [(''base_url'', MV_Text (vc_base_url (vb_config k))), (''loaded_models'', MV_Texts (vb_loaded_models k)),
         (''health_state'', MV_Text (hc_state h))]
        @ (case vc_tensor_parallel_size (vb_config k) of None \<Rightarrow> [] | Some n \<Rightarrow> [(''tensor_parallel_size'', MV_Int n)])
        @ (case vc_gpu_memory_utilization (vb_config k) of None \<Rightarrow> []
           | Some x \<Rightarrow> [(''gpu_memory_utilization'', MV_Num x)])\<rparr>"

text \<open>The last health check is used again; without one the server is asked.\<close>

definition vllm_metadata ::
  "http_env \<Rightarrow> datetime \<Rightarrow> vllm_backend \<Rightarrow> (adapter_exn + backend_metadata) \<times> vllm_backend" where
  "vllm_metadata env now k =
     (case vb_last_health k of
        Some h \<Rightarrow> (Inr (vllm_metadata_of h k), k)
      | None \<Rightarrow>
          (case vllm_health_check env now k of
             (Inl x, k') \<Rightarrow> (Inl x, k')
           | (Inr h, k') \<Rightarrow> (Inr (vllm_metadata_of h k'), k')))"

section \<open>What holds of them\<close>

text \<open>A failure state is terminal, and the states of an outcome are the terminal states of a request.\<close>

lemma failure_states_terminal:
  "set dispatch_batch_failure \<subseteq> set dispatch_batch_terminal" "set worker_failure \<subseteq> set worker_terminal"
  "set scheduler_failure \<subseteq> set scheduler_terminal"
  by (simp_all add: dispatch_batch_failure_def dispatch_batch_terminal_def worker_failure_def
      worker_terminal_def scheduler_failure_def scheduler_terminal_def)

lemma terminal_statuses:
  "is_terminal_request_state s \<longleftrightarrow> (\<exists>t. terminal_status_value t = request_state_value s)"
proof
  show "\<exists>t. terminal_status_value t = request_state_value s" if "is_terminal_request_state s"
    using that by (cases s)
      (simp_all add: is_terminal_request_state_def,
       metis terminal_status_value.simps, metis terminal_status_value.simps, metis terminal_status_value.simps,
       metis terminal_status_value.simps, metis terminal_status_value.simps)
  show "is_terminal_request_state s" if "\<exists>t. terminal_status_value t = request_state_value s"
  proof -
    from that obtain t where "terminal_status_value t = request_state_value s" ..
    then show ?thesis by (cases t; cases s) simp_all
  qed
qed

text \<open>
  The shared contract knows other backend states than the adapter has: only \<open>unhealthy\<close> is in both.
\<close>

lemma shared_backend_states:
  "worker_state_value w = backend_state_value b \<longleftrightarrow> w = WS_UNHEALTHY \<and> b = BK_UNHEALTHY"
  by (cases w; cases b) simp_all

text \<open>The metadata of a vLLM backend never asks the server twice.\<close>

lemma metadata_asks_once:
  assumes "vllm_metadata env now k = (Inr m, k')"
  shows "vllm_metadata env' now' k' = (Inr m, k')"
proof (cases "vb_last_health k")
  case (Some h)
  with assms have "k' = k" "m = vllm_metadata_of h k" by (auto simp: vllm_metadata_def)
  with Some show ?thesis by (simp add: vllm_metadata_def)
next
  case None
  then obtain h where h: "vllm_health_check env now k = (Inr h, k')" "m = vllm_metadata_of h k'"
    using assms by (auto simp: vllm_metadata_def split: prod.splits sum.splits)
  then have "vb_last_health k' = Some h"
    by (auto simp: vllm_health_check_def keep_health_def Let_def split: sum.splits if_splits)
  with h show ?thesis by (simp add: vllm_metadata_def)
qed

lemma handoff_changes_nothing:
  "snd (handoff_to_scheduler r s) = snd (registry_get r s)" "fst (handoff_to_scheduler r s) = fst (registry_get r s)"
  by (cases "registry_get r s"; cases "fst (registry_get r s)"; simp add: handoff_to_scheduler_def op_defs)+

end
