(* ===== verification/Benchmark_Charts.thy ===== *)
theory Benchmark_Charts
  imports Benchmark_Analysis
begin

text \<open>
  The line charts of the benchmarks (\<open>benchmarks/runner/charts.py\<close>, \<open>scaling_charts.py\<close>): the geometry
  of a chart, its SVG text, and the series of the comparison and of the scaling runs. A chart whose
  drawing raises \<open>IndexError\<close> is \<open>None\<close>; the files the texts are written to are not modelled. The values
  that are read from a run's snapshot are numbers or missing, as the scaling runs write them.
\<close>

section \<open>Texts\<close>

definition attr :: "string \<times> string \<Rightarrow> string" where
  "attr kv = fst kv @ ''='' @ [CHR 34] @ snd kv @ [CHR 34]"

definition open_tag :: "string \<Rightarrow> (string \<times> string) list \<Rightarrow> string" where
  "open_tag name kvs = ''<'' @ name @ '' '' @ join '' '' (map attr kvs) @ ''>''"

definition empty_tag :: "string \<Rightarrow> (string \<times> string) list \<Rightarrow> string" where
  "empty_tag name kvs = ''<'' @ name @ '' '' @ join '' '' (map attr kvs) @ ''/>''"

definition text_tag :: "(string \<times> string) list \<Rightarrow> string \<Rightarrow> string" where
  "text_tag kvs body = open_tag ''text'' kvs @ body @ ''</text>''"

section \<open>Geometry (charts.py)\<close>

definition chart_width :: int where "chart_width = 640"
definition chart_height :: int where "chart_height = 400"
definition chart_margin :: int where "chart_margin = 60"

definition scale :: "rat list \<Rightarrow> int \<Rightarrow> rat list" where
  "scale vs height =
     (if vs = [] then []
      else
        let lo = Min (set vs); top = Max (set vs); hi = (if top = lo then lo + 1 else top);
            span = of_int (height - chart_margin * 2)
        in map (\<lambda>v. of_int chart_margin + span - ((v - lo) / (hi - lo)) * span) vs)"

definition x_coords :: "nat \<Rightarrow> rat list" where
  "x_coords n =
     map (\<lambda>i. of_int chart_margin + of_nat i * (of_int (chart_width - chart_margin * 2) / of_nat (max (n - 1) 1)))
       [0..<n]"

definition chart_colors :: "(string, string) dict" where
  "chart_colors =
     [(''no_batching'', ''#2563eb''), (''static_batching'', ''#dc2626''), (''continuous_batching'', ''#16a34a'')]"

section \<open>The SVG text\<close>

type_synonym series = "(string, rat option list) dict"

definition numeric :: "rat option list \<Rightarrow> rat list" where
  "numeric vs = map (\<lambda>v. case v of None \<Rightarrow> 0 | Some x \<Rightarrow> x) vs"

definition points :: "rat list \<Rightarrow> rat list \<Rightarrow> string" where
  "points xs ys = join '' '' (map (\<lambda>(x, y). show_fixed 1 x @ '','' @ show_fixed 1 y) (zip xs ys))"

definition color_of :: "string \<Rightarrow> string" where
  "color_of name = (case dict_get chart_colors name of None \<Rightarrow> ''#444444'' | Some c \<Rightarrow> c)"

text \<open>The line of a series and its name; \<open>ys[-1]\<close> and \<open>x_coords[i]\<close> must exist.\<close>

definition series_parts :: "rat list \<Rightarrow> string \<times> rat option list \<Rightarrow> string list option" where
  "series_parts xs s =
     (let (name, values) = s; ys = scale (numeric values) chart_height in
      if ys = [] \<or> length xs < length ys then None
      else Some
        [empty_tag ''polyline'' [(''fill'', ''none''), (''stroke'', color_of name), (''stroke-width'', ''2''),
           (''points'', points xs ys)],
         text_tag [(''x'', show_int (chart_width - chart_margin)), (''y'', show_fixed 1 (last ys)),
           (''font-size'', ''11''), (''fill'', color_of name), (''font-family'', ''sans-serif'')] name])"

fun all_parts :: "rat list \<Rightarrow> series \<Rightarrow> string list option" where
  "all_parts xs [] = Some []"
| "all_parts xs (s # rest) =
     (case series_parts xs s of
        None \<Rightarrow> None
      | Some ps \<Rightarrow> map_option ((@) ps) (all_parts xs rest))"

definition chart_head :: "string \<Rightarrow> string \<Rightarrow> string list" where
  "chart_head title y_label =
     [open_tag ''svg'' [(''xmlns'', ''http://www.w3.org/2000/svg''), (''width'', show_int chart_width),
        (''height'', show_int chart_height)],
      empty_tag ''rect'' [(''width'', ''100%''), (''height'', ''100%''), (''fill'', ''white'')],
      text_tag [(''x'', ''320.0''), (''y'', ''24''), (''text-anchor'', ''middle''), (''font-size'', ''16''),
        (''font-family'', ''sans-serif'')] title,
      text_tag [(''x'', ''16''), (''y'', ''200.0''), (''transform'', ''rotate(-90 16 200.0)''),
        (''text-anchor'', ''middle''), (''font-size'', ''12''), (''font-family'', ''sans-serif'')] y_label]"

definition label_parts :: "string list \<Rightarrow> string list" where
  "label_parts labels =
     map (\<lambda>(x, label). text_tag [(''x'', show_fixed 1 x), (''y'', show_int (chart_height - 20)),
         (''text-anchor'', ''middle''), (''font-size'', ''11''), (''font-family'', ''sans-serif'')] label)
       (zip (x_coords (length labels)) labels)"

definition render_line_chart :: "string \<Rightarrow> string list \<Rightarrow> series \<Rightarrow> string \<Rightarrow> string option" where
  "render_line_chart title labels series y_label =
     map_option (\<lambda>parts. join [CHR 10]
         (chart_head title y_label @ parts @ label_parts labels @ [''</svg>'']))
       (all_parts (x_coords (length labels)) series)"

section \<open>The batching charts\<close>

definition series_key :: "benchmark_run \<Rightarrow> string \<times> int" where
  "series_key run =
     (str_or (run_batching_mode run) ''unknown'', sc_concurrency (run_scenario run))"

text \<open>A later run with the same mode and concurrency replaces an earlier one.\<close>

definition group_runs :: "benchmark_run list \<Rightarrow> (string \<times> int, benchmark_run) dict" where
  "group_runs runs = fold (\<lambda>r. dict_set (series_key r) r) runs []"

definition sorted_distinct :: "'a :: linorder list \<Rightarrow> 'a list" where
  "sorted_distinct xs = sort (remdups xs)"

definition summary_value :: "(benchmark_summary \<Rightarrow> rat option) \<Rightarrow> benchmark_run option \<Rightarrow> rat option" where
  "summary_value f run = Option.bind (Option.bind run run_summary) f"

definition mode_series :: "(benchmark_summary \<Rightarrow> rat option) \<Rightarrow> benchmark_run list \<Rightarrow> series" where
  "mode_series f runs =
     (let grouped = group_runs runs;
          modes = sorted_distinct (map fst (dict_keys grouped));
          levels = sorted_distinct (map snd (dict_keys grouped))
      in map (\<lambda>m. (m, map (\<lambda>c. summary_value f (dict_get grouped (m, c))) levels)) modes)"

definition batching_labels :: "benchmark_run list \<Rightarrow> string list" where
  "batching_labels runs = map show_int (sorted_distinct (map snd (dict_keys (group_runs runs))))"

definition batching_chart_specs ::
  "(string \<times> (benchmark_summary \<Rightarrow> rat option) \<times> string \<times> string) list" where
  "batching_chart_specs =
     [(''Throughput vs Concurrency'', su_throughput_rps, ''requests/s'', ''throughput-vs-concurrency.svg''),
      (''Latency p50 vs Concurrency'', su_latency_ms_p50, ''latency ms'', ''latency-vs-concurrency.svg''),
      (''GPU Utilization p50 vs Concurrency'', su_gpu_utilization_percent_p50, ''gpu util %'',
       ''gpu-utilization-vs-concurrency.svg'')]"

text \<open>The charts with the names of their files.\<close>

definition generate_batching_charts :: "benchmark_run list \<Rightarrow> (string \<times> string option) list" where
  "generate_batching_charts runs =
     map (\<lambda>(title, f, unit, file).
         (file, render_line_chart title (batching_labels runs) (mode_series f runs) unit))
       batching_chart_specs"

section \<open>The scaling charts (scaling_charts.py)\<close>

definition by_concurrency :: "benchmark_run list \<Rightarrow> benchmark_run list" where
  "by_concurrency runs = sort_key (\<lambda>r. sc_concurrency (run_scenario r)) runs"

definition single_series :: "(benchmark_run \<Rightarrow> rat option) \<Rightarrow> benchmark_run list \<Rightarrow> series" where
  "single_series f runs = [(''measured'', map f (by_concurrency runs))]"

definition scaling_chart_specs :: "(string \<times> (benchmark_run \<Rightarrow> rat option) \<times> string \<times> string) list" where
  "scaling_chart_specs =
     (let summary = (\<lambda>f r. summary_value f (Some r)); peak = (\<lambda>k r. number_of (runtime_get r k)) in
      [(''Throughput vs Concurrency'', summary su_throughput_rps, ''requests/s'', ''throughput-vs-concurrency.svg''),
       (''TTFT p50 vs Concurrency'', summary su_ttft_ms_p50, ''TTFT ms'', ''ttft-vs-concurrency.svg''),
       (''Latency p95 vs Concurrency'', summary su_latency_ms_p95, ''latency p95 ms'',
        ''latency-p95-vs-concurrency.svg''),
       (''Queue Depth Peak vs Concurrency'', peak ''peak_queue_depth'', ''peak queue depth'',
        ''queue-depth-vs-concurrency.svg''),
       (''GPU Memory Peak vs Concurrency'',
        (\<lambda>r. Some (case number_of (runtime_get r ''peak_gpu_memory_used_bytes'') of None \<Rightarrow> 0 | Some x \<Rightarrow> x)),
        ''bytes'', ''gpu-memory-vs-concurrency.svg''),
       (''KV Cache Occupancy Peak vs Concurrency'', peak ''peak_kv_cache_occupancy_ratio'', ''occupancy ratio'',
        ''kv-cache-vs-concurrency.svg'')])"

definition generate_scaling_charts :: "benchmark_run list \<Rightarrow> (string \<times> string option) list" where
  "generate_scaling_charts runs =
     map (\<lambda>(title, f, unit, file).
         (file, render_line_chart title (map (\<lambda>r. show_int (sc_concurrency (run_scenario r))) (by_concurrency runs))
            (single_series f runs) unit))
       scaling_chart_specs"

section \<open>What the charts show\<close>

text \<open>Every point is inside the frame.\<close>

lemma scale_inside:
  assumes "y \<in> set (scale vs height)" and "2 * chart_margin \<le> height"
  shows "of_int chart_margin \<le> y \<and> y \<le> of_int (height - chart_margin)"
proof -
  define lo where "lo = Min (set vs)"
  define hi where "hi = (if Max (set vs) = lo then lo + 1 else Max (set vs))"
  define span :: rat where "span = of_int (height - chart_margin * 2)"
  obtain v where v: "v \<in> set vs" and y: "y = of_int chart_margin + span - ((v - lo) / (hi - lo)) * span"
    using assms(1) by (auto simp: scale_def lo_def hi_def span_def Let_def split: if_splits)
  have lo: "lo \<le> v" "v \<le> Max (set vs)" using v by (simp_all add: lo_def)
  then have hi: "lo < hi" "v \<le> hi" by (auto simp: hi_def)
  have ratio: "0 \<le> (v - lo) / (hi - lo)" "(v - lo) / (hi - lo) \<le> 1"
    using lo(1) hi by (simp_all add: divide_simps)
  have span: "0 \<le> span" using assms(2) by (simp add: span_def)
  have "((v - lo) / (hi - lo)) * span \<le> 1 * span"
    by (rule mult_right_mono [OF ratio(2) span])
  moreover have "0 \<le> ((v - lo) / (hi - lo)) * span"
    by (rule mult_nonneg_nonneg [OF ratio(1) span])
  ultimately show ?thesis by (auto simp: y span_def)
qed

lemma x_inside:
  assumes "x \<in> set (x_coords n)"
  shows "of_int chart_margin \<le> x \<and> x \<le> of_int (chart_width - chart_margin)"
proof -
  obtain i where i: "i < n" and x: "x = of_int chart_margin
      + of_nat i * (of_int (chart_width - chart_margin * 2) / of_nat (max (n - 1) 1))"
    using assms by (auto simp: x_coords_def)
  have "i \<le> max (n - 1) 1" using i by auto
  then have "(of_nat i :: rat) \<le> of_nat (max (n - 1) 1)" by (rule of_nat_mono)
  then have "(of_nat i :: rat) / of_nat (max (n - 1) 1) \<le> 1"
    by (subst divide_le_eq_1_pos) (simp_all del: of_nat_max)
  then have "(of_nat i :: rat) / of_nat (max (n - 1) 1) * 520 \<le> 1 * 520"
    by (rule mult_right_mono) simp
  with x show ?thesis by (simp add: chart_margin_def chart_width_def)
qed

text \<open>
  Each series is scaled by its own extremes: a series and one that is higher by a constant, or a
  multiple of it, are drawn as the same line, so the lines of one chart cannot be compared.
\<close>

theorem shifted_series_same_line:
  assumes "vs \<noteq> []" and "Max (set vs) \<noteq> Min (set vs)" and "0 < (a :: rat)"
  shows "scale (map (\<lambda>v. a * v + b) vs) h = scale vs h"
proof -
  have mono: "mono (\<lambda>v. a * v + b)" using assms(3) by (auto simp: mono_def mult_left_mono)
  have ext: "Min (set (map (\<lambda>v. a * v + b) vs)) = a * Min (set vs) + b"
    "Max (set (map (\<lambda>v. a * v + b) vs)) = a * Max (set vs) + b"
    using assms(1) mono_Min_commute [OF mono, of "set vs"] mono_Max_commute [OF mono, of "set vs"] by simp_all
  have ratio: "(a * v + b - (a * l + b)) / (a * h + b - (a * l + b)) = (v - l) / (h - l)" for v l h :: rat
  proof -
    have "(a * v + b - (a * l + b)) / (a * h + b - (a * l + b)) = (a * (v - l)) / (a * (h - l))"
      by (simp add: algebra_simps)
    also have "\<dots> = (v - l) / (h - l)" using assms(3) by simp
    finally show ?thesis .
  qed
  have "a * Max (set vs) + b \<noteq> a * Min (set vs) + b" using assms(2,3) by simp
  with assms(1,2) show ?thesis
    unfolding scale_def ext Let_def by (simp only: if_False map_is_Nil_conv map_map o_def ratio)
qed

lemma scale_length [simp]: "length (scale vs h) = length vs"
  by (simp add: scale_def Let_def)

lemma scale_empty [simp]: "scale vs h = [] \<longleftrightarrow> vs = []"
  by (simp add: scale_def Let_def)

lemma x_coords_length [simp]: "length (x_coords n) = n"
  by (simp add: x_coords_def)

lemma all_parts_ok:
  "all_parts xs s \<noteq> None \<longleftrightarrow> list_all (\<lambda>(name, vs). vs \<noteq> [] \<and> length vs \<le> length xs) s"
  by (induction s)
    (auto simp: series_parts_def Let_def numeric_def not_less split: option.splits if_splits)

lemma render_ok:
  "render_line_chart t labels s u \<noteq> None \<longleftrightarrow>
   list_all (\<lambda>(name, vs). vs \<noteq> [] \<and> length vs \<le> length labels) s"
  using all_parts_ok [of "x_coords (length labels)" s]
  by (cases "all_parts (x_coords (length labels)) s") (simp_all add: render_line_chart_def)

text \<open>The batching charts can always be drawn, the scaling charts exactly when there is a run.\<close>

lemma group_keys: "dict_keys (group_runs runs) = [] \<longleftrightarrow> runs = []"
proof -
  have "fold (\<lambda>r. dict_set (series_key r) r) runs d = [] \<longleftrightarrow> runs = [] \<and> d = []" for d
  proof (induction runs arbitrary: d)
    case (Cons r runs)
    have "dict_set (series_key r) r d \<noteq> []" by (cases d) auto
    with Cons show ?case by simp
  qed simp
  then show ?thesis by (simp add: group_runs_def)
qed

theorem batching_charts_drawn: "list_all (\<lambda>(file, chart). chart \<noteq> None) (generate_batching_charts runs)"
proof -
  have levels: "levels \<noteq> []"
    if "m \<in> set (sorted_distinct (map fst (dict_keys (group_runs runs))))"
      "levels = sorted_distinct (map snd (dict_keys (group_runs runs)))" for m :: string and levels :: "int list"
    using that by (auto simp: sorted_distinct_def dest: arg_cong [where f = set])
  have "list_all (\<lambda>(name, vs). vs \<noteq> [] \<and> length vs \<le> length (batching_labels runs)) (mode_series f runs)" for f
    using levels by (auto simp: mode_series_def batching_labels_def Let_def list_all_iff)
  then have "render_line_chart t (batching_labels runs) (mode_series f runs) u \<noteq> None" for t f u
    by (simp only: render_ok)
  then show ?thesis
    by (simp add: generate_batching_charts_def batching_chart_specs_def)
qed

theorem scaling_charts_drawn:
  "list_all (\<lambda>(file, chart). chart \<noteq> None \<longleftrightarrow> runs \<noteq> []) (generate_scaling_charts runs)"
proof -
  have "by_concurrency runs = [] \<longleftrightarrow> runs = []"
    by (metis by_concurrency_def length_0_conv length_sort)
  then have "render_line_chart t (map (\<lambda>r. show_int (sc_concurrency (run_scenario r))) (by_concurrency runs))
      (single_series f runs) u \<noteq> None \<longleftrightarrow> runs \<noteq> []" for t f u
    by (simp only: render_ok) (simp add: single_series_def)
  then show ?thesis
    by (simp add: generate_scaling_charts_def scaling_chart_specs_def Let_def)
qed

end
