(* ===== verification/Benchmark_Reports.thy ===== *)
theory Benchmark_Reports
  imports Benchmark_Analysis
begin

text \<open>
  The reports of the benchmarks (\<open>benchmarks/runner/report.py\<close>, \<open>batching_report.py\<close>,
  \<open>policy_report.py\<close>, \<open>scaling_report.py\<close>): a report is the text that is written to its file, or the
  exception that is raised first. The time of a report and the prompts that were read from
  \<open>prompts.json\<close> are arguments; the files are not modelled. A float is an exact number, which is
  rounded when it is written.
\<close>

section \<open>Cells and rows\<close>

datatype report_exn = RE_ValueError string | RE_TypeError

definition tick :: "string \<Rightarrow> string" where
  "tick s = ''`'' @ s @ ''`''"

definition row :: "string list \<Rightarrow> string" where
  "row cells = ''| '' @ join '' | '' cells @ '' |''"

text \<open>A float with a number of decimals; without decimals there is no point.\<close>

definition show_decimals :: "nat \<Rightarrow> rat \<Rightarrow> string" where
  "show_decimals n x =
     (if n = 0 then (if x < 0 then ''-'' else []) @ show_nat (nat \<bar>py_round x\<bar>) else show_fixed n x)"

definition fmt :: "nat \<Rightarrow> rat option \<Rightarrow> string" where
  "fmt precision v = (case v of None \<Rightarrow> ''n/a'' | Some x \<Rightarrow> show_decimals precision x)"

definition fmt_int :: "int option \<Rightarrow> string" where
  "fmt_int v = (case v of None \<Rightarrow> ''n/a'' | Some i \<Rightarrow> show_int i)"

text \<open>A value of a snapshot. The text of a list is exact when its members need no escapes.\<close>

fun fmt_value :: "nat \<Rightarrow> extra_value \<Rightarrow> string" where
  "fmt_value n X_NONE = ''n/a''"
| "fmt_value n (X_STR s) = s"
| "fmt_value n (X_INT i) = show_int i"
| "fmt_value n (X_NUM x) = show_decimals n x"
| "fmt_value n (X_BOOL b) = (if b then ''True'' else ''False'')"
| "fmt_value n (X_STRS ss) = ''['' @ join '', '' (map (\<lambda>s. [CHR 39] @ s @ [CHR 39]) ss) @ '']''"

definition fmt_bytes :: "int option \<Rightarrow> string" where
  "fmt_bytes v =
     (case v of
        None \<Rightarrow> ''n/a''
      | Some n \<Rightarrow>
          if 1073741824 \<le> n then show_fixed 2 (of_int n / 1073741824) @ '' GiB''
          else if 1048576 \<le> n then show_fixed 2 (of_int n / 1048576) @ '' MiB''
          else show_int n @ '' B'')"

text \<open>\<open>str\<close> of a name that may be missing.\<close>

definition show_name :: "string option \<Rightarrow> string" where
  "show_name s = (case s of None \<Rightarrow> ''None'' | Some x \<Rightarrow> x)"

definition concurrency :: "benchmark_run \<Rightarrow> int" where
  "concurrency run = sc_concurrency (run_scenario run)"

definition summary_of :: "(benchmark_summary \<Rightarrow> rat option) \<Rightarrow> benchmark_run \<Rightarrow> rat option" where
  "summary_of f run = Option.bind (run_summary run) f"

definition render :: "string list \<Rightarrow> string" where
  "render lines = join [CHR 10] lines"

text \<open>A table: its two heading lines, a row for every item, and an empty line.\<close>

definition lines_for :: "string list \<Rightarrow> ('a \<Rightarrow> string list) \<Rightarrow> 'a list \<Rightarrow> string list" where
  "lines_for heading f xs = heading @ map (\<lambda>x. row (f x)) xs @ [[]]"

section \<open>The baseline (report.py)\<close>

definition baseline_head :: "datetime \<Rightarrow> benchmark_run \<Rightarrow> string list" where
  "baseline_head now first =
     [''# Baseline Performance Results'',
      [],
      ''**Status:** Measured (Session 23)  '', ''**Generated:** '' @ isoformat now @ ''  '',
      ''**Runner:** '' @ run_runner first @ ''  '',
      [],
      ''This report records collected measurements only. No tuning was applied.'',
      [],
      ''## Methodology'',
      [],
      ''- Embedded ValidationStack with mock backend (`demo` model)'',
      ''- One stack instance per request; requests within a scenario run sequentially'',
      ''- Latency measured as wall-clock time per request'',
      ''- TTFT and ITL measured on streaming requests from `StreamSession` timing'',
      ''- GPU metrics sampled via `GPUMetricsCollector` after each request'',
      ''- Input token counts are estimated (`chars/4`); output token counts are measured when backend reports them'',
      [],
      ''## Environment'',
      []]"

definition baseline_environment :: "benchmark_environment option \<Rightarrow> string list" where
  "baseline_environment env =
     (case env of
        None \<Rightarrow> [''Environment metadata missing from run records.'', []]
      | Some e \<Rightarrow>
          lines_for [''| Field | Value |'', ''|-------|-------|''] (\<lambda>(k, v). [k, v])
            [(''OS'', be_os e), (''Platform'', be_platform e), (''Python'', be_python_version e),
             (''vLLM'', str_or (be_vllm_version e) ''not installed''), (''CPU'', str_or (be_cpu_model e) ''n/a''),
             (''RAM'', fmt_bytes (be_ram_bytes e)), (''GPU'', str_or (be_gpu_model e) ''n/a''),
             (''GPU memory'', fmt_bytes (be_gpu_memory_total_bytes e)), (''GPU source'', be_gpu_source e),
             (''Model'', be_model_name e), (''Model size'', str_or (be_model_size e) ''n/a''),
             (''Backend'', be_backend_id e), (''Hostname'', str_or (be_hostname e) ''n/a'')])"

definition workload_row :: "(string, string) dict option \<Rightarrow> workload_profile \<Rightarrow> string list" where
  "workload_row file p =
     [tick (wp_profile_id p), show_int (estimated_input_tokens_for_profile file p) @ '' (estimated)'',
      show_int (wp_target_output_tokens p), (if wp_stream p then ''yes'' else ''no''), wp_rationale p]"

definition baseline_workloads :: "(string, string) dict option \<Rightarrow> string list" where
  "baseline_workloads file =
     lines_for
       [''## Reference workloads'',
      [],
      ''| Profile | Est. input tokens | Target output tokens | Stream | Rationale |'',
      ''|---------|-------------------|----------------------|--------|-----------|'']
       (workload_row file) [short_prompt_profile, medium_prompt_profile, long_prompt_profile, streaming_profile]"

definition first_result :: "(benchmark_result \<Rightarrow> 'a option) \<Rightarrow> benchmark_run \<Rightarrow> 'a option" where
  "first_result f run = (case run_results run of [] \<Rightarrow> None | r # _ \<Rightarrow> f r)"

definition single_row :: "benchmark_run \<Rightarrow> string list" where
  "single_row run =
     [sc_scenario_id (run_scenario run), fmt 3 (first_result bn_latency_ms run),
      fmt 3 (first_result bn_ttft_ms run), fmt 3 (summary_of su_itl_ms_p50 run),
      fmt_int (first_result bn_tokens_generated run), fmt 3 (first_result bn_gpu_utilization_percent run),
      fmt_bytes (first_result bn_gpu_memory_used_bytes run)]"

text \<open>A table without runs is left out.\<close>

definition unless_empty :: "'a list \<Rightarrow> string list \<Rightarrow> string list" where
  "unless_empty xs lines = (if xs = [] then [] else lines)"

definition baseline_single :: "benchmark_run list \<Rightarrow> string list" where
  "baseline_single runs =
     (let single = filter (\<lambda>r. concurrency r = 1) runs in
      [''## Single-request baseline (concurrency = 1)'', []] @
      unless_empty single
        (lines_for
          [''| Scenario | Latency (ms) | TTFT (ms) | ITL p50 (ms) | Tokens out | GPU util % | GPU mem used |'',
      ''|----------|--------------|-----------|--------------|------------|------------|--------------|'']
          single_row single))"

definition concurrent_row :: "benchmark_run \<times> benchmark_summary \<Rightarrow> string list" where
  "concurrent_row rs =
     (let (run, s) = rs in
      [sc_scenario_id (run_scenario run), show_int (concurrency run)] @
      map (fmt 3)
        [su_throughput_rps s, su_latency_ms_p50 s, su_latency_ms_p95 s, su_latency_ms_p99 s,
         su_ttft_ms_p50 s, su_ttft_ms_p95 s, su_gpu_utilization_percent_p50 s])"

text \<open>A run without a summary has no row.\<close>

definition summarized :: "benchmark_run list \<Rightarrow> (benchmark_run \<times> benchmark_summary) list" where
  "summarized runs = List.map_filter (\<lambda>r. map_option (Pair r) (run_summary r)) runs"

definition baseline_concurrent :: "benchmark_run list \<Rightarrow> string list" where
  "baseline_concurrent runs =
     (let concurrent = filter (\<lambda>r. 1 < concurrency r) runs in
      [''## Low-concurrency measurements'', []] @
      unless_empty concurrent
        (lines_for
          [''| Scenario | Concurrency | Throughput (rps) | Latency p50 (ms) | p95 (ms) | p99 (ms) | TTFT p50 (ms) | TTFT p95 (ms) | GPU util p50 % |'',
      ''|----------|-------------|------------------|------------------|----------|----------|---------------|---------------|----------------|'']
          concurrent_row (summarized concurrent)))"

definition baseline_ids :: "benchmark_run list \<Rightarrow> string list" where
  "baseline_ids runs =
     [''## Run identifiers'', []] @
     map (\<lambda>r. ''- '' @ tick (sc_scenario_id (run_scenario r)) @ '': '' @ tick (run_run_id r)) runs @ [[]]"

definition baseline_limits :: "string list" where
  "baseline_limits =
     [''## Limitations'',
      [],
      ''- Measurements use mock backend unless operator configures vLLM backend separately'',
      ''- Embedded runner does not execute concurrent requests in-process; concurrency scenarios measure sequential request latency aggregates'',
      ''- GPU metrics reflect host probe state (`nvml`, `fallback_unavailable`, or `simulated`) at sample time'',
      ''- No comparison or regression analysis in Session 23'',
      []]"

definition baseline_report ::
  "datetime \<Rightarrow> (string, string) dict option \<Rightarrow> benchmark_run list \<Rightarrow> report_exn + string" where
  "baseline_report now file runs =
     (if runs = [] then Inl (RE_ValueError ''no benchmark runs supplied'')
      else Inr (render
        (baseline_head now (hd runs) @ baseline_environment (run_environment (hd runs)) @
         baseline_workloads file @ baseline_single runs @ baseline_concurrent runs @
         baseline_ids runs @ baseline_limits)))"

section \<open>Continuous batching (batching_report.py)\<close>

definition by_mode :: "benchmark_run list \<Rightarrow> benchmark_run list" where
  "by_mode runs = sort_key (\<lambda>r. (str_or (run_batching_mode r) [], concurrency r)) runs"

definition mode_row :: "batching_mode \<Rightarrow> string list" where
  "mode_row m =
     [tick (mo_mode_id m), show_int (mo_max_batch_size m), show_int (mo_batch_admission_window_ms m),
      (case mo_min_dispatch_members m of None \<Rightarrow> ''None'' | Some n \<Rightarrow> show_int n)]"

definition batching_head :: "datetime \<Rightarrow> (string, string) dict option \<Rightarrow> string list" where
  "batching_head now file =
     [''# Continuous Batching Analysis'',
      [],
      ''**Status:** Measured (Session 24)  '', ''**Generated:** '' @ isoformat now @ ''  '',
      [],
      ''Observed measurements only. No tuning applied. No causal claims.'',
      [],
      ''## Methodology'',
      [],
      ''Compare three scheduler configurations on identical streaming workloads:'',
      [],
      ''| Mode | max_batch_size | admission_window_ms | min_dispatch_members |'',
      ''|------|----------------|---------------------|----------------------|''] @
     map (\<lambda>m. row (mode_row m)) (dict_values batching_modes) @
     [[],
      ''Execution flow:'',
      [],
      ''1. Enqueue all requests before scheduling'',
      ''2. Run scheduler cycles until queue empty'',
      ''3. Complete streaming requests and collect per-request metrics'',
      [],
      ''Concurrency levels: 2, 4, 8. Workload: `streaming` profile.'',
      [],
      ''Estimated input tokens per request: '' @
        show_int (estimated_input_tokens_for_profile file streaming_profile) @ '' (chars/4 estimate).'',
      ''Target output tokens: '' @ show_int (wp_target_output_tokens streaming_profile) @ ''.'',
      [],
      ''## Environment'',
      []]"

definition batching_environment :: "benchmark_environment option \<Rightarrow> string list" where
  "batching_environment env =
     (case env of
        None \<Rightarrow> []
      | Some e \<Rightarrow>
          lines_for [''| Field | Value |'', ''|-------|-------|''] (\<lambda>(k, v). [k, v])
            [(''OS'', be_os e), (''Python'', be_python_version e),
             (''vLLM'', str_or (be_vllm_version e) ''not installed''), (''GPU source'', be_gpu_source e),
             (''Model'', be_model_name e), (''Backend'', be_backend_id e)])"

definition mode_cells :: "benchmark_run \<Rightarrow> string list" where
  "mode_cells run = [tick (show_name (run_batching_mode run)), show_int (concurrency run)]"

definition batching_throughput_row :: "benchmark_run \<Rightarrow> string list" where
  "batching_throughput_row run =
     mode_cells run @ [fmt 3 (summary_of su_throughput_rps run), fmt 3 (summary_of su_tokens_per_second run)]"

definition batching_latency_row :: "benchmark_run \<times> benchmark_summary \<Rightarrow> string list" where
  "batching_latency_row rs =
     (let (run, s) = rs in
      mode_cells run @
      map (fmt 3)
        [su_latency_ms_p50 s, su_latency_ms_p95 s, su_latency_ms_p99 s, su_ttft_ms_p50 s, su_ttft_ms_p95 s,
         su_ttft_ms_p99 s, su_itl_ms_p50 s, su_itl_ms_p95 s])"

definition batching_queue_row :: "benchmark_run \<Rightarrow> string list" where
  "batching_queue_row run =
     mode_cells run @
     [fmt 3 (queue_wait_median run), fmt 3 (scheduling_delay_median run),
      fmt 3 (upper_median (List.map_filter bn_request_age_ms (run_results run))),
      fmt 0 (upper_median (map of_int (List.map_filter bn_queue_depth_at_schedule (run_results run))))]"

definition batching_gpu_row :: "benchmark_run \<Rightarrow> string list" where
  "batching_gpu_row run =
     mode_cells run @
     [fmt 3 (summary_of su_gpu_utilization_percent_p50 run),
      fmt_int (Option.bind (run_summary run) su_gpu_memory_used_bytes_p50),
      fmt 3 (summary_of su_kv_cache_occupancy_ratio_p50 run), fmt 0 (summary_of su_active_sequences_p50 run)]"

text \<open>A size of zero is left out, as a missing one.\<close>

definition dispatch_sizes :: "benchmark_run \<Rightarrow> int list" where
  "dispatch_sizes run = filter (\<lambda>n. n \<noteq> 0) (List.map_filter bn_batch_member_count (run_results run))"

definition batching_dispatch_row :: "benchmark_run \<Rightarrow> string list" where
  "batching_dispatch_row run =
     mode_cells run @
     [if dispatch_sizes run = [] then ''n/a'' else join '', '' (map show_int (dispatch_sizes run))]"

definition batching_tables :: "benchmark_run list \<Rightarrow> string list" where
  "batching_tables ordered =
     [''## Throughput measurements'', []] @
     lines_for
       [''| Mode | Concurrency | requests/s p50 | tokens/s |'',
      ''|------|-------------|----------------|----------|'']
       batching_throughput_row ordered @
     [''## Latency measurements (ms)'', []] @
     lines_for
       [''| Mode | Concurrency | E2E p50 | p95 | p99 | TTFT p50 | p95 | p99 | ITL p50 | p95 |'',
      ''|------|-------------|---------|-----|-----|----------|-----|-----|---------|-----|'']
       batching_latency_row (summarized ordered) @
     [''## Queue impact'', []] @
     lines_for
       [''| Mode | Concurrency | queue_wait p50 (ms) | scheduling_delay p50 (ms) | request_age p50 (ms) | queue_depth at schedule |'',
      ''|------|-------------|---------------------|---------------------------|----------------------|-------------------------|'']
       batching_queue_row ordered @
     [''## GPU utilization comparison'', []] @
     lines_for
       [''| Mode | Concurrency | GPU util p50 % | GPU mem p50 (bytes) | KV occupancy p50 | active sequences p50 |'',
      ''|------|-------------|----------------|---------------------|------------------|----------------------|'']
       batching_gpu_row ordered @
     [''## Batch dispatch observations'', []] @
     lines_for
       [''| Mode | Concurrency | batch members at dispatch (per request) |'',
      ''|------|-------------|----------------------------------------|'']
       batching_dispatch_row ordered"

definition batching_ids :: "benchmark_run list \<Rightarrow> string list" where
  "batching_ids runs =
     [''## Run identifiers'', []] @
     map (\<lambda>r. ''- '' @ tick (show_name (run_batching_mode r)) @ '' / '' @
                tick (sc_scenario_id (run_scenario r)) @ '': '' @ tick (run_run_id r)) runs @ [[]]"

definition batching_limits :: "string list" where
  "batching_limits =
     [''## Limitations'',
      [],
      ''- Mock backend; measurements reflect scheduler and platform path behavior'',
      ''- All requests enqueued before first scheduling cycle; not a staggered arrival model'',
      ''- Static mode requires min_dispatch_members instrumentation on BatchDispatchService'',
      ''- GPU metrics depend on host probe availability'',
      ''- No universal throughput or latency conclusions drawn in this report'',
      []]"

definition batching_report ::
  "datetime \<Rightarrow> (string, string) dict option \<Rightarrow> benchmark_run list \<Rightarrow> report_exn + string" where
  "batching_report now file runs =
     (if runs = [] then Inl (RE_ValueError ''no benchmark runs supplied'')
      else Inr (render
        (batching_head now file @ batching_environment (run_environment (hd runs)) @
         batching_tables (by_mode runs) @ batching_ids runs @ batching_limits)))"

section \<open>Scheduling policies (policy_report.py)\<close>

definition by_policy :: "benchmark_run list \<Rightarrow> benchmark_run list" where
  "by_policy runs = sort_key (\<lambda>r. (str_or (run_scheduler_policy r) [], concurrency r)) runs"

definition policy_head :: "datetime \<Rightarrow> string list" where
  "policy_head now =
     [''# Scheduler Policy Analysis'',
      [],
      ''**Status:** Measured (Session 26)  '', ''**Generated:** '' @ isoformat now @ ''  '',
      [],
      ''Observed measurements only. Policy ordering changed; batching and backend held constant.'',
      [],
      ''## Methodology'',
      [],
      ''Fixed runtime configuration across all policies:'',
      [],
      ''| Parameter | Value |'',
      ''|-----------|-------|'',
      ''| batching | continuous (`max_batch_size=4`, `admission_window_ms=50`) |'',
      ''| backend | mock |'',
      ''| model | demo |'',
      ''| workload | alternating short (`max_tokens=32`) and long (`max_tokens=256`) |'',
      ''| priority | cycles DEFAULT / BACKGROUND / ELEVATED per request index |'',
      [],
      ''Policies compared:'',
      [],
      ''| Policy | Selection rule |'',
      ''|--------|----------------|''] @
     map (\<lambda>p. row [tick (po_policy_id p), po_description p]) (dict_values scheduler_policies) @
     [[],
      ''Execution flow:'',
      [],
      ''1. Enqueue all requests before scheduling'',
      ''2. Interleave scheduler cycles and request completion'',
      ''3. Collect per-request latency, TTFT, ITL, queue wait, scheduling delay'',
      [],
      ''Concurrency levels: 4, 8. Profile id: '' @ tick (wp_profile_id mixed_job_sizes_profile) @ ''.'',
      [],
      ''## Environment'',
      []]"

definition policy_cells :: "benchmark_run \<Rightarrow> string list" where
  "policy_cells run = [tick (show_name (run_scheduler_policy run)), show_int (concurrency run)]"

definition failures_of :: "benchmark_run \<Rightarrow> nat" where
  "failures_of run = (case run_summary run of None \<Rightarrow> 0 | Some s \<Rightarrow> su_failed_requests s)"

definition policy_throughput_row :: "benchmark_run \<Rightarrow> string list" where
  "policy_throughput_row run =
     policy_cells run @
     [fmt 3 (summary_of su_throughput_rps run), fmt 3 (summary_of su_tokens_per_second run),
      show_nat (failures_of run)]"

definition policy_latency_row :: "benchmark_run \<Rightarrow> string list" where
  "policy_latency_row run =
     policy_cells run @
     map (\<lambda>f. fmt 3 (summary_of f run))
       [su_latency_ms_p50, su_latency_ms_p95, su_latency_ms_p99, su_ttft_ms_p50, su_itl_ms_p50,
        su_queue_wait_ms_p50]"

definition scheduling_delays :: "benchmark_run \<Rightarrow> rat list" where
  "scheduling_delays run = List.map_filter bn_scheduling_delay_ms (run_results run)"

definition long_job_delay :: "benchmark_run \<Rightarrow> extra_value" where
  "long_job_delay run = runtime_get run ''max_long_job_scheduling_delay_ms''"

definition policy_delay_row :: "benchmark_run \<Rightarrow> string list" where
  "policy_delay_row run =
     policy_cells run @
     [fmt 3 (percentile (scheduling_delays run) 50), fmt 3 (percentile (scheduling_delays run) 95),
      fmt 3 (greatest (scheduling_delays run)), fmt_value 3 (long_job_delay run),
      fmt_value 3 (runtime_get run ''max_queue_wait_ms'')]"

definition policy_tables :: "benchmark_run list \<Rightarrow> string list" where
  "policy_tables ordered =
     [''## Throughput'', []] @
     lines_for
       [''| Policy | Concurrency | requests/s | tokens/s | failures |'',
      ''|--------|-------------|------------|----------|----------|'']
       policy_throughput_row ordered @
     [''## Latency (ms)'', []] @
     lines_for
       [''| Policy | Concurrency | E2E p50 | p95 | p99 | TTFT p50 | ITL p50 | queue_wait p50 |'',
      ''|--------|-------------|---------|-----|-----|----------|---------|----------------|'']
       policy_latency_row ordered @
     [''## Scheduling delay and starvation indicators'', []] @
     lines_for
       [''| Policy | Concurrency | sched_delay p50 | p95 | max | max long-job delay | max queue wait |'',
      ''|--------|-------------|-----------------|-----|-----|--------------------|----------------|'']
       policy_delay_row ordered"

text \<open>
  \<open>max\<close> and \<open>min\<close> with a key keep the first of the best runs. A missing number and zero are both
  \<open>inf\<close> (here \<open>None\<close>) to the two minima, and both zero to the maximum.
\<close>

definition first_best :: "('a \<Rightarrow> 'a \<Rightarrow> bool) \<Rightarrow> 'a list \<Rightarrow> 'a" where
  "first_best better xs = fold (\<lambda>x best. if better x best then x else best) (tl xs) (hd xs)"

definition throughput_key :: "benchmark_run \<Rightarrow> rat" where
  "throughput_key run = (case summary_of su_throughput_rps run of None \<Rightarrow> 0 | Some x \<Rightarrow> x)"

definition or_inf :: "rat option \<Rightarrow> rat option" where
  "or_inf v = (if v = Some 0 then None else v)"

fun below :: "rat option \<Rightarrow> rat option \<Rightarrow> bool" where
  "below None y = False"
| "below (Some x) None = True"
| "below (Some x) (Some y) = (x < y)"

definition latency_key :: "benchmark_run \<Rightarrow> rat option" where
  "latency_key run = or_inf (summary_of su_latency_ms_p50 run)"

definition delay_key :: "benchmark_run \<Rightarrow> rat option" where
  "delay_key run = or_inf (number_of (long_job_delay run))"

definition best_throughput :: "benchmark_run list \<Rightarrow> benchmark_run" where
  "best_throughput runs = first_best (\<lambda>r best. throughput_key best < throughput_key r) runs"

definition best_latency :: "benchmark_run list \<Rightarrow> benchmark_run" where
  "best_latency runs = first_best (\<lambda>r best. below (latency_key r) (latency_key best)) runs"

definition lowest_long_delay :: "benchmark_run list \<Rightarrow> benchmark_run" where
  "lowest_long_delay runs = first_best (\<lambda>r best. below (delay_key r) (delay_key best)) runs"

definition observed :: "string \<Rightarrow> benchmark_run \<Rightarrow> string \<Rightarrow> string \<Rightarrow> string" where
  "observed what run amount unit =
     ''- '' @ what @ '' observed: '' @ tick (show_name (run_scheduler_policy run)) @ '' at concurrency '' @
     show_int (concurrency run) @ '' ('' @ amount @ '' '' @ unit @ '').''"

definition policy_tradeoffs :: "benchmark_run list \<Rightarrow> string list" where
  "policy_tradeoffs runs =
     [''## Observed tradeoffs'', [],
      observed ''Highest throughput'' (best_throughput runs)
        (fmt 3 (summary_of su_throughput_rps (best_throughput runs))) ''requests/s'',
      observed ''Lowest E2E p50 latency'' (best_latency runs)
        (fmt 3 (summary_of su_latency_ms_p50 (best_latency runs))) ''ms'',
      observed ''Lowest max long-job scheduling delay'' (lowest_long_delay runs)
        (fmt_value 3 (long_job_delay (lowest_long_delay runs))) ''ms'',
      [],
      ''## Limitations'',
      [],
      ''- Measurements use mock backend; job-size heuristics do not change mock execution time'',
      ''- All requests enqueued before scheduling; queue_wait spread is limited'',
      ''- Fairness policy state resets per benchmark stack instance'',
      ''- No vLLM or GPU-backed policy runs in this session'',
      ''- Tradeoff bullets are descriptive comparisons of measured runs, not causal claims'',
      []]"

text \<open>A delay that is neither a number nor false cannot be compared with another (\<open>TypeError\<close>).\<close>

definition delays_comparable :: "benchmark_run list \<Rightarrow> bool" where
  "delays_comparable runs \<longleftrightarrow>
     length runs \<le> 1 \<or>
     list_all (\<lambda>r. truthy_value (long_job_delay r) \<longrightarrow> comparable (long_job_delay r)) runs"

definition policy_report :: "datetime \<Rightarrow> benchmark_run list \<Rightarrow> report_exn + string" where
  "policy_report now runs =
     (if runs = [] then Inl (RE_ValueError ''no benchmark runs supplied'')
      else if \<not> delays_comparable runs then Inl RE_TypeError
      else Inr (render
        (policy_head now @ batching_environment (run_environment (hd runs)) @
         policy_tables (by_policy runs) @ policy_tradeoffs runs)))"

section \<open>Scaling (scaling_report.py)\<close>

definition by_level :: "benchmark_run list \<Rightarrow> benchmark_run list" where
  "by_level runs = sort_key concurrency runs"

definition scaling_head :: "datetime \<Rightarrow> benchmark_run list \<Rightarrow> string list" where
  "scaling_head now ordered =
     [''# Concurrency Scaling Analysis'',
      [],
      ''**Status:** Measured (Session 25)  '', ''**Generated:** '' @ isoformat now @ ''  '',
      [],
      ''Observed measurements only. No optimization recommendations.'',
      [],
      ''## Methodology'',
      [],
      ''- Workload: `streaming` profile'',
      ''- Batching: continuous (`max_batch_size=4`, short admission window)'',
      ''- Concurrency levels tested: '' @ join '', '' (map (\<lambda>r. show_int (concurrency r)) ordered),
      ''- All requests enqueued before scheduling; schedule/complete interleaved'',
      ''- Telemetry sampled before, during, and after request completion'',
      [],
      ''## Environment'',
      []]"

definition scaling_environment :: "benchmark_environment option \<Rightarrow> string list" where
  "scaling_environment env =
     (case env of
        None \<Rightarrow> []
      | Some e \<Rightarrow>
          lines_for [''| Field | Value |'', ''|-------|-------|''] (\<lambda>(k, v). [k, v])
            [(''OS'', be_os e), (''Python'', be_python_version e), (''GPU source'', be_gpu_source e),
             (''Model'', be_model_name e), (''Backend'', be_backend_id e)])"

definition scaling_latency_row :: "benchmark_run \<Rightarrow> string list" where
  "scaling_latency_row run =
     [show_int (concurrency run)] @
     map (\<lambda>f. fmt 3 (summary_of f run))
       [su_throughput_rps, su_tokens_per_second, su_latency_ms_p50, su_latency_ms_p95, su_latency_ms_p99,
        su_ttft_ms_p50, su_itl_ms_p50] @
     [case run_summary run of None \<Rightarrow> ''n/a'' | Some s \<Rightarrow> show_nat (su_failed_requests s)]"

definition scaling_queue_row :: "benchmark_run \<Rightarrow> string list" where
  "scaling_queue_row run =
     [show_int (concurrency run), fmt_value 0 (runtime_get run ''peak_queue_depth''),
      fmt 3 (summary_of su_queue_wait_ms_p50 run), fmt 3 (scheduling_delay_median run),
      fmt_value 0 (runtime_get run ''scheduler_total_cycles''),
      fmt_value 3 (runtime_get run ''scheduler_cycle_duration_ms_p50'')]"

definition scaling_gpu_row :: "benchmark_run \<Rightarrow> string list" where
  "scaling_gpu_row run =
     [show_int (concurrency run), fmt_value 3 (runtime_get run ''peak_gpu_utilization_percent''),
      fmt_value 0 (runtime_get run ''peak_gpu_memory_used_bytes''),
      fmt_value 3 (runtime_get run ''peak_kv_cache_occupancy_ratio''),
      fmt_value 0 (runtime_get run ''peak_active_sequences''),
      fmt_value 0 (runtime_get run ''kv_cache_pressure_events'')]"

definition evidence_text :: "string list \<Rightarrow> string" where
  "evidence_text es =
     join ''; '' (take 3 es) @
     (if 3 < length es then '' (+'' @ show_nat (length es - 3) @ '' more)'' else [])"

definition scaling_bottleneck_row :: "benchmark_run \<Rightarrow> string list" where
  "scaling_bottleneck_row run =
     (case run_bottleneck run of
        None \<Rightarrow> [show_int (concurrency run), ''n/a'', ''n/a'']
      | Some b \<Rightarrow> [show_int (concurrency run), tick (ba_primary_bottleneck b), evidence_text (ba_evidence b)])"

definition scaling_tables :: "benchmark_run list \<Rightarrow> string list" where
  "scaling_tables ordered =
     [''## Throughput and latency'', []] @
     lines_for
       [''| Concurrency | requests/s | tokens/s | E2E p50 (ms) | p95 (ms) | p99 (ms) | TTFT p50 (ms) | ITL p50 (ms) | failures |'',
      ''|-------------|------------|----------|--------------|----------|----------|---------------|--------------|----------|'']
       scaling_latency_row ordered @
     [''## Queue and scheduler'', []] @
     lines_for
       [''| Concurrency | peak queue depth | queue_wait p50 (ms) | scheduling_delay p50 (ms) | scheduler cycles | cycle duration avg (ms) |'',
      ''|-------------|------------------|---------------------|---------------------------|------------------|-------------------------|'']
       scaling_queue_row ordered @
     [''## GPU and KV cache'', []] @
     lines_for
       [''| Concurrency | peak GPU util % | peak GPU mem (bytes) | peak KV occupancy | peak active sequences | KV pressure events |'',
      ''|-------------|-----------------|----------------------|-------------------|-----------------------|--------------------|'']
       scaling_gpu_row ordered @
     [''## Bottleneck analysis'', []] @
     lines_for
       [''| Concurrency | primary bottleneck | evidence |'',
      ''|-------------|-------------------|----------|'']
       scaling_bottleneck_row ordered"

text \<open>
  The first level that failed is looked for only when the highest level that succeeded is not the
  highest level of all.
\<close>

definition failing_level :: "benchmark_run list \<Rightarrow> benchmark_run option" where
  "failing_level ordered =
     (case max_sustainable_concurrency ordered of
        None \<Rightarrow> None
      | Some c \<Rightarrow>
          if c < concurrency (last ordered) then List.find (\<lambda>r. 0 < failures_of r) ordered else None)"

definition scaling_capacity :: "benchmark_run list \<Rightarrow> string list" where
  "scaling_capacity ordered =
     [''## Capacity observations'', [],
      ''- Max sustainable concurrency (zero failures): '' @
        (case max_sustainable_concurrency ordered of None \<Rightarrow> ''none observed'' | Some c \<Rightarrow> show_int c),
      []] @
     (case failing_level ordered of
        None \<Rightarrow> []
      | Some r \<Rightarrow>
          [''- First concurrency level with failures: '' @ show_int (concurrency r) @ '' ('' @
             show_nat (failures_of r) @ '' failures)'', []])"

definition scaling_ids :: "benchmark_run list \<Rightarrow> string list" where
  "scaling_ids ordered =
     [''## Run identifiers'', []] @
     map (\<lambda>r. ''- concurrency '' @ show_int (concurrency r) @ '': '' @ tick (run_run_id r)) ordered @ [[]]"

definition scaling_limits :: "string list" where
  "scaling_limits =
     [''## Limitations'',
      [],
      ''- Mock backend; not GPU inference capacity'',
      ''- Bursty admission model'',
      ''- GPU probe may return fallback zeros'',
      ''- Bottleneck classification uses configured thresholds on measured signals only'',
      []]"

definition scaling_report :: "datetime \<Rightarrow> benchmark_run list \<Rightarrow> report_exn + string" where
  "scaling_report now runs =
     (let ordered = by_level runs in
      if runs = [] then Inl (RE_ValueError ''no scaling runs supplied'')
      else Inr (render
        (scaling_head now ordered @ scaling_environment (run_environment (hd ordered)) @
         scaling_tables ordered @ scaling_capacity ordered @ scaling_ids ordered @ scaling_limits)))"

section \<open>What the reports say\<close>

text \<open>A report is refused exactly when there are no runs, or delays that cannot be compared.\<close>

theorem report_refused:
  "baseline_report now file runs = Inl e \<longleftrightarrow> runs = [] \<and> e = RE_ValueError ''no benchmark runs supplied''"
  "batching_report now file runs = Inl e \<longleftrightarrow> runs = [] \<and> e = RE_ValueError ''no benchmark runs supplied''"
  "policy_report now runs = Inl e \<longleftrightarrow>
     (if runs = [] then e = RE_ValueError ''no benchmark runs supplied''
      else \<not> delays_comparable runs \<and> e = RE_TypeError)"
  "scaling_report now runs = Inl e \<longleftrightarrow> runs = [] \<and> e = RE_ValueError ''no scaling runs supplied''"
  by (auto simp only: baseline_report_def batching_report_def policy_report_def scaling_report_def Let_def
      sum.simps if_True if_False split: if_splits)

text \<open>The starvation indicators of a policy run can be compared.\<close>

lemma starvation_comparable:
  assumes "\<forall>r \<in> set runs. runtime_get r ''max_long_job_scheduling_delay_ms'' = opt_num (d r)"
  shows "delays_comparable runs"
proof -
  have "comparable (opt_num x)" for x by (cases x) (simp_all add: opt_num_def comparable_def)
  with assms show ?thesis
    by (simp add: delays_comparable_def long_job_delay_def list_all_iff)
qed

text \<open>The first of the best: no other is better.\<close>

lemma fold_best:
  assumes asym: "\<And>x y. better x y \<Longrightarrow> \<not> better y x"
    and negtrans: "\<And>x y z. better x z \<Longrightarrow> better x y \<or> better y z"
  shows "fold (\<lambda>x best. if better x best then x else best) xs b \<in> set (b # xs) \<and>
    (\<forall>x \<in> set (b # xs). \<not> better x (fold (\<lambda>x best. if better x best then x else best) xs b))"
proof (induction xs arbitrary: b)
  case Nil
  then show ?case using asym by auto
next
  case (Cons x xs)
  define c where "c = (if better x b then x else b)"
  define m where "m = fold (\<lambda>x best. if better x best then x else best) xs c"
  have m: "m \<in> set (c # xs)" "\<forall>y \<in> set (c # xs). \<not> better y m"
    using Cons.IH [of c] by (simp_all add: m_def)
  have "\<not> better b m \<and> \<not> better x m"
  proof (cases "better x b")
    case True
    then have "\<not> better x m" using m(2) by (simp add: c_def)
    then show ?thesis using negtrans [of b m x] asym [OF True] by blast
  next
    case False
    then have "\<not> better b m" using m(2) by (simp add: c_def)
    then show ?thesis using negtrans [of x m b] False by blast
  qed
  moreover have "m \<in> set (b # x # xs)" using m(1) by (auto simp: c_def split: if_splits)
  moreover have "fold (\<lambda>x best. if better x best then x else best) (x # xs) b = m"
    by (simp add: m_def c_def)
  ultimately show ?case using m(2) by simp
qed

lemma first_best_best:
  assumes "xs \<noteq> []" and "\<And>x y. better x y \<Longrightarrow> \<not> better y x"
    and "\<And>x y z. better x z \<Longrightarrow> better x y \<or> better y z"
  shows "first_best better xs \<in> set xs" and "x \<in> set xs \<Longrightarrow> \<not> better x (first_best better xs)"
  using fold_best [of better "tl xs" "hd xs"] assms by (auto simp: first_best_def)

lemma below_asym: "below x y \<Longrightarrow> \<not> below y x"
  by (cases x; cases y) auto

lemma below_negtrans: "below x z \<Longrightarrow> below x y \<or> below y z"
  by (cases x; cases y; cases z) auto

theorem throughput_is_highest:
  assumes "r \<in> set runs"
  shows "best_throughput runs \<in> set runs \<and> throughput_key r \<le> throughput_key (best_throughput runs)"
proof -
  have ne: "runs \<noteq> []" using assms by auto
  have "\<not> throughput_key (best_throughput runs) < throughput_key r"
    using first_best_best(2) [OF ne, of "\<lambda>r best. throughput_key best < throughput_key r" r] assms
    by (simp add: best_throughput_def) force
  moreover have "best_throughput runs \<in> set runs"
    using first_best_best(1) [OF ne, of "\<lambda>r best. throughput_key best < throughput_key r"]
    by (simp add: best_throughput_def) force
  ultimately show ?thesis by simp
qed

lemma least_by_key:
  assumes "r \<in> set runs"
  shows "first_best (\<lambda>r best. below (k r) (k best)) runs \<in> set runs \<and>
    \<not> below (k r) (k (first_best (\<lambda>r best. below (k r) (k best)) runs))"
proof -
  have ne: "runs \<noteq> []" using assms by auto
  show ?thesis
  proof (rule conjI)
    show "first_best (\<lambda>r best. below (k r) (k best)) runs \<in> set runs"
      by (rule first_best_best(1) [OF ne]) (erule below_asym, erule below_negtrans)
    show "\<not> below (k r) (k (first_best (\<lambda>r best. below (k r) (k best)) runs))"
      by (rule first_best_best(2) [OF ne _ _ assms]) (erule below_asym, erule below_negtrans)
  qed
qed

lemma least_or_inf:
  assumes "r \<in> set runs" and "v r = Some x" and "x \<noteq> 0"
    and b: "b = first_best (\<lambda>r best. below (or_inf (v r)) (or_inf (v best))) runs"
  shows "b \<in> set runs \<and> (\<exists>y. v b = Some y \<and> y \<noteq> 0 \<and> y \<le> x)"
proof -
  have "b \<in> set runs" and "\<not> below (or_inf (v r)) (or_inf (v b))"
    using least_by_key [OF assms(1), of "\<lambda>r. or_inf (v r)"] unfolding b by blast+
  with assms(2,3) show ?thesis
    by (cases "v b") (auto simp: or_inf_def split: if_splits)
qed

theorem latency_is_lowest:
  assumes "r \<in> set runs" and "summary_of su_latency_ms_p50 r = Some x" and "x \<noteq> 0"
  shows "best_latency runs \<in> set runs \<and>
    (\<exists>y. summary_of su_latency_ms_p50 (best_latency runs) = Some y \<and> y \<noteq> 0 \<and> y \<le> x)"
  by (rule least_or_inf [where v = "summary_of su_latency_ms_p50", OF assms])
    (simp only: best_latency_def latency_key_def)

text \<open>
  A long job that never waited is no candidate for the lowest delay: as soon as one run has a delay
  that is not zero, the report names a run whose delay is not zero.
\<close>

theorem zero_delay_not_lowest:
  assumes "q \<in> set runs" and "number_of (long_job_delay q) = Some x" and "x \<noteq> 0"
  shows "\<exists>y. number_of (long_job_delay (lowest_long_delay runs)) = Some y \<and> y \<noteq> 0 \<and> y \<le> x"
  using least_or_inf [where v = "\<lambda>r. number_of (long_job_delay r)", OF assms, of "lowest_long_delay runs"]
  by (simp only: lowest_long_delay_def delay_key_def)

text \<open>The levels of a scaling report are in order, and each run is there once.\<close>

lemma by_level_sorted: "sorted (map concurrency (by_level runs))" "mset (by_level runs) = mset runs"
  by (simp_all add: by_level_def)

text \<open>The level that is named failed, and no lower one did.\<close>

theorem failing_level_is_least:
  assumes "failing_level (by_level runs) = Some r"
  shows "r \<in> set runs \<and> 0 < failures_of r \<and>
    (\<forall>q \<in> set runs. 0 < failures_of q \<longrightarrow> concurrency r \<le> concurrency q)"
proof -
  have find: "List.find (\<lambda>r. 0 < failures_of r) (by_level runs) = Some r"
    using assms by (auto simp: failing_level_def split: option.splits if_splits)
  then obtain i where i: "i < length (by_level runs)" "r = by_level runs ! i" "0 < failures_of r"
      and first: "\<forall>j < i. failures_of (by_level runs ! j) = 0"
    by (auto simp: find_Some_iff)
  have "concurrency r \<le> concurrency q" if q: "q \<in> set runs" "0 < failures_of q" for q
  proof -
    from q(1) obtain j where j: "j < length (by_level runs)" "q = by_level runs ! j"
      by (metis by_level_def in_set_conv_nth set_sort)
    with first q(2) have "i \<le> j" by (metis not_less less_irrefl)
    with i j show ?thesis
      using sorted_nth_mono [OF by_level_sorted(1), of i j runs] by simp
  qed
  moreover have "r \<in> set runs" using i by (metis by_level_def nth_mem set_sort)
  ultimately show ?thesis using i(3) by simp
qed

text \<open>When the highest level succeeded, no failure is reported, whatever happened below it.\<close>

theorem lower_failures_hidden:
  assumes "runs \<noteq> []" and "run_summary (last (by_level runs)) = Some s" and "su_failed_requests s = 0"
  shows "failing_level (by_level runs) = None"
proof -
  have ne: "by_level runs \<noteq> []" using assms(1) by (metis by_level_sorted(2) mset_zero_iff)
  define ok where "ok = List.map_filter
    (\<lambda>r. case run_summary r of
           None \<Rightarrow> None
         | Some s \<Rightarrow> if su_failed_requests s = 0 then Some (sc_concurrency (run_scenario r)) else None)
    (by_level runs)"
  have mem: "concurrency (last (by_level runs)) \<in> set ok"
    using last_in_set [OF ne] assms(2,3)
    by (force simp: ok_def List.map_filter_def concurrency_def)
  then have "max_sustainable_concurrency (by_level runs) = Some (Max (set ok))"
    unfolding max_sustainable_concurrency_def ok_def [symmetric] Let_def by (simp split: if_splits) auto
  moreover have "concurrency (last (by_level runs)) \<le> Max (set ok)" using mem by simp
  ultimately show ?thesis by (simp add: failing_level_def)
qed

end
