(* ===== verification/Spec2Isabelle.thy ===== *)
theory Spec2Isabelle
  imports Control_Plane_Properties Queue_Loss Policy_Properties Platform Replay_Properties
    Row_Codecs Row_Properties Stream_Completion Gateway_Properties Gpu_Properties Platform_Properties
    Benchmark_Run_Properties Scheduler_Loop Gateway_Process_Properties Telemetry Shared_Contracts
    Benchmark_Charts Benchmark_Reports
begin

text \<open>
  A model of the GPU inference platform: the control plane, the scheduler, the inference adapter
  and the path of a request through them.

  The program. A request enters the gateway (\<open>services/api-gateway\<close>), which hands it to the
  control plane (\<open>services/control-plane\<close>): a registry of requests, admission, the life cycle
  of a request and the waiting queue. The scheduler (\<open>services/scheduler\<close>) reads the queue,
  lets a policy select requests, places them in batches and dispatches the batches to backends
  of the adapter (\<open>services/inference-adapter\<close>) that the routing engine chooses. Every part
  reports to shared observers (\<open>packages/observability\<close>): a trace store and metrics.

  The theories, in the order of their imports.

  \<^item> Prelude: fallible operations on a state, dictionaries in insertion order, stores of shared
    objects, dates as microseconds and exact rationals for floats, and the locales of the
    interfaces (keyed stores, state machines, bounded queues).
  \<^item> Schemas, Failures, Metrics, Trace\_Store: the shared data types (\<open>common_schemas\<close>), the
    failure injection and the failure classification, the metrics recorder with the catalogue of
    declared metrics, the trace store with its event recorder.
  \<^item> Request\_Registry, Admission, Lifecycle\_Events, Waiting\_Queue, Queue\_Service, Lifecycle:
    the parts of the control plane; every operation takes what it reads from clocks as an
    argument. Control\_Plane and Control\_Plane\_Properties: its step relation, the invariant and
    the properties. Queue\_Loss: what becomes of a request whose item a read of the queue drops,
    over every run of operations that do not name it.
  \<^item> Batch\_Model, Batch\_Engine, Batch\_Invariants, Batch\_Properties: the continuous batching
    engine, its invariant and what its operations do.
  \<^item> Policies, Policy\_Properties: the four scheduling policies and what they select.
  \<^item> Scheduler\_Cycle: one scheduling cycle over the queue, the policy and the engine. Scheduler\_Loop:
    the tick loop as a step relation over its task, the threads of its cycles and the lock they share,
    the start and the stop of the process. An exception that left a cycle would end the task; that no
    cycle raises, that at most one thread is inside a cycle and that the loop always gets back to
    waiting, within six steps of the threads, is proved; a stop does not wait for a cycle.
  \<^item> Routing, Routing\_Properties: the model registry and the routing engine.
  \<^item> Backends, Adapter: the mock and the vLLM backend, the backend registry and the application.
  \<^item> Dispatch, Dispatch\_Properties: the loop that submits batches, over any router and adapter,
    and then over the routing engine and the adapter of the stack; one backend that accepts, a mock or
    a vLLM server, is enough.
  \<^item> Platform: the orchestrator of a request, the errors and the clients of the gateway.
  \<^item> Streams, Stream\_Text, Stream\_Engine, Stream\_Properties, Stream\_Completion: sessions, timing and
    server-sent events down to their text, the streaming path and the stream engine; what a stream
    sends, how it ends, and what it leaves in the batches and with its request.
  \<^item> Gateway, Gateway\_Properties: request schemas, validation, the pipeline and the two routes; which
    requests are prepared, how the others are refused, which bodies end in an unhandled exception of
    \<open>json.loads\<close>, and what the chat route answers.
  \<^item> Gpu\_Metrics, Gpu\_Properties: probes, estimates, capacity and the collector with its events of
    crossed thresholds; every crossing is reported once.
  \<^item> Stack: the settings of the services, the applications built from them, the wiring of the embedded
    stack, its start and its stop. Op\_Rules, Registry\_Growth, Platform\_Invariant,
    Platform\_Properties: what every operation of the platform leaves true of its control plane and
    its batches, the states the whole platform reaches, and its registry, which nothing is taken out of.
  \<^item> Gateway\_Process, Gateway\_Process\_Properties: the globals of the gateway, its start and stop, the
    choice of the client and its queries, and the operational routes; when the process is ready, what
    its stop leaves and what a start that failed half way does.
  \<^item> Telemetry: log records and loggers, trace headers, the catalogue of metric names, spans as the calls
    made on them, and the trace provider that all managers of a process share.
  \<^item> Shared\_Contracts: terminal and failure states, the envelopes of responses, the scheduler's contract
    with its stub, and what a backend says of itself.
  \<^item> Benchmark\_Models, Benchmark\_Analysis, Benchmark\_Runner: the data of the benchmarks, the summary
    and the bottleneck of a run and the counters read back from the Prometheus text, the requests of
    a run over the stack and the loop that schedules and completes them. Benchmark\_Properties,
    Benchmark\_Run\_Properties: what the analysis says of the results, and that every request of a
    run has its result; the loop makes at most four rounds per request, as the code does.
  \<^item> Benchmark\_Charts, Benchmark\_Reports: the texts of the charts and of the four reports, that every
    point is inside its frame, which charts can be drawn, what is refused, and which runs a report
    names as the best, as the first that failed or not at all.
  \<^item> Codecs, Execution\_Records, Serialization, Persistence\_Models, Row\_Codecs: what is kept of an execution,
    how it is captured, compared and reconstructed, and the dictionaries it is written as; every
    pair of functions that write and read is an interpretation of the locale \<open>codec\<close>.
  \<^item> Repository: the tables of the SQLite database, their statements and transactions. Writing a record
    is a list of steps over a database that may fail at any of them (\<open>persist_record_on\<close>), with the
    rollback and the exception raised again; \<open>persist_execution_record\<close> is the write on a database
    whose statements go through.
  \<^item> Replay: the execution stores, the replay engine and its debugging interface.
    Persistence\_Properties: what one write does to the tables, that it is all or nothing, and what a
    restart finds in them;
    Row\_Properties: what the tables answer after it; Replay\_Properties: comparison, payloads that
    replay as what they were taken from, and the result of every replay.

  State. Records have the fields of the classes. A request entry is shared between the registry
  and the queue: it is an object in a store and both hold its reference. Dictionaries are
  association lists with distinct keys in insertion order. Exceptions are the left summand of
  an operation's result; the state an operation had written when it raised is kept.

  What is abstracted. Floats are rationals. Dates are integers (microseconds), and the answers
  of \<open>datetime.now\<close>, \<open>uuid4\<close> and of the remote vLLM server are arguments of the operations
  that read them. So are the functions of pydantic (\<open>validators\<close>). A table of the database is the
  list of its rows, a row a dictionary of cells. Log lines and spans change no state. Each
  component has its own record of observers, while the embedded stack shares one. The classes of
  \<open>scheduler.models\<close> are imported by the code but have no source in the repository; their
  records have the fields the code gives them.

  Loops. The dispatch loop may run for ever over an arbitrary router, so it is a partial
  function; \<open>dispatch_at_most_once\<close> shows that it returns over the routing engine, since every
  round excludes one more registered backend. All other loops are structural.

  Faults of the database are modelled in the write of a record; every other statement of the
  repository, the store of the replay engine included, is one that goes through, and so is a rollback.

  Not modelled. The registration of routes and handlers with FastAPI, the entry points that start
  uvicorn or an event loop, and the parser of JSON bodies: a request enters as the value its schema
  accepts. The platform's steps are whole operations: a tick of the scheduler is the step \<open>ticked\<close>, so
  other requests run between operations, but a stream runs its chunks without them and a client that
  leaves a stream's generator unfinished is only seen as a disconnection; only Scheduler\_Loop takes a
  cycle apart. The key digest, NVML, the Prometheus and the tracing library and pydantic's validators
  beyond the constraints the schemas declare are arguments. The log lines and spans of the single
  operations: what a line and a span are is in Telemetry, but an operation's model does not write
  them. The files the benchmarks read and write,
  the suites that loop over scenario files, and the validation scripts, whose assertions run the
  platform and change nothing of their own.
\<close>

end
